(* ===== verification/Prelude.thy ===== *)
theory Prelude
  imports Main "HOL-Library.Char_ord" "HOL-Library.List_Lexorder"
begin

text \<open>
  The vocabulary every component shares: Python exceptions as values of the type
  \<open>exn\<close>, computations that may raise as \<open>exn + 'a\<close>, and the operations of
  \<^verbatim>\<open>str\<close>, \<^verbatim>\<open>list\<close> and \<^verbatim>\<open>dict\<close> the sources use (strip, join, str, substring
  test, \<^verbatim>\<open>dict.fromkeys\<close>, anchored identifier patterns), with the facts the component
  proofs rely on.

  A Python \<^verbatim>\<open>str\<close> is a list of code points below 256 (type \<open>string\<close>), so
  \<open>length\<close>, comparison and membership mean what they mean in Python.
\<close>

named_theorems monad_simps \<open>facts about computations that may raise\<close>
named_theorems text_simps \<open>facts about Python strings\<close>

section \<open>Exceptions as values\<close>

text \<open>
  One constructor per exception class that the modelled code raises; the argument is the
  message, or the reason codes the exception carries.
\<close>

datatype exn =
    ValueError string
  | KeyError string
  | TypeError
  | AttributeError
  | StopIteration
  | InvalidOperation
  | OverflowError
  | RuntimeError string
  | IntegrityError
  | AuthorizationDenied string
  | ContractValidationError
  | DecisionFileSemanticError "string list"
  | TransitionRejected "string list"
  | IntakeTransitionRejected string
  | ConfirmationRejected string
  | CompilationRejected string
  | InvalidJobTransition string
  | JobConflict string
  | LeaseRejected string
  | RetryableJobError string
  | NonRetryableJobError string
  | LifecycleConflict string
  | LifecycleTransitionConflict string
  | LegalHoldActive string
  | ResearchTransitionRejected string
  | ResearchExecutionCancelled
  | UrlPolicyRejected string
  | EvidenceNormalizationRejected string
  | EgressRejected string
  | ProviderCircuitOpen string
  | DecisionEvidenceHandoffRejected string
  | IdempotencyConflict string
  | BrowserOidcError string
  | AuthenticationFailed string
  | JwksResolutionError string
  | MfaRequired
  | McpApplicationError string "string option"
  | ExportRejected string
  | ExportValidationError string
  | EventVersionError string
  | ApiError int string "string list"

type_synonym 'a result = "exn + 'a"

fun bind_result :: "'e + 'a \<Rightarrow> ('a \<Rightarrow> 'e + 'b) \<Rightarrow> 'e + 'b" where
  "bind_result (Inl e) f = Inl e"
| "bind_result (Inr x) f = f x"

definition ensure :: "bool \<Rightarrow> 'e \<Rightarrow> 'e + unit" where
  "ensure b e = (if b then Inr () else Inl e)"

fun traverse :: "('a \<Rightarrow> 'e + 'b) \<Rightarrow> 'a list \<Rightarrow> 'e + 'b list" where
  "traverse f [] = Inr []"
| "traverse f (x # xs) =
     bind_result (f x) (\<lambda>y. bind_result (traverse f xs) (\<lambda>ys. Inr (y # ys)))"

lemma bind_result_Inr_iff [monad_simps]:
  "bind_result m f = Inr y \<longleftrightarrow> (\<exists>x. m = Inr x \<and> f x = Inr y)"
  by (cases m) auto

lemma bind_result_Inl_iff [monad_simps]:
  "bind_result m f = Inl e \<longleftrightarrow> m = Inl e \<or> (\<exists>x. m = Inr x \<and> f x = Inl e)"
  by (cases m) auto

lemma ensure_Inr_iff [monad_simps]: "ensure b e = Inr u \<longleftrightarrow> b"
  by (simp add: ensure_def)

lemma ensure_Inl_iff [monad_simps]: "ensure b e = Inl e' \<longleftrightarrow> \<not> b \<and> e' = e"
  by (auto simp: ensure_def)

lemma case_option_Inr_iff [monad_simps]:
  "(case x of None \<Rightarrow> Inl e | Some a \<Rightarrow> f a) = Inr y \<longleftrightarrow> (\<exists>a. x = Some a \<and> f a = Inr y)"
  by (cases x) auto

lemma case_prod_Inr_iff [monad_simps]:
  "(case p of (a, b) \<Rightarrow> g a b) = Inr y \<longleftrightarrow> (\<exists>a b. p = (a, b) \<and> g a b = Inr y)"
  by (cases p) auto

lemma ensure_simps [simp]: "ensure True e = Inr ()" "ensure False e = Inl e"
  by (simp_all add: ensure_def)

lemma bind_result_assoc:
  "bind_result (bind_result m f) g = bind_result m (\<lambda>x. bind_result (f x) g)"
  by (cases m) simp_all

lemma traverse_Inr_map: "(\<And>x. x \<in> set xs \<Longrightarrow> f x = Inr (g x)) \<Longrightarrow> traverse f xs = Inr (map g xs)"
  by (induction xs) simp_all

lemma traverse_Inr_length: "traverse f xs = Inr ys \<Longrightarrow> length ys = length xs"
  by (induction xs arbitrary: ys) (auto simp: monad_simps)

section \<open>Computations with state\<close>

text \<open>
  A handler reads and writes state and may raise; what it wrote before it raised stays. The
  methods of a database transaction, whose writes are undone when they raise, are modelled
  by functions into \<open>'a result\<close> instead.
\<close>

type_synonym ('s, 'a) action = "'s \<Rightarrow> 'a result \<times> 's"

definition pure_action :: "'a \<Rightarrow> ('s, 'a) action" where
  "pure_action x s = (Inr x, s)"

definition raise_action :: "exn \<Rightarrow> ('s, 'a) action" where
  "raise_action e s = (Inl e, s)"

definition lift_result :: "'a result \<Rightarrow> ('s, 'a) action" where
  "lift_result r s = (r, s)"

definition read_state :: "('s \<Rightarrow> 'a) \<Rightarrow> ('s, 'a) action" where
  "read_state f s = (Inr (f s), s)"

definition bind_action :: "('s, 'a) action \<Rightarrow> ('a \<Rightarrow> ('s, 'b) action) \<Rightarrow> ('s, 'b) action" where
  "bind_action m f s = (case m s of (Inl e, s') \<Rightarrow> (Inl e, s') | (Inr x, s') \<Rightarrow> f x s')"

lemma action_simps [simp]:
  "pure_action x s = (Inr x, s)" "raise_action e s = (Inl e, s)"
  "lift_result r s = (r, s)" "read_state f s = (Inr (f s), s)"
  by (simp_all add: pure_action_def raise_action_def lift_result_def read_state_def)

lemma bind_action_Inr_iff [monad_simps]:
  "bind_action m f s = (Inr y, s') \<longleftrightarrow> (\<exists>x s1. m s = (Inr x, s1) \<and> f x s1 = (Inr y, s'))"
  by (auto simp: bind_action_def split: prod.splits sum.splits)

lemma bind_action_Inl_iff [monad_simps]:
  "bind_action m f s = (Inl e, s') \<longleftrightarrow>
     m s = (Inl e, s') \<or> (\<exists>x s1. m s = (Inr x, s1) \<and> f x s1 = (Inl e, s'))"
  by (auto simp: bind_action_def split: prod.splits sum.splits)

lemma bind_action_eval:
  "m s = (Inr x, s1) \<Longrightarrow> bind_action m f s = f x s1"
  "m s = (Inl e, s1) \<Longrightarrow> bind_action m f s = (Inl e, s1)"
  by (simp_all add: bind_action_def)

section \<open>Python strings\<close>

text \<open>\<^verbatim>\<open>str.isspace\<close> on the code points below 256.\<close>

definition py_isspace :: "char \<Rightarrow> bool" where
  "py_isspace c = (let n = (of_char c :: nat) in
     (9 \<le> n \<and> n \<le> 13) \<or> (28 \<le> n \<and> n \<le> 32) \<or> n = 133 \<or> n = 160)"

definition py_strip :: "string \<Rightarrow> string" where
  "py_strip s = rev (dropWhile py_isspace (rev (dropWhile py_isspace s)))"

fun py_startswith :: "string \<Rightarrow> string \<Rightarrow> bool" where
  "py_startswith s [] = True"
| "py_startswith [] (p # ps) = False"
| "py_startswith (c # s) (p # ps) = (c = p \<and> py_startswith s ps)"

text \<open>The substring test \<^verbatim>\<open>sub in s\<close>.\<close>

fun py_in :: "string \<Rightarrow> string \<Rightarrow> bool" where
  "py_in sub [] = (sub = [])"
| "py_in sub (c # s) = (py_startswith (c # s) sub \<or> py_in sub s)"

fun py_join :: "string \<Rightarrow> string list \<Rightarrow> string" where
  "py_join sep [] = []"
| "py_join sep [s] = s"
| "py_join sep (s # t # ts) = s @ sep @ py_join sep (t # ts)"

definition py_lower_char :: "char \<Rightarrow> char" where
  "py_lower_char c = (let n = (of_char c :: nat) in
     if (65 \<le> n \<and> n \<le> 90) \<or> (192 \<le> n \<and> n \<le> 222 \<and> n \<noteq> 215) then char_of (n + 32) else c)"

definition py_lower :: "string \<Rightarrow> string" where
  "py_lower s = map py_lower_char s"

text \<open>
  \<^verbatim>\<open>str.casefold\<close>: the sharp s becomes two letters. The micro sign, which Python maps
  to a code point above 255, is left as it is.
\<close>

definition casefold_char :: "char \<Rightarrow> string" where
  "casefold_char c = (if c = CHR 0xDF then ''ss'' else [py_lower_char c])"

definition py_casefold :: "string \<Rightarrow> string" where
  "py_casefold s = concat (map casefold_char s)"

text \<open>\<^verbatim>\<open>s.rstrip(".")\<close> and \<^verbatim>\<open>s.endswith(p)\<close>.\<close>

definition rstrip_dots :: "string \<Rightarrow> string" where
  "rstrip_dots s = rev (dropWhile (\<lambda>c. c = CHR ''.'') (rev s))"

definition py_endswith :: "string \<Rightarrow> string \<Rightarrow> bool" where
  "py_endswith s p = py_startswith (rev s) (rev p)"

definition digit_char :: "nat \<Rightarrow> char" where
  "digit_char d = char_of (48 + d)"

definition digit_val :: "char \<Rightarrow> nat" where
  "digit_val c = of_char c - 48"

definition is_digit :: "char \<Rightarrow> bool" where
  "is_digit c = (let n = (of_char c :: nat) in 48 \<le> n \<and> n \<le> 57)"

definition is_alnum :: "char \<Rightarrow> bool" where
  "is_alnum c = (let n = (of_char c :: nat) in
     (48 \<le> n \<and> n \<le> 57) \<or> (65 \<le> n \<and> n \<le> 90) \<or> (97 \<le> n \<and> n \<le> 122))"

text \<open>\<^verbatim>\<open>str(n)\<close> for a non-negative and for any integer.\<close>

fun str_nat :: "nat \<Rightarrow> string" where
  "str_nat n = (if n < 10 then [digit_char n] else str_nat (n div 10) @ [digit_char (n mod 10)])"

declare str_nat.simps [simp del]

definition str_int :: "int \<Rightarrow> string" where
  "str_int i = (if i < 0 then CHR ''-'' # str_nat (nat (- i)) else str_nat (nat i))"

definition nat_of_digits :: "string \<Rightarrow> nat" where
  "nat_of_digits s = foldl (\<lambda>a c. 10 * a + digit_val c) 0 s"

lemma digit_char_val [simp]: "d < 10 \<Longrightarrow> digit_val (digit_char d) = d"
  by (simp add: digit_char_def digit_val_def of_char_of)

lemma digit_char_is_digit [simp]: "d < 10 \<Longrightarrow> is_digit (digit_char d)"
  by (simp add: digit_char_def is_digit_def of_char_of Let_def)

lemma str_nat_digits: "list_all is_digit (str_nat n)"
proof (induction n rule: str_nat.induct)
  case (1 n)
  then show ?case by (subst str_nat.simps) auto
qed

lemma str_nat_nonempty [simp]: "str_nat n \<noteq> []"
  by (subst str_nat.simps) auto

lemma nat_of_digits_str_nat [simp]: "nat_of_digits (str_nat n) = n"
proof (induction n rule: str_nat.induct)
  case (1 n)
  show ?case
  proof (cases "n < 10")
    case True
    then show ?thesis by (subst str_nat.simps) (simp add: nat_of_digits_def)
  next
    case False
    with 1 have "nat_of_digits (str_nat (n div 10)) = n div 10" by simp
    with False show ?thesis
      by (subst str_nat.simps) (simp add: nat_of_digits_def)
  qed
qed

lemma str_nat_inj [simp]: "str_nat m = str_nat n \<longleftrightarrow> m = n"
  by (metis nat_of_digits_str_nat)

lemma minus_not_digit [simp]: "\<not> is_digit (CHR ''-'')"
  by (simp add: is_digit_def)

lemma str_nat_not_minus: "str_nat n \<noteq> CHR ''-'' # s"
  using str_nat_digits [of n] by (cases "str_nat n") auto

lemma str_int_inj [simp]: "str_int i = str_int j \<longleftrightarrow> i = j"
  by (auto simp: str_int_def str_nat_not_minus dest: str_nat_not_minus [THEN notE, OF sym])

lemma py_startswith_append: "py_startswith s p \<longleftrightarrow> (\<exists>t. s = p @ t)"
  by (induction s p rule: py_startswith.induct) auto

lemma py_in_iff [text_simps]: "py_in sub s \<longleftrightarrow> (\<exists>a b. s = a @ sub @ b)"
proof (induction s)
  case Nil
  then show ?case by simp
next
  case (Cons c s)
  have "(\<exists>a b. c # s = a @ sub @ b) \<longleftrightarrow> (\<exists>b. c # s = sub @ b) \<or> (\<exists>a b. s = a @ sub @ b)"
    by (metis append_Cons append_Nil list.exhaust list.inject)
  with Cons show ?case by (simp add: py_startswith_append)
qed

section \<open>Identifier patterns\<close>

text \<open>
  The patterns \<^verbatim>\<open>[A-Za-z0-9][A-Za-z0-9<extra>]{0,k}\<close> of the sources, matched against
  the whole string (\<^verbatim>\<open>re.fullmatch\<close>). JSON Schema's \<^verbatim>\<open>pattern\<close> is matched with
  \<^verbatim>\<open>re.search\<close>, where \<^verbatim>\<open>$\<close> also matches before one final newline.
\<close>

definition id_fullmatch :: "char list \<Rightarrow> nat \<Rightarrow> string \<Rightarrow> bool" where
  "id_fullmatch extra k s =
     (case s of [] \<Rightarrow> False
      | c # cs \<Rightarrow> is_alnum c \<and> length cs \<le> k \<and> list_all (\<lambda>d. is_alnum d \<or> d \<in> set extra) cs)"

definition id_search :: "char list \<Rightarrow> nat \<Rightarrow> string \<Rightarrow> bool" where
  "id_search extra k s =
     (id_fullmatch extra k s \<or>
      (s \<noteq> [] \<and> last s = CHR 0x0A \<and> id_fullmatch extra k (butlast s)))"

lemma id_fullmatch_bound: "id_fullmatch extra k s \<Longrightarrow> 1 \<le> length s \<and> length s \<le> Suc k"
  by (auto simp: id_fullmatch_def split: list.splits)

section \<open>Lists and dictionaries\<close>

text \<open>
  \<^verbatim>\<open>tuple(dict.fromkeys(xs))\<close>: the first occurrence of each element, in order.
\<close>

fun dict_fromkeys_by :: "('a \<Rightarrow> 'k) \<Rightarrow> 'a list \<Rightarrow> 'a list" where
  "dict_fromkeys_by key [] = []"
| "dict_fromkeys_by key (x # xs) =
     x # filter (\<lambda>y. key y \<noteq> key x) (dict_fromkeys_by key xs)"

abbreviation dict_fromkeys :: "'a list \<Rightarrow> 'a list" where
  "dict_fromkeys \<equiv> dict_fromkeys_by (\<lambda>x. x)"

lemma set_dict_fromkeys [simp]: "set (dict_fromkeys xs) = set xs"
  by (induction xs) auto

lemma distinct_dict_fromkeys_by [simp]: "distinct (map key (dict_fromkeys_by key xs))"
proof (induction xs)
  case Nil
  then show ?case by simp
next
  case (Cons x xs)
  have "distinct (map key (filter (\<lambda>y. key y \<noteq> key x) (dict_fromkeys_by key xs)))"
    using Cons by (rule distinct_map_filter)
  then show ?case by auto
qed

lemma distinct_dict_fromkeys [simp]: "distinct (dict_fromkeys xs)"
  using distinct_dict_fromkeys_by [of "\<lambda>x. x" xs] by simp

lemma dict_fromkeys_Nil_iff [simp]: "dict_fromkeys_by key xs = [] \<longleftrightarrow> xs = []"
  by (cases xs) auto

lemma dict_fromkeys_by_map:
  assumes "\<And>x y. key (f x) = key (f y) \<longleftrightarrow> x = y"
  shows "dict_fromkeys_by key (map f xs) = map f (dict_fromkeys xs)"
  by (induction xs) (simp_all add: filter_map o_def assms)

text \<open>\<^verbatim>\<open>sorted(set(xs))\<close>.\<close>

definition py_sorted_set :: "'a::linorder list \<Rightarrow> 'a list" where
  "py_sorted_set xs = sort (remdups xs)"

lemma set_py_sorted_set [simp]: "set (py_sorted_set xs) = set xs"
  by (simp add: py_sorted_set_def)

lemma py_sorted_set_Nil_iff [simp]: "py_sorted_set xs = [] \<longleftrightarrow> xs = []"
  by (metis set_empty set_py_sorted_set)

text \<open>\<^verbatim>\<open>next(item for item in xs if p(item))\<close>: the first match.\<close>

lemma find_Some_set: "List.find p xs = Some x \<Longrightarrow> x \<in> set xs \<and> p x"
  by (induction xs) (auto split: if_splits)

text \<open>A dictionary comprehension over a list: on duplicate keys the last entry wins.\<close>

definition dict_of :: "('a \<Rightarrow> 'k) \<Rightarrow> 'a list \<Rightarrow> 'k \<Rightarrow> 'a option" where
  "dict_of key xs k = map_of (rev (map (\<lambda>x. (key x, x)) xs)) k"

lemma dict_of_SomeD: "dict_of key xs k = Some x \<Longrightarrow> x \<in> set xs \<and> key x = k"
  by (auto simp: dict_of_def dest!: map_of_SomeD)

lemma dict_of_None_iff: "dict_of key xs k = None \<longleftrightarrow> k \<notin> key ` set xs"
  by (auto simp: dict_of_def map_of_eq_None_iff image_iff)

text \<open>Python's truth value of a list or a string is whether it is non-empty.\<close>

definition last_opt :: "'a list \<Rightarrow> 'a option" where
  "last_opt xs = (if xs = [] then None else Some (last xs))"

lemma last_opt_snoc [simp]: "last_opt (xs @ [x]) = Some x" "last_opt [] = None"
  by (simp_all add: last_opt_def)

end
