(* ===== verification/Json.thy ===== *)
theory Json
  imports Prelude
begin

text \<open>
  JSON values and the canonical text the digests are computed from:
  \<^verbatim>\<open>json.dumps(value, sort_keys=True, separators=(",", ":"), ensure_ascii=False)\<close>.
  An object keeps its members in insertion order, as a Python dict does. Numbers are
  integers: no modelled payload carries a fraction. The main result is that the canonical
  text determines the value up to the order of members, so that equal digests of different
  payloads exhibit a collision of the digest function.

  \<open>payload_hash\<close> is \<^verbatim>\<open>payload_hash\<close> of \<^verbatim>\<open>src/src/decision_assurance/audit.py\<close>. The
  SHA-256 hex digest of a text is the argument \<open>sha\<close> of the definitions that use it: every
  theorem holds for any digest function.
\<close>

datatype json =
    JNull
  | JBool bool
  | JInt int
  | JStr string
  | JArr "json list"
  | JObj "(string \<times> json) list"

type_synonym digest = "string \<Rightarrow> string"

section \<open>Canonical text\<close>

definition hex_char :: "nat \<Rightarrow> char" where
  "hex_char d = (if d < 10 then char_of (48 + d) else char_of (87 + d))"

definition hex_val :: "char \<Rightarrow> nat" where
  "hex_val c = (let n = of_char c in if n < 58 then n - 48 else n - 87)"

text \<open>The escapes of \<^verbatim>\<open>json.encoder\<close> with \<^verbatim>\<open>ensure_ascii=False\<close>.\<close>

definition escape_char :: "char \<Rightarrow> string" where
  "escape_char c = (let n = (of_char c :: nat) in
     if n = 34 then [CHR 0x5C, CHR 0x22]
     else if n = 92 then [CHR 0x5C, CHR 0x5C]
     else if n = 8 then [CHR 0x5C, CHR ''b'']
     else if n = 9 then [CHR 0x5C, CHR ''t'']
     else if n = 10 then [CHR 0x5C, CHR ''n'']
     else if n = 12 then [CHR 0x5C, CHR ''f'']
     else if n = 13 then [CHR 0x5C, CHR ''r'']
     else if n < 32 then
       [CHR 0x5C, CHR ''u'', CHR ''0'', CHR ''0'', hex_char (n div 16), hex_char (n mod 16)]
     else [c])"

definition encode_str :: "string \<Rightarrow> string" where
  "encode_str s = CHR 0x22 # concat (map escape_char s) @ [CHR 0x22]"

text \<open>
  \<open>encode_elems\<close> and \<open>encode_members\<close> are the text after the first element or
  member, with the closing bracket.
\<close>

fun encode :: "json \<Rightarrow> string"
  and encode_elems :: "json list \<Rightarrow> string"
  and encode_members :: "(string \<times> json) list \<Rightarrow> string" where
  "encode JNull = ''null''"
| "encode (JBool b) = (if b then ''true'' else ''false'')"
| "encode (JInt i) = str_int i"
| "encode (JStr s) = encode_str s"
| "encode (JArr []) = ''[]''"
| "encode (JArr (x # xs)) = CHR ''['' # encode x @ encode_elems xs"
| "encode (JObj []) = ''{}''"
| "encode (JObj ((k, v) # kvs)) =
     CHR ''{'' # encode_str k @ CHR '':'' # encode v @ encode_members kvs"
| "encode_elems [] = '']''"
| "encode_elems (x # xs) = CHR '','' # encode x @ encode_elems xs"
| "encode_members [] = ''}''"
| "encode_members ((k, v) # kvs) =
     CHR '','' # encode_str k @ CHR '':'' # encode v @ encode_members kvs"

text \<open>\<^verbatim>\<open>sort_keys=True\<close>: the members of every object by key.\<close>

fun sort_members :: "json \<Rightarrow> json" where
  "sort_members (JArr xs) = JArr (map sort_members xs)"
| "sort_members (JObj kvs) =
     JObj (sort_key fst (map (\<lambda>kv. (fst kv, sort_members (snd kv))) kvs))"
| "sort_members j = j"

definition json_dumps :: "json \<Rightarrow> string" where
  "json_dumps j = encode (sort_members j)"

definition payload_hash :: "digest \<Rightarrow> json \<Rightarrow> string" where
  "payload_hash sha payload = ''sha256:'' @ sha (json_dumps payload)"

text \<open>The default form of \<^verbatim>\<open>json.dumps\<close>, which escapes every character outside printable ASCII.\<close>

definition ascii_char :: "char \<Rightarrow> string" where
  "ascii_char c = (let n = (of_char c :: nat) in
     if n < 127 then [c]
     else [CHR 0x5C, CHR ''u'', CHR ''0'', CHR ''0'', hex_char (n div 16), hex_char (n mod 16)])"

definition json_dumps_ascii :: "json \<Rightarrow> string" where
  "json_dumps_ascii j = concat (map ascii_char (json_dumps j))"

section \<open>The text determines the value\<close>

lemma hex_val_char [simp]: "d < 16 \<Longrightarrow> hex_val (hex_char d) = d"
  by (auto simp: hex_val_def hex_char_def Let_def)

text \<open>What one escape consumes and yields.\<close>

definition unescape_char :: "string \<Rightarrow> char \<times> string" where
  "unescape_char s =
     (if hd s \<noteq> CHR 0x5C then (hd s, tl s)
      else case s ! 1 of
        c \<Rightarrow> if c = CHR ''b'' then (CHR 0x08, drop 2 s)
             else if c = CHR ''t'' then (CHR 0x09, drop 2 s)
             else if c = CHR ''n'' then (CHR 0x0A, drop 2 s)
             else if c = CHR ''f'' then (CHR 0x0C, drop 2 s)
             else if c = CHR ''r'' then (CHR 0x0D, drop 2 s)
             else if c = CHR ''u'' then (char_of (16 * hex_val (s ! 4) + hex_val (s ! 5)), drop 6 s)
             else (c, drop 2 s))"

lemma char_eqI: "(of_char c :: nat) = of_char d \<Longrightarrow> c = d"
  by (simp add: of_char_eq_iff)

lemma unescape_escape: "unescape_char (escape_char c @ r) = (c, r)"
proof -
  let ?n = "of_char c :: nat"
  have special: "c = char_of ?n" by simp
  consider "?n = 34" | "?n = 92" | "?n = 8" | "?n = 9" | "?n = 10" | "?n = 12" | "?n = 13"
    | (ctl) "?n < 32" "?n \<notin> {8, 9, 10, 12, 13}" | (plain) "32 \<le> ?n" "?n \<noteq> 34" "?n \<noteq> 92"
    by (cases "?n < 32") auto
  then show ?thesis
  proof cases
    case ctl
    then have "escape_char c = [CHR 0x5C, CHR ''u'', CHR ''0'', CHR ''0'',
        hex_char (?n div 16), hex_char (?n mod 16)]"
      by (simp add: escape_char_def Let_def)
    moreover have "16 * hex_val (hex_char (?n div 16)) + hex_val (hex_char (?n mod 16)) = ?n"
      using ctl by simp
    ultimately show ?thesis
      by (simp add: unescape_char_def)
  next
    case plain
    then have "escape_char c = [c]" and "c \<noteq> CHR 0x5C"
      by (auto simp: escape_char_def Let_def)
    then show ?thesis by (simp add: unescape_char_def)
  qed (auto simp: escape_char_def unescape_char_def intro!: char_eqI)
qed

lemma escape_char_inject: "escape_char c @ r = escape_char d @ r' \<longleftrightarrow> c = d \<and> r = r'"
  by (metis prod.inject unescape_escape)

lemma escape_char_not_quote: "escape_char c @ r \<noteq> CHR 0x22 # r'"
proof
  assume eq: "escape_char c @ r = CHR 0x22 # r'"
  then have "c = CHR 0x22"
    using unescape_escape [of c r] by (simp add: unescape_char_def)
  with eq show False by (simp add: escape_char_def)
qed

lemma escaped_inject:
  "concat (map escape_char s) @ CHR 0x22 # r = concat (map escape_char t) @ CHR 0x22 # r'
     \<longleftrightarrow> s = t \<and> r = r'"
proof (induction s arbitrary: t)
  case Nil
  then show ?case
    using escape_char_not_quote by (cases t) (auto dest: sym)
next
  case (Cons c s)
  then show ?case
    using escape_char_not_quote by (cases t) (auto simp: escape_char_inject)
qed

lemma encode_str_inject [simp]: "encode_str s @ r = encode_str t @ r' \<longleftrightarrow> s = t \<and> r = r'"
  by (simp add: encode_str_def escaped_inject)

text \<open>What may follow a value: nothing, or a character no number contains.\<close>

definition delimited :: "string \<Rightarrow> bool" where
  "delimited r = (r = [] \<or> hd r \<in> set '',]}'')"

lemma takeWhile_delimited:
  assumes "list_all p s" and "delimited r" and "\<forall>c \<in> set '',]}''. \<not> p c"
  shows "takeWhile p (s @ r) = s"
proof -
  have "takeWhile p r = []"
    using assms(2,3) by (cases r) (auto simp: delimited_def)
  with assms(1) show ?thesis
    by (simp add: takeWhile_append2 list_all_iff)
qed

lemma str_int_inject:
  assumes "str_int i @ r = str_int j @ r'" and "delimited r" and "delimited r'"
  shows "i = j \<and> r = r'"
proof -
  let ?p = "\<lambda>c. is_digit c \<or> c = CHR ''-''"
  have p: "\<forall>c \<in> set '',]}''. \<not> ?p c"
    by (simp add: is_digit_def)
  have all: "list_all ?p (str_int k)" for k
    using str_nat_digits by (auto simp: str_int_def list_all_iff)
  have "str_int i = str_int j"
    using takeWhile_delimited [OF all assms(2) p, of i] takeWhile_delimited [OF all assms(3) p, of j]
      assms(1) by metis
  with assms(1) show ?thesis by simp
qed

lemma delimited_encode_elems [simp]: "delimited (encode_elems xs @ r)"
  by (cases xs) (simp_all add: delimited_def)

lemma delimited_encode_members [simp]: "delimited (encode_members kvs @ r)"
  by (cases kvs rule: encode_members.cases) (simp_all add: delimited_def)

text \<open>The first character of a text, by the kind of the value.\<close>

fun first_char :: "json \<Rightarrow> char set" where
  "first_char JNull = {CHR ''n''}"
| "first_char (JBool b) = (if b then {CHR ''t''} else {CHR ''f''})"
| "first_char (JInt i) = {c. is_digit c \<or> c = CHR ''-''}"
| "first_char (JStr s) = {CHR 0x22}"
| "first_char (JArr xs) = {CHR ''[''}"
| "first_char (JObj kvs) = {CHR ''{''}"

lemma encode_first_char: "encode j \<noteq> [] \<and> hd (encode j) \<in> first_char j"
proof (cases j)
  case (JInt i)
  have "\<exists>c s. str_int i = c # s \<and> (is_digit c \<or> c = CHR ''-'')"
    using str_nat_digits [of "nat i"]
    by (cases "str_nat (nat i)") (auto simp: str_int_def)
  with JInt show ?thesis by auto
next
  case (JArr xs)
  then show ?thesis by (cases xs) auto
next
  case (JObj kvs)
  then show ?thesis by (cases kvs) auto
qed (auto simp: encode_str_def)

lemma encode_same_kind:
  assumes "encode j @ r = encode j' @ r'"
  shows "first_char j \<inter> first_char j' \<noteq> {}"
proof -
  have "hd (encode j) = hd (encode j')"
    using assms encode_first_char by (metis hd_append2)
  with encode_first_char [of j] encode_first_char [of j'] show ?thesis by auto
qed

lemma encode_not_closing: "encode j @ r \<noteq> CHR '']'' # r'" "encode j @ r \<noteq> CHR ''}'' # r'"
  using encode_first_char [of j]
  by (cases j; cases "encode j"; auto simp: is_digit_def split: if_splits)+

text \<open>
  Unambiguity, by induction over the value: after equal texts the same text is left, and the
  values are equal. An element list or member list carries its closing bracket, so only a
  value on its own needs to be delimited.
\<close>

lemma encode_inject:
  "encode j @ r = encode j' @ r' \<Longrightarrow> delimited r \<Longrightarrow> delimited r' \<Longrightarrow> j = j' \<and> r = r'"
  "encode_elems xs @ r = encode_elems xs' @ r' \<Longrightarrow> xs = xs' \<and> r = r'"
  "encode_members kvs @ r = encode_members kvs' @ r' \<Longrightarrow> kvs = kvs' \<and> r = r'"
proof (induction j and xs and kvs arbitrary: j' r r' and xs' r r' and kvs' r r'
    rule: encode_encode_elems_encode_members.induct)
  case 1
  with encode_same_kind [OF "1"(1)] show ?case
    by (cases j') (auto simp: is_digit_def split: if_splits)
next
  case (2 b)
  with encode_same_kind [OF "2"(1)] show ?case
    by (cases j') (auto simp: is_digit_def split: if_splits)
next
  case (3 i)
  with encode_same_kind [OF "3"(1)] show ?case
    by (cases j') (auto simp: is_digit_def split: if_splits dest: str_int_inject)
next
  case (4 s)
  with encode_same_kind [OF "4"(1)] show ?case
    by (cases j') (auto simp: is_digit_def split: if_splits)
next
  case 5
  with encode_same_kind [OF "5"(1)] obtain ys where j': "j' = JArr ys"
    by (cases j') (auto simp: is_digit_def split: if_splits)
  with 5 show ?case
    by (cases ys) (auto dest: sym simp: encode_not_closing encode_not_closing [symmetric])
next
  case (6 x xs)
  from encode_same_kind [OF "6.prems"(1)] obtain ys where j': "j' = JArr ys"
    by (cases j') (auto simp: is_digit_def split: if_splits)
  with "6.prems"(1) obtain y ys' where ys: "ys = y # ys'"
    by (cases ys) (auto simp: encode_not_closing)
  from "6.prems"(1) have eq: "encode x @ encode_elems xs @ r = encode y @ encode_elems ys' @ r'"
    by (simp add: j' ys)
  from "6.IH"(1) [OF eq] have "x = y" and rest: "encode_elems xs @ r = encode_elems ys' @ r'"
    by simp_all
  with "6.IH"(2) [OF rest] show ?case by (simp add: j' ys)
next
  case 7
  with encode_same_kind [OF "7"(1)] obtain kvs where j': "j' = JObj kvs"
    by (cases j') (auto simp: is_digit_def split: if_splits)
  with 7 show ?case
    by (cases kvs) (auto simp: encode_str_def)
next
  case (8 k v kvs)
  from encode_same_kind [OF "8.prems"(1)] obtain ms where j': "j' = JObj ms"
    by (cases j') (auto simp: is_digit_def split: if_splits)
  with "8.prems"(1) obtain k' v' ms' where ms: "ms = (k', v') # ms'"
    by (cases ms) (auto simp: encode_str_def)
  from "8.prems"(1) have k: "k = k'"
    and eq: "encode v @ encode_members kvs @ r = encode v' @ encode_members ms' @ r'"
    by (simp_all add: j' ms)
  from "8.IH"(1) [OF eq] have "v = v'"
    and rest: "encode_members kvs @ r = encode_members ms' @ r'"
    by simp_all
  with "8.IH"(2) [OF rest] k show ?case by (simp add: j' ms)
next
  case 9
  then show ?case by (cases xs') auto
next
  case (10 x xs)
  from "10.prems" obtain y ys where ys: "xs' = y # ys"
    by (cases xs') auto
  with "10.prems" have eq: "encode x @ encode_elems xs @ r = encode y @ encode_elems ys @ r'"
    by simp
  from "10.IH"(1) [OF eq] have "x = y" and rest: "encode_elems xs @ r = encode_elems ys @ r'"
    by simp_all
  with "10.IH"(2) [OF rest] show ?case by (simp add: ys)
next
  case 11
  then show ?case by (cases kvs' rule: encode_members.cases) auto
next
  case (12 k v kvs)
  from "12.prems" obtain k' v' ms where ms: "kvs' = (k', v') # ms"
    by (cases kvs' rule: encode_members.cases) auto
  from "12.prems" have k: "k = k'"
    and eq: "encode v @ encode_members kvs @ r = encode v' @ encode_members ms @ r'"
    by (simp_all add: ms)
  from "12.IH"(1) [OF eq] have "v = v'"
    and rest: "encode_members kvs @ r = encode_members ms @ r'"
    by simp_all
  with "12.IH"(2) [OF rest] k show ?case by (simp add: ms)
qed

lemma encode_inj [simp]: "encode j = encode j' \<longleftrightarrow> j = j'"
  using encode_inject(1) [of j "[]" j' "[]"] by (auto simp: delimited_def)

lemma json_dumps_eq_iff: "json_dumps j = json_dumps j' \<longleftrightarrow> sort_members j = sort_members j'"
  by (simp add: json_dumps_def)

text \<open>Sorting the members of an object with distinct keys keeps what each key maps to.\<close>

lemma map_fst_insort_key: "map fst (insort_key fst x xs) = insort (fst x) (map fst xs)"
  by (induction xs) auto

lemma map_fst_sort_key: "map fst (sort_key fst xs) = sort (map fst xs)"
  by (induction xs) (simp_all add: map_fst_insort_key)

lemma map_of_sort_key:
  assumes "distinct (map fst kvs)"
  shows "map_of (sort_key fst kvs) = map_of kvs"
proof
  fix k
  have "distinct (map fst (sort_key fst kvs))"
    using assms by (simp add: map_fst_sort_key)
  then have "map_of (sort_key fst kvs) k = Some v \<longleftrightarrow> map_of kvs k = Some v" for v
    using assms by simp
  then show "map_of (sort_key fst kvs) k = map_of kvs k"
    by (metis option.exhaust)
qed

lemma sort_members_obj_get:
  assumes "sort_members (JObj d) = sort_members (JObj d')"
    and "distinct (map fst d)" and "distinct (map fst d')"
  shows "map_option sort_members (map_of d k) = map_option sort_members (map_of d' k)"
proof -
  let ?m = "map (\<lambda>kv. (fst kv, sort_members (snd kv)))"
  have "map_of (?m d) = map_of (?m d')"
    using assms map_of_sort_key [of "?m d"] map_of_sort_key [of "?m d'"] by (simp add: o_def)
  then have "map_of (?m d) k = map_of (?m d') k" by simp
  moreover have "map_of (?m e) k = map_option sort_members (map_of e k)" for e
    by (induction e) auto
  ultimately show ?thesis by simp
qed

lemma sort_members_JStr [simp]: "sort_members j = JStr s \<longleftrightarrow> j = JStr s"
  by (cases j) auto

lemma sort_members_strs [simp]: "map (sort_members \<circ> JStr) ss = map JStr ss"
  by simp

text \<open>Where the digest function separates the two texts, equal hashes mean equal values.\<close>

lemma payload_hash_inject:
  assumes "payload_hash sha j = payload_hash sha j'"
    and "sha (json_dumps j) = sha (json_dumps j') \<Longrightarrow> json_dumps j = json_dumps j'"
  shows "sort_members j = sort_members j'"
  using assms by (simp add: payload_hash_def flip: json_dumps_eq_iff)

section \<open>Python values\<close>

text \<open>
  The operations of a dynamically typed value that the sources apply to parsed JSON:
  \<^verbatim>\<open>dict.get\<close>, iteration, truth value, equality (\<^verbatim>\<open>True == 1\<close>, dictionaries without
  order) and \<^verbatim>\<open>str\<close>. Applying one to a value of the wrong type raises.
\<close>

type_synonym pydict = "(string \<times> json) list"

definition dict_get :: "pydict \<Rightarrow> string \<Rightarrow> json \<Rightarrow> json" where
  "dict_get d k v = (case map_of d k of Some w \<Rightarrow> w | None \<Rightarrow> v)"

definition dict_setdefault :: "string \<Rightarrow> json \<Rightarrow> pydict \<Rightarrow> pydict" where
  "dict_setdefault k v d = (if k \<in> fst ` set d then d else d @ [(k, v)])"

fun as_dict :: "json \<Rightarrow> pydict result" where
  "as_dict (JObj d) = Inr d"
| "as_dict j = Inl AttributeError"

fun as_iter :: "json \<Rightarrow> json list result" where
  "as_iter (JArr xs) = Inr xs"
| "as_iter (JObj d) = Inr (map (\<lambda>kv. JStr (fst kv)) d)"
| "as_iter (JStr s) = Inr (map (\<lambda>c. JStr [c]) s)"
| "as_iter j = Inl TypeError"

fun truthy :: "json \<Rightarrow> bool" where
  "truthy JNull = False"
| "truthy (JBool b) = b"
| "truthy (JInt i) = (i \<noteq> 0)"
| "truthy (JStr s) = (s \<noteq> [])"
| "truthy (JArr xs) = (xs \<noteq> [])"
| "truthy (JObj d) = (d \<noteq> [])"

fun bools_as_ints :: "json \<Rightarrow> json" where
  "bools_as_ints (JBool b) = JInt (if b then 1 else 0)"
| "bools_as_ints (JArr xs) = JArr (map bools_as_ints xs)"
| "bools_as_ints (JObj d) = JObj (map (\<lambda>kv. (fst kv, bools_as_ints (snd kv))) d)"
| "bools_as_ints j = j"

definition py_norm :: "json \<Rightarrow> json" where
  "py_norm j = sort_members (bools_as_ints j)"

definition py_eq :: "json \<Rightarrow> json \<Rightarrow> bool" where
  "py_eq a b = (py_norm a = py_norm b)"

fun hashable :: "json \<Rightarrow> bool" where
  "hashable (JArr xs) = False"
| "hashable (JObj d) = False"
| "hashable j = True"

definition fromkeys_json :: "json list \<Rightarrow> json list result" where
  "fromkeys_json xs =
     (if list_all hashable xs then Inr (dict_fromkeys_by py_norm xs) else Inl TypeError)"

text \<open>\<^verbatim>\<open>repr\<close> of a string: single quotes unless only double quotes avoid an escape.\<close>

definition repr_char :: "char \<Rightarrow> char \<Rightarrow> string" where
  "repr_char q c = (let n = (of_char c :: nat) in
     if c = q \<or> n = 92 then [CHR 0x5C, c]
     else if n = 9 then [CHR 0x5C, CHR ''t'']
     else if n = 10 then [CHR 0x5C, CHR ''n'']
     else if n = 13 then [CHR 0x5C, CHR ''r'']
     else if n < 32 \<or> (127 \<le> n \<and> n \<le> 160) \<or> n = 173 then
       [CHR 0x5C, CHR ''x'', hex_char (n div 16), hex_char (n mod 16)]
     else [c])"

definition repr_str :: "string \<Rightarrow> string" where
  "repr_str s =
     (let q = (if CHR 0x27 \<in> set s \<and> CHR 0x22 \<notin> set s then CHR 0x22 else CHR 0x27)
      in q # concat (map (repr_char q) s) @ [q])"

fun py_repr :: "json \<Rightarrow> string" where
  "py_repr JNull = ''None''"
| "py_repr (JBool b) = (if b then ''True'' else ''False'')"
| "py_repr (JInt i) = str_int i"
| "py_repr (JStr s) = repr_str s"
| "py_repr (JArr xs) = CHR ''['' # py_join '', '' (map py_repr xs) @ '']''"
| "py_repr (JObj d) =
     CHR ''{'' # py_join '', '' (map (\<lambda>kv. repr_str (fst kv) @ '': '' @ py_repr (snd kv)) d) @ ''}''"

definition py_str :: "json \<Rightarrow> string" where
  "py_str j = (case j of JStr s \<Rightarrow> s | _ \<Rightarrow> py_repr j)"

lemma dict_get_Cons [simp]:
  "dict_get [] k v = v"
  "dict_get ((k', w) # d) k v = (if k' = k then w else dict_get d k v)"
  by (simp_all add: dict_get_def)

lemma py_str_JStr [simp]: "py_str (JStr s) = s"
  by (simp add: py_str_def)

lemma py_eq_JStr [simp]: "py_eq (JStr s) (JStr t) \<longleftrightarrow> s = t"
  by (simp add: py_eq_def py_norm_def)

lemma py_eq_JNull_JStr [simp]: "\<not> py_eq JNull (JStr t)"
  by (simp add: py_eq_def py_norm_def)

lemma fromkeys_json_JStr [simp]:
  "fromkeys_json (map JStr ss) = Inr (map JStr (dict_fromkeys ss))"
  by (simp add: fromkeys_json_def list_all_iff dict_fromkeys_by_map py_norm_def)

lemma map_of_dict_setdefault:
  "map_of (dict_setdefault k v d) k' =
     (if k' = k \<and> map_of d k = None then Some v else map_of d k')"
  by (auto simp: dict_setdefault_def map_add_def simp flip: map_of_eq_None_iff
      split: option.splits dest: weak_map_of_SomeI)

lemma dict_get_setdefault:
  "dict_get (dict_setdefault k v d) k' w =
     (if k' = k then dict_get d k v else dict_get d k' w)"
  by (auto simp: dict_get_def map_of_dict_setdefault split: option.splits)

end
