(* ===== verification/AuditLog.thy ===== *)
theory AuditLog
  imports Json
begin

text \<open>
  The hash-linked audit ledger of \<^verbatim>\<open>src/src/decision_assurance/audit.py\<close>
  (\<open>AuditLedger\<close>), and the contract every hash-linked log of the program shares: a step
  extends the log, never rewrites it, and each new event carries the digest of the event
  before it. The contract is the locale \<open>chained_log\<close>; the ledger is its first
  interpretation, the audit trail of a Decision File, of a Research run and of the data
  lifecycle are others, in the theories that model them.
\<close>

section \<open>Hash-linked lists\<close>

fun linked_from :: "('e \<Rightarrow> string) \<Rightarrow> ('e \<Rightarrow> string option) \<Rightarrow> string option \<Rightarrow> 'e list \<Rightarrow> bool" where
  "linked_from hash prev h [] = True"
| "linked_from hash prev h (e # es) = (prev e = h \<and> linked_from hash prev (Some (hash e)) es)"

abbreviation linked :: "('e \<Rightarrow> string) \<Rightarrow> ('e \<Rightarrow> string option) \<Rightarrow> 'e list \<Rightarrow> bool" where
  "linked hash prev \<equiv> linked_from hash prev None"

definition head_hash :: "('e \<Rightarrow> string) \<Rightarrow> string option \<Rightarrow> 'e list \<Rightarrow> string option" where
  "head_hash hash h es = (if es = [] then h else Some (hash (last es)))"

lemma head_hash_simps [simp]:
  "head_hash hash h [] = h"
  "head_hash hash h (es @ [e]) = Some (hash e)"
  "head_hash hash h (e # es) = head_hash hash (Some (hash e)) es"
  by (simp_all add: head_hash_def)

lemma head_hash_append [simp]:
  "head_hash hash h (es @ fs) = head_hash hash (head_hash hash h es) fs"
  by (auto simp: head_hash_def)

lemma linked_from_append [simp]:
  "linked_from hash prev h (es @ fs) \<longleftrightarrow>
     linked_from hash prev h es \<and> linked_from hash prev (head_hash hash h es) fs"
  by (induction es arbitrary: h) auto

text \<open>
  Tamper evidence: two linked logs of the same length whose last events have the same digest
  either are the same log, or contain two different events with the same digest.
\<close>

lemma linked_tamper_evident:
  assumes "length es = length fs"
    and "linked_from hash prev h es" and "linked_from hash prev h fs"
    and "head_hash hash None es = head_hash hash None fs"
  shows "es = fs \<or> (\<exists>a \<in> set es. \<exists>b \<in> set fs. a \<noteq> b \<and> hash a = hash b)"
  using assms
proof (induction es arbitrary: fs rule: rev_induct)
  case Nil
  then show ?case by simp
next
  case (snoc e es)
  then obtain f fs' where fs: "fs = fs' @ [f]"
    by (metis append_butlast_last_id length_0_conv snoc_eq_iff_butlast)
  from snoc.prems have he: "hash e = hash f" by (simp add: fs)
  show ?case
  proof (cases "e = f")
    case False
    with he show ?thesis by (auto simp: fs)
  next
    case True
    from snoc.prems have len: "length es = length fs'" and l: "linked_from hash prev h es"
      and l': "linked_from hash prev h fs'"
      and heads: "head_hash hash h es = head_hash hash h fs'"
      by (auto simp: fs True)
    from len heads have "head_hash hash None es = head_hash hash None fs'"
      by (auto simp: head_hash_def)
    with snoc.IH [OF len l l'] show ?thesis by (auto simp: fs True)
  qed
qed

section \<open>The contract of a hash-linked log\<close>

locale chained_log =
  fixes hash :: "'e \<Rightarrow> string"
    and prev :: "'e \<Rightarrow> string option"
    and events :: "'s \<Rightarrow> 'e list"
    and step :: "'s \<Rightarrow> 's \<Rightarrow> bool"
  assumes step_extends:
    "step s s' \<Longrightarrow> \<exists>es. events s' = events s @ es \<and>
       linked_from hash prev (head_hash hash None (events s)) es"
begin

lemma step_linked: "step s s' \<Longrightarrow> linked hash prev (events s) \<Longrightarrow> linked hash prev (events s')"
  using step_extends [of s s'] by auto

lemma steps_extend:
  "step\<^sup>*\<^sup>* s s' \<Longrightarrow> \<exists>es. events s' = events s @ es \<and>
     linked_from hash prev (head_hash hash None (events s)) es"
proof (induction rule: rtranclp_induct)
  case base
  then show ?case by simp
next
  case (step s1 s2)
  then obtain es where es: "events s1 = events s @ es"
    "linked_from hash prev (head_hash hash None (events s)) es" by blast
  from step_extends [OF step.hyps(2)] obtain fs where fs: "events s2 = events s1 @ fs"
    "linked_from hash prev (head_hash hash None (events s1)) fs" by blast
  with es show ?case by (intro exI [of _ "es @ fs"]) simp
qed

lemma steps_linked: "step\<^sup>*\<^sup>* s s' \<Longrightarrow> linked hash prev (events s) \<Longrightarrow> linked hash prev (events s')"
  using steps_extend [of s s'] by auto

lemma steps_append_only: "step\<^sup>*\<^sup>* s s' \<Longrightarrow> take (length (events s)) (events s') = events s"
  using steps_extend [of s s'] by auto

end

section \<open>AuditLedger\<close>

record ledger_event =
  le_event_id :: string
  le_decision_id :: string
  le_event_type :: string
  le_occurred_at :: string
  le_actor_ref :: string
  le_payload_hash :: string
  le_previous_event_hash :: "string option"
  le_version_refs :: "string list"
  le_correlation_id :: "string option"

record audit_ledger =
  lg_decision_id :: string
  lg_actor_ref :: string
  lg_correlation_id :: "string option"
  ledger_events :: "ledger_event list"

text \<open>\<^verbatim>\<open>AuditLedger(decision_id=..., now=...)\<close>, the other fields by default.\<close>

definition new_ledger :: "string \<Rightarrow> audit_ledger" where
  "new_ledger d = \<lparr>lg_decision_id = d, lg_actor_ref = ''decision-assurance-engine'',
     lg_correlation_id = None, ledger_events = []\<rparr>"

definition json_opt :: "string option \<Rightarrow> json" where
  "json_opt s = (case s of None \<Rightarrow> JNull | Some t \<Rightarrow> JStr t)"

text \<open>A member that is present only when it has a value.\<close>

definition opt_member :: "string \<Rightarrow> string option \<Rightarrow> pydict" where
  "opt_member k v = (case v of None \<Rightarrow> [] | Some c \<Rightarrow> [(k, JStr c)])"

definition ledger_event_json :: "ledger_event \<Rightarrow> json" where
  "ledger_event_json e = JObj ([
     (''event_id'', JStr (le_event_id e)),
     (''decision_id'', JStr (le_decision_id e)),
     (''event_type'', JStr (le_event_type e)),
     (''occurred_at'', JStr (le_occurred_at e)),
     (''actor_ref'', JStr (le_actor_ref e)),
     (''payload_hash'', JStr (le_payload_hash e)),
     (''previous_event_hash'', json_opt (le_previous_event_hash e)),
     (''version_refs'', JArr (map JStr (le_version_refs e)))]
     @ opt_member ''correlation_id'' (le_correlation_id e))"

text \<open>
  \<^verbatim>\<open>AuditLedger.append\<close>. Each call reads the clock once: \<open>now n\<close> is the text of the
  reading made when \<open>n\<close> events have been recorded.
\<close>

definition ledger_append ::
  "digest \<Rightarrow> (nat \<Rightarrow> string) \<Rightarrow> string \<Rightarrow> json \<Rightarrow> audit_ledger \<Rightarrow> audit_ledger" where
  "ledger_append sha now event_type payload l =
     (let previous_hash =
            (if ledger_events l \<noteq> []
             then Some (payload_hash sha (ledger_event_json (last (ledger_events l)))) else None);
          sequence = length (ledger_events l) + 1;
          event = \<lparr>
            le_event_id = lg_decision_id l @ '':event:'' @ str_nat sequence,
            le_decision_id = lg_decision_id l,
            le_event_type = event_type,
            le_occurred_at = now (length (ledger_events l)),
            le_actor_ref = lg_actor_ref l,
            le_payload_hash = payload_hash sha payload,
            le_previous_event_hash = previous_hash,
            le_version_refs = [''das:0.1.0'', ''engine:0.1.0''],
            le_correlation_id =
              (case lg_correlation_id l of None \<Rightarrow> None
               | Some c \<Rightarrow> if c = [] then None else Some c)\<rparr>
      in l\<lparr>ledger_events := ledger_events l @ [event]\<rparr>)"

abbreviation ledger_event_hash :: "digest \<Rightarrow> ledger_event \<Rightarrow> string" where
  "ledger_event_hash sha e \<equiv> payload_hash sha (ledger_event_json e)"

definition ledger_step :: "digest \<Rightarrow> audit_ledger \<Rightarrow> audit_ledger \<Rightarrow> bool" where
  "ledger_step sha l l' = (\<exists>now ty p. l' = ledger_append sha now ty p l)"

interpretation ledger: chained_log
  "ledger_event_hash sha" le_previous_event_hash ledger_events "ledger_step sha" for sha
  by unfold_locales (auto simp: ledger_step_def ledger_append_def Let_def head_hash_def)

lemma ledger_append_length [simp]:
  "length (ledger_events (ledger_append sha now ty p l)) = Suc (length (ledger_events l))"
  by (simp add: ledger_append_def Let_def)

lemma ledger_append_decision_id [simp]:
  "lg_decision_id (ledger_append sha now ty p l) = lg_decision_id l"
  by (simp add: ledger_append_def Let_def)

lemma ledger_append_types [simp]:
  "map le_event_type (ledger_events (ledger_append sha now ty p l)) =
     map le_event_type (ledger_events l) @ [ty]"
  by (simp add: ledger_append_def Let_def)

lemma ledger_append_linked [simp]:
  "linked (ledger_event_hash sha) le_previous_event_hash
     (ledger_events (ledger_append sha now ty p l)) \<longleftrightarrow>
   linked (ledger_event_hash sha) le_previous_event_hash (ledger_events l)"
  by (auto simp: ledger_append_def Let_def head_hash_def)

lemma new_ledger_events [simp]: "ledger_events (new_ledger d) = []" "lg_decision_id (new_ledger d) = d"
  by (simp_all add: new_ledger_def)

text \<open>The text of a ledger event determines the event.\<close>

lemma json_opt_inject [simp]: "json_opt a = json_opt b \<longleftrightarrow> a = b"
  by (auto simp: json_opt_def split: option.splits)

lemma sort_members_json_opt [simp]: "sort_members (json_opt a) = json_opt a"
  by (cases a) (simp_all add: json_opt_def)

lemma opt_member_keys [simp]:
  "k' \<in> fst ` set (opt_member k v) \<longleftrightarrow> k' = k \<and> v \<noteq> None"
  "distinct (map fst (opt_member k v))"
  by (auto simp: opt_member_def split: option.splits)

lemma map_of_opt_member [simp]:
  "map_of (opt_member k v) k' = (if k' = k then map_option JStr v else None)"
  by (auto simp: opt_member_def split: option.splits)

lemma map_option_JStr_inject [simp]:
  "map_option JStr a = map_option JStr b \<longleftrightarrow> a = b"
  by (cases a; cases b) auto

lemma ledger_event_json_inject:
  assumes "sort_members (ledger_event_json e) = sort_members (ledger_event_json f)"
  shows "e = f"
proof -
  note get = sort_members_obj_get [OF assms [unfolded ledger_event_json_def], simplified]
  show ?thesis
    using get [of "''event_id''"] get [of "''decision_id''"] get [of "''event_type''"]
      get [of "''occurred_at''"] get [of "''actor_ref''"] get [of "''payload_hash''"]
      get [of "''previous_event_hash''"] get [of "''version_refs''"] get [of "''correlation_id''"]
    by (auto simp: inj_map_eq_map inj_def map_option.compositionality o_def
        intro!: ledger_event.equality)
qed

end
