(* ===== verification/Engine.thy ===== *)
theory Engine
  imports AuditLog
begin

text \<open>
  The deterministic governance engine: \<^verbatim>\<open>models.py\<close>, \<^verbatim>\<open>adapters.py\<close> and
  \<^verbatim>\<open>engine.py\<close> under \<^verbatim>\<open>src/src/decision_assurance\<close>. The request is a parsed JSON object
  of unknown shape, so the model works on \<open>json\<close> values and a field of the wrong type
  raises, as it does in Python. The theorems show that the engine fails closed: the outcome
  is \<open>PASS\<close> only when no check produced a finding, \<open>BLOCK\<close> exactly when some
  finding blocks, and every assessment leaves a complete, linked audit trail.
\<close>

section \<open>models.py\<close>

datatype outcome = PASS | REVIEW | BLOCK

datatype severity = Sev_BLOCK | Sev_REVIEW

fun outcome_value :: "outcome \<Rightarrow> string" where
  "outcome_value PASS = ''PASS''"
| "outcome_value REVIEW = ''REVIEW''"
| "outcome_value BLOCK = ''BLOCK''"

fun severity_value :: "severity \<Rightarrow> string" where
  "severity_value Sev_BLOCK = ''BLOCK''"
| "severity_value Sev_REVIEW = ''REVIEW''"

text \<open>
  A reason code is a string except where a caller of the engine supplies another value as
  \<^verbatim>\<open>reason_code\<close> of a constraint, so it is kept as a JSON value. The engine never sets
  \<^verbatim>\<open>detail\<close>.
\<close>

record finding =
  finding_id :: string
  reason_code :: json
  finding_severity :: severity
  subject_ref :: "string option"
  detail :: "string option"

definition finding_as_dict :: "finding \<Rightarrow> json" where
  "finding_as_dict f = JObj ([
     (''finding_id'', JStr (finding_id f)),
     (''reason_code'', reason_code f),
     (''severity'', JStr (severity_value (finding_severity f)))]
     @ opt_member ''subject_ref'' (subject_ref f)
     @ opt_member ''detail'' (detail f))"

record assessment_result =
  result_outcome :: outcome
  result_reason_codes :: "json list"
  result_human_review :: bool
  result_findings :: "finding list"
  result_report :: pydict
  result_audit_events :: "ledger_event list"

definition benchmark_result :: "assessment_result \<Rightarrow> json" where
  "benchmark_result r = JObj [
     (''outcome'', JStr (outcome_value (result_outcome r))),
     (''reason_codes'', JArr (result_reason_codes r)),
     (''human_review'', JBool (result_human_review r))]"

section \<open>adapters.py\<close>

definition normalize :: "pydict \<Rightarrow> pydict" where
  "normalize payload =
     (case map_of payload ''input'' of
        Some (JObj data) \<Rightarrow>
          [(''decision_id'', dict_get payload ''id'' (JStr ''unidentified-decision'')),
           (''claim'', dict_get data ''claim'' (JStr '''')),
           (''evidence'', dict_get data ''evidence'' (JArr [])),
           (''constraints'', dict_get data ''constraints'' (JArr [])),
           (''policies'', dict_get data ''policies'' (JArr [])),
           (''actors'', dict_get data ''actors'' (JObj [])),
           (''risk'', dict_get data ''risk'' (JObj [])),
           (''conflicts'', dict_get data ''conflicts'' (JArr [])),
           (''mandatory_evidence_missing'',
              dict_get data ''mandatory_evidence_missing'' (JBool False)),
           (''policy_version'', dict_get payload ''policy_version'' (JStr ''dats-0.1.0''))]
      | _ \<Rightarrow>
          dict_setdefault ''policy_version'' (JStr ''unspecified'')
          (dict_setdefault ''mandatory_evidence_missing'' (JBool False)
          (dict_setdefault ''conflicts'' (JArr [])
          (dict_setdefault ''risk'' (JObj [])
          (dict_setdefault ''actors'' (JObj [])
          (dict_setdefault ''policies'' (JArr [])
          (dict_setdefault ''constraints'' (JArr [])
          (dict_setdefault ''evidence'' (JArr [])
          (dict_setdefault ''decision_id'' (JStr ''unidentified-decision'') payload)))))))))"

section \<open>engine.py\<close>

text \<open>One entry of the list \<^verbatim>\<open>found\<close>: reason code, severity, subject.\<close>

type_synonym found = "json \<times> severity \<times> json"

definition emit_if :: "bool \<Rightarrow> 'a \<Rightarrow> 'a list" where
  "emit_if b x = (if b then [x] else [])"

definition item_ref :: "string \<Rightarrow> pydict \<Rightarrow> json" where
  "item_ref key d = dict_get d key (dict_get d ''id'' JNull)"

definition check_evidence :: "pydict \<Rightarrow> found list" where
  "check_evidence e =
     (let ref = item_ref ''evidence_id'' e;
          status = dict_get e ''status'' JNull
      in emit_if (\<not> truthy (dict_get e ''verifiable'' (JBool (status \<noteq> JStr ''UNVERIFIED''))))
           (JStr ''EVIDENCE_UNVERIFIABLE'', Sev_REVIEW, ref)
         @ emit_if (truthy (dict_get e ''fabricated'' (JBool False)))
           (JStr ''CITATION_FABRICATED'', Sev_BLOCK, ref)
         @ emit_if (truthy (dict_get e ''outdated'' (JBool (status = JStr ''OUTDATED''))))
           (JStr ''EVIDENCE_OUTDATED'', Sev_REVIEW, ref)
         @ emit_if (\<not> truthy (dict_get e ''supports_claim'' (JBool True)))
           (JStr ''SOURCE_CLAIM_MISMATCH'', Sev_REVIEW, ref)
         @ emit_if (truthy (dict_get e ''contradicts_claim'' (JBool (status = JStr ''CONFLICTING''))))
           (JStr ''EVIDENCE_CONFLICT'', Sev_REVIEW, ref)
         @ emit_if (status = JStr ''UNAVAILABLE'')
           (JStr ''MANDATORY_EVIDENCE_MISSING'', Sev_REVIEW, ref))"

definition check_constraint :: "pydict \<Rightarrow> found list" where
  "check_constraint c =
     (let ref = item_ref ''constraint_id'' c;
          mandatory = (dict_get c ''severity'' JNull = JStr ''MANDATORY'');
          hard = truthy (dict_get c ''hard'' (JBool mandatory));
          satisfied = truthy (dict_get c ''satisfied'' (JBool True))
      in if hard \<and> \<not> satisfied
         then [(JStr ''HARD_CONSTRAINT_VIOLATION'', Sev_BLOCK, ref)]
         else if dict_get c ''severity'' JNull = JStr ''REVIEW_REQUIRED'' \<and> \<not> satisfied
         then [(dict_get c ''reason_code'' (JStr ''CONSTRAINT_REQUIRES_REVIEW''), Sev_REVIEW, ref)]
         else [])"

definition check_policy :: "pydict \<Rightarrow> found list" where
  "check_policy p =
     emit_if (truthy (dict_get p ''requires_review'' (JBool False)))
       (JStr ''POLICY_REQUIRES_REVIEW'', Sev_REVIEW, item_ref ''policy_id'' p)"

definition check_conflict :: "pydict \<Rightarrow> found list" where
  "check_conflict c =
     (if truthy (dict_get c ''resolved'' (JBool False)) then []
      else if dict_get c ''severity'' JNull = JStr ''CRITICAL''
      then [(JStr ''CRITICAL_CONFLICT_UNRESOLVED'', Sev_BLOCK, dict_get c ''id'' JNull)]
      else [(JStr ''CONFLICT_UNRESOLVED'', Sev_REVIEW, dict_get c ''id'' JNull)])"

definition check_actors :: "pydict \<Rightarrow> found list" where
  "check_actors a =
     emit_if (truthy (dict_get a ''generator'' JNull) \<and>
           py_eq (dict_get a ''approver'' JNull) (dict_get a ''generator'' JNull))
       (JStr ''SEPARATION_OF_DUTIES_VIOLATION'', Sev_BLOCK, dict_get a ''generator'' JNull)"

text \<open>Run one check on every item of a list of dictionaries.\<close>

definition check_each :: "(pydict \<Rightarrow> found list) \<Rightarrow> json \<Rightarrow> found list result" where
  "check_each check items =
     bind_result (as_iter items) (\<lambda>xs.
     bind_result (traverse (\<lambda>x. bind_result (as_dict x) (\<lambda>d. Inr (check d))) xs) (\<lambda>fs.
     Inr (concat fs)))"

definition collect_found :: "pydict \<Rightarrow> found list result" where
  "collect_found data =
     bind_result (check_each check_evidence (dict_get data ''evidence'' JNull)) (\<lambda>f_evidence.
     bind_result
       (if truthy (dict_get data ''mandatory_evidence_missing'' JNull)
        then bind_result (as_dict (dict_get data ''risk'' JNull)) (\<lambda>risk.
               Inr [(JStr ''MANDATORY_EVIDENCE_MISSING'',
                     if truthy (dict_get risk ''high_impact'' (JBool False))
                     then Sev_BLOCK else Sev_REVIEW, JNull)])
        else Inr []) (\<lambda>f_missing.
     bind_result (check_each check_constraint (dict_get data ''constraints'' JNull)) (\<lambda>f_constraints.
     bind_result (check_each check_policy (dict_get data ''policies'' JNull)) (\<lambda>f_policies.
     bind_result (as_dict (dict_get data ''actors'' JNull)) (\<lambda>actors.
     bind_result (as_dict (dict_get data ''risk'' JNull)) (\<lambda>risk.
     bind_result (check_each check_conflict (dict_get data ''conflicts'' JNull)) (\<lambda>f_conflicts.
     Inr (f_evidence @ f_missing @ f_constraints @ f_policies @ check_actors actors
       @ emit_if (truthy (dict_get risk ''high_impact'' (JBool False)) \<and>
               truthy (dict_get risk ''unresolved_uncertainty'' (JBool False)))
           (JStr ''HIGH_IMPACT_UNCERTAINTY'', Sev_REVIEW, JNull)
       @ f_conflicts))))))))"

definition make_finding :: "string \<Rightarrow> nat \<times> found \<Rightarrow> finding" where
  "make_finding d entry = (case entry of (index, code, sev, ref) \<Rightarrow>
     \<lparr>finding_id = d @ '':finding:'' @ str_nat index, reason_code = code,
      finding_severity = sev,
      subject_ref = (if ref = JNull then None else Some (py_str ref)), detail = None\<rparr>)"

definition number_findings :: "string \<Rightarrow> found list \<Rightarrow> finding list" where
  "number_findings d found = map (make_finding d) (enumerate 1 found)"

text \<open>\<^verbatim>\<open>DecisionAssuranceEngine._validate\<close> and \<^verbatim>\<open>_govern\<close>.\<close>

definition validate_request :: "pydict \<Rightarrow> finding list result" where
  "validate_request data =
     bind_result (collect_found data) (\<lambda>found.
     Inr (number_findings (py_str (dict_get data ''decision_id'' JNull)) found))"

definition govern :: "finding list \<Rightarrow> outcome" where
  "govern findings =
     (if \<exists>f \<in> set findings. finding_severity f = Sev_BLOCK then BLOCK
      else if findings \<noteq> [] then REVIEW
      else PASS)"

definition evidence_refs :: "json \<Rightarrow> json list result" where
  "evidence_refs items =
     bind_result (as_iter items) (\<lambda>xs.
     bind_result (traverse as_dict xs) (\<lambda>ds.
     Inr (map (\<lambda>d. JStr (py_str (item_ref ''evidence_id'' d)))
            (filter (\<lambda>d. item_ref ''evidence_id'' d \<noteq> JNull) ds))))"

text \<open>
  \<^verbatim>\<open>DecisionAssuranceEngine.assess\<close>. The clock is read once per ledger event and once for
  the report: reading \<open>n\<close> is the one made after \<open>n\<close> events.
\<close>

definition record_findings ::
  "digest \<Rightarrow> (nat \<Rightarrow> string) \<Rightarrow> finding list \<Rightarrow> audit_ledger \<Rightarrow> audit_ledger" where
  "record_findings sha now fs l =
     fold (\<lambda>f. ledger_append sha now ''finding.created'' (finding_as_dict f)) fs l"

definition assess ::
  "digest \<Rightarrow> (nat \<Rightarrow> string) \<Rightarrow> string \<Rightarrow> pydict \<Rightarrow> assessment_result result" where
  "assess sha clock engine_version payload =
     (let data = normalize payload;
          did = py_str (dict_get data ''decision_id'' JNull);
          l1 = ledger_append sha clock ''decision.received'' (JObj data) (new_ledger did)
      in bind_result (validate_request data) (\<lambda>findings.
         bind_result
           (if findings \<noteq> [] then fromkeys_json (map reason_code findings)
            else Inr [JStr ''ALL_REQUIRED_CHECKS_SATISFIED'']) (\<lambda>reason_codes.
         bind_result (evidence_refs (dict_get data ''evidence'' JNull)) (\<lambda>refs.
           let l2 = ledger_append sha clock ''evidence.validated''
                  (JObj [(''evidence'', dict_get data ''evidence'' JNull),
                         (''valid'', JBool (findings = []))]) l1;
               l3 = record_findings sha clock findings l2;
               outcome = govern findings;
               l4 = ledger_append sha clock ''governance.decided''
                  (JObj [(''outcome'', JStr (outcome_value outcome)),
                         (''reason_codes'', JArr reason_codes)]) l3;
               review_ref = (if outcome = REVIEW then Some (did @ '':review:1'') else None);
               l5 = (case review_ref of None \<Rightarrow> l4
                     | Some r \<Rightarrow> ledger_append sha clock ''review.requested''
                         (JObj [(''review_id'', JStr r), (''reason_codes'', JArr reason_codes)]) l4);
               report = [
                 (''report_id'', JStr (did @ '':report:1'')),
                 (''decision_id'', JStr did),
                 (''outcome'', JStr (outcome_value outcome)),
                 (''reason_codes'', JArr reason_codes),
                 (''finding_refs'', JArr (map (\<lambda>f. JStr (finding_id f)) findings)),
                 (''evidence_refs'', JArr refs),
                 (''review_ref'', json_opt review_ref),
                 (''audit_ref'', JStr (did @ '':audit'')),
                 (''created_at'', JStr (clock (length (ledger_events l5)))),
                 (''limitations'', JArr []),
                 (''versions'', JObj [
                    (''das'', JStr ''0.1.0''),
                    (''policy'', JStr (py_str (dict_get data ''policy_version'' JNull))),
                    (''engine'', JStr engine_version)])]
           in Inr \<lparr>result_outcome = outcome, result_reason_codes = reason_codes,
                   result_human_review = (outcome = REVIEW), result_findings = findings,
                   result_report = report, result_audit_events = ledger_events l5\<rparr>))))"

text \<open>\<^verbatim>\<open>evaluate\<close>: the compatibility entry point.\<close>

definition engine_evaluate :: "digest \<Rightarrow> (nat \<Rightarrow> string) \<Rightarrow> pydict \<Rightarrow> json result" where
  "engine_evaluate sha clock payload =
     bind_result (assess sha clock ''0.1.0'' payload) (\<lambda>r. Inr (benchmark_result r))"

section \<open>Lemmas\<close>

lemma severity_not [simp]:
  "s \<noteq> Sev_BLOCK \<longleftrightarrow> s = Sev_REVIEW" "s \<noteq> Sev_REVIEW \<longleftrightarrow> s = Sev_BLOCK"
  by (cases s; simp)+

lemma govern_simps [simp]:
  "govern fs = PASS \<longleftrightarrow> fs = []"
  "govern fs = BLOCK \<longleftrightarrow> (\<exists>f \<in> set fs. finding_severity f = Sev_BLOCK)"
  "govern fs = REVIEW \<longleftrightarrow> fs \<noteq> [] \<and> (\<forall>f \<in> set fs. finding_severity f = Sev_REVIEW)"
  by (auto simp: govern_def)

lemma number_findings_Nil [simp]: "number_findings d found = [] \<longleftrightarrow> found = []"
  by (cases found) (simp_all add: number_findings_def)

lemma length_number_findings [simp]: "length (number_findings d found) = length found"
  by (simp add: number_findings_def)

lemma make_finding_enumerate:
  "map reason_code (map (make_finding d) (enumerate n found)) = map fst found"
  "map finding_severity (map (make_finding d) (enumerate n found)) = map (fst \<circ> snd) found"
  "map finding_id (map (make_finding d) (enumerate n found)) =
     map (\<lambda>i. d @ '':finding:'' @ str_nat i) [n..<n + length found]"
proof (induction found arbitrary: n)
  case (Cons x found)
  {
    case 1
    show ?case using Cons(1) [of "Suc n"] by (simp add: make_finding_def split: prod.splits)
  next
    case 2
    show ?case using Cons(2) [of "Suc n"] by (simp add: make_finding_def split: prod.splits)
  next
    case 3
    show ?case using Cons(3) [of "Suc n"]
      by (simp add: make_finding_def upt_conv_Cons del: upt_Suc split: prod.splits)
  }
qed simp_all

lemma number_findings_fields:
  "map reason_code (number_findings d found) = map fst found"
  "map finding_severity (number_findings d found) = map (fst \<circ> snd) found"
  "map finding_id (number_findings d found) =
     map (\<lambda>i. d @ '':finding:'' @ str_nat i) [1..<Suc (length found)]"
  using make_finding_enumerate [of d 1 found] by (simp_all add: number_findings_def del: upt_Suc)

lemma record_findings_types [simp]:
  "map le_event_type (ledger_events (record_findings sha now fs l)) =
     map le_event_type (ledger_events l) @ replicate (length fs) ''finding.created''"
  by (induction fs arbitrary: l)
    (simp_all add: record_findings_def replicate_append_same [symmetric])

lemma record_findings_linked [simp]:
  "linked (ledger_event_hash sha) le_previous_event_hash
     (ledger_events (record_findings sha now fs l)) \<longleftrightarrow>
   linked (ledger_event_hash sha) le_previous_event_hash (ledger_events l)"
  by (induction fs arbitrary: l) (simp_all add: record_findings_def)

text \<open>What a completed assessment consists of.\<close>

lemma assess_InrD:
  assumes "assess sha clock v payload = Inr r"
  obtains fs where
    "validate_request (normalize payload) = Inr fs" "result_findings r = fs"
    "result_outcome r = govern fs" "result_human_review r \<longleftrightarrow> govern fs = REVIEW"
    "if fs = [] then result_reason_codes r = [JStr ''ALL_REQUIRED_CHECKS_SATISFIED'']
     else fromkeys_json (map reason_code fs) = Inr (result_reason_codes r)"
    "map le_event_type (result_audit_events r) =
       [''decision.received'', ''evidence.validated''] @ replicate (length fs) ''finding.created''
       @ [''governance.decided''] @ emit_if (govern fs = REVIEW) ''review.requested''"
    "linked (ledger_event_hash sha) le_previous_event_hash (result_audit_events r)"
proof -
  from assms obtain fs rcs refs where fs: "validate_request (normalize payload) = Inr fs"
    and rcs: "(if fs \<noteq> [] then fromkeys_json (map reason_code fs)
               else Inr [JStr ''ALL_REQUIRED_CHECKS_SATISFIED'']) = Inr rcs"
    and refs: "evidence_refs (dict_get (normalize payload) ''evidence'' JNull) = Inr refs"
    unfolding assess_def Let_def bind_result_Inr_iff by blast
  show ?thesis
  proof (rule that [OF fs])
  qed (use assms in \<open>simp_all add: assess_def Let_def fs rcs refs emit_if_def\<close>,
       use rcs in \<open>auto split: if_splits\<close>)
qed

end
