(* ===== verification/DecisionFile.thy ===== *)
theory DecisionFile
  imports Engine
begin

text \<open>
  The Decision File: its contract (\<^verbatim>\<open>schemas/decision-file.schema.json\<close>), its digests,
  its semantic validation, the migration from v0.1 and its evaluation by the engine
  (\<^verbatim>\<open>decision_file.py\<close>). A document that has passed the contract has the shape of the
  record \<open>decision_file\<close>; the conditions of the contract that the types do not express are
  \<open>decision_file_schema\<close>.

  What the sources take from libraries is the record \<open>runtime\<close>: the SHA-256 hex digest,
  \<^verbatim>\<open>datetime.fromisoformat\<close> (after \<^verbatim>\<open>Z\<close> has become \<^verbatim>\<open>+00:00\<close>; \<open>None\<close> where it
  raises) and the check of JSON Schema's \<^verbatim>\<open>date-time\<close> format. Theorems hold for every
  runtime.
\<close>

section \<open>Library functions\<close>

text \<open>Comparing a datetime that has a time zone with one that has none raises.\<close>

datatype pydatetime = Aware int | Naive int

fun datetime_less :: "pydatetime \<Rightarrow> pydatetime \<Rightarrow> bool result" where
  "datetime_less (Aware a) (Aware b) = Inr (a < b)"
| "datetime_less (Naive a) (Naive b) = Inr (a < b)"
| "datetime_less _ _ = Inl TypeError"

record runtime =
  sha256 :: digest
  fromisoformat :: "string \<Rightarrow> pydatetime option"
  date_time_format :: "string \<Rightarrow> bool"

definition parse_datetime :: "runtime \<Rightarrow> string \<Rightarrow> pydatetime result" where
  "parse_datetime R s =
     (case fromisoformat R s of None \<Rightarrow> Inl (ValueError ''Invalid isoformat string'') | Some t \<Rightarrow> Inr t)"

section \<open>The document\<close>

datatype case_status = DRAFT | VALIDATION | IN_REVIEW | APPROVED | BLOCKED

fun case_status_value :: "case_status \<Rightarrow> string" where
  "case_status_value DRAFT = ''DRAFT''"
| "case_status_value VALIDATION = ''VALIDATION''"
| "case_status_value IN_REVIEW = ''REVIEW''"
| "case_status_value APPROVED = ''APPROVED''"
| "case_status_value BLOCKED = ''BLOCKED''"

datatype evidence_status = VERIFIED | UNVERIFIED | OUTDATED | CONFLICTING | FABRICATED | UNAVAILABLE

fun evidence_status_value :: "evidence_status \<Rightarrow> string" where
  "evidence_status_value VERIFIED = ''VERIFIED''"
| "evidence_status_value UNVERIFIED = ''UNVERIFIED''"
| "evidence_status_value OUTDATED = ''OUTDATED''"
| "evidence_status_value CONFLICTING = ''CONFLICTING''"
| "evidence_status_value FABRICATED = ''FABRICATED''"
| "evidence_status_value UNAVAILABLE = ''UNAVAILABLE''"

datatype constraint_severity = MANDATORY | REVIEW_REQUIRED | ADVISORY

fun constraint_severity_value :: "constraint_severity \<Rightarrow> string" where
  "constraint_severity_value MANDATORY = ''MANDATORY''"
| "constraint_severity_value REVIEW_REQUIRED = ''REVIEW_REQUIRED''"
| "constraint_severity_value ADVISORY = ''ADVISORY''"

datatype level = LOW | MEDIUM | HIGH | CRITICAL

fun level_value :: "level \<Rightarrow> string" where
  "level_value LOW = ''LOW''"
| "level_value MEDIUM = ''MEDIUM''"
| "level_value HIGH = ''HIGH''"
| "level_value CRITICAL = ''CRITICAL''"

datatype reversibility = READ_ONLY | REVERSIBLE | EXTERNALLY_REVERSIBLE | IRREVERSIBLE

fun reversibility_value :: "reversibility \<Rightarrow> string" where
  "reversibility_value READ_ONLY = ''READ_ONLY''"
| "reversibility_value REVERSIBLE = ''REVERSIBLE''"
| "reversibility_value EXTERNALLY_REVERSIBLE = ''EXTERNALLY_REVERSIBLE''"
| "reversibility_value IRREVERSIBLE = ''IRREVERSIBLE''"

text \<open>An actor's role and kind are strings: an actor is also an input of its own.\<close>

record actor =
  act_id :: string
  act_role :: string
  act_kind :: string

record claim =
  claim_id :: string
  claim_statement :: string
  mandatory_evidence :: bool

record evidence_item =
  ev_id :: string
  ev_claim_refs :: "string list"
  ev_source_ref :: string
  ev_status :: evidence_status
  ev_observed_at :: "string option"
  ev_content_hash :: "string option"

record assumption =
  as_id :: string
  as_statement :: string
  as_status :: string

record constraint =
  con_id :: string
  con_severity :: constraint_severity
  con_satisfied :: bool
  con_reason_code :: string

record policy_ref =
  pol_id :: string
  pol_version :: string
  pol_requires_review :: bool

record risk =
  risk_id :: string
  risk_level :: level
  risk_unresolved :: bool

record conflict =
  cf_id :: string
  cf_severity :: level
  cf_resolved :: bool
  cf_description :: "string option"

record validation_result =
  val_validator :: actor
  val_result :: outcome
  val_reason_codes :: "string list"
  val_validated_at :: string

record review_requirement =
  rr_id :: string
  rr_required_role :: string
  rr_mandatory :: bool
  rr_satisfied :: bool

record canonical_action =
  ca_action_id :: string
  ca_action_type :: string
  ca_effect :: string
  ca_target_type :: string
  ca_target_id :: string
  ca_parameters :: pydict
  ca_reversibility :: reversibility
  ca_tenant_id :: string
  ca_execution_context_hash :: string
  ca_canonical_digest :: string

datatype approval_decision = APPROVE | REJECT

fun approval_decision_value :: "approval_decision \<Rightarrow> string" where
  "approval_decision_value APPROVE = ''APPROVE''"
| "approval_decision_value REJECT = ''REJECT''"

record approval =
  ap_requirement_ref :: string
  ap_approver :: actor
  ap_decision :: approval_decision
  ap_decided_at :: string
  ap_action_digest :: "string option"
  ap_nonce :: string
  ap_approval_digest :: string

record audit_event =
  ae_event_id :: string
  ae_event_type :: string
  ae_occurred_at :: string
  ae_actor :: actor
  ae_from_status :: "case_status option"
  ae_to_status :: case_status
  ae_reason_codes :: "string list"
  ae_payload_hash :: string
  ae_previous_event_hash :: "string option"
  ae_tenant_id :: "string option"
  ae_correlation_id :: "string option"
  ae_source_channel :: "string option"

record decision_file =
  df_schema_version :: string
  df_decision_id :: string
  df_title :: string
  df_description :: string
  df_use_case :: string
  df_status :: case_status
  df_assurance_level :: string
  df_created_at :: string
  df_updated_at :: string
  df_created_by :: actor
  df_requested_by :: actor
  df_current_owner :: actor
  df_canonical_action :: "canonical_action option"
  df_claims :: "claim list"
  df_evidence :: "evidence_item list"
  df_assumptions :: "assumption list"
  df_constraints :: "constraint list"
  df_policies :: "policy_ref list"
  df_risks :: "risk list"
  df_conflicts :: "conflict list"
  df_validation_results :: "validation_result list"
  df_review_requirements :: "review_requirement list"
  df_approvals :: "approval list"
  df_decision_outcome :: "outcome option"
  df_outcome_reasons :: "string list"
  df_audit_events :: "audit_event list"

section \<open>JSON of the parts\<close>

definition jstrs :: "string list \<Rightarrow> json" where
  "jstrs ss = JArr (map JStr ss)"

definition actor_json :: "actor \<Rightarrow> json" where
  "actor_json a = JObj [(''id'', JStr (act_id a)), (''role'', JStr (act_role a)),
     (''kind'', JStr (act_kind a))]"

definition claim_json :: "claim \<Rightarrow> json" where
  "claim_json c = JObj [(''id'', JStr (claim_id c)), (''statement'', JStr (claim_statement c)),
     (''mandatory_evidence'', JBool (mandatory_evidence c))]"

definition evidence_json :: "evidence_item \<Rightarrow> json" where
  "evidence_json e = JObj ([(''id'', JStr (ev_id e)), (''claim_refs'', jstrs (ev_claim_refs e)),
     (''source_ref'', JStr (ev_source_ref e)),
     (''status'', JStr (evidence_status_value (ev_status e)))]
     @ opt_member ''observed_at'' (ev_observed_at e)
     @ opt_member ''content_hash'' (ev_content_hash e))"

definition assumption_json :: "assumption \<Rightarrow> json" where
  "assumption_json a = JObj [(''id'', JStr (as_id a)), (''statement'', JStr (as_statement a)),
     (''status'', JStr (as_status a))]"

definition constraint_json :: "constraint \<Rightarrow> json" where
  "constraint_json c = JObj [(''id'', JStr (con_id c)),
     (''severity'', JStr (constraint_severity_value (con_severity c))),
     (''satisfied'', JBool (con_satisfied c)), (''reason_code'', JStr (con_reason_code c))]"

definition policy_json :: "policy_ref \<Rightarrow> json" where
  "policy_json p = JObj [(''id'', JStr (pol_id p)), (''version'', JStr (pol_version p)),
     (''requires_review'', JBool (pol_requires_review p))]"

definition risk_json :: "risk \<Rightarrow> json" where
  "risk_json r = JObj [(''id'', JStr (risk_id r)), (''level'', JStr (level_value (risk_level r))),
     (''unresolved'', JBool (risk_unresolved r))]"

definition conflict_json :: "conflict \<Rightarrow> json" where
  "conflict_json c = JObj ([(''id'', JStr (cf_id c)),
     (''severity'', JStr (level_value (cf_severity c))), (''resolved'', JBool (cf_resolved c))]
     @ opt_member ''description'' (cf_description c))"

definition validation_json :: "validation_result \<Rightarrow> json" where
  "validation_json v = JObj [(''validator'', actor_json (val_validator v)),
     (''result'', JStr (outcome_value (val_result v))),
     (''reason_codes'', jstrs (val_reason_codes v)), (''validated_at'', JStr (val_validated_at v))]"

definition requirement_json :: "review_requirement \<Rightarrow> json" where
  "requirement_json r = JObj [(''id'', JStr (rr_id r)),
     (''required_role'', JStr (rr_required_role r)), (''mandatory'', JBool (rr_mandatory r)),
     (''satisfied'', JBool (rr_satisfied r))]"

text \<open>The members of a canonical action, without its digest.\<close>

definition action_members :: "canonical_action \<Rightarrow> pydict" where
  "action_members a = [
     (''action_id'', JStr (ca_action_id a)),
     (''action_type'', JStr (ca_action_type a)),
     (''effect'', JStr (ca_effect a)),
     (''target'', JObj [(''type'', JStr (ca_target_type a)), (''id'', JStr (ca_target_id a))]),
     (''parameters'', JObj (ca_parameters a)),
     (''reversibility_class'', JStr (reversibility_value (ca_reversibility a))),
     (''tenant_id'', JStr (ca_tenant_id a)),
     (''execution_context_hash'', JStr (ca_execution_context_hash a))]"

definition approval_json :: "approval \<Rightarrow> json" where
  "approval_json a = JObj [
     (''requirement_ref'', JStr (ap_requirement_ref a)),
     (''approver'', actor_json (ap_approver a)),
     (''decision'', JStr (approval_decision_value (ap_decision a))),
     (''decided_at'', JStr (ap_decided_at a)),
     (''action_digest'', json_opt (ap_action_digest a)),
     (''nonce'', JStr (ap_nonce a)),
     (''approval_digest'', JStr (ap_approval_digest a))]"

definition audit_event_json :: "audit_event \<Rightarrow> json" where
  "audit_event_json e = JObj ([
     (''event_id'', JStr (ae_event_id e)),
     (''event_type'', JStr (ae_event_type e)),
     (''occurred_at'', JStr (ae_occurred_at e)),
     (''actor'', actor_json (ae_actor e)),
     (''from_status'', json_opt (map_option case_status_value (ae_from_status e))),
     (''to_status'', JStr (case_status_value (ae_to_status e))),
     (''reason_codes'', jstrs (ae_reason_codes e)),
     (''payload_hash'', JStr (ae_payload_hash e)),
     (''previous_event_hash'', json_opt (ae_previous_event_hash e))]
     @ opt_member ''tenant_id'' (ae_tenant_id e)
     @ opt_member ''correlation_id'' (ae_correlation_id e)
     @ opt_member ''source_channel'' (ae_source_channel e))"

definition decision_json :: "decision_file \<Rightarrow> json" where
  "decision_json d = JObj [
     (''schema_version'', JStr (df_schema_version d)),
     (''decision_id'', JStr (df_decision_id d)),
     (''title'', JStr (df_title d)),
     (''description'', JStr (df_description d)),
     (''use_case'', JStr (df_use_case d)),
     (''status'', JStr (case_status_value (df_status d))),
     (''assurance_level'', JStr (df_assurance_level d)),
     (''created_at'', JStr (df_created_at d)),
     (''updated_at'', JStr (df_updated_at d)),
     (''created_by'', actor_json (df_created_by d)),
     (''requested_by'', actor_json (df_requested_by d)),
     (''current_owner'', actor_json (df_current_owner d)),
     (''canonical_action'', case df_canonical_action d of None \<Rightarrow> JNull
        | Some a \<Rightarrow> JObj (action_members a @ [(''canonical_digest'', JStr (ca_canonical_digest a))])),
     (''claims'', JArr (map claim_json (df_claims d))),
     (''evidence'', JArr (map evidence_json (df_evidence d))),
     (''assumptions'', JArr (map assumption_json (df_assumptions d))),
     (''constraints'', JArr (map constraint_json (df_constraints d))),
     (''policies'', JArr (map policy_json (df_policies d))),
     (''risks'', JArr (map risk_json (df_risks d))),
     (''conflicts'', JArr (map conflict_json (df_conflicts d))),
     (''validation_results'', JArr (map validation_json (df_validation_results d))),
     (''review_requirements'', JArr (map requirement_json (df_review_requirements d))),
     (''approvals'', JArr (map approval_json (df_approvals d))),
     (''decision_outcome'', json_opt (map_option outcome_value (df_decision_outcome d))),
     (''outcome_reasons'', jstrs (df_outcome_reasons d)),
     (''audit_events'', JArr (map audit_event_json (df_audit_events d)))]"

section \<open>The contract\<close>

definition len_between :: "nat \<Rightarrow> nat \<Rightarrow> string \<Rightarrow> bool" where
  "len_between lo hi s = (lo \<le> length s \<and> length s \<le> hi)"

text \<open>A pattern matched with \<^verbatim>\<open>re.search\<close>: one final newline is tolerated.\<close>

definition search_tail :: "(string \<Rightarrow> bool) \<Rightarrow> string \<Rightarrow> bool" where
  "search_tail p s = (p s \<or> (s \<noteq> [] \<and> last s = CHR 0x0A \<and> p (butlast s)))"

definition is_lower_hex :: "char \<Rightarrow> bool" where
  "is_lower_hex c = (is_digit c \<or> c \<in> set ''abcdef'')"

definition sha256_pattern :: "string \<Rightarrow> bool" where
  "sha256_pattern s =
     (py_startswith s ''sha256:'' \<and> length s = 71 \<and> list_all is_lower_hex (drop 7 s))"

definition nonce_pattern :: "string \<Rightarrow> bool" where
  "nonce_pattern s = (len_between 22 128 s \<and> list_all (\<lambda>c. is_alnum c \<or> c \<in> set ''_-'') s)"

definition actor_schema :: "actor \<Rightarrow> bool" where
  "actor_schema a =
     (act_id a \<noteq> [] \<and>
      act_role a \<in> {''GENERATOR'', ''VALIDATOR'', ''REVIEWER'', ''APPROVER'', ''OWNER'', ''SYSTEM''} \<and>
      act_kind a \<in> {''HUMAN'', ''AGENT'', ''SERVICE''})"

definition action_schema :: "canonical_action \<Rightarrow> bool" where
  "action_schema a =
     (id_search ''._-'' 127 (ca_action_id a) \<and> len_between 1 128 (ca_action_type a) \<and>
      len_between 1 500 (ca_effect a) \<and> len_between 1 128 (ca_target_type a) \<and>
      len_between 1 512 (ca_target_id a) \<and> len_between 1 128 (ca_tenant_id a) \<and>
      search_tail sha256_pattern (ca_execution_context_hash a) \<and>
      search_tail sha256_pattern (ca_canonical_digest a))"

definition evidence_schema :: "runtime \<Rightarrow> evidence_item \<Rightarrow> bool" where
  "evidence_schema R e =
     (ev_id e \<noteq> [] \<and> ev_claim_refs e \<noteq> [] \<and> distinct (ev_claim_refs e) \<and>
      ev_source_ref e \<noteq> [] \<and>
      (case ev_observed_at e of None \<Rightarrow> True | Some t \<Rightarrow> date_time_format R t))"

definition validation_schema :: "runtime \<Rightarrow> validation_result \<Rightarrow> bool" where
  "validation_schema R v =
     (actor_schema (val_validator v) \<and> distinct (val_reason_codes v) \<and>
      date_time_format R (val_validated_at v))"

definition approval_schema :: "runtime \<Rightarrow> approval \<Rightarrow> bool" where
  "approval_schema R a =
     (ap_requirement_ref a \<noteq> [] \<and> actor_schema (ap_approver a) \<and>
      date_time_format R (ap_decided_at a) \<and>
      (case ap_action_digest a of None \<Rightarrow> True | Some h \<Rightarrow> search_tail sha256_pattern h) \<and>
      search_tail nonce_pattern (ap_nonce a) \<and>
      search_tail sha256_pattern (ap_approval_digest a))"

definition audit_event_schema :: "runtime \<Rightarrow> audit_event \<Rightarrow> bool" where
  "audit_event_schema R e =
     (date_time_format R (ae_occurred_at e) \<and> actor_schema (ae_actor e) \<and>
      distinct (ae_reason_codes e) \<and>
      (case ae_source_channel e of None \<Rightarrow> True
       | Some c \<Rightarrow> c \<in> {''api'', ''cli'', ''filesystem''}))"

definition decision_file_schema :: "runtime \<Rightarrow> decision_file \<Rightarrow> bool" where
  "decision_file_schema R d =
     (df_schema_version d = ''0.2.0'' \<and>
      id_search ''._-'' 127 (df_decision_id d) \<and>
      len_between 1 200 (df_title d) \<and> df_description d \<noteq> [] \<and> len_between 1 100 (df_use_case d) \<and>
      df_assurance_level d \<in> {''BASIC'', ''STANDARD'', ''HIGH''} \<and>
      date_time_format R (df_created_at d) \<and> date_time_format R (df_updated_at d) \<and>
      actor_schema (df_created_by d) \<and> actor_schema (df_requested_by d) \<and>
      actor_schema (df_current_owner d) \<and>
      (case df_canonical_action d of None \<Rightarrow> True | Some a \<Rightarrow> action_schema a) \<and>
      df_claims d \<noteq> [] \<and>
      list_all (\<lambda>c. claim_id c \<noteq> [] \<and> claim_statement c \<noteq> []) (df_claims d) \<and>
      list_all (evidence_schema R) (df_evidence d) \<and>
      list_all (\<lambda>a. as_statement a \<noteq> [] \<and> as_status a \<in> {''ACCEPTED'', ''UNVERIFIED'', ''REJECTED''})
        (df_assumptions d) \<and>
      list_all (\<lambda>c. con_reason_code c \<noteq> []) (df_constraints d) \<and>
      list_all (validation_schema R) (df_validation_results d) \<and>
      list_all (\<lambda>r. rr_required_role r \<in> {''REVIEWER'', ''APPROVER''}) (df_review_requirements d) \<and>
      list_all (approval_schema R) (df_approvals d) \<and>
      list_all (\<lambda>r. r \<noteq> []) (df_outcome_reasons d) \<and> distinct (df_outcome_reasons d) \<and>
      list_all (audit_event_schema R) (df_audit_events d))"

definition contract_validate :: "runtime \<Rightarrow> decision_file \<Rightarrow> unit result" where
  "contract_validate R d = ensure (decision_file_schema R d) ContractValidationError"

lemma contract_validate_Inr_iff [monad_simps]:
  "contract_validate R d = Inr u \<longleftrightarrow> decision_file_schema R d"
  by (simp add: contract_validate_def monad_simps)

end
