(* ===== verification/DecisionSemantics.thy ===== *)
theory DecisionSemantics
  imports DecisionFile
begin

text \<open>
  The operations of \<^verbatim>\<open>decision_file.py\<close>: digests that bind an action and an approval,
  migration from v0.1, semantic validation and evaluation. The lemmas characterise a
  semantically valid document and the outcome of its evaluation directly in terms of the
  document, and show that an approval digest binds every field it covers.
\<close>

section \<open>Digests\<close>

definition canonical_action_digest :: "runtime \<Rightarrow> canonical_action \<Rightarrow> string" where
  "canonical_action_digest R a = payload_hash (sha256 R) (JObj (action_members a))"

definition bind_canonical_action :: "runtime \<Rightarrow> canonical_action \<Rightarrow> canonical_action" where
  "bind_canonical_action R a = a\<lparr>ca_canonical_digest := canonical_action_digest R a\<rparr>"

definition approval_payload :: "decision_file \<Rightarrow> approval \<Rightarrow> json" where
  "approval_payload d a = JObj [
     (''decision_id'', JStr (df_decision_id d)),
     (''requested_by'', actor_json (df_requested_by d)),
     (''requirement_ref'', JStr (ap_requirement_ref a)),
     (''approver'', actor_json (ap_approver a)),
     (''decision'', JStr (approval_decision_value (ap_decision a))),
     (''decided_at'', JStr (ap_decided_at a)),
     (''action_digest'', json_opt (ap_action_digest a)),
     (''nonce'', JStr (ap_nonce a))]"

definition approval_digest :: "runtime \<Rightarrow> decision_file \<Rightarrow> approval \<Rightarrow> string" where
  "approval_digest R d a = payload_hash (sha256 R) (approval_payload d a)"

definition bind_approval :: "runtime \<Rightarrow> decision_file \<Rightarrow> approval \<Rightarrow> approval" where
  "bind_approval R d a = a\<lparr>ap_approval_digest := approval_digest R d a\<rparr>"

section \<open>Semantic validation\<close>

text \<open>The messages about one approval, in the order of the checks.\<close>

definition approval_errors ::
  "runtime \<Rightarrow> decision_file \<Rightarrow> string option \<Rightarrow> approval \<Rightarrow> string list" where
  "approval_errors R d expected_action_digest item =
     (let approver = ap_approver item;
          label = ''approval '' @ ap_requirement_ref item;
          requirement = dict_of rr_id (df_review_requirements d) (ap_requirement_ref item)
      in emit_if (case requirement of None \<Rightarrow> False | Some r \<Rightarrow> act_role approver \<noteq> rr_required_role r)
           (label @ '' approver role does not match requirement'')
         @ emit_if (act_kind approver \<noteq> ''HUMAN'') (label @ '' requires a human approver'')
         @ emit_if (act_id approver \<in> {act_id (df_created_by d), act_id (df_requested_by d)})
           (label @ '' violates actor independence'')
         @ emit_if (ap_action_digest item \<noteq> expected_action_digest)
           (label @ '' is not bound to canonical_action'')
         @ emit_if (ap_approval_digest item \<noteq> approval_digest R d item)
           (label @ '' digest does not match approval''))"

definition action_errors :: "runtime \<Rightarrow> decision_file \<Rightarrow> string list" where
  "action_errors R d =
     (case df_canonical_action d of None \<Rightarrow> []
      | Some a \<Rightarrow>
          emit_if (ca_canonical_digest a \<noteq> canonical_action_digest R a)
            ''canonical_action digest does not match canonical content''
          @ emit_if (ca_reversibility a \<noteq> READ_ONLY \<and>
              \<not> list_ex (\<lambda>r. rr_mandatory r \<and> rr_required_role r = ''APPROVER'')
                  (df_review_requirements d))
            ''non-read-only canonical_action requires a mandatory APPROVER review'')"

definition unknown_claims :: "decision_file \<Rightarrow> string list" where
  "unknown_claims d =
     py_sorted_set (filter (\<lambda>ref. ref \<notin> set (map claim_id (df_claims d)))
       (concat (map ev_claim_refs (df_evidence d))))"

definition unknown_requirements :: "decision_file \<Rightarrow> string list" where
  "unknown_requirements d =
     py_sorted_set (filter (\<lambda>ref. ref \<notin> set (map rr_id (df_review_requirements d)))
       (map ap_requirement_ref (df_approvals d)))"

definition expected_action_digest :: "decision_file \<Rightarrow> string option" where
  "expected_action_digest d = map_option ca_canonical_digest (df_canonical_action d)"

definition semantic_errors :: "runtime \<Rightarrow> decision_file \<Rightarrow> string list result" where
  "semantic_errors R d =
     bind_result (parse_datetime R (df_updated_at d)) (\<lambda>updated.
     bind_result (parse_datetime R (df_created_at d)) (\<lambda>created.
     bind_result (datetime_less updated created) (\<lambda>earlier.
     Inr (
       emit_if earlier ''updated_at must not be earlier than created_at''
       @ emit_if (\<not> distinct (map claim_id (df_claims d))) ''claims contain duplicate ids''
       @ emit_if (\<not> distinct (map ev_id (df_evidence d))) ''evidence contains duplicate ids''
       @ emit_if (unknown_claims d \<noteq> [])
           (''evidence references unknown claims: '' @ py_join '', '' (unknown_claims d))
       @ emit_if (unknown_requirements d \<noteq> [])
           (''approvals reference unknown requirements: '' @ py_join '', '' (unknown_requirements d))
       @ action_errors R d
       @ emit_if (\<not> distinct (map ap_nonce (df_approvals d))) ''approvals contain a reused nonce''
       @ emit_if (df_approvals d \<noteq> [] \<and> df_status d \<notin> {IN_REVIEW, APPROVED, BLOCKED})
           ''approvals are not allowed before REVIEW''
       @ concat (map (approval_errors R d (expected_action_digest d)) (df_approvals d))))))"

definition validate_semantics :: "runtime \<Rightarrow> decision_file \<Rightarrow> unit result" where
  "validate_semantics R d =
     bind_result (semantic_errors R d) (\<lambda>errors.
     ensure (errors = []) (DecisionFileSemanticError errors))"

text \<open>
  \<^verbatim>\<open>load_decision_file\<close> after the file has been read and parsed: contract, then semantics.
\<close>

definition check_document :: "runtime \<Rightarrow> decision_file \<Rightarrow> unit result" where
  "check_document R d =
     bind_result (contract_validate R d) (\<lambda>_. validate_semantics R d)"

section \<open>Migration from v0.1\<close>

text \<open>
  A v0.1 document has no \<^verbatim>\<open>requested_by\<close> and no \<^verbatim>\<open>canonical_action\<close>; the record's values
  of these fields are overwritten.
\<close>

definition migrate_decision_file_v0_1_to_v0_2 ::
  "runtime \<Rightarrow> decision_file \<Rightarrow> decision_file result" where
  "migrate_decision_file_v0_1_to_v0_2 R d =
     bind_result (ensure (df_schema_version d = ''0.1.0'')
       (DecisionFileSemanticError [''migration requires schema_version 0.1.0''])) (\<lambda>_.
     bind_result (ensure (df_approvals d = [])
       (DecisionFileSemanticError [''v0.1 approvals require independent re-approval''])) (\<lambda>_.
     let migrated = d\<lparr>df_schema_version := ''0.2.0'', df_requested_by := df_created_by d,
           df_canonical_action := None\<rparr>
     in bind_result (contract_validate R migrated) (\<lambda>_.
        bind_result (validate_semantics R migrated) (\<lambda>_.
        Inr migrated))))"

section \<open>Evaluation\<close>

definition mandatory_evidence_missing :: "decision_file \<Rightarrow> bool" where
  "mandatory_evidence_missing d =
     list_ex (\<lambda>c. mandatory_evidence c \<and>
        \<not> list_ex (\<lambda>e. claim_id c \<in> set (ev_claim_refs e) \<and> ev_status e \<noteq> UNAVAILABLE)
            (df_evidence d)) (df_claims d)"

definition high_impact :: "decision_file \<Rightarrow> bool" where
  "high_impact d = list_ex (\<lambda>r. risk_level r \<in> {HIGH, CRITICAL}) (df_risks d)"

definition unresolved_uncertainty :: "decision_file \<Rightarrow> bool" where
  "unresolved_uncertainty d = list_ex risk_unresolved (df_risks d)"

definition document_actors :: "decision_file \<Rightarrow> pydict" where
  "document_actors d =
     (''generator'', JStr (act_id (df_created_by d))) #
     (case last_opt (df_approvals d) of None \<Rightarrow> []
      | Some a \<Rightarrow> [(''approver'', JStr (act_id (ap_approver a)))])"

definition evidence_request :: "evidence_item \<Rightarrow> json" where
  "evidence_request e = JObj [
     (''id'', JStr (ev_id e)),
     (''status'', JStr (evidence_status_value (ev_status e))),
     (''fabricated'', JBool (ev_status e = FABRICATED))]"

definition evaluation_request :: "decision_file \<Rightarrow> pydict" where
  "evaluation_request d = [
     (''decision_id'', JStr (df_decision_id d)),
     (''evidence'', JArr (map evidence_request (df_evidence d))),
     (''mandatory_evidence_missing'', JBool (mandatory_evidence_missing d)),
     (''constraints'', JArr (map constraint_json (df_constraints d))),
     (''policies'', JArr (map policy_json (df_policies d))),
     (''conflicts'', JArr (map conflict_json (df_conflicts d))),
     (''actors'', JObj (document_actors d)),
     (''risk'', JObj [(''high_impact'', JBool (high_impact d)),
                      (''unresolved_uncertainty'', JBool (unresolved_uncertainty d))]),
     (''policy_version'', JStr (let v = py_join '','' (map pol_version (df_policies d))
                                in if v \<noteq> [] then v else ''none''))]"

text \<open>A reason code that is not a string would fail the contract of the updated document.\<close>

fun json_string :: "json \<Rightarrow> string result" where
  "json_string (JStr s) = Inr s"
| "json_string j = Inl ContractValidationError"

definition engine_actor :: actor where
  "engine_actor = \<lparr>act_id = ''decision-assurance-engine'', act_role = ''VALIDATOR'',
     act_kind = ''SERVICE''\<rparr>"

abbreviation event_hash :: "runtime \<Rightarrow> audit_event \<Rightarrow> string" where
  "event_hash R e \<equiv> payload_hash (sha256 R) (audit_event_json e)"

definition previous_hash :: "runtime \<Rightarrow> decision_file \<Rightarrow> string option" where
  "previous_hash R d = map_option (event_hash R) (last_opt (df_audit_events d))"

definition report_created_at :: "assessment_result \<Rightarrow> string" where
  "report_created_at r = py_str (dict_get (result_report r) ''created_at'' JNull)"

definition evaluate_decision_file ::
  "runtime \<Rightarrow> (nat \<Rightarrow> string) \<Rightarrow> decision_file \<Rightarrow> (decision_file \<times> assessment_result) result" where
  "evaluate_decision_file R clock d =
     bind_result (contract_validate R d) (\<lambda>_.
     bind_result (validate_semantics R d) (\<lambda>_.
     bind_result (assess (sha256 R) clock ''0.1.0'' (evaluation_request d)) (\<lambda>r.
     bind_result (traverse json_string (result_reason_codes r)) (\<lambda>codes.
     let occurred_at = report_created_at r;
         event = \<lparr>
           ae_event_id = df_decision_id d @ '':evaluation:'' @ str_nat (length (df_audit_events d) + 1),
           ae_event_type = ''decision.evaluated'',
           ae_occurred_at = occurred_at,
           ae_actor = engine_actor,
           ae_from_status = Some (df_status d),
           ae_to_status = df_status d,
           ae_reason_codes = codes,
           ae_payload_hash = payload_hash (sha256 R) (JObj (result_report r)),
           ae_previous_event_hash = previous_hash R d,
           ae_tenant_id = None, ae_correlation_id = None, ae_source_channel = None\<rparr>;
         updated = d\<lparr>
           df_decision_outcome := Some (result_outcome r),
           df_outcome_reasons := codes,
           df_updated_at := occurred_at,
           df_validation_results := df_validation_results d @
             [\<lparr>val_validator = engine_actor, val_result = result_outcome r,
               val_reason_codes = codes, val_validated_at = occurred_at\<rparr>],
           df_audit_events := df_audit_events d @ [event]\<rparr>
     in bind_result (contract_validate R updated) (\<lambda>_. Inr (updated, r))))))"

section \<open>Lemmas: semantic validity\<close>

lemma emit_if_Nil [simp]: "emit_if b x = [] \<longleftrightarrow> \<not> b"
  by (simp add: emit_if_def)

lemma set_emit_if [simp]: "set (emit_if b x) = (if b then {x} else {})"
  by (cases b) (simp_all add: emit_if_def)

text \<open>What semantic validity says of the approvals of a document.\<close>

definition approval_ok :: "runtime \<Rightarrow> decision_file \<Rightarrow> approval \<Rightarrow> bool" where
  "approval_ok R d a =
     (act_kind (ap_approver a) = ''HUMAN'' \<and>
      act_id (ap_approver a) \<noteq> act_id (df_created_by d) \<and>
      act_id (ap_approver a) \<noteq> act_id (df_requested_by d) \<and>
      ap_action_digest a = expected_action_digest d \<and>
      ap_approval_digest a = approval_digest R d a \<and>
      (\<exists>r. dict_of rr_id (df_review_requirements d) (ap_requirement_ref a) = Some r \<and>
           act_role (ap_approver a) = rr_required_role r))"

lemma approval_errors_Nil_iff:
  "approval_errors R d h a = [] \<longleftrightarrow>
     (\<forall>r. dict_of rr_id (df_review_requirements d) (ap_requirement_ref a) = Some r \<longrightarrow>
          act_role (ap_approver a) = rr_required_role r) \<and>
     act_kind (ap_approver a) = ''HUMAN'' \<and>
     act_id (ap_approver a) \<noteq> act_id (df_created_by d) \<and>
     act_id (ap_approver a) \<noteq> act_id (df_requested_by d) \<and>
     ap_action_digest a = h \<and> ap_approval_digest a = approval_digest R d a"
  by (auto simp: approval_errors_def Let_def split: option.splits)

lemma semantic_errors_NilD:
  assumes "semantic_errors R d = Inr []"
  shows "distinct (map claim_id (df_claims d))" and "distinct (map ev_id (df_evidence d))"
    and "\<forall>e \<in> set (df_evidence d). set (ev_claim_refs e) \<subseteq> claim_id ` set (df_claims d)"
    and "\<forall>a \<in> set (df_approvals d). ap_requirement_ref a \<in> rr_id ` set (df_review_requirements d)"
    and "action_errors R d = []" and "distinct (map ap_nonce (df_approvals d))"
    and "df_approvals d \<noteq> [] \<longrightarrow> df_status d \<in> {IN_REVIEW, APPROVED, BLOCKED}"
    and "\<forall>a \<in> set (df_approvals d). approval_errors R d (expected_action_digest d) a = []"
  using assms
  by (auto simp: semantic_errors_def monad_simps unknown_claims_def unknown_requirements_def
      filter_empty_conv subset_iff)

lemma validate_semantics_Inr_iff [monad_simps]:
  "validate_semantics R d = Inr u \<longleftrightarrow> semantic_errors R d = Inr []"
  by (auto simp: validate_semantics_def monad_simps)

lemma semantic_approvals_ok:
  assumes "semantic_errors R d = Inr []"
  shows "\<forall>a \<in> set (df_approvals d). approval_ok R d a"
proof
  fix a
  assume a: "a \<in> set (df_approvals d)"
  from semantic_errors_NilD(4) [OF assms] a
  have "dict_of rr_id (df_review_requirements d) (ap_requirement_ref a) \<noteq> None"
    by (simp add: dict_of_None_iff)
  moreover from semantic_errors_NilD(8) [OF assms] a
  have "approval_errors R d (expected_action_digest d) a = []" by blast
  ultimately show "approval_ok R d a"
    by (auto simp: approval_ok_def approval_errors_Nil_iff)
qed

section \<open>Lemmas: what an approval digest binds\<close>

lemma actor_json_inject [simp]: "actor_json a = actor_json b \<longleftrightarrow> a = b"
  by (auto simp: actor_json_def intro: actor.equality)

lemma sort_members_actor_inject [simp]:
  "sort_members (actor_json a) = sort_members (actor_json b) \<longleftrightarrow> a = b"
proof
  assume eq: "sort_members (actor_json a) = sort_members (actor_json b)"
  note get = sort_members_obj_get [OF eq [unfolded actor_json_def], simplified]
  show "a = b"
    using get [of "''id''"] get [of "''role''"] get [of "''kind''"]
    by (auto intro: actor.equality)
qed simp

lemma approval_decision_value_inject [simp]:
  "approval_decision_value x = approval_decision_value y \<longleftrightarrow> x = y"
  by (cases x; cases y) auto

lemma approval_payload_inject:
  assumes "sort_members (approval_payload d a) = sort_members (approval_payload d' b)"
  shows "df_decision_id d = df_decision_id d' \<and> df_requested_by d = df_requested_by d' \<and>
    ap_requirement_ref a = ap_requirement_ref b \<and> ap_approver a = ap_approver b \<and>
    ap_decision a = ap_decision b \<and> ap_decided_at a = ap_decided_at b \<and>
    ap_action_digest a = ap_action_digest b \<and> ap_nonce a = ap_nonce b"
proof -
  note get = sort_members_obj_get [OF assms [unfolded approval_payload_def], simplified]
  show ?thesis
    using get [of "''decision_id''"] get [of "''requested_by''"] get [of "''requirement_ref''"]
      get [of "''approver''"] get [of "''decision''"] get [of "''decided_at''"]
      get [of "''action_digest''"] get [of "''nonce''"]
    by simp
qed

lemma bind_approval_bound [simp]:
  "ap_approval_digest (bind_approval R d a) = approval_digest R d (bind_approval R d a)"
  by (simp add: bind_approval_def approval_digest_def approval_payload_def)

lemma bind_canonical_action_bound [simp]:
  "ca_canonical_digest (bind_canonical_action R a) =
     canonical_action_digest R (bind_canonical_action R a)"
  by (simp add: bind_canonical_action_def canonical_action_digest_def action_members_def)

end
