(* ===== verification/DecisionEvaluation.thy ===== *)
theory DecisionEvaluation
  imports DecisionSemantics
begin

text \<open>
  What the engine finds in a Decision File, stated over the document itself
  (\<open>document_found\<close>), the proof that the evaluation of \<^verbatim>\<open>decision_file.py\<close> computes it
  through the JSON request and the engine, and that evaluation of a valid document always
  returns.
\<close>

section \<open>Findings of a document\<close>

fun evidence_found :: "evidence_item \<Rightarrow> found list" where
  "evidence_found e =
     (let ref = JStr (ev_id e) in
      case ev_status e of
        VERIFIED \<Rightarrow> []
      | UNVERIFIED \<Rightarrow> [(JStr ''EVIDENCE_UNVERIFIABLE'', Sev_REVIEW, ref)]
      | OUTDATED \<Rightarrow> [(JStr ''EVIDENCE_OUTDATED'', Sev_REVIEW, ref)]
      | CONFLICTING \<Rightarrow> [(JStr ''EVIDENCE_CONFLICT'', Sev_REVIEW, ref)]
      | FABRICATED \<Rightarrow> [(JStr ''CITATION_FABRICATED'', Sev_BLOCK, ref)]
      | UNAVAILABLE \<Rightarrow> [(JStr ''MANDATORY_EVIDENCE_MISSING'', Sev_REVIEW, ref)])"

definition constraint_found :: "constraint \<Rightarrow> found list" where
  "constraint_found c =
     (if con_satisfied c then []
      else case con_severity c of
        MANDATORY \<Rightarrow> [(JStr ''HARD_CONSTRAINT_VIOLATION'', Sev_BLOCK, JStr (con_id c))]
      | REVIEW_REQUIRED \<Rightarrow> [(JStr (con_reason_code c), Sev_REVIEW, JStr (con_id c))]
      | ADVISORY \<Rightarrow> [])"

definition policy_found :: "policy_ref \<Rightarrow> found list" where
  "policy_found p =
     emit_if (pol_requires_review p) (JStr ''POLICY_REQUIRES_REVIEW'', Sev_REVIEW, JStr (pol_id p))"

definition conflict_found :: "conflict \<Rightarrow> found list" where
  "conflict_found c =
     (if cf_resolved c then []
      else if cf_severity c = CRITICAL
      then [(JStr ''CRITICAL_CONFLICT_UNRESOLVED'', Sev_BLOCK, JStr (cf_id c))]
      else [(JStr ''CONFLICT_UNRESOLVED'', Sev_REVIEW, JStr (cf_id c))])"

text \<open>The last approver is the creator of the document.\<close>

definition self_approved :: "decision_file \<Rightarrow> bool" where
  "self_approved d =
     (act_id (df_created_by d) \<noteq> [] \<and>
      (case last_opt (df_approvals d) of None \<Rightarrow> False
       | Some a \<Rightarrow> act_id (ap_approver a) = act_id (df_created_by d)))"

definition document_found :: "decision_file \<Rightarrow> found list" where
  "document_found d =
     concat (map evidence_found (df_evidence d))
     @ emit_if (mandatory_evidence_missing d)
         (JStr ''MANDATORY_EVIDENCE_MISSING'',
          if high_impact d then Sev_BLOCK else Sev_REVIEW, JNull)
     @ concat (map constraint_found (df_constraints d))
     @ concat (map policy_found (df_policies d))
     @ emit_if (self_approved d)
         (JStr ''SEPARATION_OF_DUTIES_VIOLATION'', Sev_BLOCK, JStr (act_id (df_created_by d)))
     @ emit_if (high_impact d \<and> unresolved_uncertainty d)
         (JStr ''HIGH_IMPACT_UNCERTAINTY'', Sev_REVIEW, JNull)
     @ concat (map conflict_found (df_conflicts d))"

text \<open>The conditions under which a document is blocked, and under which it has a finding.\<close>

definition document_blocks :: "decision_file \<Rightarrow> bool" where
  "document_blocks d =
     ((\<exists>e \<in> set (df_evidence d). ev_status e = FABRICATED) \<or>
      (mandatory_evidence_missing d \<and> high_impact d) \<or>
      (\<exists>c \<in> set (df_constraints d). con_severity c = MANDATORY \<and> \<not> con_satisfied c) \<or>
      self_approved d \<or>
      (\<exists>c \<in> set (df_conflicts d). cf_severity c = CRITICAL \<and> \<not> cf_resolved c))"

definition document_clean :: "decision_file \<Rightarrow> bool" where
  "document_clean d =
     ((\<forall>e \<in> set (df_evidence d). ev_status e = VERIFIED) \<and>
      \<not> mandatory_evidence_missing d \<and>
      (\<forall>c \<in> set (df_constraints d). con_satisfied c \<or> con_severity c = ADVISORY) \<and>
      (\<forall>p \<in> set (df_policies d). \<not> pol_requires_review p) \<and>
      \<not> self_approved d \<and>
      \<not> (high_impact d \<and> unresolved_uncertainty d) \<and>
      (\<forall>c \<in> set (df_conflicts d). cf_resolved c))"

section \<open>The engine computes them\<close>

fun obj_members :: "json \<Rightarrow> pydict" where
  "obj_members (JObj d) = d"
| "obj_members j = []"

lemma check_each_map:
  assumes "\<And>x. \<exists>d. g x = JObj d"
  shows "check_each check (JArr (map g xs)) = Inr (concat (map (\<lambda>x. check (obj_members (g x))) xs))"
proof -
  have "as_dict (g x) = Inr (obj_members (g x))" for x
    using assms [of x] by auto
  then have "traverse (\<lambda>x. bind_result (as_dict x) (\<lambda>d. Inr (check d))) (map g xs) =
      Inr (map (\<lambda>x. check (obj_members (g x))) xs)"
    by (induction xs) simp_all
  then show ?thesis by (simp add: check_each_def)
qed

lemma check_evidence_request: "check_evidence (obj_members (evidence_request e)) = evidence_found e"
  by (cases "ev_status e")
    (simp_all add: evidence_request_def check_evidence_def item_ref_def emit_if_def Let_def)

lemma check_constraint_json: "check_constraint (obj_members (constraint_json c)) = constraint_found c"
  by (cases "con_severity c")
    (simp_all add: constraint_json_def check_constraint_def item_ref_def constraint_found_def Let_def)

lemma check_policy_json: "check_policy (obj_members (policy_json p)) = policy_found p"
  by (simp add: policy_json_def check_policy_def item_ref_def policy_found_def)

lemma level_value_CRITICAL [simp]: "level_value l = ''CRITICAL'' \<longleftrightarrow> l = CRITICAL"
  by (cases l) auto

lemma check_conflict_json: "check_conflict (obj_members (conflict_json c)) = conflict_found c"
  by (simp add: conflict_json_def check_conflict_def conflict_found_def dict_get_def)

lemma check_document_actors:
  "check_actors (document_actors d) =
     emit_if (self_approved d)
       (JStr ''SEPARATION_OF_DUTIES_VIOLATION'', Sev_BLOCK, JStr (act_id (df_created_by d)))"
  by (simp add: check_actors_def document_actors_def self_approved_def split: option.splits)

lemma check_each_document:
  "check_each check_evidence (JArr (map evidence_request es)) = Inr (concat (map evidence_found es))"
  "check_each check_constraint (JArr (map constraint_json cs)) = Inr (concat (map constraint_found cs))"
  "check_each check_policy (JArr (map policy_json ps)) = Inr (concat (map policy_found ps))"
  "check_each check_conflict (JArr (map conflict_json ks)) = Inr (concat (map conflict_found ks))"
proof -
  show "check_each check_evidence (JArr (map evidence_request es)) = Inr (concat (map evidence_found es))"
    by (subst check_each_map) (simp_all only: check_evidence_request, simp add: evidence_request_def)
  show "check_each check_constraint (JArr (map constraint_json cs)) = Inr (concat (map constraint_found cs))"
    by (subst check_each_map) (simp_all only: check_constraint_json, simp add: constraint_json_def)
  show "check_each check_policy (JArr (map policy_json ps)) = Inr (concat (map policy_found ps))"
    by (subst check_each_map) (simp_all only: check_policy_json, simp add: policy_json_def)
  show "check_each check_conflict (JArr (map conflict_json ks)) = Inr (concat (map conflict_found ks))"
    by (subst check_each_map) (simp_all only: check_conflict_json, simp add: conflict_json_def)
qed

lemma normalize_evaluation_request: "normalize (evaluation_request d) = evaluation_request d"
  by (simp add: normalize_def evaluation_request_def dict_setdefault_def)

lemma collect_evaluation_request: "collect_found (evaluation_request d) = Inr (document_found d)"
  by (simp add: collect_found_def evaluation_request_def check_each_document document_found_def
      check_document_actors emit_if_def)

lemma validate_evaluation_request:
  "validate_request (evaluation_request d) = Inr (number_findings (df_decision_id d) (document_found d))"
  by (simp add: validate_request_def collect_evaluation_request)
    (simp add: evaluation_request_def)

section \<open>The outcome\<close>

lemma found_severity_split:
  "(\<exists>x \<in> set (document_found d). fst (snd x) = Sev_BLOCK) \<longleftrightarrow> document_blocks d"
proof -
  have ev: "(\<exists>x \<in> set (evidence_found e). fst (snd x) = Sev_BLOCK) \<longleftrightarrow> ev_status e = FABRICATED" for e
    by (cases "ev_status e") auto
  have con: "(\<exists>x \<in> set (constraint_found c). fst (snd x) = Sev_BLOCK) \<longleftrightarrow>
      con_severity c = MANDATORY \<and> \<not> con_satisfied c" for c
    by (cases "con_severity c") (auto simp: constraint_found_def)
  have pol: "\<not> (\<exists>x \<in> set (policy_found p). fst (snd x) = Sev_BLOCK)" for p
    by (simp add: policy_found_def)
  have cf: "(\<exists>x \<in> set (conflict_found c). fst (snd x) = Sev_BLOCK) \<longleftrightarrow>
      cf_severity c = CRITICAL \<and> \<not> cf_resolved c" for c
    by (simp add: conflict_found_def)
  show ?thesis
    using ev con pol cf
    by (simp add: document_found_def document_blocks_def bex_Un del: evidence_found.simps)
qed

lemma document_found_Nil: "document_found d = [] \<longleftrightarrow> document_clean d"
proof -
  have ev: "evidence_found e = [] \<longleftrightarrow> ev_status e = VERIFIED" for e
    by (cases "ev_status e") auto
  have con: "constraint_found c = [] \<longleftrightarrow> con_satisfied c \<or> con_severity c = ADVISORY" for c
    by (cases "con_severity c") (auto simp: constraint_found_def)
  have cf: "conflict_found c = [] \<longleftrightarrow> cf_resolved c" for c
    by (simp add: conflict_found_def)
  show ?thesis
    by (auto simp: document_found_def document_clean_def ev con cf policy_found_def
        simp del: evidence_found.simps)
qed

lemma document_clean_not_blocks: "document_clean d \<Longrightarrow> \<not> document_blocks d"
  using document_found_Nil [of d] found_severity_split [of d] by auto

definition document_outcome :: "decision_file \<Rightarrow> outcome" where
  "document_outcome d =
     (if document_blocks d then BLOCK else if document_clean d then PASS else REVIEW)"

lemma govern_document:
  "govern (number_findings i (document_found d)) = document_outcome d"
proof -
  have "(\<exists>f \<in> set (number_findings i (document_found d)). finding_severity f = Sev_BLOCK) \<longleftrightarrow>
      Sev_BLOCK \<in> set (map finding_severity (number_findings i (document_found d)))"
    by (force simp: image_iff)
  also have "\<dots> \<longleftrightarrow> document_blocks d"
    unfolding number_findings_fields found_severity_split [symmetric] by (force simp: image_iff)
  finally show ?thesis
    by (simp add: govern_def document_outcome_def document_found_Nil)
qed

text \<open>Every reason code found in a document is a string, and not empty in a valid one.\<close>

lemma document_found_code:
  assumes "x \<in> set (document_found d)"
  shows "\<exists>s. fst x = JStr s \<and>
    (list_all (\<lambda>c. con_reason_code c \<noteq> []) (df_constraints d) \<longrightarrow> s \<noteq> [])"
proof -
  have ev: "\<exists>s. fst y = JStr s \<and> s \<noteq> []" if "y \<in> set (evidence_found e)" for y e
    using that by (cases "ev_status e") auto
  have con: "\<exists>s. fst y = JStr s \<and> (con_reason_code c \<noteq> [] \<longrightarrow> s \<noteq> [])"
    if "y \<in> set (constraint_found c)" for y c
    using that by (cases "con_severity c") (auto simp: constraint_found_def split: if_splits)
  have pol: "\<exists>s. fst y = JStr s \<and> s \<noteq> []" if "y \<in> set (policy_found p)" for y p
    using that by (auto simp: policy_found_def split: if_splits)
  have cf: "\<exists>s. fst y = JStr s \<and> s \<noteq> []" if "y \<in> set (conflict_found c)" for y c
    using that by (auto simp: conflict_found_def split: if_splits)
  from assms consider e where "x \<in> set (evidence_found e)"
    | c where "c \<in> set (df_constraints d)" "x \<in> set (constraint_found c)"
    | p where "x \<in> set (policy_found p)" | k where "x \<in> set (conflict_found k)"
    | s where "fst x = JStr s" "s \<noteq> []"
    by (auto simp: document_found_def simp del: evidence_found.simps split: if_splits)
  then show ?thesis
    by cases (blast dest: ev, (fastforce dest: con simp: list_all_iff), blast dest: pol,
        blast dest: cf, blast)
qed

lemma document_found_codes:
  obtains ss where "map fst (document_found d) = map JStr ss"
    "list_all (\<lambda>c. con_reason_code c \<noteq> []) (df_constraints d) \<longrightarrow> list_all (\<lambda>s. s \<noteq> []) ss"
proof -
  define f where "f x = (SOME s. fst x = JStr s \<and>
    (list_all (\<lambda>c. con_reason_code c \<noteq> []) (df_constraints d) \<longrightarrow> s \<noteq> []))" for x :: found
  have f: "fst x = JStr (f x) \<and>
      (list_all (\<lambda>c. con_reason_code c \<noteq> []) (df_constraints d) \<longrightarrow> f x \<noteq> [])"
    if "x \<in> set (document_found d)" for x
    using someI_ex [OF document_found_code [OF that]] by (simp add: f_def)
  show ?thesis
    by (rule that [of "map f (document_found d)"]) (use f in \<open>auto simp: list_all_iff\<close>)
qed

section \<open>Evaluation of a document\<close>

lemma evidence_refs_request:
  "evidence_refs (JArr (map evidence_request es)) = Inr (map (\<lambda>e. JStr (ev_id e)) es)"
proof -
  have "traverse as_dict (map evidence_request es) = Inr (map (\<lambda>e. obj_members (evidence_request e)) es)"
    by (induction es) (simp_all add: evidence_request_def)
  then show ?thesis
    by (simp add: evidence_refs_def filter_map o_def evidence_request_def item_ref_def)
qed

lemma traverse_json_string [simp]: "traverse json_string (map JStr ss) = Inr ss"
  by (induction ss) simp_all

text \<open>The engine returns on the request of every document, and reports a clock reading.\<close>

lemma assess_evaluation_request:
  obtains r ss n where
    "assess sha clock v (evaluation_request d) = Inr r" "result_outcome r = document_outcome d"
    "result_reason_codes r = map JStr ss" "distinct ss" "ss \<noteq> []"
    "list_all (\<lambda>c. con_reason_code c \<noteq> []) (df_constraints d) \<longrightarrow> list_all (\<lambda>s. s \<noteq> []) ss"
    "report_created_at r = clock n"
    "map reason_code (result_findings r) = map fst (document_found d)"
proof -
  let ?fs = "number_findings (df_decision_id d) (document_found d)"
  obtain ss where ss: "map fst (document_found d) = map JStr ss"
    and ne: "list_all (\<lambda>c. con_reason_code c \<noteq> []) (df_constraints d) \<longrightarrow> list_all (\<lambda>s. s \<noteq> []) ss"
    by (rule document_found_codes [of d])
  define tt where "tt = (if document_found d = [] then [''ALL_REQUIRED_CHECKS_SATISFIED'']
    else dict_fromkeys ss)"
  have codes: "(if ?fs \<noteq> [] then fromkeys_json (map reason_code ?fs)
      else Inr [JStr ''ALL_REQUIRED_CHECKS_SATISFIED'']) = Inr (map JStr tt)"
    by (simp add: number_findings_fields ss tt_def)
  have refs: "evidence_refs (dict_get (evaluation_request d) ''evidence'' JNull) =
      Inr (map (\<lambda>e. JStr (ev_id e)) (df_evidence d))"
    by (simp add: evaluation_request_def evidence_refs_request)
  obtain r where r: "assess sha clock v (evaluation_request d) = Inr r"
    and rc: "result_reason_codes r = map JStr tt"
    and at: "\<exists>n. report_created_at r = clock n"
    unfolding assess_def Let_def normalize_evaluation_request validate_evaluation_request
      bind_result.simps codes refs
    by (auto simp: report_created_at_def)
  from at obtain n where n: "report_created_at r = clock n" by blast
  from assess_InrD [OF r] have oc: "result_outcome r = document_outcome d"
    and fs: "result_findings r = ?fs"
    by (metis Inr_inject govern_document normalize_evaluation_request validate_evaluation_request)+
  show ?thesis
  proof (rule that [OF r oc rc])
    show "distinct tt" by (simp add: tt_def)
    show "tt \<noteq> []" using ss by (auto simp: tt_def)
    show "list_all (\<lambda>c. con_reason_code c \<noteq> []) (df_constraints d) \<longrightarrow> list_all (\<lambda>s. s \<noteq> []) tt"
      using ne by (simp add: tt_def list_all_iff)
    show "report_created_at r = clock n" by (rule n)
    show "map reason_code (result_findings r) = map fst (document_found d)"
      by (simp add: fs number_findings_fields)
  qed
qed

text \<open>What a completed evaluation changed, and what it left alone.\<close>

lemma evaluate_decision_file_InrD:
  assumes "evaluate_decision_file R clock d = Inr (d', r)"
  obtains e codes n where
    "decision_file_schema R d" "semantic_errors R d = Inr []" "decision_file_schema R d'"
    "result_outcome r = document_outcome d" "result_reason_codes r = map JStr codes"
    "df_audit_events d' = df_audit_events d @ [e]"
    "ae_previous_event_hash e = previous_hash R d"
    "ae_from_status e = Some (df_status d)" "ae_to_status e = df_status d"
    "ae_actor e = engine_actor" "ae_event_type e = ''decision.evaluated''"
    "ae_event_id e = df_decision_id d @ '':evaluation:'' @ str_nat (length (df_audit_events d) + 1)"
    "d' = d\<lparr>df_decision_outcome := Some (document_outcome d), df_outcome_reasons := codes,
       df_updated_at := clock n, df_validation_results := df_validation_results d' ,
       df_audit_events := df_audit_events d @ [e]\<rparr>"
proof -
  obtain r0 ss n where r0: "assess (sha256 R) clock ''0.1.0'' (evaluation_request d) = Inr r0"
    and oc: "result_outcome r0 = document_outcome d"
    and rc: "result_reason_codes r0 = map JStr ss" and at: "report_created_at r0 = clock n"
    by (rule assess_evaluation_request [of "sha256 R" clock "''0.1.0''" d])
  from assms have "decision_file_schema R d" "semantic_errors R d = Inr []"
    "decision_file_schema R d'" "r = r0"
    by (auto simp: evaluate_decision_file_def monad_simps r0 Let_def)
  with assms show ?thesis
    by (intro that [of ss "last (df_audit_events d')" n])
      (auto simp: evaluate_decision_file_def monad_simps r0 rc oc at Let_def)
qed

lemma engine_actor_schema [simp]: "actor_schema engine_actor"
  by (simp add: engine_actor_def actor_schema_def)

lemma schema_evaluated:
  assumes "decision_file_schema R d" and "date_time_format R t"
    and "distinct codes" and "list_all (\<lambda>s. s \<noteq> []) codes"
    and "audit_event_schema R e"
  shows "decision_file_schema R (d\<lparr>df_decision_outcome := oc, df_outcome_reasons := codes,
      df_updated_at := t,
      df_validation_results := df_validation_results d @
        [\<lparr>val_validator = engine_actor, val_result = res, val_reason_codes = codes,
          val_validated_at = t\<rparr>],
      df_audit_events := df_audit_events d @ [e]\<rparr>)"
  using assms
  by (simp add: decision_file_schema_def validation_schema_def)

lemma evaluate_decision_file_total:
  assumes sch: "decision_file_schema R d" and sem: "semantic_errors R d = Inr []"
    and clk: "\<And>n. date_time_format R (clock n)"
  shows "\<exists>d' r. evaluate_decision_file R clock d = Inr (d', r)"
proof -
  obtain r ss n where r: "assess (sha256 R) clock ''0.1.0'' (evaluation_request d) = Inr r"
    and rc: "result_reason_codes r = map JStr ss" and ds: "distinct ss"
    and ne: "list_all (\<lambda>c. con_reason_code c \<noteq> []) (df_constraints d) \<longrightarrow> list_all (\<lambda>s. s \<noteq> []) ss"
    and at: "report_created_at r = clock n"
    by (rule assess_evaluation_request [of "sha256 R" clock "''0.1.0''" d])
  have "list_all (\<lambda>s. s \<noteq> []) ss"
    using sch ne by (simp add: decision_file_schema_def)
  with sch sem ds clk show ?thesis
    by (simp add: evaluate_decision_file_def contract_validate_def validate_semantics_def
        r rc at Let_def schema_evaluated audit_event_schema_def)
qed

end
