(* ===== verification/Transitions.thy ===== *)
theory Transitions
  imports DecisionEvaluation
begin

text \<open>
  The lifecycle of a case: \<^verbatim>\<open>transitions.py\<close>. The lemmas show what an accepted transition
  implies for each target, that \<open>APPROVED\<close> and \<open>BLOCKED\<close> are final, that a transition
  without a reason to reject it returns, and that the audit trail of a document is a
  hash-linked log.
\<close>

section \<open>transitions.py\<close>

definition parse_case_status :: "string \<Rightarrow> case_status result" where
  "parse_case_status s =
     (if s = ''DRAFT'' then Inr DRAFT else if s = ''VALIDATION'' then Inr VALIDATION
      else if s = ''REVIEW'' then Inr IN_REVIEW else if s = ''APPROVED'' then Inr APPROVED
      else if s = ''BLOCKED'' then Inr BLOCKED else Inl (ValueError ''not a valid CaseStatus''))"

text \<open>\<^verbatim>\<open>ALLOWED_TRANSITIONS\<close>: the role a transition requires.\<close>

fun allowed_transition :: "case_status \<Rightarrow> case_status \<Rightarrow> string option" where
  "allowed_transition DRAFT VALIDATION = Some ''VALIDATOR''"
| "allowed_transition DRAFT BLOCKED = Some ''VALIDATOR''"
| "allowed_transition VALIDATION IN_REVIEW = Some ''VALIDATOR''"
| "allowed_transition VALIDATION BLOCKED = Some ''VALIDATOR''"
| "allowed_transition IN_REVIEW APPROVED = Some ''APPROVER''"
| "allowed_transition IN_REVIEW BLOCKED = Some ''APPROVER''"
| "allowed_transition _ _ = None"

definition validator_ids :: "decision_file \<Rightarrow> string list" where
  "validator_ids d =
     map (\<lambda>e. act_id (ae_actor e)) (filter (\<lambda>e. ae_to_status e = VALIDATION) (df_audit_events d))"

text \<open>The approvals that satisfy one mandatory requirement for the acting approver.\<close>

definition matching_approvals ::
  "decision_file \<Rightarrow> actor \<Rightarrow> review_requirement \<Rightarrow> approval list" where
  "matching_approvals d actor r =
     filter (\<lambda>a. ap_requirement_ref a = rr_id r \<and> ap_decision a = APPROVE \<and>
        act_kind (ap_approver a) = ''HUMAN'' \<and> act_role (ap_approver a) = rr_required_role r \<and>
        (rr_required_role r \<noteq> ''APPROVER'' \<or> act_id (ap_approver a) = act_id actor))
      (df_approvals d)"

definition approval_reasons :: "decision_file \<Rightarrow> actor \<Rightarrow> string list" where
  "approval_reasons d actor =
     emit_if (act_kind actor \<noteq> ''HUMAN'') ''HUMAN_APPROVER_REQUIRED''
     @ emit_if (act_id actor = act_id (df_created_by d)) ''SEPARATION_OF_DUTIES_VIOLATION''
     @ emit_if (act_id actor \<in> set (validator_ids d)) ''VALIDATOR_APPROVER_NOT_SEPARATE''
     @ emit_if (df_decision_outcome d \<noteq> Some PASS) ''PASS_OUTCOME_REQUIRED''
     @ emit_if (list_ex (\<lambda>c. con_severity c = MANDATORY \<and> \<not> con_satisfied c) (df_constraints d))
         ''MANDATORY_CONSTRAINT_UNSATISFIED''
     @ emit_if (list_ex (\<lambda>c. cf_severity c = CRITICAL \<and> \<not> cf_resolved c) (df_conflicts d))
         ''CRITICAL_CONFLICT_UNRESOLVED''
     @ emit_if (list_ex (\<lambda>r. rr_mandatory r \<and> \<not> rr_satisfied r) (df_review_requirements d))
         ''MANDATORY_REVIEW_MISSING''
     @ concat (map (\<lambda>r. emit_if (matching_approvals d actor r = []) ''MANDATORY_HUMAN_APPROVAL_MISSING'')
         (filter rr_mandatory (df_review_requirements d)))"

definition rejection_reasons ::
  "decision_file \<Rightarrow> case_status \<Rightarrow> case_status \<Rightarrow> actor \<Rightarrow> string list" where
  "rejection_reasons d source target actor =
     (case allowed_transition source target of
        None \<Rightarrow> [''TRANSITION_NOT_ALLOWED'']
      | Some required_role \<Rightarrow>
          emit_if (act_role actor \<noteq> required_role) ''ACTOR_ROLE_NOT_AUTHORIZED''
          @ emit_if (target = VALIDATION \<and> act_id actor = act_id (df_created_by d))
              ''GENERATOR_VALIDATOR_NOT_SEPARATE''
          @ (if target = APPROVED then approval_reasons d actor else [])
          @ emit_if (target = IN_REVIEW \<and> df_decision_outcome d = Some BLOCK)
              ''BLOCK_OUTCOME_REQUIRES_BLOCKED_STATUS''
          @ emit_if (target = BLOCKED \<and> df_decision_outcome d \<noteq> Some BLOCK)
              ''BLOCK_OUTCOME_REQUIRED'')"

definition transition_event ::
  "runtime \<Rightarrow> string \<Rightarrow> decision_file \<Rightarrow> case_status \<Rightarrow> actor \<Rightarrow> audit_event" where
  "transition_event R occurred_at d destination actor =
     \<lparr>ae_event_id = df_decision_id d @ '':transition:'' @ str_nat (length (df_audit_events d) + 1),
      ae_event_type = ''status.transitioned'',
      ae_occurred_at = occurred_at,
      ae_actor = actor,
      ae_from_status = Some (df_status d),
      ae_to_status = destination,
      ae_reason_codes = [''TRANSITION_AUTHORIZED''],
      ae_payload_hash = payload_hash (sha256 R) (JObj [
        (''from'', JStr (case_status_value (df_status d))),
        (''to'', JStr (case_status_value destination)),
        (''actor'', actor_json actor),
        (''approval_digests'', jstrs (sort (map ap_approval_digest (df_approvals d))))]),
      ae_previous_event_hash = previous_hash R d,
      ae_tenant_id = None, ae_correlation_id = None, ae_source_channel = None\<rparr>"

text \<open>\<^verbatim>\<open>TransitionPolicy.transition\<close>; \<open>occurred_at\<close> is its one reading of the clock.\<close>

definition transition ::
  "runtime \<Rightarrow> string \<Rightarrow> decision_file \<Rightarrow> string \<Rightarrow> actor \<Rightarrow> decision_file result" where
  "transition R occurred_at d target actor =
     bind_result (contract_validate R d) (\<lambda>_.
     bind_result (validate_semantics R d) (\<lambda>_.
     bind_result (parse_case_status target) (\<lambda>destination.
     bind_result (ensure (rejection_reasons d (df_status d) destination actor = [])
       (TransitionRejected (rejection_reasons d (df_status d) destination actor))) (\<lambda>_.
     let updated = d\<lparr>df_status := destination, df_updated_at := occurred_at,
           df_current_owner := actor,
           df_audit_events := df_audit_events d @ [transition_event R occurred_at d destination actor]\<rparr>
     in bind_result (contract_validate R updated) (\<lambda>_. Inr updated)))))"

section \<open>Lemmas\<close>

lemma parse_case_status_value [simp]: "parse_case_status (case_status_value s) = Inr s"
  by (cases s) (simp_all add: parse_case_status_def)

lemma parse_case_status_Inr: "parse_case_status t = Inr s \<longleftrightarrow> t = case_status_value s"
  by (cases s) (auto simp: parse_case_status_def split: if_splits)

lemma allowed_transition_to:
  "allowed_transition s VALIDATION = Some r \<longleftrightarrow> s = DRAFT \<and> r = ''VALIDATOR''"
  "allowed_transition s IN_REVIEW = Some r \<longleftrightarrow> s = VALIDATION \<and> r = ''VALIDATOR''"
  "allowed_transition s APPROVED = Some r \<longleftrightarrow> s = IN_REVIEW \<and> r = ''APPROVER''"
  by (cases s; auto)+

lemma allowed_transition_final [simp]:
  "allowed_transition APPROVED t = None" "allowed_transition BLOCKED t = None"
  "allowed_transition s DRAFT = None"
  by (cases t; cases s; simp)+

text \<open>What an accepted transition consists of.\<close>

lemma transition_Inr_iff:
  "transition R t d target actor = Inr d' \<longleftrightarrow>
     decision_file_schema R d \<and> semantic_errors R d = Inr [] \<and> decision_file_schema R d' \<and>
     (\<exists>dest. target = case_status_value dest \<and> rejection_reasons d (df_status d) dest actor = [] \<and>
        d' = d\<lparr>df_status := dest, df_updated_at := t, df_current_owner := actor,
               df_audit_events := df_audit_events d @ [transition_event R t d dest actor]\<rparr>)"
  by (auto simp: transition_def monad_simps Let_def parse_case_status_Inr)

lemma rejection_reasons_Nil_iff:
  "rejection_reasons d s t actor = [] \<longleftrightarrow>
     allowed_transition s t = Some (act_role actor) \<and>
     (t = VALIDATION \<longrightarrow> act_id actor \<noteq> act_id (df_created_by d)) \<and>
     (t = APPROVED \<longrightarrow> approval_reasons d actor = []) \<and>
     (t = IN_REVIEW \<longrightarrow> df_decision_outcome d \<noteq> Some BLOCK) \<and>
     (t = BLOCKED \<longrightarrow> df_decision_outcome d = Some BLOCK)"
  by (auto simp: rejection_reasons_def split: option.splits)

lemma approval_reasons_Nil_iff:
  "approval_reasons d actor = [] \<longleftrightarrow>
     act_kind actor = ''HUMAN'' \<and> act_id actor \<noteq> act_id (df_created_by d) \<and>
     act_id actor \<notin> set (validator_ids d) \<and> df_decision_outcome d = Some PASS \<and>
     (\<forall>c \<in> set (df_constraints d). con_severity c = MANDATORY \<longrightarrow> con_satisfied c) \<and>
     (\<forall>c \<in> set (df_conflicts d). cf_severity c = CRITICAL \<longrightarrow> cf_resolved c) \<and>
     (\<forall>r \<in> set (df_review_requirements d). rr_mandatory r \<longrightarrow>
        rr_satisfied r \<and> matching_approvals d actor r \<noteq> [])"
  by (auto simp: approval_reasons_def list_ex_iff)

text \<open>
  A transition that nothing rejects returns: the contract cannot fail on the updated document
  when the actor and the clock reading satisfy it.
\<close>

lemma transition_event_schema:
  assumes "actor_schema actor" and "date_time_format R t"
  shows "audit_event_schema R (transition_event R t d dest actor)"
  using assms by (simp add: audit_event_schema_def transition_event_def)

lemma schema_transitioned:
  assumes "decision_file_schema R d" and "date_time_format R t" and "actor_schema actor"
    and "audit_event_schema R e"
  shows "decision_file_schema R (d\<lparr>df_status := dest, df_updated_at := t,
    df_current_owner := actor, df_audit_events := df_audit_events d @ [e]\<rparr>)"
  using assms by (simp add: decision_file_schema_def)

lemma transition_total:
  assumes "decision_file_schema R d" and "semantic_errors R d = Inr []"
    and "rejection_reasons d (df_status d) dest actor = []"
    and "actor_schema actor" and "date_time_format R t"
  shows "transition R t d (case_status_value dest) actor =
    Inr (d\<lparr>df_status := dest, df_updated_at := t, df_current_owner := actor,
      df_audit_events := df_audit_events d @ [transition_event R t d dest actor]\<rparr>)"
  unfolding transition_Inr_iff
  using assms by (intro conjI exI [of _ dest] schema_transitioned transition_event_schema) simp_all

section \<open>The audit trail of a document\<close>

definition document_step :: "runtime \<Rightarrow> decision_file \<Rightarrow> decision_file \<Rightarrow> bool" where
  "document_step R d d' =
     ((\<exists>clock r. evaluate_decision_file R clock d = Inr (d', r)) \<or>
      (\<exists>t target actor. transition R t d target actor = Inr d'))"

lemma previous_hash_head: "previous_hash R d = head_hash (event_hash R) None (df_audit_events d)"
  by (simp add: previous_hash_def head_hash_def last_opt_def)

interpretation trail: chained_log
  "event_hash R" ae_previous_event_hash df_audit_events "document_step R" for R
proof
  fix d d'
  assume "document_step R d d'"
  then consider clock r where "evaluate_decision_file R clock d = Inr (d', r)"
    | t target actor where "transition R t d target actor = Inr d'"
    by (auto simp: document_step_def)
  then have "\<exists>e. df_audit_events d' = df_audit_events d @ [e] \<and>
      ae_previous_event_hash e = previous_hash R d"
  proof cases
    case 1
    then show ?thesis by (rule evaluate_decision_file_InrD) blast
  next
    case 2
    then show ?thesis by (auto simp: transition_Inr_iff transition_event_def)
  qed
  then show "\<exists>es. df_audit_events d' = df_audit_events d @ es \<and>
      linked_from (event_hash R) ae_previous_event_hash
        (head_hash (event_hash R) None (df_audit_events d)) es"
    by (auto simp: previous_hash_head)
qed

end
