(* ===== verification/Identity.thy ===== *)
theory Identity
  imports Prelude
begin

text \<open>
  Tenants, identities and the permission matrix: \<^verbatim>\<open>tenancy.py\<close>, \<^verbatim>\<open>identity.py\<close> and
  \<^verbatim>\<open>authorization.py\<close> under \<^verbatim>\<open>src/src/decision_assurance\<close>. Sets of roles and scopes are
  lists whose order and repetition no operation observes.
\<close>

section \<open>tenancy.py\<close>

definition tenant_id_ok :: "string \<Rightarrow> bool" where
  "tenant_id_ok t = id_fullmatch ''._-'' 127 t"

definition TenantContext :: "string \<Rightarrow> string result" where
  "TenantContext t = (if tenant_id_ok t then Inr t else Inl (ValueError ''INVALID_TENANT_ID''))"

section \<open>identity.py\<close>

datatype role = GENERATOR | VALIDATOR | APPROVER | AUDITOR | REVIEWER | TENANT_ADMIN
  | SYSTEM_ADMINISTRATOR | RESEARCH_OPERATOR | READONLY

datatype actor_kind = HUMAN | AGENT | SERVICE

fun role_value :: "role \<Rightarrow> string" where
  "role_value GENERATOR = ''GENERATOR''"
| "role_value VALIDATOR = ''VALIDATOR''"
| "role_value APPROVER = ''APPROVER''"
| "role_value AUDITOR = ''AUDITOR''"
| "role_value REVIEWER = ''REVIEWER''"
| "role_value TENANT_ADMIN = ''TENANT_ADMIN''"
| "role_value SYSTEM_ADMINISTRATOR = ''SYSTEM_ADMINISTRATOR''"
| "role_value RESEARCH_OPERATOR = ''RESEARCH_OPERATOR''"
| "role_value READONLY = ''READONLY''"

fun kind_value :: "actor_kind \<Rightarrow> string" where
  "kind_value HUMAN = ''HUMAN''"
| "kind_value AGENT = ''AGENT''"
| "kind_value SERVICE = ''SERVICE''"

record identity =
  actor_id :: string
  tenant :: string
  role :: role
  kind :: actor_kind
  organization_id :: "string option"
  groups :: "string list"
  roles :: "role list"
  client_id :: "string option"
  scopes :: "string list"

definition blank :: "string \<Rightarrow> bool" where
  "blank s = (py_strip s = [])"

text \<open>\<^verbatim>\<open>Identity.__post_init__\<close>: the checks in order, then the effective roles.\<close>

definition identity_post_init :: "identity \<Rightarrow> identity result" where
  "identity_post_init i =
     bind_result (ensure (\<not> blank (actor_id i)) (ValueError ''INVALID_ACTOR_ID'')) (\<lambda>_.
     bind_result (ensure (\<not> (case organization_id i of None \<Rightarrow> False | Some g \<Rightarrow> blank g))
        (ValueError ''INVALID_ORGANIZATION_ID'')) (\<lambda>_.
     bind_result (ensure (\<not> list_ex blank (groups i)) (ValueError ''INVALID_IDENTITY_GROUP'')) (\<lambda>_.
     let effective_roles = (if roles i \<noteq> [] then roles i else [role i]) in
     bind_result (ensure (role i \<in> set effective_roles) (ValueError ''INVALID_PRIMARY_ROLE'')) (\<lambda>_.
     bind_result (ensure (\<not> (case client_id i of None \<Rightarrow> False | Some c \<Rightarrow> blank c))
        (ValueError ''INVALID_CLIENT_ID'')) (\<lambda>_.
     bind_result (ensure (\<not> list_ex blank (scopes i)) (ValueError ''INVALID_IDENTITY_SCOPE'')) (\<lambda>_.
     Inr (i\<lparr>roles := effective_roles\<rparr>)))))))"

text \<open>\<^verbatim>\<open>StaticTokenAuthenticator.authenticate\<close>.\<close>

definition static_authenticate :: "(string \<rightharpoonup> identity) \<Rightarrow> string \<Rightarrow> identity result" where
  "static_authenticate identities token =
     (case identities token of None \<Rightarrow> Inl (ValueError ''INVALID_TOKEN'') | Some i \<Rightarrow> Inr i)"

section \<open>authorization.py\<close>

datatype permission = DECISION_CREATE | DECISION_READ | DECISION_EVALUATE | DECISION_VALIDATE
  | DECISION_APPROVE | REPORT_READ | AUDIT_READ | INTAKE_CREATE | INTAKE_READ | INTAKE_CONFIRM
  | INTAKE_COMPILE | RESEARCH_CREATE | RESEARCH_READ | RESEARCH_RETRY | RESEARCH_CANCEL
  | RESEARCH_HANDOFF | RESEARCH_FORCE_REFRESH | RESEARCH_AUDIT_READ | PILOT_EXPORT
  | DATA_DELETE | LEGAL_HOLD_MANAGE

text \<open>\<^verbatim>\<open>ROLE_PERMISSIONS\<close>; a tenant administrator holds every permission.\<close>

fun role_permits :: "role \<Rightarrow> permission \<Rightarrow> bool" where
  "role_permits GENERATOR p = (p \<in> {DECISION_CREATE, DECISION_READ, REPORT_READ, INTAKE_CREATE,
     INTAKE_READ, RESEARCH_CREATE, RESEARCH_READ, RESEARCH_CANCEL, RESEARCH_HANDOFF})"
| "role_permits VALIDATOR p = (p \<in> {DECISION_READ, DECISION_EVALUATE, DECISION_VALIDATE,
     REPORT_READ, INTAKE_READ, INTAKE_CONFIRM, INTAKE_COMPILE, RESEARCH_CREATE, RESEARCH_READ,
     RESEARCH_RETRY, RESEARCH_CANCEL, RESEARCH_HANDOFF})"
| "role_permits APPROVER p = (p \<in> {DECISION_READ, DECISION_APPROVE, REPORT_READ, INTAKE_READ,
     INTAKE_CONFIRM, INTAKE_COMPILE, RESEARCH_READ, PILOT_EXPORT})"
| "role_permits AUDITOR p = (p \<in> {DECISION_READ, REPORT_READ, AUDIT_READ, INTAKE_READ,
     RESEARCH_READ, RESEARCH_AUDIT_READ, PILOT_EXPORT})"
| "role_permits REVIEWER p = (p \<in> {DECISION_READ, REPORT_READ, INTAKE_READ, RESEARCH_READ,
     RESEARCH_AUDIT_READ})"
| "role_permits TENANT_ADMIN p = True"
| "role_permits SYSTEM_ADMINISTRATOR p = (p \<in> {REPORT_READ, AUDIT_READ, RESEARCH_AUDIT_READ})"
| "role_permits RESEARCH_OPERATOR p = (p \<in> {DECISION_READ, REPORT_READ, RESEARCH_CREATE,
     RESEARCH_READ, RESEARCH_RETRY, RESEARCH_CANCEL, RESEARCH_HANDOFF, RESEARCH_FORCE_REFRESH,
     RESEARCH_AUDIT_READ})"
| "role_permits READONLY p = (p \<in> {DECISION_READ, REPORT_READ, INTAKE_READ, RESEARCH_READ})"

definition authorize :: "identity \<Rightarrow> permission \<Rightarrow> unit result" where
  "authorize i p =
     ensure (list_ex (\<lambda>r. role_permits r p) (roles i)) (AuthorizationDenied ''FORBIDDEN'')"

section \<open>Lemmas\<close>

lemma authorize_Inr_iff [monad_simps]:
  "authorize i p = Inr u \<longleftrightarrow> (\<exists>r \<in> set (roles i). role_permits r p)"
  by (auto simp: authorize_def monad_simps list_ex_iff)

lemma authorize_cases: "authorize i p = Inr () \<or> authorize i p = Inl (AuthorizationDenied ''FORBIDDEN'')"
  by (simp add: authorize_def ensure_def)

lemma identity_post_init_Inr:
  assumes "identity_post_init i = Inr j"
  shows "role j = role i \<and> role j \<in> set (roles j) \<and> \<not> blank (actor_id j) \<and> tenant j = tenant i"
  using assms by (auto simp: identity_post_init_def Let_def monad_simps split: if_splits)

lemma role_permits_approve_iff:
  "role_permits r DECISION_APPROVE \<longleftrightarrow> r = APPROVER \<or> r = TENANT_ADMIN"
  by (cases r) auto

lemma role_permits_validate_iff:
  "role_permits r DECISION_VALIDATE \<longleftrightarrow> r = VALIDATOR \<or> r = TENANT_ADMIN"
  by (cases r) auto

lemma role_permits_create_iff:
  "role_permits r DECISION_CREATE \<longleftrightarrow> r = GENERATOR \<or> r = TENANT_ADMIN"
  by (cases r) auto

text \<open>Every permission over the data lifecycle belongs to tenant administrators alone.\<close>

lemma role_permits_lifecycle_iff:
  "role_permits r DATA_DELETE \<longleftrightarrow> r = TENANT_ADMIN"
  "role_permits r LEGAL_HOLD_MANAGE \<longleftrightarrow> r = TENANT_ADMIN"
  by (cases r; simp)+

end
