(* ===== verification/SecurityEvents.thy ===== *)
theory SecurityEvents
  imports Identity
begin

text \<open>
  Security audit events (\<^verbatim>\<open>security_events.py\<close>) and the guards every route runs first
  (\<^verbatim>\<open>api/dependencies.py\<close>): authentication with the tenant assertions of the request,
  permission checks, the idempotency key. A guard records its decision in the security log
  before it returns or raises; the log is the in-memory sink. The identifiers and clock
  readings of the events are taken from the request's \<open>rq_uuid\<close> and \<open>rq_now\<close>, by
  the position of the event in the log.
\<close>

section \<open>security\_events.py\<close>

record security_event =
  se_event_id :: string
  se_event_type :: string
  se_schema_version :: string
  se_occurred_at :: string
  se_decision :: string
  se_actor_ref :: string
  se_tenant_id :: "string option"
  se_client_id :: "string option"
  se_correlation_id :: string
  se_reason_code :: string
  se_permission :: "string option"

definition AUTH_REASON_CODES :: "string list" where
  "AUTH_REASON_CODES = [''AUTH_TOKEN_MISSING'', ''AUTH_TOKEN_INVALID'', ''AUTH_TOKEN_EXPIRED'',
     ''AUTH_ISSUER_MISMATCH'', ''AUTH_AUDIENCE_MISMATCH'', ''AUTH_ROLE_REQUIRED'',
     ''AUTH_TENANT_MISMATCH'', ''AUTH_CROSS_TENANT_DENIED'', ''AUTH_ALLOWED'']"

text \<open>
  The pattern \<^verbatim>\<open>(?i)(bearer\s+|password|refresh.?token|client.?secret)\<close>, searched for at
  any position: the \<^verbatim>\<open>.\<close> matches every character but a newline.
\<close>

definition gap_match :: "string \<Rightarrow> string \<Rightarrow> string \<Rightarrow> bool" where
  "gap_match a b s =
     (py_startswith s (a @ b) \<or>
      (py_startswith s a \<and> drop (length a) s \<noteq> [] \<and> s ! length a \<noteq> CHR 0x0A \<and>
       py_startswith (drop (Suc (length a)) s) b))"

definition sensitive_at :: "string \<Rightarrow> bool" where
  "sensitive_at s =
     ((py_startswith s ''bearer'' \<and> drop 6 s \<noteq> [] \<and> py_isspace (s ! 6)) \<or>
      py_startswith s ''password'' \<or> gap_match ''refresh'' ''token'' s \<or>
      gap_match ''client'' ''secret'' s)"

fun sensitive_search :: "string \<Rightarrow> bool" where
  "sensitive_search [] = False"
| "sensitive_search (c # s) = (sensitive_at (c # s) \<or> sensitive_search s)"

definition sensitive :: "string \<Rightarrow> bool" where
  "sensitive s = sensitive_search (py_lower s)"

definition event_values :: "security_event \<Rightarrow> string list" where
  "event_values e = [se_event_id e, se_event_type e, se_actor_ref e]
     @ (case se_tenant_id e of None \<Rightarrow> [] | Some v \<Rightarrow> [v])
     @ (case se_client_id e of None \<Rightarrow> [] | Some v \<Rightarrow> [v])
     @ [se_correlation_id e]
     @ (case se_permission e of None \<Rightarrow> [] | Some v \<Rightarrow> [v])"

definition security_event_validate :: "security_event \<Rightarrow> unit result" where
  "security_event_validate e =
     bind_result (ensure (se_decision e \<in> {''ALLOWED'', ''DENIED''})
       (ValueError ''INVALID_SECURITY_DECISION'')) (\<lambda>_.
     bind_result (ensure (se_reason_code e \<in> set AUTH_REASON_CODES)
       (ValueError ''INVALID_AUTH_REASON_CODE'')) (\<lambda>_.
     bind_result (ensure (\<not> list_ex (\<lambda>v. blank v \<or> length v > 256) (event_values e))
       (ValueError ''INVALID_SECURITY_EVENT'')) (\<lambda>_.
     ensure (\<not> list_ex sensitive (event_values e)) (ValueError ''SENSITIVE_SECURITY_EVENT_VALUE''))))"

section \<open>dependencies.py\<close>

text \<open>What a handler sees of its request besides its body.\<close>

record request =
  rq_correlation_id :: string
  rq_uuid :: "nat \<Rightarrow> string"
  rq_now :: "nat \<Rightarrow> string"

type_synonym security_log = "security_event list"

definition record_event ::
  "request \<Rightarrow> string \<Rightarrow> string \<Rightarrow> string \<Rightarrow> string option \<Rightarrow> string option \<Rightarrow> string \<Rightarrow>
   string option \<Rightarrow> (security_log, unit) action" where
  "record_event rq event_type decision actor_ref tenant_id client reason_code perm log =
     (let event = \<lparr>se_event_id = rq_uuid rq (length log), se_event_type = event_type,
            se_schema_version = ''1.0.0'', se_occurred_at = rq_now rq (length log),
            se_decision = decision, se_actor_ref = actor_ref, se_tenant_id = tenant_id,
            se_client_id = client, se_correlation_id = rq_correlation_id rq,
            se_reason_code = reason_code, se_permission = perm\<rparr>
      in case security_event_validate event of
           Inl e \<Rightarrow> (Inl e, log)
         | Inr _ \<Rightarrow> (Inr (), log @ [event]))"

fun permission_value :: "permission \<Rightarrow> string" where
  "permission_value DECISION_CREATE = ''decision:create''"
| "permission_value DECISION_READ = ''decision:read''"
| "permission_value DECISION_EVALUATE = ''decision:evaluate''"
| "permission_value DECISION_VALIDATE = ''decision:validate''"
| "permission_value DECISION_APPROVE = ''decision:approve''"
| "permission_value REPORT_READ = ''report:read''"
| "permission_value AUDIT_READ = ''audit:read''"
| "permission_value INTAKE_CREATE = ''intake:create''"
| "permission_value INTAKE_READ = ''intake:read''"
| "permission_value INTAKE_CONFIRM = ''intake:confirm''"
| "permission_value INTAKE_COMPILE = ''intake:compile''"
| "permission_value RESEARCH_CREATE = ''research:create''"
| "permission_value RESEARCH_READ = ''research:read''"
| "permission_value RESEARCH_RETRY = ''research:retry''"
| "permission_value RESEARCH_CANCEL = ''research:cancel''"
| "permission_value RESEARCH_HANDOFF = ''research:handoff''"
| "permission_value RESEARCH_FORCE_REFRESH = ''research:force-refresh''"
| "permission_value RESEARCH_AUDIT_READ = ''research:audit-read''"
| "permission_value PILOT_EXPORT = ''pilot:export''"
| "permission_value DATA_DELETE = ''data:delete''"
| "permission_value LEGAL_HOLD_MANAGE = ''legal-hold:manage''"

definition record_authorization ::
  "request \<Rightarrow> identity \<Rightarrow> string \<Rightarrow> string \<Rightarrow> string \<Rightarrow> string \<Rightarrow> (security_log, unit) action" where
  "record_authorization rq i event_type decision reason_code perm =
     record_event rq event_type decision (actor_id i) (Some (tenant i)) (client_id i) reason_code
       (Some perm)"

abbreviation role_required :: exn where
  "role_required \<equiv> ApiError 403 ''FORBIDDEN'' [''AUTH_ROLE_REQUIRED'']"

definition require :: "request \<Rightarrow> identity \<Rightarrow> permission \<Rightarrow> (security_log, unit) action" where
  "require rq i p =
     (case authorize i p of
        Inl _ \<Rightarrow> bind_action
          (record_authorization rq i ''authorization.denied'' ''DENIED'' ''AUTH_ROLE_REQUIRED''
            (permission_value p)) (\<lambda>_. raise_action role_required)
      | Inr _ \<Rightarrow> record_authorization rq i ''authorization.allowed'' ''ALLOWED'' ''AUTH_ALLOWED''
            (permission_value p))"

definition require_one_of ::
  "request \<Rightarrow> identity \<Rightarrow> permission list \<Rightarrow> (security_log, permission) action" where
  "require_one_of rq i ps =
     (case List.find (\<lambda>p. authorize i p = Inr ()) ps of
        Some p \<Rightarrow> bind_action
          (record_authorization rq i ''authorization.allowed'' ''ALLOWED'' ''AUTH_ALLOWED''
            (permission_value p)) (\<lambda>_. pure_action p)
      | None \<Rightarrow> bind_action
          (record_authorization rq i ''authorization.denied'' ''DENIED'' ''AUTH_ROLE_REQUIRED''
            (py_join ''|'' (map permission_value ps))) (\<lambda>_. raise_action role_required))"

definition require_idempotency_key :: "string option \<Rightarrow> string result" where
  "require_idempotency_key value =
     (case value of None \<Rightarrow> Inl (ApiError 422 ''INVALID_REQUEST'' [''Idempotency-Key''])
      | Some k \<Rightarrow> bind_result (ensure (1 \<le> length k \<and> length k \<le> 128)
          (ApiError 422 ''INVALID_REQUEST'' [''Idempotency-Key''])) (\<lambda>_. Inr k))"

text \<open>
  \<^verbatim>\<open>get_identity\<close>. \<open>asserted\<close> holds the tenants the request itself names, in its
  \<^verbatim>\<open>X-Tenant-ID\<close> header, its path and its JSON body. \<open>reference\<close> stands for the digest
  \<^verbatim>\<open>_anonymous_ref\<close> makes of a presented token. The authenticator raises \<^verbatim>\<open>ValueError\<close>;
  its message is the reason code it carries.
\<close>

definition anonymous_ref :: "(string \<Rightarrow> string) \<Rightarrow> string option \<Rightarrow> string" where
  "anonymous_ref sha token =
     (case token of None \<Rightarrow> ''anonymous:missing''
      | Some t \<Rightarrow> if t = [] then ''anonymous:missing'' else ''anonymous:'' @ take 16 (sha t))"

definition auth_reason :: "exn \<Rightarrow> string" where
  "auth_reason e =
     (case e of ValueError m \<Rightarrow>
        if m \<in> {''AUTH_TOKEN_EXPIRED'', ''AUTH_ISSUER_MISMATCH'', ''AUTH_AUDIENCE_MISMATCH'',
                ''AUTH_ROLE_REQUIRED''} then m else ''AUTH_TOKEN_INVALID''
      | _ \<Rightarrow> ''AUTH_TOKEN_INVALID'')"

definition deny_authentication ::
  "request \<Rightarrow> (string \<Rightarrow> string) \<Rightarrow> string option \<Rightarrow> string \<Rightarrow> (security_log, 'a) action" where
  "deny_authentication rq sha token reason =
     bind_action (record_event rq ''authentication.failed'' ''DENIED'' (anonymous_ref sha token)
       None None reason None)
     (\<lambda>_. raise_action (ApiError 401 ''UNAUTHENTICATED'' [reason]))"

definition get_identity ::
  "(string \<Rightarrow> identity result) \<Rightarrow> (string \<Rightarrow> string) \<Rightarrow> request \<Rightarrow> string option \<Rightarrow> string list \<Rightarrow>
   (security_log, identity) action" where
  "get_identity authenticate sha rq authorization asserted =
     (case authorization of
        None \<Rightarrow> deny_authentication rq sha None ''AUTH_TOKEN_MISSING''
      | Some a \<Rightarrow>
          if a = [] then deny_authentication rq sha None ''AUTH_TOKEN_MISSING''
          else if \<not> py_startswith a ''Bearer '' then
            deny_authentication rq sha (Some a) ''AUTH_TOKEN_INVALID''
          else (case authenticate (drop 7 a) of
              Inl e \<Rightarrow> deny_authentication rq sha (Some (drop 7 a)) (auth_reason e)
            | Inr i \<Rightarrow>
                bind_action (record_event rq ''authentication.succeeded'' ''ALLOWED'' (actor_id i)
                  (Some (tenant i)) (client_id i) ''AUTH_ALLOWED'' None) (\<lambda>_.
                if list_ex (\<lambda>t. t \<noteq> tenant i) asserted then
                  let reason = (if SYSTEM_ADMINISTRATOR \<in> set (roles i)
                        then ''AUTH_CROSS_TENANT_DENIED'' else ''AUTH_TENANT_MISMATCH'') in
                  bind_action (record_event rq ''tenant.denied'' ''DENIED'' (actor_id i)
                    (Some (tenant i)) (client_id i) reason None)
                  (\<lambda>_. raise_action (ApiError 403 ''FORBIDDEN'' [reason]))
                else pure_action i)))"

section \<open>Lemmas\<close>

lemma record_event_cases:
  obtains (recorded) e where "record_event rq ty dec a t c r p log = (Inr (), log @ [e])"
      "se_decision e = dec" "se_actor_ref e = a" "se_reason_code e = r" "se_permission e = p"
      "se_event_type e = ty" "se_tenant_id e = t" "security_event_validate e = Inr ()"
  | (refused) x where "record_event rq ty dec a t c r p log = (Inl x, log)"
proof (cases "record_event rq ty dec a t c r p log")
  case (Pair r log')
  then show ?thesis
    by (cases r) (auto simp: record_event_def Let_def split: sum.splits intro: that)
qed

lemma record_event_Inr_iff:
  "record_event rq ty dec a t c r p log = (Inr u, log') \<longleftrightarrow>
     (\<exists>e. log' = log @ [e] \<and> security_event_validate e = Inr () \<and>
        e = \<lparr>se_event_id = rq_uuid rq (length log), se_event_type = ty,
            se_schema_version = ''1.0.0'', se_occurred_at = rq_now rq (length log),
            se_decision = dec, se_actor_ref = a, se_tenant_id = t, se_client_id = c,
            se_correlation_id = rq_correlation_id rq, se_reason_code = r, se_permission = p\<rparr>)"
  by (auto simp: record_event_def Let_def split: sum.splits)

text \<open>A guard lets a request through only with the permission, and records that it did.\<close>

lemma require_Inr:
  assumes "require rq i p log = (Inr u, log')"
  shows "\<exists>r \<in> set (roles i). role_permits r p"
    and "\<exists>e. log' = log @ [e] \<and> se_decision e = ''ALLOWED'' \<and> se_actor_ref e = actor_id i \<and>
      se_permission e = Some (permission_value p) \<and> se_tenant_id e = Some (tenant i)"
  using assms
  by (auto simp: require_def monad_simps record_authorization_def record_event_Inr_iff
      authorize_Inr_iff split: sum.splits)

lemma require_denied:
  assumes "require rq i p log = (Inl role_required, log')"
  shows "\<not> (\<exists>r \<in> set (roles i). role_permits r p)"
    and "\<exists>e. log' = log @ [e] \<and> se_decision e = ''DENIED'' \<and> se_actor_ref e = actor_id i \<and>
      se_permission e = Some (permission_value p) \<and> se_tenant_id e = Some (tenant i)"
  using assms
  by (auto simp: require_def monad_simps record_authorization_def record_event_def Let_def
      authorize_def ensure_def list_ex_iff security_event_validate_def
      split: sum.splits if_splits)

lemma require_one_of_Inr:
  assumes "require_one_of rq i ps log = (Inr p, log')"
  shows "p \<in> set ps \<and> (\<exists>r \<in> set (roles i). role_permits r p)"
  using assms
  by (auto simp: require_one_of_def monad_simps authorize_Inr_iff split: option.splits
      dest!: find_Some_set)

lemma require_idempotency_key_Inr_iff [monad_simps]:
  "require_idempotency_key v = Inr k \<longleftrightarrow> v = Some k \<and> 1 \<le> length k \<and> length k \<le> 128"
  by (auto simp: require_idempotency_key_def monad_simps split: option.splits)

text \<open>The identity a request acts under is authenticated, and is of every tenant it names.\<close>

lemma get_identity_Inr:
  assumes "get_identity authenticate sha rq authorization asserted log = (Inr i, log')"
  shows "\<exists>a. authorization = Some a \<and> py_startswith a ''Bearer '' \<and> authenticate (drop 7 a) = Inr i"
    and "\<forall>t \<in> set asserted. t = tenant i"
  using assms
  by (auto simp: get_identity_def deny_authentication_def monad_simps list_ex_iff Let_def
      split: option.splits sum.splits if_splits)

end
