(* ===== verification/Tables.thy ===== *)
theory Tables
  imports Prelude "HOL-Library.Product_Lexorder"
begin

text \<open>
  Relational tables as lists of rows with a key: the fragment of SQL the repositories use.
  An \<^verbatim>\<open>INSERT\<close> that violates the primary key raises, an \<^verbatim>\<open>UPDATE ... WHERE key = ?\<close>
  rewrites the matching row, \<^verbatim>\<open>LIMIT\<close>/\<^verbatim>\<open>OFFSET\<close> select a page. The locale
  \<open>tenant_store\<close> is the isolation contract of every multi-tenant store of the program:
  a write on behalf of one tenant changes nothing another tenant can read.
\<close>

section \<open>Rows and keys\<close>

definition row_find :: "('r \<Rightarrow> 'k) \<Rightarrow> 'k \<Rightarrow> 'r list \<Rightarrow> 'r option" where
  "row_find key k rows = List.find (\<lambda>r. key r = k) rows"

definition row_insert :: "('r \<Rightarrow> 'k) \<Rightarrow> 'r \<Rightarrow> 'r list \<Rightarrow> 'r list result" where
  "row_insert key r rows =
     (if key r \<in> key ` set rows then Inl IntegrityError else Inr (rows @ [r]))"

definition row_update :: "('r \<Rightarrow> 'k) \<Rightarrow> 'k \<Rightarrow> ('r \<Rightarrow> 'r) \<Rightarrow> 'r list \<Rightarrow> 'r list" where
  "row_update key k f rows = map (\<lambda>r. if key r = k then f r else r) rows"

definition row_upsert :: "('r \<Rightarrow> 'k) \<Rightarrow> 'r \<Rightarrow> 'r list \<Rightarrow> 'r list" where
  "row_upsert key r rows =
     (if key r \<in> key ` set rows then row_update key (key r) (\<lambda>_. r) rows else rows @ [r])"

definition sql_page :: "nat \<Rightarrow> nat \<Rightarrow> 'r list \<Rightarrow> 'r list" where
  "sql_page limit offset rows = take limit (drop offset rows)"

lemma row_find_SomeD: "row_find key k rows = Some r \<Longrightarrow> r \<in> set rows \<and> key r = k"
  using find_Some_set by (fastforce simp: row_find_def)

lemma row_find_None_iff: "row_find key k rows = None \<longleftrightarrow> k \<notin> key ` set rows"
  by (auto simp: row_find_def find_None_iff)

lemma row_find_Nil [simp]: "row_find key k [] = None"
  by (simp add: row_find_def)

lemma row_find_append [simp]:
  "row_find key k (xs @ ys) = (case row_find key k xs of None \<Rightarrow> row_find key k ys | Some r \<Rightarrow> Some r)"
  by (induction xs) (auto simp: row_find_def)

lemma row_find_single [simp]: "row_find key k [r] = (if key r = k then Some r else None)"
  by (simp add: row_find_def)

lemma row_find_distinct:
  "distinct (map key rows) \<Longrightarrow> r \<in> set rows \<Longrightarrow> row_find key (key r) rows = Some r"
  by (induction rows) (auto simp: row_find_def)

lemma row_insert_Inr_iff:
  "row_insert key r rows = Inr rows' \<longleftrightarrow> key r \<notin> key ` set rows \<and> rows' = rows @ [r]"
  by (auto simp: row_insert_def)

lemma row_insert_find:
  assumes "row_insert key r rows = Inr rows'"
  shows "row_find key k rows' = (if k = key r then Some r else row_find key k rows)"
  using assms row_find_None_iff [of key "key r" rows]
  by (auto simp: row_insert_Inr_iff split: option.splits)

lemma row_update_find:
  assumes "\<And>r. key (f r) = key r"
  shows "row_find key k' (row_update key k f rows) =
    (if k' = k then map_option f (row_find key k rows) else row_find key k' rows)"
  by (induction rows) (auto simp: row_find_def row_update_def assms)

lemma row_update_keys [simp]:
  "(\<And>r. key (f r) = key r) \<Longrightarrow> map key (row_update key k f rows) = map key rows"
  by (induction rows) (auto simp: row_update_def)

lemma row_update_key_set [simp]:
  "(\<And>r. key (f r) = key r) \<Longrightarrow> key ` set (row_update key k f rows) = key ` set rows"
  by (metis row_update_keys set_map)

lemma row_insert_distinct:
  "row_insert key r rows = Inr rows' \<Longrightarrow> distinct (map key rows) \<Longrightarrow> distinct (map key rows')"
  by (auto simp: row_insert_Inr_iff)

lemma row_upsert_find:
  "row_find key k (row_upsert key r rows) = (if k = key r then Some r else row_find key k rows)"
proof (cases "key r \<in> key ` set rows")
  case True
  then have "row_find key (key r) rows \<noteq> None" by (simp add: row_find_None_iff)
  have "row_find key k (row_update key (key r) (\<lambda>_. r) rows) =
      (if k = key r then map_option (\<lambda>_. r) (row_find key (key r) rows) else row_find key k rows)"
    by (induction rows) (auto simp: row_find_def row_update_def)
  with True \<open>row_find key (key r) rows \<noteq> None\<close> show ?thesis by (auto simp: row_upsert_def)
next
  case False
  then have "row_find key (key r) rows = None" by (simp add: row_find_None_iff)
  with False show ?thesis by (auto simp: row_upsert_def split: option.splits)
qed

section \<open>Tenant isolation\<close>

text \<open>
  \<open>view s t\<close> is everything tenant \<open>t\<close> can read of the store, \<open>step t s s'\<close>
  an operation on behalf of tenant \<open>t\<close>.
\<close>

locale tenant_store =
  fixes view :: "'s \<Rightarrow> string \<Rightarrow> 'v"
    and step :: "string \<Rightarrow> 's \<Rightarrow> 's \<Rightarrow> bool"
  assumes step_isolated: "step t s s' \<Longrightarrow> t' \<noteq> t \<Longrightarrow> view s' t' = view s t'"
begin

lemma steps_isolated:
  assumes "(\<lambda>a b. \<exists>t. t \<noteq> me \<and> step t a b)\<^sup>*\<^sup>* s s'"
  shows "view s' me = view s me"
  using assms by (induction rule: rtranclp_induct) (metis step_isolated)+

end

end
