(* ===== verification/DecisionRepository.thy ===== *)
theory DecisionRepository
  imports Transitions SecurityEvents Tables
begin

text \<open>
  The decision store: \<^verbatim>\<open>repositories/sqlite.py\<close> with the tables, keys and foreign keys of
  \<^verbatim>\<open>migrations/001_api_v0_2.sql\<close>. A method is one transaction: it returns the new database,
  or raises and leaves the old one. Documents, events and responses are stored as their
  JSON text; the model stores the values. \<open>now\<close> is \<^verbatim>\<open>CURRENT_TIMESTAMP\<close>.
\<close>

section \<open>Tables\<close>

record decision_row =
  dr_tenant :: string
  dr_decision_id :: string
  dr_document :: decision_file
  dr_updated_at :: string

record report_row =
  rep_tenant :: string
  rep_decision_id :: string
  rep_report :: pydict

record event_row =
  er_tenant :: string
  er_decision_id :: string
  er_event_id :: string
  er_event :: audit_event

record idempotency_row =
  ir_tenant :: string
  ir_actor_id :: string
  ir_operation :: string
  ir_key :: string
  ir_request_hash :: string
  ir_status_code :: int
  ir_response :: json

record decision_db =
  decisions :: "decision_row list"
  reports :: "report_row list"
  audit_rows :: "event_row list"
  idempotency :: "idempotency_row list"

definition empty_db :: decision_db where
  "empty_db = \<lparr>decisions = [], reports = [], audit_rows = [], idempotency = []\<rparr>"

abbreviation decision_key :: "decision_row \<Rightarrow> string \<times> string" where
  "decision_key r \<equiv> (dr_tenant r, dr_decision_id r)"

abbreviation report_key :: "report_row \<Rightarrow> string \<times> string" where
  "report_key r \<equiv> (rep_tenant r, rep_decision_id r)"

abbreviation event_key :: "event_row \<Rightarrow> string \<times> string \<times> string" where
  "event_key r \<equiv> (er_tenant r, er_decision_id r, er_event_id r)"

abbreviation idempotency_row_key :: "idempotency_row \<Rightarrow> string \<times> string \<times> string \<times> string" where
  "idempotency_row_key r \<equiv> (ir_tenant r, ir_actor_id r, ir_operation r, ir_key r)"

text \<open>\<^verbatim>\<open>IdempotencyWrite\<close>: actor, operation, key, request hash, status code, response.\<close>

type_synonym idempotency_write = "string \<times> string \<times> string \<times> string \<times> int \<times> json"

section \<open>SqliteDecisionRepository\<close>

definition insert_audit ::
  "string \<Rightarrow> string \<Rightarrow> audit_event \<Rightarrow> decision_db \<Rightarrow> decision_db result" where
  "insert_audit t did e db =
     bind_result (ensure ((t, did) \<in> decision_key ` set (decisions db)) IntegrityError) (\<lambda>_.
     bind_result (row_insert event_key
         \<lparr>er_tenant = t, er_decision_id = did, er_event_id = ae_event_id e, er_event = e\<rparr>
         (audit_rows db)) (\<lambda>rows.
     Inr (db\<lparr>audit_rows := rows\<rparr>)))"

fun insert_audits ::
  "string \<Rightarrow> string \<Rightarrow> audit_event list \<Rightarrow> decision_db \<Rightarrow> decision_db result" where
  "insert_audits t did [] db = Inr db"
| "insert_audits t did (e # es) db = bind_result (insert_audit t did e db) (insert_audits t did es)"

definition insert_idempotency ::
  "string \<Rightarrow> idempotency_write \<Rightarrow> decision_db \<Rightarrow> decision_db result" where
  "insert_idempotency t w db = (case w of (actor, operation, key, request_hash, status, response) \<Rightarrow>
     bind_result (row_insert idempotency_row_key
         \<lparr>ir_tenant = t, ir_actor_id = actor, ir_operation = operation, ir_key = key,
          ir_request_hash = request_hash, ir_status_code = status, ir_response = response\<rparr>
         (idempotency db)) (\<lambda>rows.
     Inr (db\<lparr>idempotency := rows\<rparr>)))"

definition write_idempotency ::
  "string \<Rightarrow> idempotency_write option \<Rightarrow> decision_db \<Rightarrow> decision_db result" where
  "write_idempotency t w db = (case w of None \<Rightarrow> Inr db | Some v \<Rightarrow> insert_idempotency t v db)"

definition repo_create_decision ::
  "string \<Rightarrow> string \<Rightarrow> decision_file \<Rightarrow> audit_event list \<Rightarrow> idempotency_write option \<Rightarrow>
   decision_db \<Rightarrow> decision_db result" where
  "repo_create_decision now t document events w db =
     bind_result (row_insert decision_key
         \<lparr>dr_tenant = t, dr_decision_id = df_decision_id document, dr_document = document,
          dr_updated_at = now\<rparr> (decisions db)) (\<lambda>rows.
     bind_result (insert_audits t (df_decision_id document) events (db\<lparr>decisions := rows\<rparr>)) (\<lambda>db1.
     write_idempotency t w db1))"

definition repo_get_decision :: "string \<Rightarrow> string \<Rightarrow> decision_db \<Rightarrow> decision_file option" where
  "repo_get_decision t did db = map_option dr_document (row_find decision_key (t, did) (decisions db))"

text \<open>
  \<^verbatim>\<open>_decision_summary\<close> reads the member \<^verbatim>\<open>outcome\<close>, which no Decision File has, so the
  summary's outcome is null.
\<close>

definition decision_summary :: "decision_row \<Rightarrow> json" where
  "decision_summary r = JObj [
     (''decision_id'', JStr (df_decision_id (dr_document r))),
     (''title'', JStr (if df_title (dr_document r) \<noteq> [] then df_title (dr_document r)
                       else df_decision_id (dr_document r))),
     (''status'', JStr (case_status_value (df_status (dr_document r)))),
     (''outcome'', (case decision_json (dr_document r) of JObj d \<Rightarrow> dict_get d ''outcome'' JNull
                    | _ \<Rightarrow> JNull)),
     (''updated_at'', JStr (dr_updated_at r))]"

definition repo_list_decisions ::
  "string \<Rightarrow> int \<Rightarrow> int \<Rightarrow> decision_db \<Rightarrow> json list result" where
  "repo_list_decisions t limit offset db =
     bind_result (ensure (1 \<le> limit \<and> limit \<le> 100 \<and> offset \<ge> 0)
       (ValueError ''INVALID_PAGE_LIMIT'')) (\<lambda>_.
     Inr (map decision_summary (sql_page (nat limit) (nat offset)
       (rev (sort_key (\<lambda>r. (dr_updated_at r, dr_decision_id r))
         (filter (\<lambda>r. dr_tenant r = t) (decisions db)))))))"

definition repo_save_result ::
  "string \<Rightarrow> string \<Rightarrow> decision_file \<Rightarrow> pydict option \<Rightarrow> audit_event list \<Rightarrow>
   idempotency_write option \<Rightarrow> decision_db \<Rightarrow> decision_db result" where
  "repo_save_result now t document report events w db =
     (let did = df_decision_id document in
      bind_result (ensure ((t, did) \<in> decision_key ` set (decisions db))
        (KeyError ''DECISION_NOT_FOUND'')) (\<lambda>_.
      let db1 = db\<lparr>decisions := row_update decision_key (t, did)
                (\<lambda>r. r\<lparr>dr_document := document, dr_updated_at := now\<rparr>) (decisions db)\<rparr>;
          db2 = (case report of None \<Rightarrow> db1
                 | Some r \<Rightarrow> db1\<lparr>reports := row_upsert report_key
                     \<lparr>rep_tenant = t, rep_decision_id = did, rep_report = r\<rparr> (reports db1)\<rparr>)
      in bind_result (insert_audits t did events db2) (\<lambda>db3. write_idempotency t w db3)))"

definition repo_get_report :: "string \<Rightarrow> string \<Rightarrow> decision_db \<Rightarrow> pydict option" where
  "repo_get_report t did db = map_option rep_report (row_find report_key (t, did) (reports db))"

definition repo_list_audit ::
  "string \<Rightarrow> string \<Rightarrow> int \<Rightarrow> int \<Rightarrow> decision_db \<Rightarrow> audit_event list result" where
  "repo_list_audit t did limit offset db =
     bind_result (ensure (1 \<le> limit \<and> limit \<le> 100 \<and> offset \<ge> 0)
       (ValueError ''INVALID_PAGE_LIMIT'')) (\<lambda>_.
     Inr (map er_event (sql_page (nat limit) (nat offset)
       (filter (\<lambda>r. er_tenant r = t \<and> er_decision_id r = did) (audit_rows db)))))"

definition repo_get_idempotency ::
  "string \<Rightarrow> string \<Rightarrow> string \<Rightarrow> string \<Rightarrow> string \<Rightarrow> decision_db \<Rightarrow> (int \<times> json) option result" where
  "repo_get_idempotency t actor operation key request_hash db =
     (case row_find idempotency_row_key (t, actor, operation, key) (idempotency db) of
        None \<Rightarrow> Inr None
      | Some r \<Rightarrow> bind_result (ensure (ir_request_hash r = request_hash)
          (IdempotencyConflict ''IDEMPOTENCY_KEY_REUSED'')) (\<lambda>_.
          Inr (Some (ir_status_code r, ir_response r))))"

section \<open>What a tenant can read\<close>

definition tenant_view ::
  "decision_db \<Rightarrow> string \<Rightarrow> decision_row list \<times> report_row list \<times> event_row list \<times> idempotency_row list" where
  "tenant_view db t =
     (filter (\<lambda>r. dr_tenant r = t) (decisions db), filter (\<lambda>r. rep_tenant r = t) (reports db),
      filter (\<lambda>r. er_tenant r = t) (audit_rows db), filter (\<lambda>r. ir_tenant r = t) (idempotency db))"

definition repo_step :: "string \<Rightarrow> decision_db \<Rightarrow> decision_db \<Rightarrow> bool" where
  "repo_step t db db' =
     ((\<exists>now d es w. repo_create_decision now t d es w db = Inr db') \<or>
      (\<exists>now d r es w. repo_save_result now t d r es w db = Inr db') \<or>
      (\<exists>w. insert_idempotency t w db = Inr db'))"

lemma insert_audit_InrD:
  assumes "insert_audit t did e db = Inr db'"
  shows "db' = db\<lparr>audit_rows := audit_rows db @ [\<lparr>er_tenant = t, er_decision_id = did,
      er_event_id = ae_event_id e, er_event = e\<rparr>]\<rparr>"
    and "(t, did, ae_event_id e) \<notin> event_key ` set (audit_rows db)"
  using assms by (auto simp: insert_audit_def monad_simps row_insert_Inr_iff)

lemma insert_audits_InrD:
  assumes "insert_audits t did es db = Inr db'"
  shows "db' = db\<lparr>audit_rows := audit_rows db @ map (\<lambda>e. \<lparr>er_tenant = t, er_decision_id = did,
      er_event_id = ae_event_id e, er_event = e\<rparr>) es\<rparr>"
  using assms
proof (induction es arbitrary: db)
  case Nil
  then show ?case by simp
next
  case (Cons e es)
  then obtain db1 where db1: "insert_audit t did e db = Inr db1" "insert_audits t did es db1 = Inr db'"
    by (auto simp: monad_simps)
  from Cons.IH [OF db1(2)] insert_audit_InrD(1) [OF db1(1)] show ?case by simp
qed

lemma write_idempotency_InrD:
  assumes "write_idempotency t w db = Inr db'"
  shows "\<exists>rows. db' = db\<lparr>idempotency := idempotency db @ rows\<rparr> \<and> (\<forall>r \<in> set rows. ir_tenant r = t)"
proof (cases w)
  case None
  with assms show ?thesis by (intro exI [of _ "[]"]) (simp add: write_idempotency_def)
next
  case (Some v)
  obtain a oper k h st res where "v = (a, oper, k, h, st, res)" by (cases v)
  with assms Some show ?thesis
    by (auto simp: write_idempotency_def insert_idempotency_def monad_simps row_insert_Inr_iff)
qed

lemma filter_row_update:
  assumes "\<And>r. P (f r) = P r" and "\<And>r. key r = k \<Longrightarrow> \<not> P r"
  shows "filter P (row_update key k f rows) = filter P rows"
  using assms by (induction rows) (auto simp: row_update_def)

lemma row_update_no_key: "k \<notin> key ` set rows \<Longrightarrow> row_update key k f rows = rows"
  unfolding row_update_def by (rule map_idI) auto

lemma filter_row_upsert:
  assumes "\<And>r'. key r' = key r \<Longrightarrow> \<not> P r'"
  shows "filter P (row_upsert key r rows) = filter P rows"
proof -
  have "filter P (row_update key (key r) (\<lambda>_. r) rows) = filter P rows"
    using assms by (induction rows) (auto simp: row_update_def)
  with assms show ?thesis by (simp add: row_upsert_def)
qed

lemma tenant_view_insert_audits:
  "insert_audits t did es db = Inr db' \<Longrightarrow> t' \<noteq> t \<Longrightarrow> tenant_view db' t' = tenant_view db t'"
  by (auto dest!: insert_audits_InrD simp: tenant_view_def filter_empty_conv)

lemma tenant_view_write_idempotency:
  "write_idempotency t w db = Inr db' \<Longrightarrow> t' \<noteq> t \<Longrightarrow> tenant_view db' t' = tenant_view db t'"
  by (auto dest!: write_idempotency_InrD simp: tenant_view_def filter_empty_conv)

lemma tenant_view_create:
  assumes "repo_create_decision now t d es w db = Inr db'" and "t' \<noteq> t"
  shows "tenant_view db' t' = tenant_view db t'"
proof -
  from assms(1) obtain rows db1 where
    r: "row_insert decision_key \<lparr>dr_tenant = t, dr_decision_id = df_decision_id d, dr_document = d,
        dr_updated_at = now\<rparr> (decisions db) = Inr rows"
      and a: "insert_audits t (df_decision_id d) es (db\<lparr>decisions := rows\<rparr>) = Inr db1"
      and i: "write_idempotency t w db1 = Inr db'"
    by (auto simp: repo_create_decision_def monad_simps)
  from r assms(2) have "tenant_view (db\<lparr>decisions := rows\<rparr>) t' = tenant_view db t'"
    by (auto simp: row_insert_Inr_iff tenant_view_def)
  with tenant_view_insert_audits [OF a assms(2)] tenant_view_write_idempotency [OF i assms(2)]
  show ?thesis by simp
qed

lemma tenant_view_save:
  assumes "repo_save_result now t d r es w db = Inr db'" and "t' \<noteq> t"
  shows "tenant_view db' t' = tenant_view db t'"
proof -
  let ?db1 = "db\<lparr>decisions := row_update decision_key (t, df_decision_id d)
    (\<lambda>r. r\<lparr>dr_document := d, dr_updated_at := now\<rparr>) (decisions db)\<rparr>"
  let ?db2 = "case r of None \<Rightarrow> ?db1 | Some r \<Rightarrow> ?db1\<lparr>reports := row_upsert report_key
    \<lparr>rep_tenant = t, rep_decision_id = df_decision_id d, rep_report = r\<rparr> (reports ?db1)\<rparr>"
  from assms(1) obtain db3 where a: "insert_audits t (df_decision_id d) es ?db2 = Inr db3"
    and i: "write_idempotency t w db3 = Inr db'"
    by (auto simp: repo_save_result_def monad_simps Let_def)
  have "filter (\<lambda>r. dr_tenant r = t') (decisions ?db1) = filter (\<lambda>r. dr_tenant r = t') (decisions db)"
    using assms(2) by (auto intro!: filter_row_update)
  moreover have "filter (\<lambda>r. rep_tenant r = t') (row_upsert report_key q (reports db)) =
      filter (\<lambda>r. rep_tenant r = t') (reports db)" if "rep_tenant q = t" for q
    using that assms(2) by (auto intro!: filter_row_upsert)
  ultimately have "tenant_view ?db2 t' = tenant_view db t'"
    by (auto simp: tenant_view_def split: option.splits)
  with tenant_view_insert_audits [OF a assms(2)] tenant_view_write_idempotency [OF i assms(2)]
  show ?thesis by simp
qed

interpretation decision_store: tenant_store tenant_view repo_step
proof
  fix t db db' t'
  assume s: "repo_step t db db'" and t: "t' \<noteq> t"
  have w: "write_idempotency t (Some w) db = insert_idempotency t w db" for w
    by (simp add: write_idempotency_def)
  from s consider now d es w where "repo_create_decision now t d es w db = Inr db'"
    | now d r es w where "repo_save_result now t d r es w db = Inr db'"
    | w where "write_idempotency t (Some w) db = Inr db'"
    unfolding repo_step_def w by blast
  then show "tenant_view db' t' = tenant_view db t'"
  proof cases
    case 1
    then show ?thesis using t by (rule tenant_view_create)
  next
    case 2
    then show ?thesis using t by (rule tenant_view_save)
  next
    case 3
    then show ?thesis using t by (rule tenant_view_write_idempotency)
  qed
qed

text \<open>Every read of a tenant is a function of its view.\<close>

lemma row_find_filter:
  "(\<And>r. key r = k \<Longrightarrow> P r) \<Longrightarrow> row_find key k (filter P rows) = row_find key k rows"
  by (induction rows) (auto simp: row_find_def)

lemma reads_of_view:
  assumes "tenant_view db t = tenant_view db' t"
  shows "repo_get_decision t did db = repo_get_decision t did db'"
    and "repo_get_report t did db = repo_get_report t did db'"
    and "repo_list_decisions t limit offset db = repo_list_decisions t limit offset db'"
    and "repo_list_audit t did limit offset db = repo_list_audit t did limit offset db'"
    and "repo_get_idempotency t a oper k h db = repo_get_idempotency t a oper k h db'"
proof -
  note v = assms [unfolded tenant_view_def prod.inject]
  have flt: "filter (\<lambda>r. er_tenant r = t \<and> er_decision_id r = did) rows =
      filter (\<lambda>r. er_decision_id r = did) (filter (\<lambda>r. er_tenant r = t) rows)" for rows
    by simp
  have d: "row_find decision_key (t, did) rows =
      row_find decision_key (t, did) (filter (\<lambda>r. dr_tenant r = t) rows)" for rows
    by (rule row_find_filter [symmetric]) simp
  have p: "row_find report_key (t, did) rows =
      row_find report_key (t, did) (filter (\<lambda>r. rep_tenant r = t) rows)" for rows
    by (rule row_find_filter [symmetric]) simp
  have i: "row_find idempotency_row_key (t, a, oper, k) rows =
      row_find idempotency_row_key (t, a, oper, k) (filter (\<lambda>r. ir_tenant r = t) rows)" for rows
    by (rule row_find_filter [symmetric]) simp
  show "repo_get_decision t did db = repo_get_decision t did db'"
    unfolding repo_get_decision_def by (simp only: d [of "decisions db"] d [of "decisions db'"] v)
  show "repo_get_report t did db = repo_get_report t did db'"
    unfolding repo_get_report_def by (simp only: p [of "reports db"] p [of "reports db'"] v)
  show "repo_list_decisions t limit offset db = repo_list_decisions t limit offset db'"
    by (simp add: repo_list_decisions_def v)
  show "repo_list_audit t did limit offset db = repo_list_audit t did limit offset db'"
    by (simp add: repo_list_audit_def flt v del: filter_filter)
  show "repo_get_idempotency t a oper k h db = repo_get_idempotency t a oper k h db'"
    unfolding repo_get_idempotency_def by (simp only: i [of "idempotency db"] i [of "idempotency db'"] v)
qed

end
