(* ===== verification/DecisionApi.thy ===== *)
theory DecisionApi
  imports DecisionRepository
begin

text \<open>
  The decision routes, \<^verbatim>\<open>api/routes/decisions.py\<close>: create, evaluate, transition and the
  reads, each the whole handler over the decision database and the security log. A handler
  runs to its end before the next one starts, except in the section on interleaving, where
  the read and the write of two requests are separate steps. Counters of the metrics port
  and the response headers are left out.

  What a handler takes from its environment is the record \<open>environment\<close>: the readings of
  the clock, the nonces of \<^verbatim>\<open>secrets.token_urlsafe\<close> (by the number of approvals already on
  the document), the database's timestamp.
\<close>

section \<open>State and helpers\<close>

record api_state =
  api_db :: decision_db
  api_log :: security_log

record environment =
  env_runtime :: runtime
  env_request :: request
  env_clock :: "nat \<Rightarrow> string"
  env_now :: string
  env_transition_now :: string
  env_timestamp :: string
  env_nonces :: "nat \<Rightarrow> string"

text \<open>
  A request body: text that is not JSON, a JSON value without the shape of a Decision File,
  or a value of that shape.
\<close>

datatype body = Not_JSON | Other_JSON json | Document decision_file

definition on_log :: "(security_log, 'a) action \<Rightarrow> (api_state, 'a) action" where
  "on_log m s = (case m (api_log s) of (r, log) \<Rightarrow> (r, s\<lparr>api_log := log\<rparr>))"

definition on_db :: "(decision_db \<Rightarrow> decision_db result) \<Rightarrow> (api_state, unit) action" where
  "on_db f s = (case f (api_db s) of Inl e \<Rightarrow> (Inl e, s) | Inr db \<Rightarrow> (Inr (), s\<lparr>api_db := db\<rparr>))"

definition read_db :: "(decision_db \<Rightarrow> 'a) \<Rightarrow> (api_state, 'a) action" where
  "read_db f = read_state (\<lambda>s. f (api_db s))"

definition map_error :: "(exn \<Rightarrow> exn) \<Rightarrow> 'a result \<Rightarrow> 'a result" where
  "map_error h r = (case r of Inl e \<Rightarrow> Inl (h e) | Inr x \<Rightarrow> Inr x)"

text \<open>\<^verbatim>\<open>except (ContractValidationError, ValueError)\<close>: both are \<^verbatim>\<open>ValueError\<close>s, as the semantic error is.\<close>

definition invalid_request :: "exn \<Rightarrow> exn" where
  "invalid_request e =
     (case e of ContractValidationError \<Rightarrow> ApiError 422 ''INVALID_REQUEST'' [''validation'']
      | ValueError m \<Rightarrow> ApiError 422 ''INVALID_REQUEST'' [''validation'']
      | DecisionFileSemanticError ms \<Rightarrow> ApiError 422 ''INVALID_REQUEST'' [''validation'']
      | _ \<Rightarrow> e)"

definition already_exists :: "exn \<Rightarrow> exn" where
  "already_exists e =
     (if e = IntegrityError then ApiError 409 ''CONFLICT'' [''DECISION_ALREADY_EXISTS''] else e)"

definition transition_conflict :: "exn \<Rightarrow> exn" where
  "transition_conflict e =
     (case e of TransitionRejected codes \<Rightarrow> ApiError 409 ''CONFLICT'' codes | _ \<Rightarrow> e)"

definition api_operation ::
  "environment \<Rightarrow> identity \<Rightarrow> string \<Rightarrow> string \<Rightarrow> json \<Rightarrow> (api_state, string \<times> (int \<times> json) option) action" where
  "api_operation env i key operation payload =
     (let digest = payload_hash (sha256 (env_runtime env)) payload in
      bind_action (read_db (repo_get_idempotency (tenant i) (actor_id i) operation key digest)) (\<lambda>r.
      case r of
        Inl e \<Rightarrow> raise_action (ApiError 409 ''CONFLICT'' [''IDEMPOTENCY_KEY_REUSED''])
      | Inr replay \<Rightarrow> pure_action (digest, replay)))"

fun preferred_role :: "permission \<Rightarrow> role option" where
  "preferred_role DECISION_CREATE = Some GENERATOR"
| "preferred_role DECISION_EVALUATE = Some VALIDATOR"
| "preferred_role DECISION_VALIDATE = Some VALIDATOR"
| "preferred_role DECISION_APPROVE = Some APPROVER"
| "preferred_role _ = None"

definition api_actor :: "identity \<Rightarrow> permission \<Rightarrow> actor" where
  "api_actor i p =
     \<lparr>act_id = actor_id i,
      act_role = role_value (case preferred_role p of
         Some r \<Rightarrow> if r \<in> set (roles i) then r else role i | None \<Rightarrow> role i),
      act_kind = kind_value (kind i)\<rparr>"

text \<open>\<^verbatim>\<open>event.update({...})\<close>: the request the event came with.\<close>

definition stamp :: "environment \<Rightarrow> identity \<Rightarrow> audit_event \<Rightarrow> audit_event" where
  "stamp env i e = e\<lparr>ae_tenant_id := Some (tenant i),
     ae_correlation_id := Some (rq_correlation_id (env_request env)),
     ae_source_channel := Some ''api''\<rparr>"

section \<open>Reads\<close>

definition api_list_decisions ::
  "environment \<Rightarrow> identity \<Rightarrow> string list \<Rightarrow> int \<Rightarrow> int \<Rightarrow> (api_state, json) action" where
  "api_list_decisions env i query_params limit offset =
     bind_action (lift_result (ensure (1 \<le> limit \<and> limit \<le> 100 \<and> 0 \<le> offset)
       (ApiError 422 ''INVALID_REQUEST'' []))) (\<lambda>_.
     bind_action (on_log (require (env_request env) i DECISION_READ)) (\<lambda>_.
     bind_action (lift_result (ensure (set query_params \<subseteq> {''limit'', ''offset''})
       (ApiError 422 ''INVALID_REQUEST'' []))) (\<lambda>_.
     bind_action (read_db (repo_list_decisions (tenant i) limit offset)) (\<lambda>r.
     bind_action (lift_result r) (\<lambda>items.
     pure_action (JObj [(''items'', JArr items), (''limit'', JInt limit), (''offset'', JInt offset)]))))))"

definition api_get_decision ::
  "environment \<Rightarrow> identity \<Rightarrow> string \<Rightarrow> (api_state, decision_file) action" where
  "api_get_decision env i did =
     bind_action (on_log (require (env_request env) i DECISION_READ)) (\<lambda>_.
     bind_action (read_db (repo_get_decision (tenant i) did)) (\<lambda>r.
     case r of None \<Rightarrow> raise_action (ApiError 404 ''NOT_FOUND'' []) | Some d \<Rightarrow> pure_action d))"

definition api_get_report :: "environment \<Rightarrow> identity \<Rightarrow> string \<Rightarrow> (api_state, pydict) action" where
  "api_get_report env i did =
     bind_action (on_log (require (env_request env) i REPORT_READ)) (\<lambda>_.
     bind_action (read_db (repo_get_report (tenant i) did)) (\<lambda>r.
     case r of None \<Rightarrow> raise_action (ApiError 404 ''NOT_FOUND'' []) | Some d \<Rightarrow> pure_action d))"

definition api_get_audit ::
  "environment \<Rightarrow> identity \<Rightarrow> string \<Rightarrow> int \<Rightarrow> int \<Rightarrow> (api_state, audit_event list) action" where
  "api_get_audit env i did limit offset =
     bind_action (lift_result (ensure (1 \<le> limit \<and> limit \<le> 100 \<and> 0 \<le> offset)
       (ApiError 422 ''INVALID_REQUEST'' []))) (\<lambda>_.
     bind_action (on_log (require (env_request env) i AUDIT_READ)) (\<lambda>_.
     bind_action (read_db (repo_get_decision (tenant i) did)) (\<lambda>r.
     case r of None \<Rightarrow> raise_action (ApiError 404 ''NOT_FOUND'' [])
     | Some d \<Rightarrow>
         bind_action (read_db (repo_list_audit (tenant i) did limit offset)) lift_result)))"

section \<open>Create\<close>

definition body_json :: "body \<Rightarrow> json" where
  "body_json b = (case b of Document d \<Rightarrow> decision_json d | Other_JSON j \<Rightarrow> j | Not_JSON \<Rightarrow> JNull)"

definition parse_document :: "runtime \<Rightarrow> body \<Rightarrow> decision_file result" where
  "parse_document R b =
     map_error invalid_request
       (case b of Document d \<Rightarrow>
          bind_result (contract_validate R d) (\<lambda>_.
          bind_result (validate_semantics R d) (\<lambda>_. Inr d))
        | _ \<Rightarrow> Inl ContractValidationError)"

definition created_event :: "environment \<Rightarrow> identity \<Rightarrow> decision_file \<Rightarrow> audit_event" where
  "created_event env i d =
     \<lparr>ae_event_id = df_decision_id d @ '':created:1'',
      ae_event_type = ''decision.created'',
      ae_occurred_at = env_now env,
      ae_actor = api_actor i DECISION_CREATE,
      ae_from_status = None,
      ae_to_status = DRAFT,
      ae_reason_codes = [''DECISION_CREATED''],
      ae_payload_hash = payload_hash (sha256 (env_runtime env)) (decision_json d),
      ae_previous_event_hash = None,
      ae_tenant_id = Some (tenant i),
      ae_correlation_id = Some (rq_correlation_id (env_request env)),
      ae_source_channel = Some ''api''\<rparr>"

definition created_document :: "environment \<Rightarrow> identity \<Rightarrow> decision_file \<Rightarrow> decision_file" where
  "created_document env i d = d\<lparr>df_audit_events := df_audit_events d @ [created_event env i d]\<rparr>"

text \<open>A route answers with a status code and a JSON body; a replay answers as the first time.\<close>

definition api_create_decision ::
  "environment \<Rightarrow> identity \<Rightarrow> string option \<Rightarrow> body \<Rightarrow> (api_state, int \<times> json) action" where
  "api_create_decision env i idempotency_key b =
     bind_action (on_log (require (env_request env) i DECISION_CREATE)) (\<lambda>_.
     bind_action (lift_result (require_idempotency_key idempotency_key)) (\<lambda>key.
     bind_action (lift_result (ensure (b \<noteq> Not_JSON) (ApiError 422 ''INVALID_REQUEST'' []))) (\<lambda>_.
     bind_action (api_operation env i key ''decision:create'' (body_json b)) (\<lambda>(digest, replay).
     case replay of Some answer \<Rightarrow> pure_action answer
     | None \<Rightarrow>
         bind_action (lift_result (parse_document (env_runtime env) b)) (\<lambda>d.
         bind_action (lift_result (ensure (df_created_by d = api_actor i DECISION_CREATE)
           (ApiError 403 ''FORBIDDEN'' [''ACTOR_SPOOFING'']))) (\<lambda>_.
         bind_action (lift_result (ensure
             (case df_canonical_action d of None \<Rightarrow> True | Some a \<Rightarrow> ca_tenant_id a = tenant i)
           (ApiError 403 ''FORBIDDEN'' [''CROSS_TENANT_ACTION'']))) (\<lambda>_.
         let document = created_document env i d in
         bind_action (on_db (\<lambda>db. map_error already_exists
           (repo_create_decision (env_timestamp env) (tenant i) document [created_event env i d]
             (Some (actor_id i, ''decision:create'', key, digest, 201, decision_json document)) db))) (\<lambda>_.
         pure_action (201, decision_json document)))))))))"

section \<open>Evaluate\<close>

text \<open>The update of the document, after it has been read: the new document, its new events, the report.\<close>

definition evaluate_update ::
  "environment \<Rightarrow> identity \<Rightarrow> decision_file \<Rightarrow> (decision_file \<times> audit_event list \<times> pydict) result" where
  "evaluate_update env i document =
     bind_result (evaluate_decision_file (env_runtime env) (env_clock env) document) (\<lambda>(updated, result).
     let seen = length (df_audit_events document);
         new_events = map (stamp env i) (drop seen (df_audit_events updated))
     in Inr (updated\<lparr>df_audit_events := take seen (df_audit_events updated) @ new_events\<rparr>,
             new_events, result_report result))"

definition api_evaluate ::
  "environment \<Rightarrow> identity \<Rightarrow> string option \<Rightarrow> string \<Rightarrow> (api_state, int \<times> json) action" where
  "api_evaluate env i idempotency_key did =
     bind_action (on_log (require (env_request env) i DECISION_EVALUATE)) (\<lambda>_.
     bind_action (lift_result (require_idempotency_key idempotency_key)) (\<lambda>key.
     bind_action (api_operation env i key (''decision:evaluate:'' @ did) (JObj [])) (\<lambda>(digest, replay).
     case replay of Some answer \<Rightarrow> pure_action answer
     | None \<Rightarrow>
         bind_action (read_db (repo_get_decision (tenant i) did)) (\<lambda>row.
         case row of None \<Rightarrow> raise_action (ApiError 404 ''NOT_FOUND'' [])
         | Some document \<Rightarrow>
             bind_action (lift_result (evaluate_update env i document)) (\<lambda>(updated, new_events, report).
             bind_action (on_db (repo_save_result (env_timestamp env) (tenant i) updated (Some report)
               new_events (Some (actor_id i, ''decision:evaluate:'' @ did, key, digest, 200, JObj report)))) (\<lambda>_.
             pure_action (200, JObj report)))))))"

section \<open>Transition\<close>

text \<open>
  The approvals the acting approver's request stands for: one for each mandatory approver
  requirement that has none yet. The new approvals and requirements of the document.
\<close>

definition matching_approval :: "actor \<Rightarrow> string option \<Rightarrow> review_requirement \<Rightarrow> approval \<Rightarrow> bool" where
  "matching_approval approver action_digest r a =
     (ap_requirement_ref a = rr_id r \<and> ap_decision a = APPROVE \<and> ap_approver a = approver \<and>
      ap_action_digest a = action_digest)"

fun auto_approve ::
  "environment \<Rightarrow> decision_file \<Rightarrow> actor \<Rightarrow> string option \<Rightarrow> approval list \<Rightarrow>
   review_requirement list \<Rightarrow> approval list \<times> review_requirement list" where
  "auto_approve env d approver action_digest aps [] = (aps, [])"
| "auto_approve env d approver action_digest aps (r # rs) =
     (if \<not> rr_mandatory r \<or> rr_required_role r \<noteq> ''APPROVER'' then
        (case auto_approve env d approver action_digest aps rs of (as, qs) \<Rightarrow> (as, r # qs))
      else
        (let aps' = (if list_ex (matching_approval approver action_digest r) aps then aps
               else aps @ [bind_approval (env_runtime env) d
                 \<lparr>ap_requirement_ref = rr_id r, ap_approver = approver, ap_decision = APPROVE,
                  ap_decided_at = env_now env, ap_action_digest = action_digest,
                  ap_nonce = env_nonces env (length aps), ap_approval_digest = []\<rparr>])
         in (case auto_approve env d approver action_digest aps' rs of (as, qs) \<Rightarrow>
               (as, r\<lparr>rr_satisfied := True\<rparr> # qs))))"

definition approve_document :: "environment \<Rightarrow> actor \<Rightarrow> decision_file \<Rightarrow> decision_file" where
  "approve_document env approver d =
     (case auto_approve env d approver (expected_action_digest d) (df_approvals d)
             (df_review_requirements d) of
        (as, rs) \<Rightarrow> d\<lparr>df_approvals := as, df_review_requirements := rs\<rparr>)"

definition is_approval_action :: "case_status \<Rightarrow> decision_file \<Rightarrow> bool" where
  "is_approval_action target d =
     (target = APPROVED \<or> (target = BLOCKED \<and> df_status d = IN_REVIEW))"

definition transition_permission :: "case_status \<Rightarrow> decision_file \<Rightarrow> permission" where
  "transition_permission target d =
     (if is_approval_action target d then DECISION_APPROVE else DECISION_VALIDATE)"

text \<open>The update of the document, after it has been read: the new document and its new event.\<close>

definition transition_update ::
  "environment \<Rightarrow> identity \<Rightarrow> case_status \<Rightarrow> decision_file \<Rightarrow> (decision_file \<times> audit_event) result" where
  "transition_update env i target document =
     (let prepared =
            (if target = APPROVED \<and> df_status document = IN_REVIEW \<and> kind i = HUMAN
             then approve_document env (api_actor i DECISION_APPROVE) document else document)
      in bind_result (map_error transition_conflict
           (transition (env_runtime env) (env_transition_now env) prepared (case_status_value target)
             (api_actor i (transition_permission target document)))) (\<lambda>updated.
         let event = stamp env i (last (df_audit_events updated))
         in Inr (updated\<lparr>df_audit_events := butlast (df_audit_events updated) @ [event]\<rparr>, event)))"

text \<open>The permission a request needs before the document is read, and after it.\<close>

definition transition_guard :: "environment \<Rightarrow> identity \<Rightarrow> case_status \<Rightarrow> (api_state, unit) action" where
  "transition_guard env i target =
     (if target = APPROVED then on_log (require (env_request env) i DECISION_APPROVE)
      else if target = BLOCKED then
        bind_action (on_log (require_one_of (env_request env) i [DECISION_VALIDATE, DECISION_APPROVE]))
          (\<lambda>_. pure_action ())
      else on_log (require (env_request env) i DECISION_VALIDATE))"

definition blocked_guard ::
  "environment \<Rightarrow> identity \<Rightarrow> case_status \<Rightarrow> decision_file \<Rightarrow> (api_state, unit) action" where
  "blocked_guard env i target document =
     (if target = BLOCKED
      then on_log (require (env_request env) i (transition_permission target document))
      else pure_action ())"

text \<open>The targets \<^verbatim>\<open>TransitionRequest\<close> admits are all but \<open>DRAFT\<close>.\<close>

definition api_transition ::
  "environment \<Rightarrow> identity \<Rightarrow> string option \<Rightarrow> string \<Rightarrow> case_status \<Rightarrow> (api_state, int \<times> json) action" where
  "api_transition env i idempotency_key did target =
     bind_action (lift_result (ensure (target \<noteq> DRAFT) (ApiError 422 ''INVALID_REQUEST'' []))) (\<lambda>_.
     bind_action (lift_result (require_idempotency_key idempotency_key)) (\<lambda>key.
     bind_action (transition_guard env i target) (\<lambda>_.
     bind_action (read_db (repo_get_decision (tenant i) did)) (\<lambda>row.
     case row of None \<Rightarrow> raise_action (ApiError 404 ''NOT_FOUND'' [])
     | Some document \<Rightarrow>
         bind_action (blocked_guard env i target document) (\<lambda>_.
         let operation = ''decision:transition:'' @ did @ '':'' @ case_status_value target in
         bind_action (api_operation env i key operation
           (JObj [(''target'', JStr (case_status_value target))])) (\<lambda>(digest, replay).
         case replay of Some answer \<Rightarrow> pure_action answer
         | None \<Rightarrow>
             bind_action (lift_result (transition_update env i target document)) (\<lambda>(updated, event).
             bind_action (on_db (repo_save_result (env_timestamp env) (tenant i) updated None [event]
               (Some (actor_id i, operation, key, digest, 200, decision_json updated)))) (\<lambda>_.
             pure_action (200, decision_json updated)))))))))"

end
