(* ===== verification/DecisionCases.thy ===== *)
theory DecisionCases
  imports DecisionApi
begin

text \<open>
  The life of a stored decision: what the evaluate and transition routes can do to a document,
  the invariants of its audit trail and its statuses, the four-eyes rule, and how the routes
  act on the database. \<open>case_step R\<close> is one route applied to one document;
  \<open>api_step R\<close> is one request against the whole service.
\<close>

section \<open>One route applied to one document\<close>

inductive case_step :: "runtime \<Rightarrow> decision_file \<Rightarrow> decision_file \<Rightarrow> bool" for R where
  evaluated: "env_runtime env = R \<Longrightarrow> evaluate_update env i d = Inr (d', es, report) \<Longrightarrow> case_step R d d'"
| transitioned: "env_runtime env = R \<Longrightarrow> transition_update env i target d = Inr (d', e) \<Longrightarrow> case_step R d d'"

lemma stamp_simps [simp]:
  "ae_event_id (stamp env i e) = ae_event_id e" "ae_event_type (stamp env i e) = ae_event_type e"
  "ae_actor (stamp env i e) = ae_actor e" "ae_from_status (stamp env i e) = ae_from_status e"
  "ae_to_status (stamp env i e) = ae_to_status e"
  "ae_previous_event_hash (stamp env i e) = ae_previous_event_hash e"
  by (simp_all add: stamp_def)

lemma evaluate_update_InrD:
  assumes "evaluate_update env i d = Inr (d', es, report)"
  obtains e codes t vs where
    "es = [e]" "semantic_errors (env_runtime env) d = Inr []"
    "ae_event_type e = ''decision.evaluated''" "ae_actor e = engine_actor"
    "ae_from_status e = Some (df_status d)" "ae_to_status e = df_status d"
    "ae_previous_event_hash e = previous_hash (env_runtime env) d"
    "ae_event_id e = df_decision_id d @ '':evaluation:'' @ str_nat (length (df_audit_events d) + 1)"
    "d' = d\<lparr>df_decision_outcome := Some (document_outcome d), df_outcome_reasons := codes,
       df_updated_at := t, df_validation_results := vs, df_audit_events := df_audit_events d @ [e]\<rparr>"
proof -
  from assms obtain u r where u: "evaluate_decision_file (env_runtime env) (env_clock env) d = Inr (u, r)"
    and d': "es = map (stamp env i) (drop (length (df_audit_events d)) (df_audit_events u))"
      "d' = u\<lparr>df_audit_events := take (length (df_audit_events d)) (df_audit_events u) @ es\<rparr>"
    by (auto simp: evaluate_update_def monad_simps Let_def)
  from u obtain e codes n where "semantic_errors (env_runtime env) d = Inr []"
    "df_audit_events u = df_audit_events d @ [e]"
    "ae_previous_event_hash e = previous_hash (env_runtime env) d"
    "ae_from_status e = Some (df_status d)" "ae_to_status e = df_status d"
    "ae_actor e = engine_actor" "ae_event_type e = ''decision.evaluated''"
    "ae_event_id e = df_decision_id d @ '':evaluation:'' @ str_nat (length (df_audit_events d) + 1)"
    "u = d\<lparr>df_decision_outcome := Some (document_outcome d), df_outcome_reasons := codes,
       df_updated_at := env_clock env n, df_validation_results := df_validation_results u,
       df_audit_events := df_audit_events d @ [e]\<rparr>"
    by (rule evaluate_decision_file_InrD)
  note u = this
  show ?thesis
  proof (rule that [where e = "stamp env i e" and codes = codes and t = "env_clock env n"
        and vs = "df_validation_results u"])
    show es: "es = [stamp env i e]" by (simp add: d'(1) u(2))
    have "d' = u\<lparr>df_audit_events := df_audit_events d @ [stamp env i e]\<rparr>"
      by (simp add: d'(2) es u(2))
    then show "d' = d\<lparr>df_decision_outcome := Some (document_outcome d), df_outcome_reasons := codes,
       df_updated_at := env_clock env n, df_validation_results := df_validation_results u,
       df_audit_events := df_audit_events d @ [stamp env i e]\<rparr>"
      by (subst (asm) u(9)) simp
  qed (simp_all add: u(1,3-8))
qed

text \<open>
  The document the transition policy is asked about: the stored one, or, where a human asks
  for approval of a case in review, the one with that person's approvals added.
\<close>

definition prepared_document ::
  "environment \<Rightarrow> identity \<Rightarrow> case_status \<Rightarrow> decision_file \<Rightarrow> decision_file" where
  "prepared_document env i target d =
     (if target = APPROVED \<and> df_status d = IN_REVIEW \<and> kind i = HUMAN
      then approve_document env (api_actor i DECISION_APPROVE) d else d)"

lemma approve_document_fields:
  obtains as rs where "approve_document env a d = d\<lparr>df_approvals := as, df_review_requirements := rs\<rparr>"
  by (cases "auto_approve env d a (expected_action_digest d) (df_approvals d)
      (df_review_requirements d)") (auto simp: approve_document_def intro: that)

lemma prepared_document_fields:
  obtains as rs where "prepared_document env i target d = d\<lparr>df_approvals := as, df_review_requirements := rs\<rparr>"
proof (cases "target = APPROVED \<and> df_status d = IN_REVIEW \<and> kind i = HUMAN")
  case True
  obtain as rs where "approve_document env (api_actor i DECISION_APPROVE) d =
      d\<lparr>df_approvals := as, df_review_requirements := rs\<rparr>"
    by (rule approve_document_fields)
  with True show ?thesis by (auto simp: prepared_document_def intro: that)
next
  case False
  then have "prepared_document env i target d = d\<lparr>df_approvals := df_approvals d,
      df_review_requirements := df_review_requirements d\<rparr>"
    by (auto simp: prepared_document_def)
  then show ?thesis by (rule that)
qed

lemma transition_update_InrD:
  assumes "transition_update env i target d = Inr (d', e)"
  obtains p a where
    "p = prepared_document env i target d" "a = api_actor i (transition_permission target d)"
    "semantic_errors (env_runtime env) p = Inr []" "rejection_reasons p (df_status d) target a = []"
    "ae_event_type e = ''status.transitioned''" "ae_actor e = a"
    "ae_event_id e = df_decision_id d @ '':transition:'' @ str_nat (length (df_audit_events d) + 1)"
    "ae_from_status e = Some (df_status d)" "ae_to_status e = target"
    "ae_previous_event_hash e = previous_hash (env_runtime env) d"
    "d' = p\<lparr>df_status := target, df_updated_at := env_transition_now env, df_current_owner := a,
       df_audit_events := df_audit_events d @ [e]\<rparr>"
proof -
  define p where "p = prepared_document env i target d"
  define a where "a = api_actor i (transition_permission target d)"
  let ?R = "env_runtime env" and ?t = "env_transition_now env"
  obtain as rs where "prepared_document env i target d = d\<lparr>df_approvals := as, df_review_requirements := rs\<rparr>"
    by (rule prepared_document_fields)
  then have same: "df_status p = df_status d" "df_audit_events p = df_audit_events d"
    "df_decision_id p = df_decision_id d" "previous_hash ?R p = previous_hash ?R d"
    by (simp_all add: p_def previous_hash_def)
  from assms obtain u where u: "transition ?R ?t p (case_status_value target) a = Inr u"
    and d': "e = stamp env i (last (df_audit_events u))"
      "d' = u\<lparr>df_audit_events := butlast (df_audit_events u) @ [e]\<rparr>"
    by (auto simp: transition_update_def Let_def monad_simps map_error_def p_def a_def
        prepared_document_def [symmetric] split: sum.splits)
  from u have u: "semantic_errors ?R p = Inr []" "rejection_reasons p (df_status d) target a = []"
    "u = p\<lparr>df_status := target, df_updated_at := ?t, df_current_owner := a,
       df_audit_events := df_audit_events d @ [transition_event ?R ?t p target a]\<rparr>"
    by (auto simp: transition_Inr_iff same dest: arg_cong [of _ _ parse_case_status])
  then have e: "e = stamp env i (transition_event ?R ?t p target a)" by (simp add: d')
  show ?thesis
  proof (rule that [OF p_def a_def u(1,2)])
    show "d' = p\<lparr>df_status := target, df_updated_at := ?t, df_current_owner := a,
       df_audit_events := df_audit_events d @ [e]\<rparr>"
      by (simp add: d'(2) u(3))
  qed (simp_all add: e transition_event_def same)
qed

section \<open>The invariant of a case\<close>

text \<open>
  Each event of the trail starts at the status where the one before it ended, and moves only
  along an allowed transition, made by an actor with the role that transition requires.
\<close>

definition event_allowed :: "audit_event \<Rightarrow> bool" where
  "event_allowed e =
     (case ae_from_status e of
        None \<Rightarrow> ae_event_type e = ''decision.created'' \<and> ae_to_status e = DRAFT
      | Some s \<Rightarrow>
          ae_event_type e = ''decision.evaluated'' \<and> ae_actor e = engine_actor \<and> ae_to_status e = s \<or>
          ae_event_type e = ''status.transitioned'' \<and>
          allowed_transition s (ae_to_status e) = Some (act_role (ae_actor e)))"

fun status_chain :: "case_status option \<Rightarrow> audit_event list \<Rightarrow> bool" where
  "status_chain s [] = True"
| "status_chain s (e # es) =
     (ae_from_status e = s \<and> event_allowed e \<and> status_chain (Some (ae_to_status e)) es)"

definition end_status :: "case_status option \<Rightarrow> audit_event list \<Rightarrow> case_status option" where
  "end_status s es = (if es = [] then s else Some (ae_to_status (last es)))"

lemma end_status_snoc [simp]: "end_status s (es @ [e]) = Some (ae_to_status e)"
  by (simp add: end_status_def)

lemma status_chain_snoc [simp]:
  "status_chain s (es @ [e]) \<longleftrightarrow>
     status_chain s es \<and> ae_from_status e = end_status s es \<and> event_allowed e"
  by (induction es arbitrary: s) (auto simp: end_status_def)

text \<open>Who validated and who approved: the separation of duties the trail shows.\<close>

definition validated_by :: "decision_file \<Rightarrow> actor \<Rightarrow> bool" where
  "validated_by d a =
     (\<exists>e \<in> set (df_audit_events d). ae_actor e = a \<and> ae_event_type e = ''status.transitioned'' \<and>
        ae_from_status e = Some DRAFT \<and> ae_to_status e = VALIDATION)"

definition approved_by :: "decision_file \<Rightarrow> actor \<Rightarrow> bool" where
  "approved_by d a =
     (\<exists>e \<in> set (df_audit_events d). ae_actor e = a \<and> ae_event_type e = ''status.transitioned'' \<and>
        ae_from_status e = Some IN_REVIEW \<and> ae_to_status e = APPROVED)"

definition duties_separated :: "decision_file \<Rightarrow> bool" where
  "duties_separated d =
     ((df_status d \<in> {VALIDATION, IN_REVIEW, APPROVED} \<longrightarrow>
        (\<exists>v. validated_by d v \<and> act_role v = ''VALIDATOR'' \<and> act_id v \<noteq> act_id (df_created_by d))) \<and>
      (df_status d = APPROVED \<longrightarrow>
        df_decision_outcome d = Some PASS \<and>
        (\<exists>a. approved_by d a \<and> act_kind a = ''HUMAN'' \<and> act_role a = ''APPROVER'' \<and>
           act_id a \<noteq> act_id (df_created_by d) \<and> (\<forall>v. validated_by d v \<longrightarrow> act_id a \<noteq> act_id v) \<and>
           (\<forall>r \<in> set (df_review_requirements d). rr_mandatory r \<longrightarrow>
              rr_satisfied r \<and> matching_approvals d a r \<noteq> []))))"

definition case_inv :: "runtime \<Rightarrow> decision_file \<Rightarrow> bool" where
  "case_inv R d =
     (linked (event_hash R) ae_previous_event_hash (df_audit_events d) \<and>
      status_chain None (df_audit_events d) \<and>
      end_status None (df_audit_events d) = Some (df_status d) \<and>
      \<not> self_approved d \<and>
      (df_decision_outcome d = None \<or> df_decision_outcome d = Some (document_outcome d)) \<and>
      duties_separated d)"

text \<open>A document as a generator submits it: a draft nothing has happened to.\<close>

definition fresh_draft :: "decision_file \<Rightarrow> bool" where
  "fresh_draft d = (df_status d = DRAFT \<and> df_audit_events d = [] \<and> df_decision_outcome d = None)"

lemma semantic_not_self_approved:
  assumes "semantic_errors R d = Inr []"
  shows "\<not> self_approved d"
  using semantic_approvals_ok [OF assms]
  by (auto simp: self_approved_def last_opt_def approval_ok_def split: if_splits)

lemma self_approved_cong:
  "df_created_by d' = df_created_by d \<Longrightarrow> df_approvals d' = df_approvals d \<Longrightarrow>
     self_approved d' = self_approved d"
  by (simp add: self_approved_def split: option.split)

lemma document_outcome_cong:
  assumes "\<not> self_approved d" and "\<not> self_approved d'"
    and "df_claims d' = df_claims d" "df_evidence d' = df_evidence d"
    "df_constraints d' = df_constraints d" "df_policies d' = df_policies d"
    "df_risks d' = df_risks d" "df_conflicts d' = df_conflicts d"
  shows "document_outcome d' = document_outcome d"
proof -
  have "document_found d' = document_found d"
    using assms by (simp add: document_found_def mandatory_evidence_missing_def high_impact_def
        unresolved_uncertainty_def emit_if_def)
  then have "document_blocks d' = document_blocks d" "document_clean d' = document_clean d"
    using found_severity_split [of d] found_severity_split [of d'] document_found_Nil [of d]
      document_found_Nil [of d'] by simp_all
  then show ?thesis by (simp add: document_outcome_def)
qed

lemma created_case_inv:
  assumes "fresh_draft d" and "semantic_errors R d = Inr []"
  shows "case_inv R (created_document env i d)"
proof -
  have "\<not> self_approved (created_document env i d)"
    using semantic_not_self_approved [OF assms(2)]
    by (subst self_approved_cong [of _ d]) (simp_all add: created_document_def)
  with assms(1) show ?thesis
    by (simp add: case_inv_def fresh_draft_def created_document_def created_event_def
        end_status_def event_allowed_def duties_separated_def)
qed

lemma validator_ids_validated:
  assumes "validated_by d v"
  shows "act_id v \<in> set (validator_ids d)"
  using assms by (auto simp: validated_by_def validator_ids_def)

lemma case_inv_evaluated:
  assumes "case_inv R d" and "env_runtime env = R" and "evaluate_update env i d = Inr (d', es, report)"
  shows "case_inv R d'"
proof -
  from assms(3) obtain e codes t vs where e:
    "ae_event_type e = ''decision.evaluated''" "ae_actor e = engine_actor"
    "ae_from_status e = Some (df_status d)" "ae_to_status e = df_status d"
    "ae_previous_event_hash e = previous_hash R d"
    and d': "d' = d\<lparr>df_decision_outcome := Some (document_outcome d), df_outcome_reasons := codes,
       df_updated_at := t, df_validation_results := vs, df_audit_events := df_audit_events d @ [e]\<rparr>"
    by (rule evaluate_update_InrD) (use assms(2) in blast)
  have sa: "self_approved d' = self_approved d"
    by (rule self_approved_cong) (simp_all add: d')
  have oc: "document_outcome d' = document_outcome d"
    using assms(1) sa by (intro document_outcome_cong) (simp_all add: case_inv_def d')
  have who: "validated_by d' = validated_by d" "approved_by d' = approved_by d"
    by (auto simp: fun_eq_iff validated_by_def approved_by_def d' e)
  have "duties_separated d'"
    using assms(1) unfolding case_inv_def duties_separated_def who matching_approvals_def
    by (cases "df_status d = APPROVED") (simp_all add: d', auto)
  with assms(1) show ?thesis
    unfolding case_inv_def oc sa
    by (simp add: d' e previous_hash_head event_allowed_def)
qed

lemma case_inv_transitioned:
  assumes inv: "case_inv R d" and env: "env_runtime env = R"
    and tr: "transition_update env i target d = Inr (d', e)"
  shows "case_inv R d'"
proof -
  from tr obtain p a where p: "p = prepared_document env i target d"
    and sem: "semantic_errors R p = Inr []" and rej: "rejection_reasons p (df_status d) target a = []"
    and e: "ae_event_type e = ''status.transitioned''" "ae_actor e = a"
      "ae_from_status e = Some (df_status d)" "ae_to_status e = target"
      "ae_previous_event_hash e = previous_hash R d"
    and d': "d' = p\<lparr>df_status := target, df_updated_at := env_transition_now env,
      df_current_owner := a, df_audit_events := df_audit_events d @ [e]\<rparr>"
    by (rule transition_update_InrD) (use env in blast)
  obtain as rs where "prepared_document env i target d = d\<lparr>df_approvals := as, df_review_requirements := rs\<rparr>"
    by (rule prepared_document_fields)
  with p have p: "p = d\<lparr>df_approvals := as, df_review_requirements := rs\<rparr>" by simp
  note rej = rej [unfolded rejection_reasons_Nil_iff]
  have sa: "\<not> self_approved d'"
    using semantic_not_self_approved [OF sem]
    by (subst self_approved_cong [of _ p]) (simp_all add: d')
  have oc: "document_outcome d' = document_outcome d"
    using inv sa by (intro document_outcome_cong) (simp_all add: case_inv_def d' p)
  have old: "validated_by d v \<Longrightarrow> validated_by d' v" for v
    by (auto simp: validated_by_def d')
  have "duties_separated d'"
    unfolding duties_separated_def
  proof (intro conjI impI)
    assume "df_status d' \<in> {VALIDATION, IN_REVIEW, APPROVED}"
    then consider "target = VALIDATION" "df_status d = DRAFT" | "df_status d \<in> {VALIDATION, IN_REVIEW}"
      using rej by (auto simp: d' allowed_transition_to)
    then show "\<exists>v. validated_by d' v \<and> act_role v = ''VALIDATOR'' \<and> act_id v \<noteq> act_id (df_created_by d')"
    proof cases
      case 1
      then have "validated_by d' a" by (simp add: validated_by_def d' e)
      with 1 rej show ?thesis by (auto simp: d' p)
    next
      case 2
      with inv have "\<exists>v. validated_by d v \<and> act_role v = ''VALIDATOR'' \<and> act_id v \<noteq> act_id (df_created_by d)"
        by (auto simp: case_inv_def duties_separated_def)
      with old show ?thesis by (auto simp: d' p)
    qed
  next
    assume "df_status d' = APPROVED"
    then have tg: "target = APPROVED" by (simp add: d')
    from rej tg have "approval_reasons p a = []" by simp
    note ar = this [unfolded approval_reasons_Nil_iff]
    then show "df_decision_outcome d' = Some PASS" by (simp add: d')
    from rej tg have st: "df_status d = IN_REVIEW" and role: "act_role a = ''APPROVER''"
      by (auto simp: allowed_transition_to)
    have "act_id a \<noteq> act_id v" if "validated_by d' v" for v
    proof -
      from that tg have "validated_by p v" by (auto simp: validated_by_def d' p e)
      with ar show ?thesis by (auto dest: validator_ids_validated)
    qed
    moreover have "approved_by d' a" using tg st by (simp add: approved_by_def d' e)
    ultimately show "\<exists>a. approved_by d' a \<and> act_kind a = ''HUMAN'' \<and> act_role a = ''APPROVER'' \<and>
        act_id a \<noteq> act_id (df_created_by d') \<and> (\<forall>v. validated_by d' v \<longrightarrow> act_id a \<noteq> act_id v) \<and>
        (\<forall>r \<in> set (df_review_requirements d'). rr_mandatory r \<longrightarrow>
           rr_satisfied r \<and> matching_approvals d' a r \<noteq> [])"
      using ar role by (intro exI [of _ a]) (simp add: d' matching_approvals_def)
  qed
  with inv sa rej show ?thesis
    unfolding case_inv_def oc
    by (simp add: d' p e previous_hash_head event_allowed_def)
qed

lemma case_step_inv: "case_step R d d' \<Longrightarrow> case_inv R d \<Longrightarrow> case_inv R d'"
  by (induction rule: case_step.induct) (blast intro: case_inv_evaluated case_inv_transitioned)+

lemma case_steps_inv: "(case_step R)\<^sup>*\<^sup>* d d' \<Longrightarrow> case_inv R d \<Longrightarrow> case_inv R d'"
  by (induction rule: rtranclp_induct) (auto intro: case_step_inv)

end
