(* ===== verification/DecisionService.thy ===== *)
theory DecisionService
  imports DecisionCases
begin

text \<open>
  The decision routes against the whole service: what a request does to the database, that a
  repeated request is answered from the idempotency table without acting again, that tenants
  are isolated, that stored cases keep their invariant, and what the unique event identifiers
  do for two requests that interleave.
\<close>

section \<open>Effects of the handlers\<close>

lemma on_log_db [monad_simps]: "on_log m s = (r, s') \<Longrightarrow> api_db s' = api_db s"
  by (auto simp: on_log_def split: prod.splits)

lemma on_db_iff [monad_simps]:
  "on_db f s = (Inr u, s') \<longleftrightarrow> (\<exists>db. f (api_db s) = Inr db \<and> s' = s\<lparr>api_db := db\<rparr>)"
  "on_db f s = (Inl e, s') \<longleftrightarrow> f (api_db s) = Inl e \<and> s' = s"
  by (auto simp: on_db_def split: sum.splits)

lemma map_error_iff [monad_simps]:
  "map_error h r = Inr x \<longleftrightarrow> r = Inr x"
  "map_error h r = Inl e \<longleftrightarrow> (\<exists>e'. r = Inl e' \<and> e = h e')"
  by (auto simp: map_error_def split: sum.splits)

lemma read_db_eval [simp]: "read_db f s = (Inr (f (api_db s)), s)"
  by (simp add: read_db_def)

lemma api_operation_state: "api_operation env i key oper payload s = (r, s') \<Longrightarrow> s' = s"
  by (auto simp: api_operation_def Let_def bind_action_def split: sum.splits)

lemma api_operation_Inr:
  assumes "api_operation env i key oper payload s = (Inr (digest, replay), s')"
  shows "digest = payload_hash (sha256 (env_runtime env)) payload \<and>
    repo_get_idempotency (tenant i) (actor_id i) oper key digest (api_db s) = Inr replay \<and> s' = s"
  using assms by (auto simp: api_operation_def Let_def bind_action_def split: sum.splits)

lemma api_create_Inl:
  assumes "api_create_decision env i k b s = (Inl e, s')"
  shows "api_db s' = api_db s"
  using assms
  by (auto simp: api_create_decision_def monad_simps Let_def split: option.splits
      dest!: api_operation_state dest: on_log_db)

lemma api_create_Inr:
  assumes "api_create_decision env i k b s = (Inr x, s')"
  obtains (replayed) key digest where "k = Some key" "api_db s' = api_db s"
      "repo_get_idempotency (tenant i) (actor_id i) ''decision:create'' key digest (api_db s) = Inr (Some x)"
      "digest = payload_hash (sha256 (env_runtime env)) (body_json b)"
  | (created) key digest d where "k = Some key" "b = Document d"
      "digest = payload_hash (sha256 (env_runtime env)) (body_json b)"
      "x = (201, decision_json (created_document env i d))"
      "decision_file_schema (env_runtime env) d" "semantic_errors (env_runtime env) d = Inr []"
      "df_created_by d = api_actor i DECISION_CREATE"
      "\<exists>r \<in> set (roles i). role_permits r DECISION_CREATE"
      "case df_canonical_action d of None \<Rightarrow> True | Some a \<Rightarrow> ca_tenant_id a = tenant i"
      "repo_get_idempotency (tenant i) (actor_id i) ''decision:create'' key digest (api_db s) = Inr None"
      "repo_create_decision (env_timestamp env) (tenant i) (created_document env i d)
         [created_event env i d] (Some (actor_id i, ''decision:create'', key, digest, 201,
           decision_json (created_document env i d))) (api_db s) = Inr (api_db s')"
proof -
  from assms obtain s1 key digest replay s2 where
    g: "on_log (require (env_request env) i DECISION_CREATE) s = (Inr (), s1)"
    and key: "k = Some key"
    and o: "api_operation env i key ''decision:create'' (body_json b) s1 = (Inr (digest, replay), s2)"
    by (auto simp: api_create_decision_def monad_simps)
  note op = api_operation_Inr [OF o] and db = on_log_db [OF g]
  have may: "\<exists>r \<in> set (roles i). role_permits r DECISION_CREATE"
    using g by (auto simp: on_log_def split: prod.splits dest: require_Inr(1))
  show ?thesis
  proof (cases replay)
    case (Some answer)
    with assms g key o op db show ?thesis
      by (intro replayed [of key digest]) (auto simp: api_create_decision_def monad_simps)
  next
    case None
    with assms g key o op obtain d where
      p: "parse_document (env_runtime env) b = Inr d"
      and c: "df_created_by d = api_actor i DECISION_CREATE"
        "case df_canonical_action d of None \<Rightarrow> True | Some a \<Rightarrow> ca_tenant_id a = tenant i"
        "x = (201, decision_json (created_document env i d))"
        "repo_create_decision (env_timestamp env) (tenant i) (created_document env i d)
         [created_event env i d] (Some (actor_id i, ''decision:create'', key, digest, 201,
           decision_json (created_document env i d))) (api_db s1) = Inr (api_db s')"
      by (auto simp: api_create_decision_def monad_simps Let_def)
    from p have "b = Document d" "decision_file_schema (env_runtime env) d"
      "semantic_errors (env_runtime env) d = Inr []"
      by (auto simp: parse_document_def monad_simps split: body.splits)
    with c key op db may None show ?thesis by (intro created [of key d digest]) auto
  qed
qed

lemma api_evaluate_Inl:
  assumes "api_evaluate env i k did s = (Inl e, s')"
  shows "api_db s' = api_db s"
  using assms
  by (auto simp: api_evaluate_def monad_simps split: option.splits
      dest!: api_operation_state dest: on_log_db)

lemma api_evaluate_Inr:
  assumes "api_evaluate env i k did s = (Inr x, s')"
  obtains (replayed) key digest where "k = Some key" "api_db s' = api_db s"
      "digest = payload_hash (sha256 (env_runtime env)) (JObj [])"
      "repo_get_idempotency (tenant i) (actor_id i) (''decision:evaluate:'' @ did) key digest (api_db s)
        = Inr (Some x)"
  | (evaluated) key digest d d' es report where "k = Some key"
      "digest = payload_hash (sha256 (env_runtime env)) (JObj [])"
      "repo_get_idempotency (tenant i) (actor_id i) (''decision:evaluate:'' @ did) key digest (api_db s)
        = Inr None"
      "\<exists>r \<in> set (roles i). role_permits r DECISION_EVALUATE"
      "repo_get_decision (tenant i) did (api_db s) = Some d"
      "evaluate_update env i d = Inr (d', es, report)" "x = (200, JObj report)"
      "repo_save_result (env_timestamp env) (tenant i) d' (Some report) es
         (Some (actor_id i, ''decision:evaluate:'' @ did, key, digest, 200, JObj report)) (api_db s)
       = Inr (api_db s')"
proof -
  from assms obtain s1 key digest replay s2 where
    g: "on_log (require (env_request env) i DECISION_EVALUATE) s = (Inr (), s1)"
    and key: "k = Some key"
    and o: "api_operation env i key (''decision:evaluate:'' @ did) (JObj []) s1 = (Inr (digest, replay), s2)"
    by (auto simp: api_evaluate_def monad_simps)
  note op = api_operation_Inr [OF o] and db = on_log_db [OF g]
  have may: "\<exists>r \<in> set (roles i). role_permits r DECISION_EVALUATE"
    using g by (auto simp: on_log_def split: prod.splits dest: require_Inr(1))
  show ?thesis
  proof (cases replay)
    case (Some answer)
    with assms g key o op db show ?thesis
      by (intro replayed [of key digest]) (auto simp: api_evaluate_def monad_simps)
  next
    case None
    with assms g key o op obtain d d' es report where
      "repo_get_decision (tenant i) did (api_db s1) = Some d"
      "evaluate_update env i d = Inr (d', es, report)" "x = (200, JObj report)"
      "repo_save_result (env_timestamp env) (tenant i) d' (Some report) es
         (Some (actor_id i, ''decision:evaluate:'' @ did, key, digest, 200, JObj report)) (api_db s1)
       = Inr (api_db s')"
      by (auto simp: api_evaluate_def monad_simps split: option.splits)
    with key op db may None show ?thesis by (intro evaluated [of key digest d d' es report]) auto
  qed
qed

lemma on_log_require_Inr:
  assumes "on_log (require rq i p) s = (Inr u, s')"
  shows "\<exists>r \<in> set (roles i). role_permits r p"
  using assms by (auto simp: on_log_def split: prod.splits dest: require_Inr(1))

lemma transition_guard_db: "transition_guard env i target s = (r, s') \<Longrightarrow> api_db s' = api_db s"
  by (cases r) (auto simp: transition_guard_def monad_simps split: if_splits dest: on_log_db)

lemma blocked_guard_db: "blocked_guard env i target d s = (r, s') \<Longrightarrow> api_db s' = api_db s"
  by (auto simp: blocked_guard_def split: if_splits dest: on_log_db)

lemma transition_guards_permit:
  assumes "transition_guard env i target s = (Inr u, s1)" and "blocked_guard env i target d s2 = (Inr v, s3)"
  shows "\<exists>r \<in> set (roles i). role_permits r (transition_permission target d)"
proof (cases "target = BLOCKED")
  case True
  with assms(2) have "on_log (require (env_request env) i (transition_permission target d)) s2 = (Inr v, s3)"
    by (simp add: blocked_guard_def)
  then show ?thesis by (rule on_log_require_Inr)
next
  case False
  with assms(1) have "on_log (require (env_request env) i (transition_permission target d)) s = (Inr u, s1)"
    by (auto simp: transition_guard_def transition_permission_def is_approval_action_def split: if_splits)
  then show ?thesis by (rule on_log_require_Inr)
qed

lemma api_transition_Inl:
  assumes "api_transition env i k did target s = (Inl e, s')"
  shows "api_db s' = api_db s"
  using assms
  by (auto simp: api_transition_def monad_simps Let_def split: option.splits
      dest!: api_operation_state transition_guard_db blocked_guard_db)

abbreviation transition_operation :: "string \<Rightarrow> case_status \<Rightarrow> string" where
  "transition_operation did target \<equiv> ''decision:transition:'' @ did @ '':'' @ case_status_value target"

lemma api_transition_Inr:
  assumes "api_transition env i k did target s = (Inr x, s')"
  obtains (replayed) key digest where "k = Some key" "api_db s' = api_db s"
      "digest = payload_hash (sha256 (env_runtime env)) (JObj [(''target'', JStr (case_status_value target))])"
      "repo_get_idempotency (tenant i) (actor_id i) (transition_operation did target) key digest (api_db s)
        = Inr (Some x)"
  | (moved) key digest d d' e where "k = Some key"
      "digest = payload_hash (sha256 (env_runtime env)) (JObj [(''target'', JStr (case_status_value target))])"
      "repo_get_idempotency (tenant i) (actor_id i) (transition_operation did target) key digest (api_db s)
        = Inr None"
      "repo_get_decision (tenant i) did (api_db s) = Some d"
      "\<exists>r \<in> set (roles i). role_permits r (transition_permission target d)"
      "transition_update env i target d = Inr (d', e)" "x = (200, decision_json d')"
      "repo_save_result (env_timestamp env) (tenant i) d' None [e]
         (Some (actor_id i, transition_operation did target, key, digest, 200, decision_json d')) (api_db s)
       = Inr (api_db s')"
proof -
  from assms obtain key s1 d s2 digest replay s3 where
    key: "k = Some key" and g: "transition_guard env i target s = (Inr (), s1)"
    and d: "repo_get_decision (tenant i) did (api_db s1) = Some d"
    and b: "blocked_guard env i target d s1 = (Inr (), s2)"
    and o: "api_operation env i key (transition_operation did target)
      (JObj [(''target'', JStr (case_status_value target))]) s2 = (Inr (digest, replay), s3)"
    by (auto simp: api_transition_def monad_simps Let_def split: option.splits)
  note op = api_operation_Inr [OF o]
  have db: "api_db s2 = api_db s" "api_db s1 = api_db s"
    using transition_guard_db [OF g] blocked_guard_db [OF b] by simp_all
  show ?thesis
  proof (cases replay)
    case (Some answer)
    with assms g key b d o op db show ?thesis
      by (intro replayed [of key digest]) (auto simp: api_transition_def monad_simps Let_def)
  next
    case None
    with assms g key b d o op db obtain d' e where
      "transition_update env i target d = Inr (d', e)" "x = (200, decision_json d')"
      "repo_save_result (env_timestamp env) (tenant i) d' None [e]
         (Some (actor_id i, transition_operation did target, key, digest, 200, decision_json d')) (api_db s)
       = Inr (api_db s')"
      by (auto simp: api_transition_def monad_simps Let_def)
    with key d op db None transition_guards_permit [OF g b] show ?thesis
      by (intro moved [of key digest d d' e]) auto
  qed
qed

section \<open>Requests\<close>

text \<open>
  One request of tenant \<open>t\<close>, whatever it answers. \<open>P\<close> restricts the documents that
  are submitted; the identity, the clock and the nonces are arbitrary.
\<close>

inductive api_step ::
  "runtime \<Rightarrow> (decision_file \<Rightarrow> bool) \<Rightarrow> string \<Rightarrow> api_state \<Rightarrow> api_state \<Rightarrow> bool" for R P where
  step_create: "env_runtime env = R \<Longrightarrow> tenant i = t \<Longrightarrow> (\<And>d. b = Document d \<Longrightarrow> P d) \<Longrightarrow>
    api_create_decision env i k b s = (r, s') \<Longrightarrow> api_step R P t s s'"
| step_evaluate: "env_runtime env = R \<Longrightarrow> tenant i = t \<Longrightarrow>
    api_evaluate env i k did s = (r, s') \<Longrightarrow> api_step R P t s s'"
| step_transition: "env_runtime env = R \<Longrightarrow> tenant i = t \<Longrightarrow>
    api_transition env i k did target s = (r, s') \<Longrightarrow> api_step R P t s s'"
| step_read: "api_db s' = api_db s \<Longrightarrow> api_step R P t s s'"

lemma reads_step:
  "api_list_decisions env i q l f s = (r1, s1) \<Longrightarrow> api_db s1 = api_db s"
  "api_get_decision env i did s = (r2, s2) \<Longrightarrow> api_db s2 = api_db s"
  "api_get_report env i did s = (r3, s3) \<Longrightarrow> api_db s3 = api_db s"
  "api_get_audit env i did l f s = (r4, s4) \<Longrightarrow> api_db s4 = api_db s"
  by (auto simp: api_list_decisions_def api_get_decision_def api_get_report_def api_get_audit_def
      bind_action_def split: prod.splits sum.splits option.splits dest: on_log_db)

text \<open>What a request can do to the database, in one place.\<close>

lemma api_step_cases:
  assumes "api_step R P t s s'"
  obtains (unchanged) "api_db s' = api_db s"
  | (created) env i d now w where "env_runtime env = R" "tenant i = t" "P d"
      "semantic_errors R d = Inr []" "df_created_by d = api_actor i DECISION_CREATE"
      "repo_create_decision now t (created_document env i d) [created_event env i d] w (api_db s)
        = Inr (api_db s')"
  | (evaluated) env i did d d' es report now w where "env_runtime env = R" "tenant i = t"
      "repo_get_decision t did (api_db s) = Some d" "evaluate_update env i d = Inr (d', es, report)"
      "repo_save_result now t d' (Some report) es w (api_db s) = Inr (api_db s')"
  | (moved) env i did target d d' e now w where "env_runtime env = R" "tenant i = t"
      "repo_get_decision t did (api_db s) = Some d" "transition_update env i target d = Inr (d', e)"
      "repo_save_result now t d' None [e] w (api_db s) = Inr (api_db s')"
  using assms
proof cases
  case (step_create env i b k r)
  show ?thesis
  proof (cases r)
    case (Inl e)
    with step_create show ?thesis by (blast intro: unchanged api_create_Inl)
  next
    case (Inr x)
    with step_create(4) have "api_create_decision env i k b s = (Inr x, s')" by simp
    then show ?thesis
      by (cases rule: api_create_Inr) (use step_create unchanged created in blast)+
  qed
next
  case (step_evaluate env i k did r)
  show ?thesis
  proof (cases r)
    case (Inl e)
    with step_evaluate show ?thesis by (blast intro: unchanged api_evaluate_Inl)
  next
    case (Inr x)
    with step_evaluate(3) have "api_evaluate env i k did s = (Inr x, s')" by simp
    then show ?thesis
      by (cases rule: api_evaluate_Inr) (use step_evaluate unchanged evaluated in blast)+
  qed
next
  case (step_transition env i k did target r)
  show ?thesis
  proof (cases r)
    case (Inl e)
    with step_transition show ?thesis by (blast intro: unchanged api_transition_Inl)
  next
    case (Inr x)
    with step_transition(3) have "api_transition env i k did target s = (Inr x, s')" by simp
    then show ?thesis
      by (cases rule: api_transition_Inr) (use step_transition unchanged moved in blast)+
  qed
next
  case step_read
  then show ?thesis by (rule unchanged)
qed

interpretation service: tenant_store "\<lambda>s. tenant_view (api_db s)" "api_step R P" for R P
proof
  fix t s s' t'
  assume "api_step R P t s s'" and t: "t' \<noteq> t"
  then show "tenant_view (api_db s') t' = tenant_view (api_db s) t'"
    by (cases rule: api_step_cases) (use t tenant_view_create tenant_view_save in \<open>auto\<close>)
qed

section \<open>The invariant of the store\<close>

definition stored_trail :: "decision_db \<Rightarrow> string \<Rightarrow> string \<Rightarrow> audit_event list" where
  "stored_trail db t did =
     map er_event (filter (\<lambda>r. er_tenant r = t \<and> er_decision_id r = did) (audit_rows db))"

text \<open>
  Every row is a case that keeps its invariant, under its own identifier, and the audit table
  holds exactly the trail the document carries.
\<close>

definition store_inv :: "runtime \<Rightarrow> decision_db \<Rightarrow> bool" where
  "store_inv R db =
     (distinct (map decision_key (decisions db)) \<and>
      (\<forall>row \<in> set (decisions db).
         dr_decision_id row = df_decision_id (dr_document row) \<and> case_inv R (dr_document row) \<and>
         stored_trail db (dr_tenant row) (dr_decision_id row) = df_audit_events (dr_document row)) \<and>
      (\<forall>r \<in> set (audit_rows db). (er_tenant r, er_decision_id r) \<in> decision_key ` set (decisions db)))"

lemma insert_audits_trail:
  assumes "insert_audits t did es db = Inr db'"
  shows "decisions db' = decisions db"
    and "stored_trail db' t' did' =
      stored_trail db t' did' @ (if t' = t \<and> did' = did then es else [])"
    and "set (audit_rows db') = set (audit_rows db) \<union> (\<lambda>e. \<lparr>er_tenant = t, er_decision_id = did,
      er_event_id = ae_event_id e, er_event = e\<rparr>) ` set es"
  using insert_audits_InrD [OF assms] by (auto simp: stored_trail_def o_def)

lemma write_idempotency_trail:
  assumes "write_idempotency t w db = Inr db'"
  shows "decisions db' = decisions db" "audit_rows db' = audit_rows db"
    "stored_trail db' = stored_trail db"
  using write_idempotency_InrD [OF assms] by (auto simp: stored_trail_def fun_eq_iff)

lemma repo_create_effect:
  assumes "repo_create_decision now t d es w db = Inr db'"
  shows "(t, df_decision_id d) \<notin> decision_key ` set (decisions db)"
    and "decisions db' = decisions db @ [\<lparr>dr_tenant = t, dr_decision_id = df_decision_id d,
      dr_document = d, dr_updated_at = now\<rparr>]"
    and "stored_trail db' t' did' =
      stored_trail db t' did' @ (if t' = t \<and> did' = df_decision_id d then es else [])"
    and "(\<lambda>r. (er_tenant r, er_decision_id r)) ` set (audit_rows db') \<subseteq>
      insert (t, df_decision_id d) ((\<lambda>r. (er_tenant r, er_decision_id r)) ` set (audit_rows db))"
proof -
  from assms obtain rows db1 where
    r: "row_insert decision_key \<lparr>dr_tenant = t, dr_decision_id = df_decision_id d, dr_document = d,
        dr_updated_at = now\<rparr> (decisions db) = Inr rows"
      and a: "insert_audits t (df_decision_id d) es (db\<lparr>decisions := rows\<rparr>) = Inr db1"
      and i: "write_idempotency t w db1 = Inr db'"
    by (auto simp: repo_create_decision_def monad_simps)
  note a = insert_audits_trail [OF a] and i = write_idempotency_trail [OF i]
  have "stored_trail (db\<lparr>decisions := rows\<rparr>) = stored_trail db"
    by (simp add: stored_trail_def fun_eq_iff)
  with r a i show "(t, df_decision_id d) \<notin> decision_key ` set (decisions db)"
    "decisions db' = decisions db @ [\<lparr>dr_tenant = t, dr_decision_id = df_decision_id d,
      dr_document = d, dr_updated_at = now\<rparr>]"
    "stored_trail db' t' did' =
      stored_trail db t' did' @ (if t' = t \<and> did' = df_decision_id d then es else [])"
    by (simp_all add: row_insert_Inr_iff)
  from a(3) i(2) show "(\<lambda>r. (er_tenant r, er_decision_id r)) ` set (audit_rows db') \<subseteq>
      insert (t, df_decision_id d) ((\<lambda>r. (er_tenant r, er_decision_id r)) ` set (audit_rows db))"
    by auto
qed

lemma repo_save_effect:
  assumes "repo_save_result now t d report es w db = Inr db'"
  shows "decisions db' = row_update decision_key (t, df_decision_id d)
      (\<lambda>r. r\<lparr>dr_document := d, dr_updated_at := now\<rparr>) (decisions db)"
    and "stored_trail db' t' did' =
      stored_trail db t' did' @ (if t' = t \<and> did' = df_decision_id d then es else [])"
    and "(t, df_decision_id d) \<in> decision_key ` set (decisions db)"
    and "(\<lambda>r. (er_tenant r, er_decision_id r)) ` set (audit_rows db') \<subseteq>
      insert (t, df_decision_id d) ((\<lambda>r. (er_tenant r, er_decision_id r)) ` set (audit_rows db))"
proof -
  let ?db1 = "db\<lparr>decisions := row_update decision_key (t, df_decision_id d)
    (\<lambda>r. r\<lparr>dr_document := d, dr_updated_at := now\<rparr>) (decisions db)\<rparr>"
  let ?db2 = "case report of None \<Rightarrow> ?db1 | Some r \<Rightarrow> ?db1\<lparr>reports := row_upsert report_key
    \<lparr>rep_tenant = t, rep_decision_id = df_decision_id d, rep_report = r\<rparr> (reports ?db1)\<rparr>"
  from assms obtain db3 where mem: "(t, df_decision_id d) \<in> decision_key ` set (decisions db)"
    and a: "insert_audits t (df_decision_id d) es ?db2 = Inr db3"
    and i: "write_idempotency t w db3 = Inr db'"
    by (auto simp: repo_save_result_def monad_simps Let_def)
  note a = insert_audits_trail [OF a] and i = write_idempotency_trail [OF i]
  have db2: "decisions ?db2 = decisions ?db1" "audit_rows ?db2 = audit_rows db"
    "stored_trail ?db2 = stored_trail db"
    by (auto simp: stored_trail_def fun_eq_iff split: option.splits)
  show "(t, df_decision_id d) \<in> decision_key ` set (decisions db)" by (rule mem)
  from a i show "decisions db' = row_update decision_key (t, df_decision_id d)
      (\<lambda>r. r\<lparr>dr_document := d, dr_updated_at := now\<rparr>) (decisions db)"
    "stored_trail db' t' did' =
      stored_trail db t' did' @ (if t' = t \<and> did' = df_decision_id d then es else [])"
    by (simp_all add: db2)
  from a(3) i(2) db2(2) show "(\<lambda>r. (er_tenant r, er_decision_id r)) ` set (audit_rows db') \<subseteq>
      insert (t, df_decision_id d) ((\<lambda>r. (er_tenant r, er_decision_id r)) ` set (audit_rows db))"
    by auto
qed

lemma stored_row:
  assumes "store_inv R db" and "repo_get_decision t did db = Some d"
  obtains row where "row \<in> set (decisions db)" "dr_tenant row = t" "dr_decision_id row = did"
    "dr_document row = d" "did = df_decision_id d" "case_inv R d" "stored_trail db t did = df_audit_events d"
  using assms
  by (auto simp: repo_get_decision_def store_inv_def dest!: row_find_SomeD)

lemma store_inv_create:
  assumes inv: "store_inv R db" and new: "repo_create_decision now t d es w db = Inr db'"
    and d: "case_inv R d" "df_audit_events d = es"
  shows "store_inv R db'"
proof -
  note eff = repo_create_effect [OF new]
  have empty: "stored_trail db t (df_decision_id d) = []"
    using inv eff(1) by (force simp: store_inv_def stored_trail_def filter_empty_conv)
  show ?thesis
    using inv eff(1,4) d empty unfolding store_inv_def eff(2,3)
    by (auto simp: image_iff)
qed

lemma store_inv_save:
  assumes inv: "store_inv R db" and get: "repo_get_decision t did db = Some d"
    and save: "repo_save_result now t d' report es w db = Inr db'"
    and d': "case_inv R d'" "df_decision_id d' = df_decision_id d"
      "df_audit_events d' = df_audit_events d @ es"
  shows "store_inv R db'"
proof -
  from inv get obtain row where row: "did = df_decision_id d" "stored_trail db t did = df_audit_events d"
    by (rule stored_row)
  note eff = repo_save_effect [OF save]
  let ?f = "\<lambda>r. r\<lparr>dr_document := d', dr_updated_at := now\<rparr>"
  have keys: "map decision_key (decisions db') = map decision_key (decisions db)"
    unfolding eff(1) by (rule row_update_keys) simp
  then have kset: "decision_key ` set (decisions db') = decision_key ` set (decisions db)"
    by (metis set_map)
  have rows: "dr_decision_id r = df_decision_id (dr_document r) \<and> case_inv R (dr_document r) \<and>
      stored_trail db' (dr_tenant r) (dr_decision_id r) = df_audit_events (dr_document r)"
    if "r \<in> set (decisions db')" for r
  proof -
    from that obtain q where q: "q \<in> set (decisions db)"
      "r = (if decision_key q = (t, df_decision_id d') then ?f q else q)"
      by (auto simp: eff(1) row_update_def)
    show ?thesis
    proof (cases "decision_key q = (t, df_decision_id d')")
      case True
      with q d' row show ?thesis by (simp add: eff(2))
    next
      case False
      then have "stored_trail db' (dr_tenant q) (dr_decision_id q) =
          stored_trail db (dr_tenant q) (dr_decision_id q)"
        unfolding eff(2) by auto
      moreover have "r = q" using q(2) False by (simp only: if_False)
      moreover from inv q(1) have "dr_decision_id q = df_decision_id (dr_document q) \<and>
          case_inv R (dr_document q) \<and>
          stored_trail db (dr_tenant q) (dr_decision_id q) = df_audit_events (dr_document q)"
        unfolding store_inv_def by blast
      ultimately show ?thesis by metis
    qed
  qed
  have "\<forall>r \<in> set (audit_rows db'). (er_tenant r, er_decision_id r) \<in> decision_key ` set (decisions db)"
    using inv eff(3,4) by (auto simp: store_inv_def image_subset_iff)
  moreover have "distinct (map decision_key (decisions db'))"
    using inv unfolding keys store_inv_def by blast
  ultimately show ?thesis unfolding store_inv_def kset using rows by blast
qed

lemma evaluate_update_fields:
  assumes "evaluate_update env i d = Inr (d', es, report)"
  shows "df_decision_id d' = df_decision_id d" and "df_audit_events d' = df_audit_events d @ es"
  by (rule evaluate_update_InrD [OF assms]; simp)+

lemma transition_update_fields:
  assumes "transition_update env i target d = Inr (d', e)"
  shows "df_decision_id d' = df_decision_id d" and "df_audit_events d' = df_audit_events d @ [e]"
proof -
  obtain as rs where p: "prepared_document env i target d =
      d\<lparr>df_approvals := as, df_review_requirements := rs\<rparr>"
    by (rule prepared_document_fields)
  show "df_decision_id d' = df_decision_id d" and "df_audit_events d' = df_audit_events d @ [e]"
    by (rule transition_update_InrD [OF assms]; simp add: p)+
qed

lemma api_step_store_inv:
  assumes "api_step R fresh_draft t s s'" and inv: "store_inv R (api_db s)"
  shows "store_inv R (api_db s')"
  using assms(1)
proof (cases rule: api_step_cases)
  case unchanged
  with inv show ?thesis by simp
next
  case (created env i d now w)
  then have "case_inv R (created_document env i d)" by (blast intro: created_case_inv)
  moreover have "df_audit_events (created_document env i d) = [created_event env i d]"
    using created(3) by (simp add: fresh_draft_def created_document_def)
  ultimately show ?thesis by (rule store_inv_create [OF inv created(6)])
next
  case (evaluated env i did d d' es report now w)
  from inv evaluated(3) have "case_inv R d" by (rule stored_row)
  then have "case_inv R d'" by (rule case_inv_evaluated [OF _ evaluated(1,4)])
  then show ?thesis
    using evaluate_update_fields [OF evaluated(4)] by (intro store_inv_save [OF inv evaluated(3,5)])
next
  case (moved env i did target d d' e now w)
  from inv moved(3) have "case_inv R d" by (rule stored_row)
  then have "case_inv R d'" by (rule case_inv_transitioned [OF _ moved(1,4)])
  then show ?thesis
    using transition_update_fields [OF moved(4)] by (intro store_inv_save [OF inv moved(3,5)])
qed

section \<open>Idempotent replay\<close>

lemma write_idempotency_answered:
  assumes "write_idempotency t (Some (a, oper, k, h, st, res)) db = Inr db'"
  shows "repo_get_idempotency t a oper k h db' = Inr (Some (st, res))"
proof -
  from assms obtain rows where
    "row_insert idempotency_row_key \<lparr>ir_tenant = t, ir_actor_id = a, ir_operation = oper, ir_key = k,
      ir_request_hash = h, ir_status_code = st, ir_response = res\<rparr> (idempotency db) = Inr rows"
    "db' = db\<lparr>idempotency := rows\<rparr>"
    by (auto simp: write_idempotency_def insert_idempotency_def monad_simps)
  then show ?thesis by (simp add: repo_get_idempotency_def row_insert_find)
qed

lemma repo_answered:
  "repo_create_decision now t d es (Some (a, oper, k, h, st, res)) db = Inr db' \<Longrightarrow>
     repo_get_idempotency t a oper k h db' = Inr (Some (st, res))"
  "repo_save_result now t d report es (Some (a, oper, k, h, st, res)) db = Inr db' \<Longrightarrow>
     repo_get_idempotency t a oper k h db' = Inr (Some (st, res))"
  by (auto simp: repo_create_decision_def repo_save_result_def monad_simps Let_def
      dest: write_idempotency_answered)

lemma insert_audits_idempotency: "insert_audits t did es db = Inr db' \<Longrightarrow> idempotency db' = idempotency db"
  by (drule insert_audits_InrD) simp

lemma repo_step_answered:
  assumes "repo_create_decision now t d es w db = Inr db' \<or> repo_save_result now t d report es w db = Inr db'"
    and "repo_get_idempotency t' a oper k h db = Inr (Some x)"
  shows "repo_get_idempotency t' a oper k h db' = Inr (Some x)"
proof -
  from assms(1) obtain db1 where "idempotency db1 = idempotency db" "write_idempotency t w db1 = Inr db'"
    by (auto simp: repo_create_decision_def repo_save_result_def monad_simps Let_def
        dest!: insert_audits_idempotency split: option.splits)
  then obtain rows where "idempotency db' = idempotency db @ rows"
    using write_idempotency_InrD by fastforce
  with assms(2) show ?thesis
    by (auto simp: repo_get_idempotency_def split: option.splits)
qed

lemma api_step_answered:
  assumes "api_step R P t s s'" and "repo_get_idempotency t' a oper k h (api_db s) = Inr (Some x)"
  shows "repo_get_idempotency t' a oper k h (api_db s') = Inr (Some x)"
  using assms(1)
proof (cases rule: api_step_cases)
  case unchanged
  with assms(2) show ?thesis by simp
next
  case created
  then show ?thesis by (intro repo_step_answered [OF disjI1 assms(2)])
next
  case evaluated
  then show ?thesis by (intro repo_step_answered [OF disjI2 assms(2)])
next
  case moved
  then show ?thesis by (intro repo_step_answered [OF disjI2 assms(2)])
qed

lemma api_steps_answered:
  assumes "(\<lambda>a b. \<exists>t. api_step R P t a b)\<^sup>*\<^sup>* s s'"
    and "repo_get_idempotency t' a oper k h (api_db s) = Inr (Some x)"
  shows "repo_get_idempotency t' a oper k h (api_db s') = Inr (Some x)"
  using assms by (induction rule: rtranclp_induct) (auto intro: api_step_answered)

section \<open>Interleaved requests\<close>

text \<open>
  A handler reads a document, computes and writes in two transactions. Two transitions that
  start from the same version of a document carry the same event identifier, so the unique
  key of the audit table refuses the second write.
\<close>

lemma save_events_recorded:
  assumes "repo_save_result now t d report es w db = Inr db'" and "e \<in> set es"
  shows "(t, df_decision_id d, ae_event_id e) \<in> event_key ` set (audit_rows db')"
proof -
  from assms(1) obtain db2 db3 where "insert_audits t (df_decision_id d) es db2 = Inr db3"
    "write_idempotency t w db3 = Inr db'"
    by (auto simp: repo_save_result_def monad_simps Let_def)
  with assms(2) show ?thesis
    using insert_audits_trail(3) write_idempotency_trail(2) by (force simp: image_iff)
qed

lemma save_duplicate_event:
  assumes "(t, df_decision_id d, ae_event_id e) \<in> event_key ` set (audit_rows db)"
    and "(t, df_decision_id d) \<in> decision_key ` set (decisions db)"
  shows "repo_save_result now t d None [e] w db = Inl IntegrityError"
proof -
  let ?db1 = "db\<lparr>decisions := row_update decision_key (t, df_decision_id d)
    (\<lambda>r. r\<lparr>dr_document := d, dr_updated_at := now\<rparr>) (decisions db)\<rparr>"
  have "decision_key ` set (decisions ?db1) = decision_key ` set (decisions db)"
    by (simp add: row_update_key_set)
  with assms have "insert_audit t (df_decision_id d) e ?db1 = Inl IntegrityError"
    by (auto simp: insert_audit_def row_insert_def)
  with assms(2) show ?thesis by (simp add: repo_save_result_def Let_def)
qed

lemma transitions_from_same_version:
  assumes "transition_update env1 i1 target1 d = Inr (d1, e1)"
    and "transition_update env2 i2 target2 d = Inr (d2, e2)"
    and "repo_save_result now1 t d1 None [e1] w1 db = Inr db1"
  shows "repo_save_result now2 t d2 None [e2] w2 db1 = Inl IntegrityError"
proof -
  have ids: "ae_event_id e1 = ae_event_id e2"
    by (rule transition_update_InrD [OF assms(1)], rule transition_update_InrD [OF assms(2)]) simp
  have dids: "df_decision_id d1 = df_decision_id d2"
    using transition_update_fields(1) assms(1,2) by metis
  have "(t, df_decision_id d1, ae_event_id e1) \<in> event_key ` set (audit_rows db1)"
    by (rule save_events_recorded [OF assms(3)]) simp
  moreover have "(t, df_decision_id d1) \<in> decision_key ` set (decisions db1)"
    unfolding repo_save_effect(1) [OF assms(3)]
    by (subst row_update_key_set) (simp_all add: repo_save_effect(3) [OF assms(3)])
  ultimately show ?thesis unfolding ids dids by (rule save_duplicate_event)
qed

end
