(* ===== verification/ServiceProgress.thy ===== *)
theory ServiceProgress
  imports DecisionService
begin

text \<open>
  When a request succeeds: conditions under which the create, evaluate and transition routes
  return, and what the database then holds. They complement the lemmas of
  \<^verbatim>\<open>DecisionService\<close>, which say what follows when a route has returned.
\<close>

lemma operation_fresh:
  assumes "(tenant i, actor_id i, oper, key) \<notin> idempotency_row_key ` set (idempotency (api_db s))"
  shows "api_operation env i key oper payload s =
    (Inr (payload_hash (sha256 (env_runtime env)) payload, None), s)"
  using assms
  by (simp add: api_operation_def Let_def bind_action_def repo_get_idempotency_def
      row_find_None_iff [THEN iffD2])

lemma on_log_ok:
  assumes "m (api_log s) = (Inr x, log')"
  shows "on_log m s = (Inr x, s\<lparr>api_log := log'\<rparr>)"
  using assms by (simp add: on_log_def)

lemma api_create_ok:
  assumes "require (env_request env) i DECISION_CREATE (api_log s) = (Inr (), log')"
    and "1 \<le> length key" "length key \<le> 128"
    and "(tenant i, actor_id i, ''decision:create'', key) \<notin> idempotency_row_key ` set (idempotency (api_db s))"
    and "decision_file_schema (env_runtime env) d" "semantic_errors (env_runtime env) d = Inr []"
    and "df_created_by d = api_actor i DECISION_CREATE" "df_canonical_action d = None"
    and "repo_create_decision (env_timestamp env) (tenant i) (created_document env i d)
       [created_event env i d] (Some (actor_id i, ''decision:create'', key,
         payload_hash (sha256 (env_runtime env)) (decision_json d), 201,
         decision_json (created_document env i d))) (api_db s) = Inr db'"
  shows "api_create_decision env i (Some key) (Document d) s =
    (Inr (201, decision_json (created_document env i d)), \<lparr>api_db = db', api_log = log'\<rparr>)"
  using assms
  by (simp add: api_create_decision_def bind_action_def on_log_ok require_idempotency_key_def
      operation_fresh body_json_def parse_document_def map_error_def contract_validate_def
      validate_semantics_def Let_def on_db_def)

lemma api_evaluate_ok:
  assumes "require (env_request env) i DECISION_EVALUATE (api_log s) = (Inr (), log')"
    and "1 \<le> length key" "length key \<le> 128"
    and "(tenant i, actor_id i, ''decision:evaluate:'' @ did, key) \<notin> idempotency_row_key ` set (idempotency (api_db s))"
    and "repo_get_decision (tenant i) did (api_db s) = Some d"
    and "evaluate_update env i d = Inr (d', es, report)"
    and "repo_save_result (env_timestamp env) (tenant i) d' (Some report) es
       (Some (actor_id i, ''decision:evaluate:'' @ did, key,
         payload_hash (sha256 (env_runtime env)) (JObj []), 200, JObj report)) (api_db s) = Inr db'"
  shows "api_evaluate env i (Some key) did s =
    (Inr (200, JObj report), \<lparr>api_db = db', api_log = log'\<rparr>)"
  using assms
  by (simp add: api_evaluate_def bind_action_def on_log_ok require_idempotency_key_def
      operation_fresh Let_def on_db_def)

lemma api_transition_ok:
  assumes "require (env_request env) i (transition_permission target d) (api_log s) = (Inr (), log')"
    and "target \<notin> {DRAFT, BLOCKED}" "1 \<le> length key" "length key \<le> 128"
    and "(tenant i, actor_id i, transition_operation did target, key) \<notin> idempotency_row_key ` set (idempotency (api_db s))"
    and "repo_get_decision (tenant i) did (api_db s) = Some d"
    and "transition_update env i target d = Inr (d', e)"
    and "repo_save_result (env_timestamp env) (tenant i) d' None [e]
       (Some (actor_id i, transition_operation did target, key,
         payload_hash (sha256 (env_runtime env)) (JObj [(''target'', JStr (case_status_value target))]),
         200, decision_json d')) (api_db s) = Inr db'"
  shows "api_transition env i (Some key) did target s =
    (Inr (200, decision_json d'), \<lparr>api_db = db', api_log = log'\<rparr>)"
proof -
  have "transition_guard env i target s = (Inr (), s\<lparr>api_log := log'\<rparr>)"
    using assms(1,2) by (auto simp: transition_guard_def on_log_ok transition_permission_def
        is_approval_action_def)
  with assms(2-8) show ?thesis
    by (simp add: api_transition_def bind_action_def require_idempotency_key_def blocked_guard_def
        operation_fresh Let_def on_db_def)
qed

lemma repo_save_ok:
  assumes "(t, df_decision_id d) \<in> decision_key ` set (decisions db)"
    and "(t, df_decision_id d, ae_event_id e) \<notin> event_key ` set (audit_rows db)"
    and "(t, a, oper, k) \<notin> idempotency_row_key ` set (idempotency db)"
  shows "\<exists>db'. repo_save_result now t d report [e] (Some (a, oper, k, h, st, res)) db = Inr db' \<and>
    decision_key ` set (decisions db') = decision_key ` set (decisions db) \<and>
    repo_get_decision t (df_decision_id d) db' = Some d \<and>
    event_key ` set (audit_rows db') =
      insert (t, df_decision_id d, ae_event_id e) (event_key ` set (audit_rows db)) \<and>
    idempotency_row_key ` set (idempotency db') =
      insert (t, a, oper, k) (idempotency_row_key ` set (idempotency db))"
proof -
  let ?up = "row_update decision_key (t, df_decision_id d)
    (\<lambda>r. r\<lparr>dr_document := d, dr_updated_at := now\<rparr>) (decisions db)"
  have keys: "decision_key ` set ?up = decision_key ` set (decisions db)"
    by (rule row_update_key_set) simp
  have get: "map_option dr_document (row_find decision_key (t, df_decision_id d) ?up) = Some d"
    using assms(1) row_find_None_iff [of decision_key "(t, df_decision_id d)" "decisions db"]
    by (subst row_update_find) auto
  have mem: "(t, df_decision_id d) \<in> decision_key ` set ?up"
    unfolding keys by (rule assms(1))
  obtain db1 where db1: "db1 = (case report of None \<Rightarrow> db\<lparr>decisions := ?up\<rparr>
    | Some r \<Rightarrow> db\<lparr>decisions := ?up, reports := row_upsert report_key
       \<lparr>rep_tenant = t, rep_decision_id = df_decision_id d, rep_report = r\<rparr> (reports db)\<rparr>)" by blast
  have f: "decisions db1 = ?up" "audit_rows db1 = audit_rows db" "idempotency db1 = idempotency db"
    by (simp_all add: db1 split: option.splits)
  let ?er = "\<lparr>er_tenant = t, er_decision_id = df_decision_id d, er_event_id = ae_event_id e, er_event = e\<rparr>"
  let ?ir = "\<lparr>ir_tenant = t, ir_actor_id = a, ir_operation = oper, ir_key = k,
      ir_request_hash = h, ir_status_code = st, ir_response = res\<rparr>"
  have "repo_save_result now t d report [e] (Some (a, oper, k, h, st, res)) db =
      bind_result (insert_audits t (df_decision_id d) [e] db1)
        (write_idempotency t (Some (a, oper, k, h, st, res)))"
    using assms(1) by (simp add: repo_save_result_def Let_def db1 split: option.splits)
  also have "\<dots> = Inr (db1\<lparr>audit_rows := audit_rows db @ [?er], idempotency := idempotency db @ [?ir]\<rparr>)"
    using assms(2,3) mem
    by (simp add: insert_audit_def write_idempotency_def insert_idempotency_def row_insert_def f)
  finally show ?thesis
    using keys get by (simp add: f repo_get_decision_def)
qed

lemma save_get:
  assumes "repo_save_result now t d report es w db = Inr db'"
  shows "repo_get_decision t (df_decision_id d) db' = Some d"
proof -
  note eff = repo_save_effect [OF assms]
  have "row_find decision_key (t, df_decision_id d) (decisions db) \<noteq> None"
    using eff(3) by (simp only: row_find_None_iff not_not)
  then show ?thesis
    unfolding repo_get_decision_def eff(1) by (subst row_update_find) auto
qed

section \<open>Updates that succeed\<close>

lemma stamp_schema: "audit_event_schema R e \<Longrightarrow> audit_event_schema R (stamp env i e)"
  by (simp add: audit_event_schema_def stamp_def)

lemma schema_events:
  assumes "decision_file_schema R d" and "list_all (audit_event_schema R) es"
  shows "decision_file_schema R (d\<lparr>df_audit_events := es\<rparr>)"
  using assms by (simp add: decision_file_schema_def)

lemma schema_eventsD: "decision_file_schema R d \<Longrightarrow> list_all (audit_event_schema R) (df_audit_events d)"
  by (simp add: decision_file_schema_def)

lemma evaluate_update_total:
  assumes "decision_file_schema (env_runtime env) d" and "semantic_errors (env_runtime env) d = Inr []"
    and "\<And>n. date_time_format (env_runtime env) (env_clock env n)"
  shows "\<exists>d' e report. evaluate_update env i d = Inr (d', [e], report) \<and>
    decision_file_schema (env_runtime env) d'"
proof -
  from evaluate_decision_file_total [OF assms(1,2), of "env_clock env"] assms(3) obtain u r where
    u: "evaluate_decision_file (env_runtime env) (env_clock env) d = Inr (u, r)" by blast
  from u obtain e where e: "decision_file_schema (env_runtime env) u"
    "df_audit_events u = df_audit_events d @ [e]"
    by (rule evaluate_decision_file_InrD) blast
  have "list_all (audit_event_schema (env_runtime env)) (df_audit_events d @ [stamp env i e])"
    using schema_eventsD [OF e(1)] by (simp add: e(2) stamp_schema)
  with schema_events [OF e(1)] u e(2) show ?thesis
    by (simp add: evaluate_update_def Let_def)
qed

lemma transition_update_total:
  assumes "decision_file_schema (env_runtime env) (prepared_document env i target d)"
    and "semantic_errors (env_runtime env) (prepared_document env i target d) = Inr []"
    and "rejection_reasons (prepared_document env i target d) (df_status d) target a = []"
    and a: "a = api_actor i (transition_permission target d)" and "actor_schema a"
    and "date_time_format (env_runtime env) (env_transition_now env)"
  shows "\<exists>e. transition_update env i target d =
      Inr ((prepared_document env i target d)\<lparr>df_status := target,
        df_updated_at := env_transition_now env, df_current_owner := a,
        df_audit_events := df_audit_events d @ [e]\<rparr>, e) \<and> audit_event_schema (env_runtime env) e"
proof -
  let ?p = "prepared_document env i target d"
  obtain as rs where p: "?p = d\<lparr>df_approvals := as, df_review_requirements := rs\<rparr>"
    by (rule prepared_document_fields)
  have same: "df_status ?p = df_status d" "df_audit_events ?p = df_audit_events d" by (simp_all add: p)
  let ?e = "transition_event (env_runtime env) (env_transition_now env) ?p target a"
  have tr: "transition (env_runtime env) (env_transition_now env) ?p (case_status_value target) a =
      Inr (?p\<lparr>df_status := target, df_updated_at := env_transition_now env, df_current_owner := a,
        df_audit_events := df_audit_events ?p @ [?e]\<rparr>)"
    using assms by (intro transition_total) (simp_all add: same)
  have "audit_event_schema (env_runtime env) (stamp env i ?e)"
    using assms(5,6) by (intro stamp_schema transition_event_schema)
  moreover have "transition_update env i target d =
      Inr (?p\<lparr>df_status := target, df_updated_at := env_transition_now env, df_current_owner := a,
        df_audit_events := df_audit_events d @ [stamp env i ?e]\<rparr>, stamp env i ?e)"
    unfolding transition_update_def Let_def prepared_document_def [symmetric] a [symmetric]
    by (simp add: tr map_error_def same)
  ultimately show ?thesis by blast
qed

section \<open>The approvals of a human approver's request\<close>

lemma auto_approve_spec:
  assumes "auto_approve env d a h aps rs = (as, qs)"
  shows "(\<exists>new. as = aps @ new \<and> (\<forall>ap \<in> set new. ap_approver ap = a \<and>
       ap_approval_digest ap = approval_digest (env_runtime env) d ap)) \<and>
    map rr_id qs = map rr_id rs \<and>
    (\<forall>r \<in> set rs. \<not> (rr_mandatory r \<and> rr_required_role r = ''APPROVER'') \<longrightarrow> r \<in> set qs) \<and>
    (\<forall>q \<in> set qs. rr_mandatory q \<and> rr_required_role q = ''APPROVER'' \<longrightarrow>
       rr_satisfied q \<and> (\<exists>ap \<in> set as. matching_approval a h q ap))"
  using assms
proof (induction rs arbitrary: aps as qs)
  case Nil
  then show ?case by simp
next
  case (Cons r rs)
  show ?case
  proof (cases "rr_mandatory r \<and> rr_required_role r = ''APPROVER''")
    case False
    obtain as' qs' where rest: "auto_approve env d a h aps rs = (as', qs')" by fastforce
    with Cons.prems False have "as = as'" "qs = r # qs'" by auto
    with Cons.IH [OF rest] False show ?thesis by auto
  next
    case True
    let ?ap = "bind_approval (env_runtime env) d
       \<lparr>ap_requirement_ref = rr_id r, ap_approver = a, ap_decision = APPROVE,
        ap_decided_at = env_now env, ap_action_digest = h,
        ap_nonce = env_nonces env (length aps), ap_approval_digest = []\<rparr>"
    define aps' where "aps' = (if list_ex (matching_approval a h r) aps then aps else aps @ [?ap])"
    obtain as' qs' where rest: "auto_approve env d a h aps' rs = (as', qs')" by fastforce
    have out: "as = as'" "qs = r\<lparr>rr_satisfied := True\<rparr> # qs'"
      using Cons.prems True rest unfolding aps'_def by (simp_all add: Let_def)
    have ap: "matching_approval a h r ?ap" "ap_approver ?ap = a"
      by (simp_all add: matching_approval_def bind_approval_def)
    have here: "\<exists>ap \<in> set aps'. matching_approval a h r ap"
      using ap(1) by (auto simp: aps'_def list_ex_iff)
    note IH = Cons.IH [OF rest]
    from IH obtain new where new: "as' = aps' @ new"
      "\<forall>ap \<in> set new. ap_approver ap = a \<and> ap_approval_digest ap = approval_digest (env_runtime env) d ap"
      by blast
    have "\<exists>new. as = aps @ new \<and> (\<forall>ap \<in> set new. ap_approver ap = a \<and>
       ap_approval_digest ap = approval_digest (env_runtime env) d ap)"
      using new ap(2) out(1)
      by (cases "list_ex (matching_approval a h r) aps")
        (auto simp: aps'_def simp del: bind_approval_bound intro: bind_approval_bound)
    moreover have "\<exists>ap \<in> set as. matching_approval a h (r\<lparr>rr_satisfied := True\<rparr>) ap"
      using here new(1) out(1) by (auto simp: matching_approval_def)
    ultimately show ?thesis using IH True out by auto
  qed
qed

lemma approve_document_signs:
  "(\<forall>r \<in> set (df_review_requirements (approve_document env a d)).
      rr_mandatory r \<and> rr_required_role r = ''APPROVER'' \<longrightarrow> rr_satisfied r \<and>
      (\<exists>ap \<in> set (df_approvals (approve_document env a d)).
         ap_requirement_ref ap = rr_id r \<and> ap_decision ap = APPROVE \<and> ap_approver ap = a \<and>
         ap_action_digest ap = expected_action_digest d)) \<and>
   (\<forall>ap \<in> set (df_approvals (approve_document env a d)). ap \<in> set (df_approvals d) \<or>
      ap_approver ap = a \<and> ap_approval_digest ap = approval_digest (env_runtime env) d ap) \<and>
   take (length (df_approvals d)) (df_approvals (approve_document env a d)) = df_approvals d \<and>
   map rr_id (df_review_requirements (approve_document env a d)) = map rr_id (df_review_requirements d) \<and>
   (\<forall>r \<in> set (df_review_requirements d). \<not> (rr_mandatory r \<and> rr_required_role r = ''APPROVER'') \<longrightarrow>
      r \<in> set (df_review_requirements (approve_document env a d)))"
proof -
  obtain as qs where e: "auto_approve env d a (expected_action_digest d) (df_approvals d)
      (df_review_requirements d) = (as, qs)" by fastforce
  then have f: "df_approvals (approve_document env a d) = as"
    "df_review_requirements (approve_document env a d) = qs"
    by (simp_all add: approve_document_def)
  from auto_approve_spec [OF e] show ?thesis
    unfolding f matching_approval_def by auto
qed

end
