(* ===== verification/DemoCase.thy ===== *)
theory DemoCase
  imports ServiceProgress
begin

text \<open>
  A concrete case: a runtime, three people of one tenant and the document they take from
  draft to approval. The properties of the decision routes are applied to it.
\<close>

definition demo_sha :: digest where
  "demo_sha s = replicate 64 (CHR ''a'')"

definition demo_runtime :: runtime where
  "demo_runtime = \<lparr>sha256 = demo_sha, fromisoformat = (\<lambda>s. Some (Aware 0)),
     date_time_format = (\<lambda>s. True)\<rparr>"

definition demo_actor :: actor where
  "demo_actor = \<lparr>act_id = ''gina'', act_role = ''GENERATOR'', act_kind = ''HUMAN''\<rparr>"

definition demo_document :: decision_file where
  "demo_document = \<lparr>
     df_schema_version = ''0.2.0'', df_decision_id = ''case-1'', df_title = ''Case'',
     df_description = ''A case'', df_use_case = ''demo'', df_status = DRAFT,
     df_assurance_level = ''BASIC'', df_created_at = ''t0'', df_updated_at = ''t0'',
     df_created_by = demo_actor,
     df_requested_by = \<lparr>act_id = ''rob'', act_role = ''OWNER'', act_kind = ''HUMAN''\<rparr>,
     df_current_owner = demo_actor, df_canonical_action = None,
     df_claims = [\<lparr>claim_id = ''c1'', claim_statement = ''s'', mandatory_evidence = True\<rparr>],
     df_evidence = [\<lparr>ev_id = ''e1'', ev_claim_refs = [''c1''], ev_source_ref = ''src'',
        ev_status = VERIFIED, ev_observed_at = None, ev_content_hash = None\<rparr>],
     df_assumptions = [], df_constraints = [], df_policies = [], df_risks = [], df_conflicts = [],
     df_validation_results = [],
     df_review_requirements = [\<lparr>rr_id = ''r1'', rr_required_role = ''APPROVER'',
        rr_mandatory = True, rr_satisfied = False\<rparr>],
     df_approvals = [], df_decision_outcome = None, df_outcome_reasons = [], df_audit_events = []\<rparr>"

definition demo_identity :: "string \<Rightarrow> role \<Rightarrow> identity" where
  "demo_identity name r = \<lparr>actor_id = name, tenant = ''acme'', role = r, kind = HUMAN,
     organization_id = None, groups = [], roles = [r], client_id = None, scopes = []\<rparr>"

definition demo_env :: environment where
  "demo_env = \<lparr>env_runtime = demo_runtime,
     env_request = \<lparr>rq_correlation_id = ''corr'', rq_uuid = (\<lambda>n. ''uuid''), rq_now = (\<lambda>n. ''t'')\<rparr>,
     env_clock = (\<lambda>n. ''t1''), env_now = ''t1'', env_transition_now = ''t2'', env_timestamp = ''ts'',
     env_nonces = (\<lambda>n. replicate 22 (CHR ''n''))\<rparr>"

definition demo_start :: api_state where
  "demo_start = \<lparr>api_db = empty_db, api_log = []\<rparr>"

lemma demo_doc:
  "decision_file_schema demo_runtime demo_document" "semantic_errors demo_runtime demo_document = Inr []"
  by (code_simp, code_simp)

lemma demo_env_simps [simp]:
  "env_runtime demo_env = demo_runtime" "env_clock demo_env n = ''t1''"
  "env_transition_now demo_env = ''t2''"
  "date_time_format demo_runtime t" "fromisoformat demo_runtime t = Some (Aware 0)"
  by (simp_all add: demo_env_def demo_runtime_def)

lemma demo_identity_simps [simp]:
  "tenant (demo_identity n r) = ''acme''" "actor_id (demo_identity n r) = n"
  "roles (demo_identity n r) = [r]" "role (demo_identity n r) = r" "kind (demo_identity n r) = HUMAN"
  by (simp_all add: demo_identity_def)

definition gina :: identity where "gina = demo_identity ''gina'' GENERATOR"
definition vera :: identity where "vera = demo_identity ''vera'' VALIDATOR"
definition anna :: identity where "anna = demo_identity ''anna'' APPROVER"

lemmas demo_people = gina_def vera_def anna_def

text \<open>The document after each request: only the events and the evaluation are left open.\<close>

definition demo_doc1 :: decision_file where
  "demo_doc1 = created_document demo_env gina demo_document"

lemmas demo_semantics = semantic_errors_def parse_datetime_def unknown_claims_def
  unknown_requirements_def py_sorted_set_def action_errors_def emit_if_def
  demo_doc1_def created_document_def demo_document_def

lemma schema_doc1: "decision_file_schema demo_runtime demo_doc1"
proof -
  have "audit_event_schema demo_runtime (created_event demo_env gina demo_document)"
    by (simp add: audit_event_schema_def created_event_def api_actor_def demo_people actor_schema_def)
  moreover have "df_audit_events demo_document = []" by (simp add: demo_document_def)
  ultimately show ?thesis
    unfolding demo_doc1_def created_document_def by (intro schema_events demo_doc) simp
qed

lemma semantic_doc1: "semantic_errors demo_runtime demo_doc1 = Inr []"
  by (simp add: demo_semantics)

lemma outcome_doc1: "document_outcome demo_doc1 = PASS"
  by code_simp

lemma demo_numbers:
  "str_nat 2 = ''2''" "str_nat 3 = ''3''" "str_nat 4 = ''4''" "str_nat 5 = ''5''"
  by code_simp+

lemma demo_doc2:
  obtains d2 e report codes t vs where
    "evaluate_update demo_env vera demo_doc1 = Inr (d2, [e], report)"
    "decision_file_schema demo_runtime d2"
    "d2 = demo_doc1\<lparr>df_decision_outcome := Some PASS, df_outcome_reasons := codes,
       df_updated_at := t, df_validation_results := vs, df_audit_events := df_audit_events demo_doc1 @ [e]\<rparr>"
    "ae_event_id e = ''case-1:evaluation:2''" "ae_to_status e = DRAFT"
proof -
  from evaluate_update_total [of demo_env demo_doc1 vera] schema_doc1 semantic_doc1
  obtain d2 e report where u: "evaluate_update demo_env vera demo_doc1 = Inr (d2, [e], report)"
    and s: "decision_file_schema demo_runtime d2" by auto
  have st: "df_status demo_doc1 = DRAFT" "df_decision_id demo_doc1 = ''case-1''"
    "length (df_audit_events demo_doc1) = 1"
    by (simp_all add: demo_doc1_def created_document_def demo_document_def)
  from u show ?thesis
    by (rule evaluate_update_InrD) (use u s outcome_doc1 st in \<open>auto intro!: that simp: demo_numbers numeral_2_eq_2 [symmetric]\<close>)
qed

definition demo_next :: "decision_file \<Rightarrow> case_status \<Rightarrow> actor \<Rightarrow> audit_event \<Rightarrow> decision_file" where
  "demo_next d target a e = d\<lparr>df_status := target, df_updated_at := ''t2'', df_current_owner := a,
     df_audit_events := df_audit_events d @ [e]\<rparr>"

lemma demo_moves:
  assumes "decision_file_schema demo_runtime d" "semantic_errors demo_runtime d = Inr []"
    and "rejection_reasons d (df_status d) target a = []" "a = api_actor i (transition_permission target d)"
    and "actor_schema a" "target \<noteq> APPROVED"
  shows "\<exists>e. transition_update demo_env i target d = Inr (demo_next d target a e, e) \<and>
    decision_file_schema demo_runtime (demo_next d target a e) \<and>
    ae_actor e = a \<and> ae_to_status e = target \<and>
    ae_event_id e = df_decision_id d @ '':transition:'' @ str_nat (length (df_audit_events d) + 1)"
proof -
  have p: "prepared_document demo_env i target d = d"
    using assms(6) by (simp add: prepared_document_def)
  from transition_update_total [of demo_env i target d a] assms obtain e where
    u: "transition_update demo_env i target d = Inr (demo_next d target a e, e)"
    and e: "audit_event_schema demo_runtime e"
    by (auto simp: p demo_next_def)
  have "decision_file_schema demo_runtime (demo_next d target a e)"
    unfolding demo_next_def using assms(1,5) e by (intro schema_transitioned) simp_all
  with u assms(4) show ?thesis by (intro exI [of _ e]) (auto elim!: transition_update_InrD)
qed

lemma demo_approves:
  assumes d: "decision_file_schema demo_runtime d" "df_status d = IN_REVIEW"
    "df_decision_outcome d = Some PASS" "df_canonical_action d = None" "df_approvals d = []"
    "df_claims d = df_claims demo_document" "df_evidence d = df_evidence demo_document"
    "df_review_requirements d = df_review_requirements demo_document"
    "df_constraints d = []" "df_conflicts d = []" "df_created_by d = demo_actor"
    "df_requested_by d = df_requested_by demo_document" "validator_ids d = [''vera'']"
  shows "\<exists>d' e. transition_update demo_env anna APPROVED d = Inr (d', e) \<and> df_status d' = APPROVED \<and>
    df_approvals d' \<noteq> [] \<and>
    ae_event_id e = df_decision_id d @ '':transition:'' @ str_nat (length (df_audit_events d) + 1)"
proof -
  let ?p = "prepared_document demo_env anna APPROVED d"
  let ?a = "api_actor anna DECISION_APPROVE"
  obtain ap where p: "?p = d\<lparr>df_approvals := [ap], df_review_requirements :=
      [\<lparr>rr_id = ''r1'', rr_required_role = ''APPROVER'', rr_mandatory = True, rr_satisfied = True\<rparr>]\<rparr>"
    and ap: "ap = bind_approval demo_runtime d \<lparr>ap_requirement_ref = ''r1'', ap_approver = ?a,
      ap_decision = APPROVE, ap_decided_at = env_now demo_env, ap_action_digest = None,
      ap_nonce = env_nonces demo_env 0, ap_approval_digest = []\<rparr>"
    using d by (simp add: prepared_document_def anna_def approve_document_def demo_document_def
        expected_action_digest_def)
  have a: "?a = \<lparr>act_id = ''anna'', act_role = ''APPROVER'', act_kind = ''HUMAN''\<rparr>"
    by (simp add: api_actor_def anna_def)
  have digest: "approval_digest demo_runtime d' x = ''sha256:'' @ replicate 64 (CHR ''a'')" for d' x
    by (simp add: approval_digest_def payload_hash_def demo_runtime_def demo_sha_def)
  have f: "ap_requirement_ref ap = ''r1''" "ap_approver ap = ?a" "ap_decision ap = APPROVE"
    "ap_action_digest ap = None" "ap_nonce ap = replicate 22 (CHR ''n'')"
    "ap_approval_digest ap = ''sha256:'' @ replicate 64 (CHR ''a'')"
    by (simp_all add: ap bind_approval_def digest demo_env_def)
  have "approval_schema demo_runtime ap"
    unfolding approval_schema_def f a by (simp add: actor_schema_def) code_simp
  then have schema: "decision_file_schema demo_runtime ?p"
    using d(1) by (simp add: p decision_file_schema_def)
  have sem: "semantic_errors demo_runtime ?p = Inr []"
    using d by (simp add: p semantic_errors_def parse_datetime_def unknown_claims_def
        unknown_requirements_def py_sorted_set_def action_errors_def emit_if_def demo_document_def
        approval_errors_def f a digest expected_action_digest_def dict_of_def demo_actor_def)
  have "validator_ids ?p = [''vera'']" using d by (simp add: p validator_ids_def)
  then have "rejection_reasons ?p IN_REVIEW APPROVED ?a = []"
    using d by (simp add: rejection_reasons_def approval_reasons_def emit_if_def a p demo_actor_def
        matching_approvals_def f)
  with schema sem d(2) transition_update_total [of demo_env anna APPROVED d ?a] obtain e where
    u: "transition_update demo_env anna APPROVED d = Inr (?p\<lparr>df_status := APPROVED,
      df_updated_at := ''t2'', df_current_owner := ?a, df_audit_events := df_audit_events d @ [e]\<rparr>, e)"
    by (auto simp: transition_permission_def is_approval_action_def a actor_schema_def)
  then show ?thesis by (auto elim!: transition_update_InrD simp: p)
qed

lemma demo_require:
  "\<exists>log'. require (env_request demo_env) gina DECISION_CREATE log = (Inr (), log')"
  "\<exists>log'. require (env_request demo_env) vera DECISION_EVALUATE log = (Inr (), log')"
  "\<exists>log'. require (env_request demo_env) vera DECISION_VALIDATE log = (Inr (), log')"
  "\<exists>log'. require (env_request demo_env) anna DECISION_APPROVE log = (Inr (), log')"
proof -
  have "security_event_validate \<lparr>se_event_id = ''uuid'', se_event_type = ''authorization.allowed'',
      se_schema_version = ''1.0.0'', se_occurred_at = ''t'', se_decision = ''ALLOWED'',
      se_actor_ref = fst p, se_tenant_id = Some ''acme'', se_client_id = None, se_correlation_id = ''corr'',
      se_reason_code = ''AUTH_ALLOWED'', se_permission = Some (permission_value (snd p))\<rparr> = Inr ()"
    if "p \<in> {(''gina'', DECISION_CREATE), (''vera'', DECISION_EVALUATE), (''vera'', DECISION_VALIDATE),
        (''anna'', DECISION_APPROVE)}" for p
    using that by (elim insertE emptyE; hypsubst; code_simp)
  note ok = this [of "(''gina'', DECISION_CREATE)"] this [of "(''vera'', DECISION_EVALUATE)"]
     this [of "(''vera'', DECISION_VALIDATE)"] this [of "(''anna'', DECISION_APPROVE)"]
  note defs = require_def authorize_def record_authorization_def record_event_def demo_env_def
    demo_people demo_identity_def Let_def
  show "\<exists>log'. require (env_request demo_env) gina DECISION_CREATE log = (Inr (), log')"
    "\<exists>log'. require (env_request demo_env) vera DECISION_EVALUATE log = (Inr (), log')"
    "\<exists>log'. require (env_request demo_env) vera DECISION_VALIDATE log = (Inr (), log')"
    "\<exists>log'. require (env_request demo_env) anna DECISION_APPROVE log = (Inr (), log')"
    using ok by (simp_all add: defs)
qed

abbreviation demo_run :: "api_state \<Rightarrow> api_state \<Rightarrow> bool" where
  "demo_run \<equiv> (\<lambda>a b. \<exists>t. api_step demo_runtime fresh_draft t a b)\<^sup>*\<^sup>*"

text \<open>What the database holds about the case: the document, the events, the used keys.\<close>

definition used_keys :: "decision_db \<Rightarrow> (string \<times> string \<times> string \<times> string) set" where
  "used_keys db = idempotency_row_key ` set (idempotency db)"

definition demo_holds :: "decision_db \<Rightarrow> decision_file \<Rightarrow> string list \<Rightarrow> string list \<Rightarrow> bool" where
  "demo_holds db d ids ks =
     (decision_key ` set (decisions db) = {(''acme'', ''case-1'')} \<and>
      repo_get_decision ''acme'' ''case-1'' db = Some d \<and> df_decision_id d = ''case-1'' \<and>
      event_key ` set (audit_rows db) = (\<lambda>x. (''acme'', ''case-1'', x)) ` set ids \<and>
      (\<forall>(t, a, oper, k) \<in> used_keys db. k \<in> set ks))"

lemma demo_save:
  assumes "demo_holds db d ids ks" and "df_decision_id d' = ''case-1''"
    and "ae_event_id e \<notin> set ids" and "k \<notin> set ks"
  shows "\<exists>db'. repo_save_result now ''acme'' d' report [e] (Some (a, oper, k, h, st, res)) db = Inr db' \<and>
    demo_holds db' d' (ae_event_id e # ids) (k # ks)"
proof -
  have "\<exists>db'. repo_save_result now ''acme'' d' report [e] (Some (a, oper, k, h, st, res)) db = Inr db' \<and>
    decision_key ` set (decisions db') = decision_key ` set (decisions db) \<and>
    repo_get_decision ''acme'' (df_decision_id d') db' = Some d' \<and>
    event_key ` set (audit_rows db') =
      insert (''acme'', df_decision_id d', ae_event_id e) (event_key ` set (audit_rows db)) \<and>
    used_keys db' = insert (''acme'', a, oper, k) (used_keys db)"
    unfolding used_keys_def
    by (rule repo_save_ok) (use assms in \<open>auto simp: demo_holds_def used_keys_def\<close>)
  with assms show ?thesis by (auto simp: demo_holds_def)
qed

lemma demo_create_answer:
  "\<exists>x s. api_create_decision demo_env gina (Some ''k1'') (Document demo_document) demo_start = (Inr x, s) \<and>
     demo_holds (api_db s) demo_doc1 [''case-1:created:1''] [''k1'']"
proof -
  let ?w = "(actor_id gina, ''decision:create'', ''k1'', payload_hash (sha256 demo_runtime) (decision_json demo_document),
      201, decision_json demo_doc1)"
  obtain db where db: "repo_create_decision (env_timestamp demo_env) ''acme'' demo_doc1
      [created_event demo_env gina demo_document] (Some ?w) empty_db = Inr db"
    and h: "demo_holds db demo_doc1 [''case-1:created:1''] [''k1'']"
    by (simp add: repo_create_decision_def empty_db_def row_insert_def insert_audit_def
        write_idempotency_def insert_idempotency_def demo_holds_def used_keys_def repo_get_decision_def
        demo_doc1_def created_document_def demo_document_def created_event_def)
  from demo_require(1) obtain log where r: "require (env_request demo_env) gina DECISION_CREATE [] = (Inr (), log)"
    by blast
  have "api_create_decision demo_env gina (Some ''k1'') (Document demo_document) demo_start =
      (Inr (201, decision_json demo_doc1), \<lparr>api_db = db, api_log = log\<rparr>)"
    unfolding demo_doc1_def
    by (rule api_create_ok) (use r db demo_doc in \<open>simp_all add: demo_start_def empty_db_def demo_people
        demo_document_def api_actor_def demo_actor_def demo_doc1_def\<close>)
  with h show ?thesis by auto
qed

lemma demo_create_step:
  "\<exists>s. demo_run demo_start s \<and> demo_holds (api_db s) demo_doc1 [''case-1:created:1''] [''k1'']"
proof -
  from demo_create_answer obtain x s where
    c: "api_create_decision demo_env gina (Some ''k1'') (Document demo_document) demo_start = (Inr x, s)"
    and h: "demo_holds (api_db s) demo_doc1 [''case-1:created:1''] [''k1'']" by blast
  have "api_step demo_runtime fresh_draft ''acme'' demo_start s"
    by (rule step_create [OF _ _ _ c]) (auto simp: demo_people fresh_draft_def demo_document_def)
  with h show ?thesis by (intro exI [of _ s]) auto
qed

lemma demo_evaluate_step:
  assumes "demo_run demo_start s" and "demo_holds (api_db s) d ids ks" and "''k2'' \<notin> set ks"
    and u: "evaluate_update demo_env vera d = Inr (d', [e], report)" and "ae_event_id e \<notin> set ids"
  shows "\<exists>s'. demo_run demo_start s' \<and> demo_holds (api_db s') d' (ae_event_id e # ids) (''k2'' # ks)"
proof -
  let ?w = "(actor_id vera, ''decision:evaluate:case-1'', ''k2'', payload_hash (sha256 demo_runtime) (JObj []),
      200, JObj report)"
  have "df_decision_id d' = ''case-1''"
    using evaluate_update_fields(1) [OF u] assms(2) by (simp add: demo_holds_def)
  with assms obtain db where
    db: "repo_save_result (env_timestamp demo_env) ''acme'' d' (Some report) [e] (Some ?w) (api_db s) = Inr db"
    and h: "demo_holds db d' (ae_event_id e # ids) (''k2'' # ks)"
    using demo_save by blast
  from demo_require(2) obtain log where
    r: "require (env_request demo_env) vera DECISION_EVALUATE (api_log s) = (Inr (), log)" by blast
  have "api_evaluate demo_env vera (Some ''k2'') ''case-1'' s = (Inr (200, JObj report), \<lparr>api_db = db, api_log = log\<rparr>)"
    by (rule api_evaluate_ok) (use r u db assms(2,3) in \<open>auto simp: demo_people demo_holds_def used_keys_def\<close>)
  then have "api_step demo_runtime fresh_draft ''acme'' s \<lparr>api_db = db, api_log = log\<rparr>"
    by (intro step_evaluate [of demo_env _ vera]) (simp_all add: demo_people)
  with assms(1) h show ?thesis
    by (intro exI [of _ "\<lparr>api_db = db, api_log = log\<rparr>"]) (auto intro: rtranclp.rtrancl_into_rtrancl)
qed

lemma demo_transition_answer:
  assumes "demo_holds (api_db s) d ids ks" and "k \<notin> set ks"
    and k: "1 \<le> length k" "length k \<le> 128" and "tenant i = ''acme''"
    and r: "\<exists>log'. require (env_request demo_env) i (transition_permission target d) (api_log s) = (Inr (), log')"
    and t: "target \<notin> {DRAFT, BLOCKED}"
    and u: "transition_update demo_env i target d = Inr (d', e)" and "ae_event_id e \<notin> set ids"
  shows "\<exists>s'. api_transition demo_env i (Some k) ''case-1'' target s = (Inr (200, decision_json d'), s') \<and>
    demo_holds (api_db s') d' (ae_event_id e # ids) (k # ks)"
proof -
  let ?w = "(actor_id i, transition_operation ''case-1'' target, k, payload_hash (sha256 demo_runtime)
      (JObj [(''target'', JStr (case_status_value target))]), 200, decision_json d')"
  have "df_decision_id d' = ''case-1''"
    using transition_update_fields(1) [OF u] assms(1) by (simp add: demo_holds_def)
  with assms obtain db where
    db: "repo_save_result (env_timestamp demo_env) ''acme'' d' None [e] (Some ?w) (api_db s) = Inr db"
    and h: "demo_holds db d' (ae_event_id e # ids) (k # ks)"
    using demo_save by blast
  from r obtain log where
    r: "require (env_request demo_env) i (transition_permission target d) (api_log s) = (Inr (), log)" by blast
  have "api_transition demo_env i (Some k) ''case-1'' target s =
      (Inr (200, decision_json d'), \<lparr>api_db = db, api_log = log\<rparr>)"
    by (rule api_transition_ok [OF r t k])
      (use u db assms(1,2,5) in \<open>auto simp: demo_holds_def used_keys_def\<close>)
  with h show ?thesis by auto
qed

lemma demo_transition_step:
  assumes "demo_run demo_start s" and "demo_holds (api_db s) d ids ks" and "k \<notin> set ks"
    and k: "1 \<le> length k" "length k \<le> 128" and "tenant i = ''acme''"
    and r: "\<exists>log'. require (env_request demo_env) i (transition_permission target d) (api_log s) = (Inr (), log')"
    and t: "target \<notin> {DRAFT, BLOCKED}"
    and u: "transition_update demo_env i target d = Inr (d', e)" and "ae_event_id e \<notin> set ids"
  shows "\<exists>s'. demo_run demo_start s' \<and> demo_holds (api_db s') d' (ae_event_id e # ids) (k # ks)"
proof -
  from demo_transition_answer [OF assms(2-10)] obtain s' where
    m: "api_transition demo_env i (Some k) ''case-1'' target s = (Inr (200, decision_json d'), s')"
    and h: "demo_holds (api_db s') d' (ae_event_id e # ids) (k # ks)" by blast
  have "api_step demo_runtime fresh_draft ''acme'' s s'"
    by (rule step_transition [OF _ assms(6) m]) simp
  with assms(1) h show ?thesis
    by (intro exI [of _ s']) (auto intro: rtranclp.rtrancl_into_rtrancl)
qed

lemma demo_permissions:
  "transition_permission VALIDATION d = DECISION_VALIDATE"
  "transition_permission IN_REVIEW d = DECISION_VALIDATE"
  "transition_permission APPROVED d = DECISION_APPROVE"
  by (simp_all add: transition_permission_def is_approval_action_def)

text \<open>The evaluated draft, ready for validation by whoever did not write it.\<close>

lemma demo_ready:
  obtains s d e codes t vs where "demo_run demo_start s"
    "demo_holds (api_db s) d [''case-1:evaluation:2'', ''case-1:created:1''] [''k2'', ''k1'']"
    "decision_file_schema demo_runtime d" "semantic_errors demo_runtime d = Inr []"
    "d = demo_doc1\<lparr>df_decision_outcome := Some PASS, df_outcome_reasons := codes,
       df_updated_at := t, df_validation_results := vs, df_audit_events := df_audit_events demo_doc1 @ [e]\<rparr>"
    "ae_to_status e = DRAFT"
proof -
  obtain d2 e2 report codes t vs where u2: "evaluate_update demo_env vera demo_doc1 = Inr (d2, [e2], report)"
    and s2: "decision_file_schema demo_runtime d2"
    and d2: "d2 = demo_doc1\<lparr>df_decision_outcome := Some PASS, df_outcome_reasons := codes,
       df_updated_at := t, df_validation_results := vs, df_audit_events := df_audit_events demo_doc1 @ [e2]\<rparr>"
    and e2: "ae_event_id e2 = ''case-1:evaluation:2''" "ae_to_status e2 = DRAFT"
    by (rule demo_doc2)
  have sem2: "semantic_errors demo_runtime d2 = Inr []" by (simp add: d2 demo_semantics)
  from demo_create_step obtain s1 where c: "demo_run demo_start s1"
    "demo_holds (api_db s1) demo_doc1 [''case-1:created:1''] [''k1'']" by blast
  obtain s2 where c2: "demo_run demo_start s2"
    "demo_holds (api_db s2) d2 [''case-1:evaluation:2'', ''case-1:created:1''] [''k2'', ''k1'']"
    using demo_evaluate_step [OF c _ u2] by (auto simp: e2)
  from c2 s2 sem2 d2 e2(2) show ?thesis by (rule that)
qed

lemma demo_doc1_fields:
  "length (df_audit_events demo_doc1) = 1" "df_decision_id demo_doc1 = ''case-1''"
  "df_status demo_doc1 = DRAFT"
  "filter (\<lambda>e. ae_to_status e = VALIDATION) (df_audit_events demo_doc1) = []"
  by (simp_all add: demo_doc1_def created_document_def demo_document_def created_event_def)

lemma demo_validation:
  assumes "d = demo_doc1\<lparr>df_decision_outcome := oc, df_outcome_reasons := codes,
       df_updated_at := t, df_validation_results := vs, df_audit_events := df_audit_events demo_doc1 @ [e]\<rparr>"
    and "decision_file_schema demo_runtime d" "semantic_errors demo_runtime d = Inr []"
    and "n \<noteq> ''gina''" "n \<noteq> []"
  obtains e' where
    "transition_update demo_env (demo_identity n VALIDATOR) VALIDATION d =
       Inr (demo_next d VALIDATION \<lparr>act_id = n, act_role = ''VALIDATOR'', act_kind = ''HUMAN''\<rparr> e', e')"
    "decision_file_schema demo_runtime (demo_next d VALIDATION
       \<lparr>act_id = n, act_role = ''VALIDATOR'', act_kind = ''HUMAN''\<rparr> e')"
    "ae_actor e' = \<lparr>act_id = n, act_role = ''VALIDATOR'', act_kind = ''HUMAN''\<rparr>"
    "ae_to_status e' = VALIDATION" "ae_event_id e' = ''case-1:transition:3''"
proof -
  let ?v = "\<lparr>act_id = n, act_role = ''VALIDATOR'', act_kind = ''HUMAN''\<rparr>"
  have rej: "rejection_reasons d (df_status d) VALIDATION ?v = []"
    using assms(4) by (simp add: rejection_reasons_def emit_if_def assms(1) demo_doc1_def
        created_document_def demo_document_def demo_actor_def)
  have act: "?v = api_actor (demo_identity n VALIDATOR) (transition_permission VALIDATION d)"
    by (simp add: api_actor_def demo_permissions)
  have "actor_schema ?v" "VALIDATION \<noteq> APPROVED" using assms(5) by (simp_all add: actor_schema_def)
  from demo_moves [OF assms(2,3) rej act this] obtain e' where "transition_update demo_env (demo_identity n VALIDATOR) VALIDATION d =
      Inr (demo_next d VALIDATION ?v e', e')" "decision_file_schema demo_runtime (demo_next d VALIDATION ?v e')"
    "ae_actor e' = ?v" "ae_to_status e' = VALIDATION"
    "ae_event_id e' = df_decision_id d @ '':transition:'' @ str_nat (length (df_audit_events d) + 1)"
    by blast
  with demo_numbers show ?thesis
    by (intro that [of e']) (simp_all add: assms(1) demo_doc1_fields eval_nat_numeral)
qed

lemma demo_vera:
  assumes "d = demo_doc1\<lparr>df_decision_outcome := oc, df_outcome_reasons := codes,
       df_updated_at := t, df_validation_results := vs, df_audit_events := df_audit_events demo_doc1 @ [e]\<rparr>"
    and "decision_file_schema demo_runtime d" "semantic_errors demo_runtime d = Inr []"
  obtains d' e' where "transition_update demo_env vera VALIDATION d = Inr (d', e')"
    "ae_event_id e' = ''case-1:transition:3''"
  unfolding vera_def
proof (rule demo_validation [OF assms, of "''vera''"])
qed (simp_all add: that [unfolded vera_def])

lemma demo_vito:
  assumes "d = demo_doc1\<lparr>df_decision_outcome := oc, df_outcome_reasons := codes,
       df_updated_at := t, df_validation_results := vs, df_audit_events := df_audit_events demo_doc1 @ [e]\<rparr>"
    and "decision_file_schema demo_runtime d" "semantic_errors demo_runtime d = Inr []"
  obtains d' e' where "transition_update demo_env (demo_identity ''vito'' VALIDATOR) VALIDATION d = Inr (d', e')"
proof (rule demo_validation [OF assms, of "''vito''"])
qed (simp_all add: that)

lemma demo_reaches_approved:
  "\<exists>s d. demo_run demo_start s \<and> repo_get_decision ''acme'' ''case-1'' (api_db s) = Some d \<and>
     df_status d = APPROVED \<and> df_approvals d \<noteq> []"
proof -
  let ?v = "\<lparr>act_id = ''vera'', act_role = ''VALIDATOR'', act_kind = ''HUMAN''\<rparr>"
  have v: "api_actor vera DECISION_VALIDATE = ?v"
    by (simp add: api_actor_def demo_people)
  obtain s2 d2 e2 codes t vs where c2: "demo_run demo_start s2"
      "demo_holds (api_db s2) d2 [''case-1:evaluation:2'', ''case-1:created:1''] [''k2'', ''k1'']"
    and sch2: "decision_file_schema demo_runtime d2" and sem2: "semantic_errors demo_runtime d2 = Inr []"
    and d2: "d2 = demo_doc1\<lparr>df_decision_outcome := Some PASS, df_outcome_reasons := codes,
       df_updated_at := t, df_validation_results := vs, df_audit_events := df_audit_events demo_doc1 @ [e2]\<rparr>"
    and e2: "ae_to_status e2 = DRAFT"
    by (rule demo_ready)
  obtain e3 where u3: "transition_update demo_env vera VALIDATION d2 = Inr (demo_next d2 VALIDATION ?v e3, e3)"
    and s3: "decision_file_schema demo_runtime (demo_next d2 VALIDATION ?v e3)"
    and e3: "ae_actor e3 = ?v" "ae_to_status e3 = VALIDATION" "ae_event_id e3 = ''case-1:transition:3''"
    using demo_validation [OF d2 sch2 sem2, of "''vera''"] by (auto simp: vera_def)
  let ?d3 = "demo_next d2 VALIDATION ?v e3"
  have sem3: "semantic_errors demo_runtime ?d3 = Inr []" by (simp add: demo_next_def d2 demo_semantics)
  have rej3: "rejection_reasons ?d3 (df_status ?d3) IN_REVIEW ?v = []"
    by (simp add: rejection_reasons_def emit_if_def v d2 demo_next_def)
  obtain e4 where u4: "transition_update demo_env vera IN_REVIEW ?d3 = Inr (demo_next ?d3 IN_REVIEW ?v e4, e4)"
    and s4: "decision_file_schema demo_runtime (demo_next ?d3 IN_REVIEW ?v e4)"
    and e4: "ae_actor e4 = ?v" "ae_to_status e4 = IN_REVIEW"
      "ae_event_id e4 = df_decision_id ?d3 @ '':transition:'' @ str_nat (length (df_audit_events ?d3) + 1)"
    using demo_moves [OF s3 sem3 rej3, of vera] by (auto simp: demo_permissions v actor_schema_def)
  let ?d4 = "demo_next ?d3 IN_REVIEW ?v e4"
  have ids: "ae_event_id e3 = ''case-1:transition:3''" "ae_event_id e4 = ''case-1:transition:4''"
    using demo_numbers by (simp_all add: e3 e4 demo_next_def d2 demo_doc1_fields eval_nat_numeral)
  have vid: "validator_ids ?d4 = [''vera'']"
    using demo_doc1_fields(4) by (auto simp: validator_ids_def demo_next_def d2 e2 e3 e4 v)
  obtain d5 e5 where u5: "transition_update demo_env anna APPROVED ?d4 = Inr (d5, e5)"
    and d5: "df_status d5 = APPROVED" "df_approvals d5 \<noteq> []"
    and e5: "ae_event_id e5 = df_decision_id ?d4 @ '':transition:'' @ str_nat (length (df_audit_events ?d4) + 1)"
    using demo_approves [OF s4 _ _ _ _ _ _ _ _ _ _ _ vid]
    by (auto simp: demo_next_def d2 demo_doc1_def created_document_def demo_document_def)
  have id5: "ae_event_id e5 = ''case-1:transition:5''"
    using demo_numbers by (simp add: e5 demo_next_def d2 demo_doc1_fields eval_nat_numeral)
  obtain s3 where c3: "demo_run demo_start s3" "demo_holds (api_db s3) ?d3
    [''case-1:transition:3'', ''case-1:evaluation:2'', ''case-1:created:1''] [''k3'', ''k2'', ''k1'']"
    using demo_transition_step [OF c2 _ _ _ _ _ _ u3, of "''k3''"] demo_require(3)
    by (auto simp: ids demo_permissions demo_people)
  obtain s4 where c4: "demo_run demo_start s4" "demo_holds (api_db s4) ?d4
    [''case-1:transition:4'', ''case-1:transition:3'', ''case-1:evaluation:2'', ''case-1:created:1'']
    [''k4'', ''k3'', ''k2'', ''k1'']"
    using demo_transition_step [OF c3 _ _ _ _ _ _ u4, of "''k4''"] demo_require(3)
    by (auto simp: ids demo_permissions demo_people)
  have "\<exists>s'. demo_run demo_start s' \<and> demo_holds (api_db s') d5 (ae_event_id e5 #
    [''case-1:transition:4'', ''case-1:transition:3'', ''case-1:evaluation:2'', ''case-1:created:1''])
    (''k5'' # [''k4'', ''k3'', ''k2'', ''k1''])"
  proof (rule demo_transition_step [OF c4 _ _ _ _ _ _ u5])
    show "''k5'' \<notin> set [''k4'', ''k3'', ''k2'', ''k1'']" by simp
    show "1 \<le> length ''k5''" "length ''k5'' \<le> 128" by simp_all
    show "tenant anna = ''acme''" by (simp add: anna_def)
    show "\<exists>log'. require (env_request demo_env) anna (transition_permission APPROVED ?d4) (api_log s4) = (Inr (), log')"
      unfolding demo_permissions by (rule demo_require(4))
    show "APPROVED \<notin> {DRAFT, BLOCKED}" by simp
    show "ae_event_id e5 \<notin> set [''case-1:transition:4'', ''case-1:transition:3'', ''case-1:evaluation:2'', ''case-1:created:1'']"
      unfolding id5 by simp
  qed
  then obtain s5 where s5: "demo_run demo_start s5" and "demo_holds (api_db s5) d5 (ae_event_id e5 #
    [''case-1:transition:4'', ''case-1:transition:3'', ''case-1:evaluation:2'', ''case-1:created:1''])
    (''k5'' # [''k4'', ''k3'', ''k2'', ''k1''])" by (elim exE conjE)
  then have "repo_get_decision ''acme'' ''case-1'' (api_db s5) = Some d5"
    by (simp only: demo_holds_def)
  with s5 d5 show ?thesis by (intro exI conjI)
qed

end
