(* ===== verification/ServiceReplay.thy ===== *)
theory ServiceReplay
  imports ServiceProgress
begin

text \<open>
  What stays true of the stored documents while the service runs, and when a guard answers.
  The first part carries facts about single documents through the tables: a stored case does
  not disappear, keeps its identifier, and keeps what every route keeps. The second part says
  when a permission guard of \<^verbatim>\<open>api/dependencies.py\<close> returns: it records its decision before it
  answers, and the event it records is refused when a value of the request cannot be logged.
\<close>

section \<open>Facts about every stored document\<close>

definition rows_all :: "(decision_file \<Rightarrow> bool) \<Rightarrow> decision_db \<Rightarrow> bool" where
  "rows_all Q db =
     (\<forall>r \<in> set (decisions db). dr_decision_id r = df_decision_id (dr_document r) \<and> Q (dr_document r))"

lemma rows_all_create:
  "repo_create_decision now t d es w db = Inr db' \<Longrightarrow> rows_all Q db \<Longrightarrow> Q d \<Longrightarrow> rows_all Q db'"
  by (auto simp: rows_all_def repo_create_effect(2))

lemma rows_all_save:
  "repo_save_result now t d report es w db = Inr db' \<Longrightarrow> rows_all Q db \<Longrightarrow> Q d \<Longrightarrow> rows_all Q db'"
  by (auto simp: rows_all_def repo_save_effect(1) row_update_def)

lemma rows_all_get:
  assumes "rows_all Q db" and "repo_get_decision t did db = Some d"
  shows "df_decision_id d = did" and "Q d"
  using assms by (auto simp: rows_all_def repo_get_decision_def dest!: row_find_SomeD)

text \<open>
  A fact that holds of what the create route accepts and that one route applied to one
  document keeps, holds of every stored document, whatever was submitted.
\<close>

lemma rows_all_step:
  assumes "api_step R P t s s'" and inv: "rows_all Q (api_db s)"
    and new: "\<And>env i d. env_runtime env = R \<Longrightarrow> P d \<Longrightarrow> semantic_errors R d = Inr [] \<Longrightarrow> Q (created_document env i d)"
    and kept: "\<And>d d'. case_step R d d' \<Longrightarrow> Q d \<Longrightarrow> Q d'"
  shows "rows_all Q (api_db s')"
  using assms(1)
proof (cases rule: api_step_cases)
  case unchanged
  with inv show ?thesis by simp
next
  case (created env i d now w)
  from rows_all_create [OF created(6) inv new [OF created(1,3,4)]] show ?thesis .
next
  case (evaluated env i did d d' es report now w)
  from kept [OF case_step.evaluated [OF evaluated(1,4)] rows_all_get(2) [OF inv evaluated(3)]]
  show ?thesis by (rule rows_all_save [OF evaluated(5) inv])
next
  case (moved env i did target d d' e now w)
  from kept [OF case_step.transitioned [OF moved(1,4)] rows_all_get(2) [OF inv moved(3)]]
  show ?thesis by (rule rows_all_save [OF moved(5) inv])
qed

lemma rows_all_steps:
  assumes "(\<lambda>a b. \<exists>t. api_step R P t a b)\<^sup>*\<^sup>* s s'" and "rows_all Q (api_db s)"
    and "\<And>env i d. env_runtime env = R \<Longrightarrow> P d \<Longrightarrow> semantic_errors R d = Inr [] \<Longrightarrow> Q (created_document env i d)"
    and "\<And>d d'. case_step R d d' \<Longrightarrow> Q d \<Longrightarrow> Q d'"
  shows "rows_all Q (api_db s')"
  using assms(1,2)
proof (induction rule: rtranclp_induct)
  case (step a b)
  then obtain t where "api_step R P t a b" and "rows_all Q (api_db a)" by blast
  then show ?case by (rule rows_all_step) (use assms(3,4) in blast)+
qed

section \<open>One stored document\<close>

text \<open>\<open>stored_as t did Q\<close>: the case is there and its document satisfies \<open>Q\<close>.\<close>

definition stored_as :: "string \<Rightarrow> string \<Rightarrow> (decision_file \<Rightarrow> bool) \<Rightarrow> decision_db \<Rightarrow> bool" where
  "stored_as t did Q db = (\<exists>d. repo_get_decision t did db = Some d \<and> Q d)"

lemma get_iff_key:
  "(\<exists>d. repo_get_decision t did db = Some d) \<longleftrightarrow> (t, did) \<in> decision_key ` set (decisions db)"
  using row_find_None_iff [of decision_key "(t, did)" "decisions db"]
  by (auto simp: repo_get_decision_def)

lemma create_get:
  assumes "repo_create_decision now t d es w db = Inr db'" and "repo_get_decision t' did db = Some x"
  shows "repo_get_decision t' did db' = Some x"
  using assms(2) by (auto simp: repo_get_decision_def repo_create_effect(2) [OF assms(1)])

lemma save_get_other:
  assumes "repo_save_result now t d report es w db = Inr db'" and "(t', did) \<noteq> (t, df_decision_id d)"
  shows "repo_get_decision t' did db' = repo_get_decision t' did db"
  using assms(2) unfolding repo_get_decision_def repo_save_effect(1) [OF assms(1)]
  by (subst row_update_find) auto

lemma stored_as_step:
  assumes "api_step R P t s s'" and inv: "rows_all (\<lambda>d. True) (api_db s)"
    and st: "stored_as t' did Q (api_db s)" and kept: "\<And>d d'. case_step R d d' \<Longrightarrow> Q d \<Longrightarrow> Q d'"
  shows "stored_as t' did Q (api_db s')"
proof -
  from st obtain x where x: "repo_get_decision t' did (api_db s) = Some x" "Q x"
    by (auto simp: stored_as_def)
  have saved: "stored_as t' did Q (api_db s')"
    if save: "repo_save_result now t d' report es w (api_db s) = Inr (api_db s')"
      and get: "repo_get_decision t j (api_db s) = Some d" and step: "case_step R d d'"
      and id: "df_decision_id d' = df_decision_id d" for now d d' report es w j
  proof (cases "(t', did) = (t, df_decision_id d')")
    case True
    with id rows_all_get(1) [OF inv get] get x have "Q d" by simp
    with save_get [OF save] kept [OF step] True show ?thesis by (auto simp: stored_as_def)
  next
    case False
    with save_get_other [OF save False] x show ?thesis by (auto simp: stored_as_def)
  qed
  from assms(1) show ?thesis
  proof (cases rule: api_step_cases)
    case unchanged
    with st show ?thesis by simp
  next
    case created
    with create_get [OF _ x(1)] x(2) show ?thesis by (auto simp: stored_as_def)
  next
    case (evaluated env i j d d' es report now w)
    show ?thesis
      by (rule saved [OF evaluated(5,3) case_step.evaluated [OF evaluated(1,4)]
            evaluate_update_fields(1) [OF evaluated(4)]])
  next
    case (moved env i j target d d' e now w)
    show ?thesis
      by (rule saved [OF moved(5,3) case_step.transitioned [OF moved(1,4)]
            transition_update_fields(1) [OF moved(4)]])
  qed
qed

lemma stored_as_steps:
  assumes "(\<lambda>a b. \<exists>t. api_step R P t a b)\<^sup>*\<^sup>* s s'" and "rows_all (\<lambda>d. True) (api_db s)"
    and "stored_as t' did Q (api_db s)" and "\<And>d d'. case_step R d d' \<Longrightarrow> Q d \<Longrightarrow> Q d'"
  shows "stored_as t' did Q (api_db s')"
proof -
  from assms(1-3) have "stored_as t' did Q (api_db s') \<and> rows_all (\<lambda>d. True) (api_db s')"
    by (induction rule: rtranclp_induct)
      (auto intro: rows_all_step stored_as_step [OF _ _ _ assms(4)])
  then show ?thesis by blast
qed

text \<open>A case does not disappear, whatever is stored.\<close>

lemma step_keeps_key:
  assumes "api_step R P t s s'" and "k \<in> decision_key ` set (decisions (api_db s))"
  shows "k \<in> decision_key ` set (decisions (api_db s'))"
proof -
  have saved: "k \<in> decision_key ` set (decisions (api_db s'))"
    if "repo_save_result now t d report es w (api_db s) = Inr (api_db s')" for now d report es w
    unfolding repo_save_effect(1) [OF that]
    by (subst row_update_key_set) (simp_all add: assms(2))
  from assms(1) show ?thesis
    by (cases rule: api_step_cases) (use assms(2) saved in \<open>auto simp: repo_create_effect(2)\<close>)
qed

lemma steps_keep_key:
  assumes "(\<lambda>a b. \<exists>t. api_step R P t a b)\<^sup>*\<^sup>* s s'" and "k \<in> decision_key ` set (decisions (api_db s))"
  shows "k \<in> decision_key ` set (decisions (api_db s'))"
  using assms by (induction rule: rtranclp_induct) (auto intro: step_keeps_key)

text \<open>A transition that was answered was about a stored case.\<close>

lemma transition_key:
  assumes "api_transition env i k did target s = (Inr x, s')"
  shows "(tenant i, did) \<in> decision_key ` set (decisions (api_db s'))"
proof -
  from assms obtain s1 d where g: "transition_guard env i target s = (Inr (), s1)"
    and d: "repo_get_decision (tenant i) did (api_db s1) = Some d"
    by (auto simp: api_transition_def monad_simps Let_def split: option.splits)
  then have key: "(tenant i, did) \<in> decision_key ` set (decisions (api_db s))"
    using transition_guard_db [OF g] by (simp only: get_iff_key [symmetric]) auto
  from assms show ?thesis
  proof (cases rule: api_transition_Inr)
    case replayed
    with key show ?thesis by simp
  next
    case moved
    show ?thesis
      unfolding repo_save_effect(1) [OF moved(8)] by (subst row_update_key_set) (simp_all add: key)
  qed
qed

section \<open>When a guard answers\<close>

text \<open>\<^verbatim>\<open>security_events.py\<close> stores a value only if it is neither blank, nor too long, nor a secret.\<close>

definition loggable :: "string \<Rightarrow> bool" where
  "loggable v = (\<not> blank v \<and> length v \<le> 256 \<and> \<not> sensitive v)"

definition loggable_identity :: "identity \<Rightarrow> bool" where
  "loggable_identity i =
     (loggable (actor_id i) \<and> loggable (tenant i) \<and> (case client_id i of None \<Rightarrow> True | Some c \<Rightarrow> loggable c))"

lemma security_event_validate_Inr_iff:
  "security_event_validate e = Inr u \<longleftrightarrow> se_decision e \<in> {''ALLOWED'', ''DENIED''} \<and>
     se_reason_code e \<in> set AUTH_REASON_CODES \<and> (\<forall>v \<in> set (event_values e). loggable v)"
  by (auto simp: security_event_validate_def monad_simps list_ex_iff loggable_def)

lemma permission_loggable: "loggable (permission_value p)"
  by (cases p; simp only: permission_value.simps; code_simp)

lemma logged_identity:
  "require rq i p log = (Inr u, log') \<Longrightarrow> loggable_identity i"
  "require_one_of rq i ps log = (Inr q, log') \<Longrightarrow> loggable_identity i"
  by (auto simp: require_def require_one_of_def monad_simps record_authorization_def
      record_event_Inr_iff security_event_validate_Inr_iff event_values_def loggable_identity_def
      split: sum.splits option.splits)

lemma record_authorization_ok:
  assumes "loggable_identity i" and "loggable (rq_correlation_id rq)" and "\<And>n. loggable (rq_uuid rq n)"
    and "loggable ty" and "dec \<in> {''ALLOWED'', ''DENIED''}" and "reason \<in> set AUTH_REASON_CODES"
    and "loggable p"
  shows "\<exists>log'. record_authorization rq i ty dec reason p log = (Inr (), log')"
proof -
  define e where "e = \<lparr>se_event_id = rq_uuid rq (length log), se_event_type = ty,
            se_schema_version = ''1.0.0'', se_occurred_at = rq_now rq (length log),
            se_decision = dec, se_actor_ref = actor_id i, se_tenant_id = Some (tenant i),
            se_client_id = client_id i, se_correlation_id = rq_correlation_id rq,
            se_reason_code = reason, se_permission = Some p\<rparr>"
  have "security_event_validate e = Inr ()"
    unfolding security_event_validate_Inr_iff
    using assms by (auto simp: e_def event_values_def loggable_identity_def split: option.splits)
  then show ?thesis
    by (simp add: record_authorization_def record_event_def Let_def e_def)
qed

lemma authorization_loggable:
  "loggable ''authorization.allowed''" "loggable ''authorization.denied''"
  "''AUTH_ALLOWED'' \<in> set AUTH_REASON_CODES" "''AUTH_ROLE_REQUIRED'' \<in> set AUTH_REASON_CODES"
  by (code_simp, code_simp, simp_all add: AUTH_REASON_CODES_def)

lemma require_answers:
  assumes "loggable_identity i" and "loggable (rq_correlation_id rq)" and "\<And>n. loggable (rq_uuid rq n)"
  shows "\<exists>log'. require rq i p log =
    (if \<exists>r \<in> set (roles i). role_permits r p then Inr () else Inl role_required, log')"
proof -
  note rec = record_authorization_ok [OF assms]
  have a: "authorize i p = (if \<exists>r \<in> set (roles i). role_permits r p then Inr ()
      else Inl (AuthorizationDenied ''FORBIDDEN''))"
    by (simp add: authorize_def ensure_def list_ex_iff)
  obtain log1 where "record_authorization rq i ''authorization.allowed'' ''ALLOWED'' ''AUTH_ALLOWED''
      (permission_value p) log = (Inr (), log1)"
    using rec [of "''authorization.allowed''" "''ALLOWED''" "''AUTH_ALLOWED''" "permission_value p" log]
    by (auto simp: authorization_loggable permission_loggable)
  moreover obtain log2 where "record_authorization rq i ''authorization.denied'' ''DENIED''
      ''AUTH_ROLE_REQUIRED'' (permission_value p) log = (Inr (), log2)"
    using rec [of "''authorization.denied''" "''DENIED''" "''AUTH_ROLE_REQUIRED''" "permission_value p" log]
    by (auto simp: authorization_loggable permission_loggable)
  ultimately show ?thesis
    by (simp add: require_def a bind_action_def raise_action_def)
qed

lemma require_one_of_answers:
  assumes "loggable_identity i" and "loggable (rq_correlation_id rq)" and "\<And>n. loggable (rq_uuid rq n)"
    and "p \<in> set ps" "\<exists>r \<in> set (roles i). role_permits r p"
  shows "\<exists>q log'. require_one_of rq i ps log = (Inr q, log')"
proof -
  from assms(4,5) obtain q where q: "List.find (\<lambda>p. authorize i p = Inr ()) ps = Some q"
    by (cases "List.find (\<lambda>p. authorize i p = Inr ()) ps") (auto simp: find_None_iff authorize_Inr_iff)
  obtain log' where "record_authorization rq i ''authorization.allowed'' ''ALLOWED'' ''AUTH_ALLOWED''
      (permission_value q) log = (Inr (), log')"
    using record_authorization_ok [OF assms(1-3), of "''authorization.allowed''" "''ALLOWED''" "''AUTH_ALLOWED''"
      "permission_value q" log]
    by (auto simp: authorization_loggable permission_loggable)
  then show ?thesis by (simp add: require_one_of_def q bind_action_def pure_action_def)
qed


section \<open>A request that was answered before\<close>

text \<open>
  What an answered request says of the caller and of the request itself: none of it depends on
  the state, so it holds for a repeat as well.
\<close>

definition may_ask :: "identity \<Rightarrow> case_status \<Rightarrow> bool" where
  "may_ask i target =
     (\<exists>p \<in> (if target = APPROVED then {DECISION_APPROVE}
             else if target = BLOCKED then {DECISION_VALIDATE, DECISION_APPROVE} else {DECISION_VALIDATE}).
        \<exists>r \<in> set (roles i). role_permits r p)"

lemma on_log_Inr: "on_log m s = (Inr x, s') \<Longrightarrow> \<exists>log'. m (api_log s) = (Inr x, log')"
  by (auto simp: on_log_def split: prod.splits)

lemma create_admitted:
  assumes "api_create_decision env i (Some key) b s = (Inr x, s')"
  shows "loggable_identity i" and "\<exists>r \<in> set (roles i). role_permits r DECISION_CREATE"
    and "1 \<le> length key" "length key \<le> 128" and "b \<noteq> Not_JSON"
  using assms
  by (auto simp: api_create_decision_def monad_simps dest!: on_log_Inr dest: require_Inr(1) logged_identity)

lemma evaluate_admitted:
  assumes "api_evaluate env i (Some key) did s = (Inr x, s')"
  shows "loggable_identity i" and "\<exists>r \<in> set (roles i). role_permits r DECISION_EVALUATE"
    and "1 \<le> length key" "length key \<le> 128"
  using assms
  by (auto simp: api_evaluate_def monad_simps dest!: on_log_Inr dest: require_Inr(1) logged_identity)

lemma transition_guard_Inr:
  assumes "transition_guard env i target s = (Inr u, s')"
  shows "loggable_identity i" and "may_ask i target"
proof -
  show "loggable_identity i"
    using assms by (auto simp: transition_guard_def monad_simps split: if_splits dest!: on_log_Inr
        dest: logged_identity)
  show "may_ask i target"
    using assms by (auto simp: transition_guard_def monad_simps may_ask_def split: if_splits dest!: on_log_Inr
        dest: require_Inr(1) dest!: require_one_of_Inr)
qed

lemma transition_admitted:
  assumes "api_transition env i (Some key) did target s = (Inr x, s')"
  shows "loggable_identity i" and "may_ask i target" and "1 \<le> length key" "length key \<le> 128"
    and "target \<noteq> DRAFT"
  using assms
  by (auto simp: api_transition_def monad_simps dest: transition_guard_Inr)

lemma transition_guard_answers:
  assumes "loggable_identity i" and "loggable (rq_correlation_id (env_request env))"
    and "\<And>n. loggable (rq_uuid (env_request env) n)" and "may_ask i target"
  shows "\<exists>log'. transition_guard env i target s = (Inr (), s\<lparr>api_log := log'\<rparr>)"
proof -
  note req = require_answers [OF assms(1-3)] and one = require_one_of_answers [OF assms(1-3)]
  consider "target = APPROVED" | "target = BLOCKED" | "target \<notin> {APPROVED, BLOCKED}" by blast
  then show ?thesis
  proof cases
    case 1
    with assms(4) req [of DECISION_APPROVE "api_log s"] show ?thesis
      by (auto simp: transition_guard_def may_ask_def on_log_ok)
  next
    case 2
    with assms(4) obtain p where "p \<in> set [DECISION_VALIDATE, DECISION_APPROVE]"
      "\<exists>r \<in> set (roles i). role_permits r p"
      by (auto simp: may_ask_def)
    from one [OF this, of "api_log s"] obtain q log' where
      "require_one_of (env_request env) i [DECISION_VALIDATE, DECISION_APPROVE] (api_log s) = (Inr q, log')"
      by blast
    with 2 show ?thesis
      by (auto simp: transition_guard_def on_log_ok bind_action_def pure_action_def)
  next
    case 3
    with assms(4) req [of DECISION_VALIDATE "api_log s"] show ?thesis
      by (auto simp: transition_guard_def may_ask_def on_log_ok)
  qed
qed

lemma operation_replay:
  assumes "repo_get_idempotency (tenant i) (actor_id i) oper key
      (payload_hash (sha256 (env_runtime env)) payload) (api_db s) = Inr (Some x)"
  shows "api_operation env i key oper payload s =
    (Inr (payload_hash (sha256 (env_runtime env)) payload, Some x), s)"
  using assms by (simp add: api_operation_def Let_def bind_action_def)

lemma create_again:
  assumes "loggable_identity i" and "loggable (rq_correlation_id (env_request env))"
    and "\<And>n. loggable (rq_uuid (env_request env) n)" and "\<exists>r \<in> set (roles i). role_permits r DECISION_CREATE"
    and "1 \<le> length key" "length key \<le> 128" and "b \<noteq> Not_JSON"
    and "repo_get_idempotency (tenant i) (actor_id i) ''decision:create'' key
      (payload_hash (sha256 (env_runtime env)) (body_json b)) (api_db s) = Inr (Some x)"
  shows "\<exists>log'. api_create_decision env i (Some key) b s = (Inr x, s\<lparr>api_log := log'\<rparr>)"
proof -
  from require_answers [OF assms(1-3), of DECISION_CREATE "api_log s"] assms(4) obtain log' where
    "require (env_request env) i DECISION_CREATE (api_log s) = (Inr (), log')" by auto
  with assms(5-8) show ?thesis
    by (intro exI [of _ log'])
      (simp add: api_create_decision_def bind_action_def on_log_ok require_idempotency_key_def
        operation_replay)
qed

lemma evaluate_again:
  assumes "loggable_identity i" and "loggable (rq_correlation_id (env_request env))"
    and "\<And>n. loggable (rq_uuid (env_request env) n)" and "\<exists>r \<in> set (roles i). role_permits r DECISION_EVALUATE"
    and "1 \<le> length key" "length key \<le> 128"
    and "repo_get_idempotency (tenant i) (actor_id i) (''decision:evaluate:'' @ did) key
      (payload_hash (sha256 (env_runtime env)) (JObj [])) (api_db s) = Inr (Some x)"
  shows "\<exists>log'. api_evaluate env i (Some key) did s = (Inr x, s\<lparr>api_log := log'\<rparr>)"
proof -
  from require_answers [OF assms(1-3), of DECISION_EVALUATE "api_log s"] assms(4) obtain log' where
    "require (env_request env) i DECISION_EVALUATE (api_log s) = (Inr (), log')" by auto
  with assms(5-7) show ?thesis
    by (intro exI [of _ log'])
      (simp add: api_evaluate_def bind_action_def on_log_ok require_idempotency_key_def
        operation_replay)
qed

text \<open>
  The repeat of a transition passes one more guard: a request to block asks for the permission
  that blocking the case would need now.
\<close>

definition block_refused :: "identity \<Rightarrow> case_status \<Rightarrow> decision_file \<Rightarrow> bool" where
  "block_refused i target d =
     (target = BLOCKED \<and> \<not> (\<exists>r \<in> set (roles i). role_permits r (transition_permission target d)))"

lemma blocked_guard_answers:
  assumes "loggable_identity i" and "loggable (rq_correlation_id (env_request env))"
    and "\<And>n. loggable (rq_uuid (env_request env) n)"
  shows "\<exists>log'. blocked_guard env i target d s =
    (if block_refused i target d then Inl role_required else Inr (), s\<lparr>api_log := log'\<rparr>)"
proof (cases "target = BLOCKED")
  case True
  from require_answers [OF assms, of "transition_permission target d" "api_log s"] obtain log' where
    "require (env_request env) i (transition_permission target d) (api_log s) =
      (if \<exists>r \<in> set (roles i). role_permits r (transition_permission target d) then Inr ()
       else Inl role_required, log')" by blast
  with True show ?thesis
    by (intro exI [of _ log']) (simp add: blocked_guard_def block_refused_def on_log_def)
next
  case False
  then show ?thesis
    by (intro exI [of _ "api_log s"]) (simp add: blocked_guard_def block_refused_def pure_action_def)
qed

lemma transition_again:
  assumes "loggable_identity i" and "loggable (rq_correlation_id (env_request env))"
    and "\<And>n. loggable (rq_uuid (env_request env) n)" and "may_ask i target"
    and "1 \<le> length key" "length key \<le> 128" and "target \<noteq> DRAFT"
    and d: "repo_get_decision (tenant i) did (api_db s) = Some d"
    and stored: "repo_get_idempotency (tenant i) (actor_id i) (transition_operation did target) key
      (payload_hash (sha256 (env_runtime env)) (JObj [(''target'', JStr (case_status_value target))]))
      (api_db s) = Inr (Some x)"
  shows "\<exists>log'. api_transition env i (Some key) did target s =
    (if block_refused i target d then Inl role_required else Inr x, s\<lparr>api_log := log'\<rparr>)"
proof -
  from transition_guard_answers [OF assms(1-4)] obtain log1 where
    g: "transition_guard env i target s = (Inr (), s\<lparr>api_log := log1\<rparr>)" by blast
  from blocked_guard_answers [OF assms(1-3), of target d "s\<lparr>api_log := log1\<rparr>"] obtain log2 where
    b: "blocked_guard env i target d (s\<lparr>api_log := log1\<rparr>) =
      (if block_refused i target d then Inl role_required else Inr (), s\<lparr>api_log := log2\<rparr>)" by auto
  have o: "api_operation env i key (transition_operation did target)
      (JObj [(''target'', JStr (case_status_value target))]) (s\<lparr>api_log := log2\<rparr>) =
      (Inr (payload_hash (sha256 (env_runtime env)) (JObj [(''target'', JStr (case_status_value target))]), Some x),
       s\<lparr>api_log := log2\<rparr>)"
    by (rule operation_replay) (use stored in simp)
  show ?thesis
    using assms(5-7) d g b o
    by (intro exI [of _ log2])
      (cases "block_refused i target d"; simp add: api_transition_def bind_action_def require_idempotency_key_def Let_def)
qed

end
