(* ===== verification/DecisionProperties.thy ===== *)
theory DecisionProperties
  imports DemoCase ServiceReplay
begin

text \<open>
  The properties of the decision core: digests, engine, documents, transitions, routes and
  store, each with its application to a concrete case where it has hypotheses.
\<close>

abbreviation served_from :: "api_state \<Rightarrow> runtime \<Rightarrow> (decision_file \<Rightarrow> bool) \<Rightarrow> api_state \<Rightarrow> bool" where
  "served_from s0 R P s \<equiv> (\<lambda>a b. \<exists>t. api_step R P t a b)\<^sup>*\<^sup>* s0 s"

lemma served_store_inv:
  assumes "served_from demo_start R fresh_draft s"
  shows "store_inv R (api_db s)"
  using assms
proof (induction rule: rtranclp_induct)
  case base
  show ?case by (simp add: demo_start_def empty_db_def store_inv_def)
next
  case (step a b)
  then show ?case by (blast intro: api_step_store_inv)
qed

text \<open>
  C1. The four-eyes rule. Starting from an empty service and whatever requests it serves, if
  every submitted document is a fresh draft, then a stored decision with status APPROVED has
  the outcome PASS, that is the outcome its own content demands, and its trail shows three
  different people: its creator, a validator who moved it out of DRAFT, and a human approver
  who moved it out of REVIEW and signed every mandatory requirement.
\<close>

theorem approved_needs_three_people:
  assumes "served_from demo_start R fresh_draft s"
    and "repo_get_decision t did (api_db s) = Some d" and "df_status d = APPROVED"
  shows "df_decision_outcome d = Some PASS \<and> document_outcome d = PASS \<and>
    (\<exists>v a. validated_by d v \<and> approved_by d a \<and> act_kind a = ''HUMAN'' \<and>
       act_role v = ''VALIDATOR'' \<and> act_role a = ''APPROVER'' \<and>
       distinct [act_id (df_created_by d), act_id v, act_id a] \<and>
       (\<forall>r \<in> set (df_review_requirements d). rr_mandatory r \<longrightarrow>
          rr_satisfied r \<and> matching_approvals d a r \<noteq> []))"
proof -
  from served_store_inv [OF assms(1)] assms(2) have inv: "case_inv R d" by (rule stored_row)
  then have sep: "duties_separated d" by (simp add: case_inv_def)
  with assms(3) obtain v where v: "validated_by d v" "act_role v = ''VALIDATOR''"
    "act_id v \<noteq> act_id (df_created_by d)"
    by (auto simp: duties_separated_def)
  from sep assms(3) obtain a where "df_decision_outcome d = Some PASS" and a: "approved_by d a"
    "act_kind a = ''HUMAN''" "act_role a = ''APPROVER''" "act_id a \<noteq> act_id (df_created_by d)"
    "\<forall>v. validated_by d v \<longrightarrow> act_id a \<noteq> act_id v"
    "\<forall>r \<in> set (df_review_requirements d). rr_mandatory r \<longrightarrow> rr_satisfied r \<and> matching_approvals d a r \<noteq> []"
    by (auto simp: duties_separated_def)
  moreover from this inv have "document_outcome d = PASS" by (auto simp: case_inv_def)
  ultimately show ?thesis using v by (intro conjI exI [of _ v] exI [of _ a]) auto
qed

theorem approved_needs_three_people_witness:
  "\<exists>s d. served_from demo_start demo_runtime fresh_draft s \<and>
     repo_get_decision ''acme'' ''case-1'' (api_db s) = Some d \<and> df_status d = APPROVED \<and>
     document_outcome d = PASS \<and> (\<exists>v a. validated_by d v \<and> approved_by d a \<and> act_id v \<noteq> act_id a)"
proof -
  obtain s d where s: "served_from demo_start demo_runtime fresh_draft s"
    "repo_get_decision ''acme'' ''case-1'' (api_db s) = Some d" "df_status d = APPROVED"
    using demo_reaches_approved by blast
  from approved_needs_three_people [OF this] s show ?thesis by auto
qed

text \<open>
  C3. The audit trail of every stored decision is complete and tells its status. Whatever
  fresh drafts and requests the service has served, the audit table holds exactly the events
  the document carries, in order; they form a hash chain; they start with the creation; each
  starts at the status where the one before ended and moves only along an allowed transition
  by an actor of the required role; and the last one ends at the document's status.
\<close>

theorem stored_trail_complete:
  assumes "served_from demo_start R fresh_draft s"
    and "repo_get_decision t did (api_db s) = Some d"
  shows "stored_trail (api_db s) t did = df_audit_events d \<and>
    linked (event_hash R) ae_previous_event_hash (df_audit_events d) \<and>
    status_chain None (df_audit_events d) \<and>
    end_status None (df_audit_events d) = Some (df_status d)"
  using served_store_inv [OF assms(1)] assms(2)
  by (rule stored_row) (simp add: case_inv_def)

theorem stored_trail_complete_witness:
  "\<exists>(s :: api_state) (d :: decision_file). df_status d = APPROVED \<and> stored_trail (api_db s) ''acme'' ''case-1'' = df_audit_events d \<and>
     end_status None (df_audit_events d) = Some APPROVED"
proof -
  obtain s d where s: "served_from demo_start demo_runtime fresh_draft s"
    "repo_get_decision ''acme'' ''case-1'' (api_db s) = Some d" "df_status d = APPROVED"
    using demo_reaches_approved by blast
  from stored_trail_complete [OF s(1,2)] s(3)
  have "df_status d = APPROVED \<and> stored_trail (api_db s) ''acme'' ''case-1'' = df_audit_events d \<and>
      end_status None (df_audit_events d) = Some APPROVED" by (simp only:)
  then show ?thesis by blast
qed

text \<open>
  C5. Tenant isolation. Requests of other tenants, whoever sends them and whatever they
  contain, change nothing of what a tenant reads: its documents, reports, decision list,
  audit pages and idempotency answers.
\<close>

theorem tenants_isolated:
  assumes "(\<lambda>a b. \<exists>t. t \<noteq> me \<and> api_step R P t a b)\<^sup>*\<^sup>* s s'"
  shows "repo_get_decision me did (api_db s') = repo_get_decision me did (api_db s) \<and>
    repo_get_report me did (api_db s') = repo_get_report me did (api_db s) \<and>
    repo_list_decisions me limit offset (api_db s') = repo_list_decisions me limit offset (api_db s) \<and>
    repo_list_audit me did limit offset (api_db s') = repo_list_audit me did limit offset (api_db s) \<and>
    repo_get_idempotency me a oper k h (api_db s') = repo_get_idempotency me a oper k h (api_db s)"
  using reads_of_view [OF service.steps_isolated [OF assms]] by simp

theorem tenants_isolated_witness:
  "repo_get_decision ''rival'' ''case-1'' (api_db (snd (api_create_decision demo_env gina (Some ''k1'')
     (Document demo_document) demo_start))) = repo_get_decision ''rival'' ''case-1'' (api_db demo_start)"
proof -
  let ?m = "api_create_decision demo_env gina (Some ''k1'') (Document demo_document) demo_start"
  have "api_step demo_runtime (\<lambda>d. True) ''acme'' demo_start (snd ?m)"
    by (rule step_create [of demo_env _ gina _ "Document demo_document" _ "Some ''k1''" demo_start "fst ?m"])
      (simp_all add: gina_def)
  then have "(\<lambda>a b. \<exists>t. t \<noteq> ''rival'' \<and> api_step demo_runtime (\<lambda>d. True) t a b)\<^sup>*\<^sup>* demo_start (snd ?m)"
    by (intro r_into_rtranclp exI [of _ "''acme''"]) simp
  from tenants_isolated [OF this] show ?thesis by blast
qed

text \<open>The three routes that act, as one function of the request.\<close>

datatype api_request = Create body | Evaluate string | Transition string case_status

fun serve :: "environment \<Rightarrow> identity \<Rightarrow> string \<Rightarrow> api_request \<Rightarrow> (api_state, int \<times> json) action" where
  "serve env i key (Create b) = api_create_decision env i (Some key) b"
| "serve env i key (Evaluate did) = api_evaluate env i (Some key) did"
| "serve env i key (Transition did target) = api_transition env i (Some key) did target"

fun request_operation :: "api_request \<Rightarrow> string" where
  "request_operation (Create b) = ''decision:create''"
| "request_operation (Evaluate did) = ''decision:evaluate:'' @ did"
| "request_operation (Transition did target) = transition_operation did target"

fun request_payload :: "api_request \<Rightarrow> json" where
  "request_payload (Create b) = body_json b"
| "request_payload (Evaluate did) = JObj []"
| "request_payload (Transition did target) = JObj [(''target'', JStr (case_status_value target))]"

lemma serve_Inr:
  assumes "serve env i key rq s = (Inr x, s')"
  defines "digest \<equiv> payload_hash (sha256 (env_runtime env)) (request_payload rq)"
  shows "repo_get_idempotency (tenant i) (actor_id i) (request_operation rq) key digest (api_db s') = Inr (Some x)"
    and "repo_get_idempotency (tenant i) (actor_id i) (request_operation rq) key digest (api_db s) = Inr (Some x)
           \<and> api_db s' = api_db s \<or>
         repo_get_idempotency (tenant i) (actor_id i) (request_operation rq) key digest (api_db s) = Inr None"
proof -
  have "repo_get_idempotency (tenant i) (actor_id i) (request_operation rq) key digest (api_db s') = Inr (Some x) \<and>
    (repo_get_idempotency (tenant i) (actor_id i) (request_operation rq) key digest (api_db s) = Inr (Some x)
           \<and> api_db s' = api_db s \<or>
     repo_get_idempotency (tenant i) (actor_id i) (request_operation rq) key digest (api_db s) = Inr None)"
  proof (cases rq)
    case (Create b)
    with assms(1) have "api_create_decision env i (Some key) b s = (Inr x, s')" by simp
    then show ?thesis
      by (cases rule: api_create_Inr) (auto simp: Create digest_def dest: repo_answered(1))
  next
    case (Evaluate did)
    with assms(1) have "api_evaluate env i (Some key) did s = (Inr x, s')" by simp
    then show ?thesis
      by (cases rule: api_evaluate_Inr) (auto simp: Evaluate digest_def dest: repo_answered(2))
  next
    case (Transition did target)
    with assms(1) have "api_transition env i (Some key) did target s = (Inr x, s')" by simp
    then show ?thesis
      by (cases rule: api_transition_Inr) (auto simp: Transition digest_def dest: repo_answered(2))
  qed
  then show "repo_get_idempotency (tenant i) (actor_id i) (request_operation rq) key digest (api_db s') = Inr (Some x)"
    and "repo_get_idempotency (tenant i) (actor_id i) (request_operation rq) key digest (api_db s) = Inr (Some x)
           \<and> api_db s' = api_db s \<or>
         repo_get_idempotency (tenant i) (actor_id i) (request_operation rq) key digest (api_db s) = Inr None"
    by blast+
qed

text \<open>
  Whether a repeat is refused although the request was answered before: only a request to
  block a case can be, when the caller does not hold the permission that blocking the case as
  it is stored now would need.
\<close>

fun refused_now :: "identity \<Rightarrow> api_request \<Rightarrow> decision_db \<Rightarrow> bool" where
  "refused_now i (Transition did target) db =
     (case repo_get_decision (tenant i) did db of None \<Rightarrow> False | Some d \<Rightarrow> block_refused i target d)"
| "refused_now i _ db = False"

lemma serve_again:
  assumes first: "serve env i key rq s0 = (Inr x, s1)" and steps: "served_from s1 R P s2"
    and sha: "sha256 (env_runtime env') = sha256 (env_runtime env)"
    and log: "loggable (rq_correlation_id (env_request env'))" "\<And>n. loggable (rq_uuid (env_request env') n)"
  shows "\<exists>s3. api_db s3 = api_db s2 \<and>
    serve env' i key rq s2 = (if refused_now i rq (api_db s2) then Inl role_required else Inr x, s3)"
proof -
  note stored = api_steps_answered [OF steps serve_Inr(1) [OF first], folded sha]
  show ?thesis
  proof (cases rq)
    case (Create b)
    with first have "api_create_decision env i (Some key) b s0 = (Inr x, s1)" by simp
    from create_again [OF create_admitted(1) [OF this] log create_admitted(2-5) [OF this], of s2 x] stored
    show ?thesis by (auto simp: Create)
  next
    case (Evaluate did)
    with first have "api_evaluate env i (Some key) did s0 = (Inr x, s1)" by simp
    from evaluate_again [OF evaluate_admitted(1) [OF this] log evaluate_admitted(2-4) [OF this], of did s2 x] stored
    show ?thesis by (auto simp: Evaluate)
  next
    case (Transition did target)
    with first have m: "api_transition env i (Some key) did target s0 = (Inr x, s1)" by simp
    from steps_keep_key [OF steps transition_key [OF m]]
    obtain d where d: "repo_get_decision (tenant i) did (api_db s2) = Some d"
      by (auto simp only: get_iff_key [symmetric])
    from stored have "repo_get_idempotency (tenant i) (actor_id i) (transition_operation did target) key
      (payload_hash (sha256 (env_runtime env')) (JObj [(''target'', JStr (case_status_value target))]))
      (api_db s2) = Inr (Some x)"
      by (simp only: Transition request_operation.simps request_payload.simps)
    from transition_again [OF transition_admitted(1) [OF m] log transition_admitted(2-5) [OF m] d this]
    obtain log' where "api_transition env' i (Some key) did target s2 =
      (if block_refused i target d then Inl role_required else Inr x, s2\<lparr>api_log := log'\<rparr>)" by blast
    then show ?thesis
      by (intro exI [of _ "s2\<lparr>api_log := log'\<rparr>"]) (simp add: Transition d)
  qed
qed

text \<open>
  C4. A repeated request acts once and is answered the same. After a create, evaluate or
  transition request was answered, and whatever the service served meanwhile, the same request
  by the same actor with the same idempotency key gets the same answer and changes nothing in
  the database. There is exactly one exception: a request to block a case is refused with 403
  when the caller does not hold the permission that blocking the case as it is stored now
  needs; it changes nothing either. Assumed of the repeat is only that its correlation and
  event identifiers can be stored in the security log, without which no request is served.
\<close>

theorem repeated_request_acts_once:
  assumes "serve env i key rq s0 = (Inr x, s1)"
    and "served_from s1 R P s2"
    and "sha256 (env_runtime env') = sha256 (env_runtime env)"
    and "loggable (rq_correlation_id (env_request env'))"
    and "\<And>n. loggable (rq_uuid (env_request env') n)"
  shows "\<exists>s3. api_db s3 = api_db s2 \<and>
    serve env' i key rq s2 = (if refused_now i rq (api_db s2) then Inl role_required else Inr x, s3)"
  using assms by (rule serve_again)

lemma demo_loggable:
  "loggable (rq_correlation_id (env_request demo_env))" "loggable (rq_uuid (env_request demo_env) n)"
proof -
  have "loggable ''corr''" "loggable ''uuid''" by (code_simp, code_simp)
  then show "loggable (rq_correlation_id (env_request demo_env))" "loggable (rq_uuid (env_request demo_env) n)"
    by (simp_all add: demo_env_def)
qed

theorem repeated_request_acts_once_witness:
  "\<exists>s1 s2 x. serve demo_env gina ''k1'' (Create (Document demo_document)) demo_start = (Inr x, s1) \<and>
     serve demo_env gina ''k1'' (Create (Document demo_document)) s1 = (Inr x, s2) \<and> api_db s2 = api_db s1"
proof -
  let ?rq = "Create (Document demo_document)"
  from demo_create_answer obtain x s1 where
    1: "serve demo_env gina ''k1'' ?rq demo_start = (Inr x, s1)" by auto
  from repeated_request_acts_once [OF 1 rtranclp.rtrancl_refl refl demo_loggable] 1 show ?thesis by auto
qed

text \<open>
  The exception of the repeat is no corner case: BLOCKED is final, so an approver without the
  permission to validate, who blocked a case in review, is refused every later repeat of that
  request. The guard of \<^verbatim>\<open>api/routes/decisions.py\<close> asks for the permission by the status
  the case has now, before the stored answer is looked up.
\<close>

lemma case_step_blocked:
  assumes "case_step R d d'" and "df_status d = BLOCKED"
  shows "df_status d' = BLOCKED"
  using assms(1)
proof cases
  case (evaluated env i es report)
  from evaluated(2) show ?thesis by (rule evaluate_update_InrD) (simp add: assms(2))
next
  case (transitioned env i target e)
  from transitioned(2) obtain p a where "rejection_reasons p (df_status d) target a = []"
    by (rule transition_update_InrD) simp
  then show ?thesis by (simp add: rejection_reasons_Nil_iff assms(2))
qed

lemma served_rows: "served_from s0 R P s \<Longrightarrow> rows_all (\<lambda>d. True) (api_db s0) \<Longrightarrow> rows_all (\<lambda>d. True) (api_db s)"
  by (rule rows_all_steps) simp_all

theorem approver_block_not_replayed:
  assumes "served_from demo_start R P s0"
    and "serve env i key (Transition did BLOCKED) s0 = (Inr x, s1)" and "api_db s1 \<noteq> api_db s0"
    and "env_runtime env = R" and "\<not> (\<exists>r \<in> set (roles i). role_permits r DECISION_VALIDATE)"
    and "served_from s1 R P s2" and "sha256 (env_runtime env') = sha256 R"
    and "loggable (rq_correlation_id (env_request env'))"
    and "\<And>n. loggable (rq_uuid (env_request env') n)"
  shows "\<exists>s3. api_db s3 = api_db s2 \<and>
    serve env' i key (Transition did BLOCKED) s2 = (Inl role_required, s3)"
proof -
  from assms(2) have m: "api_transition env i (Some key) did BLOCKED s0 = (Inr x, s1)" by simp
  have start: "rows_all (\<lambda>d. True) (api_db demo_start)" by (simp add: rows_all_def demo_start_def empty_db_def)
  note rows0 = served_rows [OF assms(1) start]
  have step: "api_step R P (tenant i) s0 s1" by (rule step_transition [OF assms(4) refl m])
  then have rows1: "rows_all (\<lambda>d. True) (api_db s1)" by (rule rows_all_step [OF _ rows0]) simp_all
  from m have "stored_as (tenant i) did (\<lambda>d. df_status d = BLOCKED) (api_db s1)"
  proof (cases rule: api_transition_Inr)
    case replayed
    with assms(3) show ?thesis by simp
  next
    case (moved k digest d d' e)
    have "df_decision_id d' = did"
      using rows_all_get(1) [OF rows0 moved(4)] transition_update_fields(1) [OF moved(6)] by simp
    moreover have "df_status d' = BLOCKED" by (rule transition_update_InrD [OF moved(6)]) simp
    ultimately show ?thesis using save_get [OF moved(8)] by (auto simp: stored_as_def)
  qed
  from assms(6) rows1 this have "stored_as (tenant i) did (\<lambda>d. df_status d = BLOCKED) (api_db s2)"
    by (rule stored_as_steps) (rule case_step_blocked)
  then obtain d where
    d: "repo_get_decision (tenant i) did (api_db s2) = Some d" "df_status d = BLOCKED"
    by (auto simp: stored_as_def)
  then have "refused_now i (Transition did BLOCKED) (api_db s2)"
    using assms(5) by (simp add: block_refused_def transition_permission_def is_approval_action_def)
  with serve_again [OF assms(2,6) _ assms(8,9)] assms(4,7) show ?thesis by simp
qed

text \<open>
  C21. Concurrent transitions cannot both win. When two transition requests have read the
  same version of a document and one has been written, the write of the other is refused by
  the unique key of the audit table, whatever their targets, actors and clocks.
\<close>

theorem concurrent_transitions_conflict:
  assumes "transition_update env1 i1 target1 d = Inr (d1, e1)"
    and "transition_update env2 i2 target2 d = Inr (d2, e2)"
    and "repo_save_result now1 t d1 None [e1] w1 db = Inr db1"
  shows "repo_save_result now2 t d2 None [e2] w2 db1 = Inl IntegrityError"
  using assms by (rule transitions_from_same_version)

theorem concurrent_transitions_conflict_witness:
  "\<exists>d d1 d2 e1 e2 db db1.
     transition_update demo_env vera VALIDATION d = Inr (d1, e1) \<and>
     transition_update demo_env (demo_identity ''vito'' VALIDATOR) VALIDATION d = Inr (d2, e2) \<and>
     repo_save_result ''ts'' ''acme'' d1 None [e1] (Some (''vera'', ''o'', ''k3'', [], 200, JNull)) db = Inr db1 \<and>
     repo_save_result ''ts'' ''acme'' d2 None [e2] None db1 = Inl IntegrityError"
proof -
  obtain s d e codes t vs where "demo_run demo_start s" and h:
    "demo_holds (api_db s) d [''case-1:evaluation:2'', ''case-1:created:1''] [''k2'', ''k1'']"
    and sch: "decision_file_schema demo_runtime d" and sem: "semantic_errors demo_runtime d = Inr []"
    and d: "d = demo_doc1\<lparr>df_decision_outcome := Some PASS, df_outcome_reasons := codes,
       df_updated_at := t, df_validation_results := vs, df_audit_events := df_audit_events demo_doc1 @ [e]\<rparr>"
    and "ae_to_status e = DRAFT"
    by (rule demo_ready)
  obtain d1 e1 where 1: "transition_update demo_env vera VALIDATION d = Inr (d1, e1)"
    and e1: "ae_event_id e1 = ''case-1:transition:3''"
    by (rule demo_vera [OF d sch sem])
  obtain d2 e2 where 2: "transition_update demo_env (demo_identity ''vito'' VALIDATOR) VALIDATION d = Inr (d2, e2)"
    by (rule demo_vito [OF d sch sem])
  have "df_decision_id d1 = ''case-1''"
    using transition_update_fields(1) [OF 1] h by (simp add: demo_holds_def)
  with demo_save [OF h, of d1 e1 "''k3''" "''ts''" None "''vera''" "''o''" "[]" 200 JNull] e1 obtain db1 where
    3: "repo_save_result ''ts'' ''acme'' d1 None [e1] (Some (''vera'', ''o'', ''k3'', [], 200, JNull)) (api_db s)
      = Inr db1" by auto
  from concurrent_transitions_conflict [OF 1 2 3] 1 2 3 show ?thesis by blast
qed

text \<open>
  Only a holder of the permission moves a case. A transition request that changed the
  database was made by an identity one of whose roles grants DECISION_APPROVE for an approval
  or for blocking a case in review, and DECISION_VALIDATE otherwise; and the role the actor
  then appears with is the one the transition requires.
\<close>

theorem transition_needs_permission:
  assumes "served_from demo_start R fresh_draft s"
    and "api_transition env i k did target s = (r, s')" and "api_db s' \<noteq> api_db s"
  shows "\<exists>d d' e. repo_get_decision (tenant i) did (api_db s) = Some d \<and>
    repo_get_decision (tenant i) did (api_db s') = Some d' \<and> df_status d' = target \<and>
    df_audit_events d' = df_audit_events d @ [e] \<and> act_id (ae_actor e) = actor_id i \<and>
    allowed_transition (df_status d) target = Some (act_role (ae_actor e)) \<and>
    (\<exists>ro \<in> set (roles i). role_permits ro (transition_permission target d))"
proof (cases r)
  case (Inl e)
  with api_transition_Inl assms(2,3) show ?thesis by blast
next
  case (Inr x)
  with assms(2) have "api_transition env i k did target s = (Inr x, s')" by simp
  then show ?thesis
  proof (cases rule: api_transition_Inr)
    case replayed
    with assms(3) show ?thesis by simp
  next
    case (moved key digest d d' e)
    from served_store_inv [OF assms(1)] moved(4) have "did = df_decision_id d" by (rule stored_row)
    with save_get [OF moved(8)] transition_update_fields [OF moved(6)]
    have get: "repo_get_decision (tenant i) did (api_db s') = Some d'" by simp
    from moved(6) obtain p a where "a = api_actor i (transition_permission target d)"
      "rejection_reasons p (df_status d) target a = []" "ae_actor e = a" "df_status d' = target"
      by (rule transition_update_InrD) simp
    then have "df_status d' = target" "act_id (ae_actor e) = actor_id i"
      "allowed_transition (df_status d) target = Some (act_role (ae_actor e))"
      by (simp_all add: rejection_reasons_Nil_iff api_actor_def)
    with moved get transition_update_fields(2) [OF moved(6)] show ?thesis by blast
  qed
qed

theorem transition_needs_permission_witness:
  "\<exists>s s' d'. api_transition demo_env vera (Some ''k3'') ''case-1'' VALIDATION s = (Inr (200, decision_json d'), s') \<and>
     repo_get_decision ''acme'' ''case-1'' (api_db s') = Some d' \<and> df_status d' = VALIDATION \<and>
     (\<exists>ro \<in> set (roles vera). role_permits ro DECISION_VALIDATE)"
proof -
  obtain s d e codes t vs where run: "demo_run demo_start s" and h:
    "demo_holds (api_db s) d [''case-1:evaluation:2'', ''case-1:created:1''] [''k2'', ''k1'']"
    and sch: "decision_file_schema demo_runtime d" and sem: "semantic_errors demo_runtime d = Inr []"
    and d: "d = demo_doc1\<lparr>df_decision_outcome := Some PASS, df_outcome_reasons := codes,
       df_updated_at := t, df_validation_results := vs, df_audit_events := df_audit_events demo_doc1 @ [e]\<rparr>"
    and "ae_to_status e = DRAFT"
    by (rule demo_ready)
  obtain d1 e1 where u: "transition_update demo_env vera VALIDATION d = Inr (d1, e1)"
    and e1: "ae_event_id e1 = ''case-1:transition:3''"
    by (rule demo_vera [OF d sch sem])
  have st: "df_status d1 = VALIDATION" by (rule transition_update_InrD [OF u]) simp
  obtain s' where m: "api_transition demo_env vera (Some ''k3'') ''case-1'' VALIDATION s =
      (Inr (200, decision_json d1), s')" and h': "demo_holds (api_db s') d1
      [''case-1:transition:3'', ''case-1:evaluation:2'', ''case-1:created:1''] [''k3'', ''k2'', ''k1'']"
    using demo_transition_answer [OF h _ _ _ _ _ _ u, of "''k3''"] demo_require(3)
    by (auto simp: e1 demo_permissions demo_people)
  have "df_status d = DRAFT" by (simp add: d demo_doc1_fields)
  with h h' st have "api_db s' \<noteq> api_db s" by (auto simp: demo_holds_def)
  from transition_needs_permission [OF run m this] m h' st show ?thesis
    by (auto simp: demo_holds_def demo_permissions)
qed

text \<open>
  C6. The verdict of an evaluation follows from the document alone. A completed evaluation
  says BLOCK exactly when some evidence is fabricated, mandatory evidence is missing in a
  high-impact case, a mandatory constraint is violated or a critical conflict is open; it
  says PASS exactly when all evidence is verified, nothing mandatory is missing, no constraint
  but an advisory one is violated, no policy asks for review, no high-impact case has an
  unresolved risk and every conflict is resolved; it records that verdict and one event, and
  leaves the rest of the document, its status and its approvals as they were.
\<close>

theorem evaluation_verdict:
  assumes "evaluate_decision_file R clock d = Inr (d', r)"
  shows "(result_outcome r = BLOCK \<longleftrightarrow>
      (\<exists>e \<in> set (df_evidence d). ev_status e = FABRICATED) \<or>
      (mandatory_evidence_missing d \<and> high_impact d) \<or>
      (\<exists>c \<in> set (df_constraints d). con_severity c = MANDATORY \<and> \<not> con_satisfied c) \<or>
      (\<exists>c \<in> set (df_conflicts d). cf_severity c = CRITICAL \<and> \<not> cf_resolved c)) \<and>
    (result_outcome r = PASS \<longleftrightarrow>
      (\<forall>e \<in> set (df_evidence d). ev_status e = VERIFIED) \<and> \<not> mandatory_evidence_missing d \<and>
      (\<forall>c \<in> set (df_constraints d). con_satisfied c \<or> con_severity c = ADVISORY) \<and>
      (\<forall>p \<in> set (df_policies d). \<not> pol_requires_review p) \<and>
      \<not> (high_impact d \<and> unresolved_uncertainty d) \<and>
      (\<forall>c \<in> set (df_conflicts d). cf_resolved c)) \<and>
    df_decision_outcome d' = Some (result_outcome r) \<and>
    (\<exists>e. df_audit_events d' = df_audit_events d @ [e]) \<and>
    df_status d' = df_status d \<and> df_approvals d' = df_approvals d \<and>
    df_evidence d' = df_evidence d \<and> df_constraints d' = df_constraints d \<and>
    df_conflicts d' = df_conflicts d \<and> df_review_requirements d' = df_review_requirements d"
proof -
  from assms obtain e codes n where sem: "semantic_errors R d = Inr []"
    and oc: "result_outcome r = document_outcome d" and
    d': "d' = d\<lparr>df_decision_outcome := Some (document_outcome d), df_outcome_reasons := codes,
       df_updated_at := clock n, df_validation_results := df_validation_results d',
       df_audit_events := df_audit_events d @ [e]\<rparr>"
    by (rule evaluate_decision_file_InrD)
  have sa: "\<not> self_approved d" by (rule semantic_not_self_approved [OF sem])
  have pass: "document_outcome d = PASS \<longleftrightarrow> document_clean d"
    using document_clean_not_blocks [of d] by (auto simp: document_outcome_def)
  have block: "document_outcome d = BLOCK \<longleftrightarrow> document_blocks d"
    by (auto simp: document_outcome_def)
  have kept: "df_status d' = df_status d \<and> df_approvals d' = df_approvals d \<and>
    df_evidence d' = df_evidence d \<and> df_constraints d' = df_constraints d \<and>
    df_conflicts d' = df_conflicts d \<and> df_review_requirements d' = df_review_requirements d"
    by (intro conjI; subst d'; simp)
  have "df_decision_outcome d' = Some (document_outcome d)" "df_audit_events d' = df_audit_events d @ [e]"
    by (subst d', simp)+
  with kept sa show ?thesis
    unfolding oc pass block document_clean_def document_blocks_def by simp
qed

theorem evaluation_verdict_witness:
  "\<exists>d' r. evaluate_decision_file demo_runtime (\<lambda>n. ''t'') demo_document = Inr (d', r) \<and>
     result_outcome r = PASS \<and> df_decision_outcome d' = Some PASS"
proof -
  obtain d' r where e: "evaluate_decision_file demo_runtime (\<lambda>n. ''t'') demo_document = Inr (d', r)"
    using evaluate_decision_file_total [OF demo_doc, of "\<lambda>n. ''t''"] by auto
  have "document_clean demo_document" by code_simp
  with evaluation_verdict [OF e] have "result_outcome r = PASS \<and> df_decision_outcome d' = Some PASS"
    unfolding document_clean_def by simp
  with e show ?thesis by blast
qed

text \<open>
  C22. Evaluation never fails on a valid document: if the document satisfies the contract and
  the semantic rules and the clock yields date-times, the engine returns, and the updated
  document satisfies the contract again.
\<close>

theorem evaluation_returns:
  assumes "decision_file_schema R d" and "semantic_errors R d = Inr []"
    and "\<forall>n. date_time_format R (clock n)"
  shows "\<exists>d' r. evaluate_decision_file R clock d = Inr (d', r) \<and> decision_file_schema R d'"
proof -
  from evaluate_decision_file_total [OF assms(1,2), of clock] assms(3) obtain d' r
    where e: "evaluate_decision_file R clock d = Inr (d', r)" by blast
  then have "decision_file_schema R d'" by (rule evaluate_decision_file_InrD) blast
  with e show ?thesis by blast
qed

theorem evaluation_returns_witness:
  "\<exists>d' r. evaluate_decision_file demo_runtime (\<lambda>n. ''t'') demo_document = Inr (d', r) \<and>
     decision_file_schema demo_runtime d'"
  by (rule evaluation_returns) (simp_all add: demo_doc)

text \<open>
  C2. The engine fails closed on any request. Whatever JSON object it is given, a completed
  assessment is BLOCK exactly when some finding blocks, PASS exactly when there is no finding,
  asks for human review exactly on REVIEW, numbers its findings, and leaves a linked ledger
  that records receipt, validation, every finding, the decision and the review request.
\<close>

theorem engine_fails_closed:
  assumes "assess sha clock v payload = Inr r"
  shows "(result_outcome r = BLOCK \<longleftrightarrow> (\<exists>f \<in> set (result_findings r). finding_severity f = Sev_BLOCK)) \<and>
    (result_outcome r = PASS \<longleftrightarrow> result_findings r = []) \<and>
    (result_human_review r \<longleftrightarrow> result_outcome r = REVIEW) \<and>
    distinct (map finding_id (result_findings r)) \<and>
    map le_event_type (result_audit_events r) =
       [''decision.received'', ''evidence.validated'']
       @ replicate (length (result_findings r)) ''finding.created'' @ [''governance.decided'']
       @ (if result_outcome r = REVIEW then [''review.requested''] else []) \<and>
    linked (ledger_event_hash sha) le_previous_event_hash (result_audit_events r)"
proof -
  from assms obtain fs where fs: "validate_request (normalize payload) = Inr fs"
    and r: "result_findings r = fs" "result_outcome r = govern fs"
    "result_human_review r \<longleftrightarrow> govern fs = REVIEW"
    "map le_event_type (result_audit_events r) =
       [''decision.received'', ''evidence.validated''] @ replicate (length fs) ''finding.created''
       @ [''governance.decided''] @ emit_if (govern fs = REVIEW) ''review.requested''"
    "linked (ledger_event_hash sha) le_previous_event_hash (result_audit_events r)"
    by (rule assess_InrD)
  from fs obtain d found where "fs = number_findings d found"
    by (auto simp: validate_request_def monad_simps)
  then have "distinct (map finding_id fs)"
    by (simp add: number_findings_fields distinct_map inj_on_def del: upt_Suc)
  with r show ?thesis by (auto simp: emit_if_def)
qed

theorem engine_fails_closed_witness:
  "\<exists>r. assess demo_sha (\<lambda>n. ''t'') ''0.1.0'' (evaluation_request demo_document) = Inr r \<and>
     result_outcome r = PASS \<and> result_findings r = []"
proof -
  obtain r where r: "assess demo_sha (\<lambda>n. ''t'') ''0.1.0'' (evaluation_request demo_document) = Inr r"
    "result_outcome r = document_outcome demo_document"
    by (rule assess_evaluation_request [of demo_sha "\<lambda>n. ''t''" "''0.1.0''" demo_document])
  moreover have "document_outcome demo_document = PASS" by code_simp
  ultimately show ?thesis using engine_fails_closed [OF r(1)] by auto
qed

text \<open>
  What approval takes. On a document that satisfies the contract and the semantic rules,
  the transition policy approves exactly when the case is in REVIEW, the actor is a human with
  the role APPROVER who neither created nor validated the case, the recorded outcome is PASS,
  no mandatory constraint is violated, no critical conflict is open, and every mandatory
  requirement is satisfied and has a human approval in the required role, the actor's own
  where the role is APPROVER.
\<close>

theorem approval_conditions:
  assumes "decision_file_schema R d" and "semantic_errors R d = Inr []"
    and "actor_schema actor" and "date_time_format R now"
  shows "(\<exists>d'. transition R now d ''APPROVED'' actor = Inr d') \<longleftrightarrow>
    df_status d = IN_REVIEW \<and> act_role actor = ''APPROVER'' \<and> act_kind actor = ''HUMAN'' \<and>
    act_id actor \<noteq> act_id (df_created_by d) \<and>
    (\<forall>e \<in> set (df_audit_events d). ae_to_status e = VALIDATION \<longrightarrow> act_id (ae_actor e) \<noteq> act_id actor) \<and>
    df_decision_outcome d = Some PASS \<and>
    (\<forall>c \<in> set (df_constraints d). con_severity c = MANDATORY \<longrightarrow> con_satisfied c) \<and>
    (\<forall>c \<in> set (df_conflicts d). cf_severity c = CRITICAL \<longrightarrow> cf_resolved c) \<and>
    (\<forall>r \<in> set (df_review_requirements d). rr_mandatory r \<longrightarrow> rr_satisfied r \<and>
       (\<exists>a \<in> set (df_approvals d). ap_requirement_ref a = rr_id r \<and> ap_decision a = APPROVE \<and>
          act_kind (ap_approver a) = ''HUMAN'' \<and> act_role (ap_approver a) = rr_required_role r \<and>
          (rr_required_role r = ''APPROVER'' \<longrightarrow> act_id (ap_approver a) = act_id actor)))"
proof -
  have val: "''APPROVED'' = case_status_value APPROVED" by simp
  have "(\<exists>d'. transition R now d ''APPROVED'' actor = Inr d') \<longleftrightarrow>
      rejection_reasons d (df_status d) APPROVED actor = []"
  proof
    assume "\<exists>d'. transition R now d ''APPROVED'' actor = Inr d'"
    then obtain d' where "transition R now d (case_status_value APPROVED) actor = Inr d'" by auto
    then obtain dest where "case_status_value APPROVED = case_status_value dest"
      "rejection_reasons d (df_status d) dest actor = []"
      by (auto simp: transition_Inr_iff)
    then show "rejection_reasons d (df_status d) APPROVED actor = []" by (cases dest) auto
  next
    assume "rejection_reasons d (df_status d) APPROVED actor = []"
    from transition_total [OF assms(1,2) this assms(3,4)]
    show "\<exists>d'. transition R now d ''APPROVED'' actor = Inr d'" unfolding val by blast
  qed
  moreover have "act_id actor \<in> set (validator_ids d) \<longleftrightarrow>
      (\<exists>e \<in> set (df_audit_events d). ae_to_status e = VALIDATION \<and> act_id (ae_actor e) = act_id actor)"
    by (force simp: validator_ids_def image_iff)
  moreover have "matching_approvals d actor r \<noteq> [] \<longleftrightarrow>
      (\<exists>a \<in> set (df_approvals d). ap_requirement_ref a = rr_id r \<and> ap_decision a = APPROVE \<and>
          act_kind (ap_approver a) = ''HUMAN'' \<and> act_role (ap_approver a) = rr_required_role r \<and>
          (rr_required_role r = ''APPROVER'' \<longrightarrow> act_id (ap_approver a) = act_id actor))" for r
    by (auto simp: matching_approvals_def filter_empty_conv)
  ultimately show ?thesis
    unfolding rejection_reasons_Nil_iff approval_reasons_Nil_iff by (simp add: allowed_transition_to)
qed

theorem approval_conditions_witness:
  "\<not> (\<exists>d'. transition demo_runtime ''t'' demo_document ''APPROVED''
        \<lparr>act_id = ''anna'', act_role = ''APPROVER'', act_kind = ''HUMAN''\<rparr> = Inr d')"
proof -
  have "actor_schema \<lparr>act_id = ''anna'', act_role = ''APPROVER'', act_kind = ''HUMAN''\<rparr>"
    by (simp add: actor_schema_def)
  from approval_conditions [OF demo_doc this, of "''t''"] show ?thesis
    by (simp add: demo_document_def)
qed

text \<open>
  APPROVED and BLOCKED are final. Whatever the target, the actor and the time, the
  transition policy rejects a valid document that is approved or blocked, with the single
  reason TRANSITION_NOT_ALLOWED (or because the target is no status at all).
\<close>

theorem decided_cases_are_final:
  assumes "decision_file_schema R d" and "semantic_errors R d = Inr []"
    and "df_status d = APPROVED \<or> df_status d = BLOCKED"
  shows "transition R now d target actor =
    (if target \<in> {''DRAFT'', ''VALIDATION'', ''REVIEW'', ''APPROVED'', ''BLOCKED''}
     then Inl (TransitionRejected [''TRANSITION_NOT_ALLOWED''])
     else Inl (ValueError ''not a valid CaseStatus''))"
proof (cases "\<exists>s. target = case_status_value s")
  case True
  then obtain s where s: "target = case_status_value s" by blast
  have "rejection_reasons d (df_status d) s actor = [''TRANSITION_NOT_ALLOWED'']"
    using assms(3) by (auto simp: rejection_reasons_def)
  moreover have "target \<in> {''DRAFT'', ''VALIDATION'', ''REVIEW'', ''APPROVED'', ''BLOCKED''}"
    by (cases s) (simp_all add: s)
  ultimately show ?thesis
    using assms(1,2) by (simp add: transition_def contract_validate_def validate_semantics_def s)
next
  case False
  then have "target \<notin> {''DRAFT'', ''VALIDATION'', ''REVIEW'', ''APPROVED'', ''BLOCKED''}"
    using case_status_value.simps by (metis insertE singletonD)
  with assms(1,2) show ?thesis
    by (simp add: transition_def contract_validate_def validate_semantics_def parse_case_status_def)
qed

theorem decided_cases_are_final_witness:
  "transition demo_runtime ''t'' (demo_document\<lparr>df_status := BLOCKED\<rparr>) ''APPROVED'' demo_actor =
     Inl (TransitionRejected [''TRANSITION_NOT_ALLOWED''])"
proof -
  have "decision_file_schema demo_runtime (demo_document\<lparr>df_status := BLOCKED\<rparr>)"
    using demo_doc(1) by (simp add: decision_file_schema_def)
  moreover have "semantic_errors demo_runtime (demo_document\<lparr>df_status := BLOCKED\<rparr>) = Inr []"
    by (simp add: demo_semantics)
  ultimately show ?thesis
    using decided_cases_are_final [of demo_runtime "demo_document\<lparr>df_status := BLOCKED\<rparr>" "''t''" "''APPROVED''" demo_actor]
    by simp
qed

text \<open>What every route keeps of the approvals, whatever was submitted.\<close>

definition approvals_bound :: "runtime \<Rightarrow> decision_file \<Rightarrow> bool" where
  "approvals_bound R d =
     ((\<forall>a \<in> set (df_approvals d). approval_ok R d a) \<and> action_errors R d = [] \<and>
      distinct (map ap_nonce (df_approvals d)) \<and>
      (df_approvals d = [] \<or> df_status d \<in> {IN_REVIEW, APPROVED, BLOCKED}))"

lemma semantic_approvals_bound:
  assumes "semantic_errors R d = Inr []"
  shows "approvals_bound R d"
  using semantic_approvals_ok [OF assms] semantic_errors_NilD(5-7) [OF assms]
  by (auto simp: approvals_bound_def)

text \<open>The parts of a document its approvals depend on.\<close>

lemma approvals_bound_cong:
  assumes "df_decision_id d' = df_decision_id d" "df_created_by d' = df_created_by d"
    and "df_requested_by d' = df_requested_by d" "df_canonical_action d' = df_canonical_action d"
    and "df_approvals d' = df_approvals d" "df_review_requirements d' = df_review_requirements d"
    and "df_approvals d = [] \<or> df_status d' \<in> {IN_REVIEW, APPROVED, BLOCKED}"
    and "approvals_bound R d"
  shows "approvals_bound R d'"
proof -
  have "action_errors R d' = action_errors R d"
    by (simp only: action_errors_def assms(4,6))
  moreover have "approval_ok R d' a = approval_ok R d a" for a
    by (simp only: approval_ok_def expected_action_digest_def approval_digest_def approval_payload_def
        assms(1-4,6))
  ultimately show ?thesis using assms(5,7,8) by (simp add: approvals_bound_def)
qed

lemma case_step_approvals_bound:
  assumes "case_step R d d'" and "approvals_bound R d"
  shows "approvals_bound R d'"
  using assms(1)
proof cases
  case (evaluated env i es report)
  from evaluated(2) show ?thesis
    by (rule evaluate_update_InrD, intro approvals_bound_cong [OF _ _ _ _ _ _ _ assms(2)])
      (use assms(2) in \<open>auto simp: approvals_bound_def\<close>)
next
  case (transitioned env i target e)
  from transitioned(2) obtain p a where p: "p = prepared_document env i target d"
    and sem: "semantic_errors R p = Inr []" and rej: "rejection_reasons p (df_status d) target a = []"
    and d': "d' = p\<lparr>df_status := target, df_updated_at := env_transition_now env, df_current_owner := a,
       df_audit_events := df_audit_events d @ [e]\<rparr>"
    by (rule transition_update_InrD) (use transitioned(1) in simp)
  obtain as rs where "p = d\<lparr>df_approvals := as, df_review_requirements := rs\<rparr>"
    unfolding p by (rule prepared_document_fields)
  then have st: "df_status p = df_status d" by simp
  from rej have "allowed_transition (df_status p) target \<noteq> None"
    by (simp add: st rejection_reasons_Nil_iff)
  then have "df_approvals p = [] \<or> target \<in> {IN_REVIEW, APPROVED, BLOCKED}"
    using semantic_errors_NilD(7) [OF sem] by (cases target; cases "df_status p") auto
  with semantic_approvals_bound [OF sem] show ?thesis
    by (intro approvals_bound_cong [of d' p R]) (auto simp: d')
qed

text \<open>
  C37. Every approval on a stored decision is bound. Whatever documents were submitted and
  whatever requests were served, each approval on a stored decision was given by a human other
  than its creator and its requester, in the role its requirement names, for the action the
  document holds, under the digest of its own content; no nonce occurs twice; there are none
  before REVIEW; and a canonical action carries the digest of its content and, unless it is
  read-only, a mandatory approver requirement.
\<close>

theorem stored_approvals_are_bound:
  assumes "served_from demo_start R P s" and "repo_get_decision t did (api_db s) = Some d"
  shows "(\<forall>a \<in> set (df_approvals d).
      act_kind (ap_approver a) = ''HUMAN'' \<and>
      act_id (ap_approver a) \<noteq> act_id (df_created_by d) \<and>
      act_id (ap_approver a) \<noteq> act_id (df_requested_by d) \<and>
      ap_action_digest a = map_option ca_canonical_digest (df_canonical_action d) \<and>
      ap_approval_digest a = approval_digest R d a \<and>
      (\<exists>r \<in> set (df_review_requirements d). rr_id r = ap_requirement_ref a \<and>
         act_role (ap_approver a) = rr_required_role r)) \<and>
    distinct (map ap_nonce (df_approvals d)) \<and>
    (df_approvals d = [] \<or> df_status d \<notin> {DRAFT, VALIDATION}) \<and>
    (\<forall>act. df_canonical_action d = Some act \<longrightarrow>
       ca_canonical_digest act = canonical_action_digest R act \<and>
       (ca_reversibility act = READ_ONLY \<or>
        (\<exists>r \<in> set (df_review_requirements d). rr_mandatory r \<and> rr_required_role r = ''APPROVER'')))"
proof -
  have "rows_all (approvals_bound R) (api_db demo_start)"
    by (simp add: rows_all_def demo_start_def empty_db_def)
  from assms(1) this have "rows_all (approvals_bound R) (api_db s)"
  proof (rule rows_all_steps)
    fix env i d
    assume "semantic_errors R d = Inr []"
    then have "approvals_bound R d" by (rule semantic_approvals_bound)
    then show "approvals_bound R (created_document env i d)"
      by (rule approvals_bound_cong [rotated -1])
        (use \<open>approvals_bound R d\<close> in \<open>auto simp: created_document_def approvals_bound_def\<close>)
  qed (rule case_step_approvals_bound)
  from rows_all_get(2) [OF this assms(2)] have ok: "approvals_bound R d" .
  then have "\<forall>act. df_canonical_action d = Some act \<longrightarrow>
       ca_canonical_digest act = canonical_action_digest R act \<and>
       (ca_reversibility act = READ_ONLY \<or>
        (\<exists>r \<in> set (df_review_requirements d). rr_mandatory r \<and> rr_required_role r = ''APPROVER''))"
    by (auto simp: approvals_bound_def action_errors_def list_ex_iff)
  with ok show ?thesis
    by (fastforce simp: approvals_bound_def approval_ok_def expected_action_digest_def dest: dict_of_SomeD)
qed

theorem stored_approvals_are_bound_witness:
  "\<exists>s d a. served_from demo_start demo_runtime fresh_draft s \<and>
     repo_get_decision ''acme'' ''case-1'' (api_db s) = Some d \<and> df_status d = APPROVED \<and>
     a \<in> set (df_approvals d) \<and> act_kind (ap_approver a) = ''HUMAN'' \<and>
     act_id (ap_approver a) \<noteq> act_id (df_created_by d) \<and>
     ap_approval_digest a = approval_digest demo_runtime d a"
proof -
  obtain s d where s: "served_from demo_start demo_runtime fresh_draft s"
    "repo_get_decision ''acme'' ''case-1'' (api_db s) = Some d" "df_status d = APPROVED" "df_approvals d \<noteq> []"
    using demo_reaches_approved by blast
  from s(4) obtain a where "a \<in> set (df_approvals d)" by (cases "df_approvals d") auto
  with stored_approvals_are_bound [OF s(1,2)] s show ?thesis by blast
qed

text \<open>
  An approval digest binds the approval. If two approvals have the same digest, and the
  digest function separates their two texts, then they are for the same decision, requester,
  requirement, approver, verdict, time, action and nonce: no field can be exchanged under a
  digest.
\<close>

theorem approval_digest_binds:
  assumes "approval_digest R d a = approval_digest R d' b"
    and "inj_on (sha256 R) {json_dumps (approval_payload d a), json_dumps (approval_payload d' b)}"
  shows "df_decision_id d = df_decision_id d' \<and> df_requested_by d = df_requested_by d' \<and>
    ap_requirement_ref a = ap_requirement_ref b \<and> ap_approver a = ap_approver b \<and>
    ap_decision a = ap_decision b \<and> ap_decided_at a = ap_decided_at b \<and>
    ap_action_digest a = ap_action_digest b \<and> ap_nonce a = ap_nonce b"
proof (rule approval_payload_inject, rule payload_hash_inject)
  show "payload_hash (sha256 R) (approval_payload d a) = payload_hash (sha256 R) (approval_payload d' b)"
    using assms(1) by (simp only: approval_digest_def)
  assume "sha256 R (json_dumps (approval_payload d a)) = sha256 R (json_dumps (approval_payload d' b))"
  then show "json_dumps (approval_payload d a) = json_dumps (approval_payload d' b)"
    by (rule inj_onD [OF assms(2)]) blast+
qed

definition plain_runtime :: runtime where
  "plain_runtime = demo_runtime\<lparr>sha256 := (\<lambda>s. s)\<rparr>"

definition demo_approval :: approval where
  "demo_approval = \<lparr>ap_requirement_ref = ''r1'', ap_approver = demo_actor, ap_decision = APPROVE,
     ap_decided_at = ''t'', ap_action_digest = None, ap_nonce = ''n1'', ap_approval_digest = []\<rparr>"

theorem approval_digest_binds_witness:
  "approval_digest plain_runtime demo_document demo_approval \<noteq>
   approval_digest plain_runtime demo_document (demo_approval\<lparr>ap_decision := REJECT\<rparr>)"
proof
  assume "approval_digest plain_runtime demo_document demo_approval =
   approval_digest plain_runtime demo_document (demo_approval\<lparr>ap_decision := REJECT\<rparr>)"
  moreover have "inj_on (sha256 plain_runtime) A" for A
    by (simp add: plain_runtime_def inj_on_def)
  ultimately have "ap_decision demo_approval = ap_decision (demo_approval\<lparr>ap_decision := REJECT\<rparr>)"
    using approval_digest_binds by blast
  then show False by (simp add: demo_approval_def)
qed

text \<open>
  C32. Canonical JSON text is unambiguous. Two JSON values have the same canonical text
  exactly when they are equal up to the order of the members of their objects, so a digest is
  a digest of the value.
\<close>

theorem canonical_text_unambiguous:
  "json_dumps j = json_dumps j' \<longleftrightarrow> sort_members j = sort_members j'"
  by (rule json_dumps_eq_iff)

text \<open>
  The ledger is tamper evident. Take two ledgers of the same decision and the same
  number of events, both built by appending and nothing else, whose last events hash to the
  same value. If the digest function separates the texts of their events, the ledgers hold the
  same events.
\<close>

theorem ledger_tamper_evident:
  assumes "(ledger_step sha)\<^sup>*\<^sup>* (new_ledger d) l" and "(ledger_step sha)\<^sup>*\<^sup>* (new_ledger d') l'"
    and "length (ledger_events l) = length (ledger_events l')"
    and "head_hash (ledger_event_hash sha) None (ledger_events l) =
         head_hash (ledger_event_hash sha) None (ledger_events l')"
    and "inj_on sha (json_dumps ` ledger_event_json ` (set (ledger_events l) \<union> set (ledger_events l')))"
  shows "ledger_events l = ledger_events l'"
proof -
  have "linked (ledger_event_hash sha) le_previous_event_hash (ledger_events l)"
    and "linked (ledger_event_hash sha) le_previous_event_hash (ledger_events l')"
    using assms(1,2) by (auto intro: ledger.steps_linked)
  from linked_tamper_evident [OF assms(3) this assms(4)] consider "ledger_events l = ledger_events l'"
    | a b where "a \<in> set (ledger_events l)" "b \<in> set (ledger_events l')" "a \<noteq> b"
      "ledger_event_hash sha a = ledger_event_hash sha b" by blast
  then show ?thesis
  proof cases
    case 2
    have "sha (json_dumps (ledger_event_json a)) = sha (json_dumps (ledger_event_json b)) \<Longrightarrow>
        json_dumps (ledger_event_json a) = json_dumps (ledger_event_json b)"
      using assms(5) 2(1,2) by (auto dest: inj_onD)
    then have "sort_members (ledger_event_json a) = sort_members (ledger_event_json b)"
      by (rule payload_hash_inject [OF 2(4)])
    with 2(3) show ?thesis by (blast dest: ledger_event_json_inject)
  qed
qed

theorem ledger_tamper_evident_witness:
  "ledger_events (ledger_append (\<lambda>s. s) (\<lambda>n. ''t'') ''a'' JNull (new_ledger ''d'')) =
   ledger_events (ledger_append (\<lambda>s. s) (\<lambda>n. ''t'') ''a'' JNull (new_ledger ''d''))"
proof (rule ledger_tamper_evident [of "\<lambda>s. s" "''d''" _ "''d''"])
  have "ledger_step (\<lambda>s. s) (new_ledger ''d'') (ledger_append (\<lambda>s. s) (\<lambda>n. ''t'') ''a'' JNull (new_ledger ''d''))"
    unfolding ledger_step_def by (intro exI) (rule refl)
  then show "(ledger_step (\<lambda>s. s))\<^sup>*\<^sup>* (new_ledger ''d'') (ledger_append (\<lambda>s. s) (\<lambda>n. ''t'') ''a'' JNull (new_ledger ''d''))"
    by (rule r_into_rtranclp)
  then show "(ledger_step (\<lambda>s. s))\<^sup>*\<^sup>* (new_ledger ''d'') (ledger_append (\<lambda>s. s) (\<lambda>n. ''t'') ''a'' JNull (new_ledger ''d''))" .
qed simp_all

text \<open>
  A human approver's request signs what it approves. The document prepared for such a
  request has, for every mandatory approver requirement, an approval by that person bound to
  the document by its digest, and marks the requirement satisfied; other requirements and
  earlier approvals stay as they were, and no approval is added where one matches already.
\<close>

theorem approval_request_signs:
  "(\<forall>r \<in> set (df_review_requirements (approve_document env a d)).
      rr_mandatory r \<and> rr_required_role r = ''APPROVER'' \<longrightarrow> rr_satisfied r \<and>
      (\<exists>ap \<in> set (df_approvals (approve_document env a d)).
         ap_requirement_ref ap = rr_id r \<and> ap_decision ap = APPROVE \<and> ap_approver ap = a \<and>
         ap_action_digest ap = expected_action_digest d)) \<and>
   (\<forall>ap \<in> set (df_approvals (approve_document env a d)). ap \<in> set (df_approvals d) \<or>
      ap_approver ap = a \<and> ap_approval_digest ap = approval_digest (env_runtime env) d ap) \<and>
   take (length (df_approvals d)) (df_approvals (approve_document env a d)) = df_approvals d \<and>
   map rr_id (df_review_requirements (approve_document env a d)) = map rr_id (df_review_requirements d) \<and>
   (\<forall>r \<in> set (df_review_requirements d). \<not> (rr_mandatory r \<and> rr_required_role r = ''APPROVER'') \<longrightarrow>
      r \<in> set (df_review_requirements (approve_document env a d)))"
  by (rule approve_document_signs)

theorem approval_request_signs_witness:
  "\<exists>ap \<in> set (df_approvals (approve_document demo_env demo_actor demo_document)).
     ap_requirement_ref ap = ''r1'' \<and> ap_decision ap = APPROVE \<and> ap_approver ap = demo_actor"
proof -
  have "df_review_requirements (approve_document demo_env demo_actor demo_document) =
      [\<lparr>rr_id = ''r1'', rr_required_role = ''APPROVER'', rr_mandatory = True, rr_satisfied = True\<rparr>]"
    by (simp add: approve_document_def demo_document_def)
  with approval_request_signs [of demo_env demo_actor demo_document] show ?thesis by auto
qed

end
