(* ===== verification/Lifecycles.thy ===== *)
theory Lifecycles
  imports Prelude
begin

text \<open>
  Every component with a status keeps a table of allowed moves and a function that checks
  one move. The locale \<open>lifecycle\<close> is what that function promises; its lemmas say what
  follows for any number of moves.
\<close>

locale lifecycle =
  fixes allowed :: "'s \<Rightarrow> 's list"
    and move :: "'s \<Rightarrow> 's \<Rightarrow> 's result"
  assumes move_iff: "move a b = Inr c \<longleftrightarrow> c = b \<and> b \<in> set (allowed a)"
begin

abbreviation moves :: "'s \<Rightarrow> 's \<Rightarrow> bool" where
  "moves a b \<equiv> move a b = Inr b"

lemma moves_allowed: "moves a b \<longleftrightarrow> b \<in> set (allowed a)"
  by (simp add: move_iff)

text \<open>A state without moves is final.\<close>

lemma final_stays: "moves\<^sup>*\<^sup>* a b \<Longrightarrow> allowed a = [] \<Longrightarrow> b = a"
  by (induction rule: rtranclp_induct) (simp_all add: moves_allowed)

text \<open>A set of states closed under the table is never left.\<close>

lemma closed_stays:
  assumes "moves\<^sup>*\<^sup>* a b" and "P a" and "\<And>x y. P x \<Longrightarrow> y \<in> set (allowed x) \<Longrightarrow> P y"
  shows "P b"
  using assms(1,2) by (induction rule: rtranclp_induct) (auto simp: moves_allowed intro: assms(3))

text \<open>Moves that lower a rank are bounded in number by it.\<close>

fun run :: "'s \<Rightarrow> 's list \<Rightarrow> 's result" where
  "run a [] = Inr a"
| "run a (b # bs) = bind_result (move a b) (\<lambda>c. run c bs)"

lemma run_bounded:
  assumes "\<And>x y. y \<in> set (allowed x) \<Longrightarrow> rank y < (rank x :: nat)"
  shows "run a bs = Inr c \<Longrightarrow> length bs + rank c \<le> rank a"
proof (induction bs arbitrary: a)
  case Nil
  then show ?case by simp
next
  case (Cons b bs)
  then have "b \<in> set (allowed a)" "run b bs = Inr c" by (auto simp: monad_simps move_iff)
  with Cons.IH [of b] assms [of b a] show ?case by simp
qed

lemma run_moves: "run a bs = Inr c \<Longrightarrow> moves\<^sup>*\<^sup>* a c"
  by (induction bs arbitrary: a)
    (auto simp: monad_simps move_iff intro: converse_rtranclp_into_rtranclp)

end

end
