(* ===== verification/Jobs.thy ===== *)
theory Jobs
  imports Identity Tables Lifecycles
begin

text \<open>
  The research job queue: \<^verbatim>\<open>production/contracts.py\<close> (\<open>JobPolicy\<close>, \<open>ResearchJob\<close>),
  \<^verbatim>\<open>jobs/contracts.py\<close>, \<^verbatim>\<open>jobs/lifecycle.py\<close> and \<^verbatim>\<open>jobs/postgresql.py\<close>, over the
  tables of \<^verbatim>\<open>002_production_foundation_v0_5.sql\<close>. Times are whole seconds. A method is one
  transaction: it returns a result and the new database, or raises and leaves the old one.
  Rows that another transaction has locked (\<^verbatim>\<open>SKIP LOCKED\<close>) are the argument \<open>locked\<close>,
  the token of \<^verbatim>\<open>secrets.token_urlsafe\<close> and the SHA-256 hex digest are arguments too.
\<close>

section \<open>production/contracts.py\<close>

datatype job_status = QUEUED | RUNNING | RETRY_WAIT | COMPLETED | PARTIAL | FAILED | CANCELLED | DEAD_LETTER

fun job_status_value :: "job_status \<Rightarrow> string" where
  "job_status_value QUEUED = ''QUEUED''"
| "job_status_value RUNNING = ''RUNNING''"
| "job_status_value RETRY_WAIT = ''RETRY_WAIT''"
| "job_status_value COMPLETED = ''COMPLETED''"
| "job_status_value PARTIAL = ''PARTIAL''"
| "job_status_value FAILED = ''FAILED''"
| "job_status_value CANCELLED = ''CANCELLED''"
| "job_status_value DEAD_LETTER = ''DEAD_LETTER''"

record job_policy =
  max_attempts :: int
  lease_seconds :: int
  base_backoff_seconds :: int
  maximum_backoff_seconds :: int

definition default_policy :: job_policy where
  "default_policy = \<lparr>max_attempts = 5, lease_seconds = 60, base_backoff_seconds = 5,
     maximum_backoff_seconds = 300\<rparr>"

definition job_policy_post_init :: "job_policy \<Rightarrow> unit result" where
  "job_policy_post_init p =
     bind_result (ensure (1 \<le> max_attempts p \<and> max_attempts p \<le> 20)
       (ValueError ''INVALID_JOB_ATTEMPT_LIMIT'')) (\<lambda>_.
     bind_result (ensure (5 \<le> lease_seconds p \<and> lease_seconds p \<le> 3600)
       (ValueError ''INVALID_JOB_LEASE'')) (\<lambda>_.
     ensure (1 \<le> base_backoff_seconds p \<and> base_backoff_seconds p \<le> maximum_backoff_seconds p \<and>
         maximum_backoff_seconds p \<le> 86400)
       (ValueError ''INVALID_JOB_BACKOFF'')))"

record research_job =
  jb_job_id :: string
  jb_tenant_id :: string
  jb_run_id :: string
  jb_correlation_id :: string
  jb_payload_hash :: string
  jb_status :: job_status
  jb_attempts :: int
  jb_available_at :: int
  jb_created_at :: int
  jb_updated_at :: int
  jb_lease_hash :: "string option"
  jb_lease_expires_at :: "int option"

definition job_id_ok :: "string \<Rightarrow> bool" where
  "job_id_ok s = id_fullmatch ''._:-'' 255 s"

definition research_job_post_init :: "research_job \<Rightarrow> research_job result" where
  "research_job_post_init j =
     bind_result (ensure (list_all job_id_ok [jb_job_id j, jb_tenant_id j, jb_run_id j, jb_correlation_id j])
       (ValueError ''INVALID_JOB_IDENTITY'')) (\<lambda>_.
     bind_result (ensure (py_startswith (jb_payload_hash j) ''sha256:'' \<and> length (jb_payload_hash j) = 71)
       (ValueError ''INVALID_JOB_PAYLOAD_HASH'')) (\<lambda>_.
     bind_result (ensure (0 \<le> jb_attempts j) (ValueError ''INVALID_JOB_ATTEMPT_COUNT'')) (\<lambda>_.
     bind_result (ensure ((jb_lease_hash j = None) = (jb_lease_expires_at j = None))
       (ValueError ''INCOMPLETE_JOB_LEASE'')) (\<lambda>_.
     Inr j))))"

section \<open>jobs/contracts.py and jobs/lifecycle.py\<close>

definition LeaseToken :: "string \<Rightarrow> string result" where
  "LeaseToken v = bind_result (ensure (12 \<le> length v) (ValueError ''INVALID_LEASE_TOKEN'')) (\<lambda>_. Inr v)"

text \<open>\<^verbatim>\<open>_ALLOWED\<close>; a cancelled job has no entry.\<close>

fun job_allowed :: "job_status \<Rightarrow> job_status list" where
  "job_allowed QUEUED = [RUNNING, CANCELLED]"
| "job_allowed RETRY_WAIT = [RUNNING, CANCELLED]"
| "job_allowed RUNNING = [COMPLETED, PARTIAL, RETRY_WAIT, FAILED, CANCELLED, DEAD_LETTER]"
| "job_allowed COMPLETED = [QUEUED]"
| "job_allowed PARTIAL = [QUEUED]"
| "job_allowed FAILED = [QUEUED]"
| "job_allowed DEAD_LETTER = [QUEUED]"
| "job_allowed CANCELLED = []"

definition job_transition :: "job_status \<Rightarrow> job_status \<Rightarrow> job_status result" where
  "job_transition source target =
     bind_result (ensure (target \<in> set (job_allowed source))
       (InvalidJobTransition (''INVALID_JOB_TRANSITION:'' @ job_status_value source @ '':''
          @ job_status_value target))) (\<lambda>_. Inr target)"

interpretation job: lifecycle job_allowed job_transition
  by unfold_locales (auto simp: job_transition_def monad_simps)

definition retry_delay :: "job_policy \<Rightarrow> int \<Rightarrow> int result" where
  "retry_delay p attempt_count =
     bind_result (ensure (1 \<le> attempt_count) (ValueError ''INVALID_JOB_ATTEMPT_COUNT'')) (\<lambda>_.
     let exponent = min (attempt_count - 1) 30 in
     Inr (min (maximum_backoff_seconds p) (base_backoff_seconds p * 2 ^ nat exponent)))"

section \<open>Tables\<close>

record job_row = research_job +
  jb_last_error :: "string option"

definition row_to_job :: "job_row \<Rightarrow> research_job result" where
  "row_to_job r = research_job_post_init (research_job.truncate r)"

record job_event =
  je_tenant_id :: string
  je_job_id :: string
  je_event_id :: string
  je_sequence :: nat
  je_event_type :: string
  je_run_id :: string
  je_correlation_id :: string
  je_occurred_at :: int
  je_worker_id :: "string option"
  je_reason_code :: "string option"

text \<open>A research run as the queue sees it: its keys and its JSON.\<close>

record run_row =
  rn_tenant_id :: string
  rn_run_id :: string
  rn_decision_file_id :: string
  rn_fingerprint :: string
  rn_status :: string
  rn_json :: string

record job_db =
  jobs :: "job_row list"
  job_events :: "job_event list"
  runs :: "run_row list"
  budget_usage :: "(string \<times> string \<times> int) list"
  runtime_limits :: "string \<Rightarrow> int option"

abbreviation job_key :: "job_row \<Rightarrow> string \<times> string" where
  "job_key r \<equiv> (jb_tenant_id r, jb_job_id r)"

abbreviation job_run_key :: "job_row \<Rightarrow> string \<times> string" where
  "job_run_key r \<equiv> (jb_tenant_id r, jb_run_id r)"

abbreviation run_key :: "run_row \<Rightarrow> string \<times> string" where
  "run_key r \<equiv> (rn_tenant_id r, rn_run_id r)"

abbreviation run_fingerprint_key :: "run_row \<Rightarrow> string \<times> string" where
  "run_fingerprint_key r \<equiv> (rn_tenant_id r, rn_fingerprint r)"

section \<open>PostgresJobRepository\<close>

definition lease_hash :: "(string \<Rightarrow> string) \<Rightarrow> string \<Rightarrow> string" where
  "lease_hash sha token = ''sha256:'' @ sha token"

text \<open>\<^verbatim>\<open>_append_event\<close>: the next sequence number of the job.\<close>

definition max_sequence :: "string \<Rightarrow> string \<Rightarrow> job_event list \<Rightarrow> nat" where
  "max_sequence t j es =
     foldr max (map je_sequence (filter (\<lambda>e. je_tenant_id e = t \<and> je_job_id e = j) es)) 0"

definition append_job_event ::
  "research_job \<Rightarrow> string \<Rightarrow> int \<Rightarrow> string option \<Rightarrow> string option \<Rightarrow> job_db \<Rightarrow> job_db" where
  "append_job_event job event_type occurred_at worker reason db =
     (let sequence = max_sequence (jb_tenant_id job) (jb_job_id job) (job_events db) + 1;
          event_id = jb_job_id job @ '':'' @ str_nat sequence;
          event = \<lparr>je_tenant_id = jb_tenant_id job, je_job_id = jb_job_id job, je_event_id = event_id,
            je_sequence = sequence, je_event_type = event_type, je_run_id = jb_run_id job,
            je_correlation_id = jb_correlation_id job, je_occurred_at = occurred_at,
            je_worker_id = worker, je_reason_code = reason\<rparr>
      in if \<exists>e \<in> set (job_events db). je_tenant_id e = jb_tenant_id job \<and>
              je_job_id e = jb_job_id job \<and> je_event_id e = event_id
         then db
         else db\<lparr>job_events := job_events db @ [event]\<rparr>)"

text \<open>
  \<^verbatim>\<open>INSERT ... ON CONFLICT (tenant_id, research_run_id) DO NOTHING\<close>: whether a row was
  inserted, and the database.
\<close>

definition new_job_row :: "research_job \<Rightarrow> job_row" where
  "new_job_row job = research_job.extend
     (job\<lparr>jb_lease_hash := None, jb_lease_expires_at := None\<rparr>) \<lparr>jb_last_error = None\<rparr>"

definition insert_job :: "research_job \<Rightarrow> job_db \<Rightarrow> (bool \<times> job_db) result" where
  "insert_job job db =
     (let row = new_job_row job in
      if job_run_key row \<in> job_run_key ` set (jobs db) then Inr (False, db)
      else if job_run_key row \<notin> run_key ` set (runs db) then Inl IntegrityError
      else bind_result (row_insert job_key row (jobs db)) (\<lambda>rows. Inr (True, db\<lparr>jobs := rows\<rparr>)))"

definition select_by_run :: "string \<Rightarrow> string \<Rightarrow> string \<Rightarrow> job_db \<Rightarrow> research_job result" where
  "select_by_run message t run_id db =
     (case row_find job_run_key (t, run_id) (jobs db) of
        None \<Rightarrow> Inl (RuntimeError message) | Some r \<Rightarrow> row_to_job r)"

definition job_enqueue :: "string \<Rightarrow> research_job \<Rightarrow> job_db \<Rightarrow> (research_job \<times> job_db) result" where
  "job_enqueue t job db =
     bind_result (ensure (t = jb_tenant_id job \<and> jb_status job = QUEUED) (ValueError ''INVALID_JOB_ENQUEUE'')) (\<lambda>_.
     bind_result (insert_job job db) (\<lambda>(inserted, db1).
     bind_result (select_by_run ''JOB_ENQUEUE_CONVERGENCE_FAILED'' t (jb_run_id job) db1) (\<lambda>existing.
     bind_result (ensure (jb_payload_hash existing = jb_payload_hash job)
       (JobConflict ''JOB_PAYLOAD_CONFLICT'')) (\<lambda>_.
     Inr (existing,
       if inserted then append_job_event existing ''JOB_QUEUED'' (jb_updated_at job) None None db1
       else db1)))))"

text \<open>
  \<^verbatim>\<open>UPDATE ... WHERE tenant_id = ? AND job_id = ? AND p RETURNING *\<close>: the row after the
  update, where one matched.
\<close>

definition update_job ::
  "string \<Rightarrow> string \<Rightarrow> (job_row \<Rightarrow> bool) \<Rightarrow> (job_row \<Rightarrow> job_row) \<Rightarrow> job_db \<Rightarrow> (job_row option \<times> job_db)" where
  "update_job t j p f db =
     (case row_find job_key (t, j) (jobs db) of
        None \<Rightarrow> (None, db)
      | Some r \<Rightarrow> if p r then (Some (f r), db\<lparr>jobs := row_update job_key (t, j) f (jobs db)\<rparr>)
                   else (None, db))"

definition job_requeue ::
  "string \<Rightarrow> string \<Rightarrow> string \<Rightarrow> int \<Rightarrow> job_db \<Rightarrow> (research_job \<times> job_db) result" where
  "job_requeue t j correlation now db =
     (case update_job t j (\<lambda>r. jb_status r \<in> {COMPLETED, PARTIAL, FAILED, DEAD_LETTER})
             (\<lambda>r. r\<lparr>jb_status := QUEUED, jb_correlation_id := correlation, jb_attempts := 0,
                jb_available_at := now, jb_lease_hash := None, jb_lease_expires_at := None,
                jb_last_error := None, jb_updated_at := now\<rparr>) db of
        (None, _) \<Rightarrow>
          if (t, j) \<notin> job_key ` set (jobs db) then Inl (KeyError ''JOB_NOT_FOUND'')
          else Inl (ValueError ''JOB_NOT_RETRYABLE'')
      | (Some r, db1) \<Rightarrow>
          bind_result (row_to_job r) (\<lambda>job.
          Inr (job, append_job_event job ''JOB_REQUEUED'' now None None db1)))"

definition job_submit ::
  "string \<Rightarrow> run_row \<Rightarrow> research_job \<Rightarrow> job_db \<Rightarrow> ((run_row \<times> research_job \<times> bool) \<times> job_db) result" where
  "job_submit t run job db =
     bind_result (ensure (t = rn_tenant_id run \<and> t = jb_tenant_id job) (ValueError ''TENANT_MISMATCH'')) (\<lambda>_.
     bind_result (ensure (rn_run_id run = jb_run_id job \<and> jb_status job = QUEUED)
       (ValueError ''INVALID_RESEARCH_JOB_SUBMISSION'')) (\<lambda>_.
     let inserted_run = run_fingerprint_key run \<notin> run_fingerprint_key ` set (runs db) in
     bind_result (if inserted_run then row_insert run_key run (runs db) else Inr (runs db)) (\<lambda>run_rows.
     case row_find run_fingerprint_key (t, rn_fingerprint run) run_rows of
       None \<Rightarrow> Inl (RuntimeError ''RESEARCH_SUBMISSION_CONVERGENCE_FAILED'')
     | Some stored_run \<Rightarrow>
         bind_result
           (if inserted_run
            then row_insert (\<lambda>(u, k, n). (u, k)) (t, rn_run_id stored_run, 0) (budget_usage db)
            else Inr (budget_usage db)) (\<lambda>budgets.
         let db1 = db\<lparr>runs := run_rows, budget_usage := budgets\<rparr> in
         bind_result (insert_job (job\<lparr>jb_run_id := rn_run_id stored_run\<rparr>) db1) (\<lambda>(inserted_job, db2).
         bind_result (select_by_run ''JOB_SUBMISSION_CONVERGENCE_FAILED'' t (rn_run_id stored_run) db2) (\<lambda>stored_job.
         bind_result (ensure (jb_payload_hash stored_job = jb_payload_hash job)
           (JobConflict ''JOB_PAYLOAD_CONFLICT'')) (\<lambda>_.
         Inr ((stored_run, stored_job, \<not> inserted_run \<or> \<not> inserted_job),
           if inserted_job then append_job_event stored_job ''JOB_QUEUED'' (jb_updated_at job) None None db2
           else db2))))))))"

text \<open>Running jobs of a tenant, and the limit that applies to it.\<close>

definition running_count :: "string \<Rightarrow> job_db \<Rightarrow> int" where
  "running_count t db = int (length (filter (\<lambda>r. jb_tenant_id r = t \<and> jb_status r = RUNNING) (jobs db)))"

definition job_limit :: "string \<Rightarrow> job_db \<Rightarrow> int" where
  "job_limit t db = (case runtime_limits db t of None \<Rightarrow> 2 | Some n \<Rightarrow> n)"

definition claimable :: "int \<Rightarrow> (string \<times> string) list \<Rightarrow> job_db \<Rightarrow> job_row \<Rightarrow> bool" where
  "claimable now locked db r =
     (jb_status r \<in> {QUEUED, RETRY_WAIT} \<and> jb_available_at r \<le> now \<and>
      running_count (jb_tenant_id r) db < job_limit (jb_tenant_id r) db \<and>
      job_key r \<notin> set locked)"

definition claim_candidate :: "int \<Rightarrow> (string \<times> string) list \<Rightarrow> job_db \<Rightarrow> job_row option" where
  "claim_candidate now locked db =
     (case sort_key (\<lambda>r. (jb_available_at r, jb_created_at r, jb_tenant_id r, jb_job_id r))
             (filter (claimable now locked db) (jobs db)) of
        [] \<Rightarrow> None | r # _ \<Rightarrow> Some r)"

definition claimed_row :: "(string \<Rightarrow> string) \<Rightarrow> job_policy \<Rightarrow> string \<Rightarrow> int \<Rightarrow> job_row \<Rightarrow> job_row" where
  "claimed_row sha policy lease now r =
     r\<lparr>jb_status := RUNNING, jb_attempts := jb_attempts r + 1,
       jb_lease_hash := Some (lease_hash sha lease),
       jb_lease_expires_at := Some (now + lease_seconds policy), jb_updated_at := now\<rparr>"

definition job_claim ::
  "(string \<Rightarrow> string) \<Rightarrow> job_policy \<Rightarrow> string \<Rightarrow> (string \<times> string) list \<Rightarrow> string \<Rightarrow> int \<Rightarrow> job_db \<Rightarrow>
   ((research_job \<times> string) option \<times> job_db) result" where
  "job_claim sha policy token locked worker now db =
     bind_result (ensure (\<not> blank worker) (ValueError ''INVALID_WORKER_ID'')) (\<lambda>_.
     bind_result (LeaseToken token) (\<lambda>lease.
     case claim_candidate now locked db of
       None \<Rightarrow> Inr (None, db)
     | Some r \<Rightarrow>
         let db1 = db\<lparr>jobs := row_update job_key (job_key r) (claimed_row sha policy lease now) (jobs db)\<rparr> in
         bind_result (row_to_job (claimed_row sha policy lease now r)) (\<lambda>job.
         Inr (Some (job, lease), append_job_event job ''JOB_CLAIMED'' now (Some worker) None db1))))"

text \<open>The lease condition of the worker's updates.\<close>

definition holds_lease :: "(string \<Rightarrow> string) \<Rightarrow> string \<Rightarrow> int \<Rightarrow> job_row \<Rightarrow> bool" where
  "holds_lease sha token now r =
     (jb_status r = RUNNING \<and> jb_lease_hash r = Some (lease_hash sha token) \<and>
      (case jb_lease_expires_at r of None \<Rightarrow> False | Some e \<Rightarrow> e > now))"

abbreviation lease_rejected :: exn where
  "lease_rejected \<equiv> LeaseRejected ''INVALID_OR_EXPIRED_LEASE''"

definition job_heartbeat ::
  "(string \<Rightarrow> string) \<Rightarrow> job_policy \<Rightarrow> string \<Rightarrow> string \<Rightarrow> string \<Rightarrow> int \<Rightarrow> job_db \<Rightarrow> job_db result" where
  "job_heartbeat sha policy t j token now db =
     (case update_job t j (holds_lease sha token now)
             (\<lambda>r. r\<lparr>jb_lease_expires_at := Some (now + lease_seconds policy), jb_updated_at := now\<rparr>) db of
        (None, _) \<Rightarrow> Inl lease_rejected
      | (Some _, db1) \<Rightarrow> Inr db1)"

definition job_complete ::
  "(string \<Rightarrow> string) \<Rightarrow> string \<Rightarrow> string \<Rightarrow> string \<Rightarrow> bool \<Rightarrow> int \<Rightarrow> job_db \<Rightarrow> job_db result" where
  "job_complete sha t j token partial now db =
     (let target = (if partial then PARTIAL else COMPLETED) in
      case update_job t j (holds_lease sha token now)
             (\<lambda>r. r\<lparr>jb_status := target, jb_lease_hash := None, jb_lease_expires_at := None,
                jb_updated_at := now\<rparr>) db of
        (None, _) \<Rightarrow> Inl lease_rejected
      | (Some r, db1) \<Rightarrow>
          bind_result (row_to_job r) (\<lambda>job.
          Inr (append_job_event job (''JOB_'' @ job_status_value target) now None None db1)))"

text \<open>Where a failed or abandoned attempt leads: the next status and the delay.\<close>

definition failure_target :: "job_policy \<Rightarrow> bool \<Rightarrow> int \<Rightarrow> (job_status \<times> int) result" where
  "failure_target policy retryable attempts =
     (if retryable \<and> attempts < max_attempts policy
      then bind_result (retry_delay policy attempts) (\<lambda>d. Inr (RETRY_WAIT, d))
      else if retryable then Inr (DEAD_LETTER, 0)
      else Inr (FAILED, 0))"

definition failed_row :: "job_status \<Rightarrow> int \<Rightarrow> string \<Rightarrow> int \<Rightarrow> job_row \<Rightarrow> job_row" where
  "failed_row target delay reason now r =
     r\<lparr>jb_status := target, jb_available_at := now + delay, jb_lease_hash := None,
       jb_lease_expires_at := None, jb_last_error := Some reason, jb_updated_at := now\<rparr>"

definition job_fail ::
  "(string \<Rightarrow> string) \<Rightarrow> job_policy \<Rightarrow> string \<Rightarrow> string \<Rightarrow> string \<Rightarrow> string \<Rightarrow> bool \<Rightarrow> int \<Rightarrow> job_db \<Rightarrow>
   job_db result" where
  "job_fail sha policy t j token reason retryable now db =
     bind_result (ensure (reason \<noteq> [] \<and> length reason \<le> 128) (ValueError ''INVALID_JOB_FAILURE_REASON'')) (\<lambda>_.
     case row_find job_key (t, j) (jobs db) of
       None \<Rightarrow> Inl lease_rejected
     | Some current \<Rightarrow>
         bind_result (ensure (holds_lease sha token now current) lease_rejected) (\<lambda>_.
         bind_result (failure_target policy retryable (jb_attempts current)) (\<lambda>(target, delay).
         case update_job t j (\<lambda>r. True) (failed_row target delay reason now) db of
           (None, _) \<Rightarrow> Inl (RuntimeError ''JOB_FAILURE_UPDATE_FAILED'')
         | (Some r, db1) \<Rightarrow>
             bind_result (row_to_job r) (\<lambda>job.
             Inr (append_job_event job (''JOB_'' @ job_status_value target) now None (Some reason) db1)))))"

definition job_cancel :: "string \<Rightarrow> string \<Rightarrow> int \<Rightarrow> job_db \<Rightarrow> (research_job \<times> job_db) result" where
  "job_cancel t j now db =
     (case row_find job_key (t, j) (jobs db) of
        None \<Rightarrow> Inl (KeyError ''JOB_NOT_FOUND'')
      | Some current \<Rightarrow>
          bind_result (row_to_job current) (\<lambda>job.
          if jb_status job \<in> {COMPLETED, PARTIAL, FAILED, DEAD_LETTER, CANCELLED} then Inr (job, db)
          else case update_job t j (\<lambda>r. True)
                 (\<lambda>r. r\<lparr>jb_status := CANCELLED, jb_lease_hash := None, jb_lease_expires_at := None,
                    jb_updated_at := now\<rparr>) db of
              (None, _) \<Rightarrow> Inl (RuntimeError ''JOB_CANCELLATION_FAILED'')
            | (Some r, db1) \<Rightarrow>
                bind_result (row_to_job r) (\<lambda>cancelled.
                Inr (cancelled, append_job_event cancelled ''JOB_CANCELLED'' now None None db1))))"

definition stale :: "int \<Rightarrow> (string \<times> string) list \<Rightarrow> job_row \<Rightarrow> bool" where
  "stale now locked r =
     (jb_status r = RUNNING \<and> (case jb_lease_expires_at r of None \<Rightarrow> False | Some e \<Rightarrow> e \<le> now) \<and>
      job_key r \<notin> set locked)"

fun recover_rows :: "job_policy \<Rightarrow> int \<Rightarrow> job_row list \<Rightarrow> job_db \<Rightarrow> (nat \<times> job_db) result" where
  "recover_rows policy now [] db = Inr (0, db)"
| "recover_rows policy now (current # rest) db =
     bind_result (failure_target policy True (jb_attempts current)) (\<lambda>(target, delay).
     case update_job (jb_tenant_id current) (jb_job_id current) (\<lambda>r. True)
            (failed_row target delay ''STALE_LEASE_RECOVERED'' now) db of
       (None, _) \<Rightarrow> recover_rows policy now rest db
     | (Some r, db1) \<Rightarrow>
         bind_result (row_to_job r) (\<lambda>job.
         bind_result (recover_rows policy now rest
           (append_job_event job ''JOB_STALE_LEASE_RECOVERED'' now None None db1)) (\<lambda>(n, db2).
         Inr (Suc n, db2))))"

definition job_recover_stale ::
  "job_policy \<Rightarrow> (string \<times> string) list \<Rightarrow> int \<Rightarrow> job_db \<Rightarrow> (nat \<times> job_db) result" where
  "job_recover_stale policy locked now db =
     recover_rows policy now
       (sort_key (\<lambda>r. case jb_lease_expires_at r of None \<Rightarrow> 0 | Some e \<Rightarrow> e)
         (filter (stale now locked) (jobs db))) db"

definition job_is_cancelled :: "string \<Rightarrow> string \<Rightarrow> job_db \<Rightarrow> bool" where
  "job_is_cancelled t j db =
     (case row_find job_key (t, j) (jobs db) of None \<Rightarrow> False | Some r \<Rightarrow> jb_status r = CANCELLED)"

text \<open>\<^verbatim>\<open>queued_count\<close>, by the database function \<^verbatim>\<open>da_research_queue_depth\<close> of migration 004.\<close>

definition job_queued_count :: "job_db \<Rightarrow> int" where
  "job_queued_count db = int (length (filter (\<lambda>r. jb_status r \<in> {QUEUED, RETRY_WAIT}) (jobs db)))"

end
