(* ===== verification/JobQueue.thy ===== *)
theory JobQueue
  imports Jobs
begin

text \<open>
  The job queue as a state machine: \<open>job_step\<close> is one method of the repository that
  returned, \<open>rows_step\<close> what it does to the rows. The invariant covers leases, attempts,
  statuses, the per-tenant limit on running jobs and the event log. A new job comes with no
  attempts: the repository does not check it, its only caller,
  \<^verbatim>\<open>web_research/service.py\<close>, passes zero.
\<close>

section \<open>Steps\<close>

inductive job_step :: "(string \<Rightarrow> string) \<Rightarrow> job_policy \<Rightarrow> job_db \<Rightarrow> job_db \<Rightarrow> bool" for sha policy where
  step_enqueue: "jb_attempts job = 0 \<Longrightarrow> job_enqueue t job db = Inr (x, db') \<Longrightarrow> job_step sha policy db db'"
| step_requeue: "job_requeue t j c now db = Inr (x, db') \<Longrightarrow> job_step sha policy db db'"
| step_submit: "jb_attempts job = 0 \<Longrightarrow> job_submit t run job db = Inr (x, db') \<Longrightarrow> job_step sha policy db db'"
| step_claim: "job_claim sha policy token locked worker now db = Inr (x, db') \<Longrightarrow> job_step sha policy db db'"
| step_heartbeat: "job_heartbeat sha policy t j token now db = Inr db' \<Longrightarrow> job_step sha policy db db'"
| step_complete: "job_complete sha t j token partial now db = Inr db' \<Longrightarrow> job_step sha policy db db'"
| step_fail: "job_fail sha policy t j token reason retryable now db = Inr db' \<Longrightarrow> job_step sha policy db db'"
| step_cancel: "job_cancel t j now db = Inr (x, db') \<Longrightarrow> job_step sha policy db db'"
| step_recover: "job_recover_stale policy locked now db = Inr (n, db') \<Longrightarrow> job_step sha policy db db'"

text \<open>One change of one row: \<open>r\<close> becomes \<open>r'\<close>. The lease hash says which claim did it.\<close>

inductive row_change :: "job_policy \<Rightarrow> job_row \<Rightarrow> job_row \<Rightarrow> bool" for policy where
  claimed: "jb_status r \<in> {QUEUED, RETRY_WAIT} \<Longrightarrow>
    row_change policy r (r\<lparr>jb_status := RUNNING, jb_attempts := jb_attempts r + 1,
      jb_lease_hash := Some h, jb_lease_expires_at := Some e, jb_updated_at := now\<rparr>)"
| extended: "jb_status r = RUNNING \<Longrightarrow>
    row_change policy r (r\<lparr>jb_lease_expires_at := Some e, jb_updated_at := now\<rparr>)"
| finished: "jb_status r = RUNNING \<Longrightarrow> target \<in> {COMPLETED, PARTIAL} \<Longrightarrow>
    row_change policy r (r\<lparr>jb_status := target, jb_lease_hash := None, jb_lease_expires_at := None,
      jb_updated_at := now\<rparr>)"
| failed: "jb_status r = RUNNING \<Longrightarrow> failure_target policy retryable (jb_attempts r) = Inr (target, delay) \<Longrightarrow>
    row_change policy r (failed_row target delay reason now r)"
| cancelled: "jb_status r \<in> {QUEUED, RETRY_WAIT, RUNNING} \<Longrightarrow>
    row_change policy r (r\<lparr>jb_status := CANCELLED, jb_lease_hash := None, jb_lease_expires_at := None,
      jb_updated_at := now\<rparr>)"
| requeued: "jb_status r \<in> {COMPLETED, PARTIAL, FAILED, DEAD_LETTER} \<Longrightarrow>
    row_change policy r (r\<lparr>jb_status := QUEUED, jb_correlation_id := c, jb_attempts := 0,
      jb_available_at := now, jb_lease_hash := None, jb_lease_expires_at := None,
      jb_last_error := None, jb_updated_at := now\<rparr>)"

definition running_rows :: "string \<Rightarrow> job_row list \<Rightarrow> int" where
  "running_rows t rows = int (length (filter (\<lambda>r. jb_tenant_id r = t \<and> jb_status r = RUNNING) rows))"

definition limit_of :: "(string \<Rightarrow> int option) \<Rightarrow> string \<Rightarrow> int" where
  "limit_of limits t = (case limits t of None \<Rightarrow> 2 | Some n \<Rightarrow> n)"

inductive rows_step :: "job_policy \<Rightarrow> (string \<Rightarrow> int option) \<Rightarrow> job_row list \<Rightarrow> job_row list \<Rightarrow> bool"
  for policy limits where
  rows_add: "job_key r \<notin> job_key ` set rows \<Longrightarrow> job_run_key r \<notin> job_run_key ` set rows \<Longrightarrow>
    jb_status r = QUEUED \<Longrightarrow> jb_attempts r = 0 \<Longrightarrow> jb_lease_hash r = None \<Longrightarrow>
    jb_lease_expires_at r = None \<Longrightarrow> rows_step policy limits rows (rows @ [r])"
| rows_change: "row_find job_key k rows = Some r \<Longrightarrow> row_change policy r (f r) \<Longrightarrow>
    (\<And>x. job_key (f x) = job_key x) \<Longrightarrow>
    (jb_status r \<noteq> RUNNING \<Longrightarrow> jb_status (f r) = RUNNING \<Longrightarrow>
       running_rows (jb_tenant_id r) rows < limit_of limits (jb_tenant_id r)) \<Longrightarrow>
    rows_step policy limits rows (row_update job_key k f rows)"

section \<open>The event log\<close>

definition own_events :: "string \<Rightarrow> string \<Rightarrow> job_event list \<Rightarrow> job_event list" where
  "own_events t j es = filter (\<lambda>e. je_tenant_id e = t \<and> je_job_id e = j) es"

text \<open>Every job numbers its events 1, 2, 3, ... without a gap and names them after the number.\<close>

definition events_ok :: "job_event list \<Rightarrow> bool" where
  "events_ok es = (\<forall>t j. map je_sequence (own_events t j es) = [1..<Suc (length (own_events t j es))] \<and>
     (\<forall>e \<in> set (own_events t j es). je_event_id e = j @ '':'' @ str_nat (je_sequence e)))"

definition events_grow :: "job_db \<Rightarrow> job_db \<Rightarrow> bool" where
  "events_grow db db' =
     (events_ok (job_events db) \<longrightarrow>
        events_ok (job_events db') \<and> (\<exists>new. job_events db' = job_events db @ new))"

lemma max_upt: "foldr max [1..<Suc n] (0 :: nat) = n"
proof -
  have "foldr max xs (0 :: nat) = Max (insert 0 (set xs))" for xs
    by (induction xs) (auto simp: insert_commute Max_insert)
  then show ?thesis by (auto intro!: Max_eqI)
qed

lemma own_events_append: "own_events t j (es @ fs) = own_events t j es @ own_events t j fs"
  by (simp add: own_events_def)

lemma append_event_ok:
  assumes "events_ok (job_events db)"
    and s_def: "s = Suc (length (own_events (jb_tenant_id job) (jb_job_id job) (job_events db)))"
  shows "job_events (append_job_event job ty at w rs db) = job_events db @
      [\<lparr>je_tenant_id = jb_tenant_id job, je_job_id = jb_job_id job,
        je_event_id = jb_job_id job @ '':'' @ str_nat s, je_sequence = s, je_event_type = ty,
        je_run_id = jb_run_id job, je_correlation_id = jb_correlation_id job, je_occurred_at = at,
        je_worker_id = w, je_reason_code = rs\<rparr>]"
    and "events_ok (job_events (append_job_event job ty at w rs db))"
proof -
  let ?own = "own_events (jb_tenant_id job) (jb_job_id job) (job_events db)"
  have own: "map je_sequence ?own = [1..<s]"
    "\<And>e. e \<in> set ?own \<Longrightarrow> je_event_id e = jb_job_id job @ '':'' @ str_nat (je_sequence e)"
    using assms(1) unfolding events_ok_def s_def by blast+
  have m: "max_sequence (jb_tenant_id job) (jb_job_id job) (job_events db) + 1 = s"
    using own(1) max_upt [of "length ?own"] by (simp add: max_sequence_def own_events_def s_def)
  have "je_event_id e \<noteq> jb_job_id job @ '':'' @ str_nat s"
    if "e \<in> set (job_events db)" "je_tenant_id e = jb_tenant_id job" "je_job_id e = jb_job_id job" for e
  proof -
    have e: "e \<in> set ?own" using that by (simp add: own_events_def)
    then have "je_sequence e \<in> set [1..<s]" using own(1) by (metis image_eqI set_map)
    then show ?thesis using own(2) [OF e] by simp
  qed
  then have fresh: "\<not> (\<exists>e \<in> set (job_events db). je_tenant_id e = jb_tenant_id job \<and>
      je_job_id e = jb_job_id job \<and> je_event_id e = jb_job_id job @ '':'' @ str_nat s)" by blast
  show a: "job_events (append_job_event job ty at w rs db) = job_events db @
      [\<lparr>je_tenant_id = jb_tenant_id job, je_job_id = jb_job_id job,
        je_event_id = jb_job_id job @ '':'' @ str_nat s, je_sequence = s, je_event_type = ty,
        je_run_id = jb_run_id job, je_correlation_id = jb_correlation_id job, je_occurred_at = at,
        je_worker_id = w, je_reason_code = rs\<rparr>]"
    using fresh unfolding append_job_event_def m Let_def by simp
  show "events_ok (job_events (append_job_event job ty at w rs db))"
    using assms(1) own unfolding a events_ok_def own_events_append
    by (auto simp: own_events_def s_def)
qed

lemma events_grow_refl [simp]: "events_grow db db"
  by (simp add: events_grow_def)

lemma events_grow_trans: "events_grow a b \<Longrightarrow> events_grow b c \<Longrightarrow> events_grow a c"
  by (auto simp: events_grow_def)

lemma events_grow_append:
  "job_events db1 = job_events db \<Longrightarrow> events_grow db (append_job_event job ty at w rs db1)"
  unfolding events_grow_def using append_event_ok [of db1 _ job ty at w rs, OF _ refl] by auto

lemma events_grow_frame: "job_events db' = job_events db \<Longrightarrow> events_grow db db'"
  by (simp add: events_grow_def)

section \<open>What the methods do to the rows\<close>

lemma append_job_event_simps [simp]:
  "jobs (append_job_event job ty at w rs db) = jobs db"
  "runs (append_job_event job ty at w rs db) = runs db"
  "runtime_limits (append_job_event job ty at w rs db) = runtime_limits db"
  by (simp_all add: append_job_event_def Let_def)

lemma new_job_row_simps [simp]:
  "jb_status (new_job_row job) = jb_status job" "jb_attempts (new_job_row job) = jb_attempts job"
  "jb_lease_hash (new_job_row job) = None" "jb_lease_expires_at (new_job_row job) = None"
  "jb_tenant_id (new_job_row job) = jb_tenant_id job" "jb_job_id (new_job_row job) = jb_job_id job"
  "jb_run_id (new_job_row job) = jb_run_id job" "jb_payload_hash (new_job_row job) = jb_payload_hash job"
  by (simp_all add: new_job_row_def research_job.defs)

lemma row_to_job_Inr:
  "row_to_job r = Inr j \<Longrightarrow> j = research_job.truncate r"
  by (auto simp: row_to_job_def research_job_post_init_def monad_simps)

lemma truncate_simps [simp]:
  "jb_status (research_job.truncate r) = jb_status r"
  "jb_payload_hash (research_job.truncate r) = jb_payload_hash r"
  "jb_tenant_id (research_job.truncate r) = jb_tenant_id r"
  "jb_job_id (research_job.truncate r) = jb_job_id r"
  by (simp_all add: research_job.defs)

lemma insert_job_rows:
  assumes "insert_job job db = Inr (ins, db')" and "jb_status job = QUEUED" and "jb_attempts job = 0"
  shows "(if ins then rows_step policy (runtime_limits db) (jobs db) (jobs db') else jobs db' = jobs db)"
    and "runtime_limits db' = runtime_limits db"
proof -
  have "rows_step policy (runtime_limits db) (jobs db) (jobs db @ [new_job_row job])"
    if "job_key (new_job_row job) \<notin> job_key ` set (jobs db)"
      "job_run_key (new_job_row job) \<notin> job_run_key ` set (jobs db)"
    using that assms(2,3) by (intro rows_add) simp_all
  with assms(1) show "(if ins then rows_step policy (runtime_limits db) (jobs db) (jobs db') else jobs db' = jobs db)"
    and "runtime_limits db' = runtime_limits db"
    by (auto simp: insert_job_def Let_def monad_simps row_insert_Inr_iff split: if_splits)
qed

lemma insert_job_events: "insert_job job db = Inr (ins, db') \<Longrightarrow> job_events db' = job_events db"
  by (auto simp: insert_job_def Let_def monad_simps split: if_splits)

lemma update_job_Some:
  assumes "update_job t j p f db = (Some r', db')"
  obtains r where "row_find job_key (t, j) (jobs db) = Some r" "p r" "r' = f r"
    "db' = db\<lparr>jobs := row_update job_key (t, j) f (jobs db)\<rparr>"
  using assms by (auto simp: update_job_def split: option.splits if_splits)

lemma running_count_rows: "running_count t db = running_rows t (jobs db)"
  by (simp add: running_count_def running_rows_def)

lemma job_limit_of: "job_limit t db = limit_of (runtime_limits db) t"
  by (simp add: job_limit_def limit_of_def)

lemma claim_candidate_Some:
  assumes "claim_candidate now locked db = Some r"
  shows "r \<in> set (jobs db)" and "claimable now locked db r"
proof -
  let ?k = "\<lambda>r. (jb_available_at r, jb_created_at r, jb_tenant_id r, jb_job_id r)"
  from assms obtain rest where e: "sort_key ?k (filter (claimable now locked db) (jobs db)) = r # rest"
    by (auto simp: claim_candidate_def split: list.splits)
  have "r \<in> set (sort_key ?k (filter (claimable now locked db) (jobs db)))" unfolding e by simp
  then show "r \<in> set (jobs db)" and "claimable now locked db r" by simp_all
qed

definition queue_keys :: "job_db \<Rightarrow> bool" where
  "queue_keys db = (distinct (map job_key (jobs db)) \<and> distinct (map job_run_key (jobs db)))"

text \<open>A method whose row update is one change of the row it found.\<close>

lemma change_step:
  assumes "row_find job_key (t, j) (jobs db) = Some r"
    and "row_change policy r (f r)" and "\<And>x. job_key (f x) = job_key x"
    and "jb_status r \<noteq> RUNNING \<Longrightarrow> jb_status (f r) \<noteq> RUNNING"
  shows "rows_step policy limits (jobs db) (row_update job_key (t, j) f (jobs db))"
  using assms by (intro rows_change) auto

lemma enqueue_rows:
  assumes "job_enqueue t job db = Inr (x, db')" and "jb_attempts job = 0"
  shows "(rows_step policy (runtime_limits db))\<^sup>*\<^sup>* (jobs db) (jobs db')"
    and "runtime_limits db' = runtime_limits db"
proof -
  from assms(1) obtain ins db1 where i: "insert_job job db = Inr (ins, db1)" "jb_status job = QUEUED"
    and d: "jobs db' = jobs db1" "runtime_limits db' = runtime_limits db1"
    by (auto simp: job_enqueue_def monad_simps split: if_splits)
  from insert_job_rows(1) [where policy = policy, OF i(1,2) assms(2)] insert_job_rows(2) [OF i(1,2) assms(2)] d
  show "(rows_step policy (runtime_limits db))\<^sup>*\<^sup>* (jobs db) (jobs db')"
    and "runtime_limits db' = runtime_limits db"
    by (auto split: if_splits)
qed

lemma appended_event:
  assumes "Inr (y, if b then append_job_event j ty at w rs d else d) = (Inr (x, db') :: _ result)"
  shows "jobs db' = jobs d" and "runtime_limits db' = runtime_limits d" and "events_grow d db'"
  using assms events_grow_append [of d d] by (auto split: if_splits)

lemma submit_insert:
  assumes "job_submit t run job db = Inr (x, db')"
  obtains db1 rid ins db2 where "insert_job (job\<lparr>jb_run_id := rid\<rparr>) db1 = Inr (ins, db2)"
    "jobs db1 = jobs db" "runtime_limits db1 = runtime_limits db" "job_events db1 = job_events db"
    "jb_status job = QUEUED"
    "jobs db' = jobs db2" "runtime_limits db' = runtime_limits db2" "events_grow db2 db'"
proof -
  from assms have q: "jb_status job = QUEUED"
    by (auto simp: job_submit_def monad_simps)
  have "\<exists>run_rows stored budgets ins db2.
      insert_job (job\<lparr>jb_run_id := rn_run_id (stored :: run_row)\<rparr>) (db\<lparr>runs := run_rows, budget_usage := budgets\<rparr>) = Inr (ins, db2) \<and>
      jobs db' = jobs db2 \<and> runtime_limits db' = runtime_limits db2 \<and> events_grow db2 db'"
    using assms
    unfolding job_submit_def Let_def bind_result_Inr_iff case_option_Inr_iff case_prod_Inr_iff
    apply -
    apply (elim exE conjE)
    apply hypsubst
    apply (intro exI conjI)
       apply assumption
      apply (erule appended_event(1))
     apply (erule appended_event(2))
    apply (erule appended_event(3))
    done
  then obtain run_rows stored budgets ins db2 where
    i: "insert_job (job\<lparr>jb_run_id := rn_run_id (stored :: run_row)\<rparr>) (db\<lparr>runs := run_rows, budget_usage := budgets\<rparr>) = Inr (ins, db2)"
    and "jobs db' = jobs db2" "runtime_limits db' = runtime_limits db2" "events_grow db2 db'" by blast
  with q show ?thesis by (intro that [OF i]) simp_all
qed

lemma submit_rows:
  assumes "job_submit t run job db = Inr (x, db')" and "jb_attempts job = 0"
  shows "(rows_step policy (runtime_limits db))\<^sup>*\<^sup>* (jobs db) (jobs db')"
    and "runtime_limits db' = runtime_limits db"
proof -
  from assms(1) obtain db1 rid ins db2 where
    i: "insert_job (job\<lparr>jb_run_id := rid\<rparr>) db1 = Inr (ins, db2)"
    and db1: "jobs db1 = jobs db" "runtime_limits db1 = runtime_limits db"
    and q: "jb_status job = QUEUED"
    and d: "jobs db' = jobs db2" "runtime_limits db' = runtime_limits db2"
    by (rule submit_insert) simp_all
  from insert_job_rows(1) [where policy = policy, OF i] insert_job_rows(2) [OF i] assms(2) q d db1
  show "(rows_step policy (runtime_limits db))\<^sup>*\<^sup>* (jobs db) (jobs db')"
    and "runtime_limits db' = runtime_limits db"
    by (auto split: if_splits)
qed

lemma update_job_rows:
  assumes "update_job t j p f db = (Some r', db1)"
    and "\<And>r. row_find job_key (t, j) (jobs db) = Some r \<Longrightarrow> p r \<Longrightarrow>
           row_change policy r (f r) \<and> jb_status (f r) \<noteq> RUNNING"
    and "\<And>x. job_key (f x) = job_key x"
  shows "rows_step policy (runtime_limits db) (jobs db) (jobs db1)"
    and "runtime_limits db1 = runtime_limits db"
proof -
  from assms(1) obtain r where r: "row_find job_key (t, j) (jobs db) = Some r" "p r"
    and db1: "db1 = db\<lparr>jobs := row_update job_key (t, j) f (jobs db)\<rparr>"
    by (rule update_job_Some)
  from change_step [OF r(1) _ assms(3)] assms(2) [OF r] db1
  show "rows_step policy (runtime_limits db) (jobs db) (jobs db1)" by simp
  show "runtime_limits db1 = runtime_limits db" using db1 by simp
qed

lemma requeue_rows:
  assumes "job_requeue t j c now db = Inr (x, db')"
  shows "rows_step policy (runtime_limits db) (jobs db) (jobs db')"
    and "runtime_limits db' = runtime_limits db"
proof -
  from assms obtain r' db1 where u: "update_job t j (\<lambda>r. jb_status r \<in> {COMPLETED, PARTIAL, FAILED, DEAD_LETTER})
      (\<lambda>r. r\<lparr>jb_status := QUEUED, jb_correlation_id := c, jb_attempts := 0,
                jb_available_at := now, jb_lease_hash := None, jb_lease_expires_at := None,
                jb_last_error := None, jb_updated_at := now\<rparr>) db = (Some r', db1)"
    and d: "jobs db' = jobs db1" "runtime_limits db' = runtime_limits db1"
    by (auto simp: job_requeue_def monad_simps split: prod.splits option.splits if_splits)
  from update_job_rows [where policy = policy, OF u] requeued d
  show "rows_step policy (runtime_limits db) (jobs db) (jobs db')"
    and "runtime_limits db' = runtime_limits db" by simp_all
qed

lemma claim_rows:
  assumes "job_claim sha policy token locked worker now db = Inr (x, db')" and "queue_keys db"
  shows "(rows_step policy (runtime_limits db))\<^sup>*\<^sup>* (jobs db) (jobs db')"
    and "runtime_limits db' = runtime_limits db"
proof -
  have step: "rows_step policy (runtime_limits db) (jobs db)
      (row_update job_key (job_key r) (claimed_row sha policy token now) (jobs db))"
    if "claim_candidate now locked db = Some r" for r
  proof (rule rows_change)
    from claim_candidate_Some [OF that] assms(2) show "row_find job_key (job_key r) (jobs db) = Some r"
      by (auto simp: queue_keys_def intro: row_find_distinct [of job_key])
    from claim_candidate_Some(2) [OF that] show "row_change policy r (claimed_row sha policy token now r)"
      unfolding claimed_row_def by (intro claimed) (simp add: claimable_def)
    from claim_candidate_Some(2) [OF that]
    show "running_rows (jb_tenant_id r) (jobs db) < limit_of (runtime_limits db) (jb_tenant_id r)"
      by (simp add: claimable_def running_count_rows job_limit_of)
  qed (simp add: claimed_row_def)
  with assms(1) show "(rows_step policy (runtime_limits db))\<^sup>*\<^sup>* (jobs db) (jobs db')"
    and "runtime_limits db' = runtime_limits db"
    by (auto simp: job_claim_def LeaseToken_def Let_def monad_simps split: option.splits)
qed

lemma holds_lease_running: "holds_lease sha token now r \<Longrightarrow> jb_status r = RUNNING"
  by (simp add: holds_lease_def)

lemma heartbeat_rows:
  assumes "job_heartbeat sha policy t j token now db = Inr db'"
  shows "rows_step policy (runtime_limits db) (jobs db) (jobs db')"
    and "runtime_limits db' = runtime_limits db"
proof -
  let ?f = "\<lambda>r :: job_row. r\<lparr>jb_lease_expires_at := Some (now + lease_seconds policy), jb_updated_at := now\<rparr>"
  from assms obtain r where r: "row_find job_key (t, j) (jobs db) = Some r" "holds_lease sha token now r"
    and db': "db' = db\<lparr>jobs := row_update job_key (t, j) ?f (jobs db)\<rparr>"
    by (auto simp: job_heartbeat_def split: prod.splits option.splits elim!: update_job_Some)
  show "rows_step policy (runtime_limits db) (jobs db) (jobs db')" unfolding db'
    using r holds_lease_running [OF r(2)] by (simp, intro change_step extended) simp_all
  show "runtime_limits db' = runtime_limits db" using db' by simp
qed

lemma complete_rows:
  assumes "job_complete sha t j token partial now db = Inr db'"
  shows "rows_step policy (runtime_limits db) (jobs db) (jobs db')"
    and "runtime_limits db' = runtime_limits db"
proof -
  let ?f = "\<lambda>r :: job_row. r\<lparr>jb_status := if partial then PARTIAL else COMPLETED,
     jb_lease_hash := None, jb_lease_expires_at := None, jb_updated_at := now\<rparr>"
  from assms obtain r' db1 where u: "update_job t j (holds_lease sha token now) ?f db = (Some r', db1)"
    and d: "jobs db' = jobs db1" "runtime_limits db' = runtime_limits db1"
    by (auto simp: job_complete_def Let_def monad_simps split: prod.splits option.splits)
  from update_job_rows [where policy = policy, OF u] finished holds_lease_running d
  show "rows_step policy (runtime_limits db) (jobs db) (jobs db')"
    and "runtime_limits db' = runtime_limits db" by simp_all
qed

lemma fail_rows:
  assumes "job_fail sha policy t j token reason retryable now db = Inr db'"
  shows "rows_step policy (runtime_limits db) (jobs db) (jobs db')"
    and "runtime_limits db' = runtime_limits db"
proof -
  from assms obtain current target delay r' db1 where
    c: "row_find job_key (t, j) (jobs db) = Some current" "holds_lease sha token now current"
    and f: "failure_target policy retryable (jb_attempts current) = Inr (target, delay)"
    and u: "update_job t j (\<lambda>r. True) (failed_row target delay reason now) db = (Some r', db1)"
    and d: "jobs db' = jobs db1" "runtime_limits db' = runtime_limits db1"
    by (auto simp: job_fail_def monad_simps split: prod.splits option.splits)
  have "jb_status (failed_row target delay reason now r) \<noteq> RUNNING" for r
    using f by (auto simp: failed_row_def failure_target_def monad_simps split: if_splits)
  with update_job_rows [where policy = policy, OF u] failed [OF _ f] holds_lease_running [OF c(2)] c d
  show "rows_step policy (runtime_limits db) (jobs db) (jobs db')"
    and "runtime_limits db' = runtime_limits db" by (simp_all add: failed_row_def)
qed

lemma cancel_rows:
  assumes "job_cancel t j now db = Inr (x, db')"
  shows "(rows_step policy (runtime_limits db))\<^sup>*\<^sup>* (jobs db) (jobs db')"
    and "runtime_limits db' = runtime_limits db"
proof -
  let ?f = "\<lambda>r :: job_row. r\<lparr>jb_status := CANCELLED, jb_lease_hash := None, jb_lease_expires_at := None,
     jb_updated_at := now\<rparr>"
  from assms obtain current where c: "row_find job_key (t, j) (jobs db) = Some current"
    and j: "row_to_job current = Inr (research_job.truncate current)"
    by (auto simp: job_cancel_def monad_simps dest: row_to_job_Inr)
  show "(rows_step policy (runtime_limits db))\<^sup>*\<^sup>* (jobs db) (jobs db')"
    and "runtime_limits db' = runtime_limits db"
  proof (atomize (full), cases "jb_status current \<in> {COMPLETED, PARTIAL, FAILED, DEAD_LETTER, CANCELLED}")
    case True
    with assms c j show "(rows_step policy (runtime_limits db))\<^sup>*\<^sup>* (jobs db) (jobs db') \<and>
        runtime_limits db' = runtime_limits db"
      by (auto simp: job_cancel_def)
  next
    case False
    then have s: "jb_status current \<in> {QUEUED, RETRY_WAIT, RUNNING}" by (cases "jb_status current") auto
    from False assms c j obtain r' db1 where u: "update_job t j (\<lambda>r. True) ?f db = (Some r', db1)"
      and d: "jobs db' = jobs db1" "runtime_limits db' = runtime_limits db1"
      by (auto simp: job_cancel_def monad_simps split: prod.splits option.splits)
    from update_job_rows [where policy = policy, OF u] cancelled [OF s] c d
    show "(rows_step policy (runtime_limits db))\<^sup>*\<^sup>* (jobs db) (jobs db') \<and>
        runtime_limits db' = runtime_limits db"
      by auto
  qed
qed

lemma row_update_other:
  "row_find job_key k' rows = Some r \<Longrightarrow> k' \<noteq> k \<Longrightarrow> (\<And>x. job_key (f x) = job_key x) \<Longrightarrow>
     row_find job_key k' (row_update job_key k f rows) = Some r"
  by (subst row_update_find) simp_all

lemma recover_rows_steps:
  assumes "recover_rows policy now rest db = Inr (n, db')"
    and "distinct (map job_key rest)"
    and "\<And>r. r \<in> set rest \<Longrightarrow> row_find job_key (job_key r) (jobs db) = Some r \<and> jb_status r = RUNNING"
  shows "(rows_step policy (runtime_limits db))\<^sup>*\<^sup>* (jobs db) (jobs db') \<and>
    runtime_limits db' = runtime_limits db"
  using assms
proof (induction rest arbitrary: db n)
  case Nil
  then show ?case by simp
next
  case (Cons current rest)
  from Cons.prems(3) [of current] have
    c: "row_find job_key (job_key current) (jobs db) = Some current" "jb_status current = RUNNING" by simp_all
  from Cons.prems(1) c(1) obtain target delay db1 r' job db2 m where
    f: "failure_target policy True (jb_attempts current) = Inr (target, delay)"
    and u: "update_job (jb_tenant_id current) (jb_job_id current) (\<lambda>r. True)
        (failed_row target delay ''STALE_LEASE_RECOVERED'' now) db = (Some r', db1)"
    and r: "recover_rows policy now rest
        (append_job_event job ''JOB_STALE_LEASE_RECOVERED'' now None None db1) = Inr (m, db')"
    by (auto simp: update_job_def monad_simps split: prod.splits option.splits)
  have "jb_status (failed_row target delay ''STALE_LEASE_RECOVERED'' now r) \<noteq> RUNNING" for r
    using f by (auto simp: failed_row_def failure_target_def monad_simps split: if_splits)
  with update_job_rows [where policy = policy, OF u] failed [OF c(2) f] c
  have s: "rows_step policy (runtime_limits db) (jobs db) (jobs db1)"
    and l: "runtime_limits db1 = runtime_limits db" by (simp_all add: failed_row_def)
  from u have db1: "jobs db1 = row_update job_key (job_key current)
      (failed_row target delay ''STALE_LEASE_RECOVERED'' now) (jobs db)"
    by (auto elim: update_job_Some)
  have "row_find job_key (job_key r) (jobs db1) = Some r \<and> jb_status r = RUNNING" if "r \<in> set rest" for r
  proof -
    have "job_key r \<noteq> job_key current" using that Cons.prems(2) by (auto simp: image_iff)
    with Cons.prems(3) [of r] that show ?thesis unfolding db1
      by (auto intro!: row_update_other simp: failed_row_def)
  qed
  from Cons.IH [OF r] this Cons.prems(2) s l show ?case
    by (auto intro: converse_rtranclp_into_rtranclp)
qed

lemma recover_stale_rows:
  assumes "job_recover_stale policy locked now db = Inr (n, db')" and "queue_keys db"
  shows "(rows_step policy (runtime_limits db))\<^sup>*\<^sup>* (jobs db) (jobs db')"
    and "runtime_limits db' = runtime_limits db"
proof -
  have "distinct (map job_key (sort_key g (filter (stale now locked) (jobs db))))" for g :: "job_row \<Rightarrow> int"
  proof -
    have "distinct (map job_key (filter (stale now locked) (jobs db)))"
      using assms(2) by (simp add: queue_keys_def distinct_map_filter)
    then show ?thesis by (simp add: distinct_map)
  qed
  moreover have "row_find job_key (job_key r) (jobs db) = Some r \<and> jb_status r = RUNNING"
    if "r \<in> set (jobs db)" "stale now locked r" for r
    using that assms(2) by (auto simp: queue_keys_def stale_def intro: row_find_distinct [of job_key])
  ultimately show "(rows_step policy (runtime_limits db))\<^sup>*\<^sup>* (jobs db) (jobs db')"
    and "runtime_limits db' = runtime_limits db"
    using recover_rows_steps [OF assms(1) [unfolded job_recover_stale_def]] by simp_all
qed

theorem job_step_rows:
  assumes "job_step sha policy db db'" and "queue_keys db"
  shows "(rows_step policy (runtime_limits db))\<^sup>*\<^sup>* (jobs db) (jobs db') \<and>
    runtime_limits db' = runtime_limits db"
  using assms(1)
proof cases
  case step_enqueue
  from enqueue_rows [OF this(2,1)] show ?thesis by simp
next
  case step_requeue
  from requeue_rows [OF this] show ?thesis by auto
next
  case step_submit
  from submit_rows [OF this(2,1)] show ?thesis by simp
next
  case step_claim
  from claim_rows [OF this assms(2)] show ?thesis by simp
next
  case step_heartbeat
  from heartbeat_rows [OF this] show ?thesis by auto
next
  case step_complete
  from complete_rows [OF this] show ?thesis by auto
next
  case step_fail
  from fail_rows [OF this] show ?thesis by auto
next
  case step_cancel
  from cancel_rows [OF this] show ?thesis by simp
next
  case step_recover
  from recover_stale_rows [OF this assms(2)] show ?thesis by simp
qed

section \<open>Invariants\<close>

definition row_ok :: "job_policy \<Rightarrow> job_row \<Rightarrow> bool" where
  "row_ok policy r =
     (0 \<le> jb_attempts r \<and> jb_attempts r \<le> max_attempts policy \<and>
      (jb_status r = RUNNING) = (jb_lease_hash r \<noteq> None) \<and>
      (jb_status r = RUNNING) = (jb_lease_expires_at r \<noteq> None) \<and>
      (jb_status r \<in> {QUEUED, RETRY_WAIT} \<longrightarrow> jb_attempts r < max_attempts policy) \<and>
      (jb_status r \<in> {RUNNING, RETRY_WAIT, COMPLETED, PARTIAL, FAILED, DEAD_LETTER} \<longrightarrow> 1 \<le> jb_attempts r))"

definition rows_ok :: "job_policy \<Rightarrow> job_row list \<Rightarrow> bool" where
  "rows_ok policy rows =
     (list_all (row_ok policy) rows \<and>
      distinct (map job_key rows) \<and> distinct (map job_run_key rows))"

lemma row_change_ok:
  assumes "row_change policy r r'" and "row_ok policy r" and "1 \<le> max_attempts policy"
  shows "row_ok policy r'"
  using assms(1)
proof cases
  case (finished target now)
  with assms(2) show ?thesis by (elim insertE) (simp_all add: row_ok_def)
next
  case (failed retryable target delay reason now)
  then consider "target = RETRY_WAIT" "jb_attempts r < max_attempts policy" | "target \<in> {DEAD_LETTER, FAILED}"
    by (auto simp: failure_target_def monad_simps split: if_splits)
  then show ?thesis
    using assms(2) failed(1,2) by cases (auto simp: row_ok_def failed_row_def)
next
  case (requeued c now)
  with assms(2,3) show ?thesis by (simp add: row_ok_def)
qed (use assms(2) in \<open>auto simp: row_ok_def\<close>)

lemma row_change_frame:
  assumes "row_change policy r r'"
  shows "jb_tenant_id r' = jb_tenant_id r" "jb_job_id r' = jb_job_id r" "jb_run_id r' = jb_run_id r"
    "jb_payload_hash r' = jb_payload_hash r" "jb_created_at r' = jb_created_at r"
    "jb_status r' = jb_status r \<or> jb_status r' \<in> set (job_allowed (jb_status r))"
    "jb_status r \<noteq> CANCELLED"
  using assms by (cases; auto simp: failed_row_def failure_target_def monad_simps split: if_splits)+

lemma row_update_result:
  assumes "row_find key k rows = Some r" and "distinct (map key rows)"
  shows "set (row_update key k f rows) \<subseteq> insert (f r) (set rows)"
    and "distinct (map key' rows) \<Longrightarrow> key' (f r) = key' r \<Longrightarrow> map key' (row_update key k f rows) = map key' rows"
proof -
  have e: "x = r" if "x \<in> set rows" "key x = k" for x
    using row_find_distinct [OF assms(2) that(1)] that(2) assms(1) by simp
  then show "set (row_update key k f rows) \<subseteq> insert (f r) (set rows)"
    by (auto simp: row_update_def)
  show "map key' (row_update key k f rows) = map key' rows" if "key' (f r) = key' r"
    using e that by (auto simp: row_update_def)
qed

lemma rows_step_ok:
  assumes "rows_step policy limits rows rows'" and "rows_ok policy rows" and "1 \<le> max_attempts policy"
  shows "rows_ok policy rows'"
  using assms(1)
proof cases
  case (rows_add r)
  with assms(2,3) show ?thesis by (auto simp: rows_ok_def row_ok_def)
next
  case (rows_change k r f)
  have k: "distinct (map job_key rows)" "distinct (map job_run_key rows)"
    and ok: "\<forall>x \<in> set rows. row_ok policy x"
    using assms(2) by (auto simp: rows_ok_def list_all_iff)
  note u = row_update_result [OF rows_change(2) k(1), where f = f]
  from rows_change(2) ok have "row_ok policy r" by (auto dest: row_find_SomeD)
  then have "row_ok policy (f r)" by (rule row_change_ok [OF rows_change(3) _ assms(3)])
  with u(1) ok have "list_all (row_ok policy) (row_update job_key k f rows)"
    by (auto simp: list_all_iff)
  moreover have "map job_key (row_update job_key k f rows) = map job_key rows"
    "map job_run_key (row_update job_key k f rows) = map job_run_key rows"
    using row_change_frame [OF rows_change(3)] k by (auto intro!: u(2))
  ultimately show ?thesis using k unfolding rows_ok_def rows_change(1) by simp
qed

text \<open>The number of running jobs of a tenant grows only while it is below the limit.\<close>

lemma running_rows_append:
  "running_rows t (xs @ ys) = running_rows t xs + running_rows t ys"
  by (simp add: running_rows_def)

lemma running_rows_update:
  assumes "distinct (map job_key rows)" and "row_find job_key k rows = Some r"
    and "jb_tenant_id (f r) = jb_tenant_id r"
  shows "running_rows t (row_update job_key k f rows) = running_rows t rows
    + (if jb_tenant_id r = t \<and> jb_status (f r) = RUNNING then 1 else 0)
    - (if jb_tenant_id r = t \<and> jb_status r = RUNNING then 1 else 0)"
  using assms
proof (induction rows)
  case Nil
  then show ?case by simp
next
  case (Cons x rows)
  have other: "row_update job_key k f rows = rows" if "k \<notin> job_key ` set rows"
    using that by (auto simp: row_update_def intro!: map_idI)
  show ?case
  proof (cases "job_key x = k")
    case True
    with Cons.prems have "x = r" "k \<notin> job_key ` set rows" by (auto simp: row_find_def)
    then show ?thesis using True other assms(3) by (auto simp: running_rows_def row_update_def)
  next
    case False
    with Cons.prems have "row_find job_key k rows = Some r" by (auto simp: row_find_def)
    with Cons False show ?thesis by (auto simp: running_rows_def row_update_def)
  qed
qed

lemma rows_step_limit:
  assumes "rows_step policy limits rows rows'" and "distinct (map job_key rows)"
    and "running_rows t rows \<le> limit_of limits t"
  shows "running_rows t rows' \<le> limit_of limits t"
  using assms(1)
proof cases
  case (rows_add r)
  with assms(3) show ?thesis by (simp add: running_rows_append) (simp add: running_rows_def)
next
  case (rows_change k r f)
  then show ?thesis
    using running_rows_update [OF assms(2) rows_change(2), of f t] row_change_frame(1) [OF rows_change(3)]
      assms(3) by (cases "jb_status r = RUNNING") auto
qed

text \<open>What any sequence of steps does to a row that exists.\<close>

definition row_history :: "job_row \<Rightarrow> job_row \<Rightarrow> bool" where
  "row_history r r' =
     (jb_tenant_id r' = jb_tenant_id r \<and> jb_job_id r' = jb_job_id r \<and> jb_run_id r' = jb_run_id r \<and>
      jb_payload_hash r' = jb_payload_hash r \<and> jb_created_at r' = jb_created_at r \<and>
      (\<lambda>a b. b \<in> set (job_allowed a))\<^sup>*\<^sup>* (jb_status r) (jb_status r') \<and>
      (jb_status r = CANCELLED \<longrightarrow> r' = r))"

lemma row_history_refl [simp]: "row_history r r"
  by (simp add: row_history_def)

lemma row_history_trans: "row_history a b \<Longrightarrow> row_history b c \<Longrightarrow> row_history a c"
  by (auto simp: row_history_def)

lemma row_change_history: "row_change policy r r' \<Longrightarrow> row_history r r'"
  using row_change_frame [of policy r r'] by (auto simp: row_history_def)

lemma rows_step_history:
  assumes "rows_step policy limits rows rows'" and "row_find job_key k rows = Some r"
  shows "\<exists>r'. row_find job_key k rows' = Some r' \<and> row_history r r'"
  using assms(1)
proof cases
  case (rows_add s)
  with assms(2) show ?thesis by simp
next
  case (rows_change k' s f)
  then show ?thesis using assms(2) row_change_history
    by (cases "k = k'") (auto simp: row_update_find [where key = job_key, OF rows_change(4)])
qed

section \<open>Every step appends to the event log\<close>

lemma recover_rows_grow:
  "recover_rows policy now rest db = Inr (n, db') \<Longrightarrow> events_grow db db'"
proof (induction rest arbitrary: db n)
  case Nil
  then show ?case by simp
next
  case (Cons current rest)
  from Cons.prems consider
      "recover_rows policy now rest db = Inr (n, db')"
    | target delay db1 r' job m where
      "update_job (jb_tenant_id current) (jb_job_id current) (\<lambda>r. True)
        (failed_row target delay ''STALE_LEASE_RECOVERED'' now) db = (Some r', db1)"
      "recover_rows policy now rest
        (append_job_event job ''JOB_STALE_LEASE_RECOVERED'' now None None db1) = Inr (m, db')"
    by (auto simp: monad_simps split: prod.splits option.splits)
  then show ?case
  proof cases
    case 1
    then show ?thesis by (rule Cons.IH)
  next
    case 2
    from 2(1) have "job_events db1 = job_events db" by (auto elim: update_job_Some)
    then show ?thesis by (rule events_grow_trans [OF events_grow_append Cons.IH [OF 2(2)]])
  qed
qed

lemma job_step_grow:
  assumes "job_step sha policy db db'"
  shows "events_grow db db'"
  using assms
proof cases
  case (step_enqueue job t x)
  from step_enqueue(2) obtain ins db1 existing where
    i: "insert_job job db = Inr (ins, db1)"
    and "Inr (existing, if ins then append_job_event existing ''JOB_QUEUED'' (jb_updated_at job) None None db1
      else db1) = (Inr (x, db') :: _ result)"
    by (auto simp: job_enqueue_def monad_simps)
  from this(2) have "events_grow db1 db'" by (rule appended_event)
  with insert_job_events [OF i] show ?thesis by (simp add: events_grow_def)
next
  case (step_requeue t j c now x)
  then show ?thesis
    by (auto simp: job_requeue_def monad_simps intro!: events_grow_append elim!: update_job_Some
        split: prod.splits option.splits if_splits)
next
  case (step_submit job t run x)
  from step_submit(2) obtain db1 rid ins db2 where i: "insert_job (job\<lparr>jb_run_id := rid\<rparr>) db1 = Inr (ins, db2)"
    and "job_events db1 = job_events db" "events_grow db2 db'"
    by (rule submit_insert)
  with insert_job_events [OF i] show ?thesis by (simp add: events_grow_def)
next
  case (step_claim token locked worker now x)
  then show ?thesis
    by (auto simp: job_claim_def Let_def monad_simps intro!: events_grow_append split: option.splits)
next
  case (step_heartbeat t j token now)
  then show ?thesis
    by (auto simp: job_heartbeat_def intro!: events_grow_frame elim!: update_job_Some
        split: prod.splits option.splits)
next
  case (step_complete t j token partial now)
  then show ?thesis
    by (auto simp: job_complete_def Let_def monad_simps intro!: events_grow_append elim!: update_job_Some
        split: prod.splits option.splits)
next
  case (step_fail t j token reason retryable now)
  then show ?thesis
    by (auto simp: job_fail_def monad_simps intro!: events_grow_append elim!: update_job_Some
        split: prod.splits option.splits)
next
  case (step_cancel t j now x)
  then show ?thesis
    by (auto simp: job_cancel_def monad_simps intro!: events_grow_append elim!: update_job_Some
        split: prod.splits option.splits if_splits)
next
  case (step_recover locked now n)
  then show ?thesis unfolding job_recover_stale_def by (rule recover_rows_grow)
qed

section \<open>Runs of the queue\<close>

abbreviation job_steps :: "(string \<Rightarrow> string) \<Rightarrow> job_policy \<Rightarrow> job_db \<Rightarrow> job_db \<Rightarrow> bool" where
  "job_steps sha policy \<equiv> (job_step sha policy)\<^sup>*\<^sup>*"

lemma rows_steps_inv:
  assumes "(rows_step policy limits)\<^sup>*\<^sup>* rows rows'" and "rows_ok policy rows" and "1 \<le> max_attempts policy"
  shows "rows_ok policy rows'"
    and "running_rows t rows \<le> limit_of limits t \<Longrightarrow> running_rows t rows' \<le> limit_of limits t"
    and "row_find job_key k rows = Some r \<Longrightarrow>
      \<exists>r'. row_find job_key k rows' = Some r' \<and> row_history r r'"
proof -
  from assms(1) show ok: "rows_ok policy rows'"
    by (induction rule: rtranclp_induct) (auto intro: rows_step_ok assms(2,3))
  have mid: "rows_ok policy x" if "(rows_step policy limits)\<^sup>*\<^sup>* rows x" for x
    using that by (induction rule: rtranclp_induct) (auto intro: rows_step_ok assms(2,3))
  show "running_rows t rows' \<le> limit_of limits t" if "running_rows t rows \<le> limit_of limits t"
    using assms(1) by (induction rule: rtranclp_induct)
      (use that mid rows_step_limit in \<open>auto simp: rows_ok_def\<close>)
  show "\<exists>r'. row_find job_key k rows' = Some r' \<and> row_history r r'" if "row_find job_key k rows = Some r"
    using assms(1)
  proof (induction rule: rtranclp_induct)
    case base
    with that show ?case by auto
  next
    case (step y z)
    then show ?case using rows_step_history row_history_trans by blast
  qed
qed

lemma job_steps_rows:
  assumes "job_steps sha policy db db'" and "rows_ok policy (jobs db)" and "1 \<le> max_attempts policy"
  shows "(rows_step policy (runtime_limits db))\<^sup>*\<^sup>* (jobs db) (jobs db') \<and>
    runtime_limits db' = runtime_limits db"
  using assms(1)
proof (induction rule: rtranclp_induct)
  case base
  show ?case by simp
next
  case (step y z)
  then have "rows_ok policy (jobs y)" using rows_steps_inv(1) assms(2,3) by blast
  then have "queue_keys y" by (simp add: rows_ok_def queue_keys_def)
  from job_step_rows [OF step.hyps(2) this] step.IH show ?case by auto
qed

lemma job_steps_grow: "job_steps sha policy db db' \<Longrightarrow> events_grow db db'"
  by (induction rule: rtranclp_induct) (auto intro: job_step_grow events_grow_trans)

end
