(* ===== verification/JobWorker.thy ===== *)
theory JobWorker
  imports JobQueue
begin

text \<open>
  One round of a research worker, \<^verbatim>\<open>jobs/worker.py\<close>: claim a job, keep its lease alive
  while the processor runs, then report the outcome. The repository is shared: what happens
  between two accesses of the worker is part of the schedule, a list of \<open>run_event\<close>s. A
  method of the repository is a transaction, so an exception leaves the database as it was.
\<close>

datatype processor_outcome =
    Returned bool
  | RaisedRetryable string
  | RaisedNonRetryable string
  | RaisedOther exn

text \<open>The heartbeat interval elapses, or another party of the system changes the database.\<close>

datatype run_event = HeartbeatDue int | Others "job_db \<Rightarrow> job_db"

definition worker_init :: "int \<Rightarrow> int result" where
  "worker_init interval = bind_result (ensure (0 < interval) (ValueError ''INVALID_HEARTBEAT_INTERVAL''))
     (\<lambda>_. Inr interval)"

definition transaction :: "('s \<Rightarrow> ('a \<times> 's) result) \<Rightarrow> ('s, 'a) action" where
  "transaction f s = (case f s of Inl e \<Rightarrow> (Inl e, s) | Inr (x, s') \<Rightarrow> (Inr x, s'))"

definition transaction_unit :: "('s \<Rightarrow> 's result) \<Rightarrow> ('s, unit) action" where
  "transaction_unit f s = (case f s of Inl e \<Rightarrow> (Inl e, s) | Inr s' \<Rightarrow> (Inr (), s'))"

text \<open>\<^verbatim>\<open>_reason\<close>.\<close>

definition failure_reason :: "string \<Rightarrow> string \<Rightarrow> string" where
  "failure_reason message fallback = (if message \<noteq> [] \<and> length message \<le> 128 then message else fallback)"

text \<open>
  \<^verbatim>\<open>maintain_lease\<close> along the schedule: the first heartbeat that is refused sets
  \<^verbatim>\<open>lease_lost\<close> and ends the thread.
\<close>

fun maintain_lease ::
  "(string \<Rightarrow> string) \<Rightarrow> job_policy \<Rightarrow> string \<Rightarrow> string \<Rightarrow> string \<Rightarrow> run_event list \<Rightarrow> bool \<Rightarrow> job_db \<Rightarrow>
   bool \<times> job_db" where
  "maintain_lease sha policy t j token [] lease_lost db = (lease_lost, db)"
| "maintain_lease sha policy t j token (Others f # es) lease_lost db =
     maintain_lease sha policy t j token es lease_lost (f db)"
| "maintain_lease sha policy t j token (HeartbeatDue now # es) lease_lost db =
     (if lease_lost then maintain_lease sha policy t j token es True db
      else case job_heartbeat sha policy t j token now db of
             Inl _ \<Rightarrow> maintain_lease sha policy t j token es True db
           | Inr db1 \<Rightarrow> maintain_lease sha policy t j token es False db1)"

text \<open>\<^verbatim>\<open>cancelled()\<close>.\<close>

definition worker_cancelled :: "bool \<Rightarrow> string \<Rightarrow> string \<Rightarrow> job_db \<Rightarrow> bool" where
  "worker_cancelled lease_lost t j db = (lease_lost \<or> job_is_cancelled t j db)"

text \<open>What the worker reports: \<^verbatim>\<open>complete\<close> or \<^verbatim>\<open>fail\<close>.\<close>

definition report_outcome ::
  "(string \<Rightarrow> string) \<Rightarrow> job_policy \<Rightarrow> string \<Rightarrow> string \<Rightarrow> string \<Rightarrow> processor_outcome \<Rightarrow> int \<Rightarrow>
   job_db \<Rightarrow> job_db result" where
  "report_outcome sha policy t j token outcome now db =
     (case outcome of
        Returned partial \<Rightarrow> job_complete sha t j token partial now db
      | RaisedRetryable m \<Rightarrow>
          job_fail sha policy t j token (failure_reason m ''RETRYABLE_JOB_FAILURE'') True now db
      | RaisedNonRetryable m \<Rightarrow>
          job_fail sha policy t j token (failure_reason m ''NON_RETRYABLE_JOB_FAILURE'') False now db
      | RaisedOther e \<Rightarrow> Inl e)"

text \<open>
  \<^verbatim>\<open>run_once\<close>. The processor is a parameter: for the claimed job it gives the schedule
  of its run and its outcome; \<open>clock\<close> is the time when it has ended.
\<close>

definition run_once ::
  "(string \<Rightarrow> string) \<Rightarrow> job_policy \<Rightarrow> (research_job \<Rightarrow> run_event list \<times> processor_outcome) \<Rightarrow>
   string \<Rightarrow> (string \<times> string) list \<Rightarrow> string \<Rightarrow> int \<Rightarrow> int \<Rightarrow> (job_db, bool) action" where
  "run_once sha policy processor token locked worker now clock =
     bind_action (transaction (job_claim sha policy token locked worker now)) (\<lambda>claimed.
     case claimed of
       None \<Rightarrow> pure_action False
     | Some (job, lease) \<Rightarrow>
         bind_action (lift_result (TenantContext (jb_tenant_id job))) (\<lambda>t.
         if jb_status job = CANCELLED then pure_action True else
         bind_action (read_state (worker_cancelled False t (jb_job_id job))) (\<lambda>cancelled.
         if cancelled then pure_action True else
         let (schedule, outcome) = processor job in
         bind_action (\<lambda>db. case maintain_lease sha policy t (jb_job_id job) lease schedule False db of
                              (lost, db1) \<Rightarrow> (Inr lost, db1)) (\<lambda>lease_lost.
         case outcome of
           RaisedOther e \<Rightarrow> raise_action e
         | _ \<Rightarrow>
             bind_action (read_state (worker_cancelled lease_lost t (jb_job_id job))) (\<lambda>stopped.
             if stopped then pure_action True else
             bind_action (transaction_unit
               (report_outcome sha policy t (jb_job_id job) lease outcome clock)) (\<lambda>_.
             pure_action True))))))"

section \<open>Lemmas\<close>

lemma transaction_Inr_iff [monad_simps]:
  "transaction f s = (Inr x, s') \<longleftrightarrow> f s = Inr (x, s')"
  by (auto simp: transaction_def split: sum.splits)

lemma transaction_Inl_iff [monad_simps]:
  "transaction f s = (Inl e, s') \<longleftrightarrow> f s = Inl e \<and> s' = s"
  by (auto simp: transaction_def split: sum.splits)

lemma transaction_unit_Inr_iff [monad_simps]:
  "transaction_unit f s = (Inr x, s') \<longleftrightarrow> f s = Inr s'"
  by (auto simp: transaction_unit_def split: sum.splits)

lemma failure_reason_ok:
  "fallback \<noteq> [] \<Longrightarrow> length fallback \<le> 128 \<Longrightarrow>
     failure_reason m fallback \<noteq> [] \<and> length (failure_reason m fallback) \<le> 128"
  by (simp add: failure_reason_def)

text \<open>The worker itself moves the database only by steps of the queue.\<close>

lemma maintain_lease_steps:
  assumes "maintain_lease sha policy t j token es lost db = (lost', db')"
    and "\<And>f. Others f \<in> set es \<Longrightarrow> (\<And>d. (job_step sha policy)\<^sup>*\<^sup>* d (f d))"
  shows "(job_step sha policy)\<^sup>*\<^sup>* db db'"
  using assms
proof (induction sha policy t j token es lost db rule: maintain_lease.induct)
  case (2 sha policy t j token f es lost db)
  have "(job_step sha policy)\<^sup>*\<^sup>* db (f db)" using "2.prems"(2) by simp
  moreover have "(job_step sha policy)\<^sup>*\<^sup>* (f db) db'" using 2 by simp
  ultimately show ?case by (rule rtranclp_trans)
next
  case (3 sha policy t j token now es lost db)
  then show ?case
    by (auto split: if_splits sum.splits intro: converse_rtranclp_into_rtranclp step_heartbeat)
qed simp

lemma report_outcome_step:
  "report_outcome sha policy t j token outcome now db = Inr db' \<Longrightarrow> job_step sha policy db db'"
  by (auto simp: report_outcome_def split: processor_outcome.splits intro: step_complete step_fail)

lemma run_once_steps:
  assumes "run_once sha policy processor token locked worker now clock db = (Inr b, db')"
    and "\<And>job f. Others f \<in> set (fst (processor job)) \<Longrightarrow> (\<And>d. (job_step sha policy)\<^sup>*\<^sup>* d (f d))"
  shows "(job_step sha policy)\<^sup>*\<^sup>* db db'"
proof -
  obtain claimed db1 where c: "job_claim sha policy token locked worker now db = Inr (claimed, db1)"
    using assms(1) by (auto simp: run_once_def monad_simps)
  have s1: "job_step sha policy db db1" using c by (rule step_claim)
  show ?thesis
  proof (cases claimed)
    case None
    with assms(1) c s1 show ?thesis by (auto simp: run_once_def monad_simps)
  next
    case (Some p)
    obtain job lease where p: "p = (job, lease)" by (cases p)
    obtain schedule outcome where po: "processor job = (schedule, outcome)" by (cases "processor job")
    have o: "(job_step sha policy)\<^sup>*\<^sup>* d (f d)" if "Others f \<in> set schedule" for f d
      using assms(2) [of f job] that po by simp
    from assms(1) c Some p po consider "db' = db1"
      | lost db2 t where "maintain_lease sha policy t (jb_job_id job) lease schedule False db1 = (lost, db2)"
        "db' = db2 \<or> report_outcome sha policy t (jb_job_id job) lease outcome clock db2 = Inr db'"
      by (cases outcome) (auto simp: run_once_def monad_simps split: if_splits prod.splits)
    then show ?thesis
    proof cases
      case 1
      with s1 show ?thesis by auto
    next
      case 2
      have "(job_step sha policy)\<^sup>*\<^sup>* db1 db2" by (rule maintain_lease_steps [OF 2(1)]) (rule o)
      with s1 have "(job_step sha policy)\<^sup>*\<^sup>* db db2" by (rule converse_rtranclp_into_rtranclp)
      with 2(2) report_outcome_step show ?thesis by (auto intro: rtranclp.rtrancl_into_rtrancl)
    qed
  qed
qed

section \<open>A round that is left alone\<close>

text \<open>Every heartbeat, and the end of the run, come before the lease expires.\<close>

fun timely :: "job_policy \<Rightarrow> int \<Rightarrow> run_event list \<Rightarrow> int \<Rightarrow> bool" where
  "timely policy expires [] clock = (clock < expires)"
| "timely policy expires (Others f # es) clock = timely policy expires es clock"
| "timely policy expires (HeartbeatDue n # es) clock =
     (n < expires \<and> timely policy (n + lease_seconds policy) es clock)"

definition leaves_job :: "string \<Rightarrow> string \<Rightarrow> run_event \<Rightarrow> bool" where
  "leaves_job t j e = (case e of HeartbeatDue n \<Rightarrow> True
     | Others f \<Rightarrow> (\<forall>d. row_find job_key (t, j) (jobs (f d)) = row_find job_key (t, j) (jobs d)))"

lemma job_row_update:
  "(\<And>x. job_key (f x) = job_key x) \<Longrightarrow>
     row_find job_key k (row_update job_key k f rows) = map_option f (row_find job_key k rows)"
  by (simp add: row_update_find [where key = job_key])

lemma heartbeat_live:
  assumes "row_find job_key (t, j) (jobs db) = Some r" and "jb_status r = RUNNING"
    and "jb_lease_hash r = Some (lease_hash sha token)" and "jb_lease_expires_at r = Some e" and "n < e"
  obtains db1 where "job_heartbeat sha policy t j token n db = Inr db1"
    "row_find job_key (t, j) (jobs db1) =
       Some (r\<lparr>jb_lease_expires_at := Some (n + lease_seconds policy), jb_updated_at := n\<rparr>)"
proof -
  let ?f = "\<lambda>r :: job_row. r\<lparr>jb_lease_expires_at := Some (n + lease_seconds policy), jb_updated_at := n\<rparr>"
  have "job_heartbeat sha policy t j token n db = Inr (db\<lparr>jobs := row_update job_key (t, j) ?f (jobs db)\<rparr>)"
    using assms by (simp add: job_heartbeat_def update_job_def holds_lease_def)
  then show ?thesis by (rule that) (simp add: assms(1) job_row_update)
qed

lemma maintain_lease_live:
  assumes "row_find job_key (t, j) (jobs db) = Some r" and "jb_status r = RUNNING"
    and "jb_lease_hash r = Some (lease_hash sha token)" and "jb_lease_expires_at r = Some e"
    and "timely policy e es clock" and "list_all (leaves_job t j) es"
  shows "\<exists>db' e' u. maintain_lease sha policy t j token es False db = (False, db') \<and> clock < e' \<and>
     row_find job_key (t, j) (jobs db') = Some (r\<lparr>jb_lease_expires_at := Some e', jb_updated_at := u\<rparr>)"
  using assms
proof (induction es arbitrary: db r e)
  case Nil
  then have "r = r\<lparr>jb_lease_expires_at := Some e, jb_updated_at := jb_updated_at r\<rparr>" by simp
  with Nil.prems(1,5) show ?case by (intro exI [of _ db] exI [of _ e] exI [of _ "jb_updated_at r"]) simp
next
  case (Cons ev es)
  show ?case
  proof (cases ev)
    case (Others f)
    with Cons.prems have "row_find job_key (t, j) (jobs (f db)) = Some r" by (simp add: leaves_job_def)
    from Cons.IH [OF this] Cons.prems Others show ?thesis by simp
  next
    case (HeartbeatDue n)
    with Cons.prems have n: "n < e" by simp
    obtain db1 where h: "job_heartbeat sha policy t j token n db = Inr db1"
      "row_find job_key (t, j) (jobs db1) =
         Some (r\<lparr>jb_lease_expires_at := Some (n + lease_seconds policy), jb_updated_at := n\<rparr>)"
      by (rule heartbeat_live [OF Cons.prems(1-4) n])
    from Cons.IH [OF h(2)] Cons.prems HeartbeatDue h(1) show ?thesis by simp
  qed
qed

lemma row_to_job_Inr_iff:
  "row_to_job r = Inr x \<longleftrightarrow> x = research_job.truncate r \<and>
     list_all job_id_ok [jb_job_id r, jb_tenant_id r, jb_run_id r, jb_correlation_id r] \<and>
     py_startswith (jb_payload_hash r) ''sha256:'' \<and> length (jb_payload_hash r) = 71 \<and>
     0 \<le> jb_attempts r \<and> (jb_lease_hash r = None) = (jb_lease_expires_at r = None)"
  by (auto simp: row_to_job_def research_job_post_init_def research_job.defs monad_simps)

lemma complete_live:
  assumes "row_find job_key (t, j) (jobs db) = Some r" and "holds_lease sha token now r"
    and "row_to_job r = Inr x"
  shows "\<exists>db'. job_complete sha t j token partial now db = Inr db' \<and>
    row_find job_key (t, j) (jobs db') = Some (r\<lparr>jb_status := if partial then PARTIAL else COMPLETED,
      jb_lease_hash := None, jb_lease_expires_at := None, jb_updated_at := now\<rparr>)"
proof -
  have "\<exists>y. row_to_job (r\<lparr>jb_status := s, jb_lease_hash := None, jb_lease_expires_at := None,
      jb_updated_at := now\<rparr>) = Inr y" for s
    using assms(3) by (simp add: row_to_job_Inr_iff)
  then obtain y where "row_to_job (r\<lparr>jb_status := if partial then PARTIAL else COMPLETED, jb_lease_hash := None,
      jb_lease_expires_at := None, jb_updated_at := now\<rparr>) = Inr y" by blast
  with assms show ?thesis by (simp add: job_complete_def update_job_def Let_def job_row_update)
qed

end
