(* ===== verification/JobCalls.thy ===== *)
theory JobCalls
  imports JobQueue
begin

text \<open>
  The calls of the queue and what each does to one row. \<open>queue_call\<close> names the methods of
  \<^verbatim>\<open>jobs/postgresql.py\<close> with their arguments, \<open>queue_run\<close> runs one, and
  \<open>next_status\<close> says which status a call gives to a row it finds: the moves of each method,
  with the condition under which it makes them. The lemmas follow one row through each method.
\<close>

datatype queue_call =
    Enqueue string research_job
  | Submit string run_row research_job
  | Claim string "(string \<times> string) list" string int
  | Heartbeat string string string int
  | Complete string string string bool int
  | Fail string string string string bool int
  | Cancel string string int
  | Requeue string string string int
  | Recover "(string \<times> string) list" int

definition only_db :: "('a \<times> job_db) result \<Rightarrow> job_db result" where
  "only_db m = bind_result m (\<lambda>p. Inr (snd p))"

fun queue_run :: "(string \<Rightarrow> string) \<Rightarrow> job_policy \<Rightarrow> queue_call \<Rightarrow> job_db \<Rightarrow> job_db result" where
  "queue_run sha policy (Enqueue t job) db = only_db (job_enqueue t job db)"
| "queue_run sha policy (Submit t run job) db = only_db (job_submit t run job db)"
| "queue_run sha policy (Claim token locked worker now) db =
     only_db (job_claim sha policy token locked worker now db)"
| "queue_run sha policy (Heartbeat t j token now) db = job_heartbeat sha policy t j token now db"
| "queue_run sha policy (Complete t j token partial now) db = job_complete sha t j token partial now db"
| "queue_run sha policy (Fail t j token reason retryable now) db =
     job_fail sha policy t j token reason retryable now db"
| "queue_run sha policy (Cancel t j now) db = only_db (job_cancel t j now db)"
| "queue_run sha policy (Requeue t j c now) db = only_db (job_requeue t j c now db)"
| "queue_run sha policy (Recover locked now) db = only_db (job_recover_stale policy locked now db)"

lemma only_db_Inr [monad_simps]: "only_db m = Inr db' \<longleftrightarrow> (\<exists>x. m = Inr (x, db'))"
  by (auto simp: only_db_def monad_simps)

text \<open>Every step of the queue is one of these calls.\<close>

lemma job_step_call: "job_step sha policy db db' \<Longrightarrow> \<exists>call. queue_run sha policy call db = Inr db'"
proof (induction rule: job_step.induct)
  case (step_enqueue job t db x db')
  then show ?case by (intro exI [of _ "Enqueue t job"]) (auto simp: monad_simps)
next
  case (step_requeue t j c now db x db')
  then show ?case by (intro exI [of _ "Requeue t j c now"]) (auto simp: monad_simps)
next
  case (step_submit job t run db x db')
  then have "\<exists>x. job_submit t run job db = Inr (x, db')" by blast
  then show ?case by (intro exI [of _ "Submit t run job"]) (simp only: queue_run.simps only_db_Inr)
next
  case (step_claim token locked worker now db x db')
  then show ?case by (intro exI [of _ "Claim token locked worker now"]) (auto simp: monad_simps)
next
  case (step_heartbeat t j token now db db')
  then show ?case by (intro exI [of _ "Heartbeat t j token now"]) simp
next
  case (step_complete t j token partial now db db')
  then show ?case by (intro exI [of _ "Complete t j token partial now"]) simp
next
  case (step_fail t j token reason retryable now db db')
  then show ?case by (intro exI [of _ "Fail t j token reason retryable now"]) simp
next
  case (step_cancel t j now db x db')
  then show ?case by (intro exI [of _ "Cancel t j now"]) (auto simp: monad_simps)
next
  case (step_recover locked now db n db')
  then show ?case by (intro exI [of _ "Recover locked now"]) (auto simp: monad_simps)
qed

section \<open>The moves\<close>

text \<open>The status of a row after a call that returned.\<close>

definition retry_status :: "job_policy \<Rightarrow> job_row \<Rightarrow> job_status" where
  "retry_status policy r = (if jb_attempts r < max_attempts policy then RETRY_WAIT else DEAD_LETTER)"

fun next_status :: "(string \<Rightarrow> string) \<Rightarrow> job_policy \<Rightarrow> queue_call \<Rightarrow> job_row \<Rightarrow> job_status" where
  "next_status sha policy (Claim token locked worker now) r =
     (if jb_status r \<in> {QUEUED, RETRY_WAIT} \<and> jb_available_at r \<le> now \<and> job_key r \<notin> set locked
      then RUNNING else jb_status r)"
| "next_status sha policy (Complete t j token partial now) r =
     (if job_key r = (t, j) then if partial then PARTIAL else COMPLETED else jb_status r)"
| "next_status sha policy (Fail t j token reason retryable now) r =
     (if job_key r = (t, j) then if retryable then retry_status policy r else FAILED else jb_status r)"
| "next_status sha policy (Cancel t j now) r =
     (if job_key r = (t, j) \<and> jb_status r \<in> {QUEUED, RETRY_WAIT, RUNNING} then CANCELLED else jb_status r)"
| "next_status sha policy (Requeue t j c now) r = (if job_key r = (t, j) then QUEUED else jb_status r)"
| "next_status sha policy (Recover locked now) r =
     (if stale now locked r then retry_status policy r else jb_status r)"
| "next_status sha policy call r = jb_status r"

text \<open>The lease a call needs on its row, and the row it needs it on.\<close>

fun needs_lease :: "queue_call \<Rightarrow> (string \<times> string \<times> string \<times> int) option" where
  "needs_lease (Heartbeat t j token now) = Some (t, j, token, now)"
| "needs_lease (Complete t j token partial now) = Some (t, j, token, now)"
| "needs_lease (Fail t j token reason retryable now) = Some (t, j, token, now)"
| "needs_lease call = None"

section \<open>One row through each method\<close>

text \<open>
  What a call does to a row: a move to the status above, made only from the statuses the
  lifecycle table names, nothing at all, or a new expiry of the lease.
\<close>

definition row_call :: "(string \<Rightarrow> string) \<Rightarrow> job_policy \<Rightarrow> queue_call \<Rightarrow> job_row \<Rightarrow> job_row \<Rightarrow> bool" where
  "row_call sha policy call r r' =
     (job_key r' = job_key r \<and> jb_run_id r' = jb_run_id r \<and> jb_payload_hash r' = jb_payload_hash r \<and>
      (case needs_lease call of None \<Rightarrow> True
       | Some (t, j, token, now) \<Rightarrow> job_key r = (t, j) \<longrightarrow> holds_lease sha token now r) \<and>
      (jb_status r' = next_status sha policy call r \<or> (\<exists>token locked worker now. call = Claim token locked worker now) \<and> r' = r) \<and>
      (if jb_status r' = jb_status r
       then r' = r \<or> (\<exists>t j token now. call = Heartbeat t j token now \<and> job_key r = (t, j) \<and>
         r' = r\<lparr>jb_lease_expires_at := Some (now + lease_seconds policy), jb_updated_at := now\<rparr>)
       else jb_status r' \<in> set (job_allowed (jb_status r))))"

definition follows :: "(job_row \<Rightarrow> job_row \<Rightarrow> bool) \<Rightarrow> job_db \<Rightarrow> job_db \<Rightarrow> bool" where
  "follows P db db' =
     (\<forall>k r. row_find job_key k (jobs db) = Some r \<longrightarrow> (\<exists>r'. row_find job_key k (jobs db') = Some r' \<and> P r r'))"

lemma row_find_key: "row_find job_key k rows = Some r \<Longrightarrow> job_key r = k"
  by (auto dest: row_find_SomeD)

lemma update_job_follows:
  assumes "update_job t j p f db = (Some x, db1)" and "jobs db' = jobs db1"
    and key: "\<And>r. job_key (f r) = job_key r"
    and moved: "\<And>r. row_find job_key (t, j) (jobs db) = Some r \<Longrightarrow> job_key r = (t, j) \<Longrightarrow> p r \<Longrightarrow> P r (f r)"
    and other: "\<And>r. job_key r \<noteq> (t, j) \<Longrightarrow> P r r"
  shows "follows P db db'"
  unfolding follows_def
proof (intro allI impI)
  fix k r
  assume r: "row_find job_key k (jobs db) = Some r"
  from assms(1) obtain r0 where r0: "row_find job_key (t, j) (jobs db) = Some r0" "p r0"
    and db1: "jobs db1 = row_update job_key (t, j) f (jobs db)"
    by (rule update_job_Some) simp
  have find: "row_find job_key k (jobs db') = (if k = (t, j) then map_option f (row_find job_key k (jobs db))
      else row_find job_key k (jobs db))"
    unfolding assms(2) db1 by (subst row_update_find) (simp_all add: key)
  show "\<exists>r'. row_find job_key k (jobs db') = Some r' \<and> P r r'"
  proof (cases "k = (t, j)")
    case True
    with r r0 moved [OF r0(1) row_find_key [OF r0(1)] r0(2)] find show ?thesis by auto
  next
    case False
    with r find other [of r] row_find_key [OF r] show ?thesis by auto
  qed
qed

lemma follows_refl: "(\<And>r. P r r) \<Longrightarrow> jobs db' = jobs db \<Longrightarrow> follows P db db'"
  by (simp add: follows_def)

lemma insert_job_follows:
  assumes "insert_job job db1 = Inr (ins, db2)" and "jobs db1 = jobs db" "jobs db' = jobs db2"
    and "\<And>r. P r r"
  shows "follows P db db'"
proof -
  have "jobs db2 = jobs db \<or> (\<exists>r. jobs db2 = jobs db @ [r])"
    using assms(1,2) by (auto simp: insert_job_def Let_def monad_simps row_insert_Inr_iff split: if_splits)
  then show ?thesis using assms(3,4) by (auto simp: follows_def)
qed

lemma enqueue_follows:
  assumes "job_enqueue t job db = Inr (x, db')"
  shows "follows (row_call sha policy (Enqueue t job)) db db'"
proof -
  from assms obtain ins db1 where i: "insert_job job db = Inr (ins, db1)" and d: "jobs db' = jobs db1"
    by (auto simp: job_enqueue_def monad_simps split: if_splits)
  show ?thesis by (rule insert_job_follows [OF i refl d]) (simp add: row_call_def)
qed

lemma submit_follows:
  assumes "job_submit t run job db = Inr (x, db')"
  shows "follows (row_call sha policy (Submit t run job)) db db'"
proof -
  from assms obtain db1 rid ins db2 where i: "insert_job (job\<lparr>jb_run_id := rid\<rparr>) db1 = Inr (ins, db2)"
    and d: "jobs db1 = jobs db" "jobs db' = jobs db2"
    by (rule submit_insert)
  show ?thesis by (rule insert_job_follows [OF i d]) (simp add: row_call_def)
qed

lemma claim_follows:
  assumes "job_claim sha policy token locked worker now db = Inr (x, db')" and "queue_keys db"
  shows "follows (row_call sha policy (Claim token locked worker now)) db db'"
proof (cases "claim_candidate now locked db")
  case None
  with assms(1) have "db' = db" by (auto simp: job_claim_def monad_simps)
  then show ?thesis by (intro follows_refl) (auto simp: row_call_def)
next
  case (Some c)
  with assms(1) have db': "jobs db' = row_update job_key (job_key c) (claimed_row sha policy token now) (jobs db)"
    by (auto simp: job_claim_def LeaseToken_def Let_def monad_simps)
  note c = claim_candidate_Some [OF Some]
  have key: "job_key (claimed_row sha policy token now r) = job_key r" for r
    by (simp add: claimed_row_def)
  show ?thesis
    unfolding follows_def
  proof (intro allI impI)
    fix k r
    assume r: "row_find job_key k (jobs db) = Some r"
    have find: "row_find job_key k (jobs db') = Some (if k = job_key c then claimed_row sha policy token now r else r)"
      unfolding db' using r by (subst row_update_find) (auto simp: key)
    moreover have "row_call sha policy (Claim token locked worker now) r
        (if k = job_key c then claimed_row sha policy token now r else r)"
    proof (cases "k = job_key c")
      case True
      with r c(1) assms(2) have "r = c" by (auto simp: queue_keys_def row_find_distinct [of job_key])
      with c(2) True show ?thesis by (auto simp: row_call_def claimed_row_def claimable_def)
    next
      case False
      then show ?thesis by (simp add: row_call_def)
    qed
    ultimately show "\<exists>r'. row_find job_key k (jobs db') = Some r' \<and>
        row_call sha policy (Claim token locked worker now) r r'" by blast
  qed
qed

lemma heartbeat_follows:
  assumes "job_heartbeat sha policy t j token now db = Inr db'"
  shows "follows (row_call sha policy (Heartbeat t j token now)) db db'"
proof -
  from assms obtain x where u: "update_job t j (holds_lease sha token now)
      (\<lambda>r. r\<lparr>jb_lease_expires_at := Some (now + lease_seconds policy), jb_updated_at := now\<rparr>) db = (Some x, db')"
    by (auto simp: job_heartbeat_def split: prod.splits option.splits)
  show ?thesis by (rule update_job_follows [OF u refl]) (auto simp: row_call_def)
qed

lemma complete_follows:
  assumes "job_complete sha t j token partial now db = Inr db'"
  shows "follows (row_call sha policy (Complete t j token partial now)) db db'"
proof -
  from assms obtain x db1 where u: "update_job t j (holds_lease sha token now)
      (\<lambda>r. r\<lparr>jb_status := if partial then PARTIAL else COMPLETED, jb_lease_hash := None,
         jb_lease_expires_at := None, jb_updated_at := now\<rparr>) db = (Some x, db1)"
    and d: "jobs db' = jobs db1"
    by (auto simp: job_complete_def Let_def monad_simps split: prod.splits option.splits)
  show ?thesis by (rule update_job_follows [OF u d]) (auto simp: row_call_def dest: holds_lease_running)
qed

lemma failure_target_status:
  "failure_target policy retryable (jb_attempts r) = Inr (target, delay) \<Longrightarrow>
     target = (if retryable then retry_status policy r else FAILED)"
  by (auto simp: failure_target_def retry_status_def monad_simps split: if_splits)

lemma fail_follows:
  assumes "job_fail sha policy t j token reason retryable now db = Inr db'"
  shows "follows (row_call sha policy (Fail t j token reason retryable now)) db db'"
proof -
  from assms obtain c target delay x db1 where
    c: "row_find job_key (t, j) (jobs db) = Some c" "holds_lease sha token now c"
    and f: "failure_target policy retryable (jb_attempts c) = Inr (target, delay)"
    and u: "update_job t j (\<lambda>r. True) (failed_row target delay reason now) db = (Some x, db1)"
    and d: "jobs db' = jobs db1"
    by (auto simp: job_fail_def monad_simps split: prod.splits option.splits)
  have key: "jb_tenant_id c = t" "jb_job_id c = j" using row_find_key [OF c(1)] by simp_all
  have "row_call sha policy (Fail t j token reason retryable now) c (failed_row target delay reason now c)"
    using c(2) failure_target_status [OF f] holds_lease_running [OF c(2)]
    by (simp add: row_call_def failed_row_def retry_status_def key)
  then have moved: "row_call sha policy (Fail t j token reason retryable now) r (failed_row target delay reason now r)"
    if "row_find job_key (t, j) (jobs db) = Some r" for r
    using that c(1) by simp
  show ?thesis
  proof (rule update_job_follows [OF u d])
    fix r
    assume "row_find job_key (t, j) (jobs db) = Some r"
    then show "row_call sha policy (Fail t j token reason retryable now) r (failed_row target delay reason now r)"
      by (rule moved)
  qed (auto simp: row_call_def failed_row_def)
qed

lemma cancel_follows:
  assumes "job_cancel t j now db = Inr (x, db')"
  shows "follows (row_call sha policy (Cancel t j now)) db db'"
proof -
  let ?f = "\<lambda>r :: job_row. r\<lparr>jb_status := CANCELLED, jb_lease_hash := None, jb_lease_expires_at := None,
     jb_updated_at := now\<rparr>"
  from assms obtain c where c: "row_find job_key (t, j) (jobs db) = Some c"
    and j: "row_to_job c = Inr (research_job.truncate c)"
    by (auto simp: job_cancel_def monad_simps dest: row_to_job_Inr)
  show ?thesis
  proof (cases "jb_status c \<in> {COMPLETED, PARTIAL, FAILED, DEAD_LETTER, CANCELLED}")
    case True
    with assms c j have "db' = db" by (auto simp: job_cancel_def)
    moreover have "row_call sha policy (Cancel t j now) r r"
      if "row_find job_key k (jobs db) = Some r" for k r
      using True c that row_find_key [OF that] by (auto simp: row_call_def)
    ultimately show ?thesis by (auto simp: follows_def)
  next
    case False
    then have s: "jb_status c \<in> {QUEUED, RETRY_WAIT, RUNNING}" by (cases "jb_status c") auto
    from False assms c j obtain x' db1 where u: "update_job t j (\<lambda>r. True) ?f db = (Some x', db1)"
      and d: "jobs db' = jobs db1"
      by (auto simp: job_cancel_def monad_simps split: prod.splits option.splits)
    show ?thesis by (rule update_job_follows [OF u d]) (use c s in \<open>auto simp: row_call_def\<close>)
  qed
qed

lemma requeue_follows:
  assumes "job_requeue t j c now db = Inr (x, db')"
  shows "follows (row_call sha policy (Requeue t j c now)) db db'"
proof -
  from assms obtain r' db1 where u: "update_job t j (\<lambda>r. jb_status r \<in> {COMPLETED, PARTIAL, FAILED, DEAD_LETTER})
      (\<lambda>r. r\<lparr>jb_status := QUEUED, jb_correlation_id := c, jb_attempts := 0,
                jb_available_at := now, jb_lease_hash := None, jb_lease_expires_at := None,
                jb_last_error := None, jb_updated_at := now\<rparr>) db = (Some r', db1)"
    and d: "jobs db' = jobs db1"
    by (auto simp: job_requeue_def monad_simps split: prod.splits option.splits if_splits)
  show ?thesis by (rule update_job_follows [OF u d]) (auto simp: row_call_def)
qed

text \<open>Recovery goes through a list of rows; each is taken once.\<close>

lemma recover_rows_find:
  assumes "recover_rows policy now rest db = Inr (n, db')"
    and "distinct (map job_key rest)"
    and "\<And>r. r \<in> set rest \<Longrightarrow> row_find job_key (job_key r) (jobs db) = Some r"
    and "row_find job_key k (jobs db) = Some r"
  shows "\<exists>r'. row_find job_key k (jobs db') = Some r' \<and>
    (if r \<in> set rest then \<exists>delay. r' = failed_row (retry_status policy r) delay ''STALE_LEASE_RECOVERED'' now r
     else r' = r)"
  using assms
proof (induction rest arbitrary: db n r)
  case Nil
  then show ?case by simp
next
  case (Cons c rest)
  from Cons.prems(3) [of c] have c: "row_find job_key (job_key c) (jobs db) = Some c" by simp
  from Cons.prems(1) c obtain target delay db1 x job m where
    f: "failure_target policy True (jb_attempts c) = Inr (target, delay)"
    and u: "update_job (jb_tenant_id c) (jb_job_id c) (\<lambda>r. True)
        (failed_row target delay ''STALE_LEASE_RECOVERED'' now) db = (Some x, db1)"
    and rec: "recover_rows policy now rest
        (append_job_event job ''JOB_STALE_LEASE_RECOVERED'' now None None db1) = Inr (m, db')"
    by (auto simp: update_job_def monad_simps split: prod.splits option.splits)
  let ?db = "append_job_event job ''JOB_STALE_LEASE_RECOVERED'' now None None db1"
  let ?f = "failed_row target delay ''STALE_LEASE_RECOVERED'' now"
  from u have db1: "jobs ?db = row_update job_key (job_key c) ?f (jobs db)"
    by (auto elim: update_job_Some)
  have key: "job_key (?f y) = job_key y" for y by (simp add: failed_row_def)
  have find: "row_find job_key k' (jobs ?db) =
      (if k' = job_key c then map_option ?f (row_find job_key (job_key c) (jobs db)) else row_find job_key k' (jobs db))" for k'
    unfolding db1 by (rule row_update_find) (rule key)
  have target: "target = retry_status policy c" using failure_target_status [OF f] by simp
  have fresh: "job_key y \<noteq> job_key c" if "y \<in> set rest" for y
    using that Cons.prems(2) by (auto simp: image_iff)
  have rest: "row_find job_key (job_key y) (jobs ?db) = Some y" if "y \<in> set rest" for y
    using Cons.prems(3) [of y] that fresh [OF that] by (simp only: find if_False) simp
  note IH = Cons.IH [OF rec _ rest]
  show ?case
  proof (cases "k = job_key c")
    case True
    with c Cons.prems(4) have rc: "r = c" by simp
    have "row_find job_key k (jobs ?db) = Some (?f c)" unfolding find True by (simp only: simp_thms if_True c option.map)
    moreover have "?f c \<notin> set rest" using fresh key by metis
    ultimately show ?thesis using IH [of "?f c"] Cons.prems(2) rc target by auto
  next
    case False
    with Cons.prems(4) have "row_find job_key k (jobs ?db) = Some r" by (simp only: find if_False)
    moreover have "r \<noteq> c" using False row_find_key [OF Cons.prems(4)] by auto
    ultimately show ?thesis using IH [of r] Cons.prems(2) by auto
  qed
qed

lemma recover_follows:
  assumes "job_recover_stale policy locked now db = Inr (n, db')" and "queue_keys db"
  shows "follows (row_call sha policy (Recover locked now)) db db'"
  unfolding follows_def
proof (intro allI impI)
  fix k r
  assume r: "row_find job_key k (jobs db) = Some r"
  let ?g = "\<lambda>r :: job_row. case jb_lease_expires_at r of None \<Rightarrow> 0 | Some e \<Rightarrow> e"
  let ?rest = "sort_key ?g (filter (stale now locked) (jobs db))"
  have "distinct (map job_key (filter (stale now locked) (jobs db)))"
    using assms(2) by (simp add: queue_keys_def distinct_map_filter)
  then have d: "distinct (map job_key ?rest)" by (simp add: distinct_map)
  have own: "row_find job_key (job_key y) (jobs db) = Some y" if "y \<in> set ?rest" for y
    using that assms(2) by (auto simp: queue_keys_def intro: row_find_distinct [of job_key])
  from r have "r \<in> set (jobs db)" by (auto dest: row_find_SomeD)
  then have mem: "r \<in> set ?rest \<longleftrightarrow> stale now locked r" by simp
  from recover_rows_find [OF assms(1) [unfolded job_recover_stale_def] d own r] obtain r' where
    r': "row_find job_key k (jobs db') = Some r'" and
    "if stale now locked r then \<exists>delay. r' = failed_row (retry_status policy r) delay ''STALE_LEASE_RECOVERED'' now r
     else r' = r" unfolding mem by blast
  then have "row_call sha policy (Recover locked now) r r'"
    by (auto simp: row_call_def failed_row_def retry_status_def stale_def split: if_splits)
  with r' show "\<exists>r'. row_find job_key k (jobs db') = Some r' \<and> row_call sha policy (Recover locked now) r r'"
    by blast
qed

lemma queue_run_follows:
  assumes "queue_run sha policy call db = Inr db'" and "queue_keys db"
  shows "follows (row_call sha policy call) db db'"
proof (cases call)
  case (Enqueue t job)
  with assms show ?thesis by (simp only: queue_run.simps only_db_Inr) (elim exE, rule enqueue_follows)
next
  case (Submit t run job)
  with assms show ?thesis by (simp only: queue_run.simps only_db_Inr) (elim exE, rule submit_follows)
next
  case (Claim token locked worker now)
  with assms show ?thesis by (simp only: queue_run.simps only_db_Inr) (elim exE, rule claim_follows)
next
  case (Heartbeat t j token now)
  with assms show ?thesis by (simp only: queue_run.simps) (rule heartbeat_follows)
next
  case (Complete t j token partial now)
  with assms show ?thesis by (simp only: queue_run.simps) (rule complete_follows)
next
  case (Fail t j token reason retryable now)
  with assms show ?thesis by (simp only: queue_run.simps) (rule fail_follows)
next
  case (Cancel t j now)
  with assms show ?thesis by (simp only: queue_run.simps only_db_Inr) (elim exE, rule cancel_follows)
next
  case (Requeue t j c now)
  with assms show ?thesis by (simp only: queue_run.simps only_db_Inr) (elim exE, rule requeue_follows)
next
  case (Recover locked now)
  with assms show ?thesis by (simp only: queue_run.simps only_db_Inr) (elim exE, rule recover_follows)
qed

end
