(* ===== verification/JobProperties.thy ===== *)
theory JobProperties
  imports JobWorker JobCalls
begin

text \<open>
  The properties of the research queue and its worker, with their applications to a small
  concrete queue.
\<close>

definition demo_sha :: "string \<Rightarrow> string" where
  "demo_sha s = s"

definition demo_queued :: research_job where
  "demo_queued = \<lparr>jb_job_id = ''job-1'', jb_tenant_id = ''acme'', jb_run_id = ''run-1'',
     jb_correlation_id = ''corr-1'', jb_payload_hash = ''sha256:'' @ replicate 64 (CHR ''a''),
     jb_status = QUEUED, jb_attempts = 0, jb_available_at = 100, jb_created_at = 100,
     jb_updated_at = 100, jb_lease_hash = None, jb_lease_expires_at = None\<rparr>"

definition demo_run :: run_row where
  "demo_run = \<lparr>rn_tenant_id = ''acme'', rn_run_id = ''run-1'', rn_decision_file_id = ''case-1'',
     rn_fingerprint = ''fp-1'', rn_status = ''PROPOSED'', rn_json = ''{}''\<rparr>"

definition empty_queue :: job_db where
  "empty_queue = \<lparr>jobs = [], job_events = [], runs = [], budget_usage = [], runtime_limits = (\<lambda>_. None)\<rparr>"

definition queue_of :: "'a result \<Rightarrow> ('a \<Rightarrow> job_db) \<Rightarrow> job_db" where
  "queue_of r f = (case r of Inl _ \<Rightarrow> empty_queue | Inr x \<Rightarrow> f x)"

definition demo_db1 :: job_db where
  "demo_db1 = queue_of (job_submit ''acme'' demo_run demo_queued empty_queue) snd"

definition demo_db2 :: job_db where
  "demo_db2 = queue_of (job_claim demo_sha default_policy ''token-000001'' [] ''w1'' 200 demo_db1) snd"

lemma queue_of_snd:
  "(case r of Inl _ \<Rightarrow> False | Inr p \<Rightarrow> P (fst p)) \<Longrightarrow> \<exists>x. P x \<and> r = Inr (x, queue_of r snd)"
  by (auto simp: queue_of_def split: sum.splits)

lemma demo_submitted: "\<exists>x. True \<and> job_submit ''acme'' demo_run demo_queued empty_queue = Inr (x, demo_db1)"
  unfolding demo_db1_def by (rule queue_of_snd) code_simp

lemma demo_claimed: "\<exists>x. x \<noteq> None \<and>
    job_claim demo_sha default_policy ''token-000001'' [] ''w1'' 200 demo_db1 = Inr (x, demo_db2)"
  unfolding demo_db2_def by (rule queue_of_snd) code_simp

lemma demo_policy_ok: "job_policy_post_init default_policy = Inr ()"
  by code_simp

lemma policy_attempts: "job_policy_post_init p = Inr () \<Longrightarrow> 1 \<le> max_attempts p"
  by (auto simp: job_policy_post_init_def monad_simps)

lemma demo_steps: "job_steps demo_sha default_policy empty_queue demo_db2"
proof -
  have "job_step demo_sha default_policy empty_queue demo_db1"
    using demo_submitted by (elim exE conjE, intro step_submit) (simp_all add: demo_queued_def)
  moreover have "job_step demo_sha default_policy demo_db1 demo_db2"
    using demo_claimed by (elim exE conjE) (rule step_claim)
  ultimately show ?thesis by (meson r_into_rtranclp rtranclp.rtrancl_into_rtrancl)
qed

lemma empty_rows_ok: "rows_ok policy (jobs empty_queue)"
  by (simp add: rows_ok_def empty_queue_def)

text \<open>
  C13. Whatever sequence of queue operations runs (submissions, claims, heartbeats,
  completions, failures, cancellations, requeues and recoveries, in any order and by any
  worker), the job table stays well formed: no duplicate job and one job per run, a lease and
  its expiry exactly on the RUNNING rows, attempts between 0 and the policy's limit, below
  the limit while the job waits, and at least one once it has run. New jobs are submitted
  with no attempts, as the service does.
\<close>

theorem jobs_stay_well_formed:
  assumes "job_policy_post_init policy = Inr ()" and "rows_ok policy (jobs db)"
    and "job_steps sha policy db db'"
  shows "rows_ok policy (jobs db')"
proof -
  note pol = policy_attempts [OF assms(1)]
  show ?thesis by (rule rows_steps_inv(1) [OF conjunct1 [OF job_steps_rows [OF assms(3,2) pol]] assms(2) pol])
qed

theorem jobs_stay_well_formed_witness:
  "rows_ok default_policy (jobs demo_db2) \<and> map jb_status (jobs demo_db2) = [RUNNING]"
proof
  show "rows_ok default_policy (jobs demo_db2)"
    by (rule jobs_stay_well_formed [OF demo_policy_ok empty_rows_ok demo_steps])
  show "map jb_status (jobs demo_db2) = [RUNNING]" by code_simp
qed

text \<open>
  C12. A tenant never has more running jobs than its limit (two where none is set): if this
  holds at the start, no sequence of operations, each a transaction of its own, breaks it.
\<close>

theorem tenant_running_limit:
  assumes "job_policy_post_init policy = Inr ()" and "rows_ok policy (jobs db)"
    and "running_count t db \<le> job_limit t db" and "job_steps sha policy db db'"
  shows "running_count t db' \<le> job_limit t db'"
proof -
  note pol = policy_attempts [OF assms(1)]
  note s = job_steps_rows [OF assms(4,2) pol]
  from rows_steps_inv(2) [OF conjunct1 [OF s] assms(2) pol] conjunct2 [OF s] assms(3)
  show ?thesis by (simp add: running_count_rows job_limit_of)
qed

theorem tenant_running_limit_witness:
  "running_count ''acme'' demo_db2 \<le> job_limit ''acme'' demo_db2 \<and> running_count ''acme'' demo_db2 = 1"
proof
  have "running_count ''acme'' empty_queue \<le> job_limit ''acme'' empty_queue" by code_simp
  then show "running_count ''acme'' demo_db2 \<le> job_limit ''acme'' demo_db2"
    by (rule tenant_running_limit [OF demo_policy_ok empty_rows_ok _ demo_steps])
  show "running_count ''acme'' demo_db2 = 1" by code_simp
qed

text \<open>
  C11. The queue moves a job only along the lifecycle table of \<^verbatim>\<open>jobs/lifecycle.py\<close>, which
  its SQL never consults. In a well-formed queue, which every run keeps well formed (C13),
  take any call that returns and any job: the job is not lost, keeps its run and payload,
  and its status afterwards is the one \<open>next_status\<close> names for that call, by one move of
  the table or none. A claim takes a waiting job that is due and unlocked to RUNNING or
  leaves it; a completion, a failure and a heartbeat need the live lease of the job they
  name; a cancellation stops a waiting or running job and no other; a requeue takes a
  finished job back to QUEUED; a recovery ends exactly the attempts whose lease expired; no
  call touches another job than the one it names, and none a cancelled one.
\<close>

theorem jobs_follow_lifecycle:
  assumes "rows_ok policy (jobs db)" and "queue_run sha policy call db = Inr db'"
    and "row_find job_key (t, j) (jobs db) = Some r"
  shows "\<exists>r'. row_find job_key (t, j) (jobs db') = Some r' \<and>
    jb_run_id r' = jb_run_id r \<and> jb_payload_hash r' = jb_payload_hash r \<and>
    (jb_status r' = next_status sha policy call r \<or>
     (\<exists>token locked worker now. call = Claim token locked worker now) \<and> r' = r) \<and>
    (jb_status r' = jb_status r \<or> job_transition (jb_status r) (jb_status r') = Inr (jb_status r')) \<and>
    (\<forall>token now. needs_lease call = Some (t, j, token, now) \<longrightarrow> holds_lease sha token now r) \<and>
    (jb_status r' = jb_status r \<longrightarrow> r' = r \<or> (\<exists>token now. call = Heartbeat t j token now)) \<and>
    (jb_status r = CANCELLED \<longrightarrow> r' = r)"
proof -
  have key: "job_key r = (t, j)" using row_find_key [OF assms(3)] .
  have "queue_keys db" using assms(1) by (simp add: rows_ok_def queue_keys_def)
  from queue_run_follows [OF assms(2) this] assms(3) obtain r' where
    r': "row_find job_key (t, j) (jobs db') = Some r'" and c: "row_call sha policy call r r'"
    unfolding follows_def by blast
  have "job_transition a b = Inr b \<longleftrightarrow> b \<in> set (job_allowed a)" for a b
    by (simp add: job_transition_def monad_simps)
  with c key have 1: "jb_run_id r' = jb_run_id r" "jb_payload_hash r' = jb_payload_hash r"
    "jb_status r' = next_status sha policy call r \<or>
     (\<exists>token locked worker now. call = Claim token locked worker now) \<and> r' = r"
    "jb_status r' = jb_status r \<or> job_transition (jb_status r) (jb_status r') = Inr (jb_status r')"
    by (auto simp: row_call_def split: if_splits)
  have 2: "holds_lease sha token now r" if "needs_lease call = Some (t, j, token, now)" for token now
    using c key that by (simp add: row_call_def)
  have 3: "r' = r \<or> (\<exists>token now. call = Heartbeat t j token now)" if "jb_status r' = jb_status r"
    using c key that by (auto simp: row_call_def)
  have "r' = r" if x: "jb_status r = CANCELLED"
  proof -
    from x c have same: "jb_status r' = jb_status r" by (auto simp: row_call_def split: if_splits)
    from 3 [OF this] show ?thesis
    proof
      assume "\<exists>token now. call = Heartbeat t j token now"
      then have "\<exists>token now. holds_lease sha token now r" using 2 by fastforce
      with x show ?thesis by (auto dest: holds_lease_running)
    qed
  qed
  with r' 1 2 3 show ?thesis by blast
qed

definition demo_row1 :: job_row where
  "demo_row1 = new_job_row demo_queued"

theorem jobs_follow_lifecycle_witness:
  "\<exists>r'. row_find job_key (''acme'', ''job-1'') (jobs demo_db2) = Some r' \<and>
    next_status demo_sha default_policy (Claim ''token-000001'' [] ''w1'' 200) demo_row1 = RUNNING \<and>
    jb_status r' = RUNNING \<and> job_transition QUEUED RUNNING = Inr RUNNING"
proof -
  let ?call = "Claim ''token-000001'' [] ''w1'' 200"
  have run: "queue_run demo_sha default_policy ?call demo_db1 = Inr demo_db2"
    using demo_claimed by (auto simp: monad_simps)
  have ok: "rows_ok default_policy (jobs demo_db1)" by code_simp
  have r: "row_find job_key (''acme'', ''job-1'') (jobs demo_db1) = Some demo_row1" by code_simp
  have q: "jb_status demo_row1 = QUEUED" "next_status demo_sha default_policy ?call demo_row1 = RUNNING"
    by (code_simp, code_simp)
  have "map_option jb_status (row_find job_key (''acme'', ''job-1'') (jobs demo_db2)) = Some RUNNING"
    by code_simp
  with jobs_follow_lifecycle [OF ok run r] q show ?thesis by auto
qed

text \<open>
  The retry delay is exponential: for a valid policy the \<open>n\<close>-th failed attempt waits
  the base delay times two to the \<open>n - 1\<close>, cut off at the maximum. The code caps the
  exponent at 30, which no valid policy can observe, so the delay never shrinks with the
  attempts and lies between the base and the maximum.
\<close>

theorem retry_delay_exponential:
  assumes "job_policy_post_init p = Inr ()" and "1 \<le> n"
  shows "\<exists>d. retry_delay p n = Inr d \<and>
    d = min (maximum_backoff_seconds p) (base_backoff_seconds p * 2 ^ nat (n - 1)) \<and>
    base_backoff_seconds p \<le> d \<and> d \<le> maximum_backoff_seconds p"
proof -
  from assms(1) have p: "1 \<le> base_backoff_seconds p" "base_backoff_seconds p \<le> maximum_backoff_seconds p"
    "maximum_backoff_seconds p \<le> 86400"
    by (auto simp: job_policy_post_init_def monad_simps)
  have big: "maximum_backoff_seconds p \<le> base_backoff_seconds p * 2 ^ k" if "30 \<le> k" for k :: nat
  proof -
    have "(86400 :: int) \<le> 2 ^ 30" by simp
    also have "\<dots> \<le> 2 ^ k" using that by (intro power_increasing) simp_all
    also have "\<dots> \<le> base_backoff_seconds p * 2 ^ k" using p(1) by simp
    finally show ?thesis using p(3) by simp
  qed
  have grows: "base_backoff_seconds p \<le> base_backoff_seconds p * 2 ^ k" for k :: nat
    using p(1) by simp
  have "min (maximum_backoff_seconds p) (base_backoff_seconds p * 2 ^ nat (min (n - 1) 30)) =
    min (maximum_backoff_seconds p) (base_backoff_seconds p * 2 ^ nat (n - 1))"
    using big [of 30] big [of "nat (n - 1)"] by (cases "n - 1 \<le> 30") (simp_all add: min_def)
  with assms(2) p(2) grows show ?thesis by (simp add: retry_delay_def Let_def)
qed

theorem retry_delay_exponential_witness:
  "\<exists>d. retry_delay default_policy 4 = Inr d \<and> d = 40"
proof -
  have "(1 :: int) \<le> 4" by simp
  from retry_delay_exponential [OF demo_policy_ok this] show ?thesis
    by (simp add: default_policy_def)
qed

definition claim_order :: "job_row \<Rightarrow> int \<times> int \<times> string \<times> string" where
  "claim_order r = (jb_available_at r, jb_created_at r, jb_tenant_id r, jb_job_id r)"

lemma sort_key_hd_least:
  assumes "sort_key f xs = y # ys" and "x \<in> set xs"
  shows "f y \<le> f x"
proof -
  have "x \<in> set (y # ys)" using assms by (metis set_sort)
  moreover have "sorted (map f (y # ys))" using assms(1) by (metis sorted_sort_key)
  ultimately show ?thesis by auto
qed

lemma claim_candidate_least:
  assumes "claim_candidate now locked db = Some r" and "x \<in> set (jobs db)" and "claimable now locked db x"
  shows "claim_order r \<le> claim_order x"
proof -
  let ?xs = "filter (claimable now locked db) (jobs db)"
  from assms(1) obtain ys where "sort_key (\<lambda>r. (jb_available_at r, jb_created_at r, jb_tenant_id r, jb_job_id r)) ?xs = r # ys"
    by (auto simp: claim_candidate_def split: list.splits)
  from sort_key_hd_least [OF this, of x] assms(2,3) show ?thesis by (simp add: claim_order_def)
qed

lemma claim_candidate_None:
  "claim_candidate now locked db = None \<longleftrightarrow> (\<forall>x \<in> set (jobs db). \<not> claimable now locked db x)"
proof -
  have "claim_candidate now locked db = None \<longleftrightarrow> filter (claimable now locked db) (jobs db) = []"
    by (auto simp: claim_candidate_def split: list.splits dest: arg_cong [where f = length])
  then show ?thesis by (simp add: filter_empty_conv)
qed

text \<open>
  A claim serves the queue in order and within the limits: it returns nothing exactly
  when no unlocked job is due in a tenant below its limit, and otherwise the due job with
  the least \<open>(available_at, created_at, tenant, job)\<close>, which it leaves RUNNING with one
  attempt more and a lease of the policy's length under the hash of the returned token.
\<close>

theorem claim_serves_in_order:
  assumes "job_claim sha policy token locked worker now db = Inr (claimed, db')" and "queue_keys db"
  shows "case claimed of
      None \<Rightarrow> db' = db \<and> (\<forall>x \<in> set (jobs db). \<not> claimable now locked db x)
    | Some (job, lease) \<Rightarrow> lease = token \<and>
        (\<exists>r \<in> set (jobs db). claimable now locked db r \<and>
           (\<forall>x \<in> set (jobs db). claimable now locked db x \<longrightarrow> claim_order r \<le> claim_order x) \<and>
           job = research_job.truncate (claimed_row sha policy token now r) \<and>
           row_find job_key (job_key r) (jobs db') = Some (claimed_row sha policy token now r))"
proof (cases "claim_candidate now locked db")
  case None
  with assms(1) have "claimed = None" "db' = db"
    by (auto simp: job_claim_def LeaseToken_def monad_simps)
  with None show ?thesis using claim_candidate_None by auto
next
  case (Some r)
  note c = claim_candidate_Some [OF Some]
  have f: "row_find job_key (job_key r) (jobs db) = Some r"
    using assms(2) c(1) by (auto simp: queue_keys_def intro: row_find_distinct [of job_key])
  from assms(1) Some obtain job where "claimed = Some (job, token)"
    "row_to_job (claimed_row sha policy token now r) = Inr job"
    and db': "jobs db' = row_update job_key (job_key r) (claimed_row sha policy token now) (jobs db)"
    by (auto simp: job_claim_def LeaseToken_def Let_def monad_simps)
  moreover have "row_find job_key (job_key r) (jobs db') = Some (claimed_row sha policy token now r)"
    unfolding db' using f by (subst job_row_update) (simp_all add: claimed_row_def)
  ultimately show ?thesis using c claim_candidate_least [OF Some] by (auto dest: row_to_job_Inr)
qed

lemma claimed_job_row:
  assumes "job_claim sha policy token locked worker now db = Inr (Some (job, lease), db1)" and "queue_keys db"
  shows "\<exists>r. row_find job_key (jb_tenant_id job, jb_job_id job) (jobs db1) = Some r \<and>
    jb_status r = RUNNING \<and> jb_lease_hash r = Some (lease_hash sha lease) \<and>
    jb_lease_expires_at r = Some (now + lease_seconds policy) \<and> row_to_job r = Inr job"
proof -
  from assms(1) obtain r where c: "claim_candidate now locked db = Some r" and l: "lease = token"
    and j: "row_to_job (claimed_row sha policy token now r) = Inr job"
    and db1: "jobs db1 = row_update job_key (job_key r) (claimed_row sha policy token now) (jobs db)"
    by (auto simp: job_claim_def LeaseToken_def Let_def monad_simps split: option.splits)
  have "row_find job_key (job_key r) (jobs db) = Some r"
    using assms(2) claim_candidate_Some [OF c] by (auto simp: queue_keys_def intro: row_find_distinct [of job_key])
  then have f: "row_find job_key (job_key r) (jobs db1) = Some (claimed_row sha policy token now r)"
    unfolding db1 by (subst job_row_update) (simp_all add: claimed_row_def)
  have k: "job_key r = (jb_tenant_id job, jb_job_id job)"
    using row_to_job_Inr [OF j] by (simp add: claimed_row_def)
  from f j l show ?thesis unfolding k by (intro exI conjI) (assumption, simp_all add: claimed_row_def)
qed

theorem claim_serves_in_order_witness:
  "\<exists>job. job_claim demo_sha default_policy ''token-000001'' [] ''w1'' 200 demo_db1
      = Inr (Some (job, ''token-000001''), demo_db2) \<and>
    (\<exists>r \<in> set (jobs demo_db1). job = research_job.truncate (claimed_row demo_sha default_policy ''token-000001'' 200 r))"
proof -
  from demo_claimed obtain job lease where
    c: "job_claim demo_sha default_policy ''token-000001'' [] ''w1'' 200 demo_db1 = Inr (Some (job, lease), demo_db2)"
    by auto
  have k: "queue_keys demo_db1" by code_simp
  from claim_serves_in_order [OF c k] c show ?thesis by auto
qed

text \<open>
  A lease ends with its attempt. Once \<open>complete\<close> or \<open>fail\<close> has returned for a job, no
  token, the one just used included, is accepted for it any more at whatever time: heartbeats
  and completions raise LeaseRejected and \<open>fail\<close> never returns.
\<close>

theorem lease_ends_with_attempt:
  assumes "job_complete sha t j token partial now db = Inr db' \<or>
      job_fail sha policy t j token reason retryable now db = Inr db'"
  shows "job_heartbeat sha policy' t j token' now' db' = Inl lease_rejected \<and>
    job_complete sha t j token' partial' now' db' = Inl lease_rejected \<and>
    (\<exists>e. job_fail sha policy' t j token' reason' retryable' now' db' = Inl e)"
proof -
  have "\<exists>r. row_find job_key (t, j) (jobs db') = Some r \<and> jb_status r \<noteq> RUNNING"
    using assms
  proof
    assume "job_complete sha t j token partial now db = Inr db'"
    then show ?thesis
      by (auto simp: job_complete_def Let_def monad_simps job_row_update
          split: prod.splits option.splits elim!: update_job_Some)
  next
    assume "job_fail sha policy t j token reason retryable now db = Inr db'"
    then show ?thesis
      by (auto simp: job_fail_def monad_simps job_row_update failed_row_def failure_target_def
          split: prod.splits option.splits if_splits elim!: update_job_Some)
  qed
  then obtain r where r: "row_find job_key (t, j) (jobs db') = Some r"
    and "\<And>token' now'. \<not> holds_lease sha token' now' r" by (auto simp: holds_lease_def)
  then have u: "update_job t j (holds_lease sha token' now') f db' = (None, db')" for f
    by (simp add: update_job_def)
  moreover have "\<exists>e. job_fail sha policy' t j token' reason' retryable' now' db' = Inl e"
    using r \<open>\<And>token' now'. \<not> holds_lease sha token' now' r\<close> by (simp add: job_fail_def ensure_def)
  ultimately show ?thesis by (simp add: job_heartbeat_def job_complete_def Let_def)
qed

definition demo_db3 :: job_db where
  "demo_db3 = queue_of (job_complete demo_sha ''acme'' ''job-1'' ''token-000001'' False 210 demo_db2) (\<lambda>db. db)"

lemma demo_completed:
  "job_complete demo_sha ''acme'' ''job-1'' ''token-000001'' False 210 demo_db2 = Inr demo_db3"
proof -
  have "case job_complete demo_sha ''acme'' ''job-1'' ''token-000001'' False 210 demo_db2 of
      Inl _ \<Rightarrow> False | Inr _ \<Rightarrow> True" by code_simp
  then show ?thesis by (auto simp: demo_db3_def queue_of_def split: sum.splits)
qed

theorem lease_ends_with_attempt_witness:
  "job_complete demo_sha ''acme'' ''job-1'' ''token-000001'' False 210 demo_db2 = Inr demo_db3 \<and>
   job_complete demo_sha ''acme'' ''job-1'' ''token-000001'' False 211 demo_db3 = Inl lease_rejected"
  using lease_ends_with_attempt [OF disjI1 [OF demo_completed]] demo_completed by blast

lemma enqueue_known:
  "insert_job job db = Inr (False, db) \<Longrightarrow> job_enqueue t job db = Inr (x, db') \<Longrightarrow> db' = db"
  by (auto simp: job_enqueue_def monad_simps)

lemma enqueue_stored:
  assumes "job_enqueue t job db = Inr (x, db')"
  shows "jb_tenant_id job = t \<and> jb_payload_hash x = jb_payload_hash job \<and>
    select_by_run ''JOB_ENQUEUE_CONVERGENCE_FAILED'' t (jb_run_id job) db' = Inr x \<and>
    (t, jb_run_id job) \<in> job_run_key ` set (jobs db')"
proof -
  from assms have h: "jb_tenant_id job = t" by (auto simp: job_enqueue_def monad_simps)
  from assms obtain ins db1 existing where
    q: "select_by_run ''JOB_ENQUEUE_CONVERGENCE_FAILED'' t (jb_run_id job) db1 = Inr existing"
    and p: "jb_payload_hash existing = jb_payload_hash job"
    and e: "Inr (existing, if ins then append_job_event existing ''JOB_QUEUED'' (jb_updated_at job) None None db1
      else db1) = (Inr (x, db') :: _ result)"
    by (auto simp: job_enqueue_def monad_simps)
  from e have x: "existing = x" by simp
  note d = appended_event(1) [OF e]
  note s = q [unfolded x] and h = h p [unfolded x]
  from s d have s': "select_by_run ''JOB_ENQUEUE_CONVERGENCE_FAILED'' t (jb_run_id job) db' = Inr x"
    by (simp add: select_by_run_def)
  then have "row_find job_run_key (t, jb_run_id job) (jobs db') \<noteq> None"
    by (auto simp: select_by_run_def split: option.splits)
  with s' h show ?thesis by (simp add: row_find_None_iff)
qed

text \<open>
  Enqueueing is idempotent per run: after a successful enqueue, any later one for the
  same tenant and run returns the stored job and changes nothing when it carries the same
  payload, and raises JobConflict when it carries another.
\<close>

theorem enqueue_idempotent:
  assumes "job_enqueue t job db = Inr (x, db')"
    and "jb_tenant_id again = t" and "jb_run_id again = jb_run_id job" and "jb_status again = QUEUED"
  shows "job_enqueue t again db' =
    (if jb_payload_hash again = jb_payload_hash job then Inr (x, db')
     else Inl (JobConflict ''JOB_PAYLOAD_CONFLICT''))"
proof -
  note e = enqueue_stored [OF assms(1)]
  then have "insert_job again db' = Inr (False, db')"
    using assms(2,3) by (simp add: insert_job_def Let_def)
  with e assms(2-4) show ?thesis by (simp add: job_enqueue_def ensure_def)
qed

definition demo_conflict :: research_job where
  "demo_conflict = demo_queued\<lparr>jb_job_id := ''job-2'', jb_payload_hash := ''sha256:'' @ replicate 64 (CHR ''b'')\<rparr>"

theorem enqueue_idempotent_witness:
  "\<exists>x. job_enqueue ''acme'' demo_queued demo_db1 = Inr (x, demo_db1) \<and>
    job_enqueue ''acme'' demo_conflict demo_db1 = Inl (JobConflict ''JOB_PAYLOAD_CONFLICT'')"
proof -
  have "case job_enqueue ''acme'' demo_queued demo_db1 of Inl _ \<Rightarrow> False | Inr (x, db) \<Rightarrow> True" by code_simp
  then obtain x db where e: "job_enqueue ''acme'' demo_queued demo_db1 = Inr (x, db)"
    by (auto split: sum.splits)
  have "insert_job demo_queued demo_db1 = Inr (False, demo_db1)"
  proof -
    have "job_run_key (new_job_row demo_queued) \<in> job_run_key ` set (jobs demo_db1)" by code_simp
    then show ?thesis by (simp add: insert_job_def Let_def)
  qed
  from enqueue_known [OF this e] have "db = demo_db1" .
  moreover have "jb_tenant_id demo_conflict = ''acme'' \<and> jb_run_id demo_conflict = jb_run_id demo_queued \<and>
      jb_status demo_conflict = QUEUED \<and> jb_payload_hash demo_conflict \<noteq> jb_payload_hash demo_queued"
    by code_simp
  ultimately show ?thesis using enqueue_idempotent [OF e, of demo_conflict] e by auto
qed

text \<open>
  The audit trail of the queue is append-only and gapless: whatever operations run, the
  events logged so far stay, and every job numbers its events 1, 2, 3, ... with the event id
  made of the job and the number.
\<close>

theorem job_events_gapless:
  assumes "events_ok (job_events db)" and "job_steps sha policy db db'"
  shows "events_ok (job_events db') \<and> (\<exists>new. job_events db' = job_events db @ new)"
  using job_steps_grow [OF assms(2)] assms(1) by (simp add: events_grow_def)

theorem job_events_gapless_witness:
  "events_ok (job_events demo_db2) \<and>
   map je_event_type (job_events demo_db2) = [''JOB_QUEUED'', ''JOB_CLAIMED'']"
proof
  have "events_ok (job_events empty_queue)" by (simp add: events_ok_def own_events_def empty_queue_def)
  from job_events_gapless [OF this demo_steps] show "events_ok (job_events demo_db2)" by simp
  show "map je_event_type (job_events demo_db2) = [''JOB_QUEUED'', ''JOB_CLAIMED'']" by code_simp
qed

text \<open>
  C27. A round of the worker that is left alone finishes its job: if the claim succeeds, the
  tenant id is valid, the processor returns, every heartbeat and the end of the run come
  before the lease expires, and no other party touches the job meanwhile (they may do
  anything else), the round returns True and the job is COMPLETED, or PARTIAL when the
  processor says so, with its lease released and the attempt counted.
\<close>

theorem worker_finishes:
  assumes "job_claim sha policy token locked worker now db = Inr (Some (job, lease), db1)"
    and "queue_keys db" and "tenant_id_ok (jb_tenant_id job)"
    and "processor job = (schedule, Returned partial)"
    and "timely policy (now + lease_seconds policy) schedule clock"
    and "list_all (leaves_job (jb_tenant_id job) (jb_job_id job)) schedule"
  shows "\<exists>db' r. run_once sha policy processor token locked worker now clock db = (Inr True, db') \<and>
    row_find job_key (jb_tenant_id job, jb_job_id job) (jobs db') = Some r \<and>
    jb_status r = (if partial then PARTIAL else COMPLETED) \<and> jb_lease_hash r = None \<and>
    jb_attempts r = jb_attempts job"
proof -
  from claimed_job_row [OF assms(1,2)] obtain r where
    r: "row_find job_key (jb_tenant_id job, jb_job_id job) (jobs db1) = Some r"
    "jb_status r = RUNNING" "jb_lease_hash r = Some (lease_hash sha lease)"
    "jb_lease_expires_at r = Some (now + lease_seconds policy)" "row_to_job r = Inr job" by blast
  from maintain_lease_live [OF r(1-4) assms(5,6)] obtain db2 e u where
    m: "maintain_lease sha policy (jb_tenant_id job) (jb_job_id job) lease schedule False db1 = (False, db2)"
    and e: "clock < e" and r2: "row_find job_key (jb_tenant_id job, jb_job_id job) (jobs db2) =
      Some (r\<lparr>jb_lease_expires_at := Some e, jb_updated_at := u\<rparr>)" by blast
  let ?r2 = "r\<lparr>jb_lease_expires_at := Some e, jb_updated_at := u\<rparr>"
  have h: "holds_lease sha lease clock ?r2" using r(2,3) e by (simp add: holds_lease_def)
  have "\<exists>x. row_to_job ?r2 = Inr x" using r(3,5) by (auto simp: row_to_job_Inr_iff)
  then obtain x where x: "row_to_job ?r2 = Inr x" by blast
  from complete_live [OF r2 h x, of partial] obtain db' where
    c: "job_complete sha (jb_tenant_id job) (jb_job_id job) lease partial clock db2 = Inr db'"
    and r': "row_find job_key (jb_tenant_id job, jb_job_id job) (jobs db') =
      Some (?r2\<lparr>jb_status := if partial then PARTIAL else COMPLETED, jb_lease_hash := None,
        jb_lease_expires_at := None, jb_updated_at := clock\<rparr>)" by blast
  have j: "jb_status job = RUNNING" "jb_attempts job = jb_attempts r"
    using r(2,5) by (auto simp: row_to_job_Inr_iff research_job.defs)
  have "\<not> job_is_cancelled (jb_tenant_id job) (jb_job_id job) db1"
    "\<not> job_is_cancelled (jb_tenant_id job) (jb_job_id job) db2"
    using r(1,2) r2 by (simp_all add: job_is_cancelled_def)
  then have "run_once sha policy processor token locked worker now clock db = (Inr True, db')"
    using assms(1,3,4) m c j by (simp add: run_once_def bind_action_def transaction_def TenantContext_def
        worker_cancelled_def transaction_unit_def report_outcome_def)
  with r' j show ?thesis by auto
qed

lemma action_Inr:
  "(case p of (Inl _, _) \<Rightarrow> False | (Inr b, d) \<Rightarrow> b \<and> P d) \<Longrightarrow> \<exists>d. p = (Inr True, d) \<and> P d"
  by (auto split: prod.splits sum.splits)

definition demo_processor :: "research_job \<Rightarrow> run_event list \<times> processor_outcome" where
  "demo_processor job = ([HeartbeatDue 250, HeartbeatDue 300], Returned True)"

theorem worker_finishes_witness:
  "\<exists>db' r. run_once demo_sha default_policy demo_processor ''token-000001'' [] ''w1'' 200 350 demo_db1 = (Inr True, db') \<and>
    row_find job_key (''acme'', ''job-1'') (jobs db') = Some r \<and> jb_status r = PARTIAL"
proof -
  from demo_claimed obtain job lease where
    c: "job_claim demo_sha default_policy ''token-000001'' [] ''w1'' 200 demo_db1 = Inr (Some (job, lease), demo_db2)"
    by auto
  have k: "queue_keys demo_db1" by code_simp
  have "map (\<lambda>r. (jb_tenant_id r, jb_job_id r)) (jobs demo_db2) = [(''acme'', ''job-1'')]" by code_simp
  with claimed_job_row [OF c k] have j: "jb_tenant_id job = ''acme''" "jb_job_id job = ''job-1''"
    by (auto dest!: row_find_SomeD)
  have t: "tenant_id_ok (jb_tenant_id job)" unfolding j by code_simp
  have p: "demo_processor job = ([HeartbeatDue 250, HeartbeatDue 300], Returned True)"
    by (simp add: demo_processor_def)
  have "timely default_policy (200 + lease_seconds default_policy) [HeartbeatDue 250, HeartbeatDue 300] 350"
    by code_simp
  from worker_finishes [where processor = demo_processor, OF c k t p this] j show ?thesis by (auto simp: leaves_job_def)
qed

text \<open>
  A worker that has lost its lease writes nothing. If, when the processor has ended,
  the job's row no longer carries the worker's live lease (it expired, was recovered, was
  claimed by another worker, or the job was cancelled), the round leaves the database
  exactly as it found it, whatever the processor's outcome.
\<close>

theorem stale_worker_writes_nothing:
  assumes "job_claim sha policy token locked worker now db = Inr (Some (job, lease), db1)"
    and "tenant_id_ok (jb_tenant_id job)" and "jb_status job = RUNNING"
    and "\<not> job_is_cancelled (jb_tenant_id job) (jb_job_id job) db1"
    and "processor job = (schedule, outcome)"
    and "maintain_lease sha policy (jb_tenant_id job) (jb_job_id job) lease schedule False db1 = (lost, db2)"
    and "\<forall>r. row_find job_key (jb_tenant_id job, jb_job_id job) (jobs db2) = Some r \<longrightarrow>
      \<not> holds_lease sha lease clock r"
  shows "snd (run_once sha policy processor token locked worker now clock db) = db2"
proof -
  have "\<exists>e. report_outcome sha policy (jb_tenant_id job) (jb_job_id job) lease outcome clock db2 = Inl e"
  proof (cases "row_find job_key (jb_tenant_id job, jb_job_id job) (jobs db2)")
    case None
    then show ?thesis by (cases outcome) (simp_all add: report_outcome_def job_complete_def job_fail_def
        update_job_def Let_def ensure_def)
  next
    case (Some r)
    with assms(7) show ?thesis by (cases outcome) (simp_all add: report_outcome_def job_complete_def
        job_fail_def update_job_def Let_def ensure_def)
  qed
  then obtain e where "report_outcome sha policy (jb_tenant_id job) (jb_job_id job) lease outcome clock db2 = Inl e"
    by blast
  with assms(1-6) show ?thesis
    by (cases outcome) (simp_all add: run_once_def bind_action_def transaction_def TenantContext_def
        worker_cancelled_def transaction_unit_def)
qed

text \<open>The other party takes the job away: its lease is recovered after it expired.\<close>

definition demo_taken :: "job_db \<Rightarrow> job_db" where
  "demo_taken db = queue_of (job_cancel ''acme'' ''job-1'' 205 db) snd"

definition demo_interrupted :: "research_job \<Rightarrow> run_event list \<times> processor_outcome" where
  "demo_interrupted job = ([Others demo_taken], Returned False)"

theorem stale_worker_writes_nothing_witness:
  "snd (run_once demo_sha default_policy demo_interrupted ''token-000001'' [] ''w1'' 200 230 demo_db1) = demo_taken demo_db2 \<and>
   map jb_status (jobs (demo_taken demo_db2)) = [CANCELLED]"
proof
  from demo_claimed obtain job lease where
    c: "job_claim demo_sha default_policy ''token-000001'' [] ''w1'' 200 demo_db1 = Inr (Some (job, lease), demo_db2)"
    by auto
  have k: "queue_keys demo_db1" by code_simp
  from claimed_job_row [OF c k] obtain r where
    r: "row_find job_key (jb_tenant_id job, jb_job_id job) (jobs demo_db2) = Some r" "jb_status r = RUNNING"
      "row_to_job r = Inr job" by blast
  have "map (\<lambda>r. (jb_tenant_id r, jb_job_id r)) (jobs demo_db2) = [(''acme'', ''job-1'')]" by code_simp
  with r(1) have j: "jb_tenant_id job = ''acme''" "jb_job_id job = ''job-1''"
    by (auto dest!: row_find_SomeD)
  have t: "tenant_id_ok (jb_tenant_id job)" unfolding j by code_simp
  have s: "jb_status job = RUNNING" using row_to_job_Inr [OF r(3)] r(2) by simp
  have n: "\<not> job_is_cancelled (jb_tenant_id job) (jb_job_id job) demo_db2"
    using r(1,2) by (simp add: job_is_cancelled_def)
  have p: "demo_interrupted job = ([Others demo_taken], Returned False)" by (simp add: demo_interrupted_def)
  have m: "maintain_lease demo_sha default_policy (jb_tenant_id job) (jb_job_id job) lease [Others demo_taken] False demo_db2
      = (False, demo_taken demo_db2)" by simp
  show taken: "map jb_status (jobs (demo_taken demo_db2)) = [CANCELLED]" by code_simp
  have "\<forall>r. row_find job_key (jb_tenant_id job, jb_job_id job) (jobs (demo_taken demo_db2)) = Some r \<longrightarrow>
      \<not> holds_lease demo_sha lease 230 r"
    using taken by (auto simp: holds_lease_def dest!: row_find_SomeD)
  from stale_worker_writes_nothing [where processor = demo_interrupted, OF c t s n p m this]
  show "snd (run_once demo_sha default_policy demo_interrupted ''token-000001'' [] ''w1'' 200 230 demo_db1) = demo_taken demo_db2" .
qed

text \<open>
  The worker is a client of the queue and nothing else: as long as the other parties
  only use the queue's operations, so does a round of the worker, which therefore keeps every
  invariant of the queue (C17 to C19 and C24), with many workers too.
\<close>

theorem worker_round_is_queue_run:
  assumes "run_once sha policy processor token locked worker now clock db = (Inr b, db')"
    and "\<forall>job f d. Others f \<in> set (fst (processor job)) \<longrightarrow> job_steps sha policy d (f d)"
  shows "job_steps sha policy db db'"
  by (rule run_once_steps [OF assms(1)]) (use assms(2) in blast)

theorem worker_round_is_queue_run_witness:
  "\<exists>db'. run_once demo_sha default_policy demo_processor ''token-000001'' [] ''w1'' 200 350 demo_db1 = (Inr True, db') \<and>
     job_steps demo_sha default_policy demo_db1 db' \<and> map jb_status (jobs db') = [PARTIAL]"
proof -
  have c: "case run_once demo_sha default_policy demo_processor ''token-000001'' [] ''w1'' 200 350 demo_db1 of
      (Inl _, _) \<Rightarrow> False | (Inr b, db') \<Rightarrow> b \<and> map jb_status (jobs db') = [PARTIAL]" by code_simp
  have o: "\<forall>job f d. Others f \<in> set (fst (demo_processor job)) \<longrightarrow> job_steps demo_sha default_policy d (f d)"
    by (simp add: demo_processor_def)
  show ?thesis
  proof (rule exE [OF action_Inr [OF c]], elim conjE, intro exI conjI)
    fix db'
    assume r: "run_once demo_sha default_policy demo_processor ''token-000001'' [] ''w1'' 200 350 demo_db1 = (Inr True, db')"
    then show "run_once demo_sha default_policy demo_processor ''token-000001'' [] ''w1'' 200 350 demo_db1 = (Inr True, db')" .
    show "job_steps demo_sha default_policy demo_db1 db'" by (rule worker_round_is_queue_run [OF r o])
  qed
qed

end
