(* ===== verification/Decimals.thy ===== *)
theory Decimals
  imports Prelude
begin

text \<open>
  What the sources use of \<^verbatim>\<open>decimal.Decimal\<close>: the constructor on a string, the order
  (which raises on a NaN), \<^verbatim>\<open>int\<close> and \<^verbatim>\<open>str\<close>. A finite value is a sign, the
  digits of its coefficient and an exponent, as in the Python implementation; comparisons are exact.
  The limits on the size of an exponent are not modelled.
\<close>

datatype decimal =
    Finite bool string int
  | Infinite bool
  | NotANumber

definition int_of_digits :: "string \<Rightarrow> int" where
  "int_of_digits s = foldl (\<lambda>a c. 10 * a + int (digit_val c)) 0 s"

text \<open>\<^verbatim>\<open>str(int(s))\<close> for a run of digits.\<close>

definition strip_zeros :: "string \<Rightarrow> string" where
  "strip_zeros s = (let r = dropWhile (\<lambda>c. c = CHR ''0'') s in if r = [] then ''0'' else r)"

text \<open>A run of digits and the rest of the text.\<close>

fun span_digits :: "string \<Rightarrow> string \<times> string" where
  "span_digits [] = ([], [])"
| "span_digits (c # s) =
     (if is_digit c then (case span_digits s of (ds, r) \<Rightarrow> (c # ds, r)) else ([], c # s))"

definition parse_sign :: "string \<Rightarrow> bool \<times> string" where
  "parse_sign s = (case s of [] \<Rightarrow> (False, [])
     | c # r \<Rightarrow> if c = CHR ''-'' then (True, r) else if c = CHR ''+'' then (False, r) else (False, s))"

text \<open>The exponent part: nothing, or \<^verbatim>\<open>E\<close>, a sign and digits.\<close>

definition parse_exponent :: "string \<Rightarrow> int option" where
  "parse_exponent s = (case s of [] \<Rightarrow> Some 0
     | c # r \<Rightarrow> if py_lower_char c \<noteq> CHR ''e'' then None
         else case parse_sign r of (neg, t) \<Rightarrow>
           (case span_digits t of (ds, rest) \<Rightarrow>
              if ds = [] \<or> rest \<noteq> [] then None
              else Some (if neg then - int_of_digits ds else int_of_digits ds)))"

definition parse_number :: "bool \<Rightarrow> string \<Rightarrow> decimal option" where
  "parse_number neg s =
     (case span_digits s of (whole, r) \<Rightarrow>
      (case (case r of [] \<Rightarrow> ([], r) | c # t \<Rightarrow> if c = CHR ''.'' then span_digits t else ([], r)) of
         (frac, rest) \<Rightarrow>
           if whole = [] \<and> frac = [] then None
           else map_option (\<lambda>e. Finite neg (strip_zeros (whole @ frac)) (e - int (length frac)))
                  (parse_exponent rest)))"

definition parse_special :: "bool \<Rightarrow> string \<Rightarrow> decimal option" where
  "parse_special neg s =
     (if s = ''inf'' \<or> s = ''infinity'' then Some (Infinite neg)
      else if py_startswith s ''nan'' \<and> list_all is_digit (drop 3 s) \<or>
              py_startswith s ''snan'' \<and> list_all is_digit (drop 4 s)
      then Some NotANumber else None)"

definition decimal_of :: "string \<Rightarrow> decimal result" where
  "decimal_of text =
     (case parse_sign (filter (\<lambda>c. c \<noteq> CHR ''_'') (py_strip text)) of (neg, s) \<Rightarrow>
      (case parse_number neg s of
         Some d \<Rightarrow> Inr d
       | None \<Rightarrow> (case parse_special neg (py_lower s) of
           Some d \<Rightarrow> Inr d
         | None \<Rightarrow> Inl InvalidOperation)))"

section \<open>Order\<close>

text \<open>The integer \<open>d * 10 ^ k\<close> for a scale \<open>k\<close> at least minus the exponent.\<close>

definition scaled :: "int \<Rightarrow> bool \<Rightarrow> string \<Rightarrow> int \<Rightarrow> int" where
  "scaled k neg c e = (if neg then - 1 else 1) * int_of_digits c * 10 ^ nat (e + k)"

fun decimal_less :: "decimal \<Rightarrow> decimal \<Rightarrow> bool result" where
  "decimal_less (Finite n c e) (Finite m d f) =
     (let k = max (- e) (- f) in Inr (scaled k n c e < scaled k m d f))"
| "decimal_less (Finite n c e) (Infinite m) = Inr (\<not> m)"
| "decimal_less (Infinite n) (Finite m d f) = Inr n"
| "decimal_less (Infinite n) (Infinite m) = Inr (n \<and> \<not> m)"
| "decimal_less _ _ = Inl InvalidOperation"

definition decimal_greater :: "decimal \<Rightarrow> decimal \<Rightarrow> bool result" where
  "decimal_greater a b = decimal_less b a"

definition decimal_at_least :: "decimal \<Rightarrow> decimal \<Rightarrow> bool result" where
  "decimal_at_least a b = bind_result (decimal_less a b) (\<lambda>l. Inr (\<not> l))"

text \<open>\<^verbatim>\<open>int(d)\<close> truncates toward zero.\<close>

fun decimal_int :: "decimal \<Rightarrow> int result" where
  "decimal_int (Finite neg c e) =
     (let m = (if 0 \<le> e then int_of_digits c * 10 ^ nat e else int_of_digits c div 10 ^ nat (- e))
      in Inr (if neg then - m else m))"
| "decimal_int (Infinite _) = Inl OverflowError"
| "decimal_int NotANumber = Inl (ValueError ''cannot convert NaN to integer'')"

section \<open>Text\<close>

definition decimal_digits :: "string \<Rightarrow> int \<Rightarrow> string" where
  "decimal_digits ds e =
     (let n = int (length ds); left = e + n; dot = (if e \<le> 0 \<and> left > - 6 then left else 1);
          body = (if dot \<le> 0 then ''0.'' @ replicate (nat (- dot)) (CHR ''0'') @ ds
                  else if n \<le> dot then ds @ replicate (nat (dot - n)) (CHR ''0'')
                  else take (nat dot) ds @ ''.'' @ drop (nat dot) ds);
          x = left - dot
      in body @ (if x = 0 then [] else ''E'' @ (if 0 < x then ''+'' else []) @ str_int x))"

fun decimal_str :: "decimal \<Rightarrow> string" where
  "decimal_str (Finite neg c e) = (if neg then ''-'' else []) @ decimal_digits c e"
| "decimal_str (Infinite neg) = (if neg then ''-Infinity'' else ''Infinity'')"
| "decimal_str NotANumber = ''NaN''"

section \<open>Lemmas\<close>

lemma decimal_at_least_Inr_iff [monad_simps]:
  "decimal_at_least a b = Inr x \<longleftrightarrow> decimal_less a b = Inr (\<not> x)"
  by (auto simp: decimal_at_least_def monad_simps)

text \<open>The comparison does not depend on the scale, so it orders the values.\<close>

lemma scaled_shift:
  assumes "- e \<le> k" and "k \<le> k'"
  shows "scaled k' n c e = scaled k n c e * 10 ^ nat (k' - k)"
proof -
  have "nat (e + k') = nat (e + k) + nat (k' - k)" using assms by simp
  then show ?thesis by (simp add: scaled_def power_add)
qed

lemma decimal_less_Finite:
  assumes "- e \<le> k" and "- f \<le> k"
  shows "decimal_less (Finite n c e) (Finite m d f) = Inr (scaled k n c e < scaled k m d f)"
proof -
  let ?j = "max (- e) (- f)"
  have e: "scaled k n c e = scaled ?j n c e * 10 ^ nat (k - ?j)"
    by (rule scaled_shift) (use assms in simp_all)
  have f: "scaled k m d f = scaled ?j m d f * 10 ^ nat (k - ?j)"
    by (rule scaled_shift) (use assms in simp_all)
  have "(0 :: int) < 10 ^ nat (k - ?j)" by simp
  then show ?thesis unfolding e f decimal_less.simps Let_def by (simp only: mult_less_cancel_right_pos)
qed

lemma decimal_less_trans:
  assumes "decimal_less a b = Inr True" and "decimal_less b c = Inr True"
  shows "decimal_less a c = Inr True"
proof (cases a; cases b; cases c)
  fix n ca e m cb f l cc g
  assume abc: "a = Finite n ca e" "b = Finite m cb f" "c = Finite l cc g"
  let ?k = "max (- e) (max (- f) (- g))"
  have "decimal_less a b = Inr (scaled ?k n ca e < scaled ?k m cb f)"
    "decimal_less b c = Inr (scaled ?k m cb f < scaled ?k l cc g)"
    "decimal_less a c = Inr (scaled ?k n ca e < scaled ?k l cc g)"
    unfolding abc by (rule decimal_less_Finite; simp)+
  with assms show ?thesis by simp
qed (use assms in simp_all)

lemma decimal_less_irrefl: "decimal_less a a \<noteq> Inr True"
  by (cases a) simp_all

lemma decimal_less_total:
  assumes "a \<noteq> NotANumber" and "b \<noteq> NotANumber"
  obtains x where "decimal_less a b = Inr x"
  using assms by (cases a; cases b) (auto simp: Let_def)

end
