(* ===== verification/Intake.thy ===== *)
theory Intake
  imports DecisionFile Lifecycles Decimals
begin

text \<open>
  The data of the controlled intake: \<^verbatim>\<open>intake/contracts.py\<close>, its state machine
  \<^verbatim>\<open>intake/lifecycle.py\<close> and its audit events \<^verbatim>\<open>intake/audit.py\<close>.
\<close>

section \<open>intake/contracts.py\<close>

datatype intake_status = RECEIVED | EXTRACTED | NEEDS_CONFIRMATION | READY | COMPILED | INTAKE_REJECTED

fun intake_status_value :: "intake_status \<Rightarrow> string" where
  "intake_status_value RECEIVED = ''RECEIVED''"
| "intake_status_value EXTRACTED = ''EXTRACTED''"
| "intake_status_value NEEDS_CONFIRMATION = ''NEEDS_CONFIRMATION''"
| "intake_status_value READY = ''READY''"
| "intake_status_value COMPILED = ''COMPILED''"
| "intake_status_value INTAKE_REJECTED = ''REJECTED''"

datatype verification_status = UNRESOLVED | FACT_VERIFIED | HUMAN_CONFIRMED | FACT_REJECTED

datatype fact_type = AMOUNT | DISCOUNT_PERCENT | DISCOUNT_LIMIT_PERCENT | MARGIN_PERCENT
  | MIN_MARGIN_PERCENT | PAYMENT_TERM_DAYS | DURATION_MONTHS | DATE | EVIDENCE_DATE | POLICY_CLAIM
  | EXCEPTION_CLAIM | APPROVAL_CLAIM | SELF_APPROVAL_CLAIM | ROLE_CLAIM | UNTRUSTED_INSTRUCTION

fun fact_type_value :: "fact_type \<Rightarrow> string" where
  "fact_type_value AMOUNT = ''AMOUNT''"
| "fact_type_value DISCOUNT_PERCENT = ''DISCOUNT_PERCENT''"
| "fact_type_value DISCOUNT_LIMIT_PERCENT = ''DISCOUNT_LIMIT_PERCENT''"
| "fact_type_value MARGIN_PERCENT = ''MARGIN_PERCENT''"
| "fact_type_value MIN_MARGIN_PERCENT = ''MIN_MARGIN_PERCENT''"
| "fact_type_value PAYMENT_TERM_DAYS = ''PAYMENT_TERM_DAYS''"
| "fact_type_value DURATION_MONTHS = ''DURATION_MONTHS''"
| "fact_type_value DATE = ''DATE''"
| "fact_type_value EVIDENCE_DATE = ''EVIDENCE_DATE''"
| "fact_type_value POLICY_CLAIM = ''POLICY_CLAIM''"
| "fact_type_value EXCEPTION_CLAIM = ''EXCEPTION_CLAIM''"
| "fact_type_value APPROVAL_CLAIM = ''APPROVAL_CLAIM''"
| "fact_type_value SELF_APPROVAL_CLAIM = ''SELF_APPROVAL_CLAIM''"
| "fact_type_value ROLE_CLAIM = ''ROLE_CLAIM''"
| "fact_type_value UNTRUSTED_INSTRUCTION = ''UNTRUSTED_INSTRUCTION''"

record source_reference =
  sr_source_id :: string
  sr_start :: int
  sr_end :: int
  sr_content_hash :: string

text \<open>The extraction confidence, a float no code reads, is kept as its text.\<close>

record candidate_fact =
  fact_id :: string
  fact_type :: fact_type
  raw_value :: string
  normalized_value :: "string option"
  fact_source :: source_reference
  fact_method :: string
  fact_method_version :: string
  extraction_confidence :: string
  verification_status :: verification_status
  fact_unit :: "string option"
  fact_currency :: "string option"
  conflict_refs :: "string list"
  confirmation_required :: bool
  confirmed_by_actor_id :: "string option"
  confirmed_by_role :: "string option"

record intake_conflict =
  ic_conflict_id :: string
  ic_fact_type :: fact_type
  ic_fact_refs :: "string list"
  ic_reason_code :: string

record verification_requirement =
  vq_requirement_id :: string
  vq_fact_type :: fact_type
  vq_reason_code :: string
  vq_mandatory :: bool

record extraction_report =
  er_schema_version :: string
  er_intake_id :: string
  er_method :: string
  er_method_version :: string
  er_locale :: string
  er_candidates :: "candidate_fact list"
  er_conflicts :: "intake_conflict list"
  er_requirements :: "verification_requirement list"

record derived_finding =
  dv_finding_id :: string
  dv_rule_id :: string
  dv_fact_refs :: "string list"
  dv_policy_ref :: "string option"
  dv_calculation :: string
  dv_result_code :: string
  dv_uncertainty :: "string option"

record human_confirmation =
  hc_confirmation_id :: string
  hc_fact_id :: string
  hc_action :: string
  hc_actor_id :: string
  hc_old_value :: "string option"
  hc_new_value :: "string option"
  hc_reason :: string
  hc_occurred_at :: string

record policy_context =
  policy_id :: string
  policy_version :: string
  effective_date :: string
  maximum_discount_percent :: string
  minimum_margin_percent :: string
  maximum_duration_months_without_exception :: int
  requires_approval_above_amount :: string
  maximum_evidence_age_days :: int
  required_approval_count :: int

record verification_report =
  vr_schema_version :: string
  vr_intake_id :: string
  vr_candidates :: "candidate_fact list"
  vr_findings :: "derived_finding list"
  vr_unresolved_requirement_refs :: "string list"
  vr_ready :: bool
  vr_reason_codes :: "string list"

section \<open>intake/lifecycle.py\<close>

definition intake_allowed :: "(intake_status \<times> intake_status) list" where
  "intake_allowed = [(RECEIVED, EXTRACTED), (EXTRACTED, NEEDS_CONFIRMATION), (EXTRACTED, READY),
     (NEEDS_CONFIRMATION, READY), (READY, NEEDS_CONFIRMATION), (READY, COMPILED)]"

definition next_status :: "intake_status \<Rightarrow> intake_status \<Rightarrow> bool \<Rightarrow> intake_status result" where
  "next_status source target ready =
     (if target = INTAKE_REJECTED \<and> source \<notin> {COMPILED, INTAKE_REJECTED} then Inr target
      else bind_result (ensure ((source, target) \<in> set intake_allowed)
        (IntakeTransitionRejected ''INTAKE_TRANSITION_NOT_ALLOWED'')) (\<lambda>_.
      bind_result (ensure (\<not> (target = READY \<and> \<not> ready))
        (IntakeTransitionRejected ''INTAKE_NOT_READY'')) (\<lambda>_.
      Inr target)))"

section \<open>intake/audit.py\<close>

definition intake_audit_event ::
  "digest \<Rightarrow> string \<Rightarrow> nat \<Rightarrow> string \<Rightarrow> string \<Rightarrow> string \<Rightarrow> intake_status \<Rightarrow> intake_status \<Rightarrow>
   string list \<Rightarrow> json \<Rightarrow> json option \<Rightarrow> json" where
  "intake_audit_event sha intake_id sequence event_type occurred_at actor from_status to_status
     reason_codes payload previous_event = JObj [
       (''event_id'', JStr (intake_id @ '':intake-audit:'' @ str_nat sequence)),
       (''event_type'', JStr event_type),
       (''occurred_at'', JStr occurred_at),
       (''actor_id'', JStr actor),
       (''from_status'', JStr (intake_status_value from_status)),
       (''to_status'', JStr (intake_status_value to_status)),
       (''reason_codes'', jstrs reason_codes),
       (''payload_hash'', JStr (payload_hash sha payload)),
       (''previous_event_hash'', json_opt (map_option (payload_hash sha) previous_event))]"

section \<open>The state machine\<close>

definition intake_targets :: "intake_status \<Rightarrow> intake_status list" where
  "intake_targets s = map snd (filter (\<lambda>p. fst p = s) intake_allowed) @
     (if s \<in> {COMPILED, INTAKE_REJECTED} then [] else [INTAKE_REJECTED])"

lemma next_status_Inr_iff [monad_simps]:
  "next_status a b r = Inr c \<longleftrightarrow> c = b \<and> b \<in> set (intake_targets a) \<and> (b = READY \<longrightarrow> r)"
  by (cases a; cases b) (auto simp: next_status_def intake_targets_def intake_allowed_def ensure_def)

interpretation intake: lifecycle intake_targets "\<lambda>a b. next_status a b True"
  by unfold_locales (auto simp: monad_simps)

end
