(* ===== verification/IntakeVerification.thy ===== *)
theory IntakeVerification
  imports Intake
begin

text \<open>
  The deterministic verifier, \<^verbatim>\<open>intake/verification.py\<close>: which candidates count as
  verified, which are rejected, what the trusted policy finds and why a report is not ready.
  \<^verbatim>\<open>date.fromisoformat\<close>, whose accepted formats depend on the Python version, is the field
  \<open>date_ordinal\<close> of the environment (\<open>None\<close> where it raises); the reference date is
  given by its ordinal and its text.
\<close>

record intake_env =
  date_ordinal :: "string \<Rightarrow> int option"
  reference_day :: int
  reference_text :: string

type_synonym policy_registry = "string \<Rightarrow> policy_context option"

definition get_active :: "policy_registry \<Rightarrow> string \<Rightarrow> policy_context option" where
  "get_active registry tenant_id = registry tenant_id"

definition parse_date :: "intake_env \<Rightarrow> string \<Rightarrow> int result" where
  "parse_date E s =
     (case date_ordinal E s of None \<Rightarrow> Inl (ValueError ''Invalid isoformat string'') | Some d \<Rightarrow> Inr d)"

definition OBJECTIVE_FACTS :: "fact_type list" where
  "OBJECTIVE_FACTS = [AMOUNT, DISCOUNT_PERCENT, MARGIN_PERCENT, PAYMENT_TERM_DAYS, DURATION_MONTHS,
     DATE, EVIDENCE_DATE]"

text \<open>In the order of their names, in which missing ones are reported.\<close>

definition REQUIRED_FACTS :: "fact_type list" where
  "REQUIRED_FACTS = [AMOUNT, DISCOUNT_PERCENT, MARGIN_PERCENT]"

section \<open>Candidates\<close>

definition verify_candidate :: "candidate_fact \<Rightarrow> candidate_fact" where
  "verify_candidate c =
     (if verification_status c \<in> {HUMAN_CONFIRMED, FACT_REJECTED} then c
      else if fact_type c \<in> set OBJECTIVE_FACTS \<and> normalized_value c \<noteq> None
      then c\<lparr>verification_status := FACT_VERIFIED, confirmation_required := False\<rparr>
      else if fact_type c = UNTRUSTED_INSTRUCTION then c\<lparr>verification_status := FACT_REJECTED\<rparr>
      else c)"

definition or_empty :: "string option \<Rightarrow> string" where
  "or_empty v = (case v of None \<Rightarrow> [] | Some s \<Rightarrow> s)"

definition reject_fact :: "candidate_fact \<Rightarrow> candidate_fact" where
  "reject_fact c = c\<lparr>verification_status := FACT_REJECTED, confirmation_required := False\<rparr>"

definition overlaps :: "candidate_fact \<Rightarrow> candidate_fact \<Rightarrow> bool" where
  "overlaps i c = (sr_start (fact_source i) < sr_end (fact_source c) \<and>
     sr_start (fact_source c) < sr_end (fact_source i))"

definition reject_embedded_governance_claims :: "candidate_fact list \<Rightarrow> candidate_fact list" where
  "reject_embedded_governance_claims cs =
     (let instructions = filter (\<lambda>c. fact_type c = UNTRUSTED_INSTRUCTION) cs in
      map (\<lambda>c. if fact_type c \<in> {POLICY_CLAIM, APPROVAL_CLAIM, ROLE_CLAIM} \<and>
                   list_ex (\<lambda>i. overlaps i c) instructions
               then reject_fact c else c) cs)"

definition names_policy :: "policy_context \<Rightarrow> candidate_fact \<Rightarrow> bool" where
  "names_policy p c = py_in (py_lower (policy_id p)) (py_lower (or_empty (normalized_value c)))"

definition verify_policy_references ::
  "policy_context option \<Rightarrow> candidate_fact list \<Rightarrow> candidate_fact list" where
  "verify_policy_references policy cs =
     (case policy of None \<Rightarrow> cs
      | Some p \<Rightarrow> map (\<lambda>c. if fact_type c = POLICY_CLAIM \<and> \<not> names_policy p c then reject_fact c else c) cs)"

definition verify_candidates ::
  "policy_context option \<Rightarrow> candidate_fact list \<Rightarrow> candidate_fact list" where
  "verify_candidates policy cs =
     verify_policy_references policy (reject_embedded_governance_claims (map verify_candidate cs))"

section \<open>Policy comparison\<close>

definition fact_value :: "candidate_fact list \<Rightarrow> fact_type \<Rightarrow> candidate_fact option" where
  "fact_value cs ft = List.find (\<lambda>c. fact_type c = ft) cs"

definition policy_ref_text :: "policy_context \<Rightarrow> string" where
  "policy_ref_text p = policy_id p @ ''@'' @ policy_version p"

text \<open>A finding before it is numbered.\<close>

definition derived ::
  "policy_context \<Rightarrow> string \<Rightarrow> string list \<Rightarrow> string \<Rightarrow> string \<Rightarrow> derived_finding" where
  "derived p rule refs calculation code = \<lparr>dv_finding_id = [], dv_rule_id = rule, dv_fact_refs = refs,
     dv_policy_ref = Some (policy_ref_text p), dv_calculation = calculation, dv_result_code = code,
     dv_uncertainty = None\<rparr>"

definition check_policy_claim :: "policy_context \<Rightarrow> candidate_fact list \<Rightarrow> derived_finding list" where
  "check_policy_claim p cs =
     (case List.find (\<lambda>c. fact_type c = POLICY_CLAIM \<and> verification_status c = FACT_REJECTED) cs of
        None \<Rightarrow> []
      | Some c \<Rightarrow> [derived p ''POLICY_REGISTRY_LOOKUP'' [fact_id c]
          ''claimed policy reference does not match the trusted active registry entry''
          ''POLICY_REFERENCE_NOT_REGISTERED''])"

definition check_effective :: "intake_env \<Rightarrow> policy_context \<Rightarrow> derived_finding list result" where
  "check_effective E p = bind_result (parse_date E (effective_date p)) (\<lambda>day.
     Inr (if day > reference_day E
          then [derived p ''POLICY_EFFECTIVE_DATE'' []
            (effective_date p @ '' compared with '' @ reference_text E) ''POLICY_NOT_EFFECTIVE'']
          else []))"

definition check_limit ::
  "policy_context \<Rightarrow> candidate_fact option \<Rightarrow> decimal \<Rightarrow> (decimal \<Rightarrow> decimal \<Rightarrow> bool result) \<Rightarrow>
   string \<Rightarrow> string \<Rightarrow> derived_finding list result" where
  "check_limit p candidate limit violates rule code =
     (case candidate of None \<Rightarrow> Inr []
      | Some c \<Rightarrow> (case normalized_value c of None \<Rightarrow> Inr []
          | Some v \<Rightarrow>
              bind_result (decimal_of v) (\<lambda>actual.
              bind_result (violates actual limit) (\<lambda>bad.
              Inr (if bad then [derived p rule [fact_id c]
                     (decimal_str actual @ '' compared with '' @ decimal_str limit) code] else [])))))"

text \<open>A candidate whose normalised value is a non-empty text.\<close>

definition with_value :: "candidate_fact option \<Rightarrow> (candidate_fact \<times> string) option" where
  "with_value candidate = (case candidate of None \<Rightarrow> None
     | Some c \<Rightarrow> (case normalized_value c of None \<Rightarrow> None
         | Some v \<Rightarrow> if v = [] then None else Some (c, v)))"

definition check_freshness ::
  "intake_env \<Rightarrow> policy_context \<Rightarrow> candidate_fact list \<Rightarrow> derived_finding list result" where
  "check_freshness E p cs =
     (case with_value (fact_value cs EVIDENCE_DATE) of None \<Rightarrow> Inr []
      | Some (c, v) \<Rightarrow>
          bind_result (parse_date E v) (\<lambda>observed.
          let age_days = reference_day E - observed in
          Inr (if age_days > maximum_evidence_age_days p
               then [derived p ''EVIDENCE_FRESHNESS'' [fact_id c]
                 (str_int age_days @ '' days compared with '' @ str_int (maximum_evidence_age_days p) @ '' days'')
                 ''EVIDENCE_OUTDATED'']
               else [])))"

definition verified_exception :: "policy_context \<Rightarrow> candidate_fact list \<Rightarrow> bool" where
  "verified_exception p cs = list_ex (\<lambda>c. fact_type c \<in> {POLICY_CLAIM, EXCEPTION_CLAIM} \<and>
     verification_status c = HUMAN_CONFIRMED \<and> py_in (policy_id p) (or_empty (normalized_value c))) cs"

definition check_duration ::
  "policy_context \<Rightarrow> candidate_fact list \<Rightarrow> derived_finding list result" where
  "check_duration p cs =
     (case with_value (fact_value cs DURATION_MONTHS) of None \<Rightarrow> Inr []
      | Some (c, v) \<Rightarrow>
          bind_result (decimal_of v) (\<lambda>d.
          bind_result (decimal_int d) (\<lambda>months.
          Inr (if months > maximum_duration_months_without_exception p \<and> \<not> verified_exception p cs
               then [derived p ''DURATION_EXCEPTION'' [fact_id c]
                 (v @ '' months compared with '' @ str_int (maximum_duration_months_without_exception p) @ '' months'')
                 ''DURATION_EXCEPTION_REQUIRED'']
               else []))))"

definition confirmed_approvals :: "candidate_fact list \<Rightarrow> candidate_fact list" where
  "confirmed_approvals cs = filter (\<lambda>c. fact_type c = APPROVAL_CLAIM \<and>
     verification_status c = HUMAN_CONFIRMED \<and> confirmed_by_role c = Some ''APPROVER'') cs"

definition distinct_approvers :: "candidate_fact list \<Rightarrow> string list" where
  "distinct_approvers cs = remdups (List.map_filter confirmed_by_actor_id (confirmed_approvals cs))"

definition check_approvals ::
  "policy_context \<Rightarrow> candidate_fact list \<Rightarrow> derived_finding list result" where
  "check_approvals p cs =
     (case with_value (fact_value cs AMOUNT) of None \<Rightarrow> Inr []
      | Some (c, v) \<Rightarrow>
          bind_result (decimal_of v) (\<lambda>amount.
          bind_result (decimal_of (requires_approval_above_amount p)) (\<lambda>threshold.
          bind_result (decimal_at_least amount threshold) (\<lambda>above.
          let n = int (length (distinct_approvers cs)) in
          Inr (if above \<and> n < required_approval_count p
               then [derived p ''REQUIRED_APPROVAL_COUNT'' (fact_id c # map fact_id (confirmed_approvals cs))
                 (str_int n @ '' distinct authenticated approvers compared with '' @ str_int (required_approval_count p))
                 ''REQUIRED_APPROVAL_MISSING'']
               else [])))))"

definition check_self_approval :: "policy_context \<Rightarrow> candidate_fact list \<Rightarrow> derived_finding list" where
  "check_self_approval p cs =
     (case List.find (\<lambda>c. fact_type c = SELF_APPROVAL_CLAIM \<and> verification_status c = HUMAN_CONFIRMED) cs of
        None \<Rightarrow> []
      | Some c \<Rightarrow> [derived p ''ROLE_INDEPENDENCE'' [fact_id c]
          ''confirmed self-approval violates independent approval'' ''SEPARATION_OF_DUTIES_VIOLATION''])"

definition check_override :: "policy_context \<Rightarrow> candidate_fact list \<Rightarrow> derived_finding list" where
  "check_override p cs =
     (case fact_value cs UNTRUSTED_INSTRUCTION of None \<Rightarrow> []
      | Some c \<Rightarrow>
          if list_ex (\<lambda>term. py_in term (py_lower (raw_value c)))
               [''generator'', ''validator'', ''approver'', ''approved'']
          then [derived p ''GOVERNANCE_OVERRIDE'' [fact_id c]
            ''untrusted input attempted to override authenticated governance roles''
            ''GOVERNANCE_OVERRIDE_ATTEMPT'']
          else [])"

fun number_derived :: "string \<Rightarrow> nat \<Rightarrow> derived_finding list \<Rightarrow> derived_finding list" where
  "number_derived intake_id n [] = []"
| "number_derived intake_id n (f # fs) =
     f\<lparr>dv_finding_id := intake_id @ '':derived:'' @ str_nat (Suc n)\<rparr> # number_derived intake_id (Suc n) fs"

definition compare_policy ::
  "intake_env \<Rightarrow> string \<Rightarrow> candidate_fact list \<Rightarrow> policy_context \<Rightarrow> derived_finding list result" where
  "compare_policy E intake_id cs p =
     bind_result (check_effective E p) (\<lambda>effective.
     bind_result (decimal_of (maximum_discount_percent p)) (\<lambda>max_discount.
     bind_result (decimal_of (minimum_margin_percent p)) (\<lambda>min_margin.
     bind_result (check_limit p (fact_value cs DISCOUNT_PERCENT) max_discount decimal_greater
       ''DISCOUNT_MAXIMUM'' ''DISCOUNT_ABOVE_POLICY_LIMIT'') (\<lambda>discount.
     bind_result (check_limit p (fact_value cs MARGIN_PERCENT) min_margin decimal_less
       ''MARGIN_MINIMUM'' ''MARGIN_BELOW_POLICY_MINIMUM'') (\<lambda>margin.
     bind_result (check_freshness E p cs) (\<lambda>freshness.
     bind_result (check_duration p cs) (\<lambda>duration.
     bind_result (check_approvals p cs) (\<lambda>approvals.
     Inr (number_derived intake_id 0
       (check_policy_claim p cs @ effective @ discount @ margin @ freshness @ duration @ approvals @
        check_self_approval p cs @ check_override p cs))))))))))"

section \<open>The report\<close>

definition missing_facts :: "candidate_fact list \<Rightarrow> fact_type list" where
  "missing_facts cs = filter (\<lambda>ft. \<not> list_ex (\<lambda>c. fact_type c = ft \<and>
     verification_status c \<in> {FACT_VERIFIED, HUMAN_CONFIRMED}) cs) REQUIRED_FACTS"

definition untrusted_claims :: "candidate_fact list \<Rightarrow> candidate_fact list" where
  "untrusted_claims cs = filter (\<lambda>c. confirmation_required c \<and> verification_status c = UNRESOLVED \<and>
     fact_type c \<in> {POLICY_CLAIM, EXCEPTION_CLAIM, APPROVAL_CLAIM, SELF_APPROVAL_CLAIM}) cs"

definition build_reasons ::
  "policy_context option \<Rightarrow> candidate_fact list \<Rightarrow> string list \<Rightarrow> bool \<Rightarrow> string list" where
  "build_reasons policy cs refs conflicts = dict_fromkeys (
     (if policy = None then [''TRUSTED_POLICY_UNAVAILABLE''] else []) @
     (if conflicts then [''CONFLICTS_UNRESOLVED''] else []) @
     (if refs \<noteq> [] then [''MANDATORY_INFORMATION_MISSING''] else []) @
     map (\<lambda>ft. ''REQUIRED_FACT_MISSING:'' @ fact_type_value ft) (missing_facts cs) @
     (if untrusted_claims cs \<noteq> [] then [''HUMAN_CONFIRMATION_REQUIRED''] else []))"

definition build_report ::
  "intake_env \<Rightarrow> string \<Rightarrow> candidate_fact list \<Rightarrow> policy_context option \<Rightarrow> string list \<Rightarrow> bool \<Rightarrow>
   verification_report result" where
  "build_report E intake_id cs policy refs conflicts =
     bind_result (case policy of None \<Rightarrow> Inr [] | Some p \<Rightarrow> compare_policy E intake_id cs p) (\<lambda>findings.
     let reasons = build_reasons policy cs refs conflicts in
     Inr \<lparr>vr_schema_version = ''0.3.0'', vr_intake_id = intake_id, vr_candidates = cs,
       vr_findings = findings, vr_unresolved_requirement_refs = refs, vr_ready = (reasons = []),
       vr_reason_codes = reasons\<rparr>)"

definition verify ::
  "intake_env \<Rightarrow> policy_registry \<Rightarrow> string \<Rightarrow> extraction_report \<Rightarrow> verification_report result" where
  "verify E registry tenant_id x =
     (let policy = get_active registry tenant_id in
      build_report E (er_intake_id x) (verify_candidates policy (er_candidates x)) policy
        (map vq_requirement_id (er_requirements x)) (er_conflicts x \<noteq> []))"

definition reverify ::
  "intake_env \<Rightarrow> policy_registry \<Rightarrow> string \<Rightarrow> verification_report \<Rightarrow> verification_report result" where
  "reverify E registry tenant_id r =
     (let policy = get_active registry tenant_id;
          cs = verify_candidates policy (vr_candidates r);
          confirmed_approval = list_ex (\<lambda>c. fact_type c = APPROVAL_CLAIM \<and>
            verification_status c = HUMAN_CONFIRMED) cs;
          refs = filter (\<lambda>ref. \<not> (confirmed_approval \<and> py_in '':requirement:APPROVAL_CLAIM:'' ref))
            (vr_unresolved_requirement_refs r)
      in build_report E (vr_intake_id r) cs policy refs
           (''CONFLICTS_UNRESOLVED'' \<in> set (vr_reason_codes r)))"

section \<open>What verification does to a candidate\<close>

definition embedded :: "candidate_fact list \<Rightarrow> candidate_fact \<Rightarrow> bool" where
  "embedded cs c = (fact_type c \<in> {POLICY_CLAIM, APPROVAL_CLAIM, ROLE_CLAIM} \<and>
     (\<exists>i \<in> set cs. fact_type i = UNTRUSTED_INSTRUCTION \<and> overlaps i c))"

definition refused :: "policy_context option \<Rightarrow> candidate_fact list \<Rightarrow> candidate_fact \<Rightarrow> bool" where
  "refused policy cs c = (embedded cs c \<or>
     (case policy of None \<Rightarrow> False | Some p \<Rightarrow> fact_type c = POLICY_CLAIM \<and> \<not> names_policy p c))"

lemma verify_candidate_fields [simp]:
  "fact_id (verify_candidate c) = fact_id c" "fact_type (verify_candidate c) = fact_type c"
  "raw_value (verify_candidate c) = raw_value c" "normalized_value (verify_candidate c) = normalized_value c"
  "fact_source (verify_candidate c) = fact_source c"
  "confirmed_by_actor_id (verify_candidate c) = confirmed_by_actor_id c"
  "confirmed_by_role (verify_candidate c) = confirmed_by_role c"
  by (simp_all add: verify_candidate_def)

lemma reject_fact_fields [simp]:
  "fact_id (reject_fact c) = fact_id c" "fact_type (reject_fact c) = fact_type c"
  "raw_value (reject_fact c) = raw_value c" "normalized_value (reject_fact c) = normalized_value c"
  "fact_source (reject_fact c) = fact_source c" "verification_status (reject_fact c) = FACT_REJECTED"
  "confirmed_by_actor_id (reject_fact c) = confirmed_by_actor_id c"
  "confirmed_by_role (reject_fact c) = confirmed_by_role c"
  "confirmation_required (reject_fact c) = False"
  by (simp_all add: reject_fact_def)

lemma overlaps_fields:
  "overlaps (verify_candidate i) c = overlaps i c" "overlaps i (verify_candidate c) = overlaps i c"
  "names_policy p (verify_candidate c) = names_policy p c" "names_policy p (reject_fact c) = names_policy p c"
  "reject_fact (reject_fact c) = reject_fact c"
  by (simp_all add: overlaps_def names_policy_def) (simp add: reject_fact_def)

lemma reject_embedded_map:
  "reject_embedded_governance_claims (map verify_candidate cs) =
     map (\<lambda>c. if embedded cs c then reject_fact (verify_candidate c) else verify_candidate c) cs"
proof -
  have "list_ex (\<lambda>i. overlaps i (verify_candidate c))
      (filter (\<lambda>c. fact_type c = UNTRUSTED_INSTRUCTION) (map verify_candidate cs)) \<longleftrightarrow>
      (\<exists>i \<in> set cs. fact_type i = UNTRUSTED_INSTRUCTION \<and> overlaps i c)" for c
    by (auto simp: list_ex_iff overlaps_fields)
  then show ?thesis
    unfolding reject_embedded_governance_claims_def Let_def map_map o_def verify_candidate_fields embedded_def
    by (intro map_cong refl) simp
qed

text \<open>The three passes are one map: refused claims are rejected, the rest verified one by one.\<close>

theorem verify_candidates_map:
  "verify_candidates policy cs =
     map (\<lambda>c. if refused policy cs c then reject_fact (verify_candidate c) else verify_candidate c) cs"
proof (cases policy)
  case None
  then show ?thesis
    by (simp add: verify_candidates_def verify_policy_references_def reject_embedded_map refused_def)
next
  case (Some p)
  show ?thesis
    unfolding Some verify_candidates_def verify_policy_references_def reject_embedded_map refused_def
      option.case map_map o_def
    by (intro map_cong refl) (simp add: overlaps_fields)
qed

lemma verify_candidate_idem [simp]: "verify_candidate (verify_candidate c) = verify_candidate c"
proof (cases "verification_status c \<in> {HUMAN_CONFIRMED, FACT_REJECTED}")
  case True
  then show ?thesis by (simp add: verify_candidate_def)
next
  case False
  then show ?thesis
    by (cases "fact_type c \<in> set OBJECTIVE_FACTS \<and> normalized_value c \<noteq> None")
      (auto simp: verify_candidate_def [of c], simp_all add: verify_candidate_def)
qed

lemma verify_candidate_rejected [simp]: "verify_candidate (reject_fact c) = reject_fact c"
  by (simp add: verify_candidate_def)

lemma verify_candidates_idem: "verify_candidates policy (verify_candidates policy cs) = verify_candidates policy cs"
proof -
  let ?v = "\<lambda>c. if refused policy cs c then reject_fact (verify_candidate c) else verify_candidate c"
  have f: "fact_type (?v c) = fact_type c" "fact_source (?v c) = fact_source c"
    "normalized_value (?v c) = normalized_value c" for c by simp_all
  have "embedded (map ?v cs) (?v c) = embedded cs c" for c
    unfolding embedded_def overlaps_def set_map bex_simps(7) f ..
  then have ref: "refused policy (map ?v cs) (?v c) = refused policy cs c" for c
    unfolding refused_def by (cases "refused policy cs c") (simp_all add: overlaps_fields split: option.split)
  show ?thesis unfolding verify_candidates_map map_map o_def ref
    by (intro map_cong refl) (simp add: overlaps_fields)
qed

section \<open>What a report says\<close>

lemma set_build_reasons:
  "set (build_reasons policy cs refs conflicts) =
     (if policy = None then {''TRUSTED_POLICY_UNAVAILABLE''} else {}) \<union>
     (if conflicts then {''CONFLICTS_UNRESOLVED''} else {}) \<union>
     (if refs \<noteq> [] then {''MANDATORY_INFORMATION_MISSING''} else {}) \<union>
     (\<lambda>ft. ''REQUIRED_FACT_MISSING:'' @ fact_type_value ft) ` set (missing_facts cs) \<union>
     (if untrusted_claims cs \<noteq> [] then {''HUMAN_CONFIRMATION_REQUIRED''} else {})"
  unfolding build_reasons_def set_dict_fromkeys set_append set_map if_distrib [of set] list.set Un_assoc ..

lemma conflicts_reason: "''CONFLICTS_UNRESOLVED'' \<in> set (build_reasons policy cs refs conflicts) \<longleftrightarrow> conflicts"
  unfolding set_build_reasons by (simp add: image_iff)

lemma build_reasons_Nil:
  "build_reasons policy cs refs conflicts = [] \<longleftrightarrow>
     policy \<noteq> None \<and> \<not> conflicts \<and> refs = [] \<and> missing_facts cs = [] \<and> untrusted_claims cs = []"
  by (simp add: build_reasons_def)

lemma build_report_Inr:
  assumes "build_report E i cs policy refs conflicts = Inr r"
  shows "vr_candidates r = cs" "vr_intake_id r = i" "vr_unresolved_requirement_refs r = refs"
    "vr_reason_codes r = build_reasons policy cs refs conflicts"
    "vr_ready r \<longleftrightarrow> build_reasons policy cs refs conflicts = []"
    "(case policy of None \<Rightarrow> vr_findings r = [] | Some p \<Rightarrow> compare_policy E i cs p = Inr (vr_findings r))"
  using assms by (auto simp: build_report_def Let_def monad_simps split: option.splits)

lemma missing_facts_Nil:
  "missing_facts cs = [] \<longleftrightarrow> (\<forall>ft \<in> {AMOUNT, DISCOUNT_PERCENT, MARGIN_PERCENT}. \<exists>c \<in> set cs.
     fact_type c = ft \<and> verification_status c \<in> {FACT_VERIFIED, HUMAN_CONFIRMED})"
  by (simp add: missing_facts_def REQUIRED_FACTS_def filter_empty_conv list_ex_iff)

lemma number_derived_codes [simp]:
  "map dv_result_code (number_derived i n fs) = map dv_result_code fs"
  by (induction fs arbitrary: n) simp_all

lemma number_derived_length [simp]: "length (number_derived i n fs) = length fs"
  by (induction fs arbitrary: n) simp_all

lemma number_derived_ids:
  "map dv_finding_id (number_derived i n fs) = map (\<lambda>k. i @ '':derived:'' @ str_nat k) [Suc n..<Suc n + length fs]"
proof (induction fs arbitrary: n)
  case (Cons f fs)
  have "[Suc n..<Suc n + length (f # fs)] = Suc n # [Suc (Suc n)..<Suc (Suc n) + length fs]"
    by (subst upt_conv_Cons) simp_all
  with Cons show ?case by simp
qed simp

definition result_codes :: "derived_finding list \<Rightarrow> string set" where
  "result_codes fs = dv_result_code ` set fs"

lemma result_codes_append: "result_codes (fs @ gs) = result_codes fs \<union> result_codes gs"
  by (auto simp: result_codes_def)

lemma result_codes_number: "result_codes (number_derived i n fs) = result_codes fs"
proof -
  have "set (map dv_result_code (number_derived i n fs)) = set (map dv_result_code fs)" by simp
  then show ?thesis unfolding set_map result_codes_def .
qed

text \<open>The findings are the results of the checks, numbered.\<close>

lemma compare_policy_Inr:
  assumes "compare_policy E i cs p = Inr fs"
  obtains effective max_discount min_margin discount margin freshness duration approvals where
    "check_effective E p = Inr effective"
    "decimal_of (maximum_discount_percent p) = Inr max_discount"
    "decimal_of (minimum_margin_percent p) = Inr min_margin"
    "check_limit p (fact_value cs DISCOUNT_PERCENT) max_discount decimal_greater
       ''DISCOUNT_MAXIMUM'' ''DISCOUNT_ABOVE_POLICY_LIMIT'' = Inr discount"
    "check_limit p (fact_value cs MARGIN_PERCENT) min_margin decimal_less
       ''MARGIN_MINIMUM'' ''MARGIN_BELOW_POLICY_MINIMUM'' = Inr margin"
    "check_freshness E p cs = Inr freshness" "check_duration p cs = Inr duration"
    "check_approvals p cs = Inr approvals"
    "fs = number_derived i 0 (check_policy_claim p cs @ effective @ discount @ margin @ freshness @
       duration @ approvals @ check_self_approval p cs @ check_override p cs)"
  using assms unfolding compare_policy_def bind_result_Inr_iff sum.inject
  by (elim exE conjE) (rule that, (assumption | erule sym)+)

theorem reverify_idem:
  assumes "reverify E registry t r = Inr r1"
  shows "reverify E registry t r1 = Inr r1"
proof -
  let ?pol = "get_active registry t"
  let ?cs = "verify_candidates ?pol (vr_candidates r)"
  let ?ok = "list_ex (\<lambda>c. fact_type c = APPROVAL_CLAIM \<and> verification_status c = HUMAN_CONFIRMED) ?cs"
  let ?refs = "filter (\<lambda>ref. \<not> (?ok \<and> py_in '':requirement:APPROVAL_CLAIM:'' ref))
    (vr_unresolved_requirement_refs r)"
  let ?con = "''CONFLICTS_UNRESOLVED'' \<in> set (vr_reason_codes r)"
  have b: "build_report E (vr_intake_id r) ?cs ?pol ?refs ?con = Inr r1"
    using assms by (simp add: reverify_def Let_def)
  note f = build_report_Inr [OF b]
  show ?thesis unfolding reverify_def Let_def f(1-4) verify_candidates_idem conflicts_reason filter_filter
    using b by (simp add: conj_ac cong: conj_cong)
qed

end
