(* ===== verification/IntakeConfirmation.thy ===== *)
theory IntakeConfirmation
  imports IntakeVerification Identity DecisionEvaluation
begin

text \<open>
  Human confirmation of a fact, \<^verbatim>\<open>intake/confirmation.py\<close>, and the compilation of a ready
  report into a Decision File, \<^verbatim>\<open>intake/compiler.py\<close>. Both digest with \<^verbatim>\<open>json.dumps\<close> in
  its default form, which escapes every character outside printable ASCII (\<open>json_dumps_ascii\<close>).
  The compiler's clock is the argument \<open>timestamp\<close>, the isoformat text it yields.
\<close>

section \<open>Confirmation\<close>

definition confirmation_payload ::
  "string \<Rightarrow> string \<Rightarrow> string \<Rightarrow> string \<Rightarrow> string option \<Rightarrow> string \<Rightarrow> string \<Rightarrow> json" where
  "confirmation_payload intake fid action actor new_value reason occurred_at = JObj [
     (''intake_id'', JStr intake), (''fact_id'', JStr fid), (''action'', JStr action),
     (''actor_id'', JStr actor), (''new_value'', json_opt new_value), (''reason'', JStr reason),
     (''occurred_at'', JStr occurred_at)]"

definition updated_fact :: "identity \<Rightarrow> string \<Rightarrow> string option \<Rightarrow> candidate_fact \<Rightarrow> candidate_fact" where
  "updated_fact identity action new_value current = current\<lparr>
     normalized_value := if action = ''CORRECT'' then new_value else normalized_value current,
     verification_status := if action = ''REJECT'' then FACT_REJECTED else HUMAN_CONFIRMED,
     confirmation_required := False,
     confirmed_by_actor_id := Some (actor_id identity),
     confirmed_by_role := Some (role_value (role identity))\<rparr>"

definition confirmed_reasons :: "string \<Rightarrow> candidate_fact list \<Rightarrow> string list \<Rightarrow> string list" where
  "confirmed_reasons action cs codes =
     (let still_unresolved = list_ex (\<lambda>c. confirmation_required c \<and> verification_status c = UNRESOLVED) cs;
          kept = filter (\<lambda>code. code \<noteq> ''HUMAN_CONFIRMATION_REQUIRED'' \<or> still_unresolved) codes
      in if action = ''CORRECT'' \<and> ''REVERIFICATION_REQUIRED'' \<notin> set kept
         then kept @ [''REVERIFICATION_REQUIRED''] else kept)"

definition confirmation_of ::
  "digest \<Rightarrow> verification_report \<Rightarrow> string \<Rightarrow> string \<Rightarrow> string option \<Rightarrow> string \<Rightarrow> string \<Rightarrow> identity \<Rightarrow>
   candidate_fact \<Rightarrow> human_confirmation" where
  "confirmation_of sha report fid action new_value reason occurred_at identity current =
     (let digest24 = take 24 (sha (json_dumps_ascii (confirmation_payload (vr_intake_id report) fid action
            (actor_id identity) new_value reason occurred_at)))
      in \<lparr>hc_confirmation_id = vr_intake_id report @ '':confirmation:'' @ digest24,
        hc_fact_id = fid, hc_action = action, hc_actor_id = actor_id identity,
        hc_old_value = normalized_value current, hc_new_value = new_value,
        hc_reason = reason, hc_occurred_at = occurred_at\<rparr>)"

definition confirmed_report ::
  "verification_report \<Rightarrow> string \<Rightarrow> string \<Rightarrow> string option \<Rightarrow> identity \<Rightarrow> candidate_fact \<Rightarrow>
   verification_report" where
  "confirmed_report report fid action new_value identity current =
     (let candidates = map (\<lambda>c. if fact_id c = fid then updated_fact identity action new_value current else c)
            (vr_candidates report);
          reason_codes = confirmed_reasons action candidates (vr_reason_codes report);
          ready = (reason_codes = [] \<and> vr_findings report = [] \<and> vr_unresolved_requirement_refs report = [])
      in report\<lparr>vr_candidates := candidates, vr_reason_codes := reason_codes, vr_ready := ready\<rparr>)"

definition confirm_fact ::
  "digest \<Rightarrow> verification_report \<Rightarrow> string \<Rightarrow> string \<Rightarrow> string option \<Rightarrow> string \<Rightarrow> string \<Rightarrow> identity \<Rightarrow>
   (verification_report \<times> human_confirmation) result" where
  "confirm_fact sha report fid action new_value reason occurred_at identity =
     bind_result (ensure (kind identity = HUMAN) (ConfirmationRejected ''HUMAN_ACTOR_REQUIRED'')) (\<lambda>_.
     bind_result (case authorize identity INTAKE_CONFIRM of
        Inl _ \<Rightarrow> Inl (ConfirmationRejected ''INTAKE_CONFIRMATION_FORBIDDEN'') | Inr u \<Rightarrow> Inr u) (\<lambda>_.
     bind_result (ensure (action \<in> {''CONFIRM'', ''CORRECT'', ''REJECT''})
        (ConfirmationRejected ''INVALID_CONFIRMATION_ACTION'')) (\<lambda>_.
     bind_result (ensure (\<not> (action = ''CORRECT'' \<and> or_empty new_value = []))
        (ConfirmationRejected ''CORRECTED_VALUE_REQUIRED'')) (\<lambda>_.
     bind_result (ensure (\<not> blank reason) (ConfirmationRejected ''CONFIRMATION_REASON_REQUIRED'')) (\<lambda>_.
     case List.find (\<lambda>c. fact_id c = fid) (vr_candidates report) of
       None \<Rightarrow> Inl (ConfirmationRejected ''FACT_NOT_FOUND'')
     | Some current \<Rightarrow>
         Inr (confirmed_report report fid action new_value identity current,
              confirmation_of sha report fid action new_value reason occurred_at identity current))))))"

section \<open>Compilation\<close>

definition compiler_actor :: "string \<Rightarrow> actor" where
  "compiler_actor actor = \<lparr>act_id = actor, act_role = ''GENERATOR'', act_kind = ''SERVICE''\<rparr>"

definition verified_facts :: "verification_report \<Rightarrow> candidate_fact list" where
  "verified_facts r =
     filter (\<lambda>c. verification_status c \<in> {FACT_VERIFIED, HUMAN_CONFIRMED}) (vr_candidates r)"

definition claim_label :: "nat \<Rightarrow> string" where
  "claim_label index = ''claim-'' @ str_nat index"

definition compiled_claim :: "nat \<Rightarrow> candidate_fact \<Rightarrow> claim" where
  "compiled_claim index c = \<lparr>claim_id = claim_label index,
     claim_statement = fact_type_value (fact_type c) @ '' = '' @
       (case normalized_value c of None \<Rightarrow> ''None'' | Some v \<Rightarrow> v),
     mandatory_evidence = True\<rparr>"

definition compiled_evidence :: "nat \<Rightarrow> candidate_fact \<Rightarrow> evidence_item" where
  "compiled_evidence index c = \<lparr>ev_id = fact_id c, ev_claim_refs = [claim_label index],
     ev_source_ref = sr_source_id (fact_source c) @ '':'' @ str_int (sr_start (fact_source c)) @ ''-'' @
       str_int (sr_end (fact_source c)),
     ev_status = VERIFIED, ev_observed_at = None, ev_content_hash = Some (sr_content_hash (fact_source c))\<rparr>"

fun numbered :: "(nat \<Rightarrow> 'a \<Rightarrow> 'b) \<Rightarrow> nat \<Rightarrow> 'a list \<Rightarrow> 'b list" where
  "numbered f n [] = []"
| "numbered f n (x # xs) = f n x # numbered f (Suc n) xs"

definition mandatory_result :: "string \<Rightarrow> bool" where
  "mandatory_result code = (code \<in> {''MARGIN_BELOW_POLICY_MINIMUM'', ''POLICY_NOT_EFFECTIVE'',
     ''POLICY_REFERENCE_NOT_REGISTERED'', ''SEPARATION_OF_DUTIES_VIOLATION'', ''GOVERNANCE_OVERRIDE_ATTEMPT''})"

definition compiled_constraint :: "derived_finding \<Rightarrow> constraint" where
  "compiled_constraint f = \<lparr>con_id = dv_finding_id f,
     con_severity = (if mandatory_result (dv_result_code f) then MANDATORY else REVIEW_REQUIRED),
     con_satisfied = False, con_reason_code = dv_result_code f\<rparr>"

definition compiled_event :: "digest \<Rightarrow> string \<Rightarrow> string \<Rightarrow> verification_report \<Rightarrow> audit_event" where
  "compiled_event sha timestamp actor r = \<lparr>
     ae_event_id = vr_intake_id r @ ''-decision:audit:1'', ae_event_type = ''intake.compiled'',
     ae_occurred_at = timestamp, ae_actor = compiler_actor actor,
     ae_from_status = None, ae_to_status = DRAFT, ae_reason_codes = [''VERIFIED_INTAKE_COMPILED''],
     ae_payload_hash = ''sha256:'' @ sha (json_dumps_ascii (JObj [(''intake_id'', JStr (vr_intake_id r)),
       (''used_fact_refs'', jstrs (map fact_id (verified_facts r)))])),
     ae_previous_event_hash = None, ae_tenant_id = None, ae_correlation_id = None, ae_source_channel = None\<rparr>"

definition compiled_document ::
  "digest \<Rightarrow> string \<Rightarrow> verification_report \<Rightarrow> policy_context \<Rightarrow> string \<Rightarrow> decision_file" where
  "compiled_document sha timestamp r policy actor = \<lparr>
     df_schema_version = ''0.2.0'', df_decision_id = vr_intake_id r @ ''-decision'',
     df_title = ''Compiled intake '' @ vr_intake_id r,
     df_description = ''Decision File compiled exclusively from verified intake facts.'',
     df_use_case = ''controlled-real-world-intake'', df_status = DRAFT, df_assurance_level = ''STANDARD'',
     df_created_at = timestamp, df_updated_at = timestamp, df_created_by = compiler_actor actor,
     df_requested_by = compiler_actor actor, df_current_owner = compiler_actor actor,
     df_canonical_action = None,
     df_claims = numbered compiled_claim 1 (verified_facts r),
     df_evidence = numbered compiled_evidence 1 (verified_facts r),
     df_assumptions = [], df_constraints = map compiled_constraint (vr_findings r),
     df_policies = [\<lparr>pol_id = policy_id policy, pol_version = policy_version policy, pol_requires_review = False\<rparr>],
     df_risks = [], df_conflicts = [], df_validation_results = [], df_review_requirements = [],
     df_approvals = [], df_decision_outcome = None, df_outcome_reasons = [],
     df_audit_events = [compiled_event sha timestamp actor r]\<rparr>"

definition compile_intake ::
  "digest \<Rightarrow> string \<Rightarrow> verification_report \<Rightarrow> policy_context \<Rightarrow> string \<Rightarrow> intake_status \<Rightarrow> decision_file result" where
  "compile_intake sha timestamp r policy actor status =
     bind_result (ensure (\<not> (status \<noteq> READY \<or> \<not> vr_ready r \<or> vr_unresolved_requirement_refs r \<noteq> []))
       (CompilationRejected ''NEEDS_CONFIRMATION'')) (\<lambda>_.
     bind_result (ensure (verified_facts r \<noteq> []) (CompilationRejected ''NEEDS_CONFIRMATION'')) (\<lambda>_.
     Inr (compiled_document sha timestamp r policy actor)))"

section \<open>Lemmas on confirmation\<close>

lemma authorize_or_forbidden [monad_simps]:
  "(case authorize i p of Inl _ \<Rightarrow> Inl e | Inr u \<Rightarrow> Inr u) = Inr u' \<longleftrightarrow>
     (\<exists>r \<in> set (roles i). role_permits r p)"
  using authorize_Inr_iff [of i p "()"] by (auto split: sum.splits simp: authorize_def ensure_def)

lemma confirm_fact_Inr_iff:
  "confirm_fact sha r fid action new_value reason occurred_at i = Inr (r', c) \<longleftrightarrow>
     kind i = HUMAN \<and> (\<exists>x \<in> set (roles i). role_permits x INTAKE_CONFIRM) \<and>
     action \<in> {''CONFIRM'', ''CORRECT'', ''REJECT''} \<and> \<not> (action = ''CORRECT'' \<and> or_empty new_value = []) \<and>
     \<not> blank reason \<and>
     (\<exists>current. List.find (\<lambda>c. fact_id c = fid) (vr_candidates r) = Some current \<and>
        r' = confirmed_report r fid action new_value i current \<and>
        c = confirmation_of sha r fid action new_value reason occurred_at i current)"
  unfolding confirm_fact_def bind_result_Inr_iff ensure_Inr_iff authorize_or_forbidden case_option_Inr_iff
    sum.inject prod.inject
  by (intro iffI; elim exE conjE; intro conjI exI; (assumption | rule refl | erule sym)?)

end
