(* ===== verification/IntakeCompilation.thy ===== *)
theory IntakeCompilation
  imports IntakeConfirmation
begin

text \<open>
  What a compiled document is worth: it satisfies the Decision File contract and its
  semantic rules, and its evaluation depends on the policy findings alone.
\<close>

lemma claim_label_inject [simp]: "claim_label m = claim_label n \<longleftrightarrow> m = n"
  by (simp add: claim_label_def)

lemma numbered_claim_ids:
  "map claim_id (numbered compiled_claim n cs) = map claim_label [n..<n + length cs]"
  by (induction cs arbitrary: n) (simp_all add: compiled_claim_def upt_conv_Cons del: upt_Suc)

lemma numbered_evidence:
  "map ev_id (numbered compiled_evidence n cs) = map fact_id cs"
  "concat (map ev_claim_refs (numbered compiled_evidence n cs)) = map claim_label [n..<n + length cs]"
  "\<forall>e \<in> set (numbered compiled_evidence n cs). ev_status e = VERIFIED"
  "\<forall>e \<in> set (numbered compiled_evidence n cs). ev_observed_at e = None \<and> distinct (ev_claim_refs e) \<and>
     ev_claim_refs e \<noteq> [] \<and> ev_source_ref e \<noteq> []"
  by (induction cs arbitrary: n) (simp_all add: compiled_evidence_def upt_conv_Cons del: upt_Suc)

lemma numbered_claims:
  "\<forall>c \<in> set (numbered compiled_claim n cs). claim_id c \<noteq> [] \<and> claim_statement c \<noteq> []"
  by (induction cs arbitrary: n) (simp_all add: compiled_claim_def claim_label_def)

lemma numbered_Nil [simp]: "numbered f n xs = [] \<longleftrightarrow> xs = []"
  by (cases xs) simp_all

lemma distinct_claim_labels: "distinct (map claim_label [m..<n])"
  by (simp add: distinct_map inj_on_def)

lemma compiled_semantics:
  assumes "fromisoformat R timestamp = Some t" and "distinct (map fact_id (verified_facts r))"
  shows "semantic_errors R (compiled_document sha timestamp r policy actor) = Inr []"
proof -
  let ?d = "compiled_document sha timestamp r policy actor"
  have claims: "map claim_id (df_claims ?d) = map claim_label [1..<1 + length (verified_facts r)]"
    and refs: "concat (map ev_claim_refs (df_evidence ?d)) = map claim_label [1..<1 + length (verified_facts r)]"
    and ids: "map ev_id (df_evidence ?d) = map fact_id (verified_facts r)"
    by (simp_all only: compiled_document_def decision_file.select_convs numbered_claim_ids numbered_evidence)
  have "unknown_claims ?d = []" unfolding unknown_claims_def claims refs by simp
  moreover have "datetime_less t t = Inr False" by (cases t) simp_all
  moreover have "df_updated_at ?d = timestamp" "df_created_at ?d = timestamp" "df_approvals ?d = []"
    "df_canonical_action ?d = None" by (simp_all add: compiled_document_def)
  moreover have "distinct (map claim_id (df_claims ?d))" unfolding claims by (rule distinct_claim_labels)
  moreover have "distinct (map ev_id (df_evidence ?d))" unfolding ids by (rule assms(2))
  ultimately show ?thesis
    using assms(1) unfolding semantic_errors_def
    by (simp add: parse_datetime_def unknown_requirements_def py_sorted_set_def action_errors_def)
qed

lemma compiled_schema:
  assumes "id_search ''._-'' 127 (vr_intake_id r @ ''-decision'')" and "verified_facts r \<noteq> []"
    and "date_time_format R timestamp" and "actor \<noteq> []"
    and "\<forall>c \<in> set (verified_facts r). fact_id c \<noteq> []"
    and "\<forall>f \<in> set (vr_findings r). dv_result_code f \<noteq> []"
  shows "decision_file_schema R (compiled_document sha timestamp r policy actor)"
proof -
  let ?fs = "verified_facts r"
  have "length (vr_intake_id r @ ''-decision'') \<le> 129"
    using assms(1) by (auto simp: id_search_def dest!: id_fullmatch_bound)
  then have title: "len_between 1 200 (''Compiled intake '' @ vr_intake_id r)"
    by (simp add: len_between_def)
  have "set (map ev_id (numbered compiled_evidence 1 ?fs)) = set (map fact_id ?fs)"
    unfolding numbered_evidence(1) ..
  then have "ev_id e \<noteq> []" if "e \<in> set (numbered compiled_evidence 1 ?fs)" for e
    using that assms(5) by (auto simp: image_iff set_eq_iff) (metis imageI)
  then have ev: "list_all (evidence_schema R) (numbered compiled_evidence 1 ?fs)"
    using numbered_evidence(4) [of 1 ?fs] by (simp add: list_all_iff evidence_schema_def)
  have act: "actor_schema (compiler_actor actor)"
    using assms(4) by (simp add: actor_schema_def compiler_actor_def)
  have aud: "audit_event_schema R (compiled_event sha timestamp actor r)"
    using assms(3) act by (simp add: audit_event_schema_def compiled_event_def)
  have con: "list_all (\<lambda>c. con_reason_code c \<noteq> []) (map compiled_constraint (vr_findings r))"
    using assms(6) by (simp add: list_all_iff compiled_constraint_def)
  show ?thesis
    using assms(1-3) title ev act aud con numbered_claims [of 1 ?fs]
    by (simp add: decision_file_schema_def compiled_document_def list_all_iff len_between_def)
qed

lemma compiled_clean_evidence:
  "\<not> mandatory_evidence_missing (compiled_document sha timestamp r policy actor)"
proof -
  let ?fs = "verified_facts r"
  have "\<exists>e \<in> set (numbered compiled_evidence 1 ?fs). claim_id c \<in> set (ev_claim_refs e) \<and> ev_status e = VERIFIED"
    if c: "c \<in> set (numbered compiled_claim 1 ?fs)" for c
  proof -
    have "claim_id c \<in> set (map claim_id (numbered compiled_claim 1 ?fs))" using c by simp
    then have "claim_id c \<in> set (concat (map ev_claim_refs (numbered compiled_evidence 1 ?fs)))"
      unfolding numbered_claim_ids numbered_evidence(2) .
    then show ?thesis using numbered_evidence(3) [of 1 ?fs] by auto
  qed
  then show ?thesis
    by (fastforce simp: mandatory_evidence_missing_def compiled_document_def list_ex_iff)
qed

lemma compiled_outcome:
  assumes "actor \<noteq> []"
  shows "document_outcome (compiled_document sha timestamp r policy actor) =
    (if \<exists>f \<in> set (vr_findings r). mandatory_result (dv_result_code f) then BLOCK
     else if vr_findings r = [] then PASS else REVIEW)"
proof -
  let ?d = "compiled_document sha timestamp r policy actor"
  have e: "\<forall>e \<in> set (df_evidence ?d). ev_status e = VERIFIED"
    using numbered_evidence(3) by (simp add: compiled_document_def)
  have "document_blocks ?d \<longleftrightarrow> (\<exists>f \<in> set (vr_findings r). mandatory_result (dv_result_code f))"
    using e compiled_clean_evidence [of sha timestamp r policy actor]
    by (auto simp: document_blocks_def) (auto simp: compiled_document_def self_approved_def compiled_constraint_def
        split: if_splits)
  moreover have "document_clean ?d \<longleftrightarrow> vr_findings r = []"
    using e compiled_clean_evidence [of sha timestamp r policy actor]
    by (auto simp: document_clean_def) (auto simp: compiled_document_def self_approved_def compiled_constraint_def
        unresolved_uncertainty_def high_impact_def split: if_splits)
  ultimately show ?thesis by (simp add: document_outcome_def)
qed

end
