(* ===== verification/DataLifecycle.thy ===== *)
theory DataLifecycle
  imports Identity AuditLog Lifecycles
begin

text \<open>
  Deletion of a pilot case and legal holds: \<^verbatim>\<open>lifecycle/contracts.py\<close>,
  \<^verbatim>\<open>lifecycle/repository.py\<close> and \<^verbatim>\<open>lifecycle/service.py\<close>. A method of the repository is
  atomic; the service calls several of them, so an execution of a deletion takes as
  \<open>meanwhile\<close> what others do to the store between its two writes. The HMAC under the
  service's secret, SHA-256 and the clock, read once per use, are parameters.
\<close>

section \<open>contracts.py\<close>

datatype deletion_status = REQUESTED | BLOCKED_BY_HOLD | EXECUTING | DELETION_COMPLETED | DELETION_FAILED

record life_event =
  lv_tenant_id :: string
  lv_event_id :: string
  lv_request_id :: string
  lv_case_ref_hash :: string
  lv_event_type :: string
  lv_occurred_at :: string
  lv_reason_code :: string
  lv_correlation_id :: string
  lv_actor_hash :: string
  lv_event_hash :: string
  lv_previous_event_hash :: "string option"

record deletion_request =
  dr_tenant_id :: string
  dr_request_id :: string
  dr_decision_id :: "string option"
  dr_case_ref_hash :: string
  dr_actor_hash :: string
  dr_idempotency_key_hash :: string
  dr_status :: deletion_status
  dr_reason_code :: string
  dr_requested_at :: string
  dr_completed_at :: "string option"
  dr_legal_hold_active :: bool
  dr_event_hash :: string
  dr_previous_event_hash :: "string option"

definition with_status ::
  "deletion_request \<Rightarrow> deletion_status \<Rightarrow> bool \<Rightarrow> string option \<Rightarrow> bool \<Rightarrow> deletion_request" where
  "with_status r status legal_hold_active completed_at forget_decision =
     r\<lparr>dr_status := status, dr_legal_hold_active := legal_hold_active, dr_completed_at := completed_at,
       dr_decision_id := if forget_decision then None else dr_decision_id r\<rparr>"

definition with_event :: "deletion_request \<Rightarrow> life_event \<Rightarrow> deletion_request" where
  "with_event r e = r\<lparr>dr_event_hash := lv_event_hash e, dr_previous_event_hash := lv_previous_event_hash e\<rparr>"

section \<open>repository.py\<close>

record life_db =
  life_cases :: "(string \<times> string) list"
  life_requests :: "string \<times> string \<Rightarrow> deletion_request option"
  life_idempotency :: "string \<times> string \<times> string \<Rightarrow> string option"
  life_holds :: "(string \<times> string) list"
  life_events :: "life_event list"

definition add_case :: "string \<Rightarrow> string \<Rightarrow> life_db \<Rightarrow> life_db" where
  "add_case t d s = s\<lparr>life_cases := List.insert (t, d) (life_cases s)\<rparr>"

definition case_exists :: "string \<Rightarrow> string \<Rightarrow> life_db \<Rightarrow> bool" where
  "case_exists t d s = ((t, d) \<in> set (life_cases s))"

definition get_by_idempotency :: "string \<Rightarrow> string \<Rightarrow> string \<Rightarrow> life_db \<Rightarrow> deletion_request option result" where
  "get_by_idempotency t actor key s =
     (case life_idempotency s (t, actor, key) of None \<Rightarrow> Inr None
      | Some rid \<Rightarrow> (case life_requests s (t, rid) of None \<Rightarrow> Inl (KeyError rid) | Some r \<Rightarrow> Inr (Some r)))"

definition get_request :: "string \<Rightarrow> string \<Rightarrow> life_db \<Rightarrow> deletion_request option" where
  "get_request t rid s = life_requests s (t, rid)"

definition active_hold :: "string \<Rightarrow> string \<Rightarrow> life_db \<Rightarrow> bool" where
  "active_hold t d s = ((t, d) \<in> set (life_holds s))"

definition last_event :: "string \<Rightarrow> string \<Rightarrow> life_db \<Rightarrow> life_event option" where
  "last_event t rid s = List.find (\<lambda>e. lv_tenant_id e = t \<and> lv_request_id e = rid) (rev (life_events s))"

definition last_hash :: "string \<Rightarrow> string \<Rightarrow> life_db \<Rightarrow> string option" where
  "last_hash t rid s = map_option lv_event_hash (last_event t rid s)"

abbreviation status_conflict :: exn where
  "status_conflict \<equiv> LifecycleTransitionConflict ''LIFECYCLE_STATUS_CONFLICT''"

abbreviation chain_conflict :: exn where
  "chain_conflict \<equiv> LifecycleTransitionConflict ''LIFECYCLE_EVENT_CHAIN_CONFLICT''"

definition same_request :: "deletion_request \<Rightarrow> deletion_request \<Rightarrow> bool" where
  "same_request a b = (dr_case_ref_hash a = dr_case_ref_hash b \<and> dr_actor_hash a = dr_actor_hash b \<and>
     dr_idempotency_key_hash a = dr_idempotency_key_hash b \<and> dr_reason_code a = dr_reason_code b)"

definition request_key :: "deletion_request \<Rightarrow> string \<times> string" where
  "request_key r = (dr_tenant_id r, dr_request_id r)"

definition store_request :: "deletion_request \<Rightarrow> life_event \<Rightarrow> life_db \<Rightarrow> life_db" where
  "store_request r e s = s\<lparr>life_requests := (life_requests s)(request_key r \<mapsto> r),
     life_idempotency := (life_idempotency s)
       ((dr_tenant_id r, dr_actor_hash r, dr_idempotency_key_hash r) \<mapsto> dr_request_id r),
     life_events := life_events s @ [e]\<rparr>"

definition persist_transition ::
  "deletion_request \<Rightarrow> life_event \<Rightarrow> deletion_status option \<Rightarrow> life_db \<Rightarrow> (deletion_request \<times> life_db) result" where
  "persist_transition request event expected_status s =
     (case life_requests s (request_key request) of
        Some current \<Rightarrow>
          (case expected_status of
             None \<Rightarrow>
               bind_result (ensure (same_request current request)
                 (LifecycleTransitionConflict ''IDEMPOTENCY_KEY_REUSED'')) (\<lambda>_.
               Inr (current, s))
           | Some expected \<Rightarrow>
               if dr_status current \<noteq> expected then
                 bind_result (ensure (dr_status current \<in> {dr_status request, DELETION_COMPLETED})
                   status_conflict) (\<lambda>_. Inr (current, s))
               else
                 bind_result (ensure (lv_previous_event_hash event = Some (dr_event_hash current))
                   chain_conflict) (\<lambda>_.
                 Inr (request, store_request request event s)))
      | None \<Rightarrow>
          bind_result (ensure (expected_status = None) status_conflict) (\<lambda>_.
          bind_result (ensure (lv_previous_event_hash event = None) chain_conflict) (\<lambda>_.
          Inr (request, store_request request event s))))"

definition set_hold :: "string \<Rightarrow> string \<Rightarrow> life_event \<Rightarrow> life_db \<Rightarrow> (bool \<times> life_db) result" where
  "set_hold t d event s =
     (if (t, d) \<in> set (life_holds s) then Inr (False, s)
      else bind_result (ensure (lv_previous_event_hash event = last_hash t (lv_request_id event) s) chain_conflict) (\<lambda>_.
        Inr (True, s\<lparr>life_holds := (t, d) # life_holds s, life_events := life_events s @ [event]\<rparr>)))"

definition release_hold :: "string \<Rightarrow> string \<Rightarrow> life_event \<Rightarrow> life_db \<Rightarrow> (bool \<times> life_db) result" where
  "release_hold t d event s =
     (if (t, d) \<notin> set (life_holds s) then Inr (False, s)
      else bind_result (ensure (lv_previous_event_hash event = last_hash t (lv_request_id event) s) chain_conflict) (\<lambda>_.
        Inr (True, s\<lparr>life_holds := removeAll (t, d) (life_holds s), life_events := life_events s @ [event]\<rparr>)))"

definition complete_deletion ::
  "deletion_request \<Rightarrow> life_event \<Rightarrow> life_db \<Rightarrow> (deletion_request \<times> life_db) result" where
  "complete_deletion request event s =
     (case life_requests s (request_key request) of
        None \<Rightarrow> Inl status_conflict
      | Some current \<Rightarrow>
          if dr_status current = DELETION_COMPLETED then Inr (current, s)
          else bind_result (ensure (dr_status current = EXECUTING) status_conflict) (\<lambda>_.
          case dr_decision_id current of
            None \<Rightarrow> Inl status_conflict
          | Some decision_id \<Rightarrow>
              bind_result (ensure (lv_previous_event_hash event = Some (dr_event_hash current)) chain_conflict) (\<lambda>_.
              bind_result (TenantContext (dr_tenant_id request)) (\<lambda>t.
              bind_result (ensure (\<not> active_hold t decision_id s) (LegalHoldActive ''LEGAL_HOLD_ACTIVE'')) (\<lambda>_.
              Inr (request, s\<lparr>life_requests := (life_requests s)(request_key request \<mapsto> request),
                life_events := life_events s @ [event],
                life_cases := removeAll (dr_tenant_id request, decision_id) (life_cases s)\<rparr>))))))"

section \<open>service.py\<close>

record life_env =
  life_hmac :: "string \<Rightarrow> string"
  life_sha :: digest
  life_clock :: "nat \<Rightarrow> string"

definition life_digest :: "life_env \<Rightarrow> string \<Rightarrow> string \<Rightarrow> string \<Rightarrow> string" where
  "life_digest E purpose t v = ''sha256:'' @ life_hmac E (purpose @ [CHR 0x00] @ t @ [CHR 0x00] @ v)"

definition chain_ref :: "string option \<Rightarrow> string" where
  "chain_ref previous = (case previous of None \<Rightarrow> ''root''
     | Some h \<Rightarrow> take 16 (if py_startswith h ''sha256:'' then drop 7 h else h))"

definition event_payload :: "life_event \<Rightarrow> json" where
  "event_payload e = JObj [
     (''event_id'', JStr (lv_event_id e)), (''request_id'', JStr (lv_request_id e)),
     (''case_ref_hash'', JStr (lv_case_ref_hash e)), (''event_type'', JStr (lv_event_type e)),
     (''occurred_at'', JStr (lv_occurred_at e)), (''reason_code'', JStr (lv_reason_code e)),
     (''correlation_id'', JStr (lv_correlation_id e)), (''actor_hash'', JStr (lv_actor_hash e)),
     (''previous_event_hash'', json_opt (lv_previous_event_hash e))]"

definition make_event ::
  "life_env \<Rightarrow> string \<Rightarrow> string \<Rightarrow> string \<Rightarrow> string \<Rightarrow> string \<Rightarrow> string \<Rightarrow> string \<Rightarrow> string \<Rightarrow> string option \<Rightarrow> life_event" where
  "make_event E t rid case_ref ty at reason correlation actor previous =
     (let e = \<lparr>lv_tenant_id = t, lv_event_id = rid @ '':'' @ ty @ '':'' @ at @ '':'' @ chain_ref previous,
            lv_request_id = rid, lv_case_ref_hash = case_ref, lv_event_type = ty, lv_occurred_at = at,
            lv_reason_code = reason, lv_correlation_id = correlation, lv_actor_hash = actor,
            lv_event_hash = [], lv_previous_event_hash = previous\<rparr>
      in e\<lparr>lv_event_hash := payload_hash (life_sha E) (event_payload e)\<rparr>)"

definition request_event ::
  "life_env \<Rightarrow> nat \<Rightarrow> deletion_request \<Rightarrow> string \<Rightarrow> identity \<Rightarrow> string \<Rightarrow> life_db \<Rightarrow> life_event" where
  "request_event E n r ty i correlation s =
     make_event E (tenant i) (dr_request_id r) (dr_case_ref_hash r) ty (life_clock E n) (dr_reason_code r)
       correlation (dr_actor_hash r) (last_hash (tenant i) (dr_request_id r) s)"

definition hold_event ::
  "life_env \<Rightarrow> identity \<Rightarrow> string \<Rightarrow> string \<Rightarrow> string \<Rightarrow> string \<Rightarrow> string \<Rightarrow> life_db \<Rightarrow> life_event" where
  "hold_event E i d hold_id ty reason correlation s =
     make_event E (tenant i) hold_id (life_digest E ''case'' (tenant i) d) ty (life_clock E 0) reason correlation
       (life_digest E ''actor'' (tenant i) (actor_id i)) (last_hash (tenant i) hold_id s)"

definition store :: "('s \<Rightarrow> ('a \<times> 's) result) \<Rightarrow> ('s, 'a) action" where
  "store f s = (case f s of Inl e \<Rightarrow> (Inl e, s) | Inr (x, s') \<Rightarrow> (Inr x, s'))"

definition record_request ::
  "life_env \<Rightarrow> nat \<Rightarrow> deletion_request \<Rightarrow> string \<Rightarrow> identity \<Rightarrow> string \<Rightarrow> deletion_status option \<Rightarrow>
   (life_db, deletion_request) action" where
  "record_request E n r ty i correlation expected =
     bind_action (read_state (request_event E n r ty i correlation)) (\<lambda>event.
     store (persist_transition (with_event r event) event expected))"

definition deletion_id :: "life_env \<Rightarrow> string \<Rightarrow> string \<Rightarrow> string \<Rightarrow> string" where
  "deletion_id E t actor key = ''delete-'' @ take 24 (life_sha E (t @ [CHR 0x00] @ actor @ [CHR 0x00] @ key))"

definition hold_id_of :: "life_env \<Rightarrow> string \<Rightarrow> string \<Rightarrow> string" where
  "hold_id_of E t d = ''hold-'' @ take 24 (life_sha E (t @ [CHR 0x00] @ d))"

definition request_deletion ::
  "life_env \<Rightarrow> identity \<Rightarrow> string \<Rightarrow> string \<Rightarrow> string \<Rightarrow> string \<Rightarrow> (life_db, deletion_request) action" where
  "request_deletion E i d reason key correlation =
     bind_action (lift_result (authorize i DATA_DELETE)) (\<lambda>_.
     let t = tenant i; actor = life_digest E ''actor'' t (actor_id i);
         key_hash = life_digest E ''idempotency'' t key; case_hash = life_digest E ''case'' t d in
     bind_action (\<lambda>s. (get_by_idempotency t actor key_hash s, s)) (\<lambda>replay.
     case replay of
       Some r \<Rightarrow>
         if dr_case_ref_hash r \<noteq> case_hash \<or> dr_reason_code r \<noteq> reason
         then raise_action (LifecycleConflict ''IDEMPOTENCY_KEY_REUSED'') else pure_action r
     | None \<Rightarrow>
         bind_action (read_state (case_exists t d)) (\<lambda>exists.
         if \<not> exists then raise_action (LifecycleConflict ''CASE_NOT_FOUND'') else
         bind_action (read_state (active_hold t d)) (\<lambda>hold.
         record_request E 1 \<lparr>dr_tenant_id = t, dr_request_id = deletion_id E t actor key_hash,
             dr_decision_id = Some d, dr_case_ref_hash = case_hash, dr_actor_hash = actor,
             dr_idempotency_key_hash = key_hash,
             dr_status = if hold then BLOCKED_BY_HOLD else REQUESTED, dr_reason_code = reason,
             dr_requested_at = life_clock E 0, dr_completed_at = None, dr_legal_hold_active = hold,
             dr_event_hash = [], dr_previous_event_hash = None\<rparr>
           ''data.deletion-requested'' i correlation None))))"

text \<open>The two statements of the \<^verbatim>\<open>try\<close> block, with the handler of LegalHoldActive.\<close>

definition finish_deletion ::
  "life_env \<Rightarrow> identity \<Rightarrow> string \<Rightarrow> deletion_request \<Rightarrow> (life_db, deletion_request) action" where
  "finish_deletion E i correlation executing =
     (let completed = with_status executing DELETION_COMPLETED False (Some (life_clock E 1)) True in
      bind_action (read_state (request_event E 2 completed ''data.deletion-completed'' i correlation)) (\<lambda>event s.
      case complete_deletion (with_event completed event) event s of
        Inl (LegalHoldActive m) \<Rightarrow>
          record_request E 3 (with_status executing BLOCKED_BY_HOLD True None False) ''data.deletion-blocked''
            i correlation (Some (dr_status executing)) s
      | Inl e \<Rightarrow> (Inl e, s)
      | Inr (r, s') \<Rightarrow> (Inr r, s')))"

definition execute_deletion ::
  "life_env \<Rightarrow> (life_db \<Rightarrow> life_db) \<Rightarrow> identity \<Rightarrow> string \<Rightarrow> string \<Rightarrow> (life_db, deletion_request) action" where
  "execute_deletion E meanwhile i rid correlation =
     bind_action (lift_result (authorize i DATA_DELETE)) (\<lambda>_.
     bind_action (read_state (get_request (tenant i) rid)) (\<lambda>found.
     case found of
       None \<Rightarrow> raise_action (LifecycleConflict ''CASE_NOT_FOUND'')
     | Some request \<Rightarrow>
         if dr_status request = DELETION_COMPLETED then pure_action request
         else case dr_decision_id request of
           None \<Rightarrow> raise_action (LifecycleConflict ''INVALID_DELETION_STATE'')
         | Some d \<Rightarrow>
             bind_action (read_state (active_hold (tenant i) d)) (\<lambda>hold.
             if hold then record_request E 0 (with_status request BLOCKED_BY_HOLD True None False)
                 ''data.deletion-blocked'' i correlation (Some (dr_status request))
             else
               bind_action (record_request E 0 (with_status request EXECUTING False None False)
                 ''data.deletion-executing'' i correlation (Some (dr_status request))) (\<lambda>executing s.
               finish_deletion E i correlation executing (meanwhile s)))))"

definition place_legal_hold ::
  "life_env \<Rightarrow> identity \<Rightarrow> string \<Rightarrow> string \<Rightarrow> string \<Rightarrow> (life_db, unit) action" where
  "place_legal_hold E i d reason correlation =
     bind_action (lift_result (authorize i LEGAL_HOLD_MANAGE)) (\<lambda>_.
     bind_action (read_state (case_exists (tenant i) d)) (\<lambda>exists.
     if \<not> exists then raise_action (LifecycleConflict ''CASE_NOT_FOUND'') else
     bind_action (read_state (hold_event E i d (hold_id_of E (tenant i) d) ''data.legal-hold-placed'' reason
       correlation)) (\<lambda>event.
     bind_action (store (set_hold (tenant i) d event)) (\<lambda>_. pure_action ()))))"

definition release_legal_hold :: "life_env \<Rightarrow> identity \<Rightarrow> string \<Rightarrow> string \<Rightarrow> (life_db, bool) action" where
  "release_legal_hold E i d correlation =
     bind_action (lift_result (authorize i LEGAL_HOLD_MANAGE)) (\<lambda>_.
     bind_action (read_state (hold_event E i d (hold_id_of E (tenant i) d) ''data.legal-hold-released''
       ''LEGAL_HOLD_RELEASED'' correlation)) (\<lambda>event.
     store (release_hold (tenant i) d event)))"

end
