(* ===== verification/LifecycleInvariants.thy ===== *)
theory LifecycleInvariants
  imports DataLifecycle
begin

text \<open>
  The data lifecycle as a state machine. \<open>life_atom\<close> is one atomic change of the store
  as the service makes it; every operation of the service is a sequence of atoms, the
  changes of others in between included. The invariant ties every request to the last event
  of its log, which makes the log hash-linked.
\<close>

section \<open>Atoms\<close>

fun deletion_allowed :: "deletion_status \<Rightarrow> deletion_status list" where
  "deletion_allowed REQUESTED = [BLOCKED_BY_HOLD, EXECUTING]"
| "deletion_allowed BLOCKED_BY_HOLD = [BLOCKED_BY_HOLD, EXECUTING]"
| "deletion_allowed EXECUTING = [BLOCKED_BY_HOLD, EXECUTING, DELETION_COMPLETED]"
| "deletion_allowed DELETION_COMPLETED = []"
| "deletion_allowed DELETION_FAILED = [BLOCKED_BY_HOLD, EXECUTING]"

definition event_of :: "life_env \<Rightarrow> deletion_request \<Rightarrow> life_event \<Rightarrow> bool" where
  "event_of E r e = (lv_tenant_id e = dr_tenant_id r \<and> lv_request_id e = dr_request_id r \<and>
     lv_event_hash e = payload_hash (life_sha E) (event_payload e) \<and>
     dr_event_hash r = lv_event_hash e)"

inductive life_atom :: "life_env \<Rightarrow> life_db \<Rightarrow> life_db \<Rightarrow> bool" for E where
  atom_case: "life_atom E s (add_case t d s)"
| atom_new: "life_requests s (request_key r) = None \<Longrightarrow> dr_status r \<in> {REQUESTED, BLOCKED_BY_HOLD} \<Longrightarrow>
    py_startswith (dr_request_id r) ''delete-'' \<Longrightarrow> event_of E r e \<Longrightarrow> lv_previous_event_hash e = None \<Longrightarrow>
    life_atom E s (store_request r e s)"
| atom_move: "life_requests s (request_key r) = Some r0 \<Longrightarrow> dr_status r \<in> {BLOCKED_BY_HOLD, EXECUTING} \<Longrightarrow>
    dr_status r0 \<noteq> DELETION_COMPLETED \<Longrightarrow> event_of E r e \<Longrightarrow>
    dr_case_ref_hash r = dr_case_ref_hash r0 \<Longrightarrow>
    lv_previous_event_hash e = Some (dr_event_hash r0) \<Longrightarrow> life_atom E s (store_request r e s)"
| atom_complete: "life_requests s (request_key r) = Some r0 \<Longrightarrow> dr_status r0 = EXECUTING \<Longrightarrow>
    dr_decision_id r0 = Some d \<Longrightarrow> (dr_tenant_id r, d) \<notin> set (life_holds s) \<Longrightarrow>
    dr_status r = DELETION_COMPLETED \<Longrightarrow> dr_decision_id r = None \<Longrightarrow> dr_completed_at r \<noteq> None \<Longrightarrow> event_of E r e \<Longrightarrow>
    dr_case_ref_hash r = dr_case_ref_hash r0 \<Longrightarrow>
    lv_previous_event_hash e = Some (dr_event_hash r0) \<Longrightarrow>
    life_atom E s (s\<lparr>life_requests := (life_requests s)(request_key r \<mapsto> r),
      life_events := life_events s @ [e], life_cases := removeAll (dr_tenant_id r, d) (life_cases s)\<rparr>)"
| atom_hold: "(t, d) \<notin> set (life_holds s) \<Longrightarrow> py_startswith (lv_request_id e) ''hold-'' \<Longrightarrow>
    lv_tenant_id e = t \<Longrightarrow> lv_event_hash e = payload_hash (life_sha E) (event_payload e) \<Longrightarrow>
    lv_previous_event_hash e = last_hash t (lv_request_id e) s \<Longrightarrow>
    life_atom E s (s\<lparr>life_holds := (t, d) # life_holds s, life_events := life_events s @ [e]\<rparr>)"
| atom_release: "(t, d) \<in> set (life_holds s) \<Longrightarrow> py_startswith (lv_request_id e) ''hold-'' \<Longrightarrow>
    lv_tenant_id e = t \<Longrightarrow> lv_event_hash e = payload_hash (life_sha E) (event_payload e) \<Longrightarrow>
    lv_previous_event_hash e = last_hash t (lv_request_id e) s \<Longrightarrow>
    life_atom E s (s\<lparr>life_holds := removeAll (t, d) (life_holds s), life_events := life_events s @ [e]\<rparr>)"

abbreviation life_atoms :: "life_env \<Rightarrow> life_db \<Rightarrow> life_db \<Rightarrow> bool" where
  "life_atoms E \<equiv> (life_atom E)\<^sup>*\<^sup>*"

section \<open>The log of a request or a hold\<close>

definition log_of :: "string \<Rightarrow> string \<Rightarrow> life_db \<Rightarrow> life_event list" where
  "log_of t rid s = filter (\<lambda>e. lv_tenant_id e = t \<and> lv_request_id e = rid) (life_events s)"

lemma last_hash_log: "last_hash t rid s = head_hash lv_event_hash None (log_of t rid s)"
proof -
  have "List.find P (rev es) = (if filter P es = [] then None else Some (last (filter P es)))"
    for P and es :: "life_event list"
    by (induction es rule: rev_induct) auto
  then show ?thesis by (simp add: last_hash_def last_event_def log_of_def head_hash_def)
qed

lemma log_of_append:
  "life_events s' = life_events s @ [e] \<Longrightarrow>
     log_of t rid s' = log_of t rid s @ (if lv_tenant_id e = t \<and> lv_request_id e = rid then [e] else [])"
  by (simp add: log_of_def)

lemma log_of_same: "life_events s' = life_events s \<Longrightarrow> log_of t rid s' = log_of t rid s"
  by (simp add: log_of_def)

definition life_inv :: "life_env \<Rightarrow> life_db \<Rightarrow> bool" where
  "life_inv E s =
     ((\<forall>t rid r. life_requests s (t, rid) = Some r \<longrightarrow> dr_tenant_id r = t \<and> dr_request_id r = rid \<and>
         py_startswith rid ''delete-'' \<and> last_hash t rid s = Some (dr_event_hash r) \<and>
         (dr_status r = DELETION_COMPLETED \<longrightarrow> dr_decision_id r = None \<and> dr_completed_at r \<noteq> None)) \<and>
      (\<forall>e \<in> set (life_events s). lv_event_hash e = payload_hash (life_sha E) (event_payload e) \<and>
         (py_startswith (lv_request_id e) ''hold-'' \<or>
          life_requests s (lv_tenant_id e, lv_request_id e) \<noteq> None)) \<and>
      (\<forall>t a k rid. life_idempotency s (t, a, k) = Some rid \<longrightarrow> life_requests s (t, rid) \<noteq> None))"

lemma hold_not_delete: "py_startswith rid ''hold-'' \<Longrightarrow> \<not> py_startswith rid ''delete-''"
  by (cases rid) auto

lemma last_hash_append:
  "life_events s' = life_events s @ [e] \<Longrightarrow>
     last_hash t rid s' = (if lv_tenant_id e = t \<and> lv_request_id e = rid then Some (lv_event_hash e) else last_hash t rid s)"
  by (simp add: last_hash_log log_of_append)

lemma no_events_of_new:
  assumes "life_inv E s" and "life_requests s (t, rid) = None" and "py_startswith rid ''delete-''"
  shows "log_of t rid s = []"
  using assms hold_not_delete unfolding life_inv_def log_of_def filter_empty_conv by metis

lemma store_request_simps [simp]:
  "life_events (store_request r e s) = life_events s @ [e]"
  "life_cases (store_request r e s) = life_cases s" "life_holds (store_request r e s) = life_holds s"
  "life_requests (store_request r e s) = (life_requests s)(request_key r \<mapsto> r)"
  by (simp_all add: store_request_def)

lemma life_inv_stored:
  assumes inv: "life_inv E s" and e: "event_of E r e" and d: "py_startswith (dr_request_id r) ''delete-''"
    and ev: "life_events s' = life_events s @ [e]"
    and rq: "life_requests s' = (life_requests s)(request_key r \<mapsto> r)"
    and idem: "\<And>t a k rid. life_idempotency s' (t, a, k) = Some rid \<Longrightarrow>
       life_idempotency s (t, a, k) = Some rid \<or> (t, rid) = request_key r"
    and c: "dr_status r = DELETION_COMPLETED \<Longrightarrow> dr_decision_id r = None \<and> dr_completed_at r \<noteq> None"
  shows "life_inv E s'"
proof -
  have "dr_tenant_id q = t \<and> dr_request_id q = rid \<and> py_startswith rid ''delete-'' \<and>
      last_hash t rid s' = Some (dr_event_hash q) \<and>
      (dr_status q = DELETION_COMPLETED \<longrightarrow> dr_decision_id q = None \<and> dr_completed_at q \<noteq> None)"
    if q: "life_requests s' (t, rid) = Some q" for t rid q
  proof (cases "(t, rid) = request_key r")
    case True
    with q have "q = r" by (simp add: rq)
    with True e d c show ?thesis by (simp add: request_key_def event_of_def last_hash_append [OF ev])
  next
    case False
    with q have "life_requests s (t, rid) = Some q" by (simp add: rq)
    with False inv e show ?thesis
      unfolding life_inv_def by (auto simp: request_key_def event_of_def last_hash_append [OF ev])
  qed
  moreover have "lv_event_hash x = payload_hash (life_sha E) (event_payload x) \<and>
      (py_startswith (lv_request_id x) ''hold-'' \<or> life_requests s' (lv_tenant_id x, lv_request_id x) \<noteq> None)"
    if "x \<in> set (life_events s')" for x
    using that inv e unfolding ev life_inv_def rq by (auto simp: event_of_def request_key_def)
  moreover have "life_requests s' (t, rid) \<noteq> None" if "life_idempotency s' (t, a, k) = Some rid" for t a k rid
    using idem [OF that] inv unfolding rq life_inv_def by auto
  ultimately show ?thesis unfolding life_inv_def by blast
qed

lemma life_inv_hold:
  assumes "life_inv E s" and "py_startswith (lv_request_id e) ''hold-''"
    and "lv_event_hash e = payload_hash (life_sha E) (event_payload e)"
    and "life_events s' = life_events s @ [e]" and "life_requests s' = life_requests s"
    and "life_idempotency s' = life_idempotency s"
  shows "life_inv E s'"
  using assms hold_not_delete unfolding life_inv_def
  by (auto simp: last_hash_append [OF assms(4)])

lemma life_atom_inv:
  assumes "life_atom E s s'" and inv: "life_inv E s"
  shows "life_inv E s'"
  using assms(1)
proof cases
  case (atom_case t d)
  have "log_of t' rid s' = log_of t' rid s" for t' rid by (simp add: log_of_def atom_case add_case_def)
  with inv show ?thesis
    unfolding life_inv_def last_hash_log by (simp add: atom_case add_case_def)
next
  case (atom_new r e)
  then show ?thesis
    by (intro life_inv_stored [OF inv, of r e]) (auto simp: store_request_def request_key_def split: if_splits)
next
  case (atom_move r r0 e)
  then have "py_startswith (dr_request_id r) ''delete-''"
    using inv unfolding life_inv_def request_key_def by blast
  with atom_move show ?thesis
    by (intro life_inv_stored [OF inv, of r e]) (auto simp: store_request_def request_key_def split: if_splits)
next
  case (atom_complete r r0 d e)
  then have "py_startswith (dr_request_id r) ''delete-''"
    using inv unfolding life_inv_def request_key_def by blast
  with atom_complete show ?thesis
    by (intro life_inv_stored [OF inv, of r e]) auto
next
  case (atom_hold t d e)
  then show ?thesis by (intro life_inv_hold [OF inv, of e]) simp_all
next
  case (atom_release t d e)
  then show ?thesis by (intro life_inv_hold [OF inv, of e]) simp_all
qed

lemma life_atoms_inv: "life_atoms E s s' \<Longrightarrow> life_inv E s \<Longrightarrow> life_inv E s'"
  by (induction rule: rtranclp_induct) (auto intro: life_atom_inv)

section \<open>Every log is hash-linked\<close>

definition life_log_step :: "life_env \<Rightarrow> life_db \<Rightarrow> life_db \<Rightarrow> bool" where
  "life_log_step E s s' = (life_inv E s \<and> life_atom E s s')"

lemma life_log_step_extends:
  assumes "life_log_step E s s'"
  shows "\<exists>es. log_of t rid s' = log_of t rid s @ es \<and>
    linked_from lv_event_hash lv_previous_event_hash (head_hash lv_event_hash None (log_of t rid s)) es"
proof -
  from assms have inv: "life_inv E s" and a: "life_atom E s s'" by (simp_all add: life_log_step_def)
  have ev: ?thesis if "life_events s' = life_events s @ [e]"
    "lv_previous_event_hash e = last_hash (lv_tenant_id e) (lv_request_id e) s" for e
    using that by (auto simp: log_of_append last_hash_log)
  have at: "last_hash (lv_tenant_id e) (lv_request_id e) s = Some (dr_event_hash r0)"
    if "life_requests s (request_key r) = Some r0" "event_of E r e" for r r0 e
    using that inv unfolding life_inv_def request_key_def event_of_def by simp
  from a show ?thesis
  proof cases
    case (atom_case t' d)
    then show ?thesis by (simp add: log_of_def add_case_def)
  next
    case (atom_new r e)
    then have "log_of (lv_tenant_id e) (lv_request_id e) s = []"
      using no_events_of_new [OF inv] by (simp add: event_of_def request_key_def)
    with atom_new show ?thesis by (intro ev [of e]) (simp_all add: last_hash_log)
  next
    case (atom_move r r0 e)
    with at [of r r0 e] show ?thesis by (intro ev [of e]) simp_all
  next
    case (atom_complete r r0 d e)
    with at [of r r0 e] show ?thesis by (intro ev [of e]) simp_all
  next
    case (atom_hold t' d e)
    then show ?thesis by (intro ev [of e]) simp_all
  next
    case (atom_release t' d e)
    then show ?thesis by (intro ev [of e]) simp_all
  qed
qed

interpretation life_log: chained_log lv_event_hash lv_previous_event_hash "log_of t rid" "life_log_step E"
  for t rid E
  by unfold_locales (rule life_log_step_extends)

lemma life_atoms_log_steps:
  "life_atoms E s s' \<Longrightarrow> life_inv E s \<Longrightarrow> (life_log_step E)\<^sup>*\<^sup>* s s'"
proof (induction rule: rtranclp_induct)
  case (step y z)
  then have "life_log_step E y z" using life_atoms_inv by (auto simp: life_log_step_def)
  with step show ?case by (meson rtranclp.rtrancl_into_rtrancl)
qed simp

end
