(* ===== verification/LifecycleOperations.thy ===== *)
theory LifecycleOperations
  imports LifecycleInvariants
begin

text \<open>
  The operations of the lifecycle service, read as sequences of atoms, and what an atom keeps:
  the identity of a request, its moves along \<open>deletion_allowed\<close> and the cases under hold.
\<close>

section \<open>Events made by the service\<close>

lemma make_event_fields [simp]:
  "lv_tenant_id (make_event E t rid cr ty at re co ac pr) = t"
  "lv_request_id (make_event E t rid cr ty at re co ac pr) = rid"
  "lv_previous_event_hash (make_event E t rid cr ty at re co ac pr) = pr"
  "lv_event_type (make_event E t rid cr ty at re co ac pr) = ty"
  by (simp_all add: make_event_def Let_def)

lemma make_event_hash:
  "lv_event_hash (make_event E t rid cr ty at re co ac pr) =
     payload_hash (life_sha E) (event_payload (make_event E t rid cr ty at re co ac pr))"
  by (simp add: make_event_def Let_def event_payload_def)

lemma request_event_fields [simp]:
  "lv_tenant_id (request_event E n r ty i c s) = tenant i"
  "lv_request_id (request_event E n r ty i c s) = dr_request_id r"
  "lv_previous_event_hash (request_event E n r ty i c s) = last_hash (tenant i) (dr_request_id r) s"
  "lv_event_type (request_event E n r ty i c s) = ty"
  by (simp_all add: request_event_def)

lemma request_event_hash:
  "lv_event_hash (request_event E n r ty i c s) = payload_hash (life_sha E) (event_payload (request_event E n r ty i c s))"
  unfolding request_event_def by (rule make_event_hash)

lemma hold_event_fields [simp]:
  "lv_tenant_id (hold_event E i d h ty re c s) = tenant i"
  "lv_request_id (hold_event E i d h ty re c s) = h"
  "lv_previous_event_hash (hold_event E i d h ty re c s) = last_hash (tenant i) h s"
  by (simp_all add: hold_event_def)

lemma hold_event_hash:
  "lv_event_hash (hold_event E i d h ty re c s) =
     payload_hash (life_sha E) (event_payload (hold_event E i d h ty re c s))"
  unfolding hold_event_def by (rule make_event_hash)

lemma with_event_fields [simp]:
  "dr_tenant_id (with_event r e) = dr_tenant_id r" "dr_request_id (with_event r e) = dr_request_id r"
  "dr_status (with_event r e) = dr_status r" "dr_decision_id (with_event r e) = dr_decision_id r"
  "dr_case_ref_hash (with_event r e) = dr_case_ref_hash r"
  "dr_actor_hash (with_event r e) = dr_actor_hash r"
  "dr_idempotency_key_hash (with_event r e) = dr_idempotency_key_hash r"
  "dr_reason_code (with_event r e) = dr_reason_code r"
  "dr_completed_at (with_event r e) = dr_completed_at r" "request_key (with_event r e) = request_key r"
  by (simp_all add: with_event_def request_key_def)

lemma with_status_fields [simp]:
  "dr_tenant_id (with_status r st h c f) = dr_tenant_id r"
  "dr_request_id (with_status r st h c f) = dr_request_id r"
  "dr_status (with_status r st h c f) = st"
  "dr_decision_id (with_status r st h c f) = (if f then None else dr_decision_id r)"
  "dr_case_ref_hash (with_status r st h c f) = dr_case_ref_hash r"
  "dr_completed_at (with_status r st h c f) = c" "request_key (with_status r st h c f) = request_key r"
  by (simp_all add: with_status_def request_key_def)

lemma request_event_of:
  "dr_tenant_id r = tenant i \<Longrightarrow>
     event_of E (with_event r (request_event E n r ty i c s)) (request_event E n r ty i c s)"
  by (simp add: event_of_def request_event_hash) (simp add: with_event_def request_event_hash)

section \<open>What an atom keeps\<close>

definition request_kept :: "deletion_request \<Rightarrow> deletion_request \<Rightarrow> bool" where
  "request_kept r r' = (dr_tenant_id r' = dr_tenant_id r \<and> dr_request_id r' = dr_request_id r \<and>
     dr_case_ref_hash r' = dr_case_ref_hash r \<and> (dr_status r = DELETION_COMPLETED \<longrightarrow> r' = r) \<and>
     (\<lambda>a b. b \<in> set (deletion_allowed a))\<^sup>*\<^sup>* (dr_status r) (dr_status r'))"

lemma request_kept_refl [simp]: "request_kept r r"
  by (simp add: request_kept_def)

lemma request_kept_trans: "request_kept a b \<Longrightarrow> request_kept b c \<Longrightarrow> request_kept a c"
  unfolding request_kept_def by (auto dest: rtranclp_trans)

lemma deletion_allowed_move:
  "a \<noteq> DELETION_COMPLETED \<Longrightarrow> b \<in> {BLOCKED_BY_HOLD, EXECUTING} \<Longrightarrow> b \<in> set (deletion_allowed a)"
  by (cases a) auto

lemma life_atom_request_kept:
  assumes "life_atom E s s'" and inv: "life_inv E s" and q: "life_requests s (t, rid) = Some q"
  shows "\<exists>q'. life_requests s' (t, rid) = Some q' \<and> request_kept q q'"
proof -
  have id: "dr_tenant_id q = t \<and> dr_request_id q = rid"
    using inv q unfolding life_inv_def by blast
  have stored: ?thesis if "life_requests s' = (life_requests s)(request_key r \<mapsto> r)"
    "life_requests s (request_key r) = Some r0" "dr_status r \<in> set (deletion_allowed (dr_status r0))"
    "dr_case_ref_hash r = dr_case_ref_hash r0" for r r0
  proof (cases "(t, rid) = request_key r")
    case True
    with that q id have "request_kept q r"
      unfolding request_kept_def request_key_def by auto
    with True that show ?thesis by auto
  next
    case False
    with that q show ?thesis by auto
  qed
  from assms(1) show ?thesis
  proof cases
    case (atom_new r e)
    with q have "(t, rid) \<noteq> request_key r" by auto
    with atom_new q show ?thesis by simp
  next
    case (atom_move r r0 e)
    then show ?thesis by (intro stored [of r r0] deletion_allowed_move) auto
  next
    case (atom_complete r r0 d e)
    then show ?thesis by (intro stored [of r r0]) auto
  qed (use q in \<open>auto simp: add_case_def\<close>)
qed

lemma life_atoms_request_kept:
  assumes "life_atoms E s s'" and "life_inv E s" and "life_requests s (t, rid) = Some q"
  shows "\<exists>q'. life_requests s' (t, rid) = Some q' \<and> request_kept q q'"
  using assms(1)
proof (induction rule: rtranclp_induct)
  case (step y z)
  with assms life_atoms_inv life_atom_request_kept request_kept_trans show ?case by meson
qed (use assms in simp)

lemma life_atom_held_case:
  "life_atom E s s' \<Longrightarrow> c \<in> set (life_cases s) \<Longrightarrow> c \<in> set (life_holds s) \<Longrightarrow> c \<in> set (life_cases s')"
  by (induction rule: life_atom.induct) (auto simp: add_case_def)

section \<open>Operations as sequences of atoms\<close>

lemma persist_atoms:
  assumes "persist_transition r e expected s = Inr (x, s')" and ev: "event_of E r e"
    and d: "py_startswith (dr_request_id r) ''delete-''"
    and st: "case expected of None \<Rightarrow> dr_status r \<in> {REQUESTED, BLOCKED_BY_HOLD}
      | Some a \<Rightarrow> a \<noteq> DELETION_COMPLETED \<and> dr_status r \<in> {BLOCKED_BY_HOLD, EXECUTING}"
    and c: "\<And>r0. life_requests s (request_key r) = Some r0 \<Longrightarrow> expected \<noteq> None \<Longrightarrow> dr_case_ref_hash r = dr_case_ref_hash r0"
  shows "life_atoms E s s'"
proof -
  consider "s' = s"
    | "life_requests s (request_key r) = None" "expected = None" "lv_previous_event_hash e = None"
      "s' = store_request r e s"
    | r0 where "life_requests s (request_key r) = Some r0" "expected = Some (dr_status r0)"
      "lv_previous_event_hash e = Some (dr_event_hash r0)" "s' = store_request r e s"
    using assms(1)
    by (auto simp: persist_transition_def monad_simps split: option.splits if_splits)
  then show ?thesis
  proof cases
    case 2
    with st d ev show ?thesis by (auto intro: r_into_rtranclp atom_new)
  next
    case 3
    with st d ev c [OF 3(1)] show ?thesis by (auto intro!: r_into_rtranclp atom_move)
  qed simp
qed

lemma store_snd:
  "(\<And>x s'. f s = Inr (x, s') \<Longrightarrow> P s') \<Longrightarrow> P s \<Longrightarrow> P (snd (store f s))"
  by (auto simp: store_def split: sum.splits)

lemma record_atoms:
  assumes "dr_tenant_id r = tenant i" and "py_startswith (dr_request_id r) ''delete-''"
    and "case expected of None \<Rightarrow> dr_status r \<in> {REQUESTED, BLOCKED_BY_HOLD}
      | Some a \<Rightarrow> a \<noteq> DELETION_COMPLETED \<and> dr_status r \<in> {BLOCKED_BY_HOLD, EXECUTING}"
    and "\<And>r0. life_requests s (request_key r) = Some r0 \<Longrightarrow> expected \<noteq> None \<Longrightarrow> dr_case_ref_hash r = dr_case_ref_hash r0"
  shows "life_atoms E s (snd (record_request E n r ty i c expected s))"
  unfolding record_request_def bind_action_def action_simps prod.case sum.case
  by (rule store_snd, erule persist_atoms [OF _ request_event_of [OF assms(1)]]) (use assms in \<open>auto split: option.splits\<close>)

lemma hold_id_prefix [simp]: "py_startswith (hold_id_of E t d) ''hold-''"
  by (simp add: hold_id_of_def)

lemma deletion_id_prefix [simp]: "py_startswith (deletion_id E t a k) ''delete-''"
  by (simp add: deletion_id_def)

lemma place_hold_atoms: "life_atoms E s (snd (place_legal_hold E i d reason c s))"
proof -
  have "life_atoms E s s'" if "set_hold (tenant i) d (hold_event E i d (hold_id_of E (tenant i) d) ty reason c s) s = Inr (x, s')"
    for ty x s'
    using that by (auto simp: set_hold_def monad_simps hold_event_hash split: if_splits
      intro!: r_into_rtranclp atom_hold)
  then show ?thesis
    by (auto simp: place_legal_hold_def bind_action_def store_def split: sum.splits)
qed

lemma release_hold_atoms: "life_atoms E s (snd (release_legal_hold E i d c s))"
proof -
  have "life_atoms E s s'" if "release_hold (tenant i) d (hold_event E i d (hold_id_of E (tenant i) d) ty reason c s) s = Inr (x, s')"
    for ty reason x s'
    using that by (auto simp: release_hold_def monad_simps hold_event_hash split: if_splits
      intro!: r_into_rtranclp atom_release)
  then show ?thesis
    by (auto simp: release_legal_hold_def bind_action_def store_def split: sum.splits)
qed

lemma request_deletion_atoms: "life_atoms E s (snd (request_deletion E i d reason key c s))"
proof -
  have "life_atoms E s (snd (record_request E 1 r ''data.deletion-requested'' i c None s))"
    if "dr_tenant_id r = tenant i" "py_startswith (dr_request_id r) ''delete-''"
      "dr_status r \<in> {REQUESTED, BLOCKED_BY_HOLD}" for r
    by (rule record_atoms) (use that in simp_all)
  then show ?thesis
    by (simp add: request_deletion_def bind_action_def Let_def split: sum.split option.split)
qed

text \<open>What the first write of an execution leaves behind.\<close>

lemma record_result:
  assumes "record_request E n r ty i c (Some a) s = (Inr x, s')"
  shows "life_requests s' (request_key r) = Some x \<and> (life_requests s (request_key r) = Some x \<or>
    x = with_event r (request_event E n r ty i c s))"
  using assms by (auto simp: record_request_def bind_action_def store_def persist_transition_def monad_simps
    split: sum.splits option.splits if_splits)

lemma complete_atoms:
  assumes "complete_deletion r e s = Inr (x, s')" and "event_of E r e" and "dr_status r = DELETION_COMPLETED"
    and "dr_decision_id r = None" and "dr_completed_at r \<noteq> None"
    and "\<And>r0. life_requests s (request_key r) = Some r0 \<Longrightarrow> dr_case_ref_hash r = dr_case_ref_hash r0"
  shows "life_atoms E s s'"
proof -
  consider "s' = s"
    | r0 d where "life_requests s (request_key r) = Some r0" "dr_status r0 = EXECUTING" "dr_decision_id r0 = Some d"
      "lv_previous_event_hash e = Some (dr_event_hash r0)" "(dr_tenant_id r, d) \<notin> set (life_holds s)"
      "s' = s\<lparr>life_requests := (life_requests s)(request_key r \<mapsto> r),
        life_events := life_events s @ [e], life_cases := removeAll (dr_tenant_id r, d) (life_cases s)\<rparr>"
    using assms(1)
    by (auto simp: complete_deletion_def monad_simps TenantContext_def active_hold_def
      split: option.splits if_splits)
  then show ?thesis
  proof cases
    case 2
    with assms show ?thesis by (auto intro!: r_into_rtranclp atom_complete)
  qed simp
qed

lemma complete_held:
  "complete_deletion r e s = Inl (LegalHoldActive m) \<Longrightarrow>
     \<exists>r0. life_requests s (request_key r) = Some r0 \<and> dr_status r0 = EXECUTING"
  by (auto simp: complete_deletion_def monad_simps TenantContext_def split: option.splits if_splits)

lemma finish_atoms:
  assumes inv: "life_inv E s" and t: "dr_tenant_id r = tenant i" and d: "py_startswith (dr_request_id r) ''delete-''"
    and q: "life_requests s (request_key r) = Some q" "dr_case_ref_hash q = dr_case_ref_hash r"
    and final: "dr_status r = DELETION_COMPLETED \<Longrightarrow> dr_status q = DELETION_COMPLETED"
  shows "life_atoms E s (snd (finish_deletion E i c r s))"
proof -
  define fin where "fin = with_status r DELETION_COMPLETED False (Some (life_clock E 1)) True"
  define ev where "ev = request_event E 2 fin ''data.deletion-completed'' i c s"
  have e: "event_of E (with_event fin ev) ev"
    unfolding ev_def by (rule request_event_of) (simp add: fin_def t)
  show ?thesis
  proof (cases "complete_deletion (with_event fin ev) ev s")
    case (Inr p)
    then have "life_atoms E s (snd p)"
      by (cases p) (auto intro!: complete_atoms [OF _ e] simp: fin_def q)
    with Inr show ?thesis
      by (auto simp: finish_deletion_def bind_action_def Let_def fin_def ev_def split: sum.split prod.split)
  next
    case (Inl x)
    show ?thesis
    proof (cases "\<exists>m. x = LegalHoldActive m")
      case True
      with Inl complete_held [of "with_event fin ev" ev s] q final have "dr_status r \<noteq> DELETION_COMPLETED"
        by (auto simp: fin_def)
      then have "life_atoms E s (snd (record_request E 3 (with_status r BLOCKED_BY_HOLD True None False)
          ''data.deletion-blocked'' i c (Some (dr_status r)) s))"
        by (intro record_atoms) (use t d q in simp_all)
      with True Inl show ?thesis
        by (auto simp: finish_deletion_def bind_action_def Let_def fin_def ev_def)
    next
      case False
      with Inl show ?thesis
        by (auto simp: finish_deletion_def bind_action_def Let_def fin_def ev_def split: exn.split)
    qed
  qed
qed

lemma execute_deletion_atoms:
  assumes inv: "life_inv E s" and mw: "\<And>s1. life_atoms E s1 (meanwhile s1)"
  shows "life_atoms E s (snd (execute_deletion E meanwhile i rid c s))"
proof -
  have "life_atoms E s (snd (bind_action (record_request E 0 (with_status q EXECUTING False None False)
        ''data.deletion-executing'' i c (Some (dr_status q)))
        (\<lambda>r s'. finish_deletion E i c r (meanwhile s')) s))"
    and "life_atoms E s (snd (record_request E 0 (with_status q BLOCKED_BY_HOLD True None False)
        ''data.deletion-blocked'' i c (Some (dr_status q)) s))"
    if q: "life_requests s (tenant i, rid) = Some q" "dr_status q \<noteq> DELETION_COMPLETED" for q
  proof -
    have id: "dr_tenant_id q = tenant i" "request_key q = (tenant i, rid)"
      "py_startswith (dr_request_id q) ''delete-''"
      using q inv unfolding life_inv_def request_key_def by auto
    have rec: "life_atoms E s (snd (record_request E n (with_status q st h None False) ty i c (Some (dr_status q)) s))"
      if "st \<in> {BLOCKED_BY_HOLD, EXECUTING}" for n st h ty
      by (rule record_atoms) (use id q that in simp_all)
    then show "life_atoms E s (snd (record_request E 0 (with_status q BLOCKED_BY_HOLD True None False)
        ''data.deletion-blocked'' i c (Some (dr_status q)) s))" by simp
    show "life_atoms E s (snd (bind_action (record_request E 0 (with_status q EXECUTING False None False)
        ''data.deletion-executing'' i c (Some (dr_status q))) (\<lambda>r s'. finish_deletion E i c r (meanwhile s')) s))"
    proof (cases "record_request E 0 (with_status q EXECUTING False None False)
        ''data.deletion-executing'' i c (Some (dr_status q)) s")
      case (Pair x s1)
      with rec [where st = EXECUTING and h = False] have a: "life_atoms E s s1" by (metis insertI1 insertI2 snd_conv)
      show ?thesis
      proof (cases x)
        case (Inr r)
        with Pair record_result have
          "life_requests s1 (tenant i, rid) = Some r" using id by fastforce
        moreover from mw have m: "life_atoms E s1 (meanwhile s1)" .
        moreover have inv1: "life_inv E s1" using life_atoms_inv [OF a inv] .
        ultimately obtain q' where q': "life_requests (meanwhile s1) (tenant i, rid) = Some q'" "request_kept r q'"
          using life_atoms_request_kept by blast
        have "dr_tenant_id r = tenant i" "request_key r = (tenant i, rid)" "py_startswith (dr_request_id r) ''delete-''"
          using inv1 \<open>life_requests s1 _ = _\<close> unfolding life_inv_def request_key_def by auto
        with q' have "life_atoms E (meanwhile s1) (snd (finish_deletion E i c r (meanwhile s1)))"
          by (intro finish_atoms [OF life_atoms_inv [OF m inv1], where q = q']) (auto simp: request_kept_def)
        with a m Pair Inr show ?thesis by (simp add: bind_action_def)
      qed (use Pair a in \<open>simp add: bind_action_def\<close>)
    qed
  qed
  then show ?thesis
    by (auto simp: execute_deletion_def get_request_def bind_action_eval lift_result_def
      bind_action_def [of "lift_result _"] bind_action_def [of "read_state _"] split: sum.split option.split)
qed

section \<open>Histories of the service\<close>

text \<open>
  One call of the service, or a case that appears. While an execution of a deletion waits
  between its two writes, other callers may have done any atoms.
\<close>

inductive life_step :: "life_env \<Rightarrow> life_db \<Rightarrow> life_db \<Rightarrow> bool" for E where
  step_case: "life_step E s (add_case t d s)"
| step_request: "life_step E s (snd (request_deletion E i d reason key c s))"
| step_execute: "(\<And>s1. life_atoms E s1 (meanwhile s1)) \<Longrightarrow>
    life_step E s (snd (execute_deletion E meanwhile i rid c s))"
| step_place: "life_step E s (snd (place_legal_hold E i d reason c s))"
| step_release: "life_step E s (snd (release_legal_hold E i d c s))"

abbreviation life_steps :: "life_env \<Rightarrow> life_db \<Rightarrow> life_db \<Rightarrow> bool" where
  "life_steps E \<equiv> (life_step E)\<^sup>*\<^sup>*"

lemma life_step_atoms: "life_step E s s' \<Longrightarrow> life_inv E s \<Longrightarrow> life_atoms E s s'"
  by (induction rule: life_step.induct)
    (simp_all add: request_deletion_atoms execute_deletion_atoms place_hold_atoms release_hold_atoms
      r_into_rtranclp atom_case)

lemma life_steps_atoms: "life_steps E s s' \<Longrightarrow> life_inv E s \<Longrightarrow> life_atoms E s s'"
proof (induction rule: rtranclp_induct)
  case (step y z)
  with life_step_atoms life_atoms_inv show ?case by (meson rtranclp_trans)
qed simp

end
