(* ===== verification/LifecycleProperties.thy ===== *)
theory LifecycleProperties
  imports LifecycleOperations
begin

text \<open>
  The properties of deletion and legal hold, with their applications to a store with one
  case and its administrator.
\<close>

definition life_demo_env :: life_env where
  "life_demo_env = \<lparr>life_hmac = drop 4, life_sha = take 8, life_clock = (\<lambda>n. ''2026-01-01T00:00:00Z'')\<rparr>"

definition life_admin :: identity where
  "life_admin = \<lparr>actor_id = ''ada'', tenant = ''acme'', role = TENANT_ADMIN, kind = HUMAN,
     organization_id = None, groups = [], roles = [TENANT_ADMIN], client_id = None, scopes = []\<rparr>"

definition life_empty :: life_db where
  "life_empty = \<lparr>life_cases = [], life_requests = (\<lambda>_. None), life_idempotency = (\<lambda>_. None),
     life_holds = [], life_events = []\<rparr>"

definition life_demo1 :: life_db where
  "life_demo1 = add_case ''acme'' ''case-1'' life_empty"

definition life_demo2 :: life_db where
  "life_demo2 = snd (request_deletion life_demo_env life_admin ''case-1'' ''GDPR'' ''key-1'' ''c-1'' life_demo1)"

definition life_demo_id :: string where
  "life_demo_id = deletion_id life_demo_env ''acme'' (life_digest life_demo_env ''actor'' ''acme'' ''ada'')
     (life_digest life_demo_env ''idempotency'' ''acme'' ''key-1'')"

definition demo_hold :: "life_db \<Rightarrow> life_db" where
  "demo_hold s = snd (place_legal_hold life_demo_env life_admin ''case-1'' ''LITIGATION'' ''c-2'' s)"

lemma life_empty_inv: "life_inv E life_empty"
  by (simp add: life_inv_def life_empty_def)

lemma life_demo_steps: "life_steps life_demo_env life_empty life_demo2"
proof -
  have "life_step life_demo_env life_empty life_demo1"
    unfolding life_demo1_def by (rule step_case)
  moreover have "life_step life_demo_env life_demo1 life_demo2"
    unfolding life_demo2_def by (rule step_request)
  ultimately show ?thesis by (meson r_into_rtranclp rtranclp.rtrancl_into_rtrancl)
qed

lemma life_demo_inv: "life_inv life_demo_env life_demo2"
  using life_atoms_inv [OF life_steps_atoms [OF life_demo_steps life_empty_inv] life_empty_inv] .

section \<open>Holds\<close>

lemma persist_cases: "persist_transition r e x s = Inr (y, s') \<Longrightarrow>
    life_cases s' = life_cases s \<and> life_holds s' = life_holds s"
  by (auto simp: persist_transition_def monad_simps split: option.splits if_splits)

lemma record_cases:
  "life_cases (snd (record_request E n r ty i c x s)) = life_cases s \<and>
   life_holds (snd (record_request E n r ty i c x s)) = life_holds s"
  by (auto simp: record_request_def bind_action_def store_def dest: persist_cases split: sum.split)

lemma complete_held_case:
  "complete_deletion r e s = Inr (y, s') \<Longrightarrow> p \<in> set (life_cases s) \<Longrightarrow> p \<in> set (life_holds s) \<Longrightarrow>
     p \<in> set (life_cases s')"
  by (auto simp: complete_deletion_def monad_simps TenantContext_def active_hold_def
    split: option.splits if_splits)

lemma finish_held_case:
  "p \<in> set (life_cases s) \<Longrightarrow> p \<in> set (life_holds s) \<Longrightarrow> p \<in> set (life_cases (snd (finish_deletion E i c r s)))"
  by (auto simp: finish_deletion_def bind_action_def Let_def record_cases
    dest: complete_held_case split: sum.split exn.split)

text \<open>
  C17. A legal hold always wins: a case that is under hold when the deletion would remove it
  survives, even where the hold was placed by somebody else after the execution had checked
  for holds and had already marked the request as executing.
\<close>

theorem held_case_survives:
  assumes "(t, d) \<in> set (life_cases s)"
    and "\<And>s1. (t, d) \<in> set (life_cases s1) \<Longrightarrow>
      (t, d) \<in> set (life_cases (meanwhile s1)) \<and> (t, d) \<in> set (life_holds (meanwhile s1))"
  shows "(t, d) \<in> set (life_cases (snd (execute_deletion E meanwhile i rid c s)))"
proof -
  have "(t, d) \<in> set (life_cases (snd (finish_deletion E i c r (meanwhile s1))))" if "life_cases s1 = life_cases s" for r s1
    using assms(2) [of s1] that assms(1) by (intro finish_held_case) auto
  moreover have "life_cases s1 = life_cases s" if "record_request E n r ty i c x s = (y, s1)" for n r ty x y s1
    using record_cases [of E n r ty i c x s] that by simp
  ultimately show ?thesis
    using assms(1) by (auto simp: execute_deletion_def bind_action_def lift_result_def record_cases
      split: sum.split option.split prod.split)
qed

lemma demo_hold_holds:
  "(''acme'', ''case-1'') \<in> set (life_cases s) \<Longrightarrow>
     (''acme'', ''case-1'') \<in> set (life_cases (demo_hold s)) \<and> (''acme'', ''case-1'') \<in> set (life_holds (demo_hold s))"
  by (auto simp: demo_hold_def place_legal_hold_def bind_action_def lift_result_def store_def set_hold_def
    case_exists_def life_admin_def authorize_def hold_event_def)

theorem held_case_survives_witness:
  "(''acme'', ''case-1'') \<in>
     set (life_cases (snd (execute_deletion life_demo_env demo_hold life_admin life_demo_id ''c-3'' life_demo2))) \<and>
   get_request ''acme'' life_demo_id life_demo2 \<noteq> None"
proof
  have "(''acme'', ''case-1'') \<in> set (life_cases life_demo2)" by code_simp
  then show "(''acme'', ''case-1'') \<in>
     set (life_cases (snd (execute_deletion life_demo_env demo_hold life_admin life_demo_id ''c-3'' life_demo2)))"
    by (rule held_case_survives [OF _ demo_hold_holds])
  show "get_request ''acme'' life_demo_id life_demo2 \<noteq> None" by code_simp
qed

section \<open>Completed deletions\<close>

lemma record_moves:
  assumes "life_requests s (request_key r) = Some q" and "last_hash (tenant i) (dr_request_id r) s = Some (dr_event_hash q)"
  shows "record_request E n r ty i c (Some (dr_status q)) s =
    (let e = request_event E n r ty i c s in (Inr (with_event r e), store_request (with_event r e) e s))"
  using assms by (simp add: record_request_def bind_action_def store_def persist_transition_def Let_def)

text \<open>
  C18. A deletion that nothing stands in the way of is carried out in one call: the call
  succeeds, the case is gone and every other case is untouched, the request is COMPLETED with
  a completion time and no longer names the case, the log gains exactly the two events of the
  execution, and executing the request again returns it unchanged.
\<close>

theorem deletion_completes:
  assumes inv: "life_inv E s" and auth: "authorize i DATA_DELETE = Inr ()" and ten: "tenant_id_ok (tenant i)"
    and q: "get_request (tenant i) rid s = Some q" "dr_status q \<noteq> DELETION_COMPLETED" "dr_decision_id q = Some d"
    and free: "\<not> active_hold (tenant i) d s"
  shows "\<exists>r s'. execute_deletion E (\<lambda>s. s) i rid c s = (Inr r, s') \<and>
    life_cases s' = removeAll (tenant i, d) (life_cases s) \<and> life_holds s' = life_holds s \<and>
    get_request (tenant i) rid s' = Some r \<and> dr_status r = DELETION_COMPLETED \<and> dr_decision_id r = None \<and>
    dr_completed_at r = Some (life_clock E 1) \<and>
    map lv_event_type (log_of (tenant i) rid s') =
      map lv_event_type (log_of (tenant i) rid s) @ [''data.deletion-executing'', ''data.deletion-completed''] \<and>
    execute_deletion E (\<lambda>s. s) i rid c' s' = (Inr r, s')"
proof -
  have id: "dr_tenant_id q = tenant i" "dr_request_id q = rid" "request_key q = (tenant i, rid)"
    "last_hash (tenant i) rid s = Some (dr_event_hash q)"
    using inv q(1) unfolding life_inv_def get_request_def request_key_def by auto
  define q1 where "q1 = with_status q EXECUTING False None False"
  define e1 where "e1 = request_event E 0 q1 ''data.deletion-executing'' i c s"
  define s1 where "s1 = store_request (with_event q1 e1) e1 s"
  have 1: "record_request E 0 q1 ''data.deletion-executing'' i c (Some (dr_status q)) s = (Inr (with_event q1 e1), s1)"
    using q id by (simp add: record_moves q1_def get_request_def e1_def s1_def Let_def)
  define q2 where "q2 = with_status (with_event q1 e1) DELETION_COMPLETED False (Some (life_clock E 1)) True"
  define e2 where "e2 = request_event E 2 q2 ''data.deletion-completed'' i c s1"
  define r where "r = with_event q2 e2"
  define s2 where "s2 = s1\<lparr>life_requests := (life_requests s1)((tenant i, rid) \<mapsto> r),
    life_events := life_events s1 @ [e2], life_cases := removeAll (tenant i, d) (life_cases s1)\<rparr>"
  have e1: "lv_tenant_id e1 = tenant i" "lv_request_id e1 = rid" "lv_event_type e1 = ''data.deletion-executing''"
    by (simp_all add: e1_def q1_def id)
  have "last_hash (tenant i) rid s1 = Some (lv_event_hash e1)"
    using e1 by (subst last_hash_append [of _ s e1]) (simp_all add: s1_def)
  then have e2: "lv_tenant_id e2 = tenant i" "lv_request_id e2 = rid" "lv_event_type e2 = ''data.deletion-completed''"
    "lv_previous_event_hash e2 = Some (lv_event_hash e1)"
    by (simp_all add: e2_def q2_def q1_def id)
  have key: "request_key r = (tenant i, rid)" "request_key (with_event q1 e1) = (tenant i, rid)"
    by (simp_all add: r_def q2_def q1_def id)
  have 2: "complete_deletion r e2 s1 = Inr (r, s2)"
  proof -
    have "life_requests s1 (tenant i, rid) = Some (with_event q1 e1)"
      by (simp add: s1_def q1_def id)
    moreover have "dr_status (with_event q1 e1) = EXECUTING" "dr_decision_id (with_event q1 e1) = Some d"
      "dr_event_hash (with_event q1 e1) = lv_event_hash e1"
      using q by (simp_all add: q1_def) (simp add: with_event_def)
    moreover have "dr_tenant_id r = tenant i" by (simp add: r_def q2_def q1_def id)
    moreover have "\<not> active_hold (tenant i) d s1" using free by (simp add: active_hold_def s1_def)
    ultimately show ?thesis
      using ten e2(4) by (simp add: complete_deletion_def key s2_def TenantContext_def)
  qed
  have "finish_deletion E i c (with_event q1 e1) s1 = (Inr r, s2)"
    unfolding finish_deletion_def Let_def bind_action_def action_simps prod.case sum.case
      q2_def [symmetric] e2_def [symmetric] r_def [symmetric] 2 by simp
  then have ex: "execute_deletion E (\<lambda>s. s) i rid c s = (Inr r, s2)"
    using q auth free 1 by (simp add: execute_deletion_def bind_action_def flip: q1_def)
  have "get_request (tenant i) rid s2 = Some r" "dr_status r = DELETION_COMPLETED"
    by (simp_all add: get_request_def s2_def r_def q2_def)
  moreover from this have "execute_deletion E (\<lambda>s. s) i rid c' s2 = (Inr r, s2)"
    using auth by (simp add: execute_deletion_def bind_action_def)
  moreover have "map lv_event_type (log_of (tenant i) rid s2) =
      map lv_event_type (log_of (tenant i) rid s) @ [''data.deletion-executing'', ''data.deletion-completed'']"
    using e1 e2 by (simp add: log_of_def s2_def s1_def)
  ultimately show ?thesis using ex by (intro exI conjI) (simp_all add: s2_def s1_def r_def q2_def)
qed

definition life_demo_request :: deletion_request where
  "life_demo_request = (case get_request ''acme'' life_demo_id life_demo2 of Some r \<Rightarrow> r
     | None \<Rightarrow> \<lparr>dr_tenant_id = [], dr_request_id = [], dr_decision_id = None, dr_case_ref_hash = [], dr_actor_hash = [],
         dr_idempotency_key_hash = [], dr_status = DELETION_FAILED, dr_reason_code = [], dr_requested_at = [],
         dr_completed_at = None, dr_legal_hold_active = False, dr_event_hash = [], dr_previous_event_hash = None\<rparr>)"

lemma life_demo_request:
  "get_request (tenant life_admin) life_demo_id life_demo2 = Some life_demo_request"
  "dr_status life_demo_request \<noteq> DELETION_COMPLETED" "dr_decision_id life_demo_request = Some ''case-1''"
proof -
  have "get_request ''acme'' life_demo_id life_demo2 \<noteq> None" by code_simp
  then show "get_request (tenant life_admin) life_demo_id life_demo2 = Some life_demo_request"
    by (auto simp: life_demo_request_def life_admin_def)
  show "dr_status life_demo_request \<noteq> DELETION_COMPLETED" "dr_decision_id life_demo_request = Some ''case-1''"
    by code_simp+
qed

lemma life_admin_may: "authorize life_admin DATA_DELETE = Inr ()" "tenant_id_ok (tenant life_admin)"
  by code_simp+

theorem deletion_completes_witness:
  "\<exists>r s'. execute_deletion life_demo_env (\<lambda>s. s) life_admin life_demo_id ''c-2'' life_demo2 = (Inr r, s') \<and>
     life_cases s' = [] \<and> dr_status r = DELETION_COMPLETED"
proof -
  have "\<not> active_hold (tenant life_admin) ''case-1'' life_demo2" by code_simp
  from deletion_completes [OF life_demo_inv life_admin_may life_demo_request this, of "''c-2''" "''c-3''"]
  obtain r s' where "execute_deletion life_demo_env (\<lambda>s. s) life_admin life_demo_id ''c-2'' life_demo2 = (Inr r, s')"
    "life_cases s' = removeAll (tenant life_admin, ''case-1'') (life_cases life_demo2)"
    "dr_status r = DELETION_COMPLETED" by blast
  moreover have "removeAll (tenant life_admin, ''case-1'') (life_cases life_demo2) = []" by code_simp
  ultimately show ?thesis by simp
qed

section \<open>Repeated requests\<close>

lemma same_request_event: "same_request q (with_event r e) = same_request q r"
  by (simp add: same_request_def)

lemma record_new:
  "record_request E n r ty i c None s =
     (case life_requests s (request_key r) of
        Some q \<Rightarrow> (if same_request q r then Inr q else Inl (LifecycleTransitionConflict ''IDEMPOTENCY_KEY_REUSED''), s)
      | None \<Rightarrow>
          if last_hash (tenant i) (dr_request_id r) s = None
          then let e = request_event E n r ty i c s in (Inr (with_event r e), store_request (with_event r e) e s)
          else (Inl chain_conflict, s))"
  by (simp add: record_request_def bind_action_def store_def persist_transition_def ensure_def Let_def
    same_request_event split: option.split)

text \<open>
  A deletion request is idempotent: repeating the call with the same key returns the
  request recorded first and writes nothing, and the same key with another reason or for
  another case (one with another digest) is refused and writes nothing.
\<close>

theorem repeated_deletion_request:
  assumes "request_deletion E i d reason key c s = (Inr r, s')"
  shows "request_deletion E i d reason key c' s' = (Inr r, s') \<and>
    (reason' \<noteq> reason \<or> life_digest E ''case'' (tenant i) d' \<noteq> life_digest E ''case'' (tenant i) d \<longrightarrow>
      (\<exists>e. request_deletion E i d' reason' key c' s' = (Inl e, s')))"
proof -
  define a where "a = life_digest E ''actor'' (tenant i) (actor_id i)"
  define k where "k = life_digest E ''idempotency'' (tenant i) key"
  define new where "new d reason s = \<lparr>dr_tenant_id = tenant i, dr_request_id = deletion_id E (tenant i) a k,
     dr_decision_id = Some d, dr_case_ref_hash = life_digest E ''case'' (tenant i) d, dr_actor_hash = a,
     dr_idempotency_key_hash = k, dr_status = if active_hold (tenant i) d s then BLOCKED_BY_HOLD else REQUESTED,
     dr_reason_code = reason, dr_requested_at = life_clock E 0, dr_completed_at = None,
     dr_legal_hold_active = active_hold (tenant i) d s, dr_event_hash = [], dr_previous_event_hash = None\<rparr>"
    for d reason s
  from assms have auth: "authorize i DATA_DELETE = Inr ()"
    by (simp add: request_deletion_def bind_action_def split: sum.splits)
  have eq: "request_deletion E i d reason key c s =
      (case life_idempotency s (tenant i, a, k) of
         Some rid \<Rightarrow> (case life_requests s (tenant i, rid) of None \<Rightarrow> (Inl (KeyError rid), s)
           | Some r \<Rightarrow> if dr_case_ref_hash r \<noteq> life_digest E ''case'' (tenant i) d \<or> dr_reason_code r \<noteq> reason
               then (Inl (LifecycleConflict ''IDEMPOTENCY_KEY_REUSED''), s) else (Inr r, s))
       | None \<Rightarrow> if \<not> case_exists (tenant i) d s then (Inl (LifecycleConflict ''CASE_NOT_FOUND''), s)
           else record_request E 1 (new d reason s) ''data.deletion-requested'' i c None s)" for d reason c s
    using auth by (simp add: request_deletion_def bind_action_def Let_def get_by_idempotency_def new_def
      flip: a_def k_def split: option.split)
  have new: "request_key (new d reason s) = (tenant i, deletion_id E (tenant i) a k)"
    "dr_case_ref_hash (new d reason s) = life_digest E ''case'' (tenant i) d" "dr_reason_code (new d reason s) = reason"
    "dr_tenant_id (new d reason s) = tenant i" "dr_request_id (new d reason s) = deletion_id E (tenant i) a k"
    "dr_actor_hash (new d reason s) = a" "dr_idempotency_key_hash (new d reason s) = k" for d reason s
    by (simp_all add: new_def request_key_def)
  show ?thesis
  proof (cases "life_idempotency s (tenant i, a, k)")
    case (Some rid)
    with assms show ?thesis by (auto simp: eq split: option.splits if_splits)
  next
    case none: None
    show ?thesis
    proof (cases "life_requests s (tenant i, deletion_id E (tenant i) a k)")
      case (Some q)
      with assms none show ?thesis by (auto simp: eq record_new new same_request_def split: if_splits)
    next
      case None
      with assms none show ?thesis
        by (auto simp: eq record_new new store_request_def Let_def split: if_splits)
    qed
  qed
qed

theorem repeated_deletion_request_witness:
  "\<exists>r. request_deletion life_demo_env life_admin ''case-1'' ''GDPR'' ''key-1'' ''c-9'' life_demo2 = (Inr r, life_demo2) \<and>
     (\<exists>e. request_deletion life_demo_env life_admin ''case-1'' ''OTHER'' ''key-1'' ''c-9'' life_demo2 = (Inl e, life_demo2))"
proof -
  have "case fst (request_deletion life_demo_env life_admin ''case-1'' ''GDPR'' ''key-1'' ''c-1'' life_demo1) of
      Inl e \<Rightarrow> False | Inr r \<Rightarrow> True" by code_simp
  then obtain r where
    "request_deletion life_demo_env life_admin ''case-1'' ''GDPR'' ''key-1'' ''c-1'' life_demo1 = (Inr r, life_demo2)"
    unfolding life_demo2_def by (auto split: sum.splits simp: prod_eq_iff)
  from repeated_deletion_request [OF this, of "''c-9''" "''OTHER''" "''case-1''"] show ?thesis by auto
qed

section \<open>Histories\<close>

text \<open>
  C30. Whatever calls the service answers, in any order and with other calls interleaved
  into the executions, the store stays consistent, no deletion request is lost, changes its
  tenant, its id or the digest of its case, its status moves only along the table
  \<open>deletion_allowed\<close>, and a COMPLETED request is never touched again.
\<close>

theorem deletion_requests_keep_identity:
  assumes "life_inv E s" and "life_steps E s s'"
  shows "life_inv E s' \<and> (\<forall>t rid q. get_request t rid s = Some q \<longrightarrow> (\<exists>q'. get_request t rid s' = Some q' \<and>
    dr_tenant_id q' = dr_tenant_id q \<and> dr_request_id q' = dr_request_id q \<and>
    dr_case_ref_hash q' = dr_case_ref_hash q \<and>
    (\<lambda>a b. b \<in> set (deletion_allowed a))\<^sup>*\<^sup>* (dr_status q) (dr_status q') \<and>
    (dr_status q = DELETION_COMPLETED \<longrightarrow> q' = q)))"
proof -
  note a = life_steps_atoms [OF assms(2,1)]
  from life_atoms_inv [OF a assms(1)] life_atoms_request_kept [OF a assms(1)]
  show ?thesis unfolding get_request_def request_kept_def by blast
qed

theorem deletion_requests_keep_identity_witness:
  "life_inv life_demo_env (demo_hold life_demo2) \<and>
   (\<exists>q'. get_request ''acme'' life_demo_id (demo_hold life_demo2) = Some q' \<and>
      dr_case_ref_hash q' = dr_case_ref_hash life_demo_request)"
proof -
  have "life_steps life_demo_env life_demo2 (demo_hold life_demo2)"
    unfolding demo_hold_def by (intro r_into_rtranclp step_place)
  from deletion_requests_keep_identity [OF life_demo_inv this] life_demo_request(1)
  show ?thesis by (simp add: life_admin_def) metis
qed

text \<open>
  The log of every deletion request and of every hold is append-only and hash-linked:
  whatever calls the service answers from the empty store, each log is a chain in which every
  event carries the digest of the one before it and its own digest is that of its content, a
  later history only appends to it, and the last event of a request's log is the one the
  request records.
\<close>

theorem lifecycle_log_chained:
  assumes "life_steps E life_empty s" and "life_steps E s s'"
  shows "linked lv_event_hash lv_previous_event_hash (log_of t rid s) \<and>
    take (length (log_of t rid s)) (log_of t rid s') = log_of t rid s \<and>
    list_all (\<lambda>e. lv_event_hash e = payload_hash (life_sha E) (event_payload e)) (log_of t rid s) \<and>
    (case get_request t rid s of None \<Rightarrow> True
     | Some r \<Rightarrow> log_of t rid s \<noteq> [] \<and> lv_event_hash (last (log_of t rid s)) = dr_event_hash r)"
proof -
  note a = life_steps_atoms [OF assms(1) life_empty_inv]
  note inv = life_atoms_inv [OF a life_empty_inv]
  note b = life_steps_atoms [OF assms(2) inv]
  have "linked lv_event_hash lv_previous_event_hash (log_of t rid s)"
    using life_log.steps_linked [OF life_atoms_log_steps [OF a life_empty_inv]]
    by (simp add: log_of_def life_empty_def)
  moreover note life_log.steps_append_only [OF life_atoms_log_steps [OF b inv], of t rid]
  moreover have "list_all (\<lambda>e. lv_event_hash e = payload_hash (life_sha E) (event_payload e)) (log_of t rid s)"
    using inv by (simp add: life_inv_def log_of_def list_all_iff)
  moreover have "log_of t rid s \<noteq> [] \<and> lv_event_hash (last (log_of t rid s)) = dr_event_hash r"
    if "get_request t rid s = Some r" for r
    using that inv unfolding life_inv_def get_request_def last_hash_log head_hash_def by (metis option.discI option.inject)
  ultimately show ?thesis by (simp split: option.split)
qed

theorem lifecycle_log_chained_witness:
  "linked lv_event_hash lv_previous_event_hash (log_of ''acme'' life_demo_id life_demo2) \<and>
   length (log_of ''acme'' life_demo_id life_demo2) = 1"
proof
  show "linked lv_event_hash lv_previous_event_hash (log_of ''acme'' life_demo_id life_demo2)"
    using lifecycle_log_chained [OF life_demo_steps rtranclp.rtrancl_refl] by blast
  show "length (log_of ''acme'' life_demo_id life_demo2) = 1" by code_simp
qed

end
