(* ===== verification/Research.thy ===== *)
theory Research
  imports DecisionFile AuditLog Lifecycles Tables
begin

text \<open>
  Web research, its data and its state machine: \<^verbatim>\<open>web_research/contracts.py\<close>,
  \<^verbatim>\<open>lifecycle.py\<close>, \<^verbatim>\<open>audit.py\<close> and \<^verbatim>\<open>selection.py\<close>. A run is changed in
  place by the code; here every operation returns the changed run. Scores are in hundredths,
  durations in microseconds. Fields whose default no code changes (the artifact types of
  results, snapshots and evidence, the cost of one attempt) are left out.
\<close>

section \<open>contracts.py\<close>

datatype research_status = RS_CREATED | RS_SEARCHING | RS_SOURCES_DISCOVERED | RS_EXTRACTING
  | RS_EVIDENCE_COMPILED | RS_COMPLETED | RS_PARTIALLY_COMPLETED | RS_FAILED | RS_CANCELLED

fun research_status_value :: "research_status \<Rightarrow> string" where
  "research_status_value RS_CREATED = ''CREATED''"
| "research_status_value RS_SEARCHING = ''SEARCHING''"
| "research_status_value RS_SOURCES_DISCOVERED = ''SOURCES_DISCOVERED''"
| "research_status_value RS_EXTRACTING = ''EXTRACTING''"
| "research_status_value RS_EVIDENCE_COMPILED = ''EVIDENCE_COMPILED''"
| "research_status_value RS_COMPLETED = ''COMPLETED''"
| "research_status_value RS_PARTIALLY_COMPLETED = ''PARTIALLY_COMPLETED''"
| "research_status_value RS_FAILED = ''FAILED''"
| "research_status_value RS_CANCELLED = ''CANCELLED''"

record freshness_policy =
  maximum_age_days :: int
  prefer_recent :: bool

definition freshness_post_init :: "freshness_policy \<Rightarrow> unit result" where
  "freshness_post_init f =
     ensure (1 \<le> maximum_age_days f \<and> maximum_age_days f \<le> 3650) (ValueError ''INVALID_FRESHNESS_POLICY'')"

record research_request =
  rq_decision_file_id :: string
  rq_claim_refs :: "string list"
  rq_query :: string
  rq_locale :: string
  rq_preferred_languages :: "string list"
  rq_max_search_results :: int
  rq_max_sources_to_extract :: int
  rq_allowed_domains :: "string list"
  rq_blocked_domains :: "string list"
  rq_freshness :: freshness_policy
  rq_research_policy :: string
  rq_force_refresh :: bool
  rq_schema_version :: string

text \<open>The maximal runs of characters that satisfy a predicate, in order (\<open>cur\<close> is the run so far, reversed).\<close>

fun char_runs :: "(char \<Rightarrow> bool) \<Rightarrow> string \<Rightarrow> string \<Rightarrow> string list" where
  "char_runs p cur [] = (if cur = [] then [] else [rev cur])"
| "char_runs p cur (c # s) =
     (if p c then char_runs p (c # cur) s
      else if cur = [] then char_runs p [] s else rev cur # char_runs p [] s)"

definition py_split :: "string \<Rightarrow> string list" where
  "py_split s = char_runs (\<lambda>c. \<not> py_isspace c) [] s"

fun split_on :: "char \<Rightarrow> string \<Rightarrow> string list" where
  "split_on d [] = [[]]"
| "split_on d (c # s) =
     (if c = d then [] # split_on d s
      else case split_on d s of [] \<Rightarrow> [[c]] | w # ws \<Rightarrow> (c # w) # ws)"

definition is_alpha :: "char \<Rightarrow> bool" where
  "is_alpha c = (is_alnum c \<and> \<not> is_digit c)"

definition language_ok :: "string \<Rightarrow> bool" where
  "language_ok s = (case split_on (CHR ''-'') s of [] \<Rightarrow> False
     | p # ps \<Rightarrow> 2 \<le> length p \<and> length p \<le> 3 \<and> list_all is_alpha p \<and>
         list_all (\<lambda>q. 2 \<le> length q \<and> length q \<le> 8 \<and> list_all is_alnum q) ps)"

definition research_request_post_init :: "research_request \<Rightarrow> unit result" where
  "research_request_post_init r =
     bind_result (ensure (rq_schema_version r = ''0.4.0'') (ValueError ''UNSUPPORTED_RESEARCH_SCHEMA'')) (\<lambda>_.
     bind_result (ensure (id_fullmatch ''._:-'' 255 (rq_decision_file_id r)) (ValueError ''INVALID_DECISION_FILE_ID'')) (\<lambda>_.
     bind_result (ensure (rq_claim_refs r \<noteq> [] \<and> distinct (rq_claim_refs r)) (ValueError ''INVALID_CLAIM_REFS'')) (\<lambda>_.
     let query = py_strip (rq_query r) in
     bind_result (ensure (query \<noteq> []) (ValueError ''QUERY_REQUIRED'')) (\<lambda>_.
     bind_result (ensure (length query \<le> 400 \<and> length (py_split query) \<le> 50) (ValueError ''QUERY_TOO_LONG'')) (\<lambda>_.
     bind_result (ensure (language_ok (rq_locale r)) (ValueError ''INVALID_LOCALE'')) (\<lambda>_.
     bind_result (ensure (1 \<le> length (rq_preferred_languages r) \<and> length (rq_preferred_languages r) \<le> 5 \<and>
         list_all language_ok (rq_preferred_languages r)) (ValueError ''INVALID_PREFERRED_LANGUAGES'')) (\<lambda>_.
     bind_result (ensure (1 \<le> rq_max_search_results r \<and> rq_max_search_results r \<le> 20)
         (ValueError ''INVALID_SEARCH_LIMIT'')) (\<lambda>_.
     bind_result (ensure (1 \<le> rq_max_sources_to_extract r \<and>
         rq_max_sources_to_extract r \<le> min (rq_max_search_results r) 10)
         (ValueError ''INVALID_EXTRACTION_LIMIT'')) (\<lambda>_.
     bind_result (ensure (length (rq_allowed_domains r) \<le> 50 \<and> length (rq_blocked_domains r) \<le> 50)
         (ValueError ''TOO_MANY_DOMAIN_RULES'')) (\<lambda>_.
     ensure (rq_research_policy r \<in> {''standard'', ''high-assurance''})
         (ValueError ''INVALID_RESEARCH_POLICY'')))))))))))"

record search_query =
  sq_query :: string
  sq_locale :: string
  sq_preferred_languages :: "string list"
  sq_count :: int
  sq_freshness :: freshness_policy
  sq_allowed_domains :: "string list"
  sq_blocked_domains :: "string list"

record search_result =
  sr_url :: string
  sr_title :: string
  sr_snippet :: string
  sr_rank :: int
  sr_published_at :: "string option"
  sr_citation_kind :: string

record search_response =
  sp_provider_id :: string
  sp_provider_version :: string
  sp_searched_at :: string
  sp_results :: "search_result list"
  sp_summary :: string
  sp_provider_request_id :: "string option"

record source_candidate =
  sc_source_id :: string
  sc_original_url :: string
  sc_canonical_url :: string
  sc_domain :: string
  sc_title :: string
  sc_snippet :: string
  sc_rank :: int
  sc_searched_at :: string
  sc_search_provider :: string
  sc_search_provider_version :: string
  sc_published_at :: "string option"
  sc_status :: string
  sc_reason_codes :: "string list"
  sc_citation_kind :: string
  sc_artifact_type :: string

record extraction_request =
  xr_source_id :: string
  xr_url :: string
  xr_locale :: string
  xr_max_content_bytes :: int
  xr_cache_ttl_seconds :: int

record extracted_content =
  xc_markdown :: string
  xc_title :: string
  xc_canonical_url :: string
  xc_retrieved_at :: string
  xc_mime_type :: string
  xc_http_status :: int
  xc_language :: string
  xc_content_provider :: string
  xc_content_provider_version :: string
  xc_provider_request_id :: "string option"

record provider_error =
  pe_provider_id :: string
  pe_reason_code :: string
  pe_retryable :: bool
  pe_status_code :: "int option"
  pe_retry_after :: "int option"

record research_error =
  re_reason_code :: string
  re_provider :: "provider_error option"
  re_source_id :: "string option"

text \<open>\<^verbatim>\<open>ExtractionResponse\<close>: its \<^verbatim>\<open>__post_init__\<close> allows exactly one of content and error.\<close>

datatype extraction_response = Extracted extracted_content | Extraction_failed provider_error

record content_risk =
  prompt_injection_suspected :: bool
  risk_reasons :: "string list"
  secret_redacted :: bool
  active_content_removed :: bool

record source_snapshot =
  ss_snapshot_id :: string
  ss_source_id :: string
  ss_original_url :: string
  ss_canonical_url :: string
  ss_domain :: string
  ss_title :: string
  ss_retrieved_at :: string
  ss_expires_at :: string
  ss_content_hash :: string
  ss_http_status :: int
  ss_mime_type :: string
  ss_format :: string
  ss_text :: string
  ss_language :: string
  ss_content_provider :: string
  ss_content_provider_version :: string
  ss_risk :: content_risk

record provenance =
  pv_search_result_rank :: int
  pv_search_query :: string
  pv_search_provider :: string
  pv_search_provider_version :: string
  pv_content_provider :: string
  pv_content_provider_version :: string
  pv_policy_version :: string

record evidence_assessment =
  ea_freshness_status :: string
  ea_source_type :: string
  ea_authority_score :: int
  ea_relevance_score :: int
  ea_conflict_status :: string
  ea_usable_for_decision :: bool
  ea_requires_human_review :: bool
  ea_reason_codes :: "string list"

record evidence_candidate =
  ec_evidence_id :: string
  ec_tenant_id :: string
  ec_research_run_id :: string
  ec_decision_file_id :: string
  ec_claim_refs :: "string list"
  ec_source_id :: string
  ec_snapshot_id :: string
  ec_content_hash :: string
  ec_assessment :: evidence_assessment
  ec_provenance :: provenance
  ec_risk :: content_risk

record research_attempt =
  at_attempt_id :: string
  at_provider_id :: string
  at_operation :: string
  at_status :: string
  at_occurred_at :: string
  at_source_id :: "string option"
  at_reason_code :: "string option"

record research_event =
  rv_event_id :: string
  rv_event_type :: string
  rv_occurred_at :: string
  rv_tenant_id :: string
  rv_actor_id :: string
  rv_from_status :: research_status
  rv_to_status :: research_status
  rv_reason_codes :: "string list"
  rv_correlation_id :: string
  rv_payload_hash :: string
  rv_previous_event_hash :: "string option"
  rv_schema_version :: string
  rv_decision :: "string option"
  rv_operating_profile :: "string option"
  rv_policy_version :: "string option"
  rv_provider :: "string option"
  rv_connector :: "string option"
  rv_target_host :: "string option"
  rv_requested_processing_location :: "string option"
  rv_evidence_id :: "string option"
  rv_evidence_status :: "string option"

record research_run =
  run_id :: string
  run_tenant_id :: string
  run_actor_id :: string
  run_request :: research_request
  run_expected_document_hash :: string
  run_fingerprint :: string
  run_status :: research_status
  run_created_at :: string
  run_updated_at :: string
  run_correlation_id :: string
  run_sources :: "source_candidate list"
  run_snapshots :: "source_snapshot list"
  run_evidence :: "evidence_candidate list"
  run_attempts :: "research_attempt list"
  run_errors :: "research_error list"
  run_audit_events :: "research_event list"
  run_cost_units :: int
  run_compiled_decision_file_id :: "string option"
  run_search_summary :: "string option"
  run_search_request_id :: "string option"

record decision_evidence =
  de_evidence_id :: string
  de_research_run_id :: string
  de_claim_refs :: "string list"
  de_source_ref :: string
  de_status :: evidence_status
  de_observed_at :: string
  de_content_hash :: string
  de_correlation_id :: "string option"

section \<open>lifecycle.py\<close>

fun research_allowed :: "research_status \<Rightarrow> research_status list" where
  "research_allowed RS_CREATED = [RS_SEARCHING]"
| "research_allowed RS_SEARCHING = [RS_SOURCES_DISCOVERED, RS_FAILED]"
| "research_allowed RS_SOURCES_DISCOVERED = [RS_EXTRACTING, RS_FAILED]"
| "research_allowed RS_EXTRACTING = [RS_EVIDENCE_COMPILED, RS_FAILED, RS_PARTIALLY_COMPLETED]"
| "research_allowed RS_EVIDENCE_COMPILED = [RS_COMPLETED, RS_FAILED, RS_PARTIALLY_COMPLETED]"
| "research_allowed _ = []"

fun research_retry :: "research_status \<Rightarrow> research_status list" where
  "research_retry RS_FAILED = [RS_SEARCHING, RS_EXTRACTING]"
| "research_retry RS_PARTIALLY_COMPLETED = [RS_EXTRACTING]"
| "research_retry _ = []"

definition research_cancellable :: "research_status list" where
  "research_cancellable = [RS_CREATED, RS_SEARCHING, RS_SOURCES_DISCOVERED, RS_EXTRACTING,
     RS_EVIDENCE_COMPILED, RS_FAILED, RS_PARTIALLY_COMPLETED]"

definition research_transition ::
  "bool \<Rightarrow> research_status \<Rightarrow> research_status \<Rightarrow> research_status result" where
  "research_transition retry source target =
     (if target = RS_CANCELLED \<and> source \<in> set research_cancellable then Inr target
      else if target \<in> set (research_retry source) then
        bind_result (ensure retry (ResearchTransitionRejected ''RETRY_REQUIRED'')) (\<lambda>_. Inr target)
      else bind_result (ensure (target \<in> set (research_allowed source))
        (ResearchTransitionRejected ''RESEARCH_TRANSITION_NOT_ALLOWED'')) (\<lambda>_. Inr target))"

section \<open>audit.py\<close>

definition research_event_json :: "research_event \<Rightarrow> json" where
  "research_event_json e = JObj [
     (''event_id'', JStr (rv_event_id e)), (''event_type'', JStr (rv_event_type e)),
     (''occurred_at'', JStr (rv_occurred_at e)), (''tenant_id'', JStr (rv_tenant_id e)),
     (''actor_id'', JStr (rv_actor_id e)),
     (''from_status'', JStr (research_status_value (rv_from_status e))),
     (''to_status'', JStr (research_status_value (rv_to_status e))),
     (''reason_codes'', jstrs (rv_reason_codes e)), (''correlation_id'', JStr (rv_correlation_id e)),
     (''payload_hash'', JStr (rv_payload_hash e)),
     (''previous_event_hash'', json_opt (rv_previous_event_hash e)),
     (''schema_version'', JStr (rv_schema_version e)), (''decision'', json_opt (rv_decision e)),
     (''operating_profile'', json_opt (rv_operating_profile e)),
     (''policy_version'', json_opt (rv_policy_version e)), (''provider'', json_opt (rv_provider e)),
     (''connector'', json_opt (rv_connector e)), (''target_host'', json_opt (rv_target_host e)),
     (''requested_processing_location'', json_opt (rv_requested_processing_location e)),
     (''evidence_id'', json_opt (rv_evidence_id e)),
     (''evidence_status'', json_opt (rv_evidence_status e))]"

definition research_event_hash :: "digest \<Rightarrow> research_event \<Rightarrow> string" where
  "research_event_hash sha e = payload_hash sha (research_event_json e)"

definition research_previous :: "digest \<Rightarrow> research_run \<Rightarrow> string option" where
  "research_previous sha run = map_option (research_event_hash sha) (last_opt (run_audit_events run))"

definition append_event :: "research_event \<Rightarrow> research_run \<Rightarrow> research_run" where
  "append_event e run = run\<lparr>run_audit_events := run_audit_events run @ [e]\<rparr>"

definition transition_research_event ::
  "digest \<Rightarrow> research_status \<Rightarrow> string \<Rightarrow> string \<Rightarrow> string list \<Rightarrow> json \<Rightarrow> research_run \<Rightarrow> research_event" where
  "transition_research_event sha target at actor reasons payload run =
     \<lparr>rv_event_id = run_id run @ '':research-audit:'' @ str_nat (length (run_audit_events run) + 1),
      rv_event_type = ''research.status-transitioned'', rv_occurred_at = at,
      rv_tenant_id = run_tenant_id run, rv_actor_id = actor, rv_from_status = run_status run,
      rv_to_status = target, rv_reason_codes = reasons, rv_correlation_id = run_correlation_id run,
      rv_payload_hash = payload_hash sha payload, rv_previous_event_hash = research_previous sha run,
      rv_schema_version = ''research-audit-v1'', rv_decision = None, rv_operating_profile = None,
      rv_policy_version = None, rv_provider = None, rv_connector = None, rv_target_host = None,
      rv_requested_processing_location = None, rv_evidence_id = None, rv_evidence_status = None\<rparr>"

definition apply_transition ::
  "digest \<Rightarrow> bool \<Rightarrow> research_status \<Rightarrow> string \<Rightarrow> string \<Rightarrow> string list \<Rightarrow> json \<Rightarrow> research_run \<Rightarrow> research_run result" where
  "apply_transition sha retry target at actor reasons payload run =
     bind_result (research_transition retry (run_status run) target) (\<lambda>_.
     Inr (append_event (transition_research_event sha target at actor reasons payload run)
       (run\<lparr>run_status := target, run_updated_at := at\<rparr>)))"

record egress_decision =
  ed_decision :: string
  ed_occurred_at :: string
  ed_tenant_id :: string
  ed_actor_id :: string
  ed_correlation_id :: string
  ed_operating_profile :: string
  ed_policy_version :: string
  ed_provider :: string
  ed_connector :: string
  ed_target_host :: string
  ed_requested_processing_location :: "string option"
  ed_evidence_id :: "string option"
  ed_evidence_status :: "string option"
  ed_reason_code :: string

definition egress_event :: "digest \<Rightarrow> egress_decision \<Rightarrow> research_run \<Rightarrow> research_event" where
  "egress_event sha d run =
     \<lparr>rv_event_id = run_id run @ '':egress:'' @ str_nat (length (run_audit_events run) + 1),
      rv_event_type = ''research.egress-decision'', rv_occurred_at = ed_occurred_at d,
      rv_tenant_id = ed_tenant_id d, rv_actor_id = ed_actor_id d, rv_from_status = run_status run,
      rv_to_status = run_status run, rv_reason_codes = [ed_reason_code d],
      rv_correlation_id = ed_correlation_id d,
      rv_payload_hash = payload_hash sha (JObj [
        (''decision'', JStr (ed_decision d)), (''tenant_id'', JStr (ed_tenant_id d)),
        (''provider'', JStr (ed_provider d)), (''connector'', JStr (ed_connector d)),
        (''target_host'', JStr (ed_target_host d)),
        (''requested_processing_location'', json_opt (ed_requested_processing_location d)),
        (''evidence_id'', json_opt (ed_evidence_id d)),
        (''evidence_status'', json_opt (ed_evidence_status d)),
        (''reason_code'', JStr (ed_reason_code d))]),
      rv_previous_event_hash = research_previous sha run,
      rv_schema_version = ''research-egress-decision-v1'', rv_decision = Some (ed_decision d),
      rv_operating_profile = Some (ed_operating_profile d), rv_policy_version = Some (ed_policy_version d),
      rv_provider = Some (ed_provider d), rv_connector = Some (ed_connector d),
      rv_target_host = Some (ed_target_host d),
      rv_requested_processing_location = ed_requested_processing_location d,
      rv_evidence_id = ed_evidence_id d, rv_evidence_status = ed_evidence_status d\<rparr>"

definition append_egress_decision :: "digest \<Rightarrow> egress_decision \<Rightarrow> research_run \<Rightarrow> research_run" where
  "append_egress_decision sha d run = append_event (egress_event sha d run) run"

section \<open>selection.py\<close>

definition select_sources :: "source_candidate list \<Rightarrow> int \<Rightarrow> string list \<Rightarrow> source_candidate list" where
  "select_sources sources limit statuses =
     take (nat limit) (sort_key (\<lambda>s. (sc_rank s, sc_source_id s))
       (filter (\<lambda>s. sc_status s \<in> set statuses) sources))"

section \<open>Lemmas\<close>

lemma research_transition_iff:
  "research_transition retry a b = Inr c \<longleftrightarrow> c = b \<and>
     (b = RS_CANCELLED \<and> a \<in> set research_cancellable \<or> retry \<and> b \<in> set (research_retry a) \<or>
      b \<in> set (research_allowed a))"
  by (cases a; cases b; cases retry) (auto simp: research_transition_def research_cancellable_def monad_simps)

definition research_moves :: "research_status \<Rightarrow> research_status list" where
  "research_moves a = research_allowed a @ research_retry a @
     (if a \<in> set research_cancellable then [RS_CANCELLED] else [])"

interpretation research: lifecycle research_moves "research_transition True"
  by unfold_locales (auto simp: research_transition_iff research_moves_def)

lemma apply_transition_Inr_iff [monad_simps]:
  "apply_transition sha retry target at actor reasons payload run = Inr run' \<longleftrightarrow>
     research_transition retry (run_status run) target = Inr target \<and>
     run' = append_event (transition_research_event sha target at actor reasons payload run)
       (run\<lparr>run_status := target, run_updated_at := at\<rparr>)"
  by (auto simp: apply_transition_def monad_simps research_transition_iff)

lemma append_event_fields [simp]:
  "run_audit_events (append_event e run) = run_audit_events run @ [e]"
  "run_status (append_event e run) = run_status run" "run_id (append_event e run) = run_id run"
  "run_tenant_id (append_event e run) = run_tenant_id run"
  "run_attempts (append_event e run) = run_attempts run"
  "run_sources (append_event e run) = run_sources run" "run_evidence (append_event e run) = run_evidence run"
  "run_snapshots (append_event e run) = run_snapshots run" "run_errors (append_event e run) = run_errors run"
  "run_request (append_event e run) = run_request run"
  "run_cost_units (append_event e run) = run_cost_units run"
  by (simp_all add: append_event_def)

lemma research_previous_head:
  "research_previous sha run = head_hash (research_event_hash sha) None (run_audit_events run)"
  by (simp add: research_previous_def last_opt_def head_hash_def)

end
