(* ===== verification/ResearchRepository.thy ===== *)
theory ResearchRepository
  imports Research
begin

text \<open>
  The store of research runs, \<^verbatim>\<open>web_research/repository.py\<close>, with the keys, the unique
  constraints and the foreign keys of \<^verbatim>\<open>migrations/003_web_research_v0_4.sql\<close>. A method is
  one transaction. A run is stored as its JSON text, which the codec reads back; the model
  stores the run. A row of a table below a run is a pair of the run's key and the row.
\<close>

section \<open>Tables\<close>

type_synonym run_key = "string \<times> string"

record snapshot_row =
  sn_source_id :: string
  sn_url :: string
  sn_hash :: string
  sn_expires_at :: string
  sn_snapshot :: source_snapshot

record research_idempotency_row =
  ri_tenant :: string
  ri_actor_id :: string
  ri_operation :: string
  ri_key :: string
  ri_request_hash :: string
  ri_status_code :: int
  ri_response :: json

record research_repo =
  rp_runs :: "research_run list"
  rp_sources :: "(run_key \<times> source_candidate) list"
  rp_snapshots :: "(run_key \<times> string \<times> snapshot_row) list"
  rp_evidence :: "(run_key \<times> evidence_candidate) list"
  rp_attempts :: "(run_key \<times> research_attempt) list"
  rp_events :: "(run_key \<times> int \<times> research_event) list"
  rp_budget :: "(run_key \<times> int) list"
  rp_idempotency :: "research_idempotency_row list"

definition run_key_of :: "research_run \<Rightarrow> run_key" where
  "run_key_of run = (run_tenant_id run, run_id run)"

section \<open>SqliteResearchRepository\<close>

definition assert_tenant :: "string \<Rightarrow> research_run \<Rightarrow> unit result" where
  "assert_tenant t run = ensure (t = run_tenant_id run) (ValueError ''TENANT_MISMATCH'')"

definition research_get :: "string \<Rightarrow> string \<Rightarrow> research_repo \<Rightarrow> research_run option" where
  "research_get t rid db = row_find run_key_of (t, rid) (rp_runs db)"

definition create_or_get ::
  "string \<Rightarrow> research_run \<Rightarrow> research_repo \<Rightarrow> (research_run \<times> research_repo) result" where
  "create_or_get t run db =
     bind_result (assert_tenant t run) (\<lambda>_.
     case List.find (\<lambda>r. run_tenant_id r = t \<and> run_fingerprint r = run_fingerprint run) (rp_runs db) of
       Some r \<Rightarrow> Inr (r, db)
     | None \<Rightarrow>
         (case List.find (\<lambda>r. run_tenant_id r = t \<and>
               rq_decision_file_id (run_request r) = rq_decision_file_id (run_request run) \<and>
               run_request r = run_request run \<and>
               run_expected_document_hash r = run_expected_document_hash run) (rp_runs db) of
            Some r \<Rightarrow> Inr (r, db)
          | None \<Rightarrow>
              bind_result (row_insert run_key_of run (rp_runs db)) (\<lambda>rows.
              bind_result (row_insert fst (run_key_of run, 0) (rp_budget db)) (\<lambda>budget.
              Inr (run, db\<lparr>rp_runs := rows, rp_budget := budget\<rparr>)))))"

definition save_source :: "run_key \<Rightarrow> source_candidate \<Rightarrow> research_repo \<Rightarrow> research_repo" where
  "save_source k s db =
     db\<lparr>rp_sources := row_upsert (\<lambda>r. (fst r, sc_source_id (snd r))) (k, s) (rp_sources db)\<rparr>"

definition save_snapshot :: "run_key \<Rightarrow> source_snapshot \<Rightarrow> research_repo \<Rightarrow> research_repo result" where
  "save_snapshot k s db =
     (let rows = rp_snapshots db; id = ss_snapshot_id s in
      if \<exists>r \<in> set rows. fst r = k \<and> sn_hash (snd (snd r)) = ss_content_hash s \<and> fst (snd r) \<noteq> id
      then Inl IntegrityError
      else if (k, id) \<in> (\<lambda>r. (fst r, fst (snd r))) ` set rows
      then Inr (db\<lparr>rp_snapshots := row_update (\<lambda>r. (fst r, fst (snd r))) (k, id)
        (\<lambda>r. (k, id, (snd (snd r))\<lparr>sn_snapshot := s, sn_expires_at := ss_expires_at s\<rparr>)) rows\<rparr>)
      else bind_result (ensure ((k, ss_source_id s) \<in> (\<lambda>r. (fst r, sc_source_id (snd r))) ` set (rp_sources db))
          IntegrityError) (\<lambda>_.
        Inr (db\<lparr>rp_snapshots := rows @ [(k, id, \<lparr>sn_source_id = ss_source_id s, sn_url = ss_canonical_url s,
          sn_hash = ss_content_hash s, sn_expires_at = ss_expires_at s, sn_snapshot = s\<rparr>)]\<rparr>)))"

definition save_evidence :: "run_key \<Rightarrow> evidence_candidate \<Rightarrow> research_repo \<Rightarrow> research_repo result" where
  "save_evidence k e db =
     (let rows = rp_evidence db; id = ec_evidence_id e in
      if \<exists>r \<in> set rows. fst r = k \<and> ec_content_hash (snd r) = ec_content_hash e \<and> ec_evidence_id (snd r) \<noteq> id
      then Inl IntegrityError
      else if (k, id) \<in> (\<lambda>r. (fst r, ec_evidence_id (snd r))) ` set rows
      then Inr (db\<lparr>rp_evidence := row_update (\<lambda>r. (fst r, ec_evidence_id (snd r))) (k, id) (\<lambda>_. (k, e)) rows\<rparr>)
      else bind_result (ensure ((k, ec_source_id e) \<in> (\<lambda>r. (fst r, sc_source_id (snd r))) ` set (rp_sources db) \<and>
          (k, ec_snapshot_id e) \<in> (\<lambda>r. (fst r, fst (snd r))) ` set (rp_snapshots db)) IntegrityError) (\<lambda>_.
        Inr (db\<lparr>rp_evidence := rows @ [(k, e)]\<rparr>)))"

text \<open>An attempt that is already stored is left as it is.\<close>

definition save_attempt :: "run_key \<Rightarrow> research_attempt \<Rightarrow> research_repo \<Rightarrow> research_repo" where
  "save_attempt k a db =
     (if (k, at_attempt_id a) \<in> (\<lambda>r. (fst r, at_attempt_id (snd r))) ` set (rp_attempts db) then db
      else db\<lparr>rp_attempts := rp_attempts db @ [(k, a)]\<rparr>)"

text \<open>
  The statement ignores a conflict on the event id only: a sequence number that is already
  taken violates the unique constraint.
\<close>

definition save_event :: "run_key \<Rightarrow> int \<Rightarrow> research_event \<Rightarrow> research_repo \<Rightarrow> research_repo result" where
  "save_event k n e db =
     (case List.find (\<lambda>(j, _, x). j = k \<and> rv_event_id x = rv_event_id e) (rp_events db) of
        Some (_, _, x) \<Rightarrow>
          bind_result (ensure (research_event_json x = research_event_json e) (ValueError ''AUDIT_EVENT_CONFLICT'')) (\<lambda>_.
          Inr db)
      | None \<Rightarrow>
          bind_result (ensure ((k, n) \<notin> (\<lambda>(j, m, _). (j, m)) ` set (rp_events db)) IntegrityError) (\<lambda>_.
          Inr (db\<lparr>rp_events := rp_events db @ [(k, n, e)]\<rparr>)))"

fun fold_result :: "('a \<Rightarrow> 's \<Rightarrow> 's result) \<Rightarrow> 'a list \<Rightarrow> 's \<Rightarrow> 's result" where
  "fold_result f [] s = Inr s"
| "fold_result f (x # xs) s = bind_result (f x s) (fold_result f xs)"

definition save_run_row :: "run_key \<Rightarrow> research_run \<Rightarrow> research_repo \<Rightarrow> research_repo result" where
  "save_run_row k run db =
     bind_result (ensure (k \<in> run_key_of ` set (rp_runs db)) (KeyError ''RESEARCH_RUN_NOT_FOUND'')) (\<lambda>_.
     Inr (db\<lparr>rp_runs := row_update run_key_of k (\<lambda>_. run) (rp_runs db)\<rparr>))"

definition research_save :: "string \<Rightarrow> research_run \<Rightarrow> research_repo \<Rightarrow> research_repo result" where
  "research_save t run db =
     bind_result (assert_tenant t run) (\<lambda>_.
     let k = (t, run_id run) in
     bind_result (save_run_row k run db) (\<lambda>db1.
     let db2 = fold (save_source k) (run_sources run) db1 in
     bind_result (fold_result (save_snapshot k) (run_snapshots run) db2) (\<lambda>db3.
     bind_result (fold_result (save_evidence k) (run_evidence run) db3) (\<lambda>db4.
     let db5 = fold (save_attempt k) (run_attempts run) db4 in
     fold_result (\<lambda>(n, e). save_event k n e)
       (zip (map (\<lambda>i. int i + 1) [0..<length (run_audit_events run)]) (run_audit_events run)) db5))))"

definition list_research_audit :: "string \<Rightarrow> string \<Rightarrow> research_repo \<Rightarrow> research_event list" where
  "list_research_audit t rid db =
     map (\<lambda>r. snd (snd r)) (sort_key (\<lambda>r. fst (snd r)) (filter (\<lambda>r. fst r = (t, rid)) (rp_events db)))"

definition page_ok :: "int \<Rightarrow> int \<Rightarrow> unit result" where
  "page_ok limit offset = ensure (1 \<le> limit \<and> limit \<le> 100 \<and> 0 \<le> offset) (ValueError ''INVALID_PAGE_LIMIT'')"

definition list_research_sources ::
  "string \<Rightarrow> string \<Rightarrow> int \<Rightarrow> int \<Rightarrow> research_repo \<Rightarrow> source_candidate list result" where
  "list_research_sources t rid limit offset db =
     bind_result (page_ok limit offset) (\<lambda>_.
     Inr (sql_page (nat limit) (nat offset) (sort_key sc_source_id
       (map snd (filter (\<lambda>r. fst r = (t, rid)) (rp_sources db))))))"

definition list_research_evidence ::
  "string \<Rightarrow> string \<Rightarrow> int \<Rightarrow> int \<Rightarrow> research_repo \<Rightarrow> evidence_candidate list result" where
  "list_research_evidence t rid limit offset db =
     bind_result (page_ok limit offset) (\<lambda>_.
     Inr (sql_page (nat limit) (nat offset) (sort_key ec_evidence_id
       (map snd (filter (\<lambda>r. fst r = (t, rid)) (rp_evidence db))))))"

text \<open>Of several cached snapshots with the same latest expiry SQL may return any; here the newest row.\<close>

definition get_snapshot :: "string \<Rightarrow> string \<Rightarrow> string \<Rightarrow> research_repo \<Rightarrow> source_snapshot option" where
  "get_snapshot t url current db =
     map_option sn_snapshot (last_opt (sort_key sn_expires_at (map (\<lambda>r. snd (snd r))
       (filter (\<lambda>r. fst (fst r) = t \<and> sn_url (snd (snd r)) = url \<and> sn_expires_at (snd (snd r)) > current)
         (rp_snapshots db)))))"

definition reserve_budget ::
  "string \<Rightarrow> string \<Rightarrow> int \<Rightarrow> research_repo \<Rightarrow> (int \<times> research_repo) result" where
  "reserve_budget t rid limit db =
     (case row_find fst (t, rid) (rp_budget db) of
        None \<Rightarrow> Inl (KeyError ''RESEARCH_RUN_NOT_FOUND'')
      | Some (_, used) \<Rightarrow>
          bind_result (ensure (used < limit) (ValueError ''BUDGET_EXCEEDED'')) (\<lambda>_.
          Inr (used + 1, db\<lparr>rp_budget := row_update fst (t, rid) (\<lambda>(k, u). (k, used + 1)) (rp_budget db)\<rparr>)))"

abbreviation research_idempotency_key :: "research_idempotency_row \<Rightarrow> string \<times> string \<times> string \<times> string" where
  "research_idempotency_key r \<equiv> (ri_tenant r, ri_actor_id r, ri_operation r, ri_key r)"

definition IN_PROGRESS_STATUS :: int where "IN_PROGRESS_STATUS = 102"

definition in_progress_response :: json where
  "in_progress_response = JObj [(''state'', JStr ''IN_PROGRESS'')]"

definition store_research_idempotency ::
  "string \<Rightarrow> string \<Rightarrow> string \<Rightarrow> string \<Rightarrow> string \<Rightarrow> int \<Rightarrow> json \<Rightarrow> research_repo \<Rightarrow> research_repo result" where
  "store_research_idempotency t actor operation key hash status response db =
     bind_result (row_insert research_idempotency_key \<lparr>ri_tenant = t, ri_actor_id = actor, ri_operation = operation,
       ri_key = key, ri_request_hash = hash, ri_status_code = status, ri_response = response\<rparr> (rp_idempotency db)) (\<lambda>rows.
     Inr (db\<lparr>rp_idempotency := rows\<rparr>))"

definition reserve_research_idempotency ::
  "string \<Rightarrow> string \<Rightarrow> string \<Rightarrow> string \<Rightarrow> string \<Rightarrow> research_repo \<Rightarrow> ((int \<times> json) option \<times> research_repo) result" where
  "reserve_research_idempotency t actor operation key hash db =
     (case row_find research_idempotency_key (t, actor, operation, key) (rp_idempotency db) of
        None \<Rightarrow> Inr (None, db\<lparr>rp_idempotency := rp_idempotency db @ [\<lparr>ri_tenant = t, ri_actor_id = actor,
          ri_operation = operation, ri_key = key, ri_request_hash = hash, ri_status_code = IN_PROGRESS_STATUS,
          ri_response = in_progress_response\<rparr>]\<rparr>)
      | Some r \<Rightarrow>
          bind_result (ensure (ri_request_hash r = hash) (IdempotencyConflict ''IDEMPOTENCY_KEY_REUSED'')) (\<lambda>_.
          bind_result (ensure (ri_status_code r \<noteq> IN_PROGRESS_STATUS)
            (RuntimeError ''IDEMPOTENCY_REQUEST_IN_PROGRESS'')) (\<lambda>_.
          Inr (Some (ri_status_code r, ri_response r), db))))"

definition pending_row :: "string \<Rightarrow> string \<Rightarrow> string \<Rightarrow> string \<Rightarrow> string \<Rightarrow> research_idempotency_row \<Rightarrow> bool" where
  "pending_row t actor operation key hash r =
     (research_idempotency_key r = (t, actor, operation, key) \<and> ri_request_hash r = hash \<and>
      ri_status_code r = IN_PROGRESS_STATUS)"

definition complete_research_idempotency ::
  "string \<Rightarrow> string \<Rightarrow> string \<Rightarrow> string \<Rightarrow> string \<Rightarrow> int \<Rightarrow> json \<Rightarrow> research_repo \<Rightarrow> research_repo result" where
  "complete_research_idempotency t actor operation key hash status response db =
     bind_result (ensure (length (filter (pending_row t actor operation key hash) (rp_idempotency db)) = 1)
       (RuntimeError ''IDEMPOTENCY_COMPLETION_FAILED'')) (\<lambda>_.
     Inr (db\<lparr>rp_idempotency := map (\<lambda>r. if pending_row t actor operation key hash r
       then r\<lparr>ri_status_code := status, ri_response := response\<rparr> else r) (rp_idempotency db)\<rparr>))"

definition release_research_idempotency ::
  "string \<Rightarrow> string \<Rightarrow> string \<Rightarrow> string \<Rightarrow> string \<Rightarrow> research_repo \<Rightarrow> research_repo" where
  "release_research_idempotency t actor operation key hash db =
     db\<lparr>rp_idempotency := filter (\<lambda>r. \<not> pending_row t actor operation key hash r) (rp_idempotency db)\<rparr>"

definition get_research_idempotency ::
  "string \<Rightarrow> string \<Rightarrow> string \<Rightarrow> string \<Rightarrow> string \<Rightarrow> research_repo \<Rightarrow> (int \<times> json) option result" where
  "get_research_idempotency t actor operation key hash db =
     (case row_find research_idempotency_key (t, actor, operation, key) (rp_idempotency db) of
        None \<Rightarrow> Inr None
      | Some r \<Rightarrow>
          bind_result (ensure (ri_request_hash r = hash) (IdempotencyConflict ''IDEMPOTENCY_KEY_REUSED'')) (\<lambda>_.
          Inr (Some (ri_status_code r, ri_response r))))"

end
