(* ===== verification/ResearchEvidence.thy ===== *)
theory ResearchEvidence
  imports Research
begin

text \<open>
  From extracted content to Decision evidence: the evidence policy
  (\<^verbatim>\<open>web_research/evidence_policy.py\<close>), the lexical conflict check
  (\<^verbatim>\<open>conflicts.py\<close>) and the compiler (\<^verbatim>\<open>ResearchEvidenceCompiler\<close> in
  \<^verbatim>\<open>compiler.py\<close>). \<^verbatim>\<open>str.casefold\<close> differs from \<^verbatim>\<open>str.lower\<close> on the sharp s; the
  micro sign, whose folding is not below 256, is left as it is, which no pattern of the
  sources can see.
\<close>

section \<open>evidence\_policy.py\<close>

record evidence_policy =
  primary_domains :: "string list"
  secondary_domains :: "string list"
  policy_languages :: "string list"
  minimum_content_characters :: int

definition evidence_policy_init :: "string list \<Rightarrow> string list \<Rightarrow> string list \<Rightarrow> int \<Rightarrow> evidence_policy" where
  "evidence_policy_init primary secondary supported minimum =
     \<lparr>primary_domains = primary, secondary_domains = secondary,
      policy_languages = map py_casefold supported, minimum_content_characters = minimum\<rparr>"

definition evidence_policy_version :: string where
  "evidence_policy_version = ''evidence-policy-v1''"

definition content_reasons :: "evidence_policy \<Rightarrow> source_snapshot \<Rightarrow> source_candidate \<Rightarrow> string list" where
  "content_reasons P snapshot source =
     (let lowered = py_casefold (ss_text snapshot) in
      (if sc_search_provider source \<noteq> [] \<and> sc_search_provider_version source \<noteq> [] \<and>
          ss_content_provider snapshot \<noteq> [] \<and> ss_content_provider_version snapshot \<noteq> [] \<and>
          ss_content_hash snapshot \<noteq> [] then [] else [''PROVENANCE_MISSING'']) @
      (if int (length (py_strip (ss_text snapshot))) < minimum_content_characters P
       then [''CONTENT_TOO_SHORT''] else []) @
      (if py_in ''sign in to continue'' lowered \<or> py_in ''log in to continue'' lowered
       then [''LOGIN_PAGE''] else []) @
      (if py_in ''subscribe to continue'' lowered \<or> py_in ''paywall'' lowered
       then [''PAYWALL_DETECTED''] else []) @
      (if takeWhile (\<lambda>c. c \<noteq> CHR ''-'') (py_casefold (ss_language snapshot)) \<notin> set (policy_languages P)
       then [''UNSUPPORTED_CONTENT_LANGUAGE''] else []) @
      (if prompt_injection_suspected (ss_risk snapshot) then [''PROMPT_INJECTION_SUSPECTED''] else []))"

text \<open>An instant in microseconds; a time without a zone is read as UTC.\<close>

fun utc_instant :: "pydatetime \<Rightarrow> int" where
  "utc_instant (Aware t) = t"
| "utc_instant (Naive t) = t"

definition freshness_of :: "runtime \<Rightarrow> source_candidate \<Rightarrow> int \<Rightarrow> int \<Rightarrow> string \<times> string list" where
  "freshness_of R source max_age now =
     (case sc_published_at source of None \<Rightarrow> (''UNKNOWN'', [])
      | Some published \<Rightarrow>
          if published = [] then (''UNKNOWN'', [])
          else case fromisoformat R published of
            None \<Rightarrow> (''UNKNOWN'', [''PUBLICATION_DATE_INVALID''])
          | Some t \<Rightarrow>
              if (now - utc_instant t) div 86400000000 \<le> max_age then (''CURRENT'', [])
              else (''STALE'', [''CONTENT_OUTDATED'']))"

definition blocking_reasons :: "string list" where
  "blocking_reasons = [''PROVENANCE_MISSING'', ''CONTENT_TOO_SHORT'', ''LOGIN_PAGE'', ''PAYWALL_DETECTED'',
     ''UNSUPPORTED_CONTENT_LANGUAGE'', ''PROMPT_INJECTION_SUSPECTED'']"

definition source_authority :: "evidence_policy \<Rightarrow> source_candidate \<Rightarrow> string \<times> int" where
  "source_authority P source =
     (if sc_domain source \<in> set (primary_domains P) then (''PRIMARY'', 90)
      else if sc_domain source \<in> set (secondary_domains P) then (''SECONDARY'', 60)
      else (''UNKNOWN'', 20))"

definition assess_evidence ::
  "runtime \<Rightarrow> evidence_policy \<Rightarrow> source_snapshot \<Rightarrow> source_candidate \<Rightarrow> int \<Rightarrow> int \<Rightarrow> evidence_assessment" where
  "assess_evidence R P snapshot source max_age now =
     (let (freshness, dated) = freshness_of R source max_age now;
          reasons = content_reasons P snapshot source @ dated;
          usable = (\<forall>r \<in> set reasons. r \<notin> set blocking_reasons);
          reasons1 = (if usable \<and> reasons = [] then [''EXTERNAL_EVIDENCE_UNVERIFIED''] else reasons)
      in \<lparr>ea_freshness_status = freshness, ea_source_type = fst (source_authority P source),
          ea_authority_score = snd (source_authority P source),
          ea_relevance_score = max 20 (100 - (max (sc_rank source) 1 - 1) * 8),
          ea_conflict_status = ''NOT_CHECKED'', ea_usable_for_decision = usable,
          ea_requires_human_review = True, ea_reason_codes = dict_fromkeys reasons1\<rparr>)"

section \<open>conflicts.py\<close>

definition negation_pairs :: "(string \<times> string) list" where
  "negation_pairs = [('' is required'', '' is not required''), ('' must '', '' must not ''),
     ('' shall '', '' shall not ''), ('' is allowed'', '' is prohibited'')]"

definition stop_words :: "string list" where
  "stop_words = [''a'', ''an'', ''and'', ''is'', ''not'', ''the'', ''to'', ''must'', ''shall'']"

definition core_words :: "string \<Rightarrow> string list" where
  "core_words s = remdups (filter (\<lambda>w. w \<notin> set stop_words)
     (char_runs (\<lambda>c. let n = (of_char c :: nat) in (97 \<le> n \<and> n \<le> 122) \<or> (48 \<le> n \<and> n \<le> 57)) [] (py_casefold s)))"

definition contradicts :: "string \<Rightarrow> string \<Rightarrow> bool" where
  "contradicts left right =
     (let l = '' '' @ py_casefold left @ '' ''; r = '' '' @ py_casefold right @ '' '';
          lc = core_words left; rc = core_words right;
          overlap = filter (\<lambda>w. w \<in> set rc) lc
      in list_ex (\<lambda>(pos, neg). py_in pos l \<and> py_in neg r \<or> py_in neg l \<and> py_in pos r) negation_pairs \<and>
         overlap \<noteq> [] \<and> 2 * length overlap \<ge> max 1 (min (length lc) (length rc)))"

definition evidence_contradicts :: "research_run \<Rightarrow> evidence_candidate \<Rightarrow> evidence_candidate \<Rightarrow> bool" where
  "evidence_contradicts run left right =
     (set (ec_claim_refs left) \<inter> set (ec_claim_refs right) \<noteq> {} \<and>
      (case (dict_of ss_snapshot_id (run_snapshots run) (ec_snapshot_id left),
             dict_of ss_snapshot_id (run_snapshots run) (ec_snapshot_id right)) of
         (Some l, Some r) \<Rightarrow> contradicts (ss_text l) (ss_text r)
       | _ \<Rightarrow> False))"

text \<open>The pairs of the loop: every element with each one after it.\<close>

fun conflicting_ids :: "research_run \<Rightarrow> evidence_candidate list \<Rightarrow> string list" where
  "conflicting_ids run [] = []"
| "conflicting_ids run (e # es) =
     concat (map (\<lambda>f. if evidence_contradicts run e f then [ec_evidence_id e, ec_evidence_id f] else []) es) @
     conflicting_ids run es"

definition mark_evidence :: "string list \<Rightarrow> evidence_candidate \<Rightarrow> evidence_candidate" where
  "mark_evidence ids e =
     (if ec_evidence_id e \<in> set ids then
        e\<lparr>ec_assessment := (ec_assessment e)\<lparr>ea_conflict_status := ''CONFLICTING'', ea_requires_human_review := True,
          ea_reason_codes := dict_fromkeys (ea_reason_codes (ec_assessment e) @ [''CONFLICTING_EVIDENCE''])\<rparr>\<rparr>
      else e)"

definition mark_source :: "string list \<Rightarrow> source_candidate \<Rightarrow> source_candidate" where
  "mark_source ids s =
     (if sc_source_id s \<in> set ids then
        s\<lparr>sc_status := ''REVIEW_REQUIRED'',
          sc_reason_codes := dict_fromkeys (sc_reason_codes s @ [''CONFLICTING_EVIDENCE''])\<rparr>
      else s)"

definition mark_conflicting_evidence :: "research_run \<Rightarrow> research_run" where
  "mark_conflicting_evidence run =
     (let conflicting = conflicting_ids run (run_evidence run);
          source_ids = map ec_source_id (filter (\<lambda>e. ec_evidence_id e \<in> set conflicting) (run_evidence run))
      in if conflicting = [] then run
         else run\<lparr>run_evidence := map (mark_evidence conflicting) (run_evidence run),
           run_sources := map (mark_source source_ids) (run_sources run)\<rparr>)"

section \<open>ResearchEvidenceCompiler\<close>

definition compiled_status :: "evidence_candidate \<Rightarrow> evidence_status" where
  "compiled_status e =
     (if ea_conflict_status (ec_assessment e) = ''CONFLICTING'' then CONFLICTING
      else if ea_freshness_status (ec_assessment e) = ''STALE'' then OUTDATED else UNVERIFIED)"

definition eligible_evidence :: "evidence_candidate \<Rightarrow> bool" where
  "eligible_evidence e = (ea_usable_for_decision (ec_assessment e) \<and> \<not> prompt_injection_suspected (ec_risk e))"

definition compile_candidate :: "research_run \<Rightarrow> evidence_candidate \<Rightarrow> decision_evidence result" where
  "compile_candidate run e =
     (case List.find (\<lambda>s. ss_snapshot_id s = ec_snapshot_id e) (run_snapshots run) of
        None \<Rightarrow> Inl StopIteration
      | Some snapshot \<Rightarrow> Inr
          \<lparr>de_evidence_id = ec_evidence_id e, de_research_run_id = run_id run, de_claim_refs = ec_claim_refs e,
           de_source_ref = ''research:'' @ run_id run @ '':'' @ ec_evidence_id e, de_status = compiled_status e,
           de_observed_at = ss_retrieved_at snapshot, de_content_hash = ec_content_hash e,
           de_correlation_id = Some (run_correlation_id run)\<rparr>)"

definition compile_evidence :: "research_run \<Rightarrow> decision_evidence list result" where
  "compile_evidence run = traverse (compile_candidate run) (filter eligible_evidence (run_evidence run))"

section \<open>Lemmas\<close>

lemma traverse_Inr_iff: "traverse f xs = Inr ys \<longleftrightarrow> list_all2 (\<lambda>x y. f x = Inr y) xs ys"
  by (induction xs arbitrary: ys) (auto simp: monad_simps list_all2_Cons1)

lemma contradicts_sym: "contradicts left right \<longleftrightarrow> contradicts right left"
proof -
  have overlap: "length (filter (\<lambda>w. w \<in> set b) a) = length (filter (\<lambda>w. w \<in> set a) b)"
    if "distinct a" "distinct b" for a b :: "string list"
  proof -
    have "length (filter (\<lambda>w. w \<in> set b) a) = card (set a \<inter> set b)"
      using that by (simp add: distinct_length_filter Int_def conj_commute)
    moreover have "length (filter (\<lambda>w. w \<in> set a) b) = card (set a \<inter> set b)"
      using that by (simp add: distinct_length_filter Int_def conj_commute)
    ultimately show ?thesis by simp
  qed
  have d: "distinct (core_words x)" for x by (simp add: core_words_def)
  have "filter (\<lambda>w. w \<in> set (core_words right)) (core_words left) = [] \<longleftrightarrow>
      filter (\<lambda>w. w \<in> set (core_words left)) (core_words right) = []"
    using overlap [OF d d] by (metis length_0_conv)
  with overlap [OF d d, of left right] show ?thesis
    unfolding contradicts_def Let_def by (auto simp: list_ex_iff min.commute)
qed

lemma evidence_contradicts_sym: "evidence_contradicts run a b \<longleftrightarrow> evidence_contradicts run b a"
  unfolding evidence_contradicts_def
  by (auto simp: Int_commute split: option.splits intro: contradicts_sym [THEN iffD1])

lemma conflicting_ids_iff:
  assumes "distinct (map ec_evidence_id es)"
  shows "i \<in> set (conflicting_ids run es) \<longleftrightarrow>
    (\<exists>a \<in> set es. \<exists>b \<in> set es. ec_evidence_id a = i \<and> ec_evidence_id b \<noteq> i \<and> evidence_contradicts run a b)"
  using assms
proof (induction es)
  case (Cons e es)
  have ne: "ec_evidence_id f \<noteq> ec_evidence_id e" if "f \<in> set es" for f
    using Cons.prems that by (auto simp: image_iff)
  have head: "i \<in> set (concat (map (\<lambda>f. if evidence_contradicts run e f then [ec_evidence_id e, ec_evidence_id f] else []) es)) \<longleftrightarrow>
      (\<exists>f \<in> set es. evidence_contradicts run e f \<and> (i = ec_evidence_id e \<or> i = ec_evidence_id f))"
    by (auto split: if_splits)
  from Cons have tail: "i \<in> set (conflicting_ids run es) \<longleftrightarrow>
    (\<exists>a \<in> set es. \<exists>b \<in> set es. ec_evidence_id a = i \<and> ec_evidence_id b \<noteq> i \<and> evidence_contradicts run a b)"
    by simp
  have 1: "(\<exists>b \<in> set es. ec_evidence_id e = i \<and> ec_evidence_id b \<noteq> i \<and> evidence_contradicts run e b) \<longleftrightarrow>
      (\<exists>f \<in> set es. evidence_contradicts run e f \<and> i = ec_evidence_id e)"
    using ne by metis
  have 2: "(\<exists>a \<in> set es. ec_evidence_id a = i \<and> ec_evidence_id e \<noteq> i \<and> evidence_contradicts run a e) \<longleftrightarrow>
      (\<exists>f \<in> set es. evidence_contradicts run e f \<and> i = ec_evidence_id f)"
    using ne evidence_contradicts_sym [of run e] by metis
  have 3: "(\<exists>a \<in> set (e # es). \<exists>b \<in> set (e # es). ec_evidence_id a = i \<and> ec_evidence_id b \<noteq> i \<and>
        evidence_contradicts run a b) \<longleftrightarrow>
      (\<exists>b \<in> set es. ec_evidence_id e = i \<and> ec_evidence_id b \<noteq> i \<and> evidence_contradicts run e b) \<or>
      (\<exists>a \<in> set es. ec_evidence_id a = i \<and> ec_evidence_id e \<noteq> i \<and> evidence_contradicts run a e) \<or>
      (\<exists>a \<in> set es. \<exists>b \<in> set es. ec_evidence_id a = i \<and> ec_evidence_id b \<noteq> i \<and> evidence_contradicts run a b)"
    by (simp only: list.set bex_simps) blast
  show ?case
    unfolding conflicting_ids.simps set_append Un_iff head tail 1 2 3 by blast
qed simp

end
