(* ===== verification/ResearchHandoff.thy ===== *)
theory ResearchHandoff
  imports ResearchEvidence DecisionService
begin

text \<open>
  The handoff of compiled evidence to a Decision File, \<^verbatim>\<open>web_research/compiler.py\<close>: the
  SQLite and the PostgreSQL adapter. \<^verbatim>\<open>attach\<close> is one transaction that reads the stored
  document, appends evidence and one audit event to it, validates the result and records the
  handoff. \<open>hd_runs\<close> are the keys of \<^verbatim>\<open>research_runs\<close>, which the handoff table
  references.
\<close>

section \<open>compiler.py\<close>

record handoff_row =
  ho_tenant :: string
  ho_run_id :: string
  ho_decision_id :: string
  ho_handoff_id :: string
  ho_document_hash :: string

record handoff_db =
  hd_store :: decision_db
  hd_runs :: "(string \<times> string) list"
  hd_handoffs :: "handoff_row list"

abbreviation handoff_key :: "handoff_row \<Rightarrow> string \<times> string \<times> string \<times> string" where
  "handoff_key r \<equiv> (ho_tenant r, ho_run_id r, ho_decision_id r, ho_handoff_id r)"

definition handoff_payload :: "decision_evidence list \<Rightarrow> json" where
  "handoff_payload evidence = JArr (map (\<lambda>e. jstrs [de_evidence_id e, de_content_hash e,
     evidence_status_value (de_status e)]) (sort_key de_evidence_id evidence))"

definition handoff_id :: "runtime \<Rightarrow> decision_evidence list \<Rightarrow> string" where
  "handoff_id R evidence = take 24 (sha256 R (json_dumps_ascii (handoff_payload evidence)))"

text \<open>The run and the correlation that all items share.\<close>

definition handoff_context :: "decision_evidence list \<Rightarrow> (string \<times> string) result" where
  "handoff_context evidence =
     (case evidence of [] \<Rightarrow> Inl (DecisionEvidenceHandoffRejected ''NO_USABLE_EVIDENCE'')
      | first # _ \<Rightarrow>
          bind_result (ensure (list_all (\<lambda>e. de_research_run_id e = de_research_run_id first) evidence)
            (DecisionEvidenceHandoffRejected ''MIXED_RESEARCH_RUNS'')) (\<lambda>_.
          bind_result (ensure (list_all (\<lambda>e. de_correlation_id e = de_correlation_id first) evidence)
            (DecisionEvidenceHandoffRejected ''CORRELATION_CONTEXT_REQUIRED'')) (\<lambda>_.
          case de_correlation_id first of
            None \<Rightarrow> Inl (DecisionEvidenceHandoffRejected ''CORRELATION_CONTEXT_REQUIRED'')
          | Some c \<Rightarrow> Inr (de_research_run_id first, c))))"

definition attached_item :: "decision_evidence \<Rightarrow> evidence_item" where
  "attached_item e = \<lparr>ev_id = de_evidence_id e, ev_claim_refs = de_claim_refs e,
     ev_source_ref = de_source_ref e, ev_status = de_status e,
     ev_observed_at = Some (de_observed_at e), ev_content_hash = Some (de_content_hash e)\<rparr>"

definition new_items :: "decision_file \<Rightarrow> decision_evidence list \<Rightarrow> evidence_item list" where
  "new_items d evidence =
     map attached_item (filter (\<lambda>e. de_evidence_id e \<notin> ev_id ` set (df_evidence d)) evidence)"

definition max_observed :: "decision_evidence list \<Rightarrow> string" where
  "max_observed evidence = foldr max (map de_observed_at (tl evidence)) (de_observed_at (hd evidence))"

definition research_actor :: actor where
  "research_actor = \<lparr>act_id = ''system:research-compiler'', act_role = ''GENERATOR'', act_kind = ''SERVICE''\<rparr>"

definition handoff_event ::
  "runtime \<Rightarrow> string \<Rightarrow> string \<Rightarrow> string \<Rightarrow> decision_evidence list \<Rightarrow> decision_file \<Rightarrow> audit_event" where
  "handoff_event R t did correlation evidence d =
     \<lparr>ae_event_id = did @ '':research-handoff:'' @ handoff_id R evidence,
      ae_event_type = ''research.evidence-attached'', ae_occurred_at = max_observed evidence,
      ae_actor = research_actor, ae_from_status = Some DRAFT, ae_to_status = DRAFT,
      ae_reason_codes = [''EXTERNAL_EVIDENCE_ATTACHED_UNVERIFIED''],
      ae_payload_hash = payload_hash (sha256 R) (handoff_payload evidence),
      ae_previous_event_hash = previous_hash R d,
      ae_tenant_id = Some t, ae_correlation_id = Some correlation, ae_source_channel = Some ''api''\<rparr>"

text \<open>The checks on the stored document and the document with the evidence.\<close>

definition handoff_document ::
  "runtime \<Rightarrow> string \<Rightarrow> string \<Rightarrow> string \<Rightarrow> string \<Rightarrow> decision_evidence list \<Rightarrow> decision_file \<Rightarrow>
   (decision_file \<times> audit_event) result" where
  "handoff_document R t did correlation expected evidence d =
     bind_result (ensure (payload_hash (sha256 R) (decision_json d) = expected)
       (DecisionEvidenceHandoffRejected ''DECISION_DOCUMENT_CHANGED'')) (\<lambda>_.
     bind_result (ensure (df_status d = DRAFT) (DecisionEvidenceHandoffRejected ''DECISION_NOT_DRAFT'')) (\<lambda>_.
     bind_result (ensure (list_all (\<lambda>e. set (de_claim_refs e) \<subseteq> claim_id ` set (df_claims d)) evidence)
       (DecisionEvidenceHandoffRejected ''CLAIM_REFERENCE_NOT_FOUND'')) (\<lambda>_.
     let e = handoff_event R t did correlation evidence d;
         d' = d\<lparr>df_evidence := df_evidence d @ new_items d evidence, df_updated_at := max_observed evidence,
           df_audit_events := df_audit_events d @ [e]\<rparr>
     in bind_result (contract_validate R d') (\<lambda>_.
        bind_result (validate_semantics R d') (\<lambda>_. Inr (d', e))))))"

definition record_handoff ::
  "runtime \<Rightarrow> string \<Rightarrow> string \<Rightarrow> string \<Rightarrow> decision_evidence list \<Rightarrow> decision_file \<Rightarrow> handoff_db \<Rightarrow> handoff_db result" where
  "record_handoff R t run did evidence d' db =
     bind_result (ensure ((t, run) \<in> set (hd_runs db)) IntegrityError) (\<lambda>_.
     bind_result (row_insert handoff_key \<lparr>ho_tenant = t, ho_run_id = run, ho_decision_id = did,
         ho_handoff_id = handoff_id R evidence,
         ho_document_hash = payload_hash (sha256 R) (decision_json d')\<rparr> (hd_handoffs db)) (\<lambda>rows.
     Inr (db\<lparr>hd_handoffs := rows\<rparr>)))"

definition store_document :: "string \<Rightarrow> string \<Rightarrow> string \<Rightarrow> decision_file \<Rightarrow> decision_db \<Rightarrow> decision_db" where
  "store_document now t did d' s = s\<lparr>decisions := row_update decision_key (t, did)
     (\<lambda>r. r\<lparr>dr_document := d', dr_updated_at := now\<rparr>) (decisions s)\<rparr>"

text \<open>
  The adapters differ in the write: SQLite updates the row only where it still holds the text
  that was read, and checks the row count; PostgreSQL has locked the row.
\<close>

definition sqlite_write ::
  "string \<Rightarrow> string \<Rightarrow> string \<Rightarrow> decision_file \<Rightarrow> decision_file \<Rightarrow> decision_db \<Rightarrow> decision_db result" where
  "sqlite_write now t did d d' s =
     (let hit = (\<lambda>r. decision_key r = (t, did) \<and> dr_document r = d) in
      bind_result (ensure (length (filter hit (decisions s)) = 1)
        (DecisionEvidenceHandoffRejected ''DECISION_DOCUMENT_CHANGED'')) (\<lambda>_.
      Inr (s\<lparr>decisions := map (\<lambda>r. if hit r then r\<lparr>dr_document := d', dr_updated_at := now\<rparr> else r) (decisions s)\<rparr>)))"

definition sqlite_attach ::
  "runtime \<Rightarrow> string \<Rightarrow> string \<Rightarrow> string \<Rightarrow> string \<Rightarrow> decision_evidence list \<Rightarrow> handoff_db \<Rightarrow>
   (decision_file \<times> handoff_db) result" where
  "sqlite_attach R now t did expected evidence db =
     bind_result (handoff_context evidence) (\<lambda>(run, correlation).
     case row_find decision_key (t, did) (decisions (hd_store db)) of
       None \<Rightarrow> Inl (DecisionEvidenceHandoffRejected ''DECISION_NOT_FOUND'')
     | Some row \<Rightarrow>
         let d = dr_document row in
         if (t, run, did, handoff_id R evidence) \<in> handoff_key ` set (hd_handoffs db) then Inr (d, db)
         else
           bind_result (handoff_document R t did correlation expected evidence d) (\<lambda>(d', e).
           bind_result (sqlite_write now t did d d' (hd_store db)) (\<lambda>s1.
           bind_result (insert_audit t did e s1) (\<lambda>s2.
           bind_result (record_handoff R t run did evidence d' (db\<lparr>hd_store := s2\<rparr>)) (\<lambda>db'.
           Inr (d', db'))))))"

definition postgres_attach ::
  "runtime \<Rightarrow> string \<Rightarrow> string \<Rightarrow> string \<Rightarrow> string \<Rightarrow> decision_evidence list \<Rightarrow> handoff_db \<Rightarrow>
   (decision_file \<times> handoff_db) result" where
  "postgres_attach R now t did expected evidence db =
     bind_result (handoff_context evidence) (\<lambda>(run, correlation).
     case row_find decision_key (t, did) (decisions (hd_store db)) of
       None \<Rightarrow> Inl (DecisionEvidenceHandoffRejected ''DECISION_NOT_FOUND'')
     | Some row \<Rightarrow>
         let d = dr_document row in
         if (t, run, did, handoff_id R evidence) \<in> handoff_key ` set (hd_handoffs db) then Inr (d, db)
         else
           bind_result (handoff_document R t did correlation expected evidence d) (\<lambda>(d', e).
           bind_result (insert_audit t did e (store_document now t did d' (hd_store db))) (\<lambda>s2.
           bind_result (record_handoff R t run did evidence d' (db\<lparr>hd_store := s2\<rparr>)) (\<lambda>db'.
           Inr (d', db')))))"

section \<open>Lemmas\<close>

lemma filter_key_single:
  "distinct (map key rows) \<Longrightarrow> r \<in> set rows \<Longrightarrow> filter (\<lambda>x. key x = key r) rows = [r]"
  by (induction rows) (auto simp: filter_empty_conv image_iff)

lemma sqlite_write_eq:
  assumes "distinct (map decision_key (decisions s))" and "row_find decision_key (t, did) (decisions s) = Some row"
  shows "sqlite_write now t did (dr_document row) d' s = Inr (store_document now t did d' s)"
proof -
  let ?hit = "\<lambda>r. decision_key r = (t, did) \<and> dr_document r = dr_document row"
  from assms(2) have row: "row \<in> set (decisions s)" "decision_key row = (t, did)"
    by (auto dest: row_find_SomeD)
  have only: "r = row" if "r \<in> set (decisions s)" "decision_key r = (t, did)" for r
    using assms(1) row that by (auto simp: distinct_map inj_on_def)
  then have hit: "?hit r \<longleftrightarrow> decision_key r = (t, did)" if "r \<in> set (decisions s)" for r
    using that by blast
  have "filter ?hit (decisions s) = filter (\<lambda>r. decision_key r = decision_key row) (decisions s)"
    by (rule filter_cong) (use hit row in auto)
  also have "\<dots> = [row]" by (rule filter_key_single [OF assms(1) row(1)])
  finally have "length (filter ?hit (decisions s)) = 1" by simp
  moreover have "map (\<lambda>r. if ?hit r then r\<lparr>dr_document := d', dr_updated_at := now\<rparr> else r) (decisions s) =
      row_update decision_key (t, did) (\<lambda>r. r\<lparr>dr_document := d', dr_updated_at := now\<rparr>) (decisions s)"
    unfolding row_update_def by (rule map_cong) (use hit in auto)
  ultimately show ?thesis by (simp add: sqlite_write_def store_document_def Let_def)
qed

lemma attach_equiv:
  assumes "distinct (map decision_key (decisions (hd_store db)))"
  shows "sqlite_attach R now t did expected evidence db = postgres_attach R now t did expected evidence db"
proof (cases "row_find decision_key (t, did) (decisions (hd_store db))")
  case None
  then show ?thesis by (simp add: sqlite_attach_def postgres_attach_def)
next
  case (Some row)
  note w = sqlite_write_eq [OF assms Some]
  show ?thesis
    unfolding sqlite_attach_def postgres_attach_def Some option.case Let_def w bind_result.simps ..
qed

end
