(* ===== verification/CircuitBreaker.thy ===== *)
theory CircuitBreaker
  imports Identity Complex_Main
begin

text \<open>
  The circuit breaker in front of the research providers,
  \<^verbatim>\<open>web_research/circuit_breaker.py\<close>. Times are rational seconds (the rounding of
  floating-point addition is not modelled). The interface of the port is the locale
  \<open>provider_circuit\<close>, interpreted by both implementations; \<open>circuit_spec\<close> is the
  usual description of a breaker, which the in-memory one refines.
\<close>

section \<open>circuit\_breaker.py\<close>

record circuit_state =
  failures :: int
  opened_until :: rat

record circuit_policy =
  failure_threshold :: int
  recovery_seconds :: rat

definition circuit_post_init :: "circuit_policy \<Rightarrow> unit result" where
  "circuit_post_init P =
     ensure (1 \<le> failure_threshold P \<and> failure_threshold P \<le> 100 \<and>
       1 \<le> recovery_seconds P \<and> recovery_seconds P \<le> 3600) (ValueError ''INVALID_CIRCUIT_BREAKER_POLICY'')"

type_synonym circuits = "string \<times> string \<Rightarrow> circuit_state option"

definition circuit_key :: "string \<Rightarrow> string \<Rightarrow> (string \<times> string) result" where
  "circuit_key t p = (if blank t \<or> blank p then Inl (ValueError ''INVALID_CIRCUIT_CONTEXT'') else Inr (t, p))"

definition before_call :: "circuit_policy \<Rightarrow> rat \<Rightarrow> string \<Rightarrow> string \<Rightarrow> circuits \<Rightarrow> circuits result" where
  "before_call P now t p c =
     bind_result (circuit_key t p) (\<lambda>k.
     case c k of None \<Rightarrow> Inr c
     | Some st \<Rightarrow>
         if opened_until st > now then Inl (ProviderCircuitOpen ''PROVIDER_CIRCUIT_OPEN'')
         else if opened_until st \<noteq> 0
           then Inr (c(k \<mapsto> \<lparr>failures = failure_threshold P - 1, opened_until = 0\<rparr>))
         else Inr c)"

definition record_success :: "string \<Rightarrow> string \<Rightarrow> circuits \<Rightarrow> circuits result" where
  "record_success t p c = bind_result (circuit_key t p) (\<lambda>k. Inr (c(k := None)))"

definition record_failure ::
  "circuit_policy \<Rightarrow> rat \<Rightarrow> bool \<Rightarrow> string \<Rightarrow> string \<Rightarrow> circuits \<Rightarrow> circuits result" where
  "record_failure P now retryable t p c =
     bind_result (circuit_key t p) (\<lambda>k.
     if \<not> retryable then Inr (c(k := None))
     else
       let st = (case c k of None \<Rightarrow> \<lparr>failures = 0, opened_until = 0\<rparr> | Some st \<Rightarrow> st);
           st1 = st\<lparr>failures := failures st + 1\<rparr>
       in Inr (c(k \<mapsto> if failures st1 \<ge> failure_threshold P
             then st1\<lparr>opened_until := now + recovery_seconds P\<rparr> else st1)))"

text \<open>\<^verbatim>\<open>NoOpProviderCircuitBreaker\<close>.\<close>

definition noop_call :: "rat \<Rightarrow> string \<Rightarrow> string \<Rightarrow> unit \<Rightarrow> unit result" where
  "noop_call now t p c = Inr c"

definition noop_success :: "string \<Rightarrow> string \<Rightarrow> unit \<Rightarrow> unit result" where
  "noop_success t p c = Inr c"

definition noop_failure :: "rat \<Rightarrow> bool \<Rightarrow> string \<Rightarrow> string \<Rightarrow> unit \<Rightarrow> unit result" where
  "noop_failure now retryable t p c = Inr c"

section \<open>The interface\<close>

datatype circuit_use = Call rat string string | Success string string | Failure rat bool string string

fun use_key :: "circuit_use \<Rightarrow> string \<times> string" where
  "use_key (Call _ t p) = (t, p)" | "use_key (Success t p) = (t, p)" | "use_key (Failure _ _ t p) = (t, p)"

locale provider_circuit =
  fixes call :: "rat \<Rightarrow> string \<Rightarrow> string \<Rightarrow> 'c \<Rightarrow> 'c result"
    and success :: "string \<Rightarrow> string \<Rightarrow> 'c \<Rightarrow> 'c result"
    and failure :: "rat \<Rightarrow> bool \<Rightarrow> string \<Rightarrow> string \<Rightarrow> 'c \<Rightarrow> 'c result"
    and local_state :: "'c \<Rightarrow> string \<times> string \<Rightarrow> 'l"
  assumes call_local: "call now t p c = Inr c' \<Longrightarrow> k \<noteq> (t, p) \<Longrightarrow> local_state c' k = local_state c k"
    and success_local: "success t p c = Inr c' \<Longrightarrow> k \<noteq> (t, p) \<Longrightarrow> local_state c' k = local_state c k"
    and failure_local: "failure now r t p c = Inr c' \<Longrightarrow> k \<noteq> (t, p) \<Longrightarrow> local_state c' k = local_state c k"
    and admission_local: "local_state c (t, p) = local_state c' (t, p) \<Longrightarrow>
      (\<exists>d. call now t p c = Inr d) \<longleftrightarrow> (\<exists>d. call now t p c' = Inr d)"
    and success_admits: "success t p c = Inr c' \<Longrightarrow> \<exists>d. call now t p c' = Inr d"
begin

text \<open>An operation that raises leaves the breaker as it was.\<close>

fun perform :: "circuit_use \<Rightarrow> 'c \<Rightarrow> 'c" where
  "perform (Call now t p) c = (case call now t p c of Inl _ \<Rightarrow> c | Inr c' \<Rightarrow> c')"
| "perform (Success t p) c = (case success t p c of Inl _ \<Rightarrow> c | Inr c' \<Rightarrow> c')"
| "perform (Failure now r t p) c = (case failure now r t p c of Inl _ \<Rightarrow> c | Inr c' \<Rightarrow> c')"

lemma perform_local: "k \<noteq> use_key u \<Longrightarrow> local_state (perform u c) k = local_state c k"
  by (cases u) (auto split: sum.split dest: call_local success_local failure_local)

lemma others_do_not_matter:
  "k \<notin> use_key ` set us \<Longrightarrow> local_state (fold perform us c) k = local_state c k"
  by (induction us arbitrary: c) (auto simp: perform_local)

lemma others_do_not_block:
  assumes "(t, p) \<notin> use_key ` set us"
  shows "(\<exists>d. call now t p (fold perform us c) = Inr d) \<longleftrightarrow> (\<exists>d. call now t p c = Inr d)"
  by (rule admission_local) (rule others_do_not_matter [OF assms])

end

lemma circuit_key_Inr_iff [monad_simps]: "circuit_key t p = Inr k \<longleftrightarrow> k = (t, p) \<and> \<not> blank t \<and> \<not> blank p"
  by (auto simp: circuit_key_def)

interpretation breaker: provider_circuit "before_call P" record_success "record_failure P" "\<lambda>c. c" for P
proof unfold_locales
  fix now t p c c' k r
  show "before_call P now t p c = Inr c' \<Longrightarrow> k \<noteq> (t, p) \<Longrightarrow> c' k = c k"
    by (auto simp: before_call_def monad_simps split: option.splits if_splits)
  show "record_success t p c = Inr c' \<Longrightarrow> k \<noteq> (t, p) \<Longrightarrow> c' k = c k"
    by (auto simp: record_success_def monad_simps)
  show "record_failure P now r t p c = Inr c' \<Longrightarrow> k \<noteq> (t, p) \<Longrightarrow> c' k = c k"
    by (auto simp: record_failure_def monad_simps Let_def split: if_splits)
  show "(\<exists>d. before_call P now t p c = Inr d) \<longleftrightarrow> (\<exists>d. before_call P now t p c' = Inr d)"
    if "c (t, p) = c' (t, p)"
    using that by (auto simp: before_call_def circuit_key_def split: option.splits)
  show "record_success t p c = Inr c' \<Longrightarrow> \<exists>d. before_call P now t p c' = Inr d"
    by (auto simp: record_success_def before_call_def monad_simps circuit_key_def)
qed

interpretation no_breaker: provider_circuit noop_call noop_success noop_failure "\<lambda>_ _. ()"
  by unfold_locales (auto simp: noop_call_def noop_success_def noop_failure_def)

section \<open>The specification of a breaker\<close>

text \<open>
  Closed with a number of consecutive failures, or open until a time. After that time one
  call goes through; it leaves the breaker one failure away from opening again.
\<close>

datatype circuit_spec = Closed int | Open rat

fun spec_admits :: "rat \<Rightarrow> circuit_spec \<Rightarrow> bool" where
  "spec_admits now (Closed n) = True"
| "spec_admits now (Open u) = (u \<le> now)"

fun spec_use :: "circuit_policy \<Rightarrow> circuit_use \<Rightarrow> circuit_spec \<Rightarrow> circuit_spec" where
  "spec_use P (Call now t p) (Open u) = (if u \<le> now then Closed (failure_threshold P - 1) else Open u)"
| "spec_use P (Call now t p) (Closed n) = Closed n"
| "spec_use P (Success t p) c = Closed 0"
| "spec_use P (Failure now r t p) c =
     (if \<not> r then Closed 0
      else case c of
        Open u \<Rightarrow> Open (now + recovery_seconds P)
      | Closed n \<Rightarrow> if n + 1 \<ge> failure_threshold P then Open (now + recovery_seconds P) else Closed (n + 1))"

definition circuit_abs :: "circuit_state option \<Rightarrow> circuit_spec" where
  "circuit_abs st = (case st of None \<Rightarrow> Closed 0
     | Some st \<Rightarrow> if opened_until st = 0 then Closed (failures st) else Open (opened_until st))"

text \<open>An open breaker has at least as many failures as the threshold; a closed one fewer.\<close>

definition circuit_ok :: "circuit_policy \<Rightarrow> circuit_state option \<Rightarrow> bool" where
  "circuit_ok P st = (case st of None \<Rightarrow> True
     | Some st \<Rightarrow> 0 \<le> failures st \<and> 0 \<le> opened_until st \<and>
         (opened_until st = 0 \<longleftrightarrow> failures st < failure_threshold P))"

fun use_time_ok :: "circuit_use \<Rightarrow> bool" where
  "use_time_ok (Call now _ _) = (0 \<le> now)" | "use_time_ok (Success _ _) = True"
| "use_time_ok (Failure now _ _ _) = (0 \<le> now)"

lemma circuit_admission:
  assumes "\<not> blank t" and "\<not> blank p" and "circuit_ok P (c (t, p))" and "0 \<le> now"
  shows "(\<exists>d. before_call P now t p c = Inr d) \<longleftrightarrow> spec_admits now (circuit_abs (c (t, p)))"
  using assms by (auto simp: before_call_def circuit_key_def circuit_abs_def circuit_ok_def
    split: option.splits)

lemma circuit_simulation:
  assumes "circuit_post_init P = Inr ()" and "use_key u = (t, p)" and "\<not> blank t" and "\<not> blank p"
    and "circuit_ok P (c (t, p))" and "use_time_ok u"
  shows "circuit_ok P (breaker.perform P u c (t, p)) \<and>
    circuit_abs (breaker.perform P u c (t, p)) = spec_use P u (circuit_abs (c (t, p)))"
proof -
  have "1 \<le> failure_threshold P" "1 \<le> recovery_seconds P"
    using assms(1) by (auto simp: circuit_post_init_def monad_simps)
  with assms(2-) show ?thesis
  proof (cases u)
    case (Failure now r t' p')
    with assms(2-) \<open>1 \<le> failure_threshold P\<close> \<open>1 \<le> recovery_seconds P\<close> show ?thesis
      by (cases "c (t, p)")
        (auto simp: record_failure_def circuit_key_def circuit_abs_def circuit_ok_def Let_def)
  qed (auto simp: before_call_def record_success_def circuit_key_def circuit_abs_def circuit_ok_def
      split: option.splits)
qed

lemma circuit_simulation_run:
  assumes P: "circuit_post_init P = Inr ()" and k: "\<not> blank t" "\<not> blank p"
  shows "list_all use_time_ok us \<Longrightarrow> circuit_ok P (c (t, p)) \<Longrightarrow>
    circuit_ok P (fold (breaker.perform P) us c (t, p)) \<and>
    circuit_abs (fold (breaker.perform P) us c (t, p)) =
      fold (spec_use P) (filter (\<lambda>u. use_key u = (t, p)) us) (circuit_abs (c (t, p)))"
proof (induction us arbitrary: c)
  case (Cons u us)
  show ?case
  proof (cases "use_key u = (t, p)")
    case True
    with circuit_simulation [OF P True k] Cons show ?thesis by auto
  next
    case False
    then have "breaker.perform P u c (t, p) = c (t, p)" by (intro breaker.perform_local) auto
    with False Cons show ?thesis by simp
  qed
qed simp

end
