(* ===== verification/ResearchOrchestrator.thy ===== *)
theory ResearchOrchestrator
  imports ResearchRepository ResearchHandoff CircuitBreaker
begin

text \<open>
  The research orchestrator, \<^verbatim>\<open>web_research/orchestrator.py\<close>, over the SQLite repository,
  the SQLite handoff and the in-memory circuit breaker. The state of an execution is the run
  object in memory, the stores, the breaker and a counter of the readings of the outside
  world. What the outside world answers to the \<open>n\<close>-th reading (the clocks, the cancellation
  check, the providers) are functions of the environment \<open>research_env\<close>, and so are the
  injected URL policy and normalizer, UUIDs, and the two library normalizations the
  fingerprint uses. A provider call may record egress decisions before it answers; where one
  of them cannot be stored, the guard raises and the call fails. Metrics are left out.
\<close>

section \<open>Environment and state\<close>

record research_policy =
  rpol_version :: string
  rpol_provider_configuration :: string
  provider_budget :: int
  cache_ttl_seconds :: int
  max_content_bytes :: int
  max_attempts_per_operation :: int
  rpol_max_search_results :: int
  rpol_max_extractions :: int

definition research_policy_post_init :: "research_policy \<Rightarrow> unit result" where
  "research_policy_post_init p =
     bind_result (ensure (1 \<le> provider_budget p \<and> provider_budget p \<le> 10000) (ValueError ''INVALID_PROVIDER_BUDGET'')) (\<lambda>_.
     bind_result (ensure (1 \<le> max_attempts_per_operation p \<and> max_attempts_per_operation p \<le> 5)
       (ValueError ''INVALID_PROVIDER_ATTEMPT_LIMIT'')) (\<lambda>_.
     bind_result (ensure (1 \<le> rpol_max_search_results p \<and> rpol_max_search_results p \<le> 20)
       (ValueError ''INVALID_CONFIGURED_SEARCH_LIMIT'')) (\<lambda>_.
     ensure (1 \<le> rpol_max_extractions p \<and> rpol_max_extractions p \<le> min (rpol_max_search_results p) 10)
       (ValueError ''INVALID_CONFIGURED_EXTRACTION_LIMIT''))))"

record safe_url =
  su_canonical_url :: string
  su_domain :: string

datatype search_outcome = Search_ok search_response | Search_failed provider_error | Search_raised

datatype extract_outcome = Extract_ok extraction_response | Extract_raised

record research_env =
  oe_runtime :: runtime
  oe_policy :: research_policy
  oe_evidence_policy :: evidence_policy
  oe_circuit_policy :: circuit_policy
  oe_search_id :: string
  oe_extract_id :: string
  oe_clock :: "nat \<Rightarrow> int"
  oe_isoformat :: "int \<Rightarrow> string"
  oe_monotonic :: "nat \<Rightarrow> rat"
  oe_cancelled :: "nat \<Rightarrow> bool"
  oe_search :: "nat \<Rightarrow> search_query \<Rightarrow> egress_decision list \<times> search_outcome"
  oe_extract :: "nat \<Rightarrow> extraction_request \<Rightarrow> egress_decision list \<times> extract_outcome"
  oe_validate_url :: "string list \<Rightarrow> string list \<Rightarrow> string \<Rightarrow> string + safe_url"
  oe_normalize :: "source_candidate \<Rightarrow> extracted_content \<Rightarrow> string + source_snapshot"
  oe_uuid5 :: "string \<Rightarrow> string"
  oe_normalize_query :: "string \<Rightarrow> string"
  oe_normalize_domain :: "string \<Rightarrow> string result"
  oe_timestamp :: "nat \<Rightarrow> string"

record orch =
  ob_run :: research_run
  ob_repo :: research_repo
  ob_handoff :: handoff_db
  ob_circuits :: circuits
  ob_reads :: nat

type_synonym 'a orchestration = "(orch, 'a) action"

abbreviation esha :: "research_env \<Rightarrow> digest" where
  "esha E \<equiv> sha256 (oe_runtime E)"

text \<open>One reading of the outside world.\<close>

definition reading :: "(nat \<Rightarrow> 'a) \<Rightarrow> 'a orchestration" where
  "reading f s = (Inr (f (ob_reads s)), s\<lparr>ob_reads := ob_reads s + 1\<rparr>)"

definition orch_time :: "research_env \<Rightarrow> string orchestration" where
  "orch_time E = reading (\<lambda>n. oe_isoformat E (oe_clock E n))"

definition ensure_active :: "research_env \<Rightarrow> unit orchestration" where
  "ensure_active E = bind_action (reading (oe_cancelled E)) (\<lambda>c.
     if c then raise_action ResearchExecutionCancelled else pure_action ())"

definition change_run :: "(research_run \<Rightarrow> research_run) \<Rightarrow> unit orchestration" where
  "change_run f s = (Inr (), s\<lparr>ob_run := f (ob_run s)\<rparr>)"

definition save_run :: "string \<Rightarrow> unit orchestration" where
  "save_run t s = (case research_save t (ob_run s) (ob_repo s) of
     Inl e \<Rightarrow> (Inl e, s) | Inr repo \<Rightarrow> (Inr (), s\<lparr>ob_repo := repo\<rparr>))"

definition move_run ::
  "research_env \<Rightarrow> bool \<Rightarrow> research_status \<Rightarrow> string \<Rightarrow> string list \<Rightarrow> (research_run \<Rightarrow> json) \<Rightarrow> unit orchestration" where
  "move_run E retry target actor reasons payload =
     bind_action (orch_time E) (\<lambda>tm s.
     case apply_transition (esha E) retry target tm actor reasons (payload (ob_run s)) (ob_run s) of
       Inl e \<Rightarrow> (Inl e, s) | Inr run \<Rightarrow> (Inr (), s\<lparr>ob_run := run\<rparr>))"

definition json_count :: "string \<Rightarrow> nat \<Rightarrow> json" where
  "json_count key n = JObj [(key, JInt (int n))]"

section \<open>Attempts, errors, budget\<close>

definition record_error :: "provider_error \<Rightarrow> string option \<Rightarrow> unit orchestration" where
  "record_error e sid = change_run (\<lambda>run. run\<lparr>run_errors := run_errors run @
     [\<lparr>re_reason_code = pe_reason_code e, re_provider = Some e, re_source_id = sid\<rparr>]\<rparr>)"

definition change_last_attempt :: "(research_attempt \<Rightarrow> research_attempt) \<Rightarrow> research_run \<Rightarrow> research_run" where
  "change_last_attempt f run = run\<lparr>run_attempts :=
     (case run_attempts run of [] \<Rightarrow> [] | as \<Rightarrow> butlast as @ [f (last as)])\<rparr>"

definition succeed_attempt :: "unit orchestration" where
  "succeed_attempt = change_run (change_last_attempt (\<lambda>a. a\<lparr>at_status := ''SUCCEEDED''\<rparr>))"

definition fail_attempt :: "provider_error \<Rightarrow> unit orchestration" where
  "fail_attempt e = change_run (change_last_attempt
     (\<lambda>a. a\<lparr>at_status := ''FAILED'', at_reason_code := Some (pe_reason_code e)\<rparr>))"

definition attempts_of :: "string \<Rightarrow> string option \<Rightarrow> research_run \<Rightarrow> nat" where
  "attempts_of operation sid run =
     length (filter (\<lambda>a. at_operation a = operation \<and> at_source_id a = sid) (run_attempts run))"

definition can_attempt :: "research_env \<Rightarrow> string \<Rightarrow> string option \<Rightarrow> research_run \<Rightarrow> bool" where
  "can_attempt E operation sid run = (int (attempts_of operation sid run) < max_attempts_per_operation (oe_policy E))"

definition provider_of :: "research_env \<Rightarrow> string \<Rightarrow> string" where
  "provider_of E operation = (if operation = ''search'' then oe_search_id E else oe_extract_id E)"

definition simple_error :: "string \<Rightarrow> string \<Rightarrow> bool \<Rightarrow> provider_error" where
  "simple_error p reason retryable = \<lparr>pe_provider_id = p, pe_reason_code = reason, pe_retryable = retryable,
     pe_status_code = None, pe_retry_after = None\<rparr>"

definition reserve :: "research_env \<Rightarrow> string \<Rightarrow> string \<Rightarrow> string option \<Rightarrow> unit orchestration" where
  "reserve E t operation sid =
     bind_action (\<lambda>s. case reserve_budget t (run_id (ob_run s)) (provider_budget (oe_policy E)) (ob_repo s) of
         Inl e \<Rightarrow> (Inl e, s) | Inr (used, repo) \<Rightarrow> (Inr used, s\<lparr>ob_repo := repo\<rparr>)) (\<lambda>used.
     bind_action (change_run (\<lambda>run. run\<lparr>run_cost_units := used\<rparr>)) (\<lambda>_.
     bind_action (orch_time E) (\<lambda>tm.
     change_run (\<lambda>run. run\<lparr>run_attempts := run_attempts run @ [\<lparr>
       at_attempt_id = run_id run @ '':attempt:'' @ str_nat (length (run_attempts run) + 1),
       at_provider_id = provider_of E operation, at_operation = operation, at_status = ''STARTED'',
       at_occurred_at = tm, at_source_id = sid, at_reason_code = None\<rparr>]\<rparr>))))"

definition fail_run :: "research_env \<Rightarrow> string \<Rightarrow> string \<Rightarrow> string \<Rightarrow> unit orchestration" where
  "fail_run E t actor reason =
     bind_action (move_run E False RS_FAILED actor [reason] (\<lambda>run. json_count ''errors'' (length (run_errors run)))) (\<lambda>_.
     save_run t)"

text \<open>
  The three uses of the breaker. A call it refuses yields \<open>False\<close>; its own errors propagate.
\<close>

definition circuit_admits :: "research_env \<Rightarrow> string \<Rightarrow> string \<Rightarrow> bool orchestration" where
  "circuit_admits E t p = bind_action (reading (oe_monotonic E)) (\<lambda>now s.
     case before_call (oe_circuit_policy E) now t p (ob_circuits s) of
       Inl (ProviderCircuitOpen m) \<Rightarrow> (Inr False, s)
     | Inl e \<Rightarrow> (Inl e, s)
     | Inr c \<Rightarrow> (Inr True, s\<lparr>ob_circuits := c\<rparr>))"

definition circuit_failed :: "research_env \<Rightarrow> string \<Rightarrow> string \<Rightarrow> bool \<Rightarrow> unit orchestration" where
  "circuit_failed E t p retryable = bind_action (reading (oe_monotonic E)) (\<lambda>now s.
     case record_failure (oe_circuit_policy E) now retryable t p (ob_circuits s) of
       Inl e \<Rightarrow> (Inl e, s) | Inr c \<Rightarrow> (Inr (), s\<lparr>ob_circuits := c\<rparr>))"

definition circuit_succeeded :: "string \<Rightarrow> string \<Rightarrow> unit orchestration" where
  "circuit_succeeded t p s = (case record_success t p (ob_circuits s) of
     Inl e \<Rightarrow> (Inl e, s) | Inr c \<Rightarrow> (Inr (), s\<lparr>ob_circuits := c\<rparr>))"

text \<open>\<^verbatim>\<open>_record_egress_decision\<close> for the decisions of one call; \<open>False\<close> where storing one raised.\<close>

fun record_egress :: "research_env \<Rightarrow> string \<Rightarrow> egress_decision list \<Rightarrow> bool orchestration" where
  "record_egress E t [] = pure_action True"
| "record_egress E t (d # ds) =
     bind_action (change_run (append_egress_decision (esha E) d)) (\<lambda>_ s.
     case save_run t s of (Inl e, s') \<Rightarrow> (Inr False, s') | (Inr u, s') \<Rightarrow> record_egress E t ds s')"

text \<open>
  The body of the \<^verbatim>\<open>try\<close> around a provider call: the cancellation check inside it is caught
  by \<^verbatim>\<open>except Exception\<close> like an error of the provider.
\<close>

definition provider_call :: "research_env \<Rightarrow> string \<Rightarrow> (nat \<Rightarrow> egress_decision list \<times> 'o) \<Rightarrow> 'o \<Rightarrow> 'o orchestration" where
  "provider_call E t ask raised =
     bind_action (reading (oe_cancelled E)) (\<lambda>c.
     if c then pure_action raised
     else bind_action (reading ask) (\<lambda>(decisions, answer).
       bind_action (record_egress E t decisions) (\<lambda>stored.
       pure_action (if stored then answer else raised))))"

text \<open>The reservation with its handler: \<open>False\<close> where the budget is exhausted.\<close>

definition reserved :: "research_env \<Rightarrow> string \<Rightarrow> string \<Rightarrow> string option \<Rightarrow> bool orchestration" where
  "reserved E t operation sid s =
     (case bind_action (ensure_active E) (\<lambda>_. reserve E t operation sid) s of
        (Inl e, s') \<Rightarrow> if e = ValueError ''BUDGET_EXCEEDED'' then (Inr False, s') else (Inl e, s')
      | (Inr u, s') \<Rightarrow> (Inr True, s'))"

end
