(* ===== verification/ResearchExecution.thy ===== *)
theory ResearchExecution
  imports ResearchOrchestrator
begin

text \<open>
  The operations of the orchestrator: discovery, extraction, finalization, and what callers
  use (\<^verbatim>\<open>execute\<close>, \<^verbatim>\<open>retry\<close>, \<^verbatim>\<open>cancel\<close>, \<^verbatim>\<open>handoff\<close>). A source object of the run is
  its position in the list of sources.
\<close>

section \<open>Discovery\<close>

definition source_id_of :: "research_env \<Rightarrow> string \<Rightarrow> string \<Rightarrow> string" where
  "source_id_of E rid url = rid @ '':source:'' @ take 16 (esha E url)"

fun discovered_sources ::
  "research_env \<Rightarrow> research_run \<Rightarrow> search_response \<Rightarrow> string list \<Rightarrow> search_result list \<Rightarrow> source_candidate list" where
  "discovered_sources E run response seen [] = []"
| "discovered_sources E run response seen (r # rs) =
     (let source = (\<lambda>url domain status reasons.
            \<lparr>sc_source_id = source_id_of E (run_id run) url, sc_original_url = sr_url r, sc_canonical_url = url,
             sc_domain = domain, sc_title = sr_title r, sc_snippet = sr_snippet r, sc_rank = sr_rank r,
             sc_searched_at = sp_searched_at response, sc_search_provider = sp_provider_id response,
             sc_search_provider_version = sp_provider_version response, sc_published_at = sr_published_at r,
             sc_status = status, sc_reason_codes = reasons, sc_citation_kind = sr_citation_kind r,
             sc_artifact_type = ''SEARCH_RESULT''\<rparr>)
      in case oe_validate_url E (rq_allowed_domains (run_request run)) (rq_blocked_domains (run_request run)) (sr_url r) of
           Inl reason \<Rightarrow> source (sr_url r) [] ''BLOCKED'' [reason] # discovered_sources E run response seen rs
         | Inr safe \<Rightarrow>
             if su_canonical_url safe \<in> set seen then discovered_sources E run response seen rs
             else source (su_canonical_url safe) (su_domain safe) ''DISCOVERED'' [] #
               discovered_sources E run response (su_canonical_url safe # seen) rs)"

definition store_discovery :: "research_env \<Rightarrow> search_response \<Rightarrow> research_run \<Rightarrow> research_run" where
  "store_discovery E response run =
     run\<lparr>run_search_summary := (if sp_summary response = [] then None else Some (sp_summary response)),
       run_search_request_id := sp_provider_request_id response,
       run_sources := run_sources run @ discovered_sources E run response []
         (take (nat (rq_max_search_results (run_request run))) (sp_results response))\<rparr>"

definition search_query_of :: "research_run \<Rightarrow> search_query" where
  "search_query_of run = (let r = run_request run in
     \<lparr>sq_query = rq_query r, sq_locale = rq_locale r, sq_preferred_languages = rq_preferred_languages r,
      sq_count = rq_max_search_results r, sq_freshness = rq_freshness r,
      sq_allowed_domains = rq_allowed_domains r, sq_blocked_domains = rq_blocked_domains r\<rparr>)"

definition search_stopped :: "research_env \<Rightarrow> string \<Rightarrow> string \<Rightarrow> provider_error \<Rightarrow> bool orchestration" where
  "search_stopped E t actor e =
     bind_action (record_error e None) (\<lambda>_.
     bind_action (fail_run E t actor (pe_reason_code e)) (\<lambda>_. pure_action False))"

definition search_failed :: "research_env \<Rightarrow> string \<Rightarrow> string \<Rightarrow> provider_error \<Rightarrow> bool orchestration" where
  "search_failed E t actor e =
     bind_action (ensure_active E) (\<lambda>_.
     bind_action (circuit_failed E t (oe_search_id E) (pe_retryable e)) (\<lambda>_.
     bind_action (fail_attempt e) (\<lambda>_. search_stopped E t actor e)))"

definition search_succeeded :: "research_env \<Rightarrow> string \<Rightarrow> string \<Rightarrow> search_response \<Rightarrow> bool orchestration" where
  "search_succeeded E t actor response =
     bind_action (ensure_active E) (\<lambda>_.
     bind_action (circuit_succeeded t (oe_search_id E)) (\<lambda>_.
     bind_action succeed_attempt (\<lambda>_.
     bind_action (change_run (store_discovery E response)) (\<lambda>_.
     bind_action (move_run E False RS_SOURCES_DISCOVERED actor [''SOURCES_DISCOVERED'']
       (\<lambda>run. json_count ''count'' (length (run_sources run)))) (\<lambda>_.
     bind_action (save_run t) (\<lambda>_. pure_action True))))))"

definition discover :: "research_env \<Rightarrow> string \<Rightarrow> string \<Rightarrow> bool orchestration" where
  "discover E t actor =
     bind_action (ensure_active E) (\<lambda>_.
     bind_action (read_state (\<lambda>s. can_attempt E ''search'' None (ob_run s))) (\<lambda>may.
     if \<not> may then search_stopped E t actor (simple_error (oe_search_id E) ''RETRY_LIMIT_EXCEEDED'' False)
     else bind_action (circuit_admits E t (oe_search_id E)) (\<lambda>admitted.
     if \<not> admitted then search_stopped E t actor (simple_error (oe_search_id E) ''PROVIDER_CIRCUIT_OPEN'' True)
     else bind_action (reserved E t ''search'' None) (\<lambda>got.
     if \<not> got then search_stopped E t actor (simple_error ''research-budget'' ''BUDGET_EXCEEDED'' False)
     else bind_action (read_state (\<lambda>s. search_query_of (ob_run s))) (\<lambda>q.
     bind_action (provider_call E t (\<lambda>n. oe_search E n q) Search_raised) (\<lambda>answer.
     case answer of
       Search_failed e \<Rightarrow> search_failed E t actor e
     | Search_raised \<Rightarrow> search_failed E t actor (simple_error (oe_search_id E) ''PROVIDER_UNAVAILABLE'' True)
     | Search_ok response \<Rightarrow> search_succeeded E t actor response))))))"

section \<open>Extraction\<close>

definition change_source :: "nat \<Rightarrow> (source_candidate \<Rightarrow> source_candidate) \<Rightarrow> research_run \<Rightarrow> research_run" where
  "change_source i f run = run\<lparr>run_sources := (run_sources run)[i := f (run_sources run ! i)]\<rparr>"

definition mark_citation_only :: "nat \<Rightarrow> string \<Rightarrow> unit orchestration" where
  "mark_citation_only i reason = change_run (change_source i (\<lambda>s. s\<lparr>sc_status := ''CITATION_ONLY'',
     sc_reason_codes := [''SEARCH_CITATION_ONLY'', reason]\<rparr>))"

definition current_source :: "nat \<Rightarrow> source_candidate orchestration" where
  "current_source i = read_state (\<lambda>s. run_sources (ob_run s) ! i)"

text \<open>Mark, count and record a source that could not be extracted.\<close>

definition extraction_stopped :: "nat \<Rightarrow> provider_error \<Rightarrow> source_snapshot option orchestration" where
  "extraction_stopped i e =
     bind_action (mark_citation_only i (pe_reason_code e)) (\<lambda>_.
     bind_action (current_source i) (\<lambda>source.
     bind_action (record_error e (Some (sc_source_id source))) (\<lambda>_. pure_action None)))"

definition extraction_failed ::
  "research_env \<Rightarrow> string \<Rightarrow> nat \<Rightarrow> provider_error \<Rightarrow> source_snapshot option orchestration" where
  "extraction_failed E t i e =
     bind_action (circuit_failed E t (oe_extract_id E) (pe_retryable e)) (\<lambda>_.
     bind_action (fail_attempt e) (\<lambda>_. extraction_stopped i e))"

definition content_rejected :: "nat \<Rightarrow> string \<Rightarrow> source_snapshot option orchestration" where
  "content_rejected i reason =
     bind_action (fail_attempt (simple_error ''normalizer'' reason False)) (\<lambda>_.
     extraction_stopped i (simple_error ''normalizer'' reason False))"

definition accept_content ::
  "research_env \<Rightarrow> string \<Rightarrow> nat \<Rightarrow> source_candidate \<Rightarrow> research_request \<Rightarrow> extracted_content \<Rightarrow>
   source_snapshot option orchestration" where
  "accept_content E t i source req content =
     (case oe_validate_url E (rq_allowed_domains req) (rq_blocked_domains req) (xc_canonical_url content) of
        Inl reason \<Rightarrow> content_rejected i reason
      | Inr final \<Rightarrow>
          if su_domain final \<noteq> sc_domain source then content_rejected i ''CROSS_DOMAIN_REDIRECT''
          else case oe_normalize E source content of
            Inl reason \<Rightarrow> content_rejected i reason
          | Inr snapshot \<Rightarrow>
              bind_action (circuit_succeeded t (oe_extract_id E)) (\<lambda>_.
              bind_action succeed_attempt (\<lambda>_. pure_action (Some snapshot))))"

definition rebased_snapshot :: "source_candidate \<Rightarrow> source_snapshot \<Rightarrow> source_snapshot" where
  "rebased_snapshot source cached = cached\<lparr>
     ss_snapshot_id := sc_source_id source @ '':snapshot:'' @ take 16 (drop 7 (ss_content_hash cached)),
     ss_source_id := sc_source_id source, ss_original_url := sc_original_url source,
     ss_canonical_url := sc_canonical_url source, ss_domain := sc_domain source\<rparr>"

definition cached_snapshot :: "research_env \<Rightarrow> string \<Rightarrow> source_candidate \<Rightarrow> source_snapshot option orchestration" where
  "cached_snapshot E t source =
     bind_action (read_state (\<lambda>s. rq_force_refresh (run_request (ob_run s)))) (\<lambda>force.
     if force then pure_action None
     else bind_action (orch_time E) (\<lambda>now. read_state (\<lambda>s. get_snapshot t (sc_canonical_url source) now (ob_repo s))))"

definition fetch_snapshot ::
  "research_env \<Rightarrow> string \<Rightarrow> nat \<Rightarrow> source_candidate \<Rightarrow> source_snapshot option orchestration" where
  "fetch_snapshot E t i source =
     bind_action (read_state (\<lambda>s. can_attempt E ''extract'' (Some (sc_source_id source)) (ob_run s))) (\<lambda>may.
     if \<not> may then extraction_stopped i (simple_error (oe_extract_id E) ''RETRY_LIMIT_EXCEEDED'' False)
     else bind_action (circuit_admits E t (oe_extract_id E)) (\<lambda>admitted.
     if \<not> admitted then extraction_stopped i (simple_error (oe_extract_id E) ''PROVIDER_CIRCUIT_OPEN'' True)
     else bind_action (reserved E t ''extract'' (Some (sc_source_id source))) (\<lambda>got.
     if \<not> got then extraction_stopped i (simple_error ''research-budget'' ''BUDGET_EXCEEDED'' False)
     else bind_action (read_state (\<lambda>s. run_request (ob_run s))) (\<lambda>req.
     bind_action (provider_call E t (\<lambda>n. oe_extract E n \<lparr>xr_source_id = sc_source_id source,
         xr_url = sc_canonical_url source, xr_locale = rq_locale req,
         xr_max_content_bytes = max_content_bytes (oe_policy E),
         xr_cache_ttl_seconds = cache_ttl_seconds (oe_policy E)\<rparr>) Extract_raised) (\<lambda>answer.
     bind_action (ensure_active E) (\<lambda>_.
     case answer of
       Extract_raised \<Rightarrow> extraction_failed E t i (simple_error (oe_extract_id E) ''PROVIDER_UNAVAILABLE'' True)
     | Extract_ok (Extraction_failed e) \<Rightarrow> extraction_failed E t i e
     | Extract_ok (Extracted content) \<Rightarrow> accept_content E t i source req content))))))"

definition obtain_snapshot :: "research_env \<Rightarrow> string \<Rightarrow> nat \<Rightarrow> source_snapshot option orchestration" where
  "obtain_snapshot E t i =
     bind_action (ensure_active E) (\<lambda>_.
     bind_action (change_run (change_source i (\<lambda>s. s\<lparr>sc_status := ''SELECTED'', sc_artifact_type := ''SELECTED_SOURCE'',
       sc_reason_codes := [''SOURCE_SELECTED'']\<rparr>))) (\<lambda>_.
     bind_action (current_source i) (\<lambda>source.
     bind_action (cached_snapshot E t source) (\<lambda>cached.
     case cached of
       Some c \<Rightarrow> pure_action (Some (rebased_snapshot source c))
     | None \<Rightarrow> fetch_snapshot E t i source))))"

definition evidence_id_of :: "research_env \<Rightarrow> string \<Rightarrow> string \<Rightarrow> string" where
  "evidence_id_of E rid hash = ''research-'' @ take 24 (esha E (rid @ '':'' @ hash))"

definition evidence_of ::
  "research_env \<Rightarrow> string \<Rightarrow> source_candidate \<Rightarrow> source_snapshot \<Rightarrow> evidence_assessment \<Rightarrow> research_run \<Rightarrow> evidence_candidate" where
  "evidence_of E t source snapshot assessment run =
     \<lparr>ec_evidence_id = evidence_id_of E (run_id run) (ss_content_hash snapshot), ec_tenant_id = t,
      ec_research_run_id = run_id run, ec_decision_file_id = rq_decision_file_id (run_request run),
      ec_claim_refs = rq_claim_refs (run_request run), ec_source_id = sc_source_id source,
      ec_snapshot_id = ss_snapshot_id snapshot, ec_content_hash = ss_content_hash snapshot,
      ec_assessment = assessment,
      ec_provenance = \<lparr>pv_search_result_rank = sc_rank source, pv_search_query = rq_query (run_request run),
        pv_search_provider = sc_search_provider source, pv_search_provider_version = sc_search_provider_version source,
        pv_content_provider = ss_content_provider snapshot,
        pv_content_provider_version = ss_content_provider_version snapshot,
        pv_policy_version = evidence_policy_version\<rparr>,
      ec_risk = ss_risk snapshot\<rparr>"

definition add_evidence ::
  "research_env \<Rightarrow> string \<Rightarrow> nat \<Rightarrow> source_snapshot \<Rightarrow> int \<Rightarrow> research_run \<Rightarrow> research_run" where
  "add_evidence E t i snapshot now run =
     (let source = run_sources run ! i;
          assessment = assess_evidence (oe_runtime E) (oe_evidence_policy E) snapshot source
            (maximum_age_days (rq_freshness (run_request run))) now;
          e = evidence_of E t source snapshot assessment run;
          run1 = run\<lparr>run_snapshots := run_snapshots run @ [snapshot]\<rparr>;
          run2 = (if list_ex (\<lambda>x. ec_evidence_id x = ec_evidence_id e) (run_evidence run) then run1
                  else run1\<lparr>run_evidence := run_evidence run @ [e]\<rparr>)
      in change_source i (\<lambda>s. s\<lparr>sc_status :=
           if ea_usable_for_decision assessment then ''EXTRACTED'' else ''REVIEW_REQUIRED''\<rparr>) run2)"

fun collect_sources :: "research_env \<Rightarrow> string \<Rightarrow> nat list \<Rightarrow> string list \<Rightarrow> unit orchestration" where
  "collect_sources E t [] seen = pure_action ()"
| "collect_sources E t (i # is) seen =
     bind_action (ensure_active E) (\<lambda>_.
     bind_action (obtain_snapshot E t i) (\<lambda>found.
     case found of
       None \<Rightarrow> collect_sources E t is seen
     | Some snapshot \<Rightarrow>
         bind_action (ensure_active E) (\<lambda>_.
         if ss_content_hash snapshot \<in> set seen then
           bind_action (change_run (change_source i (\<lambda>s. s\<lparr>sc_status := ''DUPLICATE_CONTENT'',
             sc_reason_codes := [''CONTENT_DUPLICATE'']\<rparr>))) (\<lambda>_. collect_sources E t is seen)
         else
           bind_action (reading (oe_clock E)) (\<lambda>now.
           bind_action (change_run (add_evidence E t i snapshot now)) (\<lambda>_.
           collect_sources E t is (ss_content_hash snapshot # seen))))))"

definition select_indices :: "source_candidate list \<Rightarrow> int \<Rightarrow> string list \<Rightarrow> nat list" where
  "select_indices sources limit statuses =
     map fst (take (nat limit) (sort_key (\<lambda>p. (sc_rank (snd p), sc_source_id (snd p)))
       (filter (\<lambda>p. sc_status (snd p) \<in> set statuses) (enumerate 0 sources))))"

definition skip_unselected :: "nat list \<Rightarrow> research_run \<Rightarrow> research_run" where
  "skip_unselected chosen run =
     (let selected = map (\<lambda>i. sc_source_id (run_sources run ! i)) chosen
      in run\<lparr>run_sources := map (\<lambda>s. if sc_status s = ''DISCOVERED'' \<and> sc_source_id s \<notin> set selected
           then s\<lparr>sc_status := ''SKIPPED_LIMIT'', sc_reason_codes := [''SOURCE_LIMIT_REACHED'']\<rparr> else s) (run_sources run)\<rparr>)"

section \<open>Finalization\<close>

text \<open>The text of a \<^verbatim>\<open>ValueError\<close> of the handoff as the error it becomes; other exceptions propagate.\<close>

definition handoff_reason :: "exn \<Rightarrow> string option" where
  "handoff_reason e =
     (case e of
        DecisionEvidenceHandoffRejected m \<Rightarrow>
          Some (if m \<in> {''DECISION_DOCUMENT_CHANGED'', ''DECISION_NOT_DRAFT'', ''CLAIM_REFERENCE_NOT_FOUND'',
            ''DECISION_NOT_FOUND''} then m else ''EVIDENCE_HANDOFF_REJECTED'')
      | ValueError m \<Rightarrow> Some ''EVIDENCE_HANDOFF_REJECTED''
      | ContractValidationError \<Rightarrow> Some ''EVIDENCE_HANDOFF_REJECTED''
      | DecisionFileSemanticError errors \<Rightarrow> Some ''EVIDENCE_HANDOFF_REJECTED''
      | _ \<Rightarrow> None)"

text \<open>The runs the handoff table may reference are those the repository stores.\<close>

definition handoff_view :: "orch \<Rightarrow> handoff_db" where
  "handoff_view s = (ob_handoff s)\<lparr>hd_runs := map run_key_of (rp_runs (ob_repo s))\<rparr>"

definition attach_to_decision :: "research_env \<Rightarrow> string \<Rightarrow> decision_evidence list \<Rightarrow> unit orchestration" where
  "attach_to_decision E t compiled = bind_action (reading (oe_timestamp E)) (\<lambda>now s.
     let run = ob_run s; did = rq_decision_file_id (run_request run) in
     case sqlite_attach (oe_runtime E) now t did (run_expected_document_hash run) compiled (handoff_view s) of
       Inl e \<Rightarrow> (Inl e, s)
     | Inr (d, db) \<Rightarrow> (Inr (), s\<lparr>ob_handoff := db, ob_run := run\<lparr>
         run_expected_document_hash := payload_hash (esha E) (decision_json d),
         run_compiled_decision_file_id := Some did\<rparr>\<rparr>))"

definition try_handoff :: "research_env \<Rightarrow> string \<Rightarrow> decision_evidence list \<Rightarrow> bool orchestration" where
  "try_handoff E t compiled =
     (if compiled = [] then pure_action False
      else bind_action (ensure_active E) (\<lambda>_ s.
        case attach_to_decision E t compiled s of
          (Inr u, s') \<Rightarrow> (Inr False, s')
        | (Inl e, s') \<Rightarrow> (case handoff_reason e of
            None \<Rightarrow> (Inl e, s')
          | Some reason \<Rightarrow> (Inr True, s'\<lparr>ob_run := (ob_run s')\<lparr>run_errors := run_errors (ob_run s') @
              [\<lparr>re_reason_code = reason, re_provider = None, re_source_id = None\<rparr>]\<rparr>\<rparr>))))"

definition partial_statuses :: "string list" where
  "partial_statuses = [''BLOCKED'', ''FAILED'', ''REJECTED'', ''REVIEW_REQUIRED'', ''CITATION_ONLY'']"

definition conclude :: "research_env \<Rightarrow> string \<Rightarrow> string \<Rightarrow> bool \<Rightarrow> nat \<Rightarrow> research_run orchestration" where
  "conclude E t actor handoff_failed handed =
     bind_action (ensure_active E) (\<lambda>_.
     bind_action (read_state (\<lambda>s. handoff_failed \<or>
       list_ex (\<lambda>x. sc_status x \<in> set partial_statuses) (run_sources (ob_run s)))) (\<lambda>partial.
     bind_action (move_run E False (if partial then RS_PARTIALLY_COMPLETED else RS_COMPLETED) actor
       [if partial then ''RESEARCH_PARTIALLY_COMPLETED'' else ''RESEARCH_COMPLETED'']
       (\<lambda>run. JObj [(''evidence'', JInt (int (length (run_evidence run)))), (''handoff'', JInt (int handed))])) (\<lambda>_.
     bind_action (save_run t) (\<lambda>_. read_state ob_run))))"

definition finalize_run :: "research_env \<Rightarrow> string \<Rightarrow> string \<Rightarrow> research_run orchestration" where
  "finalize_run E t actor =
     bind_action (ensure_active E) (\<lambda>_.
     bind_action (read_state (\<lambda>s. (run_snapshots (ob_run s) = [],
       length (filter (\<lambda>x. sc_status x = ''CITATION_ONLY'') (run_sources (ob_run s)))))) (\<lambda>(nothing, citations).
     if nothing \<and> citations \<noteq> 0 then
       bind_action (move_run E False RS_PARTIALLY_COMPLETED actor [''SEARCH_CITATIONS_ONLY'']
         (\<lambda>run. json_count ''citations'' citations)) (\<lambda>_.
       bind_action (save_run t) (\<lambda>_. read_state ob_run))
     else if nothing then
       bind_action (fail_run E t actor ''NO_CONTENT_EXTRACTED'') (\<lambda>_. read_state ob_run)
     else
       bind_action (move_run E False RS_EVIDENCE_COMPILED actor [''EVIDENCE_CANDIDATES_COMPILED'']
         (\<lambda>run. json_count ''count'' (length (run_evidence run)))) (\<lambda>_.
       bind_action (change_run mark_conflicting_evidence) (\<lambda>_.
       bind_action (\<lambda>s. (compile_evidence (ob_run s), s)) (\<lambda>compiled.
       bind_action (try_handoff E t compiled) (\<lambda>failed.
       conclude E t actor failed (length compiled)))))))"

definition extract_and_finalize :: "research_env \<Rightarrow> string \<Rightarrow> string \<Rightarrow> bool \<Rightarrow> research_run orchestration" where
  "extract_and_finalize E t actor retry_only =
     bind_action (ensure_active E) (\<lambda>_.
     bind_action (read_state (\<lambda>s. select_indices (run_sources (ob_run s))
       (rq_max_sources_to_extract (run_request (ob_run s)))
       (if retry_only then [''FAILED'', ''CITATION_ONLY''] else [''DISCOVERED'']))) (\<lambda>chosen.
     bind_action (if retry_only then pure_action () else change_run (skip_unselected chosen)) (\<lambda>_.
     bind_action (read_state (\<lambda>s. map ss_content_hash (run_snapshots (ob_run s)))) (\<lambda>seen.
     bind_action (collect_sources E t chosen seen) (\<lambda>_.
     finalize_run E t actor)))))"

definition start_extraction :: "research_env \<Rightarrow> string \<Rightarrow> string \<Rightarrow> bool \<Rightarrow> unit orchestration" where
  "start_extraction E t actor retry =
     bind_action (move_run E retry RS_EXTRACTING actor
       [if retry then ''RESEARCH_RETRY_STARTED'' else ''EXTRACTION_STARTED'']
       (\<lambda>run. JObj [(''limit'', JInt (rq_max_sources_to_extract (run_request run)))])) (\<lambda>_.
     save_run t)"

section \<open>Runs\<close>

text \<open>\<^verbatim>\<open>semantic_fingerprint\<close> of \<^verbatim>\<open>idempotency.py\<close>.\<close>

definition semantic_fingerprint ::
  "research_env \<Rightarrow> string \<Rightarrow> research_request \<Rightarrow> string \<Rightarrow> string option \<Rightarrow> string result" where
  "semantic_fingerprint E t r document_hash refresh =
     bind_result (traverse (oe_normalize_domain E) (rq_allowed_domains r)) (\<lambda>allowed.
     bind_result (traverse (oe_normalize_domain E) (rq_blocked_domains r)) (\<lambda>blocked.
     Inr (payload_hash (esha E) (JObj [
       (''tenant_id'', JStr t), (''decision_file_id'', JStr (rq_decision_file_id r)),
       (''decision_file_version_hash'', JStr document_hash), (''claim_refs'', jstrs (sort (rq_claim_refs r))),
       (''query'', JStr (oe_normalize_query E (rq_query r))), (''locale'', JStr (py_casefold (rq_locale r))),
       (''preferred_languages'', jstrs (sort (map py_casefold (rq_preferred_languages r)))),
       (''allowed_domains'', jstrs (sort allowed)), (''blocked_domains'', jstrs (sort blocked)),
       (''freshness'', JObj [(''maximum_age_days'', JInt (maximum_age_days (rq_freshness r))),
         (''prefer_recent'', JBool (prefer_recent (rq_freshness r)))]),
       (''max_search_results'', JInt (rq_max_search_results r)),
       (''max_sources_to_extract'', JInt (rq_max_sources_to_extract r)),
       (''research_policy'', JStr (rq_research_policy r)),
       (''research_policy_version'', JStr (rpol_version (oe_policy E))),
       (''provider_configuration_version'', JStr (rpol_provider_configuration (oe_policy E))),
       (''refresh_generation'', if rq_force_refresh r then json_opt refresh else JNull)]))))"

definition propose ::
  "research_env \<Rightarrow> string \<Rightarrow> string \<Rightarrow> research_request \<Rightarrow> string \<Rightarrow> string \<Rightarrow> string option \<Rightarrow> research_run orchestration" where
  "propose E t actor request document_hash correlation refresh =
     bind_action (lift_result (ensure (rq_max_search_results request \<le> rpol_max_search_results (oe_policy E))
       (ValueError ''SEARCH_LIMIT_EXCEEDS_CONFIGURATION''))) (\<lambda>_.
     bind_action (lift_result (ensure (rq_max_sources_to_extract request \<le> rpol_max_extractions (oe_policy E))
       (ValueError ''EXTRACTION_LIMIT_EXCEEDS_CONFIGURATION''))) (\<lambda>_.
     bind_action (lift_result (semantic_fingerprint E t request document_hash refresh)) (\<lambda>fingerprint.
     bind_action (orch_time E) (\<lambda>now.
     pure_action \<lparr>run_id = ''research-'' @ oe_uuid5 E fingerprint, run_tenant_id = t, run_actor_id = actor,
       run_request = request, run_expected_document_hash = document_hash, run_fingerprint = fingerprint,
       run_status = RS_CREATED, run_created_at = now, run_updated_at = now, run_correlation_id = correlation,
       run_sources = [], run_snapshots = [], run_evidence = [], run_attempts = [], run_errors = [],
       run_audit_events = [], run_cost_units = 0, run_compiled_decision_file_id = None,
       run_search_summary = None, run_search_request_id = None\<rparr>))))"

text \<open>The run that \<^verbatim>\<open>create_or_get\<close> returns becomes the run in memory.\<close>

definition prepare ::
  "research_env \<Rightarrow> string \<Rightarrow> string \<Rightarrow> research_request \<Rightarrow> string \<Rightarrow> string \<Rightarrow> string option \<Rightarrow> research_run orchestration" where
  "prepare E t actor request document_hash correlation refresh =
     bind_action (propose E t actor request document_hash correlation refresh) (\<lambda>proposed s.
     case create_or_get t proposed (ob_repo s) of
       Inl e \<Rightarrow> (Inl e, s) | Inr (run, repo) \<Rightarrow> (Inr run, s\<lparr>ob_repo := repo, ob_run := run\<rparr>))"

definition run_research :: "research_env \<Rightarrow> string \<Rightarrow> string \<Rightarrow> research_run orchestration" where
  "run_research E t actor =
     bind_action (discover E t actor) (\<lambda>found.
     if \<not> found then read_state ob_run
     else bind_action (ensure_active E) (\<lambda>_.
       bind_action (start_extraction E t actor False) (\<lambda>_.
       extract_and_finalize E t actor False)))"

definition execute ::
  "research_env \<Rightarrow> string \<Rightarrow> string \<Rightarrow> research_request \<Rightarrow> string \<Rightarrow> string \<Rightarrow> string option \<Rightarrow> research_run orchestration" where
  "execute E t actor request document_hash correlation refresh =
     bind_action (ensure_active E) (\<lambda>_.
     bind_action (prepare E t actor request document_hash correlation refresh) (\<lambda>run.
     if run_audit_events run \<noteq> [] \<or> run_status run \<noteq> RS_CREATED then pure_action run
     else bind_action (ensure_active E) (\<lambda>_.
       bind_action (move_run E False RS_SEARCHING actor [''SEARCH_STARTED'']
         (\<lambda>run. JObj [(''query_hash'', JStr (esha E (rq_query request)))])) (\<lambda>_.
       bind_action (save_run t) (\<lambda>_. run_research E t actor)))))"

definition required_run :: "string \<Rightarrow> string \<Rightarrow> research_run orchestration" where
  "required_run t rid s = (case research_get t rid (ob_repo s) of
     None \<Rightarrow> (Inl (KeyError ''RESEARCH_RUN_NOT_FOUND''), s) | Some run \<Rightarrow> (Inr run, s\<lparr>ob_run := run\<rparr>))"

definition enforce_retry_window :: "research_env \<Rightarrow> research_run \<Rightarrow> int \<Rightarrow> unit result" where
  "enforce_retry_window E run now =
     (case List.find (\<lambda>e. case re_provider e of None \<Rightarrow> False | Some p \<Rightarrow> pe_retry_after p \<noteq> None) (rev (run_errors run)) of
        None \<Rightarrow> Inr ()
      | Some e \<Rightarrow>
          (case List.find (\<lambda>a. at_status a = ''FAILED'') (rev (run_attempts run)) of
             None \<Rightarrow> Inr ()
           | Some a \<Rightarrow>
               bind_result (parse_datetime (oe_runtime E) (at_occurred_at a)) (\<lambda>occurred.
               ensure (utc_instant occurred + (case re_provider e of Some p \<Rightarrow> (case pe_retry_after p of Some d \<Rightarrow> d
                   | None \<Rightarrow> 0) | None \<Rightarrow> 0) \<le> now) (ValueError ''PROVIDER_RETRY_AFTER_ACTIVE''))))"

definition validate_retry :: "research_env \<Rightarrow> string \<Rightarrow> string \<Rightarrow> research_run orchestration" where
  "validate_retry E t rid =
     bind_action (required_run t rid) (\<lambda>run.
     if run_status run \<notin> {RS_FAILED, RS_PARTIALLY_COMPLETED}
     then raise_action (ResearchTransitionRejected
       (''RESEARCH_TRANSITION_NOT_ALLOWED:'' @ research_status_value (run_status run) @ '':RETRY''))
     else bind_action (reading (oe_clock E)) (\<lambda>now.
       bind_action (lift_result (enforce_retry_window E run now)) (\<lambda>_. pure_action run)))"

definition retry_run :: "research_env \<Rightarrow> string \<Rightarrow> string \<Rightarrow> string \<Rightarrow> string \<Rightarrow> research_run orchestration" where
  "retry_run E t actor rid correlation =
     bind_action (ensure_active E) (\<lambda>_.
     bind_action (validate_retry E t rid) (\<lambda>_.
     bind_action (change_run (\<lambda>run. run\<lparr>run_actor_id := actor, run_correlation_id := correlation\<rparr>)) (\<lambda>_.
     bind_action (read_state (\<lambda>s. run_sources (ob_run s) = [])) (\<lambda>empty.
     if empty then
       bind_action (move_run E True RS_SEARCHING actor [''RESEARCH_RETRY_STARTED'']
         (\<lambda>run. JObj [(''phase'', JStr ''search'')])) (\<lambda>_.
       bind_action (save_run t) (\<lambda>_. run_research E t actor))
     else
       bind_action (start_extraction E t actor True) (\<lambda>_.
       extract_and_finalize E t actor True)))))"

definition cancel_run :: "research_env \<Rightarrow> string \<Rightarrow> string \<Rightarrow> string \<Rightarrow> string \<Rightarrow> research_run orchestration" where
  "cancel_run E t actor rid correlation =
     bind_action (required_run t rid) (\<lambda>run.
     if run_status run = RS_CANCELLED then pure_action run
     else
       bind_action (change_run (\<lambda>run. run\<lparr>run_actor_id := actor, run_correlation_id := correlation\<rparr>)) (\<lambda>_.
       bind_action (move_run E False RS_CANCELLED actor [''RESEARCH_CANCELLED'']
         (\<lambda>run. JObj [(''run_id'', JStr rid)])) (\<lambda>_.
       bind_action (save_run t) (\<lambda>_. read_state ob_run))))"

definition handoff_run :: "research_env \<Rightarrow> string \<Rightarrow> string \<Rightarrow> string \<Rightarrow> string \<Rightarrow> research_run orchestration" where
  "handoff_run E t actor rid correlation =
     bind_action (required_run t rid) (\<lambda>run.
     if run_compiled_decision_file_id run \<noteq> None then pure_action run
     else if run_status run \<notin> {RS_EVIDENCE_COMPILED, RS_COMPLETED, RS_PARTIALLY_COMPLETED}
     then raise_action (ValueError ''RESEARCH_NOT_READY_FOR_HANDOFF'')
     else
       bind_action (lift_result (compile_evidence run)) (\<lambda>compiled.
       if compiled = [] then raise_action (ValueError ''NO_USABLE_EVIDENCE'')
       else
         bind_action (change_run (\<lambda>run. run\<lparr>run_actor_id := actor, run_correlation_id := correlation\<rparr>)) (\<lambda>_.
         bind_action (attach_to_decision E t compiled) (\<lambda>_.
         bind_action (save_run t) (\<lambda>_. read_state ob_run)))))"

end
