(* ===== verification/Triples.thy ===== *)
theory Triples
  imports Prelude
begin

text \<open>
  Pre- and postconditions of computations with state: \<open>triple P m Q X\<close> says that from a
  state satisfying \<open>P\<close> the computation \<open>m\<close> ends with a value and a state satisfying
  \<open>Q\<close>, or raises in a state satisfying \<open>X\<close>.
\<close>

definition triple :: "('s \<Rightarrow> bool) \<Rightarrow> ('s, 'a) action \<Rightarrow> ('a \<Rightarrow> 's \<Rightarrow> bool) \<Rightarrow> ('s \<Rightarrow> bool) \<Rightarrow> bool" where
  "triple P m Q X = (\<forall>s. P s \<longrightarrow> (case m s of (Inr x, s') \<Rightarrow> Q x s' | (Inl e, s') \<Rightarrow> X s'))"

named_theorems triple_rules \<open>rules for computations with state\<close>

lemma tripleI:
  assumes "\<And>s x s'. P s \<Longrightarrow> m s = (Inr x, s') \<Longrightarrow> Q x s'"
    and "\<And>s e s'. P s \<Longrightarrow> m s = (Inl e, s') \<Longrightarrow> X s'"
  shows "triple P m Q X"
  using assms by (auto simp: triple_def split: prod.split sum.split)

lemma tripleD: "triple P m Q X \<Longrightarrow> P s \<Longrightarrow> m s = (Inr x, s') \<Longrightarrow> Q x s'"
  by (force simp: triple_def)

lemma tripleX: "triple P m Q X \<Longrightarrow> P s \<Longrightarrow> m s = (Inl e, s') \<Longrightarrow> X s'"
  by (force simp: triple_def)

lemma triple_state:
  assumes "triple P m Q X" and "P s" and "\<And>x s'. Q x s' \<Longrightarrow> X s'"
  shows "X (snd (m s))"
proof (cases "m s")
  case (Pair r s')
  show ?thesis
  proof (cases r)
    case (Inl e)
    with Pair tripleX [OF assms(1,2)] show ?thesis by simp
  next
    case (Inr x)
    with Pair tripleD [OF assms(1,2)] assms(3) show ?thesis by auto
  qed
qed

lemma triple_weaken:
  assumes "triple P' m Q' X'" and "\<And>s. P s \<Longrightarrow> P' s" and "\<And>x s. Q' x s \<Longrightarrow> Q x s" and "\<And>s. X' s \<Longrightarrow> X s"
  shows "triple P m Q X"
proof (rule tripleI)
  fix s x s' assume "P s" "m s = (Inr x, s')"
  with assms tripleD [OF assms(1)] show "Q x s'" by blast
next
  fix s e s' assume "P s" "m s = (Inl e, s')"
  with assms tripleX [OF assms(1)] show "X s'" by blast
qed

lemma triple_bind:
  assumes "triple P m R X" and "\<And>x. triple (R x) (f x) Q X"
  shows "triple P (bind_action m f) Q X"
proof (rule tripleI)
  fix s x s' assume P: "P s" and "bind_action m f s = (Inr x, s')"
  then obtain y s1 where "m s = (Inr y, s1)" "f y s1 = (Inr x, s')" by (auto simp: monad_simps)
  with P tripleD [OF assms(1)] tripleD [OF assms(2)] show "Q x s'" by blast
next
  fix s e s' assume P: "P s" and "bind_action m f s = (Inl e, s')"
  then consider "m s = (Inl e, s')" | y s1 where "m s = (Inr y, s1)" "f y s1 = (Inl e, s')"
    by (auto simp: monad_simps)
  then show "X s'"
    by cases (use P tripleX [OF assms(1)] tripleD [OF assms(1)] tripleX [OF assms(2)] in blast)+
qed

lemma triple_pure: "(\<And>s. P s \<Longrightarrow> Q x s) \<Longrightarrow> triple P (pure_action x) Q X"
  by (simp add: triple_def)

lemma triple_raise: "(\<And>s. P s \<Longrightarrow> X s) \<Longrightarrow> triple P (raise_action e) Q X"
  by (simp add: triple_def)

lemma triple_read: "(\<And>s. P s \<Longrightarrow> Q (f s) s) \<Longrightarrow> triple P (read_state f) Q X"
  by (simp add: triple_def)

lemma triple_lift:
  "(\<And>s x. P s \<Longrightarrow> r = Inr x \<Longrightarrow> Q x s) \<Longrightarrow> (\<And>s. P s \<Longrightarrow> X s) \<Longrightarrow> triple P (lift_result r) Q X"
  by (auto simp: triple_def split: sum.split)

lemma triple_if [triple_rules]:
  "(b \<Longrightarrow> triple P m Q X) \<Longrightarrow> (\<not> b \<Longrightarrow> triple P n Q X) \<Longrightarrow> triple P (if b then m else n) Q X"
  by simp

end
