(* ===== verification/ResearchInvariants.thy ===== *)
theory ResearchInvariants
  imports ResearchExecution Triples
begin

text \<open>
  What the orchestrator keeps: every stored run has a hash-linked log whose statuses move
  along the lifecycle and end at the run's status, no more attempts per operation and source
  than the policy allows and no more in all than the units of budget used, one snapshot per
  content, its snapshot for every piece of evidence, and COMPLETED only where no source needs
  a second look and the usable evidence has been handed over.
\<close>

section \<open>Well-formed runs\<close>

fun research_chain :: "research_status \<Rightarrow> research_event list \<Rightarrow> bool" where
  "research_chain s [] = True"
| "research_chain s (e # es) = (rv_from_status e = s \<and>
     (rv_to_status e = s \<and> rv_event_type e = ''research.egress-decision'' \<or>
      rv_to_status e \<in> set (research_moves s) \<and> rv_event_type e = ''research.status-transitioned'') \<and>
     research_chain (rv_to_status e) es)"

definition research_end :: "research_event list \<Rightarrow> research_status" where
  "research_end es = (if es = [] then RS_CREATED else rv_to_status (last es))"

lemma research_chain_snoc:
  "research_chain s (es @ [e]) \<longleftrightarrow> research_chain s es \<and>
     rv_from_status e = (if es = [] then s else rv_to_status (last es)) \<and>
     (rv_to_status e = rv_from_status e \<and> rv_event_type e = ''research.egress-decision'' \<or>
      rv_to_status e \<in> set (research_moves (rv_from_status e)) \<and> rv_event_type e = ''research.status-transitioned'')"
  by (induction es arbitrary: s) auto

definition fully_handled :: "research_run \<Rightarrow> bool" where
  "fully_handled run =
     ((\<forall>x \<in> set (run_sources run). sc_status x \<notin> set partial_statuses) \<and>
      (filter eligible_evidence (run_evidence run) = [] \<or>
       run_compiled_decision_file_id run = Some (rq_decision_file_id (run_request run))))"

definition run_ok :: "research_env \<Rightarrow> research_run \<Rightarrow> bool" where
  "run_ok E run =
     (linked (research_event_hash (esha E)) rv_previous_event_hash (run_audit_events run) \<and>
      research_chain RS_CREATED (run_audit_events run) \<and>
      research_end (run_audit_events run) = run_status run \<and>
      (\<forall>operation sid. int (attempts_of operation sid run) \<le> max_attempts_per_operation (oe_policy E)) \<and>
      distinct (map ss_content_hash (run_snapshots run)) \<and>
      ec_snapshot_id ` set (run_evidence run) \<subseteq> ss_snapshot_id ` set (run_snapshots run) \<and>
      (run_status run = RS_COMPLETED \<longrightarrow> fully_handled run))"

definition budget_used :: "run_key \<Rightarrow> research_repo \<Rightarrow> int" where
  "budget_used k db = (case row_find fst k (rp_budget db) of None \<Rightarrow> 0 | Some p \<Rightarrow> snd p)"

definition within_budget :: "research_run \<Rightarrow> research_repo \<Rightarrow> bool" where
  "within_budget run db = (int (length (run_attempts run)) \<le> budget_used (run_key_of run) db)"

definition repo_ok :: "research_env \<Rightarrow> research_repo \<Rightarrow> bool" where
  "repo_ok E db =
     (distinct (map run_key_of (rp_runs db)) \<and>
      (\<forall>run \<in> set (rp_runs db). run_ok E run \<and> within_budget run db) \<and>
      (\<forall>k. 0 \<le> budget_used k db \<and> budget_used k db \<le> provider_budget (oe_policy E)))"

definition orch_ok :: "research_env \<Rightarrow> string \<Rightarrow> orch \<Rightarrow> bool" where
  "orch_ok E t s = (repo_ok E (ob_repo s) \<and> run_ok E (ob_run s) \<and> run_tenant_id (ob_run s) = t \<and>
     within_budget (ob_run s) (ob_repo s))"

definition stores_ok :: "research_env \<Rightarrow> orch \<Rightarrow> bool" where
  "stores_ok E s = repo_ok E (ob_repo s)"

lemma orch_ok_stores: "orch_ok E t s \<Longrightarrow> stores_ok E s"
  by (simp add: orch_ok_def stores_ok_def)

text \<open>
  The invariant of an execution under way, with the snapshots of the run fixed, and the
  computations that keep it.
\<close>

definition orch_at :: "research_env \<Rightarrow> string \<Rightarrow> source_snapshot list \<Rightarrow> orch \<Rightarrow> bool" where
  "orch_at E t sn s = (orch_ok E t s \<and> run_snapshots (ob_run s) = sn \<and> run_status (ob_run s) \<noteq> RS_COMPLETED)"

abbreviation keeps :: "research_env \<Rightarrow> string \<Rightarrow> source_snapshot list \<Rightarrow> 'a orchestration \<Rightarrow> bool" where
  "keeps E t sn m \<equiv> triple (orch_at E t sn) m (\<lambda>_. orch_at E t sn) (stores_ok E)"

lemma orch_at_stores: "orch_at E t sn s \<Longrightarrow> stores_ok E s"
  by (auto simp: orch_at_def intro: orch_ok_stores)

section \<open>Changes of the run in memory\<close>

text \<open>Fields the invariant does not read may change freely.\<close>

definition same_core :: "research_run \<Rightarrow> research_run \<Rightarrow> bool" where
  "same_core run run' = (run_id run' = run_id run \<and> run_tenant_id run' = run_tenant_id run \<and>
     run_audit_events run' = run_audit_events run \<and> run_status run' = run_status run \<and>
     map (\<lambda>a. (at_operation a, at_source_id a)) (run_attempts run') =
       map (\<lambda>a. (at_operation a, at_source_id a)) (run_attempts run) \<and>
     run_snapshots run' = run_snapshots run \<and>
     map ec_snapshot_id (run_evidence run') = map ec_snapshot_id (run_evidence run))"

lemma attempts_of_map:
  "attempts_of operation sid run =
     length (filter (\<lambda>p. p = (operation, sid)) (map (\<lambda>a. (at_operation a, at_source_id a)) (run_attempts run)))"
  unfolding attempts_of_def by (induction "run_attempts run" arbitrary: run) (auto simp: filter_map o_def)

lemma same_core_ok:
  assumes "same_core run run'"
  shows "run_ok E run \<Longrightarrow> run_status run \<noteq> RS_COMPLETED \<or> fully_handled run' \<Longrightarrow> run_ok E run'"
    and "within_budget run db \<Longrightarrow> within_budget run' db"
proof -
  have "attempts_of operation sid run' = attempts_of operation sid run" for operation sid
    using assms by (simp add: attempts_of_map same_core_def)
  moreover have "ec_snapshot_id ` set (run_evidence run') = ec_snapshot_id ` set (run_evidence run)"
    using assms unfolding same_core_def by (metis set_map)
  ultimately show "run_ok E run \<Longrightarrow> run_status run \<noteq> RS_COMPLETED \<or> fully_handled run' \<Longrightarrow> run_ok E run'" using assms by (auto simp: run_ok_def same_core_def)
  have "length (run_attempts run') = length (run_attempts run)"
    using assms unfolding same_core_def by (metis length_map)
  then show "within_budget run db \<Longrightarrow> within_budget run' db"
    using assms by (simp add: within_budget_def same_core_def run_key_of_def)
qed

lemma keeps_change_run:
  assumes "\<And>run. run_ok E run \<Longrightarrow> same_core run (f run)"
  shows "keeps E t sn (change_run f)"
proof (rule tripleI)
  fix s x s' assume ok: "orch_at E t sn s" and "change_run f s = (Inr x, s')"
  then have s': "s' = s\<lparr>ob_run := f (ob_run s)\<rparr>" by (simp add: change_run_def)
  have c: "same_core (ob_run s) (f (ob_run s))" using ok assms by (simp add: orch_at_def orch_ok_def)
  from ok same_core_ok [OF c] c show "orch_at E t sn s'" by (simp add: s' orch_at_def orch_ok_def same_core_def)
qed (simp add: change_run_def)

lemma run_ok_append:
  assumes "run_ok E run" and "rv_previous_event_hash e = research_previous (esha E) run"
    and "rv_from_status e = run_status run" and "rv_to_status e = status"
    and "status = run_status run \<and> rv_event_type e = ''research.egress-decision'' \<or>
      status \<in> set (research_moves (run_status run)) \<and> rv_event_type e = ''research.status-transitioned''"
    and "status = RS_COMPLETED \<Longrightarrow> fully_handled run"
  shows "run_ok E (append_event e (run\<lparr>run_status := status, run_updated_at := u\<rparr>))"
proof -
  have "research_chain RS_CREATED (run_audit_events run @ [e])"
    using assms by (auto simp: run_ok_def research_chain_snoc research_end_def)
  with assms show ?thesis
    by (auto simp: run_ok_def research_previous_head research_end_def attempts_of_def fully_handled_def append_event_def)
qed

lemma apply_transition_ok:
  assumes "run_ok E run" and "apply_transition (esha E) retry target tm actor reasons payload run = Inr run'"
    and "target = RS_COMPLETED \<Longrightarrow> fully_handled run"
  shows "run_ok E run'"
proof -
  have "target \<in> set (research_moves (run_status run))"
    using assms(2) by (auto simp: apply_transition_Inr_iff research_transition_iff research_moves_def)
  with assms show ?thesis
    unfolding apply_transition_Inr_iff by (auto intro!: run_ok_append simp: transition_research_event_def)
qed

lemma append_egress_ok:
  assumes "run_ok E run"
  shows "run_ok E (append_egress_decision (esha E) d run)"
proof -
  have "run_ok E (append_event (egress_event (esha E) d run)
      (run\<lparr>run_status := run_status run, run_updated_at := run_updated_at run\<rparr>))"
    by (rule run_ok_append) (use assms in \<open>simp_all add: egress_event_def run_ok_def\<close>)
  then show ?thesis by (simp add: append_egress_decision_def)
qed

lemma within_budget_cong:
  "run_attempts run' = run_attempts run \<Longrightarrow> run_tenant_id run' = run_tenant_id run \<Longrightarrow> run_id run' = run_id run \<Longrightarrow>
     within_budget run' db = within_budget run db"
  by (simp add: within_budget_def run_key_of_def)

section \<open>Primitive computations\<close>

named_theorems keeps_rules \<open>computations that keep the invariant\<close>

lemma keeps_bind [keeps_rules]:
  "keeps E t sn m \<Longrightarrow> (\<And>x. keeps E t sn (f x)) \<Longrightarrow> keeps E t sn (bind_action m f)"
  by (rule triple_bind)

lemma keeps_pure [keeps_rules]: "keeps E t sn (pure_action x)"
  by (rule triple_pure)

lemma keeps_raise [keeps_rules]: "keeps E t sn (raise_action e)"
  by (rule triple_raise) (rule orch_at_stores)

lemma keeps_read [keeps_rules]: "keeps E t sn (read_state f)"
  by (rule triple_read)

lemma keeps_lift [keeps_rules]: "keeps E t sn (lift_result r)"
  by (rule triple_lift) (auto intro: orch_at_stores)

lemma keeps_if [keeps_rules]:
  "keeps E t sn m \<Longrightarrow> keeps E t sn n \<Longrightarrow> keeps E t sn (if b then m else n)"
  by simp

lemma keeps_case_prod [keeps_rules]:
  "(\<And>a b. keeps E t sn (f a b)) \<Longrightarrow> keeps E t sn (case p of (a, b) \<Rightarrow> f a b)"
  by (cases p) simp

text \<open>Computations that touch neither the run nor the repository.\<close>

definition quiet :: "'a orchestration \<Rightarrow> bool" where
  "quiet m = (\<forall>s. ob_run (snd (m s)) = ob_run s \<and> ob_repo (snd (m s)) = ob_repo s)"

lemma quiet_triple:
  assumes "quiet m"
  shows "triple (\<lambda>s. orch_at E t sn s \<and> C (ob_run s)) m (\<lambda>_ s. orch_at E t sn s \<and> C (ob_run s)) (stores_ok E)"
proof (rule tripleI)
  fix s x s' assume "orch_at E t sn s \<and> C (ob_run s)" and "m s = (Inr x, s')"
  moreover from this assms have "ob_run s' = ob_run s" "ob_repo s' = ob_repo s" unfolding quiet_def by (metis snd_conv)+
  ultimately show "orch_at E t sn s' \<and> C (ob_run s')" by (simp add: orch_at_def orch_ok_def)
next
  fix s e s' assume "orch_at E t sn s \<and> C (ob_run s)" and "m s = (Inl e, s')"
  moreover from this assms have "ob_repo s' = ob_repo s" unfolding quiet_def by (metis snd_conv)
  ultimately show "stores_ok E s'" by (simp add: orch_at_def orch_ok_def stores_ok_def)
qed

lemma keeps_quiet: "quiet m \<Longrightarrow> keeps E t sn m"
  using quiet_triple [of m E t sn "\<lambda>_. True"] by simp

lemma quiet_reading: "quiet (reading f)"
  by (simp add: quiet_def reading_def)

lemma quiet_time: "quiet (orch_time E)"
  unfolding orch_time_def by (rule quiet_reading)

lemma quiet_active: "quiet (ensure_active E)"
  by (simp add: quiet_def ensure_active_def bind_action_def reading_def)

lemma quiet_circuit_admits: "quiet (circuit_admits E t p)"
  by (simp add: quiet_def circuit_admits_def bind_action_def reading_def split: sum.split exn.split)

lemma quiet_circuit_failed: "quiet (circuit_failed E t p r)"
  by (simp add: quiet_def circuit_failed_def bind_action_def reading_def split: sum.split)

lemma quiet_circuit_succeeded: "quiet (circuit_succeeded t p)"
  by (simp add: quiet_def circuit_succeeded_def split: sum.split)

lemmas quiet_rules = quiet_reading quiet_time quiet_active quiet_circuit_admits quiet_circuit_failed
  quiet_circuit_succeeded

lemmas keeps_quiets [keeps_rules] = quiet_rules [THEN keeps_quiet]

text \<open>Saving.\<close>

lemma fold_result_inv:
  assumes "\<And>x s s'. f x s = Inr s' \<Longrightarrow> g s' = g s"
  shows "fold_result f xs s = Inr s' \<Longrightarrow> g s' = g s"
  by (induction xs arbitrary: s) (auto simp: monad_simps dest: assms)

lemma fold_inv: "(\<And>x s. g (f x s) = g s) \<Longrightarrow> g (fold f xs s) = g s"
  by (induction xs arbitrary: s) auto

lemma save_snapshot_runs: "save_snapshot k x db = Inr db' \<Longrightarrow> (rp_runs db', rp_budget db') = (rp_runs db, rp_budget db)"
  by (auto simp: save_snapshot_def Let_def monad_simps split: if_splits)

lemma save_evidence_runs: "save_evidence k x db = Inr db' \<Longrightarrow> (rp_runs db', rp_budget db') = (rp_runs db, rp_budget db)"
  by (auto simp: save_evidence_def Let_def monad_simps split: if_splits)

lemma save_event_runs: "save_event k n x db = Inr db' \<Longrightarrow> (rp_runs db', rp_budget db') = (rp_runs db, rp_budget db)"
  by (auto simp: save_event_def monad_simps split: option.splits)

lemma research_save_runs:
  assumes "research_save t run db = Inr db'"
  shows "t = run_tenant_id run" and "run_key_of run \<in> run_key_of ` set (rp_runs db)"
    and "rp_runs db' = row_update run_key_of (run_key_of run) (\<lambda>_. run) (rp_runs db)"
    and "rp_budget db' = rp_budget db"
proof -
  let ?g = "\<lambda>db. (rp_runs db, rp_budget db)"
  from assms obtain db1 db3 db4 where 1: "save_run_row (t, run_id run) run db = Inr db1"
    and t: "t = run_tenant_id run"
    and 3: "fold_result (save_snapshot (t, run_id run)) (run_snapshots run)
      (fold (save_source (t, run_id run)) (run_sources run) db1) = Inr db3"
    and 4: "fold_result (save_evidence (t, run_id run)) (run_evidence run) db3 = Inr db4"
    and 5: "fold_result (\<lambda>(n, e). save_event (t, run_id run) n e)
      (zip (map (\<lambda>i. int i + 1) [0..<length (run_audit_events run)]) (run_audit_events run))
      (fold (save_attempt (t, run_id run)) (run_attempts run) db4) = Inr db'"
    by (auto simp: research_save_def assert_tenant_def monad_simps Let_def)
  have "?g db' = ?g (fold (save_attempt (t, run_id run)) (run_attempts run) db4)"
    by (rule fold_result_inv [OF _ 5]) (auto dest: save_event_runs)
  also have "\<dots> = ?g db4" by (rule fold_inv) (simp add: save_attempt_def)
  also have "\<dots> = ?g db3" by (rule fold_result_inv [OF _ 4]) (auto dest: save_evidence_runs)
  also have "\<dots> = ?g (fold (save_source (t, run_id run)) (run_sources run) db1)"
    by (rule fold_result_inv [OF _ 3]) (auto dest: save_snapshot_runs)
  also have "\<dots> = ?g db1" by (rule fold_inv) (simp add: save_source_def)
  finally have "?g db' = ?g db1" .
  with 1 t show "t = run_tenant_id run" "run_key_of run \<in> run_key_of ` set (rp_runs db)"
    "rp_runs db' = row_update run_key_of (run_key_of run) (\<lambda>_. run) (rp_runs db)" "rp_budget db' = rp_budget db"
    by (auto simp: save_run_row_def monad_simps run_key_of_def)
qed

lemma repo_ok_update:
  assumes "repo_ok E db" and "run_ok E run" and "within_budget run db" and "rp_budget db' = rp_budget db"
    and "rp_runs db' = row_update run_key_of (run_key_of run) (\<lambda>_. run) (rp_runs db)"
  shows "repo_ok E db'"
proof -
  have b: "budget_used k db' = budget_used k db" for k by (simp add: budget_used_def assms(4))
  have w: "within_budget r db' = within_budget r db" for r by (simp add: within_budget_def b)
  have "map run_key_of (rp_runs db') = map run_key_of (rp_runs db)"
    unfolding assms(5) by (simp add: row_update_def)
  moreover have "r = run \<or> r \<in> set (rp_runs db)" if "r \<in> set (rp_runs db')" for r
    using that unfolding assms(5) row_update_def by auto
  ultimately show ?thesis using assms(1-3) by (auto simp: repo_ok_def b w)
qed

definition stored :: "string \<Rightarrow> orch \<Rightarrow> bool" where
  "stored t s = (research_get t (run_id (ob_run s)) (ob_repo s) = Some (ob_run s))"

lemma save_run_triple:
  "triple (\<lambda>s. orch_ok E t s \<and> C (ob_run s)) (save_run t)
     (\<lambda>_ s. orch_ok E t s \<and> C (ob_run s) \<and> stored t s) (stores_ok E)"
proof (rule tripleI)
  fix s x s' assume ok: "orch_ok E t s \<and> C (ob_run s)" and "save_run t s = (Inr x, s')"
  then obtain repo where r: "research_save t (ob_run s) (ob_repo s) = Inr repo" "s' = s\<lparr>ob_repo := repo\<rparr>"
    by (auto simp: save_run_def split: sum.splits)
  note e = research_save_runs [OF r(1)]
  have "repo_ok E repo" by (rule repo_ok_update [OF _ _ _ e(4,3)]) (use ok in \<open>auto simp: orch_ok_def\<close>)
  moreover have "within_budget (ob_run s) repo = within_budget (ob_run s) (ob_repo s)"
    by (simp add: within_budget_def budget_used_def e(4))
  moreover have "row_find run_key_of (run_key_of (ob_run s)) (rp_runs repo) = Some (ob_run s)"
  proof -
    have "row_find run_key_of (run_key_of (ob_run s)) (rp_runs repo) \<noteq> None"
      using e(2) unfolding e(3) row_find_None_iff by (auto simp: row_update_def image_iff)
    then obtain q where q: "row_find run_key_of (run_key_of (ob_run s)) (rp_runs repo) = Some q" by blast
    then have "q \<in> set (rp_runs repo)" "run_key_of q = run_key_of (ob_run s)" by (auto dest: row_find_SomeD)
    then have "q = ob_run s" unfolding e(3) row_update_def by (auto split: if_splits)
    with q show ?thesis by simp
  qed
  ultimately show "orch_ok E t s' \<and> C (ob_run s') \<and> stored t s'"
    using ok e(1) r(2) by (simp add: orch_ok_def stored_def research_get_def run_key_of_def)
next
  fix s e s' assume "orch_ok E t s \<and> C (ob_run s)" and "save_run t s = (Inl e, s')"
  then show "stores_ok E s'" by (auto simp: save_run_def orch_ok_stores split: sum.splits)
qed

lemma keeps_save_run [keeps_rules]: "keeps E t sn (save_run t)"
  by (rule triple_weaken [OF save_run_triple [where C = "\<lambda>run. run_snapshots run = sn \<and> run_status run \<noteq> RS_COMPLETED"]])
    (auto simp: orch_at_def)

section \<open>Moves, attempts, egress decisions\<close>

lemma move_run_triple:
  "triple (\<lambda>s. orch_ok E t s \<and> (target = RS_COMPLETED \<longrightarrow> fully_handled (ob_run s)) \<and> run_snapshots (ob_run s) = sn)
     (move_run E retry target actor reasons payload)
     (\<lambda>_ s. orch_ok E t s \<and> run_status (ob_run s) = target \<and> run_snapshots (ob_run s) = sn) (stores_ok E)"
    (is "triple ?P _ _ _")
proof (rule tripleI)
  fix s x s' assume ok: "?P s" and "move_run E retry target actor reasons payload s = (Inr x, s')"
  then obtain tm run where run: "apply_transition (esha E) retry target tm actor reasons (payload (ob_run s)) (ob_run s) = Inr run"
    and s': "s' = s\<lparr>ob_reads := ob_reads s + 1, ob_run := run\<rparr>"
    by (auto simp: move_run_def bind_action_def orch_time_def reading_def split: sum.splits)
  from ok apply_transition_ok [OF _ run] have "run_ok E run" by (auto simp: orch_ok_def)
  moreover have f: "run_attempts run = run_attempts (ob_run s)" "run_tenant_id run = run_tenant_id (ob_run s)"
    "run_id run = run_id (ob_run s)" "run_snapshots run = run_snapshots (ob_run s)" "run_status run = target"
    using run by (auto simp: apply_transition_Inr_iff append_event_def)
  moreover have "within_budget run (ob_repo s)"
    using ok within_budget_cong [OF f(1-3)] by (auto simp: orch_ok_def)
  ultimately show "orch_ok E t s' \<and> run_status (ob_run s') = target \<and> run_snapshots (ob_run s') = sn"
    using ok by (auto simp: s' orch_ok_def)
next
  fix s e s' assume "?P s" and "move_run E retry target actor reasons payload s = (Inl e, s')"
  then show "stores_ok E s'"
    by (auto simp: move_run_def bind_action_def orch_time_def reading_def orch_ok_def stores_ok_def split: sum.splits)
qed

lemma keeps_move_run:
  "target \<noteq> RS_COMPLETED \<Longrightarrow> keeps E t sn (move_run E retry target actor reasons payload)"
  by (rule triple_weaken [OF move_run_triple]) (auto simp: orch_at_def)

lemmas keeps_moves [keeps_rules] =
  keeps_move_run [of RS_SEARCHING, simplified] keeps_move_run [of RS_SOURCES_DISCOVERED, simplified]
  keeps_move_run [of RS_EXTRACTING, simplified] keeps_move_run [of RS_EVIDENCE_COMPILED, simplified]
  keeps_move_run [of RS_PARTIALLY_COMPLETED, simplified] keeps_move_run [of RS_FAILED, simplified]

text \<open>Moving and saving: the run returned is stored, in the state moved to.\<close>

lemma move_save_triple:
  "triple (\<lambda>s. orch_ok E t s \<and> (target = RS_COMPLETED \<longrightarrow> fully_handled (ob_run s)))
     (bind_action (move_run E retry target actor reasons payload) (\<lambda>_. bind_action (save_run t) (\<lambda>_. read_state ob_run)))
     (\<lambda>run s. orch_ok E t s \<and> run = ob_run s \<and> run_status run = target \<and> stored t s) (stores_ok E)"
proof -
  have save: "triple (\<lambda>s. orch_ok E t s \<and> run_status (ob_run s) = target)
      (bind_action (save_run t) (\<lambda>_. read_state ob_run))
      (\<lambda>run s. orch_ok E t s \<and> run = ob_run s \<and> run_status run = target \<and> stored t s) (stores_ok E)"
    by (rule triple_bind [OF save_run_triple], rule triple_read) simp
  have "triple (\<lambda>s. orch_ok E t s \<and> (target = RS_COMPLETED \<longrightarrow> fully_handled (ob_run s)) \<and> run_snapshots (ob_run s) = sn)
     (bind_action (move_run E retry target actor reasons payload) (\<lambda>_. bind_action (save_run t) (\<lambda>_. read_state ob_run)))
     (\<lambda>run s. orch_ok E t s \<and> run = ob_run s \<and> run_status run = target \<and> stored t s) (stores_ok E)" for sn
    by (rule triple_bind [OF move_run_triple], rule triple_weaken [OF save]) auto
  then show ?thesis by (auto simp: triple_def)
qed

lemma keeps_record_error [keeps_rules]: "keeps E t sn (record_error e sid)"
  unfolding record_error_def by (rule keeps_change_run) (simp add: same_core_def)

lemma same_core_last_attempt:
  assumes "\<And>a. at_operation (f a) = at_operation a \<and> at_source_id (f a) = at_source_id a"
  shows "same_core run (change_last_attempt f run)"
proof -
  have "change_last_attempt f run = run\<lparr>run_attempts :=
      (if run_attempts run = [] then [] else butlast (run_attempts run) @ [f (last (run_attempts run))])\<rparr>" for f
    by (simp add: change_last_attempt_def split: list.split)
  with assms show ?thesis
    by (cases "run_attempts run" rule: rev_cases) (simp_all add: same_core_def)
qed

lemma keeps_attempts [keeps_rules]: "keeps E t sn succeed_attempt" "keeps E t sn (fail_attempt e)"
  unfolding succeed_attempt_def fail_attempt_def
  by (rule keeps_change_run, rule same_core_last_attempt, simp)+

lemma keeps_change_source [keeps_rules]: "keeps E t sn (change_run (change_source i f))"
  by (rule keeps_change_run) (simp add: same_core_def change_source_def)

lemma keeps_set_ids [keeps_rules]:
  "keeps E t sn (change_run (\<lambda>run. run\<lparr>run_actor_id := a, run_correlation_id := c\<rparr>))"
  by (rule keeps_change_run) (simp add: same_core_def)

lemma keeps_discovery [keeps_rules]: "keeps E t sn (change_run (store_discovery E response))"
  by (rule keeps_change_run) (simp add: same_core_def store_discovery_def)

lemma keeps_skip [keeps_rules]: "keeps E t sn (change_run (skip_unselected chosen))"
  by (rule keeps_change_run) (simp add: same_core_def skip_unselected_def Let_def)

lemma keeps_mark_conflicts [keeps_rules]: "keeps E t sn (change_run mark_conflicting_evidence)"
  by (rule keeps_change_run) (simp add: same_core_def mark_conflicting_evidence_def mark_evidence_def Let_def)

lemma keeps_append_egress: "keeps E t sn (change_run (append_egress_decision (esha E) d))"
proof (rule tripleI)
  fix s x s' assume ok: "orch_at E t sn s" and "change_run (append_egress_decision (esha E) d) s = (Inr x, s')"
  then have s': "s' = s\<lparr>ob_run := append_egress_decision (esha E) d (ob_run s)\<rparr>" by (simp add: change_run_def)
  have "within_budget (append_egress_decision (esha E) d (ob_run s)) (ob_repo s) = within_budget (ob_run s) (ob_repo s)"
    by (rule within_budget_cong) (simp_all add: append_egress_decision_def)
  with ok append_egress_ok [of E "ob_run s" d] show "orch_at E t sn s'"
    by (simp add: s' orch_at_def orch_ok_def) (simp add: append_egress_decision_def)
qed (simp add: change_run_def)

lemma keeps_record_egress: "keeps E t sn (record_egress E t ds)"
proof (induction ds)
  case (Cons d ds)
  have "keeps E t sn (\<lambda>s. case save_run t s of (Inl e, s') \<Rightarrow> (Inr False, s') | (Inr u, s') \<Rightarrow> record_egress E t ds s')"
    (is "keeps E t sn ?m")
  proof (rule tripleI)
    fix s x s' assume ok: "orch_at E t sn s" and m: "?m s = (Inr x, s')"
    show "orch_at E t sn s'"
    proof (cases "save_run t s")
      case (Pair r s1)
      show ?thesis
      proof (cases r)
        case (Inl e)
        with Pair have "s1 = s" by (auto simp: save_run_def split: sum.splits)
        with Inl Pair m ok show ?thesis by simp
      next
        case (Inr u)
        with Pair tripleD [OF keeps_save_run ok] have "orch_at E t sn s1" by blast
        with Inr Pair m show ?thesis by (auto dest: tripleD [OF Cons])
      qed
    qed
  next
    fix s e s' assume ok: "orch_at E t sn s" and m: "?m s = (Inl e, s')"
    then obtain s1 u where "save_run t s = (Inr u, s1)" "record_egress E t ds s1 = (Inl e, s')"
      by (auto split: prod.splits sum.splits)
    with tripleD [OF keeps_save_run ok] have "orch_at E t sn s1" by blast
    then show "stores_ok E s'" by (rule tripleX [OF Cons]) fact
  qed
  then show ?case unfolding record_egress.simps by (intro keeps_bind keeps_append_egress)
next
  case Nil
  show ?case unfolding record_egress.simps by (rule keeps_pure)
qed

lemma keeps_provider_call [keeps_rules]: "keeps E t sn (provider_call E t ask raised)"
  unfolding provider_call_def
  by (intro keeps_rules keeps_record_egress)

text \<open>
  A reservation adds one attempt and takes one unit of budget; it comes after the check that
  the operation may be attempted once more.
\<close>

lemma reserve_budget_effect:
  assumes "reserve_budget t rid limit db = Inr (used, db')"
  shows "rp_runs db' = rp_runs db" and "budget_used (t, rid) db < limit"
    and "budget_used k db' = budget_used k db + (if k = (t, rid) then 1 else 0)"
proof -
  from assms obtain p where p: "row_find fst (t, rid) (rp_budget db) = Some p" "snd p < limit" "used = snd p + 1"
    and db': "db' = db\<lparr>rp_budget := row_update fst (t, rid) (\<lambda>(k, u). (k, used)) (rp_budget db)\<rparr>"
    by (auto simp: reserve_budget_def monad_simps split: option.splits)
  from p db' show "rp_runs db' = rp_runs db" "budget_used (t, rid) db < limit" by (simp_all add: budget_used_def)
  have "row_find fst k (row_update fst (t, rid) (\<lambda>(k, u). (k, used)) (rp_budget db)) =
      (if k = (t, rid) then map_option (\<lambda>(k, u). (k, used)) (row_find fst (t, rid) (rp_budget db))
       else row_find fst k (rp_budget db))" for k
    by (rule row_update_find) auto
  with p show "budget_used k db' = budget_used k db + (if k = (t, rid) then 1 else 0)"
    by (auto simp: budget_used_def db' split: prod.split)
qed

definition started_attempt :: "research_env \<Rightarrow> string \<Rightarrow> string option \<Rightarrow> string \<Rightarrow> research_run \<Rightarrow> research_attempt" where
  "started_attempt E operation sid tm run = \<lparr>
     at_attempt_id = run_id run @ '':attempt:'' @ str_nat (length (run_attempts run) + 1),
     at_provider_id = provider_of E operation, at_operation = operation, at_status = ''STARTED'',
     at_occurred_at = tm, at_source_id = sid, at_reason_code = None\<rparr>"

lemma reserved_eq:
  "reserved E t operation sid s =
     (if oe_cancelled E (ob_reads s) then (Inl ResearchExecutionCancelled, s\<lparr>ob_reads := ob_reads s + 1\<rparr>)
      else case reserve_budget t (run_id (ob_run s)) (provider_budget (oe_policy E)) (ob_repo s) of
        Inl e \<Rightarrow> (if e = ValueError ''BUDGET_EXCEEDED'' then Inr False else Inl e, s\<lparr>ob_reads := ob_reads s + 1\<rparr>)
      | Inr p \<Rightarrow> (Inr True, s\<lparr>ob_reads := ob_reads s + 2, ob_repo := snd p, ob_run := (ob_run s)\<lparr>run_cost_units := fst p,
          run_attempts := run_attempts (ob_run s) @ [started_attempt E operation sid
            (oe_isoformat E (oe_clock E (ob_reads s + 1))) (ob_run s)]\<rparr>\<rparr>))"
  by (simp add: reserved_def reserve_def ensure_active_def bind_action_def reading_def orch_time_def
    change_run_def started_attempt_def split: sum.split prod.split)

lemma reserved_triple:
  "triple (\<lambda>s. orch_at E t sn s \<and> can_attempt E operation sid (ob_run s)) (reserved E t operation sid)
     (\<lambda>_. orch_at E t sn) (stores_ok E)"
proof (rule tripleI)
  fix s x s' assume ok: "orch_at E t sn s \<and> can_attempt E operation sid (ob_run s)"
    and r: "reserved E t operation sid s = (Inr x, s')"
  consider "ob_run s' = ob_run s" "ob_repo s' = ob_repo s"
    | used repo where "reserve_budget t (run_id (ob_run s)) (provider_budget (oe_policy E)) (ob_repo s) = Inr (used, repo)"
      "ob_repo s' = repo" "ob_run s' = (ob_run s)\<lparr>run_cost_units := used, run_attempts := run_attempts (ob_run s) @
        [started_attempt E operation sid (oe_isoformat E (oe_clock E (ob_reads s + 1))) (ob_run s)]\<rparr>"
    using r unfolding reserved_eq by (auto split: if_splits sum.splits)
  then show "orch_at E t sn s'"
  proof cases
    case 1
    with ok show ?thesis by (simp add: orch_at_def orch_ok_def)
  next
    case (2 used repo)
    note b = 2(1) and a = 2(3)
    note e = reserve_budget_effect [OF b]
    have k: "run_key_of (ob_run s) = (t, run_id (ob_run s))" using ok by (simp add: orch_at_def orch_ok_def run_key_of_def)
    have mono: "within_budget q (ob_repo s) \<Longrightarrow> within_budget q repo" for q
      by (auto simp: within_budget_def e(3))
    have "0 \<le> budget_used k repo \<and> budget_used k repo \<le> provider_budget (oe_policy E)" for k
      using ok e(2) by (cases k) (auto simp: e(3) orch_at_def orch_ok_def repo_ok_def)
    then have "repo_ok E repo" using ok mono by (auto simp: orch_at_def orch_ok_def repo_ok_def e(1))
    moreover have "run_ok E (ob_run s')"
      using ok by (auto simp: orch_at_def orch_ok_def run_ok_def a attempts_of_def can_attempt_def
        started_attempt_def)
    moreover have "within_budget (ob_run s') repo"
      using ok by (auto simp: within_budget_def a run_key_of_def e(3) orch_at_def orch_ok_def)
    ultimately show ?thesis using ok 2(2) by (simp add: orch_at_def orch_ok_def) (simp add: a)
  qed
next
  fix s e s' assume "orch_at E t sn s \<and> can_attempt E operation sid (ob_run s)"
    and "reserved E t operation sid s = (Inl e, s')"
  then show "stores_ok E s'"
    unfolding reserved_eq by (auto simp: orch_at_def orch_ok_def stores_ok_def split: sum.splits if_splits)
qed

end
