(* ===== verification/ResearchSafety.thy ===== *)
theory ResearchSafety
  imports ResearchInvariants
begin

text \<open>
  Every operation of the orchestrator keeps the invariant, and what holds of the run it
  returns: it is stored, it is in a state a caller can act on, and COMPLETED means what it says.
\<close>

section \<open>Discovery\<close>

text \<open>The shape discovery and extraction share: check, ask the breaker, reserve, go on.\<close>

lemma guarded_triple:
  assumes "\<And>e. triple (orch_at E t sn) (stop e) Q (stores_ok E)" and "triple (orch_at E t sn) go Q (stores_ok E)"
  shows "triple (orch_at E t sn) (bind_action (read_state (\<lambda>s. can_attempt E operation sid (ob_run s))) (\<lambda>may.
    if \<not> may then stop e1
    else bind_action (circuit_admits E t p) (\<lambda>admitted.
    if \<not> admitted then stop e2
    else bind_action (reserved E t operation sid) (\<lambda>got. if \<not> got then stop e3 else go)))) Q (stores_ok E)"
proof (rule triple_bind [where R = "\<lambda>may s. orch_at E t sn s \<and> (may \<longrightarrow> can_attempt E operation sid (ob_run s))"])
  show "triple (orch_at E t sn) (read_state (\<lambda>s. can_attempt E operation sid (ob_run s)))
     (\<lambda>may s. orch_at E t sn s \<and> (may \<longrightarrow> can_attempt E operation sid (ob_run s))) (stores_ok E)"
    by (rule triple_read) auto
  fix may
  let ?C = "\<lambda>s. orch_at E t sn s \<and> can_attempt E operation sid (ob_run s)"
  have "triple ?C (bind_action (circuit_admits E t p) (\<lambda>admitted. if \<not> admitted then stop e2
      else bind_action (reserved E t operation sid) (\<lambda>got. if \<not> got then stop e3 else go)))
      Q (stores_ok E)"
  proof (rule triple_bind [where R = "\<lambda>_. ?C"])
    show "triple ?C (circuit_admits E t p) (\<lambda>_. ?C) (stores_ok E)" by (rule quiet_triple) (rule quiet_circuit_admits)
    fix admitted
    have "triple ?C (bind_action (reserved E t operation sid) (\<lambda>got. if \<not> got then stop e3 else go))
        Q (stores_ok E)"
      by (rule triple_bind [OF reserved_triple]) (use assms in auto)
    moreover have "triple ?C (stop e2) Q (stores_ok E)"
      by (rule triple_weaken [OF assms(1)]) auto
    ultimately show "triple ?C (if \<not> admitted then stop e2
        else bind_action (reserved E t operation sid) (\<lambda>got. if \<not> got then stop e3 else go))
        Q (stores_ok E)" by simp
  qed
  moreover note assms(1) [of e1]
  ultimately show "triple (\<lambda>s. orch_at E t sn s \<and> (may \<longrightarrow> can_attempt E operation sid (ob_run s)))
      (if \<not> may then stop e1 else bind_action (circuit_admits E t p) (\<lambda>admitted. if \<not> admitted then stop e2
      else bind_action (reserved E t operation sid) (\<lambda>got. if \<not> got then stop e3 else go)))
      Q (stores_ok E)" by simp
qed

lemma keeps_guarded: "(\<And>e. keeps E t sn (stop e)) \<Longrightarrow> keeps E t sn go \<Longrightarrow>
   keeps E t sn (bind_action (read_state (\<lambda>s. can_attempt E operation sid (ob_run s))) (\<lambda>may.
    if \<not> may then stop e1
    else bind_action (circuit_admits E t p) (\<lambda>admitted.
    if \<not> admitted then stop e2
    else bind_action (reserved E t operation sid) (\<lambda>got. if \<not> got then stop e3 else go))))"
  by (rule guarded_triple)

text \<open>Discovery either goes on or has failed the run and stored it.\<close>

abbreviation discovered :: "research_env \<Rightarrow> string \<Rightarrow> source_snapshot list \<Rightarrow> bool \<Rightarrow> orch \<Rightarrow> bool" where
  "discovered E t sn found s \<equiv> orch_at E t sn s \<and> (found \<or> run_status (ob_run s) = RS_FAILED \<and> stored t s)"

lemma fail_run_triple:
  "triple (orch_at E t sn) (fail_run E t actor reason) (\<lambda>_. discovered E t sn False) (stores_ok E)"
proof -
  have save: "triple (\<lambda>s. orch_ok E t s \<and> run_status (ob_run s) = RS_FAILED \<and> run_snapshots (ob_run s) = sn) (save_run t)
      (\<lambda>_. discovered E t sn False) (stores_ok E)"
    by (rule triple_weaken [OF save_run_triple
      [where C = "\<lambda>run. run_status run = RS_FAILED \<and> run_snapshots run = sn"]]) (auto simp: orch_at_def)
  have "triple (\<lambda>s. orch_ok E t s \<and> (RS_FAILED = RS_COMPLETED \<longrightarrow> fully_handled (ob_run s)) \<and> run_snapshots (ob_run s) = sn)
      (fail_run E t actor reason) (\<lambda>_. discovered E t sn False) (stores_ok E)"
    unfolding fail_run_def by (rule triple_bind [OF move_run_triple save])
  then show ?thesis by (rule triple_weaken) (auto simp: orch_at_def)
qed

lemma search_stopped_triple:
  "triple (orch_at E t sn) (search_stopped E t actor e) (discovered E t sn) (stores_ok E)"
  unfolding search_stopped_def
  by (rule triple_bind [OF keeps_record_error triple_bind [OF fail_run_triple triple_pure]])

lemma search_failed_triple:
  "triple (orch_at E t sn) (search_failed E t actor e) (discovered E t sn) (stores_ok E)"
  unfolding search_failed_def
  by (rule triple_bind [OF keeps_quiet [OF quiet_active] triple_bind [OF keeps_quiet [OF quiet_circuit_failed]
    triple_bind [OF keeps_attempts(2) search_stopped_triple]]])

lemma search_succeeded_triple:
  "triple (orch_at E t sn) (search_succeeded E t actor r) (discovered E t sn) (stores_ok E)"
proof -
  have last: "triple (orch_at E t sn) (pure_action True) (discovered E t sn) (stores_ok E)" by (rule triple_pure) simp
  show ?thesis
    unfolding search_succeeded_def
    by (rule triple_bind [OF keeps_quiet [OF quiet_active] triple_bind [OF keeps_quiet [OF quiet_circuit_succeeded]
      triple_bind [OF keeps_attempts(1) triple_bind [OF keeps_discovery triple_bind [OF keeps_moves(2)
      triple_bind [OF keeps_save_run last]]]]]])
qed

lemma discover_triple: "triple (orch_at E t sn) (discover E t actor) (discovered E t sn) (stores_ok E)"
proof -
  have answered: "triple (orch_at E t sn) (case answer of Search_failed e \<Rightarrow> search_failed E t actor e
      | Search_raised \<Rightarrow> search_failed E t actor (simple_error (oe_search_id E) ''PROVIDER_UNAVAILABLE'' True)
      | Search_ok response \<Rightarrow> search_succeeded E t actor response) (discovered E t sn) (stores_ok E)" for answer
    by (cases answer) (simp_all add: search_failed_triple search_succeeded_triple)
  show ?thesis
    unfolding discover_def
    by (rule triple_bind [OF keeps_quiet [OF quiet_active]], rule guarded_triple [OF search_stopped_triple],
      rule triple_bind [OF keeps_read triple_bind [OF keeps_provider_call answered]])
qed

section \<open>Extraction\<close>

lemma keeps_stopped [keeps_rules]:
  "keeps E t sn (extraction_stopped i e)" "keeps E t sn (extraction_failed E t i e)"
  "keeps E t sn (content_rejected i reason)"
  unfolding extraction_failed_def content_rejected_def extraction_stopped_def mark_citation_only_def current_source_def
  by (intro keeps_rules)+

lemma keeps_accept_content [keeps_rules]: "keeps E t sn (accept_content E t i source req content)"
  unfolding accept_content_def by (auto split: sum.split intro!: keeps_rules)

lemma keeps_cached [keeps_rules]: "keeps E t sn (cached_snapshot E t source)"
  unfolding cached_snapshot_def by (intro keeps_rules)

lemma keeps_fetch_snapshot [keeps_rules]: "keeps E t sn (fetch_snapshot E t i source)"
proof -
  have "keeps E t sn (case answer of
       Extract_raised \<Rightarrow> extraction_failed E t i (simple_error (oe_extract_id E) ''PROVIDER_UNAVAILABLE'' True)
     | Extract_ok (Extraction_failed e) \<Rightarrow> extraction_failed E t i e
     | Extract_ok (Extracted content) \<Rightarrow> accept_content E t i source req content)" for answer req
    by (auto split: extract_outcome.split extraction_response.split intro!: keeps_rules)
  then show ?thesis unfolding fetch_snapshot_def by (intro keeps_guarded keeps_rules) assumption+
qed

lemma keeps_obtain_snapshot [keeps_rules]: "keeps E t sn (obtain_snapshot E t i)"
proof -
  have "keeps E t sn (case cached of Some c \<Rightarrow> pure_action (Some (rebased_snapshot source c))
     | None \<Rightarrow> fetch_snapshot E t i source)" for cached source
    by (cases cached) (simp_all add: keeps_rules del: action_simps)
  then show ?thesis unfolding obtain_snapshot_def current_source_def by (intro keeps_rules) assumption
qed

lemma add_evidence_fields:
  "run_id (add_evidence E t i snapshot now run) = run_id run"
  "run_tenant_id (add_evidence E t i snapshot now run) = run_tenant_id run"
  "run_audit_events (add_evidence E t i snapshot now run) = run_audit_events run"
  "run_status (add_evidence E t i snapshot now run) = run_status run"
  "run_attempts (add_evidence E t i snapshot now run) = run_attempts run"
  "run_snapshots (add_evidence E t i snapshot now run) = run_snapshots run @ [snapshot]"
  "set (run_evidence (add_evidence E t i snapshot now run)) \<subseteq> set (run_evidence run) \<union>
     {e. ec_snapshot_id e = ss_snapshot_id snapshot}"
  by (auto simp: add_evidence_def change_source_def evidence_of_def Let_def)

lemma add_evidence_triple:
  assumes "ss_content_hash snapshot \<notin> ss_content_hash ` set sn"
  shows "triple (orch_at E t sn) (change_run (add_evidence E t i snapshot now))
    (\<lambda>_. orch_at E t (sn @ [snapshot])) (stores_ok E)"
proof (rule tripleI)
  fix s x s' assume ok: "orch_at E t sn s" and "change_run (add_evidence E t i snapshot now) s = (Inr x, s')"
  then have s': "s' = s\<lparr>ob_run := add_evidence E t i snapshot now (ob_run s)\<rparr>" by (simp add: change_run_def)
  note f = add_evidence_fields [of E t i snapshot now "ob_run s"]
  have "ec_snapshot_id ` set (run_evidence (ob_run s)) \<subseteq> ss_snapshot_id ` set (run_snapshots (ob_run s))"
    using ok by (auto simp: orch_at_def orch_ok_def run_ok_def)
  with f(7) have "ec_snapshot_id ` set (run_evidence (add_evidence E t i snapshot now (ob_run s))) \<subseteq>
      insert (ss_snapshot_id snapshot) (ss_snapshot_id ` set (run_snapshots (ob_run s)))" by blast
  then have "run_ok E (add_evidence E t i snapshot now (ob_run s))"
    using ok assms by (auto simp: run_ok_def f(1-6) orch_at_def orch_ok_def attempts_of_def)
  moreover have "within_budget (add_evidence E t i snapshot now (ob_run s)) (ob_repo s) = within_budget (ob_run s) (ob_repo s)"
    by (rule within_budget_cong) (simp_all add: f)
  ultimately show "orch_at E t (sn @ [snapshot]) s'" using ok by (simp add: s' orch_at_def orch_ok_def f)
qed (simp add: change_run_def)

text \<open>An execution under way, whatever its snapshots.\<close>

definition under_way :: "research_env \<Rightarrow> string \<Rightarrow> orch \<Rightarrow> bool" where
  "under_way E t s = (orch_ok E t s \<and> run_status (ob_run s) \<noteq> RS_COMPLETED)"

lemma under_way_at: "under_way E t s \<longleftrightarrow> orch_at E t (run_snapshots (ob_run s)) s"
  by (auto simp: under_way_def orch_at_def)

lemma under_wayI_with:
  assumes "\<And>sn. triple (\<lambda>s. orch_at E t sn s \<and> C (ob_run s)) m Q X"
  shows "triple (\<lambda>s. under_way E t s \<and> C (ob_run s)) m Q X"
  unfolding under_way_at
  by (rule tripleI; elim conjE) (rule tripleD [OF assms] tripleX [OF assms], (rule conjI; assumption), assumption)+

lemma under_wayI:
  assumes "\<And>sn. triple (orch_at E t sn) m Q X"
  shows "triple (under_way E t) m Q X"
  by (rule under_wayI_with [where C = "\<lambda>_. True", simplified]) (rule assms)

lemma keeps_under_way:
  assumes "\<And>sn. keeps E t sn m"
  shows "triple (under_way E t) m (\<lambda>_. under_way E t) (stores_ok E)"
  by (rule under_wayI, rule triple_weaken [OF assms]) (auto simp: under_way_def orch_at_def)

lemma collect_triple:
  "ss_content_hash ` set sn \<subseteq> set seen \<Longrightarrow>
     triple (orch_at E t sn) (collect_sources E t is seen) (\<lambda>_. under_way E t) (stores_ok E)"
proof (induction "is" arbitrary: seen sn)
  case Nil
  show ?case unfolding collect_sources.simps by (rule triple_pure) (simp add: under_way_def orch_at_def)
next
  case (Cons i "is")
  have next_sources: "triple (orch_at E t sn) (if ss_content_hash snapshot \<in> set seen
      then bind_action (change_run (change_source i (\<lambda>s. s\<lparr>sc_status := ''DUPLICATE_CONTENT'',
        sc_reason_codes := [''CONTENT_DUPLICATE'']\<rparr>))) (\<lambda>_. collect_sources E t is seen)
      else bind_action (reading (oe_clock E)) (\<lambda>now. bind_action (change_run (add_evidence E t i snapshot now))
        (\<lambda>_. collect_sources E t is (ss_content_hash snapshot # seen)))) (\<lambda>_. under_way E t) (stores_ok E)" for snapshot
  proof (cases "ss_content_hash snapshot \<in> set seen")
    case True
    with triple_bind [OF keeps_change_source Cons.IH [OF Cons.prems]] show ?thesis by simp
  next
    case False
    with Cons.prems have new: "ss_content_hash snapshot \<notin> ss_content_hash ` set sn" by blast
    have "triple (orch_at E t (sn @ [snapshot])) (collect_sources E t is (ss_content_hash snapshot # seen))
        (\<lambda>_. under_way E t) (stores_ok E)"
      by (rule Cons.IH) (use Cons.prems in auto)
    from triple_bind [OF add_evidence_triple [OF new] this]
    have "triple (orch_at E t sn) (bind_action (reading (oe_clock E)) (\<lambda>now.
        bind_action (change_run (add_evidence E t i snapshot now))
        (\<lambda>_. collect_sources E t is (ss_content_hash snapshot # seen)))) (\<lambda>_. under_way E t) (stores_ok E)"
      by (intro triple_bind [OF keeps_quiet [OF quiet_reading]])
    with False show ?thesis by simp
  qed
  then have "triple (orch_at E t sn) (case found of None \<Rightarrow> collect_sources E t is seen
     | Some snapshot \<Rightarrow> bind_action (ensure_active E) (\<lambda>_.
       if ss_content_hash snapshot \<in> set seen
       then bind_action (change_run (change_source i (\<lambda>s. s\<lparr>sc_status := ''DUPLICATE_CONTENT'',
         sc_reason_codes := [''CONTENT_DUPLICATE'']\<rparr>))) (\<lambda>_. collect_sources E t is seen)
       else bind_action (reading (oe_clock E)) (\<lambda>now. bind_action (change_run (add_evidence E t i snapshot now))
         (\<lambda>_. collect_sources E t is (ss_content_hash snapshot # seen))))) (\<lambda>_. under_way E t) (stores_ok E)" for found
  proof (cases found)
    case None
    with Cons.IH [OF Cons.prems] show ?thesis by simp
  next
    case (Some snapshot)
    show ?thesis unfolding Some option.case by (rule triple_bind [OF keeps_quiet [OF quiet_active]]) (rule next_sources)
  qed
  then show ?case
    unfolding collect_sources.simps
    by (intro triple_bind [OF keeps_quiet [OF quiet_active]] triple_bind [OF keeps_obtain_snapshot])
qed

section \<open>Finalization\<close>

lemma attach_effect:
  assumes "attach_to_decision E t compiled s = (r, s')"
  shows "ob_repo s' = ob_repo s" and "same_core (ob_run s) (ob_run s')"
    and "run_sources (ob_run s') = run_sources (ob_run s)" and "run_evidence (ob_run s') = run_evidence (ob_run s)"
    and "run_request (ob_run s') = run_request (ob_run s)"
    and "r = Inr u \<Longrightarrow> run_compiled_decision_file_id (ob_run s') = Some (rq_decision_file_id (run_request (ob_run s)))"
    and "r = Inl e \<Longrightarrow> ob_run s' = ob_run s"
  using assms unfolding attach_to_decision_def bind_action_def reading_def
  by (auto simp: Let_def same_core_def split: sum.splits prod.splits)

text \<open>Attaching keeps the invariant in every state a handoff may start from.\<close>

lemma attach_ok:
  assumes "attach_to_decision E t compiled s = (r, s')" and "orch_ok E t s"
  shows "orch_ok E t s'"
proof (cases r)
  case (Inl e)
  with assms attach_effect(1,7) [OF assms(1)] show ?thesis by (simp add: orch_ok_def)
next
  case (Inr u)
  note e = attach_effect [OF assms(1)]
  have h: "run_status (ob_run s) \<noteq> RS_COMPLETED \<or> fully_handled (ob_run s')"
    using assms(2) e(6) [OF Inr] by (auto simp: orch_ok_def run_ok_def fully_handled_def e(3-5))
  show ?thesis
    using assms(2) same_core_ok(1) [OF e(2) _ h] same_core_ok(2) [OF e(2)] e(1,2)
    by (simp add: orch_ok_def same_core_def)
qed

lemma try_handoff_triple:
  "triple (\<lambda>s. under_way E t s \<and> (compiled = [] \<longrightarrow> filter eligible_evidence (run_evidence (ob_run s)) = []))
     (try_handoff E t compiled)
     (\<lambda>failed s. under_way E t s \<and> (failed \<or> filter eligible_evidence (run_evidence (ob_run s)) = [] \<or>
        run_compiled_decision_file_id (ob_run s) = Some (rq_decision_file_id (run_request (ob_run s)))))
     (stores_ok E)" (is "triple ?P _ ?Q _")
proof (cases "compiled = []")
  case True
  then show ?thesis unfolding try_handoff_def by (auto intro: triple_pure)
next
  case False
  let ?m = "\<lambda>s. case attach_to_decision E t compiled s of (Inr u, s') \<Rightarrow> (Inr False, s')
    | (Inl e, s') \<Rightarrow> (case handoff_reason e of None \<Rightarrow> (Inl e, s')
      | Some reason \<Rightarrow> (Inr True, s'\<lparr>ob_run := (ob_run s')\<lparr>run_errors := run_errors (ob_run s') @
          [\<lparr>re_reason_code = reason, re_provider = None, re_source_id = None\<rparr>]\<rparr>\<rparr>))"
  have "triple (under_way E t) ?m ?Q (stores_ok E)"
  proof (rule tripleI)
    fix s x s' assume u: "under_way E t s" and m: "?m s = (Inr x, s')"
    obtain r s1 where a: "attach_to_decision E t compiled s = (r, s1)" by (cases "attach_to_decision E t compiled s")
    have ok: "under_way E t s1"
      using u attach_ok [OF a] attach_effect(2) [OF a] by (simp add: under_way_def same_core_def)
    show "?Q x s'"
    proof (cases r)
      case (Inr u)
      with a m ok attach_effect(5,6) [OF a] show ?thesis by simp
    next
      case (Inl e)
      with a m obtain reason where x: "x" "s' = s1\<lparr>ob_run := (ob_run s1)\<lparr>run_errors := run_errors (ob_run s1) @
          [\<lparr>re_reason_code = reason, re_provider = None, re_source_id = None\<rparr>]\<rparr>\<rparr>"
        by (auto split: option.splits)
      have "same_core (ob_run s1) (ob_run s')" by (simp add: x same_core_def)
      with ok x same_core_ok [OF this] show ?thesis by (simp add: under_way_def orch_ok_def)
    qed
  next
    fix s e s' assume u: "under_way E t s" and m: "?m s = (Inl e, s')"
    obtain r s1 where a: "attach_to_decision E t compiled s = (r, s1)" by (cases "attach_to_decision E t compiled s")
    with m have "s' = s1" by (auto split: sum.splits option.splits)
    with u attach_ok [OF a] show "stores_ok E s'" by (auto simp: under_way_def intro: orch_ok_stores)
  qed
  then have "triple (under_way E t) (bind_action (ensure_active E) (\<lambda>_. ?m)) ?Q (stores_ok E)"
    by (rule triple_bind [OF keeps_under_way [OF keeps_quiet [OF quiet_active]]])
  with False show ?thesis unfolding try_handoff_def by (auto intro: triple_weaken)
qed

text \<open>What a caller gets: the stored run, in a state to act on.\<close>

abbreviation settled :: "research_env \<Rightarrow> string \<Rightarrow> research_run \<Rightarrow> orch \<Rightarrow> bool" where
  "settled E t run s \<equiv> orch_ok E t s \<and> run = ob_run s \<and>
     run_status run \<in> {RS_FAILED, RS_PARTIALLY_COMPLETED, RS_COMPLETED} \<and> stored t s"

lemma finish_triple:
  assumes "target \<in> {RS_FAILED, RS_PARTIALLY_COMPLETED, RS_COMPLETED}"
    and "\<And>s. P s \<Longrightarrow> orch_ok E t s \<and> (target = RS_COMPLETED \<longrightarrow> fully_handled (ob_run s))"
  shows "triple P (bind_action (move_run E retry target actor reasons payload)
    (\<lambda>_. bind_action (save_run t) (\<lambda>_. read_state ob_run))) (settled E t) (stores_ok E)"
  by (rule triple_weaken [OF move_save_triple]) (use assms in auto)

lemma conclude_triple:
  "triple (\<lambda>s. under_way E t s \<and> (failed \<or> filter eligible_evidence (run_evidence (ob_run s)) = [] \<or>
        run_compiled_decision_file_id (ob_run s) = Some (rq_decision_file_id (run_request (ob_run s)))))
     (conclude E t actor failed handed) (settled E t) (stores_ok E)"
proof -
  let ?H = "\<lambda>run. failed \<or> filter eligible_evidence (run_evidence run) = [] \<or>
    run_compiled_decision_file_id run = Some (rq_decision_file_id (run_request run))"
  let ?p = "\<lambda>s. failed \<or> list_ex (\<lambda>x. sc_status x \<in> set partial_statuses) (run_sources (ob_run s))"
  show ?thesis
    unfolding conclude_def
  proof (rule under_wayI_with [where C = ?H], rule triple_bind [OF quiet_triple [OF quiet_active, where C = ?H]],
      rule triple_bind [where R = "\<lambda>partial s. (under_way E t s \<and> ?H (ob_run s)) \<and> partial = ?p s"])
    fix sn
    show "triple (\<lambda>s. orch_at E t sn s \<and> ?H (ob_run s)) (read_state ?p)
        (\<lambda>partial s. (under_way E t s \<and> ?H (ob_run s)) \<and> partial = ?p s) (stores_ok E)"
      by (rule triple_read) (simp add: under_way_def orch_at_def)
  qed (rule finish_triple, auto simp: under_way_def fully_handled_def list_ex_iff)
qed

lemma compile_nothing: "compile_evidence run = Inr [] \<Longrightarrow> filter eligible_evidence (run_evidence run) = []"
  by (simp add: compile_evidence_def traverse_Inr_iff)

lemma finalize_triple: "triple (under_way E t) (finalize_run E t actor) (settled E t) (stores_ok E)"
proof -
  have compiled: "triple (under_way E t) (\<lambda>s. (compile_evidence (ob_run s), s))
      (\<lambda>compiled s. under_way E t s \<and> (compiled = [] \<longrightarrow> filter eligible_evidence (run_evidence (ob_run s)) = []))
      (stores_ok E)"
    by (rule tripleI) (auto simp: under_way_def dest: compile_nothing intro: orch_ok_stores)
  have failed: "triple (under_way E t) (bind_action (fail_run E t actor reason) (\<lambda>_. read_state ob_run))
      (settled E t) (stores_ok E)" for reason
    by (rule under_wayI, rule triple_bind [OF fail_run_triple], rule triple_read) (auto simp: orch_at_def)
  have citations: "triple (under_way E t) (bind_action (move_run E False RS_PARTIALLY_COMPLETED actor reasons payload)
      (\<lambda>_. bind_action (save_run t) (\<lambda>_. read_state ob_run))) (settled E t) (stores_ok E)" for reasons payload
    by (rule finish_triple) (simp_all add: under_way_def)
  note handed = triple_bind [OF try_handoff_triple conclude_triple]
  have evidence: "triple (under_way E t) (bind_action (move_run E False RS_EVIDENCE_COMPILED actor reasons payload) (\<lambda>_.
      bind_action (change_run mark_conflicting_evidence) (\<lambda>_.
      bind_action (\<lambda>s. (compile_evidence (ob_run s), s)) (\<lambda>compiled.
      bind_action (try_handoff E t compiled) (\<lambda>failed. conclude E t actor failed (length compiled))))))
      (settled E t) (stores_ok E)" for reasons payload
    by (rule triple_bind [OF keeps_under_way [OF keeps_moves(4)]
      triple_bind [OF keeps_under_way [OF keeps_mark_conflicts] triple_bind [OF compiled handed]]])
  show ?thesis
    unfolding finalize_run_def
    by (rule triple_bind [OF keeps_under_way [OF keeps_quiet [OF quiet_active]]],
      rule triple_bind [OF keeps_under_way [OF keeps_read]])
      (auto simp only: split: prod.split intro!: triple_if failed citations evidence)
qed

lemma extract_and_finalize_triple:
  "triple (under_way E t) (extract_and_finalize E t actor retry_only) (settled E t) (stores_ok E)"
proof (rule under_wayI)
  fix sn
  have seen: "triple (orch_at E t sn) (read_state (\<lambda>s. map ss_content_hash (run_snapshots (ob_run s))))
      (\<lambda>seen s. orch_at E t sn s \<and> ss_content_hash ` set sn \<subseteq> set seen) (stores_ok E)"
    by (rule triple_read) (simp add: orch_at_def)
  have collect: "triple (\<lambda>s. orch_at E t sn s \<and> ss_content_hash ` set sn \<subseteq> set seen)
      (collect_sources E t chosen seen) (\<lambda>_. under_way E t) (stores_ok E)" for chosen seen
    by (cases "ss_content_hash ` set sn \<subseteq> set seen") (simp_all add: collect_triple, simp add: triple_def)
  have skip: "keeps E t sn (if retry_only then pure_action () else change_run (skip_unselected chosen))" for chosen
    by (rule keeps_if [OF keeps_pure keeps_skip])
  show "triple (orch_at E t sn) (extract_and_finalize E t actor retry_only) (settled E t) (stores_ok E)"
    unfolding extract_and_finalize_def
    by (rule triple_bind [OF keeps_quiet [OF quiet_active] triple_bind [OF keeps_read triple_bind [OF skip
      triple_bind [OF seen triple_bind [OF collect finalize_triple]]]]])
qed

section \<open>The operations callers use\<close>

lemma keeps_start_extraction: "keeps E t sn (start_extraction E t actor retry)"
  unfolding start_extraction_def by (intro keeps_rules)

lemma run_research_triple: "triple (under_way E t) (run_research E t actor) (settled E t) (stores_ok E)"
proof (rule under_wayI)
  fix sn
  have on: "triple (orch_at E t sn) (bind_action (ensure_active E) (\<lambda>_. bind_action (start_extraction E t actor False) (\<lambda>_.
      extract_and_finalize E t actor False))) (settled E t) (stores_ok E)"
    by (rule triple_weaken [OF triple_bind [OF keeps_under_way [OF keeps_quiet [OF quiet_active]]
      triple_bind [OF keeps_under_way [OF keeps_start_extraction] extract_and_finalize_triple]]])
      (auto simp: under_way_def orch_at_def)
  have off: "triple (discovered E t sn False) (read_state ob_run) (settled E t) (stores_ok E)"
    by (rule triple_read) (auto simp: orch_at_def)
  show "triple (orch_at E t sn) (run_research E t actor) (settled E t) (stores_ok E)"
    unfolding run_research_def
  proof (rule triple_bind [OF discover_triple])
    fix found
    show "triple (discovered E t sn found) (if \<not> found then read_state ob_run
        else bind_action (ensure_active E) (\<lambda>_. bind_action (start_extraction E t actor False) (\<lambda>_.
          extract_and_finalize E t actor False))) (settled E t) (stores_ok E)"
      using off on by (cases found) (simp_all only: simp_thms if_True if_False)
  qed
qed

text \<open>What \<^verbatim>\<open>create_or_get\<close> and \<^verbatim>\<open>get\<close> return is stored.\<close>

lemma stored_run:
  assumes "repo_ok E db" and "run \<in> set (rp_runs db)"
  shows "run_ok E run" and "within_budget run db" and "research_get (run_tenant_id run) (run_id run) db = Some run"
  using assms row_find_distinct [of run_key_of "rp_runs db" run]
  by (auto simp: repo_ok_def research_get_def run_key_of_def)

lemma create_or_get_cases:
  assumes "create_or_get t proposed db = Inr (run, db')"
  obtains "run \<in> set (rp_runs db)" "run_tenant_id run = t" "db' = db"
  | "run = proposed" "run_tenant_id run = t" "row_insert run_key_of proposed (rp_runs db) = Inr (rp_runs db')"
    "row_insert fst (run_key_of proposed, 0) (rp_budget db) = Inr (rp_budget db')"
proof -
  have t: "run_tenant_id proposed = t" using assms by (auto simp: create_or_get_def assert_tenant_def monad_simps)
  let ?a = "\<lambda>r. run_tenant_id r = t \<and> run_fingerprint r = run_fingerprint proposed"
  let ?b = "\<lambda>r. run_tenant_id r = t \<and> rq_decision_file_id (run_request r) = rq_decision_file_id (run_request proposed) \<and>
    run_request r = run_request proposed \<and> run_expected_document_hash r = run_expected_document_hash proposed"
  note f = assms [unfolded create_or_get_def assert_tenant_def]
  show thesis
  proof (cases "List.find ?a (rp_runs db)")
    case (Some r)
    with f t have "run = r" "db' = db" by (simp_all add: monad_simps)
    with find_Some_set [OF Some] show thesis by (intro that(1)) simp_all
  next
    case None
    show thesis
    proof (cases "List.find ?b (rp_runs db)")
      case (Some r)
      with f t None have "run = r" "db' = db" by (simp_all add: monad_simps)
      with find_Some_set [OF Some] show thesis by (intro that(1)) simp_all
    next
      case bNone: None
      with f t None show thesis by (intro that(2)) (auto simp: monad_simps)
    qed
  qed
qed

lemma create_or_get_ok:
  assumes "repo_ok E db" and "1 \<le> max_attempts_per_operation (oe_policy E)" and "1 \<le> provider_budget (oe_policy E)"
    and "create_or_get t proposed db = Inr (run, db')" and "run_status proposed = RS_CREATED"
    and "run_audit_events proposed = []" and "run_attempts proposed = []" and "run_snapshots proposed = []"
    and "run_evidence proposed = []"
  shows "repo_ok E db'" and "run \<in> set (rp_runs db')" and "run_tenant_id run = t"
    and "run = proposed \<or> run \<in> set (rp_runs db)"
proof -
  note cases = create_or_get_cases [OF assms(4)]
  show "repo_ok E db'"
  proof (cases rule: cases)
    case 1
    with assms(1) show ?thesis by simp
  next
    case 2
    have new: "run_ok E proposed"
      using assms(2,5-) by (simp add: run_ok_def research_end_def attempts_of_def)
    have b: "budget_used k db' = (if k = run_key_of proposed then 0 else budget_used k db)" for k
      using row_insert_find [OF 2(4), of k] by (simp add: budget_used_def)
    have old: "run_key_of r \<noteq> run_key_of proposed" if "r \<in> set (rp_runs db)" for r
      using 2(3) that by (auto simp: row_insert_Inr_iff image_iff)
    have "set (rp_runs db') = insert proposed (set (rp_runs db))" using 2(3) by (auto simp: row_insert_Inr_iff)
    moreover have "distinct (map run_key_of (rp_runs db'))"
      using row_insert_distinct [OF 2(3)] assms(1) by (simp add: repo_ok_def)
    moreover have "within_budget r db'" if "r \<in> set (rp_runs db)" for r
      using assms(1) that old [OF that] by (auto simp: repo_ok_def within_budget_def b)
    moreover have "within_budget proposed db'" using assms(7) by (simp add: within_budget_def b)
    ultimately show ?thesis using assms(1,3) new by (auto simp: repo_ok_def b)
  qed
  show "run \<in> set (rp_runs db')" "run_tenant_id run = t" "run = proposed \<or> run \<in> set (rp_runs db)"
    by (cases rule: cases, simp_all add: row_insert_Inr_iff)+
qed

definition policy_valid :: "research_env \<Rightarrow> bool" where
  "policy_valid E = (research_policy_post_init (oe_policy E) = Inr ())"

lemma policy_validD:
  "policy_valid E \<Longrightarrow> 1 \<le> provider_budget (oe_policy E) \<and> 1 \<le> max_attempts_per_operation (oe_policy E)"
  by (auto simp: policy_valid_def research_policy_post_init_def monad_simps)

text \<open>A run handed to a caller: in memory as it is stored.\<close>

abbreviation loaded :: "research_env \<Rightarrow> string \<Rightarrow> research_run \<Rightarrow> orch \<Rightarrow> bool" where
  "loaded E t run s \<equiv> orch_ok E t s \<and> run = ob_run s \<and> stored t s"

lemma loadedI:
  "repo_ok E (ob_repo s) \<Longrightarrow> ob_run s \<in> set (rp_runs (ob_repo s)) \<Longrightarrow> run_tenant_id (ob_run s) = t \<Longrightarrow> loaded E t (ob_run s) s"
  using stored_run [of E "ob_repo s" "ob_run s"] by (auto simp: orch_ok_def stored_def)

lemma propose_effect:
  assumes "propose E t actor request document_hash correlation refresh s = (r, s')"
  shows "ob_repo s' = ob_repo s"
    and "r = Inr run \<Longrightarrow> run_status run = RS_CREATED \<and> run_audit_events run = [] \<and> run_attempts run = [] \<and>
      run_snapshots run = [] \<and> run_evidence run = []"
  using assms unfolding propose_def
  by (auto simp: monad_simps bind_action_def orch_time_def reading_def split: sum.splits prod.splits)

text \<open>The run is new, or it was there before and nothing has changed.\<close>

abbreviation unchanged :: "string \<Rightarrow> research_repo \<Rightarrow> research_run \<Rightarrow> orch \<Rightarrow> bool" where
  "unchanged t db run s \<equiv> ob_repo s = db \<and> research_get t (run_id run) db = Some run"

lemma prepare_triple:
  assumes "policy_valid E"
  shows "triple (\<lambda>s. stores_ok E s \<and> ob_repo s = db) (prepare E t actor request document_hash correlation refresh)
    (\<lambda>run s. loaded E t run s \<and> (run_audit_events run = [] \<and> run_status run = RS_CREATED \<or> unchanged t db run s)) (stores_ok E)"
proof (rule tripleI)
  fix s run s' assume ok: "stores_ok E s \<and> ob_repo s = db"
    and p: "prepare E t actor request document_hash correlation refresh s = (Inr run, s')"
  then obtain proposed s1 repo where a: "propose E t actor request document_hash correlation refresh s = (Inr proposed, s1)"
    and b: "create_or_get t proposed (ob_repo s1) = Inr (run, repo)" and s': "s' = s1\<lparr>ob_repo := repo, ob_run := run\<rparr>"
    by (auto simp: prepare_def bind_action_def split: prod.splits sum.splits)
  note e = propose_effect [OF a]
  have db: "repo_ok E db" "ob_repo s1 = db" using ok e(1) by (auto simp: stores_ok_def)
  note new = e(2) [OF refl]
  have r: "repo_ok E repo" "run \<in> set (rp_runs repo)" "run_tenant_id run = t"
    using create_or_get_ok [OF db(1) _ _ b [unfolded db(2)]] policy_validD [OF assms] new by blast+
  from r loadedI [of E s'] have l: "loaded E t run s'" by (simp add: s')
  from b [unfolded db(2)] have "run = proposed \<or> repo = db" by (cases rule: create_or_get_cases) simp_all
  with new l show "loaded E t run s' \<and> (run_audit_events run = [] \<and> run_status run = RS_CREATED \<or> unchanged t db run s')"
    by (auto simp: s' stored_def)
next
  fix s e s' assume ok: "stores_ok E s \<and> ob_repo s = db"
    and p: "prepare E t actor request document_hash correlation refresh s = (Inl e, s')"
  obtain r s1 where a: "propose E t actor request document_hash correlation refresh s = (r, s1)"
    by (cases "propose E t actor request document_hash correlation refresh s")
  with p have "ob_repo s' = ob_repo s1" by (auto simp: prepare_def bind_action_def split: prod.splits sum.splits)
  with ok propose_effect(1) [OF a] show "stores_ok E s'" by (auto simp: stores_ok_def)
qed

lemma quiet_alive: "quiet m \<Longrightarrow> triple (stores_ok E) m (\<lambda>_. stores_ok E) (stores_ok E)"
  by (rule tripleI) (auto simp: quiet_def stores_ok_def, (metis snd_conv)+)

lemma quiet_stores: "quiet m \<Longrightarrow> triple (\<lambda>s. stores_ok E s \<and> ob_repo s = db) m (\<lambda>_ s. stores_ok E s \<and> ob_repo s = db) (stores_ok E)"
  by (rule tripleI) (auto simp: quiet_def stores_ok_def, (metis snd_conv)+)

lemma execute_triple:
  assumes "policy_valid E"
  shows "triple (\<lambda>s. stores_ok E s \<and> ob_repo s = db) (execute E t actor request document_hash correlation refresh)
    (\<lambda>run s. settled E t run s \<or> loaded E t run s \<and> unchanged t db run s) (stores_ok E)"
proof -
  have "triple (under_way E t) (bind_action (ensure_active E) (\<lambda>_. bind_action (move_run E False RS_SEARCHING actor reasons payload) (\<lambda>_.
      bind_action (save_run t) (\<lambda>_. run_research E t actor)))) (settled E t) (stores_ok E)" for reasons payload
    by (rule triple_bind [OF keeps_under_way [OF keeps_quiet [OF quiet_active]] triple_bind [OF keeps_under_way [OF keeps_moves(1)]
      triple_bind [OF keeps_under_way [OF keeps_save_run] run_research_triple]]])
  note go = this
  show ?thesis
    unfolding execute_def
  proof (rule triple_bind [OF quiet_stores [OF quiet_active] triple_bind [OF prepare_triple [OF assms] triple_if]])
    fix run :: research_run
    assume "\<not> (run_audit_events run \<noteq> [] \<or> run_status run \<noteq> RS_CREATED)"
    then show "triple (\<lambda>s. loaded E t run s \<and> (run_audit_events run = [] \<and> run_status run = RS_CREATED \<or> unchanged t db run s))
      (bind_action (ensure_active E) (\<lambda>_. bind_action (move_run E False RS_SEARCHING actor [''SEARCH_STARTED'']
         (\<lambda>run. JObj [(''query_hash'', JStr (esha E (rq_query request)))])) (\<lambda>_.
       bind_action (save_run t) (\<lambda>_. run_research E t actor))))
      (\<lambda>run s. settled E t run s \<or> loaded E t run s \<and> unchanged t db run s) (stores_ok E)"
      by (intro triple_weaken [OF go]) (auto simp: under_way_def)
  qed (rule triple_pure, blast)
qed

lemma required_run_triple:
  "triple (stores_ok E) (required_run t rid) (\<lambda>run s. loaded E t run s \<and> run_id run = rid) (stores_ok E)"
proof (rule tripleI)
  fix s run s' assume "stores_ok E s" and "required_run t rid s = (Inr run, s')"
  then have g: "research_get t rid (ob_repo s) = Some run" and s': "s' = s\<lparr>ob_run := run\<rparr>" and ok: "repo_ok E (ob_repo s)"
    by (auto simp: required_run_def stores_ok_def split: option.splits)
  from g have "run \<in> set (rp_runs (ob_repo s))" "run_key_of run = (t, rid)"
    unfolding research_get_def by (auto dest: row_find_SomeD)
  with ok loadedI [of E s' t] show "loaded E t run s' \<and> run_id run = rid" by (simp add: s' run_key_of_def)
qed (auto simp: required_run_def split: option.splits)

lemma validate_retry_triple:
  "triple (stores_ok E) (validate_retry E t rid) (\<lambda>_. under_way E t) (stores_ok E)"
proof -
  have *: "triple (under_way E t) (bind_action (reading (oe_clock E)) (\<lambda>now.
      bind_action (lift_result (enforce_retry_window E run now)) (\<lambda>_. pure_action run))) (\<lambda>_. under_way E t) (stores_ok E)" for run
    by (rule keeps_under_way) (intro keeps_rules)
  show ?thesis
    unfolding validate_retry_def
    by (rule triple_bind [OF required_run_triple triple_if], rule triple_raise)
      (auto simp: under_way_def intro: orch_ok_stores intro!: triple_weaken [OF *])
qed

lemma retry_triple:
  "triple (stores_ok E) (retry_run E t actor rid correlation) (settled E t) (stores_ok E)"
proof -
  have search: "triple (under_way E t) (bind_action (move_run E True RS_SEARCHING actor reasons payload) (\<lambda>_.
      bind_action (save_run t) (\<lambda>_. run_research E t actor))) (settled E t) (stores_ok E)" for reasons payload
    by (rule triple_bind [OF keeps_under_way [OF keeps_moves(1)] triple_bind [OF keeps_under_way [OF keeps_save_run] run_research_triple]])
  have resume: "triple (under_way E t) (bind_action (start_extraction E t actor True) (\<lambda>_. extract_and_finalize E t actor True))
      (settled E t) (stores_ok E)"
    by (rule triple_bind [OF keeps_under_way [OF keeps_start_extraction] extract_and_finalize_triple])
  show ?thesis
    unfolding retry_run_def
    by (rule triple_bind [OF quiet_alive [OF quiet_active] triple_bind [OF validate_retry_triple triple_bind [OF keeps_under_way [OF keeps_set_ids]
      triple_bind [OF keeps_under_way [OF keeps_read] triple_if [OF search resume]]]]])
qed

lemma set_ids_triple:
  "triple (orch_ok E t) (change_run (\<lambda>run. run\<lparr>run_actor_id := a, run_correlation_id := c\<rparr>)) (\<lambda>_. orch_ok E t) (stores_ok E)"
proof (rule tripleI)
  fix s x s' assume ok: "orch_ok E t s"
    and "change_run (\<lambda>run. run\<lparr>run_actor_id := a, run_correlation_id := c\<rparr>) s = (Inr x, s')"
  then have s': "s' = s\<lparr>ob_run := (ob_run s)\<lparr>run_actor_id := a, run_correlation_id := c\<rparr>\<rparr>" by (simp add: change_run_def)
  have c: "same_core (ob_run s) (ob_run s')" by (simp add: s' same_core_def)
  have "run_status (ob_run s) \<noteq> RS_COMPLETED \<or> fully_handled (ob_run s')"
    using ok by (auto simp: s' orch_ok_def run_ok_def fully_handled_def)
  with ok same_core_ok [OF c] show "orch_ok E t s'" by (auto simp: orch_ok_def s')
qed (simp add: change_run_def)

lemma cancel_triple:
  "triple (stores_ok E) (cancel_run E t actor rid correlation)
     (\<lambda>run s. loaded E t run s \<and> run_status run = RS_CANCELLED) (stores_ok E)"
proof -
  have "triple (orch_ok E t) (bind_action (move_run E False RS_CANCELLED actor reasons payload)
      (\<lambda>_. bind_action (save_run t) (\<lambda>_. read_state ob_run)))
      (\<lambda>run s. loaded E t run s \<and> run_status run = RS_CANCELLED) (stores_ok E)" for reasons payload
    by (rule triple_weaken [OF move_save_triple]) auto
  note go = triple_weaken [OF triple_bind [OF set_ids_triple this]]
  show ?thesis
    unfolding cancel_run_def
    by (rule triple_bind [OF required_run_triple triple_if]; (rule triple_pure go)) auto
qed

lemma handoff_triple:
  "triple (stores_ok E) (handoff_run E t actor rid correlation)
     (\<lambda>run s. loaded E t run s \<and> run_compiled_decision_file_id run \<noteq> None) (stores_ok E)"
proof -
  let ?Q = "\<lambda>run s. loaded E t run s \<and> run_compiled_decision_file_id run \<noteq> None"
  have attach: "triple (orch_ok E t) (attach_to_decision E t compiled)
      (\<lambda>_ s. orch_ok E t s \<and> run_compiled_decision_file_id (ob_run s) \<noteq> None) (stores_ok E)" for compiled
    by (rule tripleI) (auto dest: attach_ok attach_effect(6) intro: orch_ok_stores)
  have save: "triple (\<lambda>s. orch_ok E t s \<and> run_compiled_decision_file_id (ob_run s) \<noteq> None)
      (bind_action (save_run t) (\<lambda>_. read_state ob_run)) ?Q (stores_ok E)"
    by (rule triple_bind [OF save_run_triple], rule triple_read) simp
  note deliver = triple_bind [OF set_ids_triple triple_bind [OF attach save]]
  have compile: "triple (orch_ok E t) (lift_result r) (\<lambda>_. orch_ok E t) (stores_ok E)" for r :: "'a result"
    by (rule triple_lift) (auto intro: orch_ok_stores)
  have "triple (orch_ok E t) (bind_action (lift_result (compile_evidence run)) (\<lambda>compiled.
      if compiled = [] then raise_action (ValueError ''NO_USABLE_EVIDENCE'')
      else bind_action (change_run (\<lambda>run. run\<lparr>run_actor_id := actor, run_correlation_id := correlation\<rparr>)) (\<lambda>_.
        bind_action (attach_to_decision E t compiled) (\<lambda>_. bind_action (save_run t) (\<lambda>_. read_state ob_run)))))
      ?Q (stores_ok E)" for run
    by (rule triple_bind [OF compile triple_if [OF triple_raise deliver]]) (auto intro: orch_ok_stores)
  note go = triple_weaken [OF this]
  show ?thesis
    unfolding handoff_run_def
    by (rule triple_bind [OF required_run_triple triple_if [OF triple_pure triple_if [OF triple_raise go]]])
      (auto intro: orch_ok_stores)
qed

end
