(* ===== verification/ResearchDemo.thy ===== *)
theory ResearchDemo
  imports ResearchSafety DemoCase
begin

text \<open>
  A concrete execution: one tenant, one draft decision, a search that finds one page and an
  extraction that returns it. The properties of the orchestrator are applied to it.
\<close>

definition demo_policy :: research_policy where
  "demo_policy = \<lparr>rpol_version = ''v1'', rpol_provider_configuration = ''c1'', provider_budget = 4,
     cache_ttl_seconds = 60, max_content_bytes = 1000, max_attempts_per_operation = 2,
     rpol_max_search_results = 5, rpol_max_extractions = 2\<rparr>"

definition demo_request :: research_request where
  "demo_request = \<lparr>rq_decision_file_id = ''case-1'', rq_claim_refs = [''c1''], rq_query = ''q'', rq_locale = ''en'',
     rq_preferred_languages = [''en''], rq_max_search_results = 1, rq_max_sources_to_extract = 1,
     rq_allowed_domains = [], rq_blocked_domains = [],
     rq_freshness = \<lparr>maximum_age_days = 30, prefer_recent = True\<rparr>, rq_research_policy = ''standard'',
     rq_force_refresh = False, rq_schema_version = ''0.4.0''\<rparr>"

definition demo_hash :: string where
  "demo_hash = ''sha256:'' @ replicate 64 (CHR ''a'')"

definition demo_snapshot :: "source_candidate \<Rightarrow> extracted_content \<Rightarrow> source_snapshot" where
  "demo_snapshot source content = \<lparr>ss_snapshot_id = sc_source_id source @ '':s'', ss_source_id = sc_source_id source,
     ss_original_url = sc_original_url source, ss_canonical_url = xc_canonical_url content, ss_domain = ''d'',
     ss_title = ''T'', ss_retrieved_at = ''t1'', ss_expires_at = ''t9'', ss_content_hash = demo_hash,
     ss_http_status = 200, ss_mime_type = ''text/plain'', ss_format = ''markdown'', ss_text = xc_markdown content,
     ss_language = ''en'', ss_content_provider = ''x'', ss_content_provider_version = ''1'',
     ss_risk = \<lparr>prompt_injection_suspected = False, risk_reasons = [], secret_redacted = False,
       active_content_removed = False\<rparr>\<rparr>"

definition research_demo :: research_env where
  "research_demo = \<lparr>oe_runtime = demo_runtime, oe_policy = demo_policy,
     oe_evidence_policy = evidence_policy_init [''d''] [] [''en''] 3,
     oe_circuit_policy = \<lparr>failure_threshold = 3, recovery_seconds = 60\<rparr>,
     oe_search_id = ''s'', oe_extract_id = ''x'', oe_clock = int, oe_isoformat = (\<lambda>n. ''t''),
     oe_monotonic = (\<lambda>n. 0), oe_cancelled = (\<lambda>n. False),
     oe_search = (\<lambda>n q. ([], Search_ok \<lparr>sp_provider_id = ''s'', sp_provider_version = ''1'', sp_searched_at = ''t'',
       sp_results = [\<lparr>sr_url = ''u'', sr_title = ''T'', sr_snippet = ''S'', sr_rank = 1, sr_published_at = None,
         sr_citation_kind = ''k''\<rparr>], sp_summary = [], sp_provider_request_id = None\<rparr>)),
     oe_extract = (\<lambda>n r. ([], Extract_ok (Extracted \<lparr>xc_markdown = ''text'', xc_title = ''T'',
       xc_canonical_url = xr_url r, xc_retrieved_at = ''t1'', xc_mime_type = ''text/plain'', xc_http_status = 200,
       xc_language = ''en'', xc_content_provider = ''x'', xc_content_provider_version = ''1'',
       xc_provider_request_id = None\<rparr>))),
     oe_validate_url = (\<lambda>allowed blocked u. Inr \<lparr>su_canonical_url = u, su_domain = ''d''\<rparr>),
     oe_normalize = (\<lambda>source content. Inr (demo_snapshot source content)),
     oe_uuid5 = (\<lambda>s. ''1''), oe_normalize_query = (\<lambda>s. s), oe_normalize_domain = (\<lambda>s. Inr s),
     oe_timestamp = (\<lambda>n. ''ts'')\<rparr>"

definition empty_research :: research_repo where
  "empty_research = \<lparr>rp_runs = [], rp_sources = [], rp_snapshots = [], rp_evidence = [], rp_attempts = [],
     rp_events = [], rp_budget = [], rp_idempotency = []\<rparr>"

definition no_run :: research_run where
  "no_run = \<lparr>run_id = [], run_tenant_id = [], run_actor_id = [], run_request = demo_request,
     run_expected_document_hash = [], run_fingerprint = [], run_status = RS_CREATED, run_created_at = [],
     run_updated_at = [], run_correlation_id = [], run_sources = [], run_snapshots = [], run_evidence = [],
     run_attempts = [], run_errors = [], run_audit_events = [], run_cost_units = 0,
     run_compiled_decision_file_id = None, run_search_summary = None, run_search_request_id = None\<rparr>"

text \<open>The store holds the draft with its event of creation.\<close>

definition demo_store :: decision_db where
  "demo_store = \<lparr>decisions = [\<lparr>dr_tenant = ''acme'', dr_decision_id = ''case-1'', dr_document = demo_doc1,
       dr_updated_at = ''ts''\<rparr>], reports = [],
     audit_rows = map (\<lambda>e. \<lparr>er_tenant = ''acme'', er_decision_id = ''case-1'', er_event_id = ae_event_id e,
       er_event = e\<rparr>) (df_audit_events demo_doc1),
     idempotency = []\<rparr>"

definition research_start :: orch where
  "research_start = \<lparr>ob_run = no_run, ob_repo = empty_research,
     ob_handoff = \<lparr>hd_store = demo_store, hd_runs = [], hd_handoffs = []\<rparr>, ob_circuits = (\<lambda>k. None), ob_reads = 0\<rparr>"

section \<open>The execution\<close>

text \<open>
  Hash texts stay symbolic: the digest of the demonstration is constant. Computations are
  unfolded only where they meet their state.
\<close>

lemma demo_payload_hash [simp]: "payload_hash demo_sha j = demo_hash"
  by (simp add: payload_hash_def demo_sha_def demo_hash_def)

lemma demo_fields [simp]:
  "oe_runtime research_demo = demo_runtime" "oe_policy research_demo = demo_policy"
  "oe_evidence_policy research_demo = evidence_policy_init [''d''] [] [''en''] 3"
  "oe_circuit_policy research_demo = \<lparr>failure_threshold = 3, recovery_seconds = 60\<rparr>"
  "oe_search_id research_demo = ''s''" "oe_extract_id research_demo = ''x''"
  "oe_isoformat research_demo n = ''t''" "oe_monotonic research_demo k = 0" "\<not> oe_cancelled research_demo k"
  "oe_uuid5 research_demo x = ''1''" "oe_normalize_query research_demo x = x" "oe_normalize_domain research_demo x = Inr x"
  "oe_timestamp research_demo k = ''ts''" "sha256 demo_runtime = demo_sha"
  "oe_validate_url research_demo al bl x = Inr \<lparr>su_canonical_url = x, su_domain = ''d''\<rparr>"
  "oe_normalize research_demo source content = Inr (demo_snapshot source content)"
  by (simp_all add: research_demo_def demo_runtime_def)

lemma demo_search [simp]: "oe_search research_demo n q = ([], Search_ok
   \<lparr>sp_provider_id = ''s'', sp_provider_version = ''1'', sp_searched_at = ''t'',
     sp_results = [\<lparr>sr_url = ''u'', sr_title = ''T'', sr_snippet = ''S'', sr_rank = 1, sr_published_at = None,
       sr_citation_kind = ''k''\<rparr>], sp_summary = [], sp_provider_request_id = None\<rparr>)"
  by (simp add: research_demo_def)

lemma demo_extract [simp]: "oe_extract research_demo n r = ([], Extract_ok (Extracted
   \<lparr>xc_markdown = ''text'', xc_title = ''T'', xc_canonical_url = xr_url r, xc_retrieved_at = ''t1'',
     xc_mime_type = ''text/plain'', xc_http_status = 200, xc_language = ''en'', xc_content_provider = ''x'',
     xc_content_provider_version = ''1'', xc_provider_request_id = None\<rparr>))"
  by (simp add: research_demo_def)

lemma demo_folds: "py_casefold ''text'' = ''text''" "py_casefold ''en'' = ''en''" "py_strip ''text'' = ''text''"
  "\<not> py_in ''sign in to continue'' ''text''" "\<not> py_in ''log in to continue'' ''text''"
  "\<not> py_in ''subscribe to continue'' ''text''" "\<not> py_in ''paywall'' ''text''"
  by code_simp+

lemma demo_assessed:
  assumes "ss_text snapshot = ''text''" "ss_language snapshot = ''en''" "\<not> prompt_injection_suspected (ss_risk snapshot)"
    "ss_content_provider snapshot = ''x''" "ss_content_provider_version snapshot = ''1''" "ss_content_hash snapshot = demo_hash"
    "sc_search_provider source = ''s''" "sc_search_provider_version source = ''1''" "sc_published_at source = None"
    "sc_domain source = ''d''" "sc_rank source = 1"
  shows "assess_evidence demo_runtime (evidence_policy_init [''d''] [] [''en''] 3) snapshot source days now =
    \<lparr>ea_freshness_status = ''UNKNOWN'', ea_source_type = ''PRIMARY'', ea_authority_score = 90, ea_relevance_score = 100,
     ea_conflict_status = ''NOT_CHECKED'', ea_usable_for_decision = True, ea_requires_human_review = True,
     ea_reason_codes = [''EXTERNAL_EVIDENCE_UNVERIFIED'']\<rparr>"
proof -
  have "content_reasons (evidence_policy_init [''d''] [] [''en''] 3) snapshot source = []"
    using assms by (simp add: content_reasons_def demo_folds demo_hash_def evidence_policy_init_def)
  then show ?thesis
    using assms by (simp add: assess_evidence_def freshness_of_def source_authority_def evidence_policy_init_def )
qed

lemma demo_digits: "str_nat (Suc 0) = ''1''" "str_nat (Suc (Suc 0)) = ''2''" "str_nat (Suc (Suc (Suc 0))) = ''3''"
  "str_nat (Suc (Suc (Suc (Suc 0)))) = ''4''" "str_nat (Suc (Suc (Suc (Suc (Suc 0))))) = ''5''"
  by code_simp+

lemma bind_apply: "bind_action m f s = (case m s of (Inl e, s') \<Rightarrow> (Inl e, s') | (Inr x, s') \<Rightarrow> f x s')"
  by (simp add: bind_action_def)

lemma bind_weak_cong: "m = m' \<Longrightarrow> bind_action m f = bind_action m' f"
  by simp


lemma result_weak_cong: "x = x' \<Longrightarrow> bind_result x f = bind_result x' f"
  by simp

lemma demo_taken [simp]: "take 16 (demo_sha x) = ''aaaaaaaaaaaaaaaa''" "take 24 (demo_sha x) = ''aaaaaaaaaaaaaaaaaaaaaaaa''"
  unfolding demo_sha_def by code_simp+

lemma demo_not_blank: "\<not> blank ''acme''" "\<not> blank ''s''" "\<not> blank ''x''"
  by code_simp+

text \<open>The events of the execution and the run it starts from, by name.\<close>

definition demo_event :: "nat \<Rightarrow> research_status \<Rightarrow> research_status \<Rightarrow> string list \<Rightarrow> research_event" where
  "demo_event n source target reasons = transition_research_event demo_sha target ''t'' ''rob'' reasons JNull
     (no_run\<lparr>run_id := ''research-1'', run_tenant_id := ''acme'', run_status := source, run_correlation_id := ''corr'',
       run_audit_events := replicate n undefined\<rparr>)"

lemma demo_event:
  assumes "run_id run = ''research-1''" "run_tenant_id run = ''acme''" "run_correlation_id run = ''corr''"
  shows "transition_research_event demo_sha target ''t'' ''rob'' reasons payload run =
    demo_event (length (run_audit_events run)) (run_status run) target reasons"
proof -
  have "research_previous demo_sha r = (if run_audit_events r = [] then None else Some demo_hash)" for r
    by (simp add: research_previous_def last_opt_def research_event_hash_def)
  with assms show ?thesis by (simp add: demo_event_def transition_research_event_def)
qed

lemma demo_event_id [simp]:
  "rv_event_id (demo_event n source target reasons) = ''research-1:research-audit:'' @ str_nat (n + 1)"
  by (simp add: demo_event_def transition_research_event_def)

definition demo_run :: research_run where
  "demo_run = no_run\<lparr>run_id := ''research-1'', run_tenant_id := ''acme'', run_actor_id := ''rob'',
     run_expected_document_hash := demo_hash, run_fingerprint := demo_hash, run_created_at := ''t'',
     run_updated_at := ''t'', run_correlation_id := ''corr''\<rparr>"

lemma demo_run_fields [simp]:
  "run_id demo_run = ''research-1''" "run_tenant_id demo_run = ''acme''" "run_request demo_run = demo_request"
  "run_status demo_run = RS_CREATED" "run_correlation_id demo_run = ''corr''" "run_sources demo_run = []"
  "run_snapshots demo_run = []" "run_evidence demo_run = []" "run_attempts demo_run = []" "run_errors demo_run = []"
  "run_audit_events demo_run = []" "run_expected_document_hash demo_run = demo_hash"
  by (simp_all add: demo_run_def no_run_def)

lemma demo_request_fields [simp]:
  "rq_decision_file_id demo_request = ''case-1''" "rq_claim_refs demo_request = [''c1'']" "rq_query demo_request = ''q''"
  "rq_max_search_results demo_request = 1" "rq_max_sources_to_extract demo_request = 1"
  "rq_allowed_domains demo_request = []" "rq_blocked_domains demo_request = []" "\<not> rq_force_refresh demo_request"
  "maximum_age_days (rq_freshness demo_request) = 30"
  by (simp_all add: demo_request_def)

lemmas weak_congs = bind_weak_cong result_weak_cong let_weak_cong

lemmas save_parts = Let_def research_save_def assert_tenant_def save_run_row_def row_update_def row_upsert_def run_key_of_def
  save_source_def save_snapshot_def save_evidence_def save_attempt_def save_event_def

lemmas move_parts = move_run_def orch_time_def reading_def bind_apply apply_transition_def demo_event append_event_def
  research_transition_def research_cancellable_def

abbreviation demo_key :: "string \<times> string" where
  "demo_key \<equiv> (''acme'', ''research-1'')"

abbreviation demo_event1 :: research_event where
  "demo_event1 \<equiv> demo_event 0 RS_CREATED RS_SEARCHING [''SEARCH_STARTED'']"

abbreviation demo_run1 :: research_run where
  "demo_run1 \<equiv> demo_run\<lparr>run_status := RS_SEARCHING, run_updated_at := ''t'', run_audit_events := [demo_event1]\<rparr>"

lemma demo_searching:
  assumes "ob_run s = demo_run" "ob_repo s = empty_research\<lparr>rp_runs := [demo_run], rp_budget := [(demo_key, 0)]\<rparr>"
  shows "bind_action (move_run research_demo False RS_SEARCHING ''rob'' [''SEARCH_STARTED''] payload) (\<lambda>_.
      bind_action (save_run ''acme'') k) s = k () (s\<lparr>ob_run := demo_run1, ob_reads := ob_reads s + 1,
        ob_repo := empty_research\<lparr>rp_runs := [demo_run1], rp_events := [(demo_key, 1, demo_event1)],
          rp_budget := [(demo_key, 0)]\<rparr>\<rparr>)"
  using assms by (cases s) (simp add: move_parts save_run_def save_parts empty_research_def cong: weak_congs)

abbreviation demo_source :: source_candidate where
  "demo_source \<equiv> \<lparr>sc_source_id = ''research-1:source:aaaaaaaaaaaaaaaa'', sc_original_url = ''u'', sc_canonical_url = ''u'',
     sc_domain = ''d'', sc_title = ''T'', sc_snippet = ''S'', sc_rank = 1, sc_searched_at = ''t'', sc_search_provider = ''s'',
     sc_search_provider_version = ''1'', sc_published_at = None, sc_status = ''DISCOVERED'', sc_reason_codes = [],
     sc_citation_kind = ''k'', sc_artifact_type = ''SEARCH_RESULT''\<rparr>"

abbreviation demo_attempt1 :: research_attempt where
  "demo_attempt1 \<equiv> \<lparr>at_attempt_id = ''research-1:attempt:1'', at_provider_id = ''s'', at_operation = ''search'',
     at_status = ''SUCCEEDED'', at_occurred_at = ''t'', at_source_id = None, at_reason_code = None\<rparr>"

abbreviation demo_event2 :: research_event where
  "demo_event2 \<equiv> demo_event (Suc 0) RS_SEARCHING RS_SOURCES_DISCOVERED [''SOURCES_DISCOVERED'']"

abbreviation demo_run2 :: research_run where
  "demo_run2 \<equiv> demo_run\<lparr>run_status := RS_SOURCES_DISCOVERED, run_updated_at := ''t'',
     run_audit_events := [demo_event1, demo_event2], run_sources := [demo_source], run_attempts := [demo_attempt1],
     run_cost_units := 1, run_search_summary := None, run_search_request_id := None\<rparr>"

lemma demo_discovered:
  assumes "ob_run s = demo_run1" "ob_circuits s = (\<lambda>k. None)" "ob_repo s = empty_research\<lparr>rp_runs := [demo_run1],
    rp_events := [(demo_key, 1, demo_event1)], rp_budget := [(demo_key, 0)]\<rparr>"
  shows "\<exists>n. discover research_demo ''acme'' ''rob'' s = (Inr True, s\<lparr>ob_run := demo_run2, ob_reads := n,
        ob_repo := empty_research\<lparr>rp_runs := [demo_run2], rp_sources := [(demo_key, demo_source)],
          rp_attempts := [(demo_key, demo_attempt1)],
          rp_events := [(demo_key, 1, demo_event1), (demo_key, 2, demo_event2)],
          rp_budget := [(demo_key, 1)]\<rparr>\<rparr>)"
  using assms by (cases s) (simp add: discover_def [THEN fun_cong] search_succeeded_def [THEN fun_cong] provider_call_def [THEN fun_cong]
    can_attempt_def attempts_of_def circuit_admits_def [THEN fun_cong] before_call_def circuit_key_def reserved_eq reserve_budget_def
    row_find_def started_attempt_def
    circuit_succeeded_def record_success_def succeed_attempt_def change_last_attempt_def change_run_def demo_policy_def
    record_egress.simps(1) [THEN fun_cong] store_discovery_def discovered_sources.simps source_id_of_def
    move_parts ensure_active_def [THEN fun_cong] save_run_def save_parts empty_research_def demo_digits
    provider_of_def demo_not_blank cong: weak_congs)

abbreviation demo_event3 :: research_event where
  "demo_event3 \<equiv> demo_event (Suc (Suc 0)) RS_SOURCES_DISCOVERED RS_EXTRACTING [''EXTRACTION_STARTED'']"

abbreviation demo_run3 :: research_run where
  "demo_run3 \<equiv> demo_run2\<lparr>run_status := RS_EXTRACTING, run_audit_events := [demo_event1, demo_event2, demo_event3]\<rparr>"

lemma demo_extracting:
  assumes "ob_run s = demo_run2" "ob_repo s = empty_research\<lparr>rp_runs := [demo_run2], rp_sources := [(demo_key, demo_source)],
      rp_attempts := [(demo_key, demo_attempt1)],
      rp_events := [(demo_key, 1, demo_event1), (demo_key, 2, demo_event2)], rp_budget := [(demo_key, 1)]\<rparr>"
  shows "start_extraction research_demo ''acme'' ''rob'' False s = (Inr (), s\<lparr>ob_run := demo_run3, ob_reads := ob_reads s + 1,
      ob_repo := empty_research\<lparr>rp_runs := [demo_run3], rp_sources := [(demo_key, demo_source)],
      rp_attempts := [(demo_key, demo_attempt1)],
      rp_events := [(demo_key, 1, demo_event1), (demo_key, 2, demo_event2), (demo_key, 3, demo_event3)],
      rp_budget := [(demo_key, 1)]\<rparr>\<rparr>)"
  using assms by (cases s) (simp add: start_extraction_def [THEN fun_cong] move_parts save_run_def save_parts empty_research_def
    demo_digits cong: weak_congs)

text \<open>The evidence compiled from the page, and its handoff.\<close>

abbreviation demo_evidence :: decision_evidence where
  "demo_evidence \<equiv> \<lparr>de_evidence_id = ''research-aaaaaaaaaaaaaaaaaaaaaaaa'', de_research_run_id = ''research-1'',
     de_claim_refs = [''c1''], de_source_ref = ''research:research-1:research-aaaaaaaaaaaaaaaaaaaaaaaa'',
     de_status = UNVERIFIED, de_observed_at = ''t1'', de_content_hash = demo_hash, de_correlation_id = Some ''corr''\<rparr>"

definition demo_doc1_event :: audit_event where
  "demo_doc1_event = created_event demo_env gina demo_document"

lemma draft_doc_fields:
  "df_status demo_doc1 = DRAFT" "df_decision_id demo_doc1 = ''case-1''" "df_claims demo_doc1 = df_claims demo_document"
  "df_evidence demo_doc1 = df_evidence demo_document" "df_audit_events demo_doc1 = [demo_doc1_event]"
  by (simp_all add: demo_doc1_def created_document_def demo_document_def demo_doc1_event_def)

definition demo_attached :: decision_file where
  "demo_attached = demo_doc1\<lparr>df_evidence := df_evidence demo_doc1 @ [attached_item demo_evidence], df_updated_at := ''t1'',
     df_audit_events := [demo_doc1_event, handoff_event demo_runtime ''acme'' ''case-1'' ''corr'' [demo_evidence] demo_doc1]\<rparr>"

lemma demo_attached_valid:
  "decision_file_schema demo_runtime demo_attached" "semantic_errors demo_runtime demo_attached = Inr []"
proof -
  let ?e = "handoff_event demo_runtime ''acme'' ''case-1'' ''corr'' [demo_evidence] demo_doc1"
  have "audit_event_schema demo_runtime ?e" "evidence_schema demo_runtime (attached_item demo_evidence)"
    by (simp_all add: audit_event_schema_def handoff_event_def actor_schema_def research_actor_def evidence_schema_def attached_item_def)
  moreover have "audit_event_schema demo_runtime demo_doc1_event"
    using schema_eventsD [OF schema_doc1] by (simp add: draft_doc_fields)
  ultimately show "decision_file_schema demo_runtime demo_attached"
    using schema_doc1 by (simp add: decision_file_schema_def demo_attached_def)
  show "semantic_errors demo_runtime demo_attached = Inr []"
    by (simp add: demo_attached_def demo_semantics attached_item_def)
qed

lemma demo_handed:
  "handoff_document demo_runtime ''acme'' ''case-1'' ''corr'' demo_hash [demo_evidence] demo_doc1 =
     Inr (demo_attached, handoff_event demo_runtime ''acme'' ''case-1'' ''corr'' [demo_evidence] demo_doc1)"
proof -
  have "df_evidence demo_doc1 @ new_items demo_doc1 [demo_evidence] = df_evidence demo_doc1 @ [attached_item demo_evidence]"
    by (simp add: new_items_def draft_doc_fields demo_document_def)
  moreover have "max_observed [demo_evidence] = ''t1''" by (simp add: max_observed_def)
  ultimately have d: "demo_doc1\<lparr>df_evidence := df_evidence demo_doc1 @ new_items demo_doc1 [demo_evidence],
      df_updated_at := max_observed [demo_evidence], df_audit_events := df_audit_events demo_doc1 @
        [handoff_event demo_runtime ''acme'' ''case-1'' ''corr'' [demo_evidence] demo_doc1]\<rparr> = demo_attached"
    by (simp add: demo_attached_def draft_doc_fields(5))
  have c: "list_all (\<lambda>e. set (de_claim_refs e) \<subseteq> claim_id ` set (df_claims demo_doc1)) [demo_evidence]"
    by (simp add: draft_doc_fields demo_document_def)
  show ?thesis
    using demo_attached_valid c draft_doc_fields(1)
    unfolding handoff_document_def Let_def d by (simp add: contract_validate_def validate_semantics_def)
qed

text \<open>What the store holds after the handoff does not matter here: the run has it recorded.\<close>

lemma demo_attach:
  "\<exists>db. sqlite_attach demo_runtime ''ts'' ''acme'' ''case-1'' demo_hash [demo_evidence]
     \<lparr>hd_store = demo_store, hd_runs = [demo_key], hd_handoffs = []\<rparr> = Inr (demo_attached, db)"
proof -
  have row: "row_find decision_key (''acme'', ''case-1'') (decisions demo_store) =
      Some \<lparr>dr_tenant = ''acme'', dr_decision_id = ''case-1'', dr_document = demo_doc1, dr_updated_at = ''ts''\<rparr>"
    by (simp add: demo_store_def)
  have id: "ae_event_id (handoff_event demo_runtime ''acme'' ''case-1'' ''corr'' [demo_evidence] demo_doc1) \<noteq>
      ae_event_id demo_doc1_event"
    by (simp add: handoff_event_def demo_doc1_event_def created_event_def demo_document_def)
  have "distinct (map decision_key (decisions demo_store))" by (simp add: demo_store_def)
  then show ?thesis
    using id
    by (simp add: attach_equiv postgres_attach_def handoff_context_def row demo_handed insert_audit_def
      store_document_def row_update_def record_handoff_def row_insert_def Let_def)
      (simp add: demo_store_def draft_doc_fields)
qed

abbreviation demo_attempt2 :: research_attempt where
  "demo_attempt2 \<equiv> \<lparr>at_attempt_id = ''research-1:attempt:2'', at_provider_id = ''x'', at_operation = ''extract'',
     at_status = ''SUCCEEDED'', at_occurred_at = ''t'', at_source_id = Some ''research-1:source:aaaaaaaaaaaaaaaa'',
     at_reason_code = None\<rparr>"

abbreviation demo_chosen :: source_candidate where
  "demo_chosen \<equiv> demo_source\<lparr>sc_status := ''SELECTED'', sc_artifact_type := ''SELECTED_SOURCE'',
     sc_reason_codes := [''SOURCE_SELECTED'']\<rparr>"

abbreviation demo_page :: source_snapshot where
  "demo_page \<equiv> \<lparr>ss_snapshot_id = ''research-1:source:aaaaaaaaaaaaaaaa:s'', ss_source_id = ''research-1:source:aaaaaaaaaaaaaaaa'',
     ss_original_url = ''u'', ss_canonical_url = ''u'', ss_domain = ''d'', ss_title = ''T'', ss_retrieved_at = ''t1'',
     ss_expires_at = ''t9'', ss_content_hash = demo_hash, ss_http_status = 200, ss_mime_type = ''text/plain'',
     ss_format = ''markdown'', ss_text = ''text'', ss_language = ''en'', ss_content_provider = ''x'',
     ss_content_provider_version = ''1'', ss_risk = \<lparr>prompt_injection_suspected = False, risk_reasons = [],
       secret_redacted = False, active_content_removed = False\<rparr>\<rparr>"

lemma demo_obtained:
  assumes "ob_run s = demo_run3" "ob_circuits s = (\<lambda>k. None)" "row_find fst demo_key (rp_budget (ob_repo s)) = Some (demo_key, 1)"
    "rp_snapshots (ob_repo s) = []"
  shows "\<exists>n repo. obtain_snapshot research_demo ''acme'' 0 s = (Inr (Some demo_page), s\<lparr>ob_reads := n,
      ob_repo := (ob_repo s)\<lparr>rp_budget := row_update fst demo_key (\<lambda>(k, u). (k, 2)) (rp_budget (ob_repo s))\<rparr>,
      ob_run := demo_run3\<lparr>run_sources := [demo_chosen], run_attempts := [demo_attempt1, demo_attempt2], run_cost_units := 2\<rparr>\<rparr>)"
  using assms by (cases s) (simp add: obtain_snapshot_def [THEN fun_cong] cached_snapshot_def [THEN fun_cong]
    fetch_snapshot_def [THEN fun_cong] provider_call_def [THEN fun_cong] accept_content_def [THEN fun_cong]
    current_source_def [THEN fun_cong] change_source_def get_snapshot_def bind_apply orch_time_def reading_def
    can_attempt_def attempts_of_def circuit_admits_def [THEN fun_cong] before_call_def circuit_key_def reserved_eq reserve_budget_def
    started_attempt_def circuit_succeeded_def record_success_def succeed_attempt_def change_last_attempt_def change_run_def demo_policy_def
    record_egress.simps(1) [THEN fun_cong] ensure_active_def [THEN fun_cong] demo_digits demo_snapshot_def
    provider_of_def demo_not_blank cong: weak_congs)

abbreviation demo_candidate :: evidence_candidate where
  "demo_candidate \<equiv> \<lparr>ec_evidence_id = ''research-aaaaaaaaaaaaaaaaaaaaaaaa'', ec_tenant_id = ''acme'',
     ec_research_run_id = ''research-1'', ec_decision_file_id = ''case-1'', ec_claim_refs = [''c1''],
     ec_source_id = ''research-1:source:aaaaaaaaaaaaaaaa'', ec_snapshot_id = ''research-1:source:aaaaaaaaaaaaaaaa:s'',
     ec_content_hash = demo_hash, ec_assessment = \<lparr>ea_freshness_status = ''UNKNOWN'', ea_source_type = ''PRIMARY'',
       ea_authority_score = 90, ea_relevance_score = 100, ea_conflict_status = ''NOT_CHECKED'',
       ea_usable_for_decision = True, ea_requires_human_review = True,
       ea_reason_codes = [''EXTERNAL_EVIDENCE_UNVERIFIED'']\<rparr>,
     ec_provenance = \<lparr>pv_search_result_rank = 1, pv_search_query = ''q'', pv_search_provider = ''s'',
       pv_search_provider_version = ''1'', pv_content_provider = ''x'', pv_content_provider_version = ''1'',
       pv_policy_version = evidence_policy_version\<rparr>,
     ec_risk = \<lparr>prompt_injection_suspected = False, risk_reasons = [], secret_redacted = False,
       active_content_removed = False\<rparr>\<rparr>"

abbreviation demo_run4 :: research_run where
  "demo_run4 \<equiv> demo_run3\<lparr>run_sources := [demo_chosen\<lparr>sc_status := ''EXTRACTED''\<rparr>], run_snapshots := [demo_page],
     run_evidence := [demo_candidate], run_attempts := [demo_attempt1, demo_attempt2], run_cost_units := 2\<rparr>"

lemma demo_collected:
  assumes "ob_run s = demo_run3" "ob_circuits s = (\<lambda>k. None)" "row_find fst demo_key (rp_budget (ob_repo s)) = Some (demo_key, 1)"
    "rp_snapshots (ob_repo s) = []"
  shows "\<exists>n. collect_sources research_demo ''acme'' [0] [] s = (Inr (), s\<lparr>ob_reads := n,
      ob_repo := (ob_repo s)\<lparr>rp_budget := row_update fst demo_key (\<lambda>(k, u). (k, 2)) (rp_budget (ob_repo s))\<rparr>,
      ob_run := demo_run4\<rparr>)"
proof -
  let ?s = "s\<lparr>ob_reads := ob_reads s + 1\<rparr>"
  obtain n where "obtain_snapshot research_demo ''acme'' 0 ?s = (Inr (Some demo_page), ?s\<lparr>ob_reads := n,
      ob_repo := (ob_repo s)\<lparr>rp_budget := row_update fst demo_key (\<lambda>(k, u). (k, 2)) (rp_budget (ob_repo s))\<rparr>,
      ob_run := demo_run3\<lparr>run_sources := [demo_chosen], run_attempts := [demo_attempt1, demo_attempt2], run_cost_units := 2\<rparr>\<rparr>)"
    using demo_obtained [of ?s] assms by auto
  then show ?thesis
    by (cases s) (simp add: collect_sources.simps [THEN fun_cong] bind_apply ensure_active_def [THEN fun_cong] reading_def
      change_run_def add_evidence_def Let_def change_source_def demo_assessed evidence_of_def evidence_id_of_def
      cong: weak_congs)
qed

lemma demo_chosen_sources: "select_indices [demo_source] 1 [''DISCOVERED''] = [0]"
  by (simp add: select_indices_def enumerate_eq_zip)

abbreviation demo_event4 :: research_event where
  "demo_event4 \<equiv> demo_event (Suc (Suc (Suc 0))) RS_EXTRACTING RS_EVIDENCE_COMPILED [''EVIDENCE_CANDIDATES_COMPILED'']"

abbreviation demo_event5 :: research_event where
  "demo_event5 \<equiv> demo_event (Suc (Suc (Suc (Suc 0)))) RS_EVIDENCE_COMPILED RS_COMPLETED [''RESEARCH_COMPLETED'']"

abbreviation demo_run5 :: research_run where
  "demo_run5 \<equiv> demo_run4\<lparr>run_status := RS_EVIDENCE_COMPILED,
     run_audit_events := [demo_event1, demo_event2, demo_event3, demo_event4]\<rparr>"

abbreviation demo_run6 :: research_run where
  "demo_run6 \<equiv> demo_run5\<lparr>run_compiled_decision_file_id := Some ''case-1''\<rparr>"

abbreviation demo_run7 :: research_run where
  "demo_run7 \<equiv> demo_run6\<lparr>run_status := RS_COMPLETED,
     run_audit_events := [demo_event1, demo_event2, demo_event3, demo_event4, demo_event5]\<rparr>"

definition demo_repo4 :: research_repo where
  "demo_repo4 = empty_research\<lparr>rp_runs := [demo_run3], rp_sources := [(demo_key, demo_source)],
     rp_attempts := [(demo_key, demo_attempt1)],
     rp_events := [(demo_key, 1, demo_event1), (demo_key, 2, demo_event2), (demo_key, 3, demo_event3)],
     rp_budget := [(demo_key, 2)]\<rparr>"

lemma demo_try_handoff:
  assumes "ob_run s = demo_run5" "handoff_view s = \<lparr>hd_store = demo_store, hd_runs = [demo_key], hd_handoffs = []\<rparr>"
  shows "\<exists>n h. try_handoff research_demo ''acme'' [demo_evidence] s =
    (Inr False, s\<lparr>ob_reads := n, ob_handoff := h, ob_run := demo_run6\<rparr>)"
proof -
  obtain h where "sqlite_attach demo_runtime ''ts'' ''acme'' ''case-1'' demo_hash [demo_evidence]
     \<lparr>hd_store = demo_store, hd_runs = [demo_key], hd_handoffs = []\<rparr> = Inr (demo_attached, h)"
    using demo_attach by blast
  with assms show ?thesis
    by (cases s) (simp add: try_handoff_def [THEN fun_cong] bind_apply ensure_active_def [THEN fun_cong] reading_def
      attach_to_decision_def [THEN fun_cong] Let_def handoff_view_def demo_run_def no_run_def cong: weak_congs)
qed

lemma demo_concluded:
  assumes "ob_run s = demo_run6" "ob_repo s = demo_repo4"
  shows "\<exists>s'. conclude research_demo ''acme'' ''rob'' False k s = (Inr demo_run7, s')"
  using assms by (cases s) (simp add: conclude_def [THEN fun_cong] ensure_active_def [THEN fun_cong] partial_statuses_def
    move_parts save_run_def save_parts demo_repo4_def empty_research_def demo_digits cong: weak_congs)

lemma demo_finalized:
  assumes "ob_run s = demo_run4" "ob_repo s = demo_repo4"
    "ob_handoff s = \<lparr>hd_store = demo_store, hd_runs = [], hd_handoffs = []\<rparr>"
  shows "\<exists>s'. finalize_run research_demo ''acme'' ''rob'' s = (Inr demo_run7, s')"
proof -
  let ?s = "s\<lparr>ob_reads := ob_reads s + 2, ob_run := demo_run5\<rparr>"
  have "handoff_view ?s = \<lparr>hd_store = demo_store, hd_runs = [demo_key], hd_handoffs = []\<rparr>"
    using assms by (simp add: handoff_view_def demo_repo4_def empty_research_def run_key_of_def)
  then obtain n h where t: "try_handoff research_demo ''acme'' [demo_evidence] ?s =
      (Inr False, ?s\<lparr>ob_reads := n, ob_handoff := h, ob_run := demo_run6\<rparr>)"
    using demo_try_handoff [of ?s] by auto
  obtain s' where c: "conclude research_demo ''acme'' ''rob'' False (Suc 0) (?s\<lparr>ob_reads := n, ob_handoff := h, ob_run := demo_run6\<rparr>) =
      (Inr demo_run7, s')"
    using demo_concluded [of "?s\<lparr>ob_reads := n, ob_handoff := h, ob_run := demo_run6\<rparr>" "Suc 0"] assms(2) by auto
  have m: "mark_conflicting_evidence demo_run5 = demo_run5" by (simp add: mark_conflicting_evidence_def)
  have e: "compile_evidence demo_run5 = Inr [demo_evidence]"
    by (simp add: compile_evidence_def eligible_evidence_def compile_candidate_def compiled_status_def)
  have mv: "move_run research_demo False RS_EVIDENCE_COMPILED ''rob'' [''EVIDENCE_CANDIDATES_COMPILED''] p
      (s\<lparr>ob_reads := ob_reads s + 1\<rparr>) = (Inr (), ?s)" for p
    using assms(1) by (cases s) (simp add: move_parts demo_run_def no_run_def cong: weak_congs)
  have ch: "change_run mark_conflicting_evidence ?s = (Inr (), ?s)"
    using m by (cases s) (simp add: change_run_def)
  have r: "ob_run ?s = demo_run5" by simp
  have "finalize_run research_demo ''acme'' ''rob'' s = (Inr demo_run7, s')"
    unfolding finalize_run_def
    by (simp add: bind_apply ensure_active_def [THEN fun_cong] reading_def assms(1) del: One_nat_def cong: weak_congs)
      (simp only: mv ch r e t c bind_apply prod.case sum.case orch.simps list.size add_0 plus_nat.add_Suc, simp)
  then show ?thesis by blast
qed

lemma demo_active: "ensure_active research_demo s = (Inr (), s\<lparr>ob_reads := Suc (ob_reads s)\<rparr>)"
  by (simp add: ensure_active_def bind_apply reading_def)

lemma bind_step: "m s = (Inr x, s1) \<Longrightarrow> bind_action m f s = f x s1"
  by (simp add: bind_apply)

lemma demo_research:
  assumes "ob_run s = demo_run1" "ob_circuits s = (\<lambda>k. None)" "ob_repo s = empty_research\<lparr>rp_runs := [demo_run1],
    rp_events := [(demo_key, 1, demo_event1)], rp_budget := [(demo_key, 0)]\<rparr>"
    "ob_handoff s = \<lparr>hd_store = demo_store, hd_runs = [], hd_handoffs = []\<rparr>"
  shows "\<exists>s'. run_research research_demo ''acme'' ''rob'' s = (Inr demo_run7, s')"
proof -
  let ?repo2 = "empty_research\<lparr>rp_runs := [demo_run2], rp_sources := [(demo_key, demo_source)],
    rp_attempts := [(demo_key, demo_attempt1)], rp_events := [(demo_key, 1, demo_event1), (demo_key, 2, demo_event2)],
    rp_budget := [(demo_key, 1)]\<rparr>"
  let ?repo3 = "empty_research\<lparr>rp_runs := [demo_run3], rp_sources := [(demo_key, demo_source)],
    rp_attempts := [(demo_key, demo_attempt1)],
    rp_events := [(demo_key, 1, demo_event1), (demo_key, 2, demo_event2), (demo_key, 3, demo_event3)],
    rp_budget := [(demo_key, 1)]\<rparr>"
  obtain n where d: "discover research_demo ''acme'' ''rob'' s = (Inr True, s\<lparr>ob_run := demo_run2, ob_reads := n, ob_repo := ?repo2\<rparr>)"
    using demo_discovered [OF assms(1-3)] by blast
  let ?s2 = "s\<lparr>ob_run := demo_run2, ob_repo := ?repo2, ob_reads := Suc n\<rparr>"
  let ?s3 = "?s2\<lparr>ob_run := demo_run3, ob_reads := Suc (Suc n), ob_repo := ?repo3\<rparr>"
  have x: "start_extraction research_demo ''acme'' ''rob'' False ?s2 = (Inr (), ?s3)"
    using demo_extracting [of ?s2] by simp
  let ?s3' = "?s3\<lparr>ob_reads := Suc (Suc (Suc n)), ob_run := skip_unselected [0] demo_run3\<rparr>"
  have k: "skip_unselected [0] demo_run3 = demo_run3"
    by (simp add: skip_unselected_def demo_run_def no_run_def)
  have p: "ob_run ?s3' = demo_run3" using k by simp
  have q: "ob_circuits ?s3' = (\<lambda>k. None)" using assms(2) by simp
  have b: "row_find fst demo_key (rp_budget (ob_repo ?s3')) = Some (demo_key, 1)" "rp_snapshots (ob_repo ?s3') = []"
    by (simp_all add: empty_research_def)
  have "(ob_repo ?s3')\<lparr>rp_budget := row_update fst demo_key (\<lambda>(k, u). (k, 2)) (rp_budget (ob_repo ?s3'))\<rparr> = demo_repo4"
    by (simp add: row_update_def demo_repo4_def empty_research_def)
  then obtain m where c: "collect_sources research_demo ''acme'' [0] [] ?s3' = (Inr (), ?s3'\<lparr>ob_reads := m, ob_repo := demo_repo4, ob_run := demo_run4\<rparr>)"
    using demo_collected [OF p q b] by metis
  obtain s' where f: "finalize_run research_demo ''acme'' ''rob'' (?s3'\<lparr>ob_reads := m, ob_repo := demo_repo4, ob_run := demo_run4\<rparr>) =
      (Inr demo_run7, s')"
    using demo_finalized [of "?s3'\<lparr>ob_reads := m, ob_repo := demo_repo4, ob_run := demo_run4\<rparr>"] assms(4) by auto
  have h: "run_snapshots (skip_unselected chosen run) = run_snapshots run" for chosen run
    by (simp add: skip_unselected_def Let_def)
  have "extract_and_finalize research_demo ''acme'' ''rob'' False ?s3 =
      bind_action (collect_sources research_demo ''acme'' [0] []) (\<lambda>_. finalize_run research_demo ''acme'' ''rob'') ?s3'"
    unfolding extract_and_finalize_def bind_step [OF demo_active]
    by (simp add: bind_apply [of "read_state f" for f] bind_apply [of "change_run f" for f] change_run_def
      demo_chosen_sources h cong: bind_weak_cong del: collect_sources.simps)
  also have "\<dots> = (Inr demo_run7, s')"
    unfolding bind_step [of "collect_sources a b d e" for a b d e, OF c] by (rule f)
  finally have e: "extract_and_finalize research_demo ''acme'' ''rob'' False ?s3 = (Inr demo_run7, s')" .
  have "run_research research_demo ''acme'' ''rob'' s = bind_action (start_extraction research_demo ''acme'' ''rob'' False)
      (\<lambda>_. extract_and_finalize research_demo ''acme'' ''rob'' False) ?s2"
    unfolding run_research_def bind_step [of "discover a b c" for a b c, OF d] by (simp add: bind_step [OF demo_active] cong: bind_weak_cong)
  also have "\<dots> = (Inr demo_run7, s')"
    unfolding bind_step [of "start_extraction a b c d" for a b c d, OF x] by (rule e)
  finally show ?thesis by blast
qed

lemma demo_executes:
  "\<exists>s'. execute research_demo ''acme'' ''rob'' demo_request demo_hash ''corr'' None research_start = (Inr demo_run7, s')"
proof -
  let ?s1 = "research_start\<lparr>ob_reads := Suc (ob_reads research_start)\<rparr>"
  have p: "prepare research_demo ''acme'' ''rob'' demo_request demo_hash ''corr'' None ?s1 =
    (Inr demo_run, research_start\<lparr>ob_run := demo_run, ob_reads := Suc (Suc 0), ob_repo := empty_research\<lparr>rp_runs := [demo_run],
       rp_budget := [(demo_key, 0)]\<rparr>\<rparr>)"
    by (simp add: prepare_def propose_def bind_apply orch_time_def reading_def semantic_fingerprint_def create_or_get_def
      assert_tenant_def row_insert_def run_key_of_def demo_policy_def demo_run_def no_run_def empty_research_def
      research_start_def cong: weak_congs)
  let ?s2 = "research_start\<lparr>ob_run := demo_run, ob_repo := empty_research\<lparr>rp_runs := [demo_run],
    rp_budget := [(demo_key, 0)]\<rparr>, ob_reads := Suc (Suc (Suc 0))\<rparr>"
  let ?s3 = "?s2\<lparr>ob_run := demo_run1, ob_reads := Suc (Suc (Suc (Suc 0))), ob_repo := empty_research\<lparr>rp_runs := [demo_run1],
    rp_events := [(demo_key, 1, demo_event1)], rp_budget := [(demo_key, 0)]\<rparr>\<rparr>"
  have "bind_action (move_run research_demo False RS_SEARCHING ''rob'' [''SEARCH_STARTED''] payload) (\<lambda>_.
      bind_action (save_run ''acme'') (\<lambda>_. run_research research_demo ''acme'' ''rob'')) ?s2 = run_research research_demo ''acme'' ''rob'' ?s3"
    for payload by (subst demo_searching) simp_all
  moreover have "execute research_demo ''acme'' ''rob'' demo_request demo_hash ''corr'' None research_start =
      bind_action (move_run research_demo False RS_SEARCHING ''rob'' [''SEARCH_STARTED'']
        (\<lambda>run. JObj [(''query_hash'', JStr (esha research_demo (rq_query demo_request)))])) (\<lambda>_.
        bind_action (save_run ''acme'') (\<lambda>_. run_research research_demo ''acme'' ''rob'')) ?s2"
    unfolding execute_def bind_step [OF demo_active] bind_step [of "prepare a b c d e f g" for a b c d e f g, OF p] by (simp add: bind_step [OF demo_active])
  moreover obtain s' where "run_research research_demo ''acme'' ''rob'' ?s3 = (Inr demo_run7, s')"
    using demo_research [of ?s3] by (auto simp: research_start_def)
  ultimately have "execute research_demo ''acme'' ''rob'' demo_request demo_hash ''corr'' None research_start = (Inr demo_run7, s')"
    by (simp only:)
  then show ?thesis by blast
qed

end
