(* ===== verification/ResearchFrames.thy ===== *)
theory ResearchFrames
  imports ResearchInvariants
begin

text \<open>
  What the operations of the research orchestrator leave alone, whatever they return: the
  idempotency table of the research store, the runs that are stored (one may change, none
  goes away), and the decisions, of which only drafts change and only by gaining evidence
  that is not VERIFIED. A \<open>frame\<close> is a relation between the states before and after.
\<close>

section \<open>Frames\<close>

definition frame :: "('s \<Rightarrow> 's \<Rightarrow> bool) \<Rightarrow> ('s, 'a) action \<Rightarrow> bool" where
  "frame R m = (\<forall>s. R s (snd (m s)))"

lemma frameI: "(\<And>s r s'. m s = (r, s') \<Longrightarrow> R s s') \<Longrightarrow> frame R m"
  by (simp add: frame_def) (metis prod.collapse)

lemma frameD: "frame R m \<Longrightarrow> m s = (r, s') \<Longrightarrow> R s s'"
  by (metis frame_def snd_conv)

lemma frame_weaken: "frame Q m \<Longrightarrow> (\<And>s s'. Q s s' \<Longrightarrow> R s s') \<Longrightarrow> frame R m"
  by (simp add: frame_def)

locale framed =
  fixes R :: "'s \<Rightarrow> 's \<Rightarrow> bool"
  assumes stays: "R s s"
    and follows: "R s s' \<Longrightarrow> R s' s'' \<Longrightarrow> R s s''"
begin

lemma bind_value:
  assumes "frame R m" and "\<And>s x. fst (m s) = Inr x \<Longrightarrow> frame R (f x)"
  shows "frame R (bind_action m f)"
proof (rule frameI)
  fix s r s' assume b: "bind_action m f s = (r, s')"
  obtain q s1 where m: "m s = (q, s1)" by (cases "m s")
  have 1: "R s s1" using assms(1) m by (rule frameD)
  show "R s s'"
  proof (cases q)
    case (Inl e)
    with b m 1 show ?thesis by (simp add: bind_action_def)
  next
    case (Inr x)
    with b m have "f x s1 = (r, s')" by (simp add: bind_action_def)
    moreover have "frame R (f x)" using assms(2) [of s x] m Inr by simp
    ultimately have "R s1 s'" by (rule frameD [rotated])
    with 1 show ?thesis by (rule follows)
  qed
qed

lemma bind: "frame R m \<Longrightarrow> (\<And>x. frame R (f x)) \<Longrightarrow> frame R (bind_action m f)"
  by (rule bind_value)

lemma basic: "frame R (pure_action x)" "frame R (raise_action e)" "frame R (lift_result r)" "frame R (read_state g)"
  "frame R (\<lambda>s. (h s, s))"
  by (simp_all add: frame_def stays)

lemma cond: "frame R m \<Longrightarrow> frame R n \<Longrightarrow> frame R (if b then m else n)"
  by simp

lemma pair: "(\<And>x y. frame R (f x y)) \<Longrightarrow> frame R (case p of (x, y) \<Rightarrow> f x y)"
  by (cases p) simp

lemma optional: "frame R n \<Longrightarrow> (\<And>x. frame R (f x)) \<Longrightarrow> frame R (case v of None \<Rightarrow> n | Some x \<Rightarrow> f x)"
  by (cases v) simp_all

lemma either: "(\<And>e. frame R (f e)) \<Longrightarrow> (\<And>x. frame R (g x)) \<Longrightarrow> frame R (case v of Inl e \<Rightarrow> f e | Inr x \<Rightarrow> g x)"
  by (cases v) simp_all

text \<open>A handler sees the result and the state of what it handles.\<close>

lemma handler:
  assumes "frame R m" and "\<And>s r s'. m s = (r, s') \<Longrightarrow> R s' (snd (k r s'))"
  shows "frame R (\<lambda>s. case m s of (r, s') \<Rightarrow> k r s')"
proof (rule frameI)
  fix s r s' assume h: "(case m s of (r, s') \<Rightarrow> k r s') = (r, s')"
  obtain q s1 where m: "m s = (q, s1)" by (cases "m s")
  with h have "k q s1 = (r, s')" by simp
  then show "R s s'" using frameD [OF assms(1) m] assms(2) [OF m] by (metis follows snd_conv)
qed

end

section \<open>What research leaves alone\<close>

text \<open>A document that research may have added to.\<close>

definition gains_evidence :: "decision_file \<Rightarrow> decision_file \<Rightarrow> bool" where
  "gains_evidence d d' = (\<exists>items events changed. d' = d\<lparr>df_evidence := df_evidence d @ items,
     df_updated_at := changed, df_audit_events := df_audit_events d @ events\<rparr> \<and>
     VERIFIED \<notin> ev_status ` set items \<and> (d' \<noteq> d \<longrightarrow> df_status d = DRAFT))"

definition documents_kept :: "decision_db \<Rightarrow> decision_db \<Rightarrow> bool" where
  "documents_kept db db' = (\<forall>t did. case repo_get_decision t did db of
     None \<Rightarrow> repo_get_decision t did db' = None
   | Some d \<Rightarrow> (\<exists>d'. repo_get_decision t did db' = Some d' \<and> gains_evidence d d'))"

definition stored_keys :: "research_repo \<Rightarrow> run_key set" where
  "stored_keys db = run_key_of ` set (rp_runs db)"

text \<open>What belongs to other tenants is as it was.\<close>

definition others_kept :: "string \<Rightarrow> orch \<Rightarrow> orch \<Rightarrow> bool" where
  "others_kept t s s' = (\<forall>other. other \<noteq> t \<longrightarrow>
     (\<forall>did. repo_get_decision other did (hd_store (ob_handoff s')) = repo_get_decision other did (hd_store (ob_handoff s))) \<and>
     (\<forall>rid. research_get other rid (ob_repo s') = research_get other rid (ob_repo s)))"

definition leaves_be :: "string \<Rightarrow> orch \<Rightarrow> orch \<Rightarrow> bool" where
  "leaves_be t s s' = (rp_idempotency (ob_repo s') = rp_idempotency (ob_repo s) \<and>
     stored_keys (ob_repo s) \<subseteq> stored_keys (ob_repo s') \<and>
     documents_kept (hd_store (ob_handoff s)) (hd_store (ob_handoff s')) \<and>
     others_kept t s s')"

lemma gains_evidence_refl: "gains_evidence d d"
  unfolding gains_evidence_def by (rule exI [of _ "[]"], rule exI [of _ "[]"], rule exI [of _ "df_updated_at d"]) simp

lemma gains_evidence_trans:
  assumes "gains_evidence d d'" "gains_evidence d' d''"
  shows "gains_evidence d d''"
proof -
  from assms(1) obtain i e c where 1: "d' = d\<lparr>df_evidence := df_evidence d @ i, df_updated_at := c,
      df_audit_events := df_audit_events d @ e\<rparr>" "VERIFIED \<notin> ev_status ` set i" "d' \<noteq> d \<longrightarrow> df_status d = DRAFT"
    by (auto simp: gains_evidence_def)
  from assms(2) obtain j f b where 2: "d'' = d'\<lparr>df_evidence := df_evidence d' @ j, df_updated_at := b,
      df_audit_events := df_audit_events d' @ f\<rparr>" "VERIFIED \<notin> ev_status ` set j" "d'' \<noteq> d' \<longrightarrow> df_status d' = DRAFT"
    by (auto simp: gains_evidence_def)
  have "df_status d' = df_status d" by (simp add: 1(1))
  moreover have "d'' = d\<lparr>df_evidence := df_evidence d @ i @ j, df_updated_at := b,
      df_audit_events := df_audit_events d @ e @ f\<rparr>" by (simp add: 1(1) 2(1))
  moreover have "VERIFIED \<notin> ev_status ` set (i @ j)" using 1(2) 2(2) by auto
  ultimately show ?thesis unfolding gains_evidence_def using 1(3) 2(3) by metis
qed

lemma documents_kept_refl: "documents_kept db db"
  by (auto simp: documents_kept_def gains_evidence_refl split: option.split)

lemma documents_kept_trans:
  assumes "documents_kept db db'" "documents_kept db' db''"
  shows "documents_kept db db''"
  unfolding documents_kept_def
proof (intro allI)
  fix t did
  show "case repo_get_decision t did db of None \<Rightarrow> repo_get_decision t did db'' = None
     | Some d \<Rightarrow> \<exists>d'. repo_get_decision t did db'' = Some d' \<and> gains_evidence d d'"
    using assms [unfolded documents_kept_def, rule_format, of t did]
    by (auto split: option.splits intro: gains_evidence_trans)
qed

lemma others_kept_same: "ob_repo s' = ob_repo s \<Longrightarrow> ob_handoff s' = ob_handoff s \<Longrightarrow> others_kept t s s'"
  by (simp add: others_kept_def)

lemma others_kept_trans: "others_kept t s s' \<Longrightarrow> others_kept t s' s'' \<Longrightarrow> others_kept t s s''"
  by (simp add: others_kept_def)

interpretation orch: framed "leaves_be t" for t
  by unfold_locales (auto simp: leaves_be_def documents_kept_refl others_kept_same
      intro: documents_kept_trans others_kept_trans)

named_theorems frames \<open>operations that leave be\<close>

lemmas frame_basic = orch.basic

lemma leaves_be_same:
  "ob_repo s' = ob_repo s \<Longrightarrow> ob_handoff s' = ob_handoff s \<Longrightarrow> leaves_be t s s'"
  by (simp add: leaves_be_def documents_kept_refl others_kept_same)

section \<open>The operations\<close>

lemma quiet_frame: "(\<And>s. ob_repo (snd (m s)) = ob_repo s \<and> ob_handoff (snd (m s)) = ob_handoff s) \<Longrightarrow> frame (leaves_be t) m"
  by (simp add: frame_def leaves_be_same)

lemma frame_reading [frames]: "frame (leaves_be t) (reading f)"
  by (rule quiet_frame) (simp add: reading_def)

lemma frame_change_run [frames]: "frame (leaves_be t) (change_run f)"
  by (rule quiet_frame) (simp add: change_run_def)

lemma frame_move_run [frames]: "frame (leaves_be t) (move_run E retry target actor reasons payload)"
  by (rule quiet_frame) (simp add: move_run_def orch_time_def bind_action_def reading_def split: sum.split)

lemma frame_circuit_admits [frames]: "frame (leaves_be t) (circuit_admits E t p)"
  by (rule quiet_frame) (simp add: circuit_admits_def bind_action_def reading_def split: sum.split exn.split)

lemma frame_circuit_failed [frames]: "frame (leaves_be t) (circuit_failed E t p r)"
  by (rule quiet_frame) (simp add: circuit_failed_def bind_action_def reading_def split: sum.split)

lemma frame_circuit_succeeded [frames]: "frame (leaves_be t) (circuit_succeeded t p)"
  by (rule quiet_frame) (simp add: circuit_succeeded_def split: sum.split)

lemma frame_required_run [frames]: "frame (leaves_be t) (required_run t rid)"
  by (rule quiet_frame) (simp add: required_run_def split: option.split)

lemma frame_time [frames]: "frame (leaves_be t) (orch_time E)"
  unfolding orch_time_def by (rule frame_reading)

lemma frame_active [frames]: "frame (leaves_be t) (ensure_active E)"
  unfolding ensure_active_def by (intro orch.bind orch.cond frame_basic frames)

text \<open>Saving replaces one run and writes below it.\<close>

lemma save_idempotency:
  assumes "research_save t run db = Inr db'"
  shows "rp_idempotency db' = rp_idempotency db"
proof -
  let ?g = rp_idempotency
  from assms obtain db1 db3 db4 where 1: "save_run_row (t, run_id run) run db = Inr db1"
    and 3: "fold_result (save_snapshot (t, run_id run)) (run_snapshots run)
      (fold (save_source (t, run_id run)) (run_sources run) db1) = Inr db3"
    and 4: "fold_result (save_evidence (t, run_id run)) (run_evidence run) db3 = Inr db4"
    and 5: "fold_result (\<lambda>(n, e). save_event (t, run_id run) n e)
      (zip (map (\<lambda>i. int i + 1) [0..<length (run_audit_events run)]) (run_audit_events run))
      (fold (save_attempt (t, run_id run)) (run_attempts run) db4) = Inr db'"
    by (auto simp: research_save_def assert_tenant_def monad_simps Let_def)
  have "?g db' = ?g (fold (save_attempt (t, run_id run)) (run_attempts run) db4)"
    by (rule fold_result_inv [OF _ 5]) (auto simp: save_event_def monad_simps split: option.splits)
  also have "\<dots> = ?g db4" by (rule fold_inv) (simp add: save_attempt_def)
  also have "\<dots> = ?g db3"
    by (rule fold_result_inv [OF _ 4]) (auto simp: save_evidence_def Let_def monad_simps split: if_splits)
  also have "\<dots> = ?g (fold (save_source (t, run_id run)) (run_sources run) db1)"
    by (rule fold_result_inv [OF _ 3]) (auto simp: save_snapshot_def Let_def monad_simps split: if_splits)
  also have "\<dots> = ?g db1" by (rule fold_inv) (simp add: save_source_def)
  finally show ?thesis using 1 by (auto simp: save_run_row_def monad_simps)
qed

lemma row_replace_find:
  "k \<noteq> key r \<Longrightarrow> row_find key k (row_update key (key r) (\<lambda>_. r) rows) = row_find key k rows"
  by (induction rows) (auto simp: row_find_def row_update_def)

lemma frame_save_run [frames]: "frame (leaves_be t) (save_run t)"
proof (rule frameI)
  fix s r s' assume "save_run t s = (r, s')"
  then consider "s' = s" | db where "research_save t (ob_run s) (ob_repo s) = Inr db" "s' = s\<lparr>ob_repo := db\<rparr>"
    by (auto simp: save_run_def split: sum.splits)
  then show "leaves_be t s s'"
  proof cases
    case 1
    then show ?thesis by (simp add: orch.stays)
  next
    case 2
    have "map run_key_of (rp_runs db) = map run_key_of (rp_runs (ob_repo s))"
      unfolding research_save_runs(3) [OF 2(1)] by (simp add: row_update_def)
    then have "run_key_of ` set (rp_runs db) = run_key_of ` set (rp_runs (ob_repo s))" by (metis set_map)
    moreover have "research_get other rid db = research_get other rid (ob_repo s)" if "other \<noteq> t" for other rid
      unfolding research_get_def research_save_runs(3) [OF 2(1)]
      by (rule row_replace_find) (use research_save_runs(1) [OF 2(1)] that in \<open>simp add: run_key_of_def\<close>)
    ultimately show ?thesis using 2 save_idempotency [OF 2(1)]
      by (simp add: leaves_be_def stored_keys_def documents_kept_refl others_kept_def)
  qed
qed

lemma frame_reserve [frames]: "frame (leaves_be t) (reserve E t operation sid)"
proof -
  have "frame (leaves_be t) (\<lambda>s. case reserve_budget t (run_id (ob_run s)) (provider_budget (oe_policy E)) (ob_repo s) of
      Inl e \<Rightarrow> (Inl e, s) | Inr (used, repo) \<Rightarrow> (Inr used, s\<lparr>ob_repo := repo\<rparr>))"
    by (rule frameI)
      (auto simp: reserve_budget_def monad_simps leaves_be_def stored_keys_def documents_kept_refl others_kept_def research_get_def split: sum.splits option.splits)
  then show ?thesis unfolding reserve_def by (intro orch.bind frame_basic frames)
qed

lemma frame_record_egress [frames]: "frame (leaves_be t) (record_egress E t ds)"
proof (induction ds)
  case Nil
  then show ?case by (simp add: frame_basic)
next
  case (Cons d ds)
  have "frame (leaves_be t) (\<lambda>s. case save_run t s of (Inl e, s') \<Rightarrow> (Inr False, s') | (Inr u, s') \<Rightarrow> record_egress E t ds s')"
    using orch.handler [OF frame_save_run, of t "\<lambda>r s'. case r of Inl e \<Rightarrow> (Inr False, s') | Inr u \<Rightarrow> record_egress E t ds s'"] Cons
    by (simp add: case_prod_beta' frame_def orch.stays split: sum.split)
  then show ?case unfolding record_egress.simps by (intro orch.bind frames)
qed

lemma frame_provider_call [frames]: "frame (leaves_be t) (provider_call E t ask raised)"
  unfolding provider_call_def by (intro orch.bind orch.cond orch.pair frame_basic frames)

lemma frame_reserved [frames]: "frame (leaves_be t) (reserved E t operation sid)"
proof -
  have "frame (leaves_be t) (bind_action (ensure_active E) (\<lambda>_. reserve E t operation sid))" by (intro orch.bind frames)
  from orch.handler [OF this, of "\<lambda>r s'. case r of Inl e \<Rightarrow> if e = ValueError ''BUDGET_EXCEEDED'' then (Inr False, s') else (Inl e, s')
      | Inr u \<Rightarrow> (Inr True, s')"]
  show ?thesis unfolding reserved_def by (simp add: frame_def orch.stays split: sum.split prod.split)
qed

text \<open>The handoff adds to one draft.\<close>

lemma list_all2_preimage: "list_all2 P xs ys \<Longrightarrow> y \<in> set ys \<Longrightarrow> \<exists>x \<in> set xs. P x y"
  by (induction rule: list_all2_induct) auto

lemma compiled_element:
  assumes "compile_evidence run = Inr ds" and "d \<in> set ds"
  obtains e where "e \<in> set (run_evidence run)" "eligible_evidence e" "de_evidence_id d = ec_evidence_id e"
    "de_status d = compiled_status e"
proof -
  from assms obtain e where "e \<in> set (filter eligible_evidence (run_evidence run))" "compile_candidate run e = Inr d"
    unfolding compile_evidence_def traverse_Inr_iff by (blast dest: list_all2_preimage)
  then show thesis by (intro that [of e]) (auto simp: compile_candidate_def split: option.splits)
qed

lemma compiled_status_cases: "compiled_status e \<in> {UNVERIFIED, OUTDATED, CONFLICTING}"
  by (simp add: compiled_status_def)

lemma unverified_items:
  assumes "compile_evidence run = Inr compiled"
  shows "VERIFIED \<notin> de_status ` set compiled"
  by (auto simp: compiled_status_def elim!: compiled_element [OF assms] split: if_splits)

lemma row_find_map: "(\<And>r. key (f r) = key r) \<Longrightarrow> row_find key k (map f rows) = map_option f (row_find key k rows)"
  by (induction rows) (simp_all add: row_find_def)

lemma sqlite_write_documents:
  assumes "row_find decision_key (t, did) (decisions s) = Some row"
    and "sqlite_write now t did (dr_document row) d' s = Inr s'"
  shows "map_option dr_document (row_find decision_key (t', did') (decisions s')) =
    (if t' = t \<and> did' = did then Some d' else repo_get_decision t' did' s)"
proof -
  define f where "f = (\<lambda>r. if decision_key r = (t, did) \<and> dr_document r = dr_document row
    then r\<lparr>dr_document := d', dr_updated_at := now\<rparr> else r)"
  have s': "decisions s' = map f (decisions s)"
    using assms(2) by (auto simp: sqlite_write_def Let_def monad_simps f_def)
  have found: "row_find decision_key k (map f (decisions s)) = map_option f (row_find decision_key k (decisions s))" for k
    by (rule row_find_map) (simp add: f_def)
  show ?thesis
  proof (cases "t' = t \<and> did' = did")
    case True
    moreover from row_find_SomeD [OF assms(1)] have "dr_document (f row) = d'" by (simp add: f_def)
    ultimately show ?thesis using assms(1) by (simp add: s' found)
  next
    case False
    then have "f r = r" if "row_find decision_key (t', did') (decisions s) = Some r" for r
      using row_find_SomeD [OF that] by (auto simp: f_def)
    then show ?thesis using False
      by (cases "row_find decision_key (t', did') (decisions s)") (auto simp: s' found repo_get_decision_def)
  qed
qed

lemma attach_documents:
  assumes "sqlite_attach R now t did expected evidence db = Inr (d', db')" "VERIFIED \<notin> de_status ` set evidence"
  shows "documents_kept (hd_store db) (hd_store db') \<and>
    (\<forall>other did. other \<noteq> t \<longrightarrow> repo_get_decision other did (hd_store db') = repo_get_decision other did (hd_store db))"
proof -
  from assms(1) obtain run c row where row: "row_find decision_key (t, did) (decisions (hd_store db)) = Some row"
    and c: "handoff_context evidence = Inr (run, c)"
    by (auto simp: sqlite_attach_def monad_simps split: option.splits)
  show ?thesis
  proof (cases "(t, run, did, handoff_id R evidence) \<in> handoff_key ` set (hd_handoffs db)")
    case True
    with assms(1) row c show ?thesis by (simp add: sqlite_attach_def documents_kept_refl)
  next
    case False
    with assms(1) row c obtain e s1 s2 where h: "handoff_document R t did c expected evidence (dr_document row) = Inr (d', e)"
      and w: "sqlite_write now t did (dr_document row) d' (hd_store db) = Inr s1"
      and a: "insert_audit t did e s1 = Inr s2"
      and r: "record_handoff R t run did evidence d' (db\<lparr>hd_store := s2\<rparr>) = Inr db'"
      by (auto simp: sqlite_attach_def monad_simps Let_def)
    have s2: "decisions (hd_store db') = decisions s1"
      using r a by (auto simp: record_handoff_def insert_audit_def monad_simps)
    have get: "repo_get_decision t' did' (hd_store db') =
        (if t' = t \<and> did' = did then Some d' else repo_get_decision t' did' (hd_store db))" for t' did'
      using sqlite_write_documents [OF row w, of t' did'] by (simp add: repo_get_decision_def [of _ _ "hd_store db'"] s2)
    have "gains_evidence (dr_document row) d'"
    proof -
      from h have d: "df_status (dr_document row) = DRAFT" "d' = (dr_document row)\<lparr>
          df_evidence := df_evidence (dr_document row) @ new_items (dr_document row) evidence,
          df_updated_at := max_observed evidence, df_audit_events := df_audit_events (dr_document row) @ [e]\<rparr>"
        by (auto simp: handoff_document_def monad_simps Let_def)
      moreover have "VERIFIED \<notin> ev_status ` set (new_items (dr_document row) evidence)"
        using assms(2) by (auto simp: new_items_def attached_item_def)
      ultimately show ?thesis unfolding gains_evidence_def by blast
    qed
    moreover have "repo_get_decision t did (hd_store db) = Some (dr_document row)"
      by (simp add: repo_get_decision_def row)
    ultimately show ?thesis
      by (auto simp: documents_kept_def get gains_evidence_refl split: option.split)
  qed
qed

lemma frame_attach [frames]:
  assumes "VERIFIED \<notin> de_status ` set compiled"
  shows "frame (leaves_be t) (attach_to_decision E t compiled)"
proof -
  have "leaves_be t s (s\<lparr>ob_handoff := db, ob_run := run\<rparr>)"
    if "sqlite_attach R now t did expected compiled (handoff_view s) = Inr (d, db)" for R now did expected s d db run
    using attach_documents [OF that assms] by (simp add: leaves_be_def handoff_view_def others_kept_def)
  then show ?thesis unfolding attach_to_decision_def
    by (intro orch.bind frame_reading) (auto simp: frame_def Let_def orch.stays split: sum.split)
qed

text \<open>Discovery and extraction, up to the finalization.\<close>

lemmas frame_steps = record_error_def succeed_attempt_def fail_attempt_def mark_citation_only_def current_source_def

lemma frame_notes [frames]: "frame (leaves_be t) (record_error e sid)" "frame (leaves_be t) succeed_attempt"
  "frame (leaves_be t) (fail_attempt e)" "frame (leaves_be t) (mark_citation_only i reason)" "frame (leaves_be t) (current_source i)"
  unfolding frame_steps by (rule frames frame_basic)+

lemma frame_fail_run [frames]: "frame (leaves_be t) (fail_run E t actor reason)"
  unfolding fail_run_def by (intro orch.bind frames)

lemma frame_search_stopped [frames]: "frame (leaves_be t) (search_stopped E t actor e)"
  unfolding search_stopped_def by (intro orch.bind frame_basic frames)

lemma frame_search_failed [frames]: "frame (leaves_be t) (search_failed E t actor e)"
  unfolding search_failed_def by (intro orch.bind frames)

lemma frame_search_succeeded [frames]: "frame (leaves_be t) (search_succeeded E t actor response)"
  unfolding search_succeeded_def by (intro orch.bind frame_basic frames)

lemma frame_discover [frames]: "frame (leaves_be t) (discover E t actor)"
proof -
  have "frame (leaves_be t) (case answer of Search_failed e \<Rightarrow> search_failed E t actor e
     | Search_raised \<Rightarrow> search_failed E t actor (simple_error (oe_search_id E) ''PROVIDER_UNAVAILABLE'' True)
     | Search_ok response \<Rightarrow> search_succeeded E t actor response)" for answer
    by (cases answer) (simp_all add: frames)
  then show ?thesis unfolding discover_def by (intro orch.bind orch.cond frame_basic frames)
qed

lemma frame_extraction [frames]: "frame (leaves_be t) (extraction_stopped i e)" "frame (leaves_be t) (extraction_failed E t i e)"
  "frame (leaves_be t) (content_rejected i reason)"
proof -
  show stopped: "frame (leaves_be t) (extraction_stopped i e)" for e
    unfolding extraction_stopped_def by (intro orch.bind frame_basic frames)
  then show "frame (leaves_be t) (extraction_failed E t i e)" "frame (leaves_be t) (content_rejected i reason)"
    unfolding extraction_failed_def content_rejected_def by (intro orch.bind frames | assumption)+
qed

lemma frame_accept_content [frames]: "frame (leaves_be t) (accept_content E t i source req content)"
  unfolding accept_content_def by (intro orch.either orch.cond orch.bind frame_basic frames)

lemma frame_fetch_snapshot [frames]: "frame (leaves_be t) (fetch_snapshot E t i source)"
proof -
  have "frame (leaves_be t) (case answer of
       Extract_raised \<Rightarrow> extraction_failed E t i (simple_error (oe_extract_id E) ''PROVIDER_UNAVAILABLE'' True)
     | Extract_ok (Extraction_failed e) \<Rightarrow> extraction_failed E t i e
     | Extract_ok (Extracted content) \<Rightarrow> accept_content E t i source req content)" for answer req
    by (simp add: frames split: extract_outcome.split extraction_response.split)
  then show ?thesis unfolding fetch_snapshot_def by (intro orch.bind orch.cond frame_basic frames)
qed

lemma frame_obtain_snapshot [frames]: "frame (leaves_be t) (obtain_snapshot E t i)"
  unfolding obtain_snapshot_def cached_snapshot_def
  by (intro orch.bind orch.cond orch.optional frame_basic frames)

lemma frame_collect [frames]: "frame (leaves_be t) (collect_sources E t is seen)"
proof (induction "is" arbitrary: seen)
  case Nil
  then show ?case by (simp add: frame_basic)
next
  case (Cons i "is")
  then show ?case unfolding collect_sources.simps by (intro orch.bind orch.cond orch.optional frame_basic frames)
qed

section \<open>Finalization and the four operations\<close>

lemma frame_try_handoff [frames]:
  assumes "VERIFIED \<notin> de_status ` set compiled"
  shows "frame (leaves_be t) (try_handoff E t compiled)"
proof -
  have step: "leaves_be t s (s\<lparr>ob_run := run\<rparr>)" for s run by (rule leaves_be_same) simp_all
  have "frame (leaves_be t) (\<lambda>s. case attach_to_decision E t compiled s of
          (Inr u, s') \<Rightarrow> (Inr False, s')
        | (Inl e, s') \<Rightarrow> (case handoff_reason e of
            None \<Rightarrow> (Inl e, s')
          | Some reason \<Rightarrow> (Inr True, s'\<lparr>ob_run := (ob_run s')\<lparr>run_errors := run_errors (ob_run s') @
              [\<lparr>re_reason_code = reason, re_provider = None, re_source_id = None\<rparr>]\<rparr>\<rparr>)))"
    using orch.handler [OF frame_attach [OF assms, of t E], of "\<lambda>r s'. case r of Inr u \<Rightarrow> (Inr False, s')
        | Inl e \<Rightarrow> (case handoff_reason e of
            None \<Rightarrow> (Inl e, s')
          | Some reason \<Rightarrow> (Inr True, s'\<lparr>ob_run := (ob_run s')\<lparr>run_errors := run_errors (ob_run s') @
              [\<lparr>re_reason_code = reason, re_provider = None, re_source_id = None\<rparr>]\<rparr>\<rparr>))"]
    by (simp add: step orch.stays split: sum.split option.split)
  then show ?thesis unfolding try_handoff_def by (intro orch.cond orch.bind frame_basic frames)
qed

lemma frame_conclude [frames]: "frame (leaves_be t) (conclude E t actor handoff_failed handed)"
  unfolding conclude_def by (intro orch.bind frame_basic frames)

lemma frame_finalize [frames]: "frame (leaves_be t) (finalize_run E t actor)"
proof -
  have compiled: "frame (leaves_be t) (bind_action (\<lambda>s. (compile_evidence (ob_run s), s))
      (\<lambda>compiled. bind_action (try_handoff E t compiled) (\<lambda>failed. conclude E t actor failed (length compiled))))"
  proof (rule orch.bind_value)
    fix s compiled assume "fst (compile_evidence (ob_run s), s) = Inr compiled"
    then have "VERIFIED \<notin> de_status ` set compiled" by (auto dest: unverified_items)
    then show "frame (leaves_be t) (bind_action (try_handoff E t compiled) (\<lambda>failed. conclude E t actor failed (length compiled)))"
      by (intro orch.bind frame_try_handoff frame_conclude)
  qed (rule frame_basic)
  show ?thesis unfolding finalize_run_def
    by (rule compiled orch.bind orch.pair orch.cond frame_basic frames)+
qed

lemma frame_extract_and_finalize [frames]: "frame (leaves_be t) (extract_and_finalize E t actor retry_only)"
  unfolding extract_and_finalize_def by (intro orch.bind orch.cond frame_basic frames)

lemma frame_start_extraction [frames]: "frame (leaves_be t) (start_extraction E t actor retry)"
  unfolding start_extraction_def by (intro orch.bind frames)

lemma frame_run_research [frames]: "frame (leaves_be t) (run_research E t actor)"
  unfolding run_research_def by (intro orch.bind orch.cond frame_basic frames)

lemma create_or_get_frame:
  assumes "create_or_get t run db = Inr (r, db')"
  shows "rp_idempotency db' = rp_idempotency db \<and> stored_keys db \<subseteq> stored_keys db' \<and>
    (\<forall>other rid. other \<noteq> t \<longrightarrow> research_get other rid db' = research_get other rid db)"
  using assms by (auto simp: create_or_get_def stored_keys_def monad_simps row_insert_Inr_iff assert_tenant_def
      research_get_def run_key_of_def split: option.splits)

lemma frame_prepare [frames]: "frame (leaves_be t) (prepare E t actor request document_hash correlation refresh)"
proof -
  have "frame (leaves_be t) (\<lambda>s. case create_or_get t proposed (ob_repo s) of
      Inl e \<Rightarrow> (Inl e, s) | Inr (run, repo) \<Rightarrow> (Inr run, s\<lparr>ob_repo := repo, ob_run := run\<rparr>))" for proposed
    by (auto simp: frame_def leaves_be_def documents_kept_refl others_kept_def split: sum.split dest: create_or_get_frame)
  then show ?thesis unfolding prepare_def propose_def by (intro orch.bind frame_basic frames)
qed

lemma frame_execute: "frame (leaves_be t) (execute E t actor request document_hash correlation refresh)"
  unfolding execute_def by (intro orch.bind orch.cond frame_basic frames)

lemma frame_retry: "frame (leaves_be t) (retry_run E t actor rid correlation)"
  unfolding retry_run_def validate_retry_def by (intro orch.bind orch.cond frame_basic frames)

lemma frame_cancel: "frame (leaves_be t) (cancel_run E t actor rid correlation)"
  unfolding cancel_run_def by (intro orch.bind orch.cond frame_basic frames)

lemma frame_handoff: "frame (leaves_be t) (handoff_run E t actor rid correlation)"
proof -
  have compiled: "frame (leaves_be t) (bind_action (lift_result (compile_evidence run)) (\<lambda>compiled.
       if compiled = [] then raise_action (ValueError ''NO_USABLE_EVIDENCE'')
       else
         bind_action (change_run (\<lambda>run. run\<lparr>run_actor_id := actor, run_correlation_id := correlation\<rparr>)) (\<lambda>_.
         bind_action (attach_to_decision E t compiled) (\<lambda>_.
         bind_action (save_run t) (\<lambda>_. read_state ob_run)))))" for run
  proof (rule orch.bind_value)
    fix s compiled assume "fst (lift_result (compile_evidence run) s) = Inr compiled"
    then have "VERIFIED \<notin> de_status ` set compiled" by (auto dest: unverified_items)
    then show "frame (leaves_be t) (if compiled = [] then raise_action (ValueError ''NO_USABLE_EVIDENCE'')
       else
         bind_action (change_run (\<lambda>run. run\<lparr>run_actor_id := actor, run_correlation_id := correlation\<rparr>)) (\<lambda>_.
         bind_action (attach_to_decision E t compiled) (\<lambda>_.
         bind_action (save_run t) (\<lambda>_. read_state ob_run))))"
      by (intro orch.cond orch.bind frame_attach frame_basic frames)
  qed (rule frame_basic)
  show ?thesis unfolding handoff_run_def
    by (rule compiled orch.bind orch.cond frame_basic frames)+
qed

end
