(* ===== verification/ResearchProperties.thy ===== *)
theory ResearchProperties
  imports ResearchDemo ResearchFrames
begin

text \<open>
  The properties of web research: what holds of every run the store can come to hold, what a
  caller of the orchestrator gets back, conflicts, the handoff to a Decision File, concurrent
  executions and the circuit breaker.
\<close>

section \<open>Histories\<close>

text \<open>
  The operations of the orchestrator in any order, for any tenant, actor and request, each
  ending with a value or an exception. Between two of them the decision store and the
  breakers may change in any way.
\<close>

inductive research_history :: "research_env \<Rightarrow> orch \<Rightarrow> bool" for E where
  begin_empty: "ob_repo s = empty_research \<Longrightarrow> research_history E s"
| executed: "research_history E s \<Longrightarrow> execute E t actor request h c refresh s = (r, s') \<Longrightarrow> research_history E s'"
| retried: "research_history E s \<Longrightarrow> retry_run E t actor rid c s = (r, s') \<Longrightarrow> research_history E s'"
| cancelled: "research_history E s \<Longrightarrow> cancel_run E t actor rid c s = (r, s') \<Longrightarrow> research_history E s'"
| handed: "research_history E s \<Longrightarrow> handoff_run E t actor rid c s = (r, s') \<Longrightarrow> research_history E s'"
| elsewhere: "research_history E s \<Longrightarrow> research_history E (s\<lparr>ob_handoff := h, ob_circuits := b\<rparr>)"

lemma empty_stores_ok:
  assumes "ob_repo s = empty_research" and "policy_valid E"
  shows "stores_ok E s"
  using assms(1) policy_validD [OF assms(2)]
  by (simp add: stores_ok_def repo_ok_def empty_research_def budget_used_def)

lemma triple_stores:
  assumes "triple P m Q (stores_ok E)" and "P s" and "\<And>x s'. Q x s' \<Longrightarrow> stores_ok E s'" and "m s = (r, s')"
  shows "stores_ok E s'"
  using triple_state [OF assms(1,2)] assms(3,4) by (metis snd_conv)

lemma history_stores_ok:
  assumes "policy_valid E"
  shows "research_history E s \<Longrightarrow> stores_ok E s"
proof (induction rule: research_history.induct)
  case (begin_empty s)
  then show ?case using assms by (rule empty_stores_ok)
next
  case (executed s t actor request h c refresh r s')
  show ?case
    by (rule triple_stores [OF execute_triple [OF assms] _ _ executed(2)]) (use executed in \<open>auto intro: orch_ok_stores\<close>)
next
  case (retried s t actor rid c r s')
  show ?case
    by (rule triple_stores [OF retry_triple _ _ retried(2)]) (use retried in \<open>auto intro: orch_ok_stores\<close>)
next
  case (cancelled s t actor rid c r s')
  show ?case
    by (rule triple_stores [OF cancel_triple _ _ cancelled(2)]) (use cancelled in \<open>auto intro: orch_ok_stores\<close>)
next
  case (handed s t actor rid c r s')
  show ?case
    by (rule triple_stores [OF handoff_triple _ _ handed(2)]) (use handed in \<open>auto intro: orch_ok_stores\<close>)
next
  case (elsewhere s h b)
  then show ?case by (simp add: stores_ok_def)
qed

lemma history_run:
  assumes "policy_valid E" and "research_history E s" and "research_get t rid (ob_repo s) = Some run"
  shows "run_ok E run" and "within_budget run (ob_repo s)" and "run_key_of run = (t, rid)"
    and "budget_used (t, rid) (ob_repo s) \<le> provider_budget (oe_policy E)"
proof -
  from assms(3) have r: "run \<in> set (rp_runs (ob_repo s))" "run_key_of run = (t, rid)"
    unfolding research_get_def by (auto dest: row_find_SomeD)
  with history_stores_ok [OF assms(1,2)] show "run_ok E run" "within_budget run (ob_repo s)"
    "run_key_of run = (t, rid)" "budget_used (t, rid) (ob_repo s) \<le> provider_budget (oe_policy E)"
    by (auto simp: stores_ok_def repo_ok_def)
qed

text \<open>The concrete execution as a history.\<close>

lemma demo_history:
  obtains s where "research_history research_demo s" "policy_valid research_demo"
    "research_get ''acme'' ''research-1'' (ob_repo s) = Some demo_run7"
    "execute research_demo ''acme'' ''rob'' demo_request demo_hash ''corr'' None research_start = (Inr demo_run7, s)"
    "stores_ok research_demo research_start"
proof -
  obtain s where e: "execute research_demo ''acme'' ''rob'' demo_request demo_hash ''corr'' None research_start = (Inr demo_run7, s)"
    using demo_executes by blast
  have p: "policy_valid research_demo"
    by (simp add: policy_valid_def research_policy_post_init_def demo_policy_def monad_simps)
  have z: "ob_repo research_start = empty_research" by (simp add: research_start_def)
  have h: "research_history research_demo s" by (rule executed [OF begin_empty [OF z] e])
  have ok: "stores_ok research_demo research_start" by (rule empty_stores_ok [OF z p])
  have "stored ''acme'' s \<and> demo_run7 = ob_run s"
    using tripleD [OF execute_triple [OF p, of "ob_repo research_start"] _ e] ok by auto
  then have r: "research_get ''acme'' (run_id demo_run7) (ob_repo s) = Some demo_run7" by (simp only: stored_def)
  have "run_id demo_run7 = ''research-1''" by simp
  note r [unfolded this]
  with h p e ok show thesis by (intro that)
qed

section \<open>Runs\<close>

text \<open>
  C9. Provider calls are bounded. In every run a history of orchestrator operations can leave
  in the store, no operation on no source was attempted more often than the policy allows
  (retries included), and all attempts together stay within the provider budget.
\<close>

theorem research_attempts_bounded:
  assumes "policy_valid E" and "research_history E s" and "research_get t rid (ob_repo s) = Some run"
  shows "int (attempts_of operation sid run) \<le> max_attempts_per_operation (oe_policy E) \<and>
    int (length (run_attempts run)) \<le> provider_budget (oe_policy E)"
  using history_run [OF assms] by (simp add: run_ok_def within_budget_def)

theorem research_attempts_bounded_witness:
  "int (attempts_of ''search'' None demo_run7) \<le> 2 \<and> int (length (run_attempts demo_run7)) \<le> 4 \<and>
    length (run_attempts demo_run7) = 2"
proof -
  obtain s where s: "research_history research_demo s" "policy_valid research_demo"
    "research_get ''acme'' ''research-1'' (ob_repo s) = Some demo_run7" by (rule demo_history)
  from research_attempts_bounded [OF s(2,1,3), of "''search''" None] show ?thesis by (simp add: demo_policy_def)
qed

text \<open>
  C23. The log of every stored run tells its story. Its events are linked by hashes, each
  either moves along the research lifecycle or records an egress decision where the run
  stands, and the last one leads to the status the run has.
\<close>

theorem research_log_faithful:
  assumes "policy_valid E" and "research_history E s" and "research_get t rid (ob_repo s) = Some run"
  shows "linked (research_event_hash (esha E)) rv_previous_event_hash (run_audit_events run) \<and>
    research_chain RS_CREATED (run_audit_events run) \<and> research_end (run_audit_events run) = run_status run"
  using history_run(1) [OF assms] by (simp add: run_ok_def)

theorem research_log_faithful_witness:
  "research_chain RS_CREATED (run_audit_events demo_run7) \<and>
    research_end (run_audit_events demo_run7) = RS_COMPLETED \<and> length (run_audit_events demo_run7) = 5"
proof -
  obtain s where s: "research_history research_demo s" "policy_valid research_demo"
    "research_get ''acme'' ''research-1'' (ob_repo s) = Some demo_run7" by (rule demo_history)
  from research_log_faithful [OF s(2,1,3)] show ?thesis by simp
qed

text \<open>
  C8. COMPLETED means complete. A stored run with this status has no source that was blocked,
  failed, rejected, only cited or left for review, and either none of its evidence is
  eligible or the evidence was handed over to the Decision File it was requested for.
\<close>

theorem completed_research_is_complete:
  assumes "policy_valid E" and "research_history E s" and "research_get t rid (ob_repo s) = Some run"
    and "run_status run = RS_COMPLETED"
  shows "(\<forall>x \<in> set (run_sources run). sc_status x \<notin> {''BLOCKED'', ''FAILED'', ''REJECTED'', ''REVIEW_REQUIRED'', ''CITATION_ONLY''}) \<and>
    (filter eligible_evidence (run_evidence run) = [] \<or>
     run_compiled_decision_file_id run = Some (rq_decision_file_id (run_request run)))"
  using history_run(1) [OF assms(1-3)] assms(4) by (auto simp: run_ok_def fully_handled_def partial_statuses_def)

theorem completed_research_is_complete_witness:
  "run_status demo_run7 = RS_COMPLETED \<and> filter eligible_evidence (run_evidence demo_run7) \<noteq> [] \<and>
    run_compiled_decision_file_id demo_run7 = Some ''case-1''"
proof -
  obtain s where s: "research_history research_demo s" "policy_valid research_demo"
    "research_get ''acme'' ''research-1'' (ob_repo s) = Some demo_run7" by (rule demo_history)
  have "filter eligible_evidence (run_evidence demo_run7) \<noteq> []" by (simp add: eligible_evidence_def)
  with completed_research_is_complete [OF s(2,1,3)] show ?thesis by simp
qed

text \<open>
  What a caller of \<^verbatim>\<open>execute\<close> gets. When the call returns, the run it returns is
  stored as returned; it has failed, completed or partially completed, unless it was there
  before, in which case nothing was changed.
\<close>

theorem execute_returns_stored_run:
  assumes "policy_valid E" and "research_history E s"
    and "execute E t actor request h c refresh s = (Inr run, s')"
  shows "research_get t (run_id run) (ob_repo s') = Some run \<and>
    (run_status run \<in> {RS_FAILED, RS_PARTIALLY_COMPLETED, RS_COMPLETED} \<or>
     ob_repo s' = ob_repo s \<and> research_get t (run_id run) (ob_repo s) = Some run)"
  using tripleD [OF execute_triple [OF assms(1), of "ob_repo s"] _ assms(3)] history_stores_ok [OF assms(1,2)]
  by (auto simp: stored_def)

theorem execute_returns_stored_run_witness:
  "\<exists>s :: orch. research_get ''acme'' ''research-1'' (ob_repo s) = Some demo_run7"
proof -
  obtain s where e: "execute research_demo ''acme'' ''rob'' demo_request demo_hash ''corr'' None research_start = (Inr demo_run7, s)"
    and p: "policy_valid research_demo" by (rule demo_history)
  have "research_history research_demo research_start" by (rule begin_empty) (simp add: research_start_def)
  note r = execute_returns_stored_run [OF p this e, THEN conjunct1]
  have "run_id demo_run7 = ''research-1''" by simp
  note stored = r [unfolded this]
  show ?thesis by (rule exI [of _ s], rule stored)
qed

section \<open>Conflicts\<close>

lemma marked_evidence:
  "run_evidence (mark_conflicting_evidence run) = map (mark_evidence (conflicting_ids run (run_evidence run))) (run_evidence run)"
  by (simp add: mark_conflicting_evidence_def Let_def mark_evidence_def map_idI)

text \<open>
  C33. Contradicting evidence is reported as such. In a run with distinct evidence ids, the
  evidence handed over after the conflict check is CONFLICTING exactly where it was marked
  before or contradicts another piece of evidence on a common claim, and no evidence is ever
  handed over as VERIFIED.
\<close>

theorem conflicting_evidence_reported:
  assumes "distinct (map ec_evidence_id (run_evidence run))"
    and "compile_evidence (mark_conflicting_evidence run) = Inr ds" and "d \<in> set ds"
    and "e \<in> set (run_evidence run)" and "ec_evidence_id e = de_evidence_id d"
  shows "(de_status d = CONFLICTING \<longleftrightarrow> ea_conflict_status (ec_assessment e) = ''CONFLICTING'' \<or>
      (\<exists>f \<in> set (run_evidence run). f \<noteq> e \<and> evidence_contradicts run e f)) \<and> de_status d \<noteq> VERIFIED"
proof -
  let ?ids = "conflicting_ids run (run_evidence run)"
  from assms(2,3) obtain e' where e': "e' \<in> set (run_evidence run)" "de_evidence_id d = ec_evidence_id (mark_evidence ?ids e')"
    "de_status d = compiled_status (mark_evidence ?ids e')"
    by (auto elim!: compiled_element simp: marked_evidence)
  have "ec_evidence_id (mark_evidence ?ids e') = ec_evidence_id e'" by (simp add: mark_evidence_def)
  with e'(1,2) assms(1,4,5) have "e' = e" by (auto simp: distinct_map inj_on_def)
  with e' have s: "de_status d = compiled_status (mark_evidence ?ids e)" by simp
  have same: "f = e \<longleftrightarrow> ec_evidence_id f = ec_evidence_id e" if "f \<in> set (run_evidence run)" for f
    using assms(1,4) that by (auto simp: distinct_map inj_on_def)
  have "ec_evidence_id e \<in> set ?ids \<longleftrightarrow> (\<exists>f \<in> set (run_evidence run). f \<noteq> e \<and> evidence_contradicts run e f)"
    unfolding conflicting_ids_iff [OF assms(1)] using assms(4) same by metis
  then show ?thesis
    using compiled_status_cases [of "mark_evidence ?ids e"] unfolding s
    by (auto simp: compiled_status_def mark_evidence_def)
qed

definition clash_run :: research_run where
  "clash_run = demo_run\<lparr>
     run_snapshots := [demo_page\<lparr>ss_snapshot_id := ''p1'', ss_text := ''a permit is required''\<rparr>,
       demo_page\<lparr>ss_snapshot_id := ''p2'', ss_text := ''a permit is not required''\<rparr>],
     run_evidence := [demo_candidate\<lparr>ec_evidence_id := ''e1'', ec_snapshot_id := ''p1''\<rparr>,
       demo_candidate\<lparr>ec_evidence_id := ''e2'', ec_snapshot_id := ''p2''\<rparr>]\<rparr>"

theorem conflicting_evidence_reported_witness:
  "\<exists>d e. compile_evidence (mark_conflicting_evidence clash_run) = Inr [d, e] \<and> de_status d = CONFLICTING \<and>
     de_evidence_id d = ''e1''"
proof -
  let ?e = "demo_candidate\<lparr>ec_evidence_id := ''e1'', ec_snapshot_id := ''p1''\<rparr>"
  let ?f = "demo_candidate\<lparr>ec_evidence_id := ''e2'', ec_snapshot_id := ''p2''\<rparr>"
  have "case compile_evidence (mark_conflicting_evidence clash_run) of Inr [d, e] \<Rightarrow> de_evidence_id d = ''e1'' | _ \<Rightarrow> False"
    by code_simp
  then obtain d e where c: "compile_evidence (mark_conflicting_evidence clash_run) = Inr [d, e]" and d: "de_evidence_id d = ''e1''"
    by (auto split: sum.splits list.splits)
  have "evidence_contradicts clash_run ?e ?f" by code_simp
  moreover have "?e \<in> set (run_evidence clash_run)" "?f \<in> set (run_evidence clash_run)" "?f \<noteq> ?e"
    "distinct (map ec_evidence_id (run_evidence clash_run))" by (simp_all add: clash_run_def)
  ultimately have "de_status d = CONFLICTING"
    using conflicting_evidence_reported [of clash_run "[d, e]" d ?e] c d by auto
  with c d show ?thesis by blast
qed

section \<open>The handoff\<close>

lemma insert_audit_effect:
  assumes "insert_audit t did e db = Inr db'"
  shows "decisions db' = decisions db"
    and "stored_trail db' t' did' = stored_trail db t' did' @ (if t' = t \<and> did' = did then [e] else [])"
  using assms by (auto simp: insert_audit_def monad_simps row_insert_Inr_iff stored_trail_def)

lemma postgres_attach_effect:
  assumes "postgres_attach R now t did expected evidence db = Inr (d', db')"
  obtains row where "row_find decision_key (t, did) (decisions (hd_store db)) = Some row" "d' = dr_document row" "db' = db"
  | row c where "row_find decision_key (t, did) (decisions (hd_store db)) = Some row"
    "handoff_document R t did c expected evidence (dr_document row) = Inr (d', handoff_event R t did c evidence (dr_document row))"
    "decisions (hd_store db') = decisions (store_document now t did d' (hd_store db))"
    "\<And>t' did'. stored_trail (hd_store db') t' did' = stored_trail (hd_store db) t' did' @
       (if t' = t \<and> did' = did then [handoff_event R t did c evidence (dr_document row)] else [])"
proof -
  from assms obtain run c row where c: "handoff_context evidence = Inr (run, c)"
    and row: "row_find decision_key (t, did) (decisions (hd_store db)) = Some row"
    by (auto simp: postgres_attach_def monad_simps split: option.splits)
  show thesis
  proof (cases "(t, run, did, handoff_id R evidence) \<in> handoff_key ` set (hd_handoffs db)")
    case True
    with assms c row show thesis by (intro that(1) [of row]) (simp_all add: postgres_attach_def)
  next
    case False
    with assms c row obtain e s2 where h: "handoff_document R t did c expected evidence (dr_document row) = Inr (d', e)"
      and a: "insert_audit t did e (store_document now t did d' (hd_store db)) = Inr s2"
      and r: "record_handoff R t run did evidence d' (db\<lparr>hd_store := s2\<rparr>) = Inr db'"
      by (auto simp: postgres_attach_def monad_simps Let_def)
    from h have e: "e = handoff_event R t did c evidence (dr_document row)"
      by (auto simp: handoff_document_def monad_simps Let_def)
    from r have "hd_store db' = s2" by (auto simp: record_handoff_def monad_simps)
    moreover have "stored_trail (store_document now t did d' (hd_store db)) = stored_trail (hd_store db)"
      by (simp add: store_document_def stored_trail_def fun_eq_iff)
    ultimately show thesis
      using that(2) [OF row h [unfolded e]] insert_audit_effect [OF a] by (simp add: e)
  qed
qed

text \<open>
  C10. The handoff is conservative. In a store that keeps its invariant, attaching the compiled
  evidence of a run changes nothing but the one document, only while it is a DRAFT, and there
  only adds evidence, none of it VERIFIED, and one event chained to the trail; what the audit
  table holds afterwards is again exactly the trail of the document, and every other
  document is as it was.
\<close>

theorem handoff_conservative:
  assumes "store_inv R (hd_store db)" and "compile_evidence run = Inr evidence"
    and "sqlite_attach R now t did expected evidence db = Inr (d', db')"
  shows "\<exists>d. map_option dr_document (row_find decision_key (t, did) (decisions (hd_store db))) = Some d \<and>
    map_option dr_document (row_find decision_key (t, did) (decisions (hd_store db'))) = Some d' \<and>
    (d' = d \<or> (\<exists>items e. df_status d = DRAFT \<and>
       d' = d\<lparr>df_evidence := df_evidence d @ items, df_updated_at := df_updated_at d', df_audit_events := df_audit_events d @ [e]\<rparr> \<and>
       VERIFIED \<notin> ev_status ` set items)) \<and>
    linked (event_hash R) ae_previous_event_hash (df_audit_events d') \<and>
    stored_trail (hd_store db') t did = df_audit_events d' \<and>
    (\<forall>k. k \<noteq> (t, did) \<longrightarrow> row_find decision_key k (decisions (hd_store db')) = row_find decision_key k (decisions (hd_store db)))"
proof -
  have dist: "distinct (map decision_key (decisions (hd_store db)))" using assms(1) by (simp add: store_inv_def)
  note att = assms(3) [unfolded attach_equiv [OF dist]]
  have inv: "linked (event_hash R) ae_previous_event_hash (df_audit_events (dr_document row)) \<and>
      stored_trail (hd_store db) t did = df_audit_events (dr_document row)"
    if "row_find decision_key (t, did) (decisions (hd_store db)) = Some row" for row
    using assms(1) row_find_SomeD [OF that] by (auto simp: store_inv_def case_inv_def)
  from att show ?thesis
  proof (cases rule: postgres_attach_effect)
    case (1 row)
    with inv show ?thesis by auto
  next
    case (2 row c)
    let ?d = "dr_document row" and ?e = "handoff_event R t did c evidence (dr_document row)"
    from 2(2) have d: "df_status ?d = DRAFT" "d' = ?d\<lparr>df_evidence := df_evidence ?d @ new_items ?d evidence,
        df_updated_at := max_observed evidence, df_audit_events := df_audit_events ?d @ [?e]\<rparr>"
      by (auto simp: handoff_document_def monad_simps Let_def)
    have "VERIFIED \<notin> ev_status ` set (new_items ?d evidence)"
      by (auto simp: new_items_def attached_item_def compiled_status_def elim!: compiled_element [OF assms(2)] split: if_splits)
    moreover have "row_find decision_key k (decisions (hd_store db')) =
        (if k = (t, did) then Some (row\<lparr>dr_document := d', dr_updated_at := now\<rparr>)
         else row_find decision_key k (decisions (hd_store db)))" for k
      unfolding 2(3) store_document_def using 2(1) by (simp add: row_update_find)
    moreover have "ae_previous_event_hash ?e = previous_hash R ?d" by (simp add: handoff_event_def)
    ultimately show ?thesis
      using inv [OF 2(1)] 2(1,4) d by (intro exI [of _ ?d]) (auto simp: previous_hash_head)
  qed
qed

lemma demo_store_inv: "store_inv demo_runtime demo_store"
proof -
  have "fresh_draft demo_document" by (simp add: fresh_draft_def demo_document_def)
  then have "case_inv demo_runtime demo_doc1"
    unfolding demo_doc1_def using demo_doc(2) by (rule created_case_inv)
  then show ?thesis
    by (simp add: store_inv_def demo_store_def draft_doc_fields stored_trail_def)
qed

lemma demo_compiled7: "compile_evidence demo_run7 = Inr [demo_evidence]"
  by (simp add: compile_evidence_def eligible_evidence_def compile_candidate_def compiled_status_def)

theorem handoff_conservative_witness:
  "\<exists>db'. sqlite_attach demo_runtime ''ts'' ''acme'' ''case-1'' demo_hash [demo_evidence]
       \<lparr>hd_store = demo_store, hd_runs = [demo_key], hd_handoffs = []\<rparr> = Inr (demo_attached, db') \<and>
     stored_trail (hd_store db') ''acme'' ''case-1'' = df_audit_events demo_attached"
proof -
  obtain db where a: "sqlite_attach demo_runtime ''ts'' ''acme'' ''case-1'' demo_hash [demo_evidence]
     \<lparr>hd_store = demo_store, hd_runs = [demo_key], hd_handoffs = []\<rparr> = Inr (demo_attached, db)"
    using demo_attach by blast
  have i: "store_inv demo_runtime (hd_store \<lparr>hd_store = demo_store, hd_runs = [demo_key], hd_handoffs = []\<rparr>)"
    using demo_store_inv by simp
  from handoff_conservative [OF i demo_compiled7 a]
  have "stored_trail (hd_store db) ''acme'' ''case-1'' = df_audit_events demo_attached" by blast
  with a show ?thesis by blast
qed

text \<open>
  C39. The two database adapters of the handoff agree. On a store with one row per decision,
  the SQLite adapter, which updates the row where it still holds what was read, and the
  PostgreSQL adapter, which holds a lock on it, give the same result, the same error or the
  same change.
\<close>

theorem handoff_adapters_agree:
  assumes "distinct (map decision_key (decisions (hd_store db)))"
  shows "sqlite_attach R now t did expected evidence db = postgres_attach R now t did expected evidence db"
  using assms by (rule attach_equiv)

theorem handoff_adapters_agree_witness:
  "\<exists>db. postgres_attach demo_runtime ''ts'' ''acme'' ''case-1'' demo_hash [demo_evidence]
     \<lparr>hd_store = demo_store, hd_runs = [demo_key], hd_handoffs = []\<rparr> = Inr (demo_attached, db)"
proof -
  let ?db = "\<lparr>hd_store = demo_store, hd_runs = [demo_key], hd_handoffs = []\<rparr>"
  have "distinct (map decision_key (decisions (hd_store ?db)))" by (simp add: demo_store_def)
  note agree = handoff_adapters_agree [OF this, of demo_runtime "''ts''" "''acme''" "''case-1''" demo_hash "[demo_evidence]"]
  from demo_attach show ?thesis unfolding agree .
qed

text \<open>
  The handoff leaves a verdict behind that the evidence no longer supports. Whenever new
  compiled evidence is attached to a draft that was evaluated as PASS, the document still
  says PASS, although an evaluation of the document with this evidence would not.
\<close>

theorem handoff_keeps_stale_verdict:
  assumes "compile_evidence run = Inr evidence" and "df_decision_outcome d = Some PASS"
    and "handoff_document R t did c expected evidence d = Inr (d', e)" and "new_items d evidence \<noteq> []"
  shows "df_decision_outcome d' = Some PASS \<and> document_outcome d' \<noteq> PASS"
proof -
  have d': "d' = d\<lparr>df_evidence := df_evidence d @ new_items d evidence, df_updated_at := max_observed evidence,
      df_audit_events := df_audit_events d @ [e]\<rparr>"
    using assms(3) by (auto simp: handoff_document_def monad_simps Let_def)
  obtain i where i: "i \<in> set (new_items d evidence)" using assms(4) by (cases "new_items d evidence") auto
  then have "ev_status i \<noteq> VERIFIED"
    by (auto simp: new_items_def attached_item_def compiled_status_def elim!: compiled_element [OF assms(1)] split: if_splits)
  with i have "\<not> document_clean d'" by (auto simp: document_clean_def d')
  with assms(2) show ?thesis by (simp add: d' document_outcome_def)
qed

definition evaluated_draft :: decision_file where
  "evaluated_draft = demo_doc1\<lparr>df_decision_outcome := Some PASS\<rparr>"

lemma evaluated_handed:
  "\<exists>d e. handoff_document demo_runtime ''acme'' ''case-1'' ''corr'' demo_hash [demo_evidence] evaluated_draft = Inr (d, e)"
proof -
  let ?e = "handoff_event demo_runtime ''acme'' ''case-1'' ''corr'' [demo_evidence] evaluated_draft"
  let ?d = "demo_attached\<lparr>df_decision_outcome := Some PASS, df_audit_events := [demo_doc1_event, ?e]\<rparr>"
  have f: "df_status evaluated_draft = DRAFT" "df_claims evaluated_draft = df_claims demo_document"
    "df_evidence evaluated_draft = df_evidence demo_document" "df_audit_events evaluated_draft = [demo_doc1_event]"
    by (simp_all add: evaluated_draft_def draft_doc_fields)
  have n: "new_items evaluated_draft [demo_evidence] = [attached_item demo_evidence]"
    by (simp add: new_items_def f demo_document_def)
  have at: "max_observed [demo_evidence] = ''t1''" by (simp add: max_observed_def)
  have d: "evaluated_draft\<lparr>df_evidence := df_evidence evaluated_draft @ new_items evaluated_draft [demo_evidence],
      df_updated_at := max_observed [demo_evidence], df_audit_events := df_audit_events evaluated_draft @ [?e]\<rparr> = ?d"
    by (simp add: n at f demo_attached_def) (simp add: evaluated_draft_def draft_doc_fields)
  have "audit_event_schema demo_runtime ?e"
    by (simp add: audit_event_schema_def handoff_event_def actor_schema_def research_actor_def)
  moreover have "audit_event_schema demo_runtime demo_doc1_event"
    using schema_eventsD [OF schema_doc1] by (simp add: draft_doc_fields)
  ultimately have "decision_file_schema demo_runtime ?d"
    using demo_attached_valid(1) by (simp add: decision_file_schema_def)
  moreover have "semantic_errors demo_runtime ?d = Inr []"
    by (simp add: demo_attached_def demo_semantics attached_item_def)
  moreover have "list_all (\<lambda>e. set (de_claim_refs e) \<subseteq> claim_id ` set (df_claims evaluated_draft)) [demo_evidence]"
    by (simp add: f demo_document_def)
  ultimately show ?thesis
    using f(1) unfolding handoff_document_def Let_def d by (simp add: contract_validate_def validate_semantics_def)
qed

theorem handoff_keeps_stale_verdict_witness:
  "\<exists>d :: decision_file. df_decision_outcome d = Some PASS \<and> document_outcome d \<noteq> PASS"
proof -
  obtain d e where h: "handoff_document demo_runtime ''acme'' ''case-1'' ''corr'' demo_hash [demo_evidence] evaluated_draft = Inr (d, e)"
    using evaluated_handed by blast
  have o: "df_decision_outcome evaluated_draft = Some PASS" by (simp add: evaluated_draft_def)
  have "new_items evaluated_draft [demo_evidence] \<noteq> []"
    by (simp add: new_items_def evaluated_draft_def draft_doc_fields demo_document_def)
  from handoff_keeps_stale_verdict [OF demo_compiled7 o h this] show ?thesis by blast
qed

section \<open>The circuit breaker\<close>

text \<open>
  C34. The in-memory breaker implements its specification and keeps tenants and providers
  apart. After any sequence of uses, on behalf of whatever tenants and providers, it admits
  a call for one of them exactly where the abstract breaker admits it that saw only the uses
  for this tenant and this provider.
\<close>

theorem circuit_breaker_refines:
  assumes "circuit_post_init P = Inr ()" and "\<not> blank t" and "\<not> blank p" and "list_all use_time_ok us" and "0 \<le> now"
  shows "(\<exists>c. before_call P now t p (fold (breaker.perform P) us (\<lambda>_. None)) = Inr c) \<longleftrightarrow>
    spec_admits now (fold (spec_use P) (filter (\<lambda>u. use_key u = (t, p)) us) (Closed 0))"
proof -
  have "circuit_ok P ((\<lambda>_. None) (t, p))" "circuit_abs ((\<lambda>_. None) (t, p)) = Closed 0"
    by (simp_all add: circuit_ok_def circuit_abs_def)
  with circuit_simulation_run [OF assms(1-4), of "\<lambda>_. None"] circuit_admission [OF assms(2,3) _ assms(5)]
  show ?thesis by metis
qed

theorem circuit_breaker_refines_witness:
  "\<not> (\<exists>c. before_call \<lparr>failure_threshold = 1, recovery_seconds = 60\<rparr> 30 ''acme'' ''s''
     (fold (breaker.perform \<lparr>failure_threshold = 1, recovery_seconds = 60\<rparr>)
       [Failure 10 True ''acme'' ''s'', Success ''other'' ''s''] (\<lambda>_. None)) = Inr c)"
proof -
  let ?P = "\<lparr>failure_threshold = 1, recovery_seconds = 60\<rparr>"
  have "circuit_post_init ?P = Inr ()" by (simp add: circuit_post_init_def monad_simps)
  from circuit_breaker_refines [OF this demo_not_blank(1,2), of "[Failure 10 True ''acme'' ''s'', Success ''other'' ''s'']" 30]
  show ?thesis by simp
qed

section \<open>Concurrent executions\<close>

text \<open>
  Rows are only ever added to the table of events, and a save compares each event of the run
  with the stored one of the same id.
\<close>

definition event_with :: "run_key \<Rightarrow> string \<Rightarrow> research_repo \<Rightarrow> research_event option" where
  "event_with k i db = map_option (\<lambda>r. snd (snd r)) (List.find (\<lambda>(j, _, x). j = k \<and> rv_event_id x = i) (rp_events db))"

lemma find_append_option:
  "List.find p (xs @ ys) = (case List.find p xs of None \<Rightarrow> List.find p ys | Some x \<Rightarrow> Some x)"
  by (induction xs) auto

lemma save_event_keeps:
  "save_event k n e db = Inr db' \<Longrightarrow> event_with j i db = Some x \<Longrightarrow> event_with j i db' = Some x"
  by (auto simp: save_event_def event_with_def monad_simps find_append_option split: option.splits)

lemma save_event_stores:
  "save_event k n e db = Inr db' \<Longrightarrow>
     \<exists>x. event_with k (rv_event_id e) db' = Some x \<and> research_event_json x = research_event_json e"
  by (auto simp: save_event_def event_with_def monad_simps find_append_option split: option.splits)

lemma save_events_keep:
  "fold_result (\<lambda>(n, e). save_event k n e) nes db = Inr db' \<Longrightarrow> event_with j i db = Some x \<Longrightarrow> event_with j i db' = Some x"
  by (induction nes arbitrary: db) (auto simp: monad_simps dest: save_event_keeps)

lemma save_events_store:
  assumes "fold_result (\<lambda>(n, e). save_event k n e) nes db = Inr db'" and "(n, e) \<in> set nes"
  shows "\<exists>x. event_with k (rv_event_id e) db' = Some x \<and> research_event_json x = research_event_json e"
  using assms
proof (induction nes arbitrary: db)
  case (Cons p nes)
  then obtain db1 where 1: "save_event k (fst p) (snd p) db = Inr db1"
    and 2: "fold_result (\<lambda>(n, e). save_event k n e) nes db1 = Inr db'" by (auto simp: monad_simps split: prod.splits)
  show ?case
  proof (cases "p = (n, e)")
    case True
    with save_event_stores [OF 1] save_events_keep [OF 2] show ?thesis by fastforce
  next
    case False
    with Cons.prems(2) have "(n, e) \<in> set nes" by auto
    with Cons.IH [OF 2] show ?thesis .
  qed
qed simp

lemma research_save_events:
  assumes "research_save t run db = Inr db'"
  shows "event_with k i db = Some x \<Longrightarrow> event_with k i db' = Some x"
    and "e \<in> set (run_audit_events run) \<Longrightarrow>
      \<exists>x. event_with (t, run_id run) (rv_event_id e) db' = Some x \<and> research_event_json x = research_event_json e"
proof -
  let ?nes = "zip (map (\<lambda>i. int i + 1) [0..<length (run_audit_events run)]) (run_audit_events run)"
  from assms obtain db1 db3 db4 where 1: "save_run_row (t, run_id run) run db = Inr db1"
    and 3: "fold_result (save_snapshot (t, run_id run)) (run_snapshots run)
      (fold (save_source (t, run_id run)) (run_sources run) db1) = Inr db3"
    and 4: "fold_result (save_evidence (t, run_id run)) (run_evidence run) db3 = Inr db4"
    and 5: "fold_result (\<lambda>(n, e). save_event (t, run_id run) n e) ?nes
      (fold (save_attempt (t, run_id run)) (run_attempts run) db4) = Inr db'"
    by (auto simp: research_save_def assert_tenant_def monad_simps Let_def)
  have "rp_events (fold (save_attempt (t, run_id run)) (run_attempts run) db4) = rp_events db4"
    by (rule fold_inv) (simp add: save_attempt_def)
  also have "\<dots> = rp_events db3"
    by (rule fold_result_inv [OF _ 4]) (auto simp: save_evidence_def Let_def monad_simps split: if_splits)
  also have "\<dots> = rp_events (fold (save_source (t, run_id run)) (run_sources run) db1)"
    by (rule fold_result_inv [OF _ 3]) (auto simp: save_snapshot_def Let_def monad_simps split: if_splits)
  also have "\<dots> = rp_events db1" by (rule fold_inv) (simp add: save_source_def)
  also have "\<dots> = rp_events db" using 1 by (auto simp: save_run_row_def monad_simps)
  finally have same: "event_with k i (fold (save_attempt (t, run_id run)) (run_attempts run) db4) = event_with k i db" for k i
    by (simp add: event_with_def)
  then show "event_with k i db = Some x \<Longrightarrow> event_with k i db' = Some x" using save_events_keep [OF 5] by simp
  assume "e \<in> set (run_audit_events run)"
  then have "e \<in> set (map snd ?nes)" by simp
  then obtain p where "p \<in> set ?nes" "snd p = e" unfolding set_map by blast
  then have "(fst p, e) \<in> set ?nes" by force
  with save_events_store [OF 5] show "\<exists>x. event_with (t, run_id run) (rv_event_id e) db' = Some x \<and>
      research_event_json x = research_event_json e" by blast
qed

text \<open>
  Two executions cannot both move the same run. When two copies of one run have been moved,
  and the events of the moves differ, then once the first copy has been saved, saving the
  second raises: no event of the log is overwritten or lost.
\<close>

theorem concurrent_research_conflicts:
  assumes "apply_transition sha retry1 target1 tm1 actor1 reasons1 payload1 run = Inr run1"
    and "apply_transition sha retry2 target2 tm2 actor2 reasons2 payload2 run = Inr run2"
    and "research_event_json (last (run_audit_events run1)) \<noteq> research_event_json (last (run_audit_events run2))"
    and "research_save t run1 db = Inr db1"
  shows "\<exists>e. research_save t run2 db1 = Inl e"
proof (rule ccontr)
  assume "\<not> ?thesis"
  then obtain db2 where s2: "research_save t run2 db1 = Inr db2" by (cases "research_save t run2 db1") auto
  let ?e1 = "last (run_audit_events run1)" and ?e2 = "last (run_audit_events run2)"
  have k: "run_id run1 = run_id run2" "rv_event_id ?e1 = rv_event_id ?e2"
    "?e1 \<in> set (run_audit_events run1)" "?e2 \<in> set (run_audit_events run2)"
    using assms(1,2) by (auto simp: apply_transition_Inr_iff transition_research_event_def)
  from research_save_events(2) [OF assms(4) k(3)] obtain x where
    x: "event_with (t, run_id run2) (rv_event_id ?e2) db1 = Some x" "research_event_json x = research_event_json ?e1"
    using k by auto
  from research_save_events(2) [OF s2 k(4)] research_save_events(1) [OF s2 x(1)] x(2) assms(3) show False by auto
qed

definition clash_repo :: research_repo where
  "clash_repo = empty_research\<lparr>rp_runs := [demo_run], rp_budget := [(demo_key, 0)]\<rparr>"

theorem concurrent_research_conflicts_witness:
  "\<exists>e. research_save ''acme'' (append_event (demo_event 0 RS_CREATED RS_CANCELLED [''RESEARCH_CANCELLED''])
       (demo_run\<lparr>run_status := RS_CANCELLED, run_updated_at := ''t''\<rparr>))
     (clash_repo\<lparr>rp_runs := [demo_run1], rp_events := [(demo_key, 1, demo_event1)]\<rparr>) = Inl e"
proof -
  let ?run2 = "append_event (demo_event 0 RS_CREATED RS_CANCELLED [''RESEARCH_CANCELLED''])
    (demo_run\<lparr>run_status := RS_CANCELLED, run_updated_at := ''t''\<rparr>)"
  have 1: "apply_transition demo_sha False RS_SEARCHING ''t'' ''rob'' [''SEARCH_STARTED''] JNull demo_run = Inr demo_run1"
    by (simp add: apply_transition_def research_transition_def demo_event append_event_def)
  have 2: "apply_transition demo_sha False RS_CANCELLED ''t'' ''rob'' [''RESEARCH_CANCELLED''] JNull demo_run = Inr ?run2"
    by (simp add: apply_transition_def research_transition_def research_cancellable_def demo_event)
  have 3: "research_event_json (last (run_audit_events demo_run1)) \<noteq> research_event_json (last (run_audit_events ?run2))"
    by (simp add: research_event_json_def demo_event_def transition_research_event_def jstrs_def)
  have 4: "research_save ''acme'' demo_run1 clash_repo =
      Inr (clash_repo\<lparr>rp_runs := [demo_run1], rp_events := [(demo_key, 1, demo_event1)]\<rparr>)"
    by (simp add: save_parts clash_repo_def empty_research_def cong: weak_congs)
  from concurrent_research_conflicts [OF 1 2 3 4] show ?thesis .
qed

end
