(* ===== verification/Urls.thy ===== *)
theory Urls
  imports Prelude
begin

text \<open>
  What the sources use of \<^verbatim>\<open>urllib.parse\<close> and \<^verbatim>\<open>ipaddress\<close>: \<^verbatim>\<open>urlsplit\<close> with the
  attributes of its result, \<^verbatim>\<open>urlunsplit\<close>, and whether a text is an IP address, as in
  CPython 3.11. The last lemmas say what splitting a URL gives that was put together from
  checked parts.
\<close>

section \<open>Texts\<close>

text \<open>\<^verbatim>\<open>s.partition(c)\<close> and \<^verbatim>\<open>s.rpartition(c)\<close>: what stands before and after the separator.\<close>

definition before_char :: "char \<Rightarrow> string \<Rightarrow> string" where
  "before_char c s = takeWhile (\<lambda>d. d \<noteq> c) s"

definition after_char :: "char \<Rightarrow> string \<Rightarrow> string" where
  "after_char c s = drop 1 (dropWhile (\<lambda>d. d \<noteq> c) s)"

definition after_last :: "char \<Rightarrow> string \<Rightarrow> string" where
  "after_last c s = rev (before_char c (rev s))"

definition before_last :: "char \<Rightarrow> string \<Rightarrow> string" where
  "before_last c s = rev (after_char c (rev s))"

fun split_at :: "char \<Rightarrow> string \<Rightarrow> string list" where
  "split_at c [] = [[]]"
| "split_at c (d # s) =
     (if d = c then [] # split_at c s
      else case split_at c s of [] \<Rightarrow> [[d]] | x # xs \<Rightarrow> (d # x) # xs)"

definition ascii_letter :: "char \<Rightarrow> bool" where
  "ascii_letter c = (let n = (of_char c :: nat) in (65 \<le> n \<and> n \<le> 90) \<or> (97 \<le> n \<and> n \<le> 122))"

definition is_hex :: "char \<Rightarrow> bool" where
  "is_hex c = (let n = (of_char c :: nat) in
     (48 \<le> n \<and> n \<le> 57) \<or> (65 \<le> n \<and> n \<le> 70) \<or> (97 \<le> n \<and> n \<le> 102))"

section \<open>ipaddress.ip\_address\<close>

definition ipv4_octet :: "string \<Rightarrow> bool" where
  "ipv4_octet s = (s \<noteq> [] \<and> list_all is_digit s \<and> length s \<le> 3 \<and>
     (length s > 1 \<longrightarrow> hd s \<noteq> CHR ''0'') \<and> nat_of_digits s \<le> 255)"

definition is_ipv4 :: "string \<Rightarrow> bool" where
  "is_ipv4 s = (CHR ''/'' \<notin> set s \<and> length (split_at (CHR ''.'') s) = 4 \<and>
     list_all ipv4_octet (split_at (CHR ''.'') s))"

definition hextet :: "string \<Rightarrow> bool" where
  "hextet s = (s \<noteq> [] \<and> list_all is_hex s \<and> length s \<le> 4)"

text \<open>The parts between the colons, an IPv4 suffix counting as two hextets; an empty part in the middle is the run of zeros.\<close>

definition ipv6_parts_ok :: "string list \<Rightarrow> bool" where
  "ipv6_parts_ok parts =
     (let n = length parts;
          gaps = filter (\<lambda>i. parts ! i = []) [1..<n - 1] in
      n \<le> 9 \<and>
      (case gaps of
         [] \<Rightarrow> n = 8 \<and> list_all hextet parts
       | [skip] \<Rightarrow>
           let hi = take skip parts; lo = drop (skip + 1) parts;
               hi' = (if hd parts = [] then tl hi else hi);
               lo' = (if last parts = [] then butlast lo else lo) in
           (hd parts = [] \<longrightarrow> hi' = []) \<and> (last parts = [] \<longrightarrow> lo' = []) \<and>
           length hi' + length lo' \<le> 7 \<and> list_all hextet hi' \<and> list_all hextet lo'
       | _ \<Rightarrow> False))"

definition is_ipv6 :: "string \<Rightarrow> bool" where
  "is_ipv6 s =
     (let address = before_char (CHR ''%'') s;
          zone = after_char (CHR ''%'') s;
          parts = split_at (CHR '':'') address;
          suffix = last parts in
      CHR ''/'' \<notin> set s \<and>
      (CHR ''%'' \<in> set s \<longrightarrow> zone \<noteq> [] \<and> CHR ''%'' \<notin> set zone) \<and>
      3 \<le> length parts \<and>
      (if CHR ''.'' \<in> set suffix then is_ipv4 suffix \<and> ipv6_parts_ok (butlast parts @ [''0'', ''0''])
       else ipv6_parts_ok parts))"

definition is_ip_address :: "string \<Rightarrow> bool" where
  "is_ip_address s = (is_ipv4 s \<or> is_ipv6 s)"

section \<open>urllib.parse\<close>

record split_url =
  us_scheme :: string
  us_netloc :: string
  us_path :: string
  us_query :: string
  us_fragment :: string

definition c0_or_space :: "char \<Rightarrow> bool" where
  "c0_or_space c = ((of_char c :: nat) \<le> 32)"

definition removed_char :: "char \<Rightarrow> bool" where
  "removed_char c = (c \<in> {CHR 0x09, CHR 0x0A, CHR 0x0D})"

definition scheme_char :: "char \<Rightarrow> bool" where
  "scheme_char c = (is_alnum c \<or> c \<in> {CHR ''+'', CHR ''-'', CHR ''.''})"

definition netloc_char :: "char \<Rightarrow> bool" where
  "netloc_char c = (c \<notin> {CHR ''/'', CHR ''?'', CHR ''#''})"

text \<open>\<^verbatim>\<open>_check_bracketed_host\<close>; in an address of the future the part after the dot is not empty.\<close>

definition ip_future :: "string \<Rightarrow> bool" where
  "ip_future s =
     (case s of [] \<Rightarrow> False
      | v # r \<Rightarrow> v = CHR ''v'' \<and> takeWhile is_hex r \<noteq> [] \<and>
          (case dropWhile is_hex r of [] \<Rightarrow> False
           | d # t \<Rightarrow> d = CHR ''.'' \<and> t \<noteq> [] \<and> CHR 0x0A \<notin> set t))"

definition bracketed_host_ok :: "string \<Rightarrow> bool" where
  "bracketed_host_ok s = (if py_startswith s ''v'' then ip_future s else \<not> is_ipv4 s \<and> is_ipv6 s)"

definition check_netloc :: "string \<Rightarrow> unit result" where
  "check_netloc netloc =
     (let opened = CHR ''['' \<in> set netloc; closed = CHR '']'' \<in> set netloc in
      bind_result (ensure (opened = closed) (ValueError ''Invalid IPv6 URL'')) (\<lambda>_.
      ensure (opened \<longrightarrow> bracketed_host_ok (before_char (CHR '']'') (after_char (CHR ''['') netloc)))
        (ValueError ''Invalid IPv6 URL'')))"

text \<open>The path, the query and the fragment of what follows the network location.\<close>

definition split_tail :: "string \<Rightarrow> string \<Rightarrow> string \<Rightarrow> split_url" where
  "split_tail scheme netloc rest =
     (let url = before_char (CHR ''#'') rest in
      \<lparr>us_scheme = scheme, us_netloc = netloc, us_path = before_char (CHR ''?'') url,
       us_query = after_char (CHR ''?'') url, us_fragment = after_char (CHR ''#'') rest\<rparr>)"

text \<open>
  The messages of the exceptions are not observed by any caller. On code points below 256
  the check of the normalised network location finds nothing.
\<close>

definition urlsplit :: "string \<Rightarrow> split_url result" where
  "urlsplit text =
     (let url = filter (\<lambda>c. \<not> removed_char c) (dropWhile c0_or_space text);
          prefix = before_char (CHR '':'') url;
          found = (CHR '':'' \<in> set url \<and> prefix \<noteq> [] \<and> ascii_letter (hd prefix) \<and> list_all scheme_char prefix);
          scheme = (if found then py_lower prefix else []);
          rest = (if found then after_char (CHR '':'') url else url) in
      if py_startswith rest ''//'' then
        let netloc = takeWhile netloc_char (drop 2 rest) in
        bind_result (check_netloc netloc) (\<lambda>_.
        Inr (split_tail scheme netloc (dropWhile netloc_char (drop 2 rest))))
      else Inr (split_tail scheme [] rest))"

definition url_username :: "split_url \<Rightarrow> string option" where
  "url_username u = (if CHR ''@'' \<in> set (us_netloc u)
     then Some (before_char (CHR '':'') (before_last (CHR ''@'') (us_netloc u))) else None)"

definition url_password :: "split_url \<Rightarrow> string option" where
  "url_password u = (let userinfo = before_last (CHR ''@'') (us_netloc u) in
     if CHR ''@'' \<in> set (us_netloc u) \<and> CHR '':'' \<in> set userinfo
     then Some (after_char (CHR '':'') userinfo) else None)"

text \<open>\<^verbatim>\<open>_hostinfo\<close>: the name and the text of the port.\<close>

definition hostinfo :: "string \<Rightarrow> string \<times> string" where
  "hostinfo netloc =
     (let info = after_last (CHR ''@'') netloc in
      if CHR ''['' \<in> set info then
        let bracketed = after_char (CHR ''['') info in
        (before_char (CHR '']'') bracketed, after_char (CHR '':'') (after_char (CHR '']'') bracketed))
      else (before_char (CHR '':'') info, after_char (CHR '':'') info))"

definition url_hostname :: "split_url \<Rightarrow> string option" where
  "url_hostname u = (let name = fst (hostinfo (us_netloc u)) in
     if name = [] then None
     else Some (py_lower (before_char (CHR ''%'') name) @ dropWhile (\<lambda>c. c \<noteq> CHR ''%'') name))"

definition url_port :: "split_url \<Rightarrow> nat option result" where
  "url_port u = (let port = snd (hostinfo (us_netloc u)) in
     if port = [] then Inr None
     else if list_all is_digit port \<and> nat_of_digits port \<le> 65535 then Inr (Some (nat_of_digits port))
     else Inl (ValueError ''Port could not be cast to integer value''))"

definition uses_netloc :: "string list" where
  "uses_netloc = ['''', ''ftp'', ''http'', ''gopher'', ''nntp'', ''telnet'', ''imap'', ''wais'', ''file'',
     ''mms'', ''https'', ''shttp'', ''snews'', ''prospero'', ''rtsp'', ''rtsps'', ''rtspu'', ''rsync'', ''svn'',
     ''svn+ssh'', ''sftp'', ''nfs'', ''git'', ''git+ssh'', ''ws'', ''wss'']"

definition urlunsplit :: "split_url \<Rightarrow> string" where
  "urlunsplit u =
     (let with_netloc = (us_netloc u \<noteq> [] \<or> (us_scheme u \<noteq> [] \<and> us_scheme u \<in> set uses_netloc) \<or>
            py_startswith (us_path u) ''//'');
          path = (if with_netloc \<and> us_path u \<noteq> [] \<and> hd (us_path u) \<noteq> CHR ''/''
                  then CHR ''/'' # us_path u else us_path u);
          url = (if with_netloc then ''//'' @ us_netloc u @ path else path) in
      (if us_scheme u \<noteq> [] then us_scheme u @ '':'' else []) @ url
      @ (if us_query u \<noteq> [] then ''?'' @ us_query u else [])
      @ (if us_fragment u \<noteq> [] then ''#'' @ us_fragment u else []))"

section \<open>Case folding and separators\<close>

text \<open>Characters that are neither letters nor above 127: folding neither makes nor changes them.\<close>

definition separator :: "char \<Rightarrow> bool" where
  "separator c = (let n = (of_char c :: nat) in n < 65 \<or> (91 \<le> n \<and> n \<le> 96) \<or> (123 \<le> n \<and> n \<le> 127))"

lemma lower_char_cases:
  obtains "py_lower_char c = c" | "\<not> separator c" "\<not> separator (py_lower_char c)"
proof -
  define n where "n = (of_char c :: nat)"
  have "n < 256" by (simp add: n_def)
  then have "py_lower_char c = c \<or> (\<not> separator c \<and> \<not> separator (py_lower_char c))"
    by (auto simp: py_lower_char_def separator_def Let_def n_def [symmetric] of_char_of)
  with that show ?thesis by blast
qed

lemma separator_in_fold [simp]: "separator c \<Longrightarrow> c \<in> set (casefold_char d) \<longleftrightarrow> d = c"
  by (cases rule: lower_char_cases [of d])
    (auto simp: casefold_char_def separator_def split: if_splits)

lemma separator_fold: "separator c \<Longrightarrow> casefold_char c = [c]"
  by (cases rule: lower_char_cases [of c]) (auto simp: casefold_char_def separator_def split: if_splits)

lemma casefold_simps [simp]:
  "py_casefold [] = []" "py_casefold (c # s) = casefold_char c @ py_casefold s"
  "py_casefold (s @ t) = py_casefold s @ py_casefold t"
  by (simp_all add: py_casefold_def)

lemma casefold_char_nonempty [simp]: "casefold_char c \<noteq> []"
  by (simp add: casefold_char_def)

lemma casefold_Nil_iff [simp]: "py_casefold s = [] \<longleftrightarrow> s = []"
  by (cases s) simp_all

lemma separator_in_casefold [simp]: "separator c \<Longrightarrow> c \<in> set (py_casefold s) \<longleftrightarrow> c \<in> set s"
  by (induction s) auto

lemma takeWhile_append_all: "\<forall>x \<in> set xs. P x \<Longrightarrow> takeWhile P (xs @ ys) = xs @ takeWhile P ys"
  by (induction xs) auto

lemma dropWhile_append_all: "\<forall>x \<in> set xs. P x \<Longrightarrow> dropWhile P (xs @ ys) = dropWhile P ys"
  by (induction xs) auto

lemma fold_no_separator: "separator c \<Longrightarrow> d \<noteq> c \<Longrightarrow> \<forall>x \<in> set (casefold_char d). x \<noteq> c"
  by (metis separator_in_fold)

lemma before_char_casefold: "separator c \<Longrightarrow> before_char c (py_casefold s) = py_casefold (before_char c s)"
proof (induction s)
  case (Cons d s)
  then show ?case
    by (cases "d = c") (simp_all add: before_char_def separator_fold takeWhile_append_all [OF fold_no_separator])
qed (simp add: before_char_def)

lemma dropWhile_casefold: "separator c \<Longrightarrow>
    dropWhile (\<lambda>d. d \<noteq> c) (py_casefold s) = py_casefold (dropWhile (\<lambda>d. d \<noteq> c) s)"
proof (induction s)
  case (Cons d s)
  then show ?case
    by (cases "d = c") (simp_all add: separator_fold dropWhile_append_all [OF fold_no_separator])
qed simp

lemma after_char_casefold: "separator c \<Longrightarrow> after_char c (py_casefold s) = py_casefold (after_char c s)"
proof -
  assume c: "separator c"
  have "drop 1 (py_casefold t) = py_casefold (drop 1 t)" if "t = [] \<or> hd t = c" for t
    using that c by (cases t) (auto simp: separator_fold)
  moreover have "dropWhile (\<lambda>d. d \<noteq> c) s = [] \<or> hd (dropWhile (\<lambda>d. d \<noteq> c) s) = c"
    using hd_dropWhile by blast
  ultimately show ?thesis by (simp add: after_char_def dropWhile_casefold c)
qed

lemma separator_consts [simp]:
  "separator (CHR ''/'')" "separator (CHR ''?'')" "separator (CHR ''#'')" "separator (CHR '':'')"
  "separator (CHR ''@'')" "separator (CHR ''['')" "separator (CHR '']'')" "separator (CHR ''%'')"
  "separator (CHR ''.'')" "separator (CHR 0x09)" "separator (CHR 0x0A)" "separator (CHR 0x0D)"
  by (simp_all add: separator_def)

lemma lower_char_idem [simp]: "py_lower_char (py_lower_char c) = py_lower_char c"
proof -
  define n where "n = (of_char c :: nat)"
  have "n < 256" by (simp add: n_def)
  then show ?thesis by (auto simp: py_lower_char_def Let_def n_def [symmetric] of_char_of)
qed

lemma lower_sharp_s_iff: "py_lower_char c = CHR 0xDF \<longleftrightarrow> c = CHR 0xDF"
proof -
  define n where "n = (of_char c :: nat)"
  have "n < 256" by (simp add: n_def)
  have *: "d = CHR 0xDF \<longleftrightarrow> (of_char d :: nat) = 223" for d
    using of_char_eq_iff [of d "CHR 0xDF", where 'a = nat] by simp
  show ?thesis
    using \<open>n < 256\<close> by (auto simp: * py_lower_char_def Let_def n_def [symmetric] of_char_of)
qed

lemma casefold_lower [simp]: "py_casefold (py_lower s) = py_casefold s"
  by (induction s) (simp_all add: py_lower_def casefold_char_def lower_sharp_s_iff)

lemma casefold_idem [simp]: "py_casefold (py_casefold s) = py_casefold s"
proof -
  have "py_casefold (casefold_char c) = casefold_char c" for c
  proof (cases "c = CHR 0xDF")
    case True
    have "py_lower_char (CHR ''s'') = CHR ''s''" by (simp add: py_lower_char_def)
    with True show ?thesis by (simp add: casefold_char_def)
  qed (simp add: casefold_char_def lower_sharp_s_iff)
  then show ?thesis by (induction s) simp_all
qed

section \<open>Splitting and putting together\<close>

lemma before_char_notin [simp]: "c \<notin> set s \<Longrightarrow> before_char c s = s" "c \<notin> set s \<Longrightarrow> after_char c s = []"
  by (induction s) (auto simp: before_char_def after_char_def)

lemma before_char_append: "c \<notin> set s \<Longrightarrow> before_char c (s @ c # t) = s" "c \<notin> set s \<Longrightarrow> after_char c (s @ c # t) = t"
  by (induction s) (auto simp: before_char_def after_char_def)

lemma set_before_char: "x \<in> set (before_char c s) \<Longrightarrow> x \<in> set s \<and> x \<noteq> c"
  by (auto simp: before_char_def dest: set_takeWhileD)

lemma set_after_char: "x \<in> set (after_char c s) \<Longrightarrow> x \<in> set s"
  by (auto simp: after_char_def dest: in_set_dropD set_dropWhileD)

text \<open>What the parts of a split URL have in common.\<close>

definition clean_split :: "split_url \<Rightarrow> bool" where
  "clean_split u =
     (list_all netloc_char (us_netloc u) \<and> check_netloc (us_netloc u) = Inr () \<and>
      (us_netloc u \<noteq> [] \<longrightarrow> us_path u = [] \<or> hd (us_path u) = CHR ''/'') \<and>
      CHR ''?'' \<notin> set (us_path u) \<and> CHR ''#'' \<notin> set (us_path u) \<and> CHR ''#'' \<notin> set (us_query u) \<and>
      list_all (\<lambda>c. \<not> removed_char c) (us_netloc u @ us_path u @ us_query u))"

lemma split_tail_clean:
  assumes "list_all netloc_char n" "check_netloc n = Inr ()" "n \<noteq> [] \<longrightarrow> rest = [] \<or> \<not> netloc_char (hd rest)"
    and "list_all (\<lambda>c. \<not> removed_char c) (n @ rest)"
  shows "clean_split (split_tail sc n rest)"
proof -
  have "before_char (CHR ''?'') (before_char (CHR ''#'') rest) = [] \<or>
      hd (before_char (CHR ''?'') (before_char (CHR ''#'') rest)) = CHR ''/''" if "n \<noteq> []"
    using assms(3) that by (cases rest) (auto simp: before_char_def netloc_char_def)
  with assms show ?thesis
    by (auto simp: clean_split_def split_tail_def Let_def list_all_iff dest!: set_before_char set_after_char)
qed

lemma urlsplit_clean:
  assumes "urlsplit text = Inr u"
  shows "clean_split u"
proof -
  define url where "url = filter (\<lambda>c. \<not> removed_char c) (dropWhile c0_or_space text)"
  have url: "\<forall>c \<in> set url. \<not> removed_char c" by (simp add: url_def)
  define found where "found = (CHR '':'' \<in> set url \<and> before_char (CHR '':'') url \<noteq> [] \<and>
    ascii_letter (hd (before_char (CHR '':'') url)) \<and> list_all scheme_char (before_char (CHR '':'') url))"
  define sc where "sc = (if found then py_lower (before_char (CHR '':'') url) else [])"
  define rest where "rest = (if found then after_char (CHR '':'') url else url)"
  have rest: "set rest \<subseteq> set url" by (auto simp: rest_def dest: set_after_char)
  have u: "(if py_startswith rest ''//'' then bind_result (check_netloc (takeWhile netloc_char (drop 2 rest)))
        (\<lambda>_. Inr (split_tail sc (takeWhile netloc_char (drop 2 rest)) (dropWhile netloc_char (drop 2 rest))))
      else Inr (split_tail sc [] rest)) = Inr u"
    using assms
    unfolding urlsplit_def Let_def url_def [symmetric] found_def [symmetric] sc_def [symmetric] rest_def [symmetric] .
  have sub: "set (drop 2 rest) \<subseteq> set url" using rest by (meson order_trans set_drop_subset)
  have hd: "dropWhile netloc_char (drop 2 rest) = [] \<or> \<not> netloc_char (hd (dropWhile netloc_char (drop 2 rest)))"
    using hd_dropWhile by blast
  have n: "list_all netloc_char (takeWhile netloc_char (drop 2 rest))"
    by (auto simp: list_all_iff dest: set_takeWhileD)
  have r: "list_all (\<lambda>c. \<not> removed_char c) (takeWhile netloc_char (drop 2 rest) @ dropWhile netloc_char (drop 2 rest))"
    using sub url by (simp add: list_all_iff) blast
  show ?thesis
  proof (cases "py_startswith rest ''//''")
    case True
    with u have "check_netloc (takeWhile netloc_char (drop 2 rest)) = Inr ()"
      and "u = split_tail sc (takeWhile netloc_char (drop 2 rest)) (dropWhile netloc_char (drop 2 rest))"
      by (auto simp: monad_simps)
    with n r hd show ?thesis by (simp add: split_tail_clean)
  next
    case False
    with u have "u = split_tail sc [] rest" by simp
    moreover have "list_all (\<lambda>c. \<not> removed_char c) ([] @ rest)" using url rest by (simp add: list_all_iff) blast
    then have "clean_split (split_tail sc [] rest)" by (intro split_tail_clean) (simp_all add: check_netloc_def)
    ultimately show ?thesis by simp
  qed
qed

lemma unsplit_https:
  assumes "us_scheme u = ''https''" "us_fragment u = []" "us_path u = CHR ''/'' # p"
  shows "urlunsplit u = ''https:'' @ ''//'' @ us_netloc u @ us_path u
    @ (if us_query u \<noteq> [] then ''?'' @ us_query u else [])"
  using assms by (simp add: urlunsplit_def Let_def uses_netloc_def)

theorem split_unsplit:
  assumes clean: "clean_split u" and u: "us_scheme u = ''https''" "us_fragment u = []" "us_path u = CHR ''/'' # p"
  shows "urlsplit (urlunsplit u) = Inr u"
proof -
  let ?q = "if us_query u \<noteq> [] then ''?'' @ us_query u else []"
  let ?rest = "us_path u @ ?q"
  have whole: "urlunsplit u = ''https'' @ CHR '':'' # ''//'' @ us_netloc u @ ?rest"
    using unsplit_https [OF u] by simp
  have nr: "\<forall>c \<in> set (us_netloc u @ us_path u @ us_query u). \<not> removed_char c"
    using clean by (simp add: clean_split_def list_all_iff)
  then have kept: "filter (\<lambda>c. \<not> removed_char c) (dropWhile c0_or_space (urlunsplit u)) = urlunsplit u"
    unfolding whole by (auto simp: c0_or_space_def removed_char_def filter_id_conv)
  have head: "before_char (CHR '':'') (urlunsplit u) = ''https''"
      "after_char (CHR '':'') (urlunsplit u) = ''//'' @ us_netloc u @ ?rest"
    unfolding whole by (simp_all add: before_char_def after_char_def)
  have scheme: "ascii_letter (CHR ''h'')" "list_all scheme_char ''https''" "py_lower ''https'' = ''https''"
    by (simp_all add: ascii_letter_def scheme_char_def is_alnum_def py_lower_def py_lower_char_def)
  have parts: "takeWhile netloc_char (us_netloc u @ ?rest) = us_netloc u"
      "dropWhile netloc_char (us_netloc u @ ?rest) = ?rest"
    using clean u(3) by (simp_all add: clean_split_def list_all_iff takeWhile_append_all dropWhile_append_all netloc_char_def)
  have tail: "split_tail ''https'' (us_netloc u) ?rest = u"
  proof -
    have "CHR ''#'' \<notin> set ?rest" "CHR ''?'' \<notin> set (us_path u)" using clean by (auto simp: clean_split_def)
    moreover from this have "before_char (CHR ''?'') ?rest = us_path u" "after_char (CHR ''?'') ?rest = us_query u"
      using before_char_append [of "CHR ''?''" "us_path u"] by simp_all
    ultimately show ?thesis
      using u(1,2) by (simp add: split_tail_def Let_def del: append_assoc)
  qed
  have found: "(CHR '':'' \<in> set (urlunsplit u) \<and> ''https'' \<noteq> [] \<and> ascii_letter (hd ''https'') \<and>
      list_all scheme_char ''https'') = True"
    using scheme unfolding whole by simp
  have slashes: "py_startswith (''//'' @ x) ''//''" "drop 2 (''//'' @ x) = x" for x by simp_all
  have "check_netloc (us_netloc u) = Inr ()" using clean by (simp add: clean_split_def)
  then show ?thesis
    unfolding urlsplit_def Let_def kept head found slashes if_True parts scheme(3) tail by simp
qed

end
