(* ===== verification/RuntimeConfig.thy ===== *)
theory RuntimeConfig
  imports Urls Jobs
begin

text \<open>
  The runtime configuration, \<^verbatim>\<open>production/config.py\<close> and \<^verbatim>\<open>OidcPolicy\<close> of
  \<^verbatim>\<open>production/contracts.py\<close>: the checks a configuration object passes when it is made,
  the residency policy and the check of the provider URLs at start-up. Reading the values
  from a file is not modelled. The settings of the controlled pilot, which the checks only ask for
  being there, are a type parameter.
\<close>

datatype environment_profile = DEVELOPMENT | TEST | STAGING | PRODUCTION

datatype operating_mode = DEVELOPMENT_PROVIDER_INTEGRATION | LOCAL | EU_MANAGED | CONTROLLED_PILOT

datatype database_backend = SQLITE | POSTGRESQL

datatype authentication_mode = STATIC | OIDC

datatype secret_provider_mode = ENVIRONMENT | EXTERNAL

fun environment_profile_value :: "environment_profile \<Rightarrow> string" where
  "environment_profile_value DEVELOPMENT = ''development''"
| "environment_profile_value TEST = ''test''"
| "environment_profile_value STAGING = ''staging''"
| "environment_profile_value PRODUCTION = ''production''"

section \<open>OIDC\<close>

record oidc_policy =
  op_issuer :: string
  op_audience :: string
  op_algorithms :: "string list"
  op_tenant_claim :: string
  op_actor_id_claim :: string
  op_role_claim :: string
  op_actor_kind_claim :: string
  op_organization_claim :: "string option"
  op_groups_claim :: "string option"
  op_clock_skew_seconds :: int
  op_authorized_parties :: "string list"
  op_required_scopes :: "string list"
  op_allow_insecure_loopback :: bool

definition loopback_hosts :: "string list" where
  "loopback_hosts = [''127.0.0.1'', ''::1'', ''localhost'']"

definition is_loopback :: "split_url \<Rightarrow> bool" where
  "is_loopback u = (us_scheme u = ''http'' \<and> url_hostname u \<in> Some ` set loopback_hosts)"

definition oidc_policy_post_init :: "oidc_policy \<Rightarrow> oidc_policy result" where
  "oidc_policy_post_init p =
     bind_result (urlsplit (op_issuer p)) (\<lambda>issuer.
     bind_result (ensure (\<not> ((us_scheme issuer \<noteq> ''https'' \<and> \<not> (op_allow_insecure_loopback p \<and> is_loopback issuer))
         \<or> url_hostname issuer = None \<or> url_username issuer \<noteq> None \<or> url_password issuer \<noteq> None
         \<or> us_query issuer \<noteq> [] \<or> us_fragment issuer \<noteq> [] \<or> py_strip (op_audience p) = []))
       (ValueError ''INVALID_OIDC_TRUST_CONFIGURATION'')) (\<lambda>_.
     bind_result (ensure (op_algorithms p \<noteq> [] \<and> list_all (\<lambda>a. a \<in> {''RS256'', ''ES256''}) (op_algorithms p))
       (ValueError ''INVALID_OIDC_ALGORITHM_ALLOWLIST'')) (\<lambda>_.
     bind_result (ensure (list_all (\<lambda>c. py_strip c \<noteq> [])
         [op_tenant_claim p, op_actor_id_claim p, op_role_claim p, op_actor_kind_claim p])
       (ValueError ''INVALID_OIDC_CLAIM_MAPPING'')) (\<lambda>_.
     bind_result (ensure (0 \<le> op_clock_skew_seconds p \<and> op_clock_skew_seconds p \<le> 120)
       (ValueError ''INVALID_OIDC_CLOCK_SKEW'')) (\<lambda>_.
     bind_result (ensure (list_all (\<lambda>x. py_strip x \<noteq> [] \<and> length x \<le> 256) (op_authorized_parties p))
       (ValueError ''INVALID_OIDC_AUTHORIZED_PARTY'')) (\<lambda>_.
     bind_result (ensure (list_all (\<lambda>x. py_strip x \<noteq> [] \<and> length x \<le> 128) (op_required_scopes p))
       (ValueError ''INVALID_OIDC_REQUIRED_SCOPE'')) (\<lambda>_.
     Inr p)))))))"

record oidc_runtime_config =
  orc_policy :: oidc_policy
  orc_jwks_uri :: string

definition oidc_runtime_config_post_init :: "oidc_runtime_config \<Rightarrow> oidc_runtime_config result" where
  "oidc_runtime_config_post_init c =
     bind_result (urlsplit (orc_jwks_uri c)) (\<lambda>parsed.
     bind_result (urlsplit (op_issuer (orc_policy c))) (\<lambda>issuer.
     if (us_scheme parsed \<noteq> ''https'' \<and> \<not> (op_allow_insecure_loopback (orc_policy c) \<and> is_loopback parsed))
        \<or> url_hostname parsed = None \<or> url_username parsed \<noteq> None \<or> url_password parsed \<noteq> None
        \<or> us_query parsed \<noteq> [] \<or> us_fragment parsed \<noteq> []
     then Inl (ValueError ''INVALID_OIDC_JWKS_URI'')
     else bind_result (url_port parsed) (\<lambda>port. bind_result (url_port issuer) (\<lambda>issuer_port.
       bind_result (ensure ((us_scheme parsed, url_hostname parsed, port) =
           (us_scheme issuer, url_hostname issuer, issuer_port))
         (ValueError ''INVALID_OIDC_JWKS_URI'')) (\<lambda>_. Inr c)))))"

section \<open>Data residency and provider egress\<close>

definition EU_COUNTRY_CODES :: "string list" where
  "EU_COUNTRY_CODES = [''AT'', ''BE'', ''BG'', ''CY'', ''CZ'', ''DE'', ''DK'', ''EE'', ''ES'', ''FI'', ''FR'', ''GR'',
     ''HR'', ''HU'', ''IE'', ''IT'', ''LT'', ''LU'', ''LV'', ''MT'', ''NL'', ''PL'', ''PT'', ''RO'', ''SE'', ''SI'', ''SK'']"

record data_residency_policy =
  storage_locations :: "string list"
  processing_locations :: "string list"
  backup_locations :: "string list"
  support_access_locations :: "string list"
  external_processing_locations :: "string list"
  residency_evidence_refs :: "string list"

definition residency_validate_for :: "operating_mode \<Rightarrow> data_residency_policy \<Rightarrow> unit result" where
  "residency_validate_for mode r =
     (let required = [storage_locations r, processing_locations r, backup_locations r, support_access_locations r];
          all_locations = concat required @ external_processing_locations r in
      bind_result (ensure (list_all (\<lambda>locations. locations \<noteq> []) required) (ValueError ''DATA_LOCATION_REQUIRED'')) (\<lambda>_.
      case mode of
        DEVELOPMENT_PROVIDER_INTEGRATION \<Rightarrow>
          bind_result (ensure (list_all (\<lambda>locations. locations = [''local-development'']) required)
            (ValueError ''DEVELOPMENT_DATA_BOUNDARY_REQUIRED'')) (\<lambda>_.
          ensure (external_processing_locations r = [''external-unspecified''])
            (ValueError ''DEVELOPMENT_EXTERNAL_LOCATION_REQUIRED''))
      | LOCAL \<Rightarrow>
          bind_result (ensure (list_all (\<lambda>locations. locations = [''local'']) required)
            (ValueError ''LOCAL_DATA_BOUNDARY_REQUIRED'')) (\<lambda>_.
          ensure (list_all (\<lambda>location. location = ''local'') (external_processing_locations r))
            (ValueError ''LOCAL_PROVIDER_PROCESSING_REQUIRED''))
      | _ \<Rightarrow>
          bind_result (ensure (list_all (\<lambda>location. location \<in> set EU_COUNTRY_CODES) all_locations)
            (ValueError ''EU_DATA_LOCATION_REQUIRED'')) (\<lambda>_.
          bind_result (ensure (residency_evidence_refs r \<noteq> []) (ValueError ''EU_RESIDENCY_EVIDENCE_REQUIRED'')) (\<lambda>_.
          ensure (list_all (\<lambda>ref. py_startswith ref ''https://'') (residency_evidence_refs r))
            (ValueError ''INVALID_RESIDENCY_EVIDENCE_REFERENCE'')))))"

record provider_attestation =
  pa_evidence_id :: string
  pa_evidence_type :: string
  pa_evidence_ref :: string
  pa_issuer :: string
  pa_issued_at :: string
  pa_valid_from :: string
  pa_expires_at :: string
  pa_verification_status :: string
  pa_verified_at :: "string option"
  pa_verified_by :: "string option"
  pa_document_hash :: "string option"

record provider_egress =
  px_provider :: string
  px_service :: string
  px_host :: string
  px_processing_location :: string
  px_confirmed_processing_locations :: "string list"
  px_tenant_ids :: "string list"
  px_attestation :: provider_attestation

section \<open>RuntimeConfig\<close>

record 'p runtime_config =
  rc_profile :: environment_profile
  rc_operating_mode :: "operating_mode option"
  rc_data_residency :: "data_residency_policy option"
  rc_database_backend :: database_backend
  rc_authentication_mode :: authentication_mode
  rc_secret_provider :: secret_provider_mode
  rc_database_dsn_secret :: string
  rc_worker_database_dsn_secret :: string
  rc_oidc :: "oidc_runtime_config option"
  rc_egress_allowed_hosts :: "string list"
  rc_provider_egress :: "provider_egress list"
  rc_controlled_pilot :: "'p option"
  rc_worker_policy :: job_policy

definition normal_host :: "string \<Rightarrow> string" where
  "normal_host h = rstrip_dots (py_casefold h)"

definition check_pilot :: "'p runtime_config \<Rightarrow> unit result" where
  "check_pilot c =
     (if rc_operating_mode c = Some CONTROLLED_PILOT
      then ensure (rc_controlled_pilot c \<noteq> None) (ValueError ''CONTROLLED_PILOT_CONFIGURATION_REQUIRED'')
      else ensure (rc_controlled_pilot c = None) (ValueError ''CONTROLLED_PILOT_PROFILE_REQUIRED''))"

definition check_provider_location :: "operating_mode \<Rightarrow> data_residency_policy \<Rightarrow> provider_egress \<Rightarrow> unit result" where
  "check_provider_location mode r p =
     bind_result (ensure (\<not> (mode = LOCAL \<and> px_processing_location p \<noteq> ''local''))
       (ValueError ''LOCAL_PROVIDER_PROCESSING_REQUIRED'')) (\<lambda>_.
     bind_result (ensure (\<not> (mode = EU_MANAGED \<and> px_processing_location p \<notin> set EU_COUNTRY_CODES))
       (ValueError ''EU_PROVIDER_PROCESSING_REQUIRED'')) (\<lambda>_.
     ensure (px_processing_location p \<in> set (external_processing_locations r))
       (ValueError ''PROVIDER_PROCESSING_LOCATION_UNDECLARED'')))"

definition check_production :: "'p runtime_config \<Rightarrow> unit result" where
  "check_production c =
     (case rc_operating_mode c of None \<Rightarrow> Inl (ValueError ''OPERATING_MODE_REQUIRED'')
      | Some mode \<Rightarrow>
     (case rc_data_residency c of None \<Rightarrow> Inl (ValueError ''DATA_RESIDENCY_POLICY_REQUIRED'')
      | Some r \<Rightarrow>
     bind_result (ensure (mode \<noteq> DEVELOPMENT_PROVIDER_INTEGRATION)
       (ValueError ''DEVELOPMENT_PROVIDER_PROFILE_FORBIDDEN'')) (\<lambda>_.
     bind_result (residency_validate_for mode r) (\<lambda>_.
     bind_result (ensure (rc_database_backend c = POSTGRESQL) (ValueError ''PRODUCTION_REQUIRES_POSTGRESQL'')) (\<lambda>_.
     case (if rc_authentication_mode c = OIDC then rc_oidc c else None) of
       None \<Rightarrow> Inl (ValueError ''PRODUCTION_REQUIRES_OIDC'')
     | Some oidc \<Rightarrow>
     bind_result (ensure (\<not> op_allow_insecure_loopback (orc_policy oidc)) (ValueError ''PRODUCTION_OIDC_HTTPS_REQUIRED'')) (\<lambda>_.
     bind_result (ensure (op_authorized_parties (orc_policy oidc) \<noteq> []) (ValueError ''OIDC_AUTHORIZED_PARTIES_REQUIRED'')) (\<lambda>_.
     bind_result (ensure (op_required_scopes (orc_policy oidc) \<noteq> []) (ValueError ''OIDC_REQUIRED_SCOPES_REQUIRED'')) (\<lambda>_.
     bind_result (ensure (rc_secret_provider c = EXTERNAL) (ValueError ''EXTERNAL_SECRET_PROVIDER_REQUIRED'')) (\<lambda>_.
     bind_result (ensure (rc_egress_allowed_hosts c \<noteq> []) (ValueError ''EGRESS_ALLOWLIST_REQUIRED'')) (\<lambda>_.
     bind_result (ensure (rc_provider_egress c \<noteq> []) (ValueError ''PROVIDER_EGRESS_REQUIRED'')) (\<lambda>_.
     bind_result (ensure (distinct (map px_host (rc_provider_egress c))) (ValueError ''DUPLICATE_PROVIDER_EGRESS_HOST'')) (\<lambda>_.
     bind_result (ensure (px_host ` set (rc_provider_egress c) = normal_host ` set (rc_egress_allowed_hosts c))
       (ValueError ''PROVIDER_EGRESS_ALLOWLIST_MISMATCH'')) (\<lambda>_.
     bind_result (traverse (check_provider_location mode r) (rc_provider_egress c)) (\<lambda>_. Inr ()))))))))))))))"

definition check_development :: "'p runtime_config \<Rightarrow> unit result" where
  "check_development c =
     (if rc_operating_mode c = None \<and> rc_data_residency c = None then Inr ()
      else if rc_operating_mode c \<noteq> Some DEVELOPMENT_PROVIDER_INTEGRATION
      then Inl (ValueError ''DEVELOPMENT_PROVIDER_PROFILE_REQUIRED'')
      else case rc_data_residency c of None \<Rightarrow> Inl (ValueError ''DATA_RESIDENCY_POLICY_REQUIRED'')
      | Some r \<Rightarrow>
     bind_result (residency_validate_for DEVELOPMENT_PROVIDER_INTEGRATION r) (\<lambda>_.
     bind_result (ensure (px_host ` set (rc_provider_egress c) = normal_host ` set (rc_egress_allowed_hosts c))
       (ValueError ''PROVIDER_EGRESS_ALLOWLIST_MISMATCH'')) (\<lambda>_.
     ensure (list_all (\<lambda>p. px_processing_location p = ''external-unspecified'') (rc_provider_egress c))
       (ValueError ''DEVELOPMENT_EXTERNAL_LOCATION_REQUIRED''))))"

definition runtime_config_post_init :: "'p runtime_config \<Rightarrow> 'p runtime_config result" where
  "runtime_config_post_init c =
     bind_result (check_pilot c) (\<lambda>_.
     bind_result (if rc_profile c \<in> {STAGING, PRODUCTION} then check_production c else check_development c) (\<lambda>_.
     Inr c))"

text \<open>\<^verbatim>\<open>(urlsplit(url).hostname or "").casefold().rstrip(".")\<close>.\<close>

definition url_host :: "split_url \<Rightarrow> string" where
  "url_host u = normal_host (case url_hostname u of None \<Rightarrow> [] | Some h \<Rightarrow> h)"

fun provider_hosts :: "string list \<Rightarrow> string list \<Rightarrow> string list result" where
  "provider_hosts declared [] = Inr []"
| "provider_hosts declared (url # urls) =
     (case urlsplit url of Inl e \<Rightarrow> Inl (ValueError ''PROVIDER_EGRESS_UNDECLARED'')
      | Inr u \<Rightarrow>
          let host = url_host u in
          if host = [] \<or> host \<notin> set declared then Inl (ValueError ''PROVIDER_EGRESS_UNDECLARED'')
          else bind_result (provider_hosts declared urls) (\<lambda>hosts. Inr (host # hosts)))"

definition validate_provider_urls :: "string list \<Rightarrow> 'p runtime_config \<Rightarrow> unit result" where
  "validate_provider_urls urls c =
     (let declared = map px_host (rc_provider_egress c) in
      bind_result (provider_hosts declared urls) (\<lambda>hosts.
      ensure (set hosts = set declared) (ValueError ''PROVIDER_EGRESS_RUNTIME_MISMATCH'')))"

section \<open>What an accepted configuration guarantees\<close>

lemma traverse_Inr_all: "traverse f xs = Inr ys \<Longrightarrow> x \<in> set xs \<Longrightarrow> \<exists>y. f x = Inr y"
  by (induction xs arbitrary: ys) (auto simp: monad_simps)

lemma production_config:
  assumes "runtime_config_post_init c = Inr c'" "rc_profile c \<in> {STAGING, PRODUCTION}"
  obtains mode r where "rc_operating_mode c = Some mode" "rc_data_residency c = Some r"
    "mode \<noteq> DEVELOPMENT_PROVIDER_INTEGRATION" "residency_validate_for mode r = Inr ()"
    "rc_database_backend c = POSTGRESQL" "rc_secret_provider c = EXTERNAL"
    "distinct (map px_host (rc_provider_egress c))"
    "px_host ` set (rc_provider_egress c) = normal_host ` set (rc_egress_allowed_hosts c)"
    "\<And>p. p \<in> set (rc_provider_egress c) \<Longrightarrow> px_processing_location p \<in> set (external_processing_locations r)"
proof -
  have "check_production c = Inr ()"
    using assms by (auto simp: runtime_config_post_init_def monad_simps split: if_splits)
  then obtain mode r ys where "rc_operating_mode c = Some mode" "rc_data_residency c = Some r"
    "mode \<noteq> DEVELOPMENT_PROVIDER_INTEGRATION" "residency_validate_for mode r = Inr ()"
    "rc_database_backend c = POSTGRESQL" "rc_secret_provider c = EXTERNAL"
    "distinct (map px_host (rc_provider_egress c))"
    "px_host ` set (rc_provider_egress c) = normal_host ` set (rc_egress_allowed_hosts c)"
    and "traverse (check_provider_location mode r) (rc_provider_egress c) = Inr ys"
    by (auto simp: check_production_def monad_simps)
  moreover have "px_processing_location p \<in> set (external_processing_locations r)"
    if p: "p \<in> set (rc_provider_egress c)" for p
  proof -
    obtain y where "check_provider_location mode r p = Inr y" using traverse_Inr_all [OF calculation(9) p] by blast
    then show ?thesis by (auto simp: check_provider_location_def monad_simps)
  qed
  ultimately show ?thesis using that by blast
qed

end
