(* ===== verification/Egress.thy ===== *)
theory Egress
  imports RuntimeConfig Research
begin

text \<open>
  The guard in front of every call to a provider, \<^verbatim>\<open>production/egress.py\<close>: the HTTPS
  allow-list and the residency guard. The callback of the request context that records a
  decision is an action on a state of any type. The clock is an argument in microseconds;
  a configuration supplier that raises counts as one that returns nothing.
\<close>

section \<open>HttpsEgressAllowlist\<close>

definition host_label_char :: "char \<Rightarrow> bool" where
  "host_label_char c = (let n = (of_char c :: nat) in (48 \<le> n \<and> n \<le> 57) \<or> (97 \<le> n \<and> n \<le> 122))"

definition host_letter :: "char \<Rightarrow> bool" where
  "host_letter c = (let n = (of_char c :: nat) in 97 \<le> n \<and> n \<le> 122)"

definition host_label :: "string \<Rightarrow> bool" where
  "host_label s = (s \<noteq> [] \<and> length s \<le> 63 \<and> host_label_char (hd s) \<and> host_label_char (last s) \<and>
     list_all (\<lambda>c. host_label_char c \<or> c = CHR ''-'') s)"

definition top_label :: "string \<Rightarrow> bool" where
  "top_label s = (2 \<le> length s \<and> length s \<le> 63 \<and> list_all host_letter s)"

text \<open>The pattern \<^verbatim>\<open>_HOST\<close>: labels, a dot after each, and a top-level label.\<close>

definition host_pattern :: "string \<Rightarrow> bool" where
  "host_pattern s = (let labels = split_at (CHR ''.'') s in
     length s \<le> 253 \<and> 2 \<le> length labels \<and> list_all host_label (butlast labels) \<and> top_label (last labels))"

definition valid_public_hostname :: "string \<Rightarrow> bool" where
  "valid_public_hostname host =
     (if is_ip_address host then False
      else host_pattern host \<and> host \<noteq> ''localhost'' \<and> \<not> py_endswith host ''.local'')"

definition egress_allowlist_init :: "string list \<Rightarrow> string list result" where
  "egress_allowlist_init hosts =
     (let normalized = py_sorted_set (map normal_host hosts) in
      if normalized = [] \<or> list_ex (\<lambda>h. \<not> valid_public_hostname h) normalized
      then Inl (ValueError ''INVALID_EGRESS_ALLOWLIST'') else Inr normalized)"

definition allowlist_validate :: "string list \<Rightarrow> string \<Rightarrow> string result" where
  "allowlist_validate hosts url =
     (case bind_result (urlsplit url) (\<lambda>parsed. bind_result (url_port parsed) (\<lambda>port. Inr (parsed, port))) of
        Inl e \<Rightarrow> Inl (EgressRejected ''EGRESS_REJECTED'')
      | Inr (parsed, port) \<Rightarrow>
          let host = url_host parsed in
          if us_scheme parsed \<noteq> ''https'' \<or> host = [] \<or> host \<notin> set hosts
             \<or> url_username parsed \<noteq> None \<or> url_password parsed \<noteq> None
             \<or> port \<notin> {None, Some 443} \<or> \<not> valid_public_hostname host
          then Inl (EgressRejected ''EGRESS_REJECTED'')
          else Inr (urlunsplit \<lparr>us_scheme = ''https'', us_netloc = py_casefold (us_netloc parsed),
            us_path = (if us_path parsed = [] then ''/'' else us_path parsed),
            us_query = us_query parsed, us_fragment = []\<rparr>))"

section \<open>ResidencyEgressGuard\<close>

record egress_context =
  ctx_tenant_id :: string
  ctx_actor_id :: string
  ctx_correlation_id :: string

text \<open>What the guard knows when it decides; an allowed call carries its URL.\<close>

record egress_verdict =
  vd_reason_code :: string
  vd_allowed_url :: "string option"
  vd_location :: "string option"
  vd_evidence_id :: "string option"
  vd_evidence_status :: "string option"

definition blocked :: "string \<Rightarrow> egress_verdict" where
  "blocked reason = \<lparr>vd_reason_code = reason, vd_allowed_url = None, vd_location = None,
     vd_evidence_id = None, vd_evidence_status = None\<rparr>"

text \<open>A decision about a provider entry of the configuration.\<close>

definition about_entry :: "provider_egress \<Rightarrow> string \<Rightarrow> string option \<Rightarrow> egress_verdict" where
  "about_entry e reason url = \<lparr>vd_reason_code = reason, vd_allowed_url = url,
     vd_location = Some (px_processing_location e), vd_evidence_id = Some (pa_evidence_id (px_attestation e)),
     vd_evidence_status = Some (pa_verification_status (px_attestation e))\<rparr>"

text \<open>\<^verbatim>\<open>_parse_time\<close>: a time without a zone is refused.\<close>

definition parse_time :: "runtime \<Rightarrow> string \<Rightarrow> int result" where
  "parse_time R s = bind_result (parse_datetime R s) (\<lambda>t.
     case t of Aware i \<Rightarrow> Inr i | Naive i \<Rightarrow> Inl (ValueError ''NAIVE_TIMESTAMP''))"

definition attestation_times :: "runtime \<Rightarrow> provider_attestation \<Rightarrow> (int \<times> int \<times> int \<times> int) result" where
  "attestation_times R a =
     bind_result (parse_time R (pa_issued_at a)) (\<lambda>issued_at.
     bind_result (parse_time R (pa_valid_from a)) (\<lambda>valid_from.
     bind_result (parse_time R (pa_expires_at a)) (\<lambda>expires_at.
     bind_result (parse_time R (case pa_verified_at a of None \<Rightarrow> [] | Some v \<Rightarrow> v)) (\<lambda>verified_at.
     Inr (issued_at, valid_from, expires_at, verified_at)))))"

definition unset :: "string option \<Rightarrow> bool" where
  "unset v = (v = None \<or> v = Some [])"

definition entry_verdict ::
  "runtime \<Rightarrow> int \<Rightarrow> environment_profile \<Rightarrow> operating_mode \<Rightarrow> data_residency_policy \<Rightarrow> string \<Rightarrow> string
    \<Rightarrow> provider_egress \<Rightarrow> egress_verdict" where
  "entry_verdict R now profile mode residency tid normalized_url egress =
     (let location = px_processing_location egress; attestation = px_attestation egress;
          block = (\<lambda>reason. about_entry egress reason None) in
      if ''*'' \<notin> set (px_tenant_ids egress) \<and> tid \<notin> set (px_tenant_ids egress)
      then block ''EGRESS_TENANT_MISMATCH''
      else if location \<notin> set (external_processing_locations residency)
      then block ''EGRESS_LOCATION_NOT_ALLOWED''
      else if profile = DEVELOPMENT \<and> mode = DEVELOPMENT_PROVIDER_INTEGRATION then
        (if location \<noteq> ''external-unspecified'' \<or> pa_evidence_type attestation \<noteq> ''OPERATOR_SELF_DECLARATION''
            \<or> pa_verification_status attestation \<noteq> ''UNVERIFIED''
         then block ''EGRESS_CONFIGURATION_CHANGED''
         else about_entry egress ''EGRESS_ALLOWED_DEVELOPMENT'' (Some normalized_url))
      else if pa_evidence_type attestation = ''OPERATOR_SELF_DECLARATION''
      then block ''EGRESS_EVIDENCE_UNVERIFIED''
      else if pa_verification_status attestation \<noteq> ''VERIFIED''
      then block (if pa_verification_status attestation = ''EXPIRED''
        then ''EGRESS_EVIDENCE_EXPIRED'' else ''EGRESS_EVIDENCE_UNVERIFIED'')
      else if unset (pa_verified_at attestation) \<or> unset (pa_verified_by attestation)
      then block ''EGRESS_EVIDENCE_UNVERIFIED''
      else case attestation_times R attestation of
        Inl e \<Rightarrow> block ''EGRESS_EVIDENCE_UNVERIFIED''
      | Inr (issued_at, valid_from, expires_at, verified_at) \<Rightarrow>
          if expires_at \<le> now then block ''EGRESS_EVIDENCE_EXPIRED''
          else if issued_at > now \<or> valid_from > now \<or> verified_at > now \<or> valid_from \<ge> expires_at
          then block ''EGRESS_EVIDENCE_UNVERIFIED''
          else if pa_evidence_type attestation \<notin>
              {''DPA'', ''SIGNED_PROVIDER_ATTESTATION'', ''TECHNICAL_PROVIDER_CONFIGURATION''}
          then block ''EGRESS_EVIDENCE_UNVERIFIED''
          else if px_confirmed_processing_locations egress = [] then block ''EGRESS_EVIDENCE_MISSING''
          else if location \<notin> set (px_confirmed_processing_locations egress)
          then block ''EGRESS_LOCATION_NOT_ALLOWED''
          else if \<not> py_startswith (pa_evidence_ref attestation) ''https://'' \<or> pa_issuer attestation = []
          then block ''EGRESS_EVIDENCE_UNVERIFIED''
          else about_entry egress ''EGRESS_ALLOWED'' (Some normalized_url))"

text \<open>\<^verbatim>\<open>_host\<close>.\<close>

definition target_host :: "string \<Rightarrow> string" where
  "target_host url = (case urlsplit url of Inl e \<Rightarrow> [] | Inr u \<Rightarrow> url_host u)"

definition matching_entry :: "string \<Rightarrow> string \<Rightarrow> 'p runtime_config \<Rightarrow> provider_egress option" where
  "matching_entry host provider config =
     List.find (\<lambda>item. px_host item = host \<and> px_provider item = provider) (rc_provider_egress config)"

definition egress_verdict_of ::
  "runtime \<Rightarrow> int \<Rightarrow> environment_profile option \<Rightarrow> 'p runtime_config option \<Rightarrow> string \<Rightarrow> string \<Rightarrow> string \<Rightarrow> string
    \<Rightarrow> egress_verdict" where
  "egress_verdict_of R now expected_profile supplied tid provider connector url =
     (case supplied of None \<Rightarrow> blocked ''EGRESS_CONFIGURATION_CHANGED''
      | Some config \<Rightarrow>
      if (case expected_profile of None \<Rightarrow> False | Some p \<Rightarrow> rc_profile config \<noteq> p)
      then blocked ''EGRESS_CONFIGURATION_CHANGED''
      else case (rc_operating_mode config, rc_data_residency config) of
        (Some mode, Some residency) \<Rightarrow>
          (case residency_validate_for mode residency of
             Inl e \<Rightarrow> blocked ''EGRESS_CONFIGURATION_CHANGED''
           | Inr u \<Rightarrow>
          (case bind_result (egress_allowlist_init (rc_egress_allowed_hosts config)) (\<lambda>hosts.
               bind_result (TenantContext tid) (\<lambda>t. allowlist_validate hosts url)) of
             Inl e \<Rightarrow> blocked ''EGRESS_HOST_MISMATCH''
           | Inr normalized_url \<Rightarrow>
          (case matching_entry (target_host url) provider config of
             None \<Rightarrow> blocked ''EGRESS_HOST_MISMATCH''
           | Some egress \<Rightarrow>
               if px_service egress \<noteq> connector then blocked ''EGRESS_HOST_MISMATCH''
               else entry_verdict R now (rc_profile config) mode residency tid normalized_url egress)))
      | _ \<Rightarrow> blocked ''EGRESS_RESIDENCY_POLICY_MISSING'')"

definition decision_of ::
  "(int \<Rightarrow> string) \<Rightarrow> int \<Rightarrow> 'p runtime_config option \<Rightarrow> egress_context \<Rightarrow> string \<Rightarrow> string \<Rightarrow> string
    \<Rightarrow> egress_verdict \<Rightarrow> egress_decision" where
  "decision_of isoformat now supplied context provider connector url v =
     \<lparr>ed_decision = (if vd_allowed_url v = None then ''BLOCKED'' else ''ALLOWED''), ed_occurred_at = isoformat now,
      ed_tenant_id = ctx_tenant_id context, ed_actor_id = ctx_actor_id context,
      ed_correlation_id = ctx_correlation_id context,
      ed_operating_profile = (case supplied of None \<Rightarrow> ''unknown'' | Some c \<Rightarrow> environment_profile_value (rc_profile c)),
      ed_policy_version = ''residency-policy-v1'', ed_provider = provider, ed_connector = connector,
      ed_target_host = target_host url, ed_requested_processing_location = vd_location v,
      ed_evidence_id = vd_evidence_id v, ed_evidence_status = vd_evidence_status v,
      ed_reason_code = vd_reason_code v\<rparr>"

text \<open>\<^verbatim>\<open>authorize\<close>: the decision is recorded first, then it is raised or returned.\<close>

definition egress_authorize ::
  "runtime \<Rightarrow> (int \<Rightarrow> string) \<Rightarrow> (egress_decision \<Rightarrow> ('s, unit) action) \<Rightarrow> int \<Rightarrow> environment_profile option
    \<Rightarrow> 'p runtime_config option \<Rightarrow> egress_context \<Rightarrow> string \<Rightarrow> string \<Rightarrow> string \<Rightarrow> ('s, string) action" where
  "egress_authorize R isoformat record_decision now expected supplied context provider connector url s =
     (let v = egress_verdict_of R now expected supplied (ctx_tenant_id context) provider connector url in
      case record_decision (decision_of isoformat now supplied context provider connector url v) s of
        (Inl e, s') \<Rightarrow> (Inl (EgressRejected ''EGRESS_AUDIT_FAILED''), s')
      | (Inr u, s') \<Rightarrow>
          (case vd_allowed_url v of None \<Rightarrow> (Inl (EgressRejected (vd_reason_code v)), s')
           | Some allowed \<Rightarrow> (Inr allowed, s')))"

text \<open>\<^verbatim>\<open>authorize_current\<close>: without a bound context nothing is decided.\<close>

definition authorize_current ::
  "runtime \<Rightarrow> (int \<Rightarrow> string) \<Rightarrow> (egress_decision \<Rightarrow> ('s, unit) action) \<Rightarrow> int \<Rightarrow> environment_profile option
    \<Rightarrow> 'p runtime_config option \<Rightarrow> egress_context option \<Rightarrow> string \<Rightarrow> string \<Rightarrow> string \<Rightarrow> ('s, string) action" where
  "authorize_current R isoformat record_decision now expected supplied current provider connector url =
     (case current of None \<Rightarrow> raise_action (EgressRejected ''EGRESS_CONTEXT_REQUIRED'')
      | Some context \<Rightarrow> egress_authorize R isoformat record_decision now expected supplied context provider connector url)"

section \<open>Lemmas\<close>

lemma bracket_in_info: "CHR ''@'' \<notin> set n \<Longrightarrow> after_last (CHR ''@'') n = n"
  by (simp add: after_last_def)

lemma hostinfo_casefold:
  assumes "CHR ''@'' \<notin> set n"
  shows "hostinfo (py_casefold n) = (py_casefold (fst (hostinfo n)), py_casefold (snd (hostinfo n)))"
  using assms by (simp add: hostinfo_def bracket_in_info before_char_casefold after_char_casefold Let_def)

lemma normal_hostname: "normal_host (py_lower (before_char c s) @ dropWhile (\<lambda>d. d \<noteq> c) s) = normal_host s"
proof -
  have "py_casefold (py_lower (before_char c s) @ dropWhile (\<lambda>d. d \<noteq> c) s)
      = py_casefold (before_char c s @ dropWhile (\<lambda>d. d \<noteq> c) s)" by simp
  also have "before_char c s @ dropWhile (\<lambda>d. d \<noteq> c) s = s" by (simp add: before_char_def)
  finally show ?thesis by (simp add: normal_host_def)
qed

lemma url_host_info: "url_host u = normal_host (fst (hostinfo (us_netloc u)))"
  by (simp add: url_host_def url_hostname_def Let_def normal_hostname)

lemma normal_host_casefold [simp]: "normal_host (py_casefold s) = normal_host s"
  by (simp add: normal_host_def)

lemma normal_host_has: "c \<noteq> CHR ''.'' \<Longrightarrow> separator c \<Longrightarrow> c \<in> set s \<Longrightarrow> c \<in> set (normal_host s)"
proof -
  assume c: "c \<noteq> CHR ''.''" "separator c" "c \<in> set s"
  have "c \<in> set (dropWhile (\<lambda>x. x = CHR ''.'') t)" if "c \<in> set t" for t
    using that c(1) by (induction t) auto
  with c(2,3) show ?thesis by (simp add: normal_host_def rstrip_dots_def)
qed

lemma split_at_set: "c \<in> set s \<longleftrightarrow> 2 \<le> length (split_at c s)"
proof (induction s)
  case (Cons d s)
  have "split_at c s \<noteq> []" by (cases s) (auto split: list.splits)
  with Cons show ?case by (auto split: list.splits simp: not_less_eq_eq Suc_le_eq)
qed simp

lemma split_at_chars: "x \<in> set s \<Longrightarrow> x \<noteq> c \<Longrightarrow> \<exists>p \<in> set (split_at c s). x \<in> set p"
proof (induction s)
  case (Cons d s)
  then show ?case by (auto split: list.splits if_splits)
qed simp

lemma label_no_colon: "host_label p \<or> top_label p \<Longrightarrow> CHR '':'' \<notin> set p"
proof -
  have "\<not> host_label_char (CHR '':'')" "\<not> host_letter (CHR '':'')"
    by (simp_all add: host_label_char_def host_letter_def)
  then show "host_label p \<or> top_label p \<Longrightarrow> CHR '':'' \<notin> set p"
    by (auto simp: host_label_def top_label_def list_all_iff)
qed

lemma host_no_colon: "host_pattern s \<Longrightarrow> CHR '':'' \<notin> set s"
proof
  assume s: "host_pattern s" and "CHR '':'' \<in> set s"
  then obtain p where p: "p \<in> set (split_at (CHR ''.'') s)" "CHR '':'' \<in> set p"
    using split_at_chars [of "CHR '':''" s "CHR ''.''"] by auto
  have "split_at (CHR ''.'') s \<noteq> []" using s by (auto simp: host_pattern_def Let_def)
  from append_butlast_last_id [OF this] p(1)
  have "p \<in> set (butlast (split_at (CHR ''.'') s) @ [last (split_at (CHR ''.'') s)])" by simp
  then have "p \<in> set (butlast (split_at (CHR ''.'') s)) \<or> p = last (split_at (CHR ''.'') s)" by auto
  then have "host_label p \<or> top_label p" using s by (auto simp: host_pattern_def Let_def list_all_iff)
  with p(2) show False using label_no_colon by blast
qed

lemma ipv6_colon: "is_ipv6 s \<Longrightarrow> CHR '':'' \<in> set s"
proof -
  assume "is_ipv6 s"
  then have "2 \<le> length (split_at (CHR '':'') (before_char (CHR ''%'') s))" by (simp add: is_ipv6_def Let_def)
  then have "CHR '':'' \<in> set (before_char (CHR ''%'') s)" by (simp only: split_at_set)
  then show ?thesis using set_before_char by blast
qed

lemma hex_fold: "is_hex c \<Longrightarrow> \<exists>d. casefold_char c = [d] \<and> is_hex d"
  by (auto simp: is_hex_def casefold_char_def py_lower_char_def Let_def of_char_of)

lemma ip_future_iff: "ip_future s \<longleftrightarrow> (\<exists>x y. s = CHR ''v'' # x @ CHR ''.'' # y \<and> x \<noteq> [] \<and> list_all is_hex x \<and>
    y \<noteq> [] \<and> CHR 0x0A \<notin> set y)" (is "_ \<longleftrightarrow> ?r")
proof
  assume s: "ip_future s"
  then obtain r where r: "s = CHR ''v'' # r" "takeWhile is_hex r \<noteq> []" by (auto simp: ip_future_def split: list.splits)
  with s obtain t where t: "dropWhile is_hex r = CHR ''.'' # t" "t \<noteq> []" "CHR 0x0A \<notin> set t"
    by (auto simp: ip_future_def split: list.splits)
  have "r = takeWhile is_hex r @ CHR ''.'' # t" using t(1) by (metis takeWhile_dropWhile_id)
  moreover have "list_all is_hex (takeWhile is_hex r)" by (auto simp: list_all_iff dest: set_takeWhileD)
  ultimately show ?r using r t by metis
next
  assume ?r
  then show "ip_future s"
    by (auto simp: ip_future_def list_all_iff takeWhile_append_all dropWhile_append_all is_hex_def)
qed

lemma hex_casefold: "list_all is_hex x \<Longrightarrow> list_all is_hex (py_casefold x)"
proof (induction x)
  case (Cons c x)
  then obtain d where "casefold_char c = [d]" "is_hex d" using hex_fold by auto
  with Cons show ?case by simp
qed simp

lemma ip_future_casefold: "ip_future s \<Longrightarrow> ip_future (py_casefold s)"
proof -
  assume "ip_future s"
  then obtain x y where "s = CHR ''v'' # x @ CHR ''.'' # y" "x \<noteq> []" "list_all is_hex x" "y \<noteq> []" "CHR 0x0A \<notin> set y"
    by (auto simp: ip_future_iff)
  moreover have "casefold_char (CHR ''v'') = ''v''" by (simp add: casefold_char_def py_lower_char_def)
  ultimately show ?thesis
    using hex_casefold [of x] unfolding ip_future_iff
    by (intro exI [of _ "py_casefold x"] exI [of _ "py_casefold y"]) (simp add: separator_fold)
qed

lemma check_netloc_casefold:
  assumes "check_netloc n = Inr ()" "CHR ''@'' \<notin> set n" "valid_public_hostname (normal_host (fst (hostinfo n)))"
  shows "check_netloc (py_casefold n) = Inr ()"
proof (cases "CHR ''['' \<in> set n")
  case True
  define b where "b = before_char (CHR '']'') (after_char (CHR ''['') n)"
  have b: "fst (hostinfo n) = b" "bracketed_host_ok b"
    using True assms(1,2) by (simp_all add: hostinfo_def bracket_in_info Let_def b_def check_netloc_def monad_simps)
  have "host_pattern (normal_host b)" using assms(3) b(1) by (simp add: valid_public_hostname_def split: if_splits)
  then have "CHR '':'' \<notin> set b" using host_no_colon normal_host_has [of "CHR '':''" b] by auto
  then have "\<not> is_ipv6 b" using ipv6_colon by blast
  with b(2) have "py_startswith b ''v''" "ip_future b" by (auto simp: bracketed_host_ok_def split: if_splits)
  then have "bracketed_host_ok (py_casefold b)"
    using ip_future_casefold [of b] by (auto simp: bracketed_host_ok_def ip_future_iff)
  with True assms(1) show ?thesis
    by (simp add: check_netloc_def Let_def monad_simps before_char_casefold after_char_casefold b_def)
next
  case False
  with assms(1) show ?thesis by (simp add: check_netloc_def Let_def monad_simps)
qed

lemma digits_casefold: "list_all is_digit p \<Longrightarrow> py_casefold p = p"
proof (induction p)
  case (Cons c p)
  then have "separator c" by (auto simp: is_digit_def separator_def Let_def)
  with Cons show ?case by (simp add: separator_fold)
qed simp

lemma no_user_iff: "url_username u = None \<longleftrightarrow> CHR ''@'' \<notin> set (us_netloc u)"
  by (simp add: url_username_def)

lemma list_all_casefold:
  assumes "list_all P s" and "\<And>c. \<not> P c \<Longrightarrow> separator c"
  shows "list_all P (py_casefold s)"
  using assms separator_in_casefold unfolding list_all_iff by blast

lemma empty_not_public [simp]: "\<not> valid_public_hostname []"
  by (simp add: valid_public_hostname_def host_pattern_def)

lemma valid_host_netloc: "valid_public_hostname (url_host u) \<Longrightarrow> us_netloc u \<noteq> []"
proof
  assume valid: "valid_public_hostname (url_host u)" and "us_netloc u = []"
  then have "url_host u = []"
    by (simp add: url_host_info hostinfo_def after_last_def normal_host_def rstrip_dots_def)
  with valid show False by simp
qed

lemma fold_clean:
  assumes "clean_split u" "CHR ''@'' \<notin> set (us_netloc u)" "valid_public_hostname (url_host u)"
  shows "clean_split \<lparr>us_scheme = ''https'', us_netloc = py_casefold (us_netloc u),
    us_path = (if us_path u = [] then ''/'' else us_path u), us_query = us_query u, us_fragment = []\<rparr>"
proof -
  have "us_netloc u \<noteq> []" using assms(3) valid_host_netloc by blast
  moreover have "check_netloc (py_casefold (us_netloc u)) = Inr ()"
    using assms by (intro check_netloc_casefold) (simp_all add: clean_split_def url_host_info)
  moreover have "list_all netloc_char (py_casefold (us_netloc u))"
    using assms(1) by (intro list_all_casefold) (auto simp: clean_split_def netloc_char_def)
  moreover have "list_all (\<lambda>c. \<not> removed_char c) (py_casefold (us_netloc u))"
    using assms(1) by (intro list_all_casefold) (auto simp: clean_split_def removed_char_def)
  moreover have "\<not> removed_char (CHR ''/'')" by (simp add: removed_char_def)
  ultimately show ?thesis using assms(1) by (auto simp: clean_split_def)
qed

text \<open>
  The URL the allow-list returns, read again: HTTPS to an allowed host, without credentials
  and on the default port. Checking it again changes nothing.
\<close>

definition https_to :: "string list \<Rightarrow> string \<Rightarrow> string \<Rightarrow> bool" where
  "https_to hosts host url =
     (case urlsplit url of Inl e \<Rightarrow> False
      | Inr u \<Rightarrow> us_scheme u = ''https'' \<and> url_host u = host \<and> host \<in> set hosts \<and> valid_public_hostname host \<and>
          url_username u = None \<and> url_password u = None \<and> url_port u \<in> {Inr None, Inr (Some 443)} \<and>
          us_fragment u = [] \<and> us_path u \<noteq> [])"

lemma if_Inl_Inr: "(if b then Inl e else Inr x) = Inr y \<longleftrightarrow> \<not> b \<and> y = x"
  by auto

lemma allowlist_validate_Inr:
  assumes "allowlist_validate hosts url = Inr url'"
  obtains u v where "urlsplit url = Inr u" "urlsplit url' = Inr v" "url' = urlunsplit v"
    "v = \<lparr>us_scheme = ''https'', us_netloc = py_casefold (us_netloc u),
      us_path = (if us_path u = [] then ''/'' else us_path u), us_query = us_query u, us_fragment = []\<rparr>"
    "CHR ''@'' \<notin> set (us_netloc u)" "url_host v = url_host u" "url_host u \<in> set hosts"
    "valid_public_hostname (url_host u)" "url_port v \<in> {Inr None, Inr (Some 443)}" "us_path v = CHR ''/'' # tl (us_path v)"
proof -
  obtain u port where u: "urlsplit url = Inr u" "url_port u = Inr port" "port \<in> {None, Some 443}"
    "url_host u \<in> set hosts" "valid_public_hostname (url_host u)" "CHR ''@'' \<notin> set (us_netloc u)"
    "url' = urlunsplit \<lparr>us_scheme = ''https'', us_netloc = py_casefold (us_netloc u),
      us_path = (if us_path u = [] then ''/'' else us_path u), us_query = us_query u, us_fragment = []\<rparr>"
  proof -
    from assms obtain u where u: "urlsplit url = Inr u" by (cases "urlsplit url") (simp_all add: allowlist_validate_def)
    with assms obtain port where p: "url_port u = Inr port"
      by (cases "url_port u") (simp_all add: allowlist_validate_def)
    have "(if us_scheme u \<noteq> ''https'' \<or> url_host u = [] \<or> url_host u \<notin> set hosts
             \<or> url_username u \<noteq> None \<or> url_password u \<noteq> None
             \<or> port \<notin> {None, Some 443} \<or> \<not> valid_public_hostname (url_host u)
          then Inl (EgressRejected ''EGRESS_REJECTED'')
          else Inr (urlunsplit \<lparr>us_scheme = ''https'', us_netloc = py_casefold (us_netloc u),
            us_path = (if us_path u = [] then ''/'' else us_path u),
            us_query = us_query u, us_fragment = []\<rparr>)) = Inr url'"
      using assms unfolding allowlist_validate_def u p bind_result.simps sum.case prod.case Let_def .
    from this [unfolded if_Inl_Inr] show thesis using that [of u port] u p no_user_iff by blast
  qed
  define v where "v = \<lparr>us_scheme = ''https'', us_netloc = py_casefold (us_netloc u),
      us_path = (if us_path u = [] then ''/'' else us_path u), us_query = us_query u, us_fragment = []\<rparr>"
  have clean: "clean_split u" using urlsplit_clean [OF u(1)] .
  have "us_netloc u \<noteq> []" using u(5) valid_host_netloc by blast
  then have path: "us_path v = CHR ''/'' # tl (us_path v)"
    using clean by (cases "us_path u") (auto simp: v_def clean_split_def)
  have "clean_split v" unfolding v_def using clean u(5,6) by (intro fold_clean)
  then have v: "urlsplit (urlunsplit v) = Inr v" by (intro split_unsplit [OF _ _ _ path]) (simp_all add: v_def)
  have info: "hostinfo (us_netloc v) = (py_casefold (fst (hostinfo (us_netloc u))), py_casefold (snd (hostinfo (us_netloc u))))"
    using u(6) by (simp add: v_def hostinfo_casefold)
  have "url_port v = url_port u"
  proof (cases "list_all is_digit (snd (hostinfo (us_netloc u)))")
    case True
    then show ?thesis by (simp add: url_port_def info digits_casefold)
  next
    case False
    then have "snd (hostinfo (us_netloc u)) = []" using u(2) by (auto simp: url_port_def Let_def split: if_splits)
    then show ?thesis by (simp add: url_port_def info)
  qed
  with u(2,3) have "url_port v \<in> {Inr None, Inr (Some 443)}" by auto
  moreover have "url_host v = url_host u" by (simp add: url_host_info info)
  moreover have "url' = urlunsplit v" using u(7) by (simp add: v_def)
  ultimately show ?thesis using that [of u v] u v path by (simp add: v_def)
qed

lemma allowlist_https_to:
  assumes "allowlist_validate hosts url = Inr url'"
  shows "https_to hosts (target_host url) url'"
proof -
  from assms obtain u v where "urlsplit url = Inr u" "urlsplit url' = Inr v" "us_scheme v = ''https''" "us_fragment v = []"
    "us_netloc v = py_casefold (us_netloc u)" "CHR ''@'' \<notin> set (us_netloc u)" "url_host v = url_host u" "url_host u \<in> set hosts"
    "valid_public_hostname (url_host u)" "url_port v \<in> {Inr None, Inr (Some 443)}" "us_path v = CHR ''/'' # tl (us_path v)"
    by (rule allowlist_validate_Inr) simp
  then show ?thesis
    by (auto simp: https_to_def target_host_def url_username_def url_password_def)
qed

lemma allowlist_idempotent:
  assumes "allowlist_validate hosts url = Inr url'"
  shows "allowlist_validate hosts url' = Inr url'"
proof -
  from assms obtain u v where v: "urlsplit url' = Inr v" "url' = urlunsplit v" "CHR ''@'' \<notin> set (us_netloc u)"
    "v = \<lparr>us_scheme = ''https'', us_netloc = py_casefold (us_netloc u),
      us_path = (if us_path u = [] then ''/'' else us_path u), us_query = us_query u, us_fragment = []\<rparr>"
    "url_host v = url_host u" "url_host u \<in> set hosts" "valid_public_hostname (url_host u)"
    "url_port v \<in> {Inr None, Inr (Some 443)}" "us_path v = CHR ''/'' # tl (us_path v)"
    by (rule allowlist_validate_Inr)
  have "url_host u \<noteq> []" using v(7) by auto
  moreover have "\<lparr>us_scheme = ''https'', us_netloc = py_casefold (us_netloc v),
      us_path = (if us_path v = [] then ''/'' else us_path v), us_query = us_query v, us_fragment = []\<rparr> = v"
    by (simp add: v(4))
  moreover have "us_scheme v = ''https''" "CHR ''@'' \<notin> set (us_netloc v)" using v(3) by (simp_all add: v(4))
  moreover from this have "url_username v = None" "url_password v = None" by (simp_all add: url_username_def url_password_def)
  ultimately show ?thesis
    using v(1,2,5-8) by (auto simp: allowlist_validate_def Let_def)
qed

section \<open>What an allowed call implies\<close>

fun location_within :: "operating_mode \<Rightarrow> string \<Rightarrow> bool" where
  "location_within DEVELOPMENT_PROVIDER_INTEGRATION l = (l = ''external-unspecified'')"
| "location_within LOCAL l = (l = ''local'')"
| "location_within EU_MANAGED l = (l \<in> set EU_COUNTRY_CODES)"
| "location_within CONTROLLED_PILOT l = (l \<in> set EU_COUNTRY_CODES)"

text \<open>A verified attestation, in force at a time, for the location an entry declares.\<close>

definition attested :: "runtime \<Rightarrow> int \<Rightarrow> provider_egress \<Rightarrow> bool" where
  "attested R now e =
     (let a = px_attestation e in
      pa_verification_status a = ''VERIFIED'' \<and>
      pa_evidence_type a \<in> {''DPA'', ''SIGNED_PROVIDER_ATTESTATION'', ''TECHNICAL_PROVIDER_CONFIGURATION''} \<and>
      px_processing_location e \<in> set (px_confirmed_processing_locations e) \<and>
      py_startswith (pa_evidence_ref a) ''https://'' \<and> pa_issuer a \<noteq> [] \<and>
      \<not> unset (pa_verified_at a) \<and> \<not> unset (pa_verified_by a) \<and>
      (case attestation_times R a of Inl e \<Rightarrow> False
       | Inr (issued, from, expires, verified) \<Rightarrow> issued \<le> now \<and> from \<le> now \<and> now < expires \<and> verified \<le> now))"

definition serves_tenant :: "string \<Rightarrow> provider_egress \<Rightarrow> bool" where
  "serves_tenant tid e = (''*'' \<in> set (px_tenant_ids e) \<or> tid \<in> set (px_tenant_ids e))"

definition developing :: "environment_profile \<Rightarrow> operating_mode \<Rightarrow> bool" where
  "developing profile mode = (profile = DEVELOPMENT \<and> mode = DEVELOPMENT_PROVIDER_INTEGRATION)"

lemma residency_location:
  assumes "residency_validate_for mode r = Inr u" "l \<in> set (external_processing_locations r)"
  shows "location_within mode l"
  using assms by (cases mode) (auto simp: residency_validate_for_def Let_def monad_simps list_all_iff)

lemma block_unless:
  "vd_allowed_url (if p then about_entry e r None else x) = Some u \<longleftrightarrow> \<not> p \<and> vd_allowed_url x = Some u"
  by (simp add: about_entry_def)

lemma entry_allowed_iff:
  "vd_allowed_url (entry_verdict R now profile mode residency tid url e) = Some url' \<longleftrightarrow>
     url' = url \<and> serves_tenant tid e \<and> px_processing_location e \<in> set (external_processing_locations residency) \<and>
     (if developing profile mode
      then px_processing_location e = ''external-unspecified'' \<and>
        pa_evidence_type (px_attestation e) = ''OPERATOR_SELF_DECLARATION'' \<and>
        pa_verification_status (px_attestation e) = ''UNVERIFIED''
      else attested R now e)"
proof -
  define self_declared where "self_declared = (pa_evidence_type (px_attestation e) = ''OPERATOR_SELF_DECLARATION'')"
  define usable where "usable = (pa_evidence_type (px_attestation e) \<in>
      {''DPA'', ''SIGNED_PROVIDER_ATTESTATION'', ''TECHNICAL_PROVIDER_CONFIGURATION''})"
  define verified where "verified = (pa_verification_status (px_attestation e) = ''VERIFIED'')"
  define https where "https = py_startswith (pa_evidence_ref (px_attestation e)) ''https://''"
  have sd: "usable \<Longrightarrow> \<not> self_declared" by (auto simp: usable_def self_declared_def)
  have au: "vd_allowed_url (about_entry e r u) = u" for r u by (simp add: about_entry_def)
  note folds = self_declared_def [symmetric] usable_def [symmetric] verified_def [symmetric] https_def [symmetric]
  show ?thesis
  proof (cases "developing profile mode")
    case True
    then show ?thesis
      unfolding entry_verdict_def Let_def developing_def folds by (simp add: serves_tenant_def au) blast
  next
    case False
    then have dev: "(if profile = DEVELOPMENT \<and> mode = DEVELOPMENT_PROVIDER_INTEGRATION then x else y) = y" for x y
      by (auto simp: developing_def)
    show ?thesis
    proof (cases "attestation_times R (px_attestation e)")
      case (Inl err)
      then show ?thesis using False
        unfolding entry_verdict_def Let_def dev block_unless attested_def by (simp add: au)
    next
      case (Inr times)
      obtain i f x v where "times = (i, f, x, v)" by (cases times) auto
      with Inr False sd show ?thesis
        unfolding entry_verdict_def Let_def dev block_unless attested_def folds
        by (simp only: sum.case prod.case block_unless au if_False option.inject serves_tenant_def) auto
    qed
  qed
qed

lemma blocked_not_allowed [simp]: "vd_allowed_url (blocked r) = None"
  by (simp add: blocked_def)

lemma verdict_allowed_iff:
  "vd_allowed_url (egress_verdict_of R now expected supplied tid provider connector url) = Some url' \<longleftrightarrow>
     (\<exists>config mode residency hosts e. supplied = Some config \<and> (expected = None \<or> expected = Some (rc_profile config)) \<and>
        rc_operating_mode config = Some mode \<and> rc_data_residency config = Some residency \<and>
        residency_validate_for mode residency = Inr () \<and>
        egress_allowlist_init (rc_egress_allowed_hosts config) = Inr hosts \<and> TenantContext tid = Inr tid \<and>
        allowlist_validate hosts url = Inr url' \<and> matching_entry (target_host url) provider config = Some e \<and>
        px_service e = connector \<and>
        vd_allowed_url (entry_verdict R now (rc_profile config) mode residency tid url' e) = Some url')"
proof
  assume L: "vd_allowed_url (egress_verdict_of R now expected supplied tid provider connector url) = Some url'"
  then obtain config where c: "supplied = Some config"
    by (cases supplied) (simp_all add: egress_verdict_of_def)
  have e: "(case expected of None \<Rightarrow> False | Some p \<Rightarrow> rc_profile config \<noteq> p) = False"
  proof (rule ccontr)
    assume "(case expected of None \<Rightarrow> False | Some p \<Rightarrow> rc_profile config \<noteq> p) \<noteq> False"
    then have x: "(case expected of None \<Rightarrow> False | Some p \<Rightarrow> rc_profile config \<noteq> p) = True" by simp
    from L show False unfolding egress_verdict_of_def c option.case x if_True by simp
  qed
  then have profile: "expected = None \<or> expected = Some (rc_profile config)" by (cases expected) auto
  note L = L [unfolded egress_verdict_of_def c option.case e if_False]
  from L obtain mode residency where m: "rc_operating_mode config = Some mode" "rc_data_residency config = Some residency"
    by (cases "rc_operating_mode config"; cases "rc_data_residency config") simp_all
  note L = L [unfolded m prod.case option.case]
  from L have v: "residency_validate_for mode residency = Inr ()"
    by (cases "residency_validate_for mode residency") simp_all
  from L v obtain hosts where h: "egress_allowlist_init (rc_egress_allowed_hosts config) = Inr hosts"
    by (cases "egress_allowlist_init (rc_egress_allowed_hosts config)") simp_all
  from L v h have t: "TenantContext tid = Inr tid"
    by (cases "TenantContext tid") (simp_all add: TenantContext_def split: if_splits)
  from L v h t obtain u where u: "allowlist_validate hosts url = Inr u"
    by (cases "allowlist_validate hosts url") simp_all
  from L v h t u obtain en where en: "matching_entry (target_host url) provider config = Some en"
    by (cases "matching_entry (target_host url) provider config") simp_all
  from L v h t u en have service: "px_service en = connector" by (cases "px_service en = connector") simp_all
  with L v h t u en have "vd_allowed_url (entry_verdict R now (rc_profile config) mode residency tid u en) = Some url'" by simp
  moreover from this have "u = url'" by (simp add: entry_allowed_iff)
  ultimately show "\<exists>config mode residency hosts e. supplied = Some config \<and>
      (expected = None \<or> expected = Some (rc_profile config)) \<and>
      rc_operating_mode config = Some mode \<and> rc_data_residency config = Some residency \<and>
      residency_validate_for mode residency = Inr () \<and>
      egress_allowlist_init (rc_egress_allowed_hosts config) = Inr hosts \<and> TenantContext tid = Inr tid \<and>
      allowlist_validate hosts url = Inr url' \<and> matching_entry (target_host url) provider config = Some e \<and>
      px_service e = connector \<and>
      vd_allowed_url (entry_verdict R now (rc_profile config) mode residency tid url' e) = Some url'"
    using c profile m v h t u en service by blast
next
  assume "\<exists>config mode residency hosts e. supplied = Some config \<and>
      (expected = None \<or> expected = Some (rc_profile config)) \<and>
      rc_operating_mode config = Some mode \<and> rc_data_residency config = Some residency \<and>
      residency_validate_for mode residency = Inr () \<and>
      egress_allowlist_init (rc_egress_allowed_hosts config) = Inr hosts \<and> TenantContext tid = Inr tid \<and>
      allowlist_validate hosts url = Inr url' \<and> matching_entry (target_host url) provider config = Some e \<and>
      px_service e = connector \<and>
      vd_allowed_url (entry_verdict R now (rc_profile config) mode residency tid url' e) = Some url'"
  then show "vd_allowed_url (egress_verdict_of R now expected supplied tid provider connector url) = Some url'"
    by (elim exE conjE disjE) (simp_all add: egress_verdict_of_def)
qed

lemma allowlist_hosts: "egress_allowlist_init hosts = Inr hs \<Longrightarrow> set hs = normal_host ` set hosts"
  by (auto simp: egress_allowlist_init_def Let_def split: if_splits)

lemma matching_entryD:
  "matching_entry host provider config = Some e \<Longrightarrow>
     e \<in> set (rc_provider_egress config) \<and> px_host e = host \<and> px_provider e = provider"
  unfolding matching_entry_def using find_Some_set by fastforce

lemma https_to_cong: "set hosts = set hosts' \<Longrightarrow> https_to hosts h u = https_to hosts' h u"
  by (cases "urlsplit u") (simp_all add: https_to_def)

lemma authorize_Inr:
  assumes "egress_authorize R isoformat record_decision now expected supplied context provider connector url s = (Inr url', s')"
  shows "vd_allowed_url (egress_verdict_of R now expected supplied (ctx_tenant_id context) provider connector url) = Some url' \<and>
    record_decision (decision_of isoformat now supplied context provider connector url
      (egress_verdict_of R now expected supplied (ctx_tenant_id context) provider connector url)) s = (Inr (), s')"
  using assms by (auto simp: egress_authorize_def Let_def split: prod.splits sum.splits option.splits)

lemma entry_location: "vd_location (entry_verdict R now profile mode residency tid url e) = Some (px_processing_location e)"
proof -
  have i: "vd_location (if p then x else y) = l" if "vd_location x = l" "vd_location y = l" for p x y l
    using that by simp
  have a: "vd_location (about_entry e r u) = Some (px_processing_location e)" for r u by (simp add: about_entry_def)
  show ?thesis
    by (cases "attestation_times R (px_attestation e)")
      (simp_all only: entry_verdict_def Let_def sum.case case_prod_beta, (intro i a)+)
qed

lemma allowlist_mono:
  assumes "allowlist_validate hosts url = Inr url'" "target_host url \<in> set hosts'"
  shows "allowlist_validate hosts' url = Inr url'"
proof -
  from assms(1) obtain u where u: "urlsplit url = Inr u" by (cases "urlsplit url") (simp_all add: allowlist_validate_def)
  with assms(1) obtain port where p: "url_port u = Inr port"
    by (cases "url_port u") (simp_all add: allowlist_validate_def)
  have "url_host u \<in> set hosts'" using assms(2) u by (simp add: target_host_def)
  moreover note assms(1) [unfolded allowlist_validate_def u p bind_result.simps sum.case prod.case Let_def if_Inl_Inr]
  ultimately show ?thesis
    unfolding allowlist_validate_def u p bind_result.simps sum.case prod.case Let_def if_Inl_Inr by blast
qed

lemma matching_entry_unique:
  assumes "e \<in> set (rc_provider_egress c)" "distinct (map px_host (rc_provider_egress c))"
  shows "matching_entry (px_host e) (px_provider e) c = Some e"
proof -
  have "List.find (\<lambda>x. px_host x = px_host e \<and> px_provider x = px_provider e) es = Some e"
    if "e \<in> set es" "distinct (map px_host es)" for es
    using that by (induction es) auto
  from this [OF assms] show ?thesis by (simp add: matching_entry_def)
qed

end
