(* ===== verification/EgressProperties.thy ===== *)
theory EgressProperties
  imports Egress ResearchDemo
begin

text \<open>
  The properties of the egress guard: where an allowed call goes, what it leaves in the audit
  trail of its run, and that an accepted configuration does not lock out its own providers.
\<close>

section \<open>The guard within the orchestrator\<close>

text \<open>\<^verbatim>\<open>_record_egress_decision\<close>, the callback of the orchestrator.\<close>

definition record_egress_decision :: "research_env \<Rightarrow> string \<Rightarrow> egress_decision \<Rightarrow> unit orchestration" where
  "record_egress_decision E t d = bind_action (change_run (append_egress_decision (esha E) d)) (\<lambda>_. save_run t)"

text \<open>One call with several decisions records them one by one, as far as they can be stored.\<close>

lemma record_egress_decisions:
  "record_egress E t (d # ds) s = (case record_egress_decision E t d s of
     (Inl e, s') \<Rightarrow> (Inr False, s') | (Inr u, s') \<Rightarrow> record_egress E t ds s')"
  by (simp add: record_egress_decision_def bind_action_def change_run_def save_run_def split: sum.splits)

lemma saved_run_found:
  assumes "research_save t run db = Inr db'"
  shows "research_get t (run_id run) db' = Some run"
proof -
  have "row_find key k (row_update key k (\<lambda>_. r) rows) = Some r" if "key r = k" "k \<in> key ` set rows" for key k r rows
    using that by (induction rows) (auto simp: row_find_def row_update_def)
  from this [of run_key_of run "run_key_of run"] show ?thesis
    using research_save_runs [OF assms] by (simp add: research_get_def run_key_of_def)
qed

lemma record_decision_stored:
  assumes "record_egress_decision E t d s = (Inr u, s')"
  shows "research_get t (run_id (ob_run s)) (ob_repo s') = Some (ob_run s') \<and>
    run_audit_events (ob_run s') = run_audit_events (ob_run s) @ [egress_event (esha E) d (ob_run s)]"
proof -
  from assms have run: "ob_run s' = append_egress_decision (esha E) d (ob_run s)"
    and "research_save t (append_egress_decision (esha E) d (ob_run s)) (ob_repo s) = Inr (ob_repo s')"
    by (auto simp: record_egress_decision_def bind_action_def change_run_def save_run_def split: sum.splits)
  with saved_run_found show ?thesis
    by (fastforce simp: append_egress_decision_def append_event_def)
qed

text \<open>
  C14. A call that the guard lets through goes where the configuration says and nowhere else:
  to the provider and service asked for, on a host of the allow-list, over HTTPS without
  credentials on the default port (as the returned URL reads when it is parsed again), for a
  tenant the provider is declared for. Its processing location lies within the boundary of
  the operating mode, and outside development an attestation that is verified and in force
  confirms that location. The decision has been recorded as allowed before the call.
\<close>

theorem egress_stays_in_boundary:
  assumes "egress_authorize R isoformat record_decision now expected supplied context provider connector url s = (Inr url', s')"
  shows "\<exists>config mode e d. supplied = Some config \<and> rc_operating_mode config = Some mode \<and>
    e \<in> set (rc_provider_egress config) \<and> px_provider e = provider \<and> px_service e = connector \<and>
    px_host e = target_host url \<and> https_to (map normal_host (rc_egress_allowed_hosts config)) (px_host e) url' \<and>
    serves_tenant (ctx_tenant_id context) e \<and> location_within mode (px_processing_location e) \<and>
    (if developing (rc_profile config) mode then pa_verification_status (px_attestation e) = ''UNVERIFIED''
     else attested R now e) \<and>
    record_decision d s = (Inr (), s') \<and> ed_decision d = ''ALLOWED'' \<and> ed_tenant_id d = ctx_tenant_id context \<and>
    ed_target_host d = px_host e \<and> ed_requested_processing_location d = Some (px_processing_location e)"
proof -
  let ?v = "egress_verdict_of R now expected supplied (ctx_tenant_id context) provider connector url"
  let ?d = "decision_of isoformat now supplied context provider connector url ?v"
  have v: "vd_allowed_url ?v = Some url'" and r: "record_decision ?d s = (Inr (), s')"
    using authorize_Inr [OF assms] by auto
  from v obtain config mode residency hosts e where c: "supplied = Some config"
    "rc_operating_mode config = Some mode" "residency_validate_for mode residency = Inr ()"
    "rc_data_residency config = Some residency" "egress_allowlist_init (rc_egress_allowed_hosts config) = Inr hosts"
    "allowlist_validate hosts url = Inr url'" "matching_entry (target_host url) provider config = Some e"
    "px_service e = connector" "TenantContext (ctx_tenant_id context) = Inr (ctx_tenant_id context)"
    "expected = None \<or> expected = Some (rc_profile config)"
    and ev: "vd_allowed_url (entry_verdict R now (rc_profile config) mode residency (ctx_tenant_id context) url' e) = Some url'"
    unfolding verdict_allowed_iff by blast
  note entry = matching_entryD [OF c(7)]
  have "https_to (map normal_host (rc_egress_allowed_hosts config)) (px_host e) url'"
    using allowlist_https_to [OF c(6)] entry allowlist_hosts [OF c(5)]
      https_to_cong [of "map normal_host (rc_egress_allowed_hosts config)" hosts] by simp
  moreover have "location_within mode (px_processing_location e)"
    using ev residency_location [OF c(3)] by (simp add: entry_allowed_iff)
  moreover have "vd_location ?v = Some (px_processing_location e)"
    using c by (auto simp: egress_verdict_of_def entry_location)
  ultimately show ?thesis
    using v r c entry ev by (intro exI [of _ config] exI [of _ mode] exI [of _ e] exI [of _ ?d])
      (simp add: entry_allowed_iff decision_of_def split: if_splits)
qed

text \<open>
  C29. No call to a provider without a trace. Whatever the configuration, the target and the
  state: when the guard answers, the run is stored with exactly one new event, which names
  the host and the tenant and says allowed where the URL was returned, and blocked with the
  reason that was raised where it was not. Where the event cannot be stored the call is
  refused.
\<close>

theorem egress_leaves_audit_trail:
  "case egress_authorize R isoformat (record_egress_decision E t) now expected supplied context provider connector url s of
    (answer, s') \<Rightarrow> answer = Inl (EgressRejected ''EGRESS_AUDIT_FAILED'') \<or>
      (\<exists>e. research_get t (run_id (ob_run s)) (ob_repo s') = Some (ob_run s') \<and>
        run_audit_events (ob_run s') = run_audit_events (ob_run s) @ [e] \<and>
        rv_event_type e = ''research.egress-decision'' \<and> rv_target_host e = Some (target_host url) \<and>
        rv_tenant_id e = ctx_tenant_id context \<and>
        (case answer of
           Inr allowed \<Rightarrow> rv_decision e = Some ''ALLOWED'' \<and> rv_requested_processing_location e \<noteq> None
         | Inl x \<Rightarrow> rv_decision e = Some ''BLOCKED'' \<and> (\<exists>r. x = EgressRejected r \<and> rv_reason_codes e = [r])))"
proof -
  define v where "v = egress_verdict_of R now expected supplied (ctx_tenant_id context) provider connector url"
  define d where "d = decision_of isoformat now supplied context provider connector url v"
  have located: "vd_location v \<noteq> None" if "vd_allowed_url v = Some u" for u
    using that unfolding v_def verdict_allowed_iff by (auto simp: egress_verdict_of_def entry_location)
  obtain answer s' where a: "egress_authorize R isoformat (record_egress_decision E t) now expected supplied context
      provider connector url s = (answer, s')" by fastforce
  note b = a [unfolded egress_authorize_def Let_def v_def [symmetric] d_def [symmetric]]
  show ?thesis
  proof (cases "record_egress_decision E t d s")
    case (Pair r s1)
    show ?thesis
    proof (cases r)
      case (Inl e)
      with Pair b show ?thesis by (auto simp: a)
    next
      case (Inr u)
      with Pair b have s': "s' = s1" by (auto split: option.splits)
      have st: "research_get t (run_id (ob_run s)) (ob_repo s') = Some (ob_run s') \<and>
          run_audit_events (ob_run s') = run_audit_events (ob_run s) @ [egress_event (esha E) d (ob_run s)]"
        using record_decision_stored Pair Inr s' by metis
      show ?thesis
      proof (cases "vd_allowed_url v")
        case None
        with Pair Inr b have "answer = Inl (EgressRejected (vd_reason_code v))" by simp
        with st None show ?thesis
          by (intro case_prodI2 disjI2 exI [of _ "egress_event (esha E) d (ob_run s)"])
            (auto simp: a egress_event_def d_def decision_of_def)
      next
        case (Some allowed)
        with Pair Inr b have "answer = Inr allowed" by simp
        with st Some located show ?thesis
          by (intro case_prodI2 disjI2 exI [of _ "egress_event (esha E) d (ob_run s)"])
            (auto simp: a egress_event_def d_def decision_of_def)
      qed
    qed
  qed
qed

lemma egress_allowlist_init_cases:
  assumes "hosts \<noteq> []"
  shows "if list_all (\<lambda>h. valid_public_hostname (normal_host h)) hosts
    then \<exists>hs. egress_allowlist_init hosts = Inr hs
    else egress_allowlist_init hosts = Inl (ValueError ''INVALID_EGRESS_ALLOWLIST'')"
proof -
  have "set (py_sorted_set (map normal_host hosts)) = normal_host ` set hosts" by simp
  with assms have "py_sorted_set (map normal_host hosts) \<noteq> []" by fastforce
  then show ?thesis by (auto simp: egress_allowlist_init_def Let_def list_ex_iff list_all_iff)
qed

text \<open>
  C36. An accepted production configuration admits all of its providers or none. Take a
  declared provider with an attestation in force, a tenant it serves, a well-formed HTTPS URL
  on its host, and a decision that can be recorded. The guard returns the URL if every host of
  the configured allow-list is a public host name, and blocks the call as a host mismatch
  otherwise: acceptance of the configuration does not check the names, and one that is not
  public, whoever's it is, makes the allow-list unusable for all.
\<close>

theorem accepted_provider_admitted:
  assumes "runtime_config_post_init config = Inr config" "rc_profile config \<in> {STAGING, PRODUCTION}"
    and "TenantContext (ctx_tenant_id context) = Inr (ctx_tenant_id context)"
    and "e \<in> set (rc_provider_egress config)" "serves_tenant (ctx_tenant_id context) e" "attested R now e"
    and "allowlist_validate [px_host e] url = Inr url'"
    and "\<And>d. \<exists>s'. record_decision d s = (Inr (), s')"
  shows "fst (egress_authorize R isoformat record_decision now (Some (rc_profile config)) (Some config) context
    (px_provider e) (px_service e) url s) =
      (if list_all (\<lambda>h. valid_public_hostname (normal_host h)) (rc_egress_allowed_hosts config)
       then Inr url' else Inl (EgressRejected ''EGRESS_HOST_MISMATCH''))"
proof -
  from assms(1,2) obtain mode residency where m: "rc_operating_mode config = Some mode"
    "rc_data_residency config = Some residency" "mode \<noteq> DEVELOPMENT_PROVIDER_INTEGRATION"
    "residency_validate_for mode residency = Inr ()" "distinct (map px_host (rc_provider_egress config))"
    "px_host ` set (rc_provider_egress config) = normal_host ` set (rc_egress_allowed_hosts config)"
    "\<And>p. p \<in> set (rc_provider_egress config) \<Longrightarrow> px_processing_location p \<in> set (external_processing_locations residency)"
    by (rule production_config) (assumption | rule that)+
  let ?v = "egress_verdict_of R now (Some (rc_profile config)) (Some config) (ctx_tenant_id context)
      (px_provider e) (px_service e) url"
  have "rc_egress_allowed_hosts config \<noteq> []" using m(6) assms(4) by auto
  note init = egress_allowlist_init_cases [OF this]
  have answer: "fst (egress_authorize R isoformat record_decision now (Some (rc_profile config)) (Some config) context
      (px_provider e) (px_service e) url s) =
    (case vd_allowed_url ?v of None \<Rightarrow> Inl (EgressRejected (vd_reason_code ?v)) | Some allowed \<Rightarrow> Inr allowed)"
    using assms(8) [of "decision_of isoformat now (Some config) context (px_provider e) (px_service e) url ?v"]
    by (auto simp: egress_authorize_def Let_def split: option.splits)
  show ?thesis
  proof (cases "list_all (\<lambda>h. valid_public_hostname (normal_host h)) (rc_egress_allowed_hosts config)")
    case True
    with init obtain hosts where hosts: "egress_allowlist_init (rc_egress_allowed_hosts config) = Inr hosts" by auto
    have host: "target_host url = px_host e"
      using allowlist_https_to [OF assms(7)] by (auto simp: https_to_def split: sum.splits)
    have "px_host e \<in> set hosts" using m(6) assms(4) allowlist_hosts [OF hosts] by auto
    then have "allowlist_validate hosts url = Inr url'" using allowlist_mono [OF assms(7)] host by simp
    moreover have "vd_allowed_url (entry_verdict R now (rc_profile config) mode residency (ctx_tenant_id context) url' e) = Some url'"
      using m(3,7) assms(4-6) by (simp add: entry_allowed_iff developing_def)
    ultimately have "vd_allowed_url ?v = Some url'"
      unfolding verdict_allowed_iff using m hosts assms(3,4) matching_entry_unique [OF assms(4) m(5)] host by auto
    with answer True show ?thesis by simp
  next
    case False
    with init have "egress_allowlist_init (rc_egress_allowed_hosts config) = Inl (ValueError ''INVALID_EGRESS_ALLOWLIST'')"
      by auto
    then have "?v = blocked ''EGRESS_HOST_MISMATCH''" using m(1,2,4) by (simp add: egress_verdict_of_def)
    with answer False show ?thesis by (simp add: blocked_def)
  qed
qed

section \<open>A concrete configuration\<close>

definition demo_provider :: provider_egress where
  "demo_provider = \<lparr>px_provider = ''search'', px_service = ''web'', px_host = ''a.de'',
     px_processing_location = ''DE'', px_confirmed_processing_locations = [''DE''], px_tenant_ids = [''acme''],
     px_attestation = \<lparr>pa_evidence_id = ''ev-1'', pa_evidence_type = ''DPA'', pa_evidence_ref = ''https://example.com/dpa'',
       pa_issuer = ''Example'', pa_issued_at = ''i'', pa_valid_from = ''f'', pa_expires_at = ''x'',
       pa_verification_status = ''VERIFIED'', pa_verified_at = Some ''v'', pa_verified_by = Some ''auditor'',
       pa_document_hash = None\<rparr>\<rparr>"

definition demo_oidc :: oidc_runtime_config where
  "demo_oidc = \<lparr>orc_policy = \<lparr>op_issuer = ''https://id.example.com'', op_audience = ''da'', op_algorithms = [''RS256''],
       op_tenant_claim = ''tenant_id'', op_actor_id_claim = ''sub'', op_role_claim = ''role'',
       op_actor_kind_claim = ''actor_kind'', op_organization_claim = None, op_groups_claim = None,
       op_clock_skew_seconds = 30, op_authorized_parties = [''ui''], op_required_scopes = [''decisions''],
       op_allow_insecure_loopback = False\<rparr>, orc_jwks_uri = ''https://id.example.com/jwks''\<rparr>"

definition demo_config :: "unit runtime_config" where
  "demo_config = \<lparr>rc_profile = PRODUCTION, rc_operating_mode = Some EU_MANAGED,
     rc_data_residency = Some \<lparr>storage_locations = [''DE''], processing_locations = [''DE''], backup_locations = [''DE''],
       support_access_locations = [''DE''], external_processing_locations = [''DE''],
       residency_evidence_refs = [''https://example.com/residency'']\<rparr>,
     rc_database_backend = POSTGRESQL, rc_authentication_mode = OIDC, rc_secret_provider = EXTERNAL,
     rc_database_dsn_secret = ''dsn'', rc_worker_database_dsn_secret = ''worker-dsn'', rc_oidc = Some demo_oidc,
     rc_egress_allowed_hosts = [''A.de''], rc_provider_egress = [demo_provider],
     rc_controlled_pilot = None, rc_worker_policy = default_policy\<rparr>"

text \<open>Expiry lies after the present time 10, everything else before it.\<close>

definition egress_runtime :: runtime where
  "egress_runtime = demo_runtime\<lparr>fromisoformat := (\<lambda>s. Some (Aware (if s = ''x'' then 20 else 5)))\<rparr>"

definition demo_context :: egress_context where
  "demo_context = \<lparr>ctx_tenant_id = ''acme'', ctx_actor_id = ''rita'', ctx_correlation_id = ''corr''\<rparr>"

definition log_decision :: "egress_decision \<Rightarrow> (egress_decision list, unit) action" where
  "log_decision d ds = (Inr (), ds @ [d])"

lemma demo_config_ok: "runtime_config_post_init demo_config = Inr demo_config"
  by code_simp

lemma demo_allowlist: "egress_allowlist_init (rc_egress_allowed_hosts demo_config) = Inr [''a.de'']"
  by code_simp

lemma demo_tenant: "TenantContext ''acme'' = Inr ''acme''"
  by code_simp

lemma demo_attested: "attested egress_runtime 10 demo_provider"
  by code_simp

lemmas url_chars = before_char_def after_char_def before_last_def after_last_def removed_char_def c0_or_space_def
  ascii_letter_def scheme_char_def is_alnum_def py_lower_def py_lower_char_def netloc_char_def

lemma demo_split: "urlsplit ''https://A.de:443#x'' = Inr \<lparr>us_scheme = ''https'', us_netloc = ''A.de:443'',
    us_path = [], us_query = [], us_fragment = ''x''\<rparr>"
  by (simp add: urlsplit_def Let_def url_chars check_netloc_def split_tail_def)

lemma demo_host: "hostinfo ''A.de:443'' = (''A.de'', ''443'')"
  by (simp add: hostinfo_def Let_def url_chars)

lemma demo_public: "valid_public_hostname ''a.de''"
  by code_simp

lemma demo_fold: "py_casefold ''A.de:443'' = ''a.de:443''" "normal_host ''A.de'' = ''a.de''"
  by code_simp+

lemma demo_url: "allowlist_validate [''a.de''] ''https://A.de:443#x'' = Inr ''https://a.de:443/''"
  by (simp add: allowlist_validate_def demo_split url_port_def demo_host Let_def url_host_info demo_fold demo_public
    url_username_def url_password_def is_digit_def nat_of_digits_def digit_val_def urlunsplit_def del: casefold_simps)

lemma demo_authorized:
  "\<exists>ds. egress_authorize egress_runtime (\<lambda>n. ''now'') log_decision 10 (Some PRODUCTION) (Some demo_config) demo_context
     ''search'' ''web'' ''https://A.de:443#x'' [] = (Inr ''https://a.de:443/'', ds)"
proof -
  have "vd_allowed_url (egress_verdict_of egress_runtime 10 (Some PRODUCTION) (Some demo_config) ''acme'' ''search'' ''web''
      ''https://A.de:443#x'') = Some ''https://a.de:443/''"
  proof -
    have "residency_validate_for EU_MANAGED (the (rc_data_residency demo_config)) = Inr ()" by code_simp
    moreover have "target_host ''https://A.de:443#x'' = ''a.de''"
      using demo_fold(2) by (simp add: target_host_def demo_split url_host_info demo_host)
    moreover have "matching_entry ''a.de'' ''search'' demo_config = Some demo_provider"
      by (simp add: matching_entry_def demo_config_def demo_provider_def)
    moreover have "px_service demo_provider = ''web''" "rc_profile demo_config = PRODUCTION"
      "rc_operating_mode demo_config = Some EU_MANAGED" "serves_tenant ''acme'' demo_provider"
      "rc_data_residency demo_config = Some (the (rc_data_residency demo_config))"
      "px_processing_location demo_provider \<in> set (external_processing_locations (the (rc_data_residency demo_config)))"
      by (simp_all add: demo_config_def demo_provider_def serves_tenant_def)
    ultimately show ?thesis
      unfolding verdict_allowed_iff using demo_allowlist demo_tenant demo_url demo_attested
      by (intro exI [of _ demo_config] exI [of _ EU_MANAGED] exI [of _ "the (rc_data_residency demo_config)"]
          exI [of _ "[''a.de'']"] exI [of _ demo_provider]) (simp add: entry_allowed_iff developing_def)
  qed
  then show ?thesis by (simp add: egress_authorize_def demo_context_def log_decision_def)
qed

text \<open>The same configuration with a second, equally declared provider on \<open>localhost\<close>.\<close>

definition demo_config_local :: "unit runtime_config" where
  "demo_config_local = demo_config\<lparr>rc_egress_allowed_hosts := [''A.de'', ''localhost''],
     rc_provider_egress := [demo_provider, demo_provider\<lparr>px_host := ''localhost''\<rparr>]\<rparr>"

lemma demo_config_local_ok: "runtime_config_post_init demo_config_local = Inr demo_config_local"
  by code_simp

lemma demo_names:
  "list_all (\<lambda>h. valid_public_hostname (normal_host h)) (rc_egress_allowed_hosts demo_config)"
  "\<not> list_all (\<lambda>h. valid_public_hostname (normal_host h)) (rc_egress_allowed_hosts demo_config_local)"
  by (code_simp, code_simp)

theorem accepted_provider_admitted_witness:
  "fst (egress_authorize egress_runtime (\<lambda>n. ''now'') log_decision 10 (Some PRODUCTION) (Some demo_config) demo_context
     ''search'' ''web'' ''https://A.de:443#x'' []) = Inr ''https://a.de:443/'' \<and>
   fst (egress_authorize egress_runtime (\<lambda>n. ''now'') log_decision 10 (Some PRODUCTION) (Some demo_config_local) demo_context
     ''search'' ''web'' ''https://A.de:443#x'' []) = Inl (EgressRejected ''EGRESS_HOST_MISMATCH'')"
proof -
  have fields: "rc_profile demo_config = PRODUCTION" "ctx_tenant_id demo_context = ''acme''"
    "px_provider demo_provider = ''search''" "px_service demo_provider = ''web''" "px_host demo_provider = ''a.de''"
    "demo_provider \<in> set (rc_provider_egress demo_config)" "serves_tenant ''acme'' demo_provider"
    "rc_profile demo_config_local = PRODUCTION" "demo_provider \<in> set (rc_provider_egress demo_config_local)"
    by (simp_all add: demo_config_def demo_config_local_def demo_context_def demo_provider_def serves_tenant_def)
  note admitted = accepted_provider_admitted [of _ demo_context demo_provider egress_runtime 10
      "''https://A.de:443#x''" "''https://a.de:443/''" log_decision "[]" "\<lambda>n. ''now''"]
  show ?thesis
    using admitted [of demo_config] admitted [of demo_config_local] demo_names
      demo_config_ok demo_config_local_ok demo_tenant demo_attested demo_url
    by (simp add: fields log_decision_def)
qed

theorem egress_stays_in_boundary_witness:
  "\<exists>d. egress_authorize egress_runtime (\<lambda>n. ''now'') log_decision 10 (Some PRODUCTION) (Some demo_config) demo_context
     ''search'' ''web'' ''https://A.de:443#x'' [] = (Inr ''https://a.de:443/'', [d]) \<and>
   ed_decision d = ''ALLOWED'' \<and> ed_target_host d = ''a.de'' \<and> ed_requested_processing_location d = Some ''DE'' \<and>
   https_to [''a.de''] ''a.de'' ''https://a.de:443/'' \<and> attested egress_runtime 10 demo_provider"
proof -
  obtain ds where run: "egress_authorize egress_runtime (\<lambda>n. ''now'') log_decision 10 (Some PRODUCTION) (Some demo_config)
      demo_context ''search'' ''web'' ''https://A.de:443#x'' [] = (Inr ''https://a.de:443/'', ds)"
    using demo_authorized by blast
  from egress_stays_in_boundary [OF run] obtain e d where e: "e \<in> set (rc_provider_egress demo_config)"
    "px_host e = target_host ''https://A.de:443#x''"
    "https_to (map normal_host (rc_egress_allowed_hosts demo_config)) (px_host e) ''https://a.de:443/''"
    "attested egress_runtime 10 e" and d: "log_decision d [] = (Inr (), ds)" "ed_decision d = ''ALLOWED''"
      "ed_target_host d = px_host e" "ed_requested_processing_location d = Some (px_processing_location e)"
    by (auto simp: developing_def demo_config_def)
  have "e = demo_provider" using e(1) by (simp add: demo_config_def)
  moreover have "px_host demo_provider = ''a.de''" "px_processing_location demo_provider = ''DE''"
    "map normal_host (rc_egress_allowed_hosts demo_config) = [''a.de'']"
    using demo_fold(2) by (simp_all add: demo_provider_def demo_config_def)
  moreover have "ds = [d]" using d(1) by (simp add: log_decision_def)
  ultimately show ?thesis using run e d by auto
qed

end
