(* ===== verification/Sessions.thy ===== *)
theory Sessions
  imports Json Complex_Main
begin

text \<open>
  The browser sessions of the pilot interface, \<^verbatim>\<open>pilot_ui/session.py\<close>: login transactions
  and sessions, two bounded stores whose entries expire. A dictionary is a list of pairs in
  insertion order. The monotonic clock, which an operation may read twice, and the random
  tokens are arguments; every operation holds the lock of its store from beginning to end.
\<close>

section \<open>Dictionaries with expiring entries\<close>

definition dict_put :: "string \<Rightarrow> 'v \<Rightarrow> (string \<times> 'v) list \<Rightarrow> (string \<times> 'v) list" where
  "dict_put k v d = (if k \<in> fst ` set d then map (\<lambda>(k', x). if k' = k then (k, v) else (k', x)) d else d @ [(k, v)])"

definition dict_pop :: "string \<Rightarrow> (string \<times> 'v) list \<Rightarrow> (string \<times> 'v) list" where
  "dict_pop k d = filter (\<lambda>e. fst e \<noteq> k) d"

text \<open>\<^verbatim>\<open>_prune\<close>.\<close>

definition prune :: "('v \<Rightarrow> rat) \<Rightarrow> rat \<Rightarrow> (string \<times> 'v) list \<Rightarrow> (string \<times> 'v) list" where
  "prune expires now d = filter (\<lambda>e. \<not> expires (snd e) \<le> now) d"

text \<open>A store of entries under tokens: what an operation may add, and how far the store grows.\<close>

locale token_store =
  fixes limit :: int
    and issues :: "'op \<Rightarrow> string \<times> 'v \<Rightarrow> bool"
    and perform :: "'op \<Rightarrow> (string \<times> 'v) list \<Rightarrow> (string \<times> 'v) list"
  assumes only_issued: "e \<in> set (perform op d) \<Longrightarrow> e \<in> set d \<or> issues op e"
    and keeps_limit: "int (length d) \<le> limit \<Longrightarrow> int (length (perform op d)) \<le> limit"
    and keeps_distinct: "distinct (map fst d) \<Longrightarrow> distinct (map fst (perform op d))"
begin

definition performed :: "'op list \<Rightarrow> (string \<times> 'v) list \<Rightarrow> (string \<times> 'v) list" where
  "performed ops d = fold perform ops d"

lemma performed_issued: "e \<in> set (performed ops d) \<Longrightarrow> e \<in> set d \<or> (\<exists>op \<in> set ops. issues op e)"
  by (induction ops arbitrary: d) (auto simp: performed_def dest: only_issued)

lemma performed_limit: "int (length d) \<le> limit \<Longrightarrow> int (length (performed ops d)) \<le> limit"
  by (induction ops arbitrary: d) (auto simp: performed_def dest: keeps_limit)

lemma performed_distinct: "distinct (map fst d) \<Longrightarrow> distinct (map fst (performed ops d))"
  by (induction ops arbitrary: d) (auto simp: performed_def dest: keeps_distinct)

lemma token_stays_gone:
  assumes "k \<notin> fst ` set d" and "\<And>op v. op \<in> set ops \<Longrightarrow> \<not> issues op (k, v)"
  shows "k \<notin> fst ` set (performed ops d)"
proof
  assume "k \<in> fst ` set (performed ops d)"
  then obtain v where "(k, v) \<in> set (performed ops d)" by auto
  with performed_issued assms(2) have "(k, v) \<in> set d" by blast
  with assms(1) show False by (auto intro: rev_image_eqI)
qed

end

lemma dict_put_entries: "e \<in> set (dict_put k v d) \<Longrightarrow> e \<in> set d \<or> e = (k, v)"
  by (auto simp: dict_put_def split: if_splits)

lemma dict_put_limit: "int (length d) < n \<Longrightarrow> int (length (dict_put k v d)) \<le> n"
  by (simp add: dict_put_def)

lemma dict_put_distinct: "distinct (map fst d) \<Longrightarrow> distinct (map fst (dict_put k v d))"
proof -
  assume d: "distinct (map fst d)"
  have "map fst (map (\<lambda>(k', x). if k' = k then (k, v) else (k', x)) d) = map fst d"
    by (induction d) auto
  with d have "distinct (map fst (map (\<lambda>(k', x). if k' = k then (k, v) else (k', x)) d))" by (simp only:)
  with d show ?thesis unfolding dict_put_def by (simp del: map_map)
qed

lemma dict_pop_gone [simp]: "k \<notin> fst ` set (dict_pop k d)" "(k, v) \<notin> set (dict_pop k d)"
  by (auto simp: dict_pop_def)

lemma filter_keys_distinct: "distinct (map fst d) \<Longrightarrow> distinct (map fst (filter P d))"
  by (rule distinct_map_filter)

section \<open>Login transactions\<close>

record login_transaction =
  lt_state :: string
  lt_nonce :: string
  lt_code_verifier :: string
  lt_return_path :: string
  lt_expires_at :: rat
  lt_browser_binding_hash :: string

record login_config =
  lc_ttl :: int
  lc_capacity :: int
  lc_allowed_return_paths :: "string list"

type_synonym login_store = "(string \<times> login_transaction) list"

definition login_store_init :: "int \<Rightarrow> int \<Rightarrow> string list \<Rightarrow> login_config result" where
  "login_store_init ttl capacity paths =
     (if \<not> (30 \<le> ttl \<and> ttl \<le> 600) \<or> \<not> (1 \<le> capacity \<and> capacity \<le> 10000)
      then Inl (ValueError ''INVALID_LOGIN_TRANSACTION_LIMIT'')
      else Inr \<lparr>lc_ttl = ttl, lc_capacity = capacity, lc_allowed_return_paths = paths\<rparr>)"

definition browser_binding_hash :: "digest \<Rightarrow> string \<Rightarrow> string result" where
  "browser_binding_hash sha v =
     (if v = [] \<or> length v > 256 then Inl (BrowserOidcError ''OIDC_BROWSER_BINDING_INVALID'') else Inr (sha v))"

text \<open>The three tokens and the two clock readings are arguments.\<close>

definition login_create ::
  "digest \<Rightarrow> login_config \<Rightarrow> string \<Rightarrow> string \<Rightarrow> string \<times> string \<times> string \<Rightarrow> rat \<Rightarrow> rat
    \<Rightarrow> (login_store, login_transaction) action" where
  "login_create sha C return_path browser_binding tokens pruned_at created_at d =
     (if return_path \<notin> set (lc_allowed_return_paths C) then (Inl (BrowserOidcError ''OIDC_RETURN_PATH_INVALID''), d)
      else case browser_binding_hash sha browser_binding of
        Inl e \<Rightarrow> (Inl e, d)
      | Inr binding_hash \<Rightarrow>
          let d1 = prune lt_expires_at pruned_at d in
          if int (length d1) \<ge> lc_capacity C then (Inl (BrowserOidcError ''OIDC_LOGIN_CAPACITY_EXCEEDED''), d1)
          else
            let t = \<lparr>lt_state = fst tokens, lt_nonce = fst (snd tokens), lt_code_verifier = snd (snd tokens),
                  lt_return_path = return_path, lt_expires_at = created_at + of_int (lc_ttl C),
                  lt_browser_binding_hash = binding_hash\<rparr>
            in (Inr t, dict_put (lt_state t) t d1))"

definition login_consume ::
  "digest \<Rightarrow> string \<Rightarrow> string \<Rightarrow> rat \<Rightarrow> rat \<Rightarrow> (login_store, login_transaction) action" where
  "login_consume sha state browser_binding pruned_at checked_at d =
     (if state = [] \<or> length state > 256 then (Inl (BrowserOidcError ''OIDC_STATE_INVALID''), d)
      else case browser_binding_hash sha browser_binding of
        Inl e \<Rightarrow> (Inl e, d)
      | Inr binding_hash \<Rightarrow>
          let d1 = prune lt_expires_at pruned_at d in
          case map_of d1 state of
            None \<Rightarrow> (Inl (BrowserOidcError ''OIDC_STATE_INVALID''), d1)
          | Some t \<Rightarrow>
              if lt_browser_binding_hash t \<noteq> binding_hash
              then (Inl (BrowserOidcError ''OIDC_STATE_INVALID''), d1)
              else
                (if lt_expires_at t \<le> checked_at then Inl (BrowserOidcError ''OIDC_STATE_INVALID'') else Inr t,
                 dict_pop state d1))"

text \<open>What the browsers can make the store do.\<close>

datatype login_use =
    Begin_login string string "string \<times> string \<times> string" rat rat
  | End_login string string rat rat

fun login_perform :: "digest \<Rightarrow> login_config \<Rightarrow> login_use \<Rightarrow> login_store \<Rightarrow> login_store" where
  "login_perform sha C (Begin_login path binding tokens p c) d = snd (login_create sha C path binding tokens p c d)"
| "login_perform sha C (End_login state binding p c) d = snd (login_consume sha state binding p c d)"

fun login_issues :: "digest \<Rightarrow> login_config \<Rightarrow> login_use \<Rightarrow> string \<times> login_transaction \<Rightarrow> bool" where
  "login_issues sha C (Begin_login path binding tokens p c) e =
     (path \<in> set (lc_allowed_return_paths C) \<and> fst e = lt_state (snd e) \<and> lt_state (snd e) = fst tokens \<and>
      lt_nonce (snd e) = fst (snd tokens) \<and> lt_code_verifier (snd e) = snd (snd tokens) \<and>
      lt_return_path (snd e) = path \<and> lt_expires_at (snd e) = c + of_int (lc_ttl C) \<and>
      browser_binding_hash sha binding = Inr (lt_browser_binding_hash (snd e)))"
| "login_issues sha C (End_login _ _ _ _) e = False"

lemma prune_facts:
  "e \<in> set (prune x now d) \<Longrightarrow> e \<in> set d" "length (prune x now d) \<le> length d"
  "distinct (map fst d) \<Longrightarrow> distinct (map fst (prune x now d))"
  by (auto simp: prune_def intro: filter_keys_distinct)

lemma pop_facts:
  "e \<in> set (dict_pop k d) \<Longrightarrow> e \<in> set d" "length (dict_pop k d) \<le> length d"
  "distinct (map fst d) \<Longrightarrow> distinct (map fst (dict_pop k d))"
  by (auto simp: dict_pop_def intro: filter_keys_distinct)

lemma login_create_store:
  "snd (login_create sha C path binding tokens p c d) \<in> {d, prune lt_expires_at p d} \<or>
   (\<exists>t. int (length (prune lt_expires_at p d)) < lc_capacity C \<and>
     login_issues sha C (Begin_login path binding tokens p c) (lt_state t, t) \<and>
     fst (login_create sha C path binding tokens p c d) = Inr t \<and>
     snd (login_create sha C path binding tokens p c d) = dict_put (lt_state t) t (prune lt_expires_at p d))"
  by (auto simp: login_create_def Let_def split: sum.splits)

lemma login_consume_store:
  "snd (login_consume sha state binding p c d) \<in> {d, prune lt_expires_at p d, dict_pop state (prune lt_expires_at p d)}"
  by (auto simp: login_consume_def Let_def split: sum.splits option.splits)

interpretation logins: token_store "lc_capacity C" "login_issues sha C" "login_perform sha C" for sha C
proof unfold_locales
  fix e op d
  show "e \<in> set (login_perform sha C op d) \<Longrightarrow> e \<in> set d \<or> login_issues sha C op e"
  proof (cases op)
    case (Begin_login path binding tokens p c)
    assume "e \<in> set (login_perform sha C op d)"
    with Begin_login have e: "e \<in> set (snd (login_create sha C path binding tokens p c d))" by simp
    from login_create_store [of sha C path binding tokens p c d] show ?thesis
    proof (elim disjE exE conjE)
      assume "snd (login_create sha C path binding tokens p c d) \<in> {d, prune lt_expires_at p d}"
      with e show ?thesis by (auto dest: prune_facts(1))
    next
      fix t assume t: "login_issues sha C (Begin_login path binding tokens p c) (lt_state t, t)"
        and "snd (login_create sha C path binding tokens p c d) = dict_put (lt_state t) t (prune lt_expires_at p d)"
      with e have "e \<in> set d \<or> e = (lt_state t, t)" by (auto dest: prune_facts(1) dict_put_entries)
      with t Begin_login show ?thesis by blast
    qed
  next
    case (End_login state binding p c)
    assume "e \<in> set (login_perform sha C op d)"
    with End_login login_consume_store [of sha state binding p c d] show ?thesis
      by (auto dest!: pop_facts(1) dest: prune_facts(1))
  qed
  show "int (length (login_perform sha C op d)) \<le> lc_capacity C" if "int (length d) \<le> lc_capacity C"
  proof (cases op)
    case (Begin_login path binding tokens p c)
    with that login_create_store [of sha C path binding tokens p c d] prune_facts(2) [of lt_expires_at p d] show ?thesis
      by (elim disjE exE conjE) (auto simp: dict_put_limit)
  next
    case (End_login state binding p c)
    with that login_consume_store [of sha state binding p c d] prune_facts(2) [of lt_expires_at p d]
      pop_facts(2) [of state "prune lt_expires_at p d"] show ?thesis by auto
  qed
  show "distinct (map fst (login_perform sha C op d))" if "distinct (map fst d)"
  proof (cases op)
    case (Begin_login path binding tokens p c)
    with that login_create_store [of sha C path binding tokens p c d] show ?thesis
      by (auto simp: prune_facts(3) dict_put_distinct)
  next
    case (End_login state binding p c)
    with that login_consume_store [of sha state binding p c d] show ?thesis
      by (auto simp: prune_facts(3) pop_facts(3))
  qed
qed

lemma login_consume_Inr:
  assumes "login_consume sha state binding p c d = (Inr t, d')"
  shows "(state, t) \<in> set d \<and> browser_binding_hash sha binding = Inr (lt_browser_binding_hash t) \<and>
    c < lt_expires_at t \<and> state \<notin> fst ` set d'"
  using assms by (auto simp: login_consume_def Let_def split: sum.splits option.splits if_splits
    dest!: map_of_SomeD prune_facts(1))

lemma login_consume_absent:
  assumes "state \<notin> fst ` set d"
  shows "fst (login_consume sha state binding p c d) \<noteq> Inr t"
  using assms by (auto simp: login_consume_def Let_def split: sum.splits option.splits
    dest!: map_of_SomeD prune_facts(1) intro: rev_image_eqI)

section \<open>Browser sessions\<close>

type_synonym members = "(string \<times> json) list"

record browser_session =
  bs_session_id :: string
  bs_csrf_token :: string
  bs_access_token :: string
  bs_identity :: members
  bs_expires_at :: rat

definition sensitive_token :: "string \<Rightarrow> string result" where
  "sensitive_token v = (if v = [] \<or> length v > 16384 then Inl (BrowserOidcError ''OIDC_TOKEN_INVALID'') else Inr v)"

definition session_store_init :: "int \<Rightarrow> int \<Rightarrow> (int \<times> int) result" where
  "session_store_init ttl capacity =
     (if \<not> (30 \<le> ttl \<and> ttl \<le> 1800) \<or> \<not> (1 \<le> capacity \<and> capacity \<le> 100000)
      then Inl (ValueError ''INVALID_SESSION_LIMIT'') else Inr (ttl, capacity))"

fun text_value :: "json option \<Rightarrow> bool" where
  "text_value (Some (JStr s)) = (s \<noteq> [])"
| "text_value _ = False"

fun text_list :: "json option \<Rightarrow> bool" where
  "text_list (Some (JArr xs)) = (xs \<noteq> [] \<and> list_all (\<lambda>x. text_value (Some x)) xs)"
| "text_list _ = False"

definition identity_required :: "string list" where
  "identity_required = [''actor_id'', ''tenant_id'', ''actor_kind'', ''roles'']"

definition identity_optional :: "string list" where
  "identity_optional = [''acr'', ''amr'', ''authenticated_at'', ''mfa_policy_version'']"

text \<open>\<^verbatim>\<open>_safe_identity\<close>: the members that may be kept, or none at all.\<close>

definition safe_identity :: "members \<Rightarrow> members result" where
  "safe_identity ident =
     (let field = map_of ident; keys = fst ` set ident;
          member = (\<lambda>k. (k, the (field k))) in
      if \<not> (set identity_required \<subseteq> keys) \<or> \<not> (keys \<subseteq> set identity_required \<union> set identity_optional)
      then Inl (BrowserOidcError ''OIDC_IDENTITY_INVALID'')
      else if \<not> text_value (field ''actor_id'') \<or> \<not> text_value (field ''tenant_id'') \<or>
          field ''actor_kind'' \<notin> {Some (JStr ''HUMAN''), Some (JStr ''AGENT''), Some (JStr ''SERVICE'')} \<or>
          \<not> text_list (field ''roles'')
      then Inl (BrowserOidcError ''OIDC_IDENTITY_INVALID'')
      else if set identity_optional \<inter> keys = {} then Inr (map member identity_required)
      else if \<not> text_value (field ''acr'') \<or> \<not> text_list (field ''amr'') \<or> \<not> text_value (field ''authenticated_at'')
          \<or> \<not> text_value (field ''mfa_policy_version'')
      then Inl (BrowserOidcError ''OIDC_IDENTITY_INVALID'')
      else Inr (map member (identity_required @ identity_optional)))"

type_synonym session_store = "(string \<times> browser_session) list"

text \<open>Time to live and capacity are the first arguments.\<close>

definition session_create ::
  "int \<Rightarrow> int \<Rightarrow> string \<Rightarrow> members \<Rightarrow> int \<Rightarrow> string \<times> string \<Rightarrow> rat \<Rightarrow> rat
    \<Rightarrow> (session_store, browser_session) action" where
  "session_create ttl capacity access_token ident token_expires_in tokens pruned_at created_at d =
     (if token_expires_in \<le> 0 then (Inl (BrowserOidcError ''OIDC_TOKEN_EXPIRED''), d)
      else case safe_identity ident of
        Inl e \<Rightarrow> (Inl e, d)
      | Inr safe \<Rightarrow>
          let d1 = prune bs_expires_at pruned_at d in
          if int (length d1) \<ge> capacity then (Inl (BrowserOidcError ''OIDC_SESSION_CAPACITY_EXCEEDED''), d1)
          else
            let b = \<lparr>bs_session_id = fst tokens, bs_csrf_token = snd tokens, bs_access_token = access_token,
                  bs_identity = safe, bs_expires_at = created_at + of_int (min ttl token_expires_in)\<rparr>
            in (Inr b, dict_put (bs_session_id b) b d1))"

definition session_get :: "string option \<Rightarrow> rat \<Rightarrow> session_store \<Rightarrow> browser_session option \<times> session_store" where
  "session_get session_id now d =
     (case session_id of None \<Rightarrow> (None, d)
      | Some k \<Rightarrow> if length k > 256 then (None, d)
          else let d1 = prune bs_expires_at now d in (map_of d1 k, d1))"

definition session_destroy :: "string option \<Rightarrow> session_store \<Rightarrow> session_store" where
  "session_destroy session_id d = (case session_id of None \<Rightarrow> d | Some k \<Rightarrow> dict_pop k d)"

datatype session_use =
    Open_session string members int "string \<times> string" rat rat
  | Look_up "string option" rat
  | Log_out "string option"

fun session_perform :: "int \<Rightarrow> int \<Rightarrow> session_use \<Rightarrow> session_store \<Rightarrow> session_store" where
  "session_perform ttl cap (Open_session access ident n tokens p c) d = snd (session_create ttl cap access ident n tokens p c d)"
| "session_perform ttl cap (Look_up k now) d = snd (session_get k now d)"
| "session_perform ttl cap (Log_out k) d = session_destroy k d"

fun session_issues :: "int \<Rightarrow> session_use \<Rightarrow> string \<times> browser_session \<Rightarrow> bool" where
  "session_issues ttl (Open_session access ident n tokens p c) e =
     (0 < n \<and> safe_identity ident = Inr (bs_identity (snd e)) \<and> fst e = bs_session_id (snd e) \<and>
      bs_session_id (snd e) = fst tokens \<and> bs_csrf_token (snd e) = snd tokens \<and> bs_access_token (snd e) = access \<and>
      bs_expires_at (snd e) = c + of_int (min ttl n))"
| "session_issues ttl _ e = False"

lemma session_create_store:
  "snd (session_create ttl cap access ident n tokens p c d) \<in> {d, prune bs_expires_at p d} \<or>
   (\<exists>b. int (length (prune bs_expires_at p d)) < cap \<and>
     session_issues ttl (Open_session access ident n tokens p c) (bs_session_id b, b) \<and>
     snd (session_create ttl cap access ident n tokens p c d) = dict_put (bs_session_id b) b (prune bs_expires_at p d))"
proof (cases "safe_identity ident")
  case (Inr safe)
  then show ?thesis
    by (auto simp: session_create_def Let_def intro!: exI [of _ "\<lparr>bs_session_id = fst tokens, bs_csrf_token = snd tokens,
      bs_access_token = access, bs_identity = safe, bs_expires_at = c + of_int (min ttl n)\<rparr>"])
qed (simp add: session_create_def)

lemma session_other_store:
  "snd (session_get k now d) \<in> {d, prune bs_expires_at now d}" "session_destroy k d = d \<or> (\<exists>x. session_destroy k d = dict_pop x d)"
  by (auto simp: session_get_def session_destroy_def Let_def split: option.splits)

interpretation sessions: token_store cap "session_issues ttl" "session_perform ttl cap" for ttl cap
proof unfold_locales
  fix e op d
  show "e \<in> set (session_perform ttl cap op d) \<Longrightarrow> e \<in> set d \<or> session_issues ttl op e"
  proof (cases op)
    case (Open_session access ident n tokens p c)
    assume "e \<in> set (session_perform ttl cap op d)"
    with Open_session have e: "e \<in> set (snd (session_create ttl cap access ident n tokens p c d))" by simp
    from session_create_store [of ttl cap access ident n tokens p c d] show ?thesis
    proof (elim disjE exE conjE)
      assume "snd (session_create ttl cap access ident n tokens p c d) \<in> {d, prune bs_expires_at p d}"
      with e show ?thesis by (auto dest: prune_facts(1))
    next
      fix b assume b: "session_issues ttl (Open_session access ident n tokens p c) (bs_session_id b, b)"
        and "snd (session_create ttl cap access ident n tokens p c d) = dict_put (bs_session_id b) b (prune bs_expires_at p d)"
      with e have "e \<in> set d \<or> e = (bs_session_id b, b)" by (auto dest: prune_facts(1) dict_put_entries)
      with b Open_session show ?thesis by blast
    qed
  next
    case (Look_up k now)
    assume "e \<in> set (session_perform ttl cap op d)"
    with Look_up session_other_store(1) [of k now d] show ?thesis by (auto dest: prune_facts(1))
  next
    case (Log_out k)
    assume "e \<in> set (session_perform ttl cap op d)"
    with Log_out session_other_store(2) [of k d] show ?thesis by (auto dest: pop_facts(1))
  qed
  show "int (length (session_perform ttl cap op d)) \<le> cap" if "int (length d) \<le> cap"
  proof (cases op)
    case (Open_session access ident n tokens p c)
    with that session_create_store [of ttl cap access ident n tokens p c d] prune_facts(2) [of bs_expires_at p d] show ?thesis
      by (elim disjE exE conjE) (auto simp: dict_put_limit)
  next
    case (Look_up k now)
    with that session_other_store(1) [of k now d] prune_facts(2) [of bs_expires_at now d] show ?thesis by auto
  next
    case (Log_out k)
    moreover have "int (length (dict_pop x d)) \<le> cap" for x using that pop_facts(2) [of x d] by simp
    ultimately show ?thesis using that session_other_store(2) [of k d] by auto
  qed
  show "distinct (map fst (session_perform ttl cap op d))" if "distinct (map fst d)"
  proof (cases op)
    case (Open_session access ident n tokens p c)
    with that session_create_store [of ttl cap access ident n tokens p c d] show ?thesis
      by (auto simp: prune_facts(3) dict_put_distinct)
  next
    case (Look_up k now)
    with that session_other_store(1) [of k now d] show ?thesis by (auto simp: prune_facts(3))
  next
    case (Log_out k)
    with that session_other_store(2) [of k d] show ?thesis by (auto simp: pop_facts(3))
  qed
qed

lemma session_get_Some:
  assumes "session_get k now d = (Some b, d')"
  shows "\<exists>sid. k = Some sid \<and> (sid, b) \<in> set d \<and> now < bs_expires_at b"
  using assms by (auto simp: session_get_def Let_def prune_def split: option.splits if_splits dest!: map_of_SomeD)

lemma session_get_absent: "k \<notin> fst ` set d \<Longrightarrow> fst (session_get (Some k) now d) = None"
  by (auto simp: session_get_def Let_def map_of_eq_None_iff dest: prune_facts(1) intro: rev_image_eqI)

lemma destroyed_absent: "k \<notin> fst ` set (session_destroy (Some k) d)"
  by (simp add: session_destroy_def)

text \<open>Only the eight known members are kept.\<close>

lemma safe_identity_keys:
  assumes "safe_identity ident = Inr safe"
  shows "fst ` set safe \<subseteq> set identity_required \<union> set identity_optional \<and> set identity_required \<subseteq> fst ` set safe \<and>
    set safe \<subseteq> set ident \<and> map_of safe ''tenant_id'' = map_of ident ''tenant_id''"
proof -
  have in_ident: "(k, the (map_of ident k)) \<in> set ident" if "k \<in> fst ` set ident" for k
    using that by (metis map_of_SomeD map_of_eq_None_iff not_None_eq option.sel)
  have opt: "k \<in> fst ` set ident" if "text_value (map_of ident k) \<or> text_list (map_of ident k)" for k
    using that by (cases "map_of ident k") (auto dest!: map_of_SomeD intro: rev_image_eqI)
  have req: "set identity_required \<subseteq> fst ` set ident"
    using assms by (auto simp: safe_identity_def Let_def split: if_splits)
  have tid: "map_of ident ''tenant_id'' = Some (the (map_of ident ''tenant_id''))"
    using req by (cases "map_of ident ''tenant_id''") (auto simp: identity_required_def map_of_eq_None_iff)
  from assms have "safe = map (\<lambda>k. (k, the (map_of ident k))) identity_required \<or>
      safe = map (\<lambda>k. (k, the (map_of ident k))) (identity_required @ identity_optional) \<and>
      set identity_optional \<subseteq> fst ` set ident"
    using opt by (auto simp: safe_identity_def Let_def identity_optional_def split: if_splits)
  with req tid in_ident show ?thesis
    by (elim disjE) (auto simp: identity_required_def identity_optional_def)
qed

end
