(* ===== verification/SessionProperties.thy ===== *)
theory SessionProperties
  imports Sessions
begin

text \<open>
  The properties of login transactions and browser sessions, for every history of requests.
\<close>

text \<open>
  C15. A login can be ended once, and only by the browser that began it. Whatever the stores
  has been asked before: a login transaction is handed out only for a state that some request
  began with an allowed return path, for the browser binding of that request and before its
  time to live has passed; after that the same state is refused for good, unless a later
  request is given the same random token.
\<close>

theorem login_ends_once:
  assumes "login_consume sha state binding p c (logins.performed sha C ops []) = (Inr t, d)"
  shows "(\<exists>path b tokens p0 c0. Begin_login path b tokens p0 c0 \<in> set ops \<and> path \<in> set (lc_allowed_return_paths C) \<and>
      state = fst tokens \<and> lt_return_path t = path \<and> lt_nonce t = fst (snd tokens) \<and> lt_code_verifier t = snd (snd tokens) \<and>
      browser_binding_hash sha b = browser_binding_hash sha binding \<and> c < c0 + of_int (lc_ttl C)) \<and>
    (\<forall>later b' p' c'. (\<forall>path b tokens p0 c0. Begin_login path b tokens p0 c0 \<in> set later \<longrightarrow> fst tokens \<noteq> state) \<longrightarrow>
      (\<exists>e. fst (login_consume sha state b' p' c' (logins.performed sha C later d)) = Inl e))"
proof
  note ended = login_consume_Inr [OF assms]
  from ended logins.performed_issued [of "(state, t)" sha C ops "[]"] obtain op where
    op: "op \<in> set ops" "login_issues sha C op (state, t)" by auto
  then obtain path b tokens p0 c0 where "op = Begin_login path b tokens p0 c0" by (cases op rule: login_use.exhaust) auto
  with op ended show "\<exists>path b tokens p0 c0. Begin_login path b tokens p0 c0 \<in> set ops \<and> path \<in> set (lc_allowed_return_paths C) \<and>
      state = fst tokens \<and> lt_return_path t = path \<and> lt_nonce t = fst (snd tokens) \<and> lt_code_verifier t = snd (snd tokens) \<and>
      browser_binding_hash sha b = browser_binding_hash sha binding \<and> c < c0 + of_int (lc_ttl C)"
    by (intro exI [of _ path] exI [of _ b] exI [of _ tokens] exI [of _ p0] exI [of _ c0]) auto
  show "\<forall>later b' p' c'. (\<forall>path b tokens p0 c0. Begin_login path b tokens p0 c0 \<in> set later \<longrightarrow> fst tokens \<noteq> state) \<longrightarrow>
      (\<exists>e. fst (login_consume sha state b' p' c' (logins.performed sha C later d)) = Inl e)"
  proof (intro allI impI)
    fix later b' p' c'
    assume fresh: "\<forall>path b tokens p0 c0. Begin_login path b tokens p0 c0 \<in> set later \<longrightarrow> fst tokens \<noteq> state"
    have "\<not> login_issues sha C op (state, v)" if "op \<in> set later" for op v
    proof
      assume "login_issues sha C op (state, v)"
      then obtain path b tokens p0 c0 where "op = Begin_login path b tokens p0 c0" "state = fst tokens"
        by (cases op) auto
      with fresh that show False by blast
    qed
    then have "state \<notin> fst ` set (logins.performed sha C later d)"
      using ended by (intro logins.token_stays_gone) auto
    from login_consume_absent [OF this, of sha b' p' c']
    show "\<exists>e. fst (login_consume sha state b' p' c' (logins.performed sha C later d)) = Inl e"
      by (cases "fst (login_consume sha state b' p' c' (logins.performed sha C later d))") auto
  qed
qed

definition demo_logins :: login_config where
  "demo_logins = \<lparr>lc_ttl = 180, lc_capacity = 256, lc_allowed_return_paths = [''/cases'']\<rparr>"

theorem login_ends_once_witness:
  "\<exists>t d e. login_consume (\<lambda>x. x) ''s'' ''b'' 5 6 (logins.performed (\<lambda>x. x) demo_logins
      [Begin_login ''/cases'' ''b'' (''s'', ''n'', ''v'') 0 1] []) = (Inr t, d) \<and> lt_return_path t = ''/cases'' \<and>
    fst (login_consume (\<lambda>x. x) ''s'' ''b'' 7 8 d) = Inl e"
proof -
  have "\<exists>t d. login_consume (\<lambda>x. x) ''s'' ''b'' 5 6 (logins.performed (\<lambda>x. x) demo_logins
      [Begin_login ''/cases'' ''b'' (''s'', ''n'', ''v'') 0 1] []) = (Inr t, d)"
    by (simp add: logins.performed_def login_create_def demo_logins_def browser_binding_hash_def dict_put_def
      prune_def login_consume_def Let_def)
  then obtain t d where run: "login_consume (\<lambda>x. x) ''s'' ''b'' 5 6 (logins.performed (\<lambda>x. x) demo_logins
      [Begin_login ''/cases'' ''b'' (''s'', ''n'', ''v'') 0 1] []) = (Inr t, d)" by blast
  note ends = login_ends_once [OF run]
  have "\<exists>e. fst (login_consume (\<lambda>x. x) ''s'' ''b'' 7 8 (logins.performed (\<lambda>x. x) demo_logins [] d)) = Inl e"
    using ends by (elim conjE allE [of _ "[]"] allE [of _ "''b''"] allE [of _ 7] allE [of _ 8]) simp
  moreover have "lt_return_path t = ''/cases''" using ends by auto
  ultimately show ?thesis using run by (auto simp: logins.performed_def)
qed

text \<open>
  C28. Sessions are bounded in number, in time and in what they carry. After any history of
  requests the store holds at most its capacity; a session that can still be looked up was
  opened by a request whose identity passed the check, keeps only members of that identity,
  has its access token, and has not outlived its time to live nor the lifetime of the token; and after
  a log-out the session is gone unless its random identifier is drawn again.
\<close>

theorem sessions_are_bounded:
  assumes "0 \<le> capacity"
  shows "int (length (sessions.performed ttl capacity ops [])) \<le> capacity \<and>
    (\<forall>sid now b. fst (session_get (Some sid) now (sessions.performed ttl capacity ops [])) = Some b \<longrightarrow>
      (\<exists>access ident n tokens p c. Open_session access ident n tokens p c \<in> set ops \<and> sid = fst tokens \<and>
        bs_csrf_token b = snd tokens \<and> bs_access_token b = access \<and> safe_identity ident = Inr (bs_identity b) \<and>
        set (bs_identity b) \<subseteq> set ident \<and> fst ` set (bs_identity b) \<subseteq> set identity_required \<union> set identity_optional \<and>
        now < c + of_int ttl \<and> now < c + of_int n)) \<and>
    (\<forall>sid now later. (\<forall>access ident n tokens p c. Open_session access ident n tokens p c \<in> set later \<longrightarrow> fst tokens \<noteq> sid) \<longrightarrow>
      fst (session_get (Some sid) now (sessions.performed ttl capacity (ops @ Log_out (Some sid) # later) [])) = None)"
proof (intro conjI allI impI)
  show "int (length (sessions.performed ttl capacity ops [])) \<le> capacity"
    by (rule sessions.performed_limit) (simp add: assms(1))
next
  fix sid now b assume "fst (session_get (Some sid) now (sessions.performed ttl capacity ops [])) = Some b"
  then obtain d' where "session_get (Some sid) now (sessions.performed ttl capacity ops []) = (Some b, d')" by (metis prod.collapse)
  from session_get_Some [OF this] have stored: "(sid, b) \<in> set (sessions.performed ttl capacity ops [])" and time: "now < bs_expires_at b" by auto
  from stored obtain op where op: "op \<in> set ops" "session_issues ttl op (sid, b)"
    using sessions.performed_issued [of "(sid, b)" ttl capacity ops "[]"] by auto
  from op(2) obtain access ident n tokens p c where o: "op = Open_session access ident n tokens p c"
    by (rule session_issues.elims(2)) (rule that)
  have "(of_int (min ttl n) :: rat) \<le> of_int ttl" "(of_int (min ttl n) :: rat) \<le> of_int n" by simp_all
  moreover have "now < c + of_int (min ttl n)" using op(2) time by (simp add: o)
  ultimately have "now < c + of_int ttl" "now < c + of_int n" by linarith+
  with op o safe_identity_keys [of ident "bs_identity b"]
  show "\<exists>access ident n tokens p c. Open_session access ident n tokens p c \<in> set ops \<and> sid = fst tokens \<and>
      bs_csrf_token b = snd tokens \<and> bs_access_token b = access \<and> safe_identity ident = Inr (bs_identity b) \<and>
      set (bs_identity b) \<subseteq> set ident \<and> fst ` set (bs_identity b) \<subseteq> set identity_required \<union> set identity_optional \<and>
      now < c + of_int ttl \<and> now < c + of_int n"
    by (intro exI [of _ access] exI [of _ ident] exI [of _ n] exI [of _ tokens] exI [of _ p] exI [of _ c]) simp
next
  fix sid now later
  assume fresh: "\<forall>access ident n tokens p c. Open_session access ident n tokens p c \<in> set later \<longrightarrow> fst tokens \<noteq> sid"
  have "\<not> session_issues ttl op (sid, v)" if "op \<in> set later" for op v
  proof
    assume "session_issues ttl op (sid, v)"
    then obtain access ident n tokens p c where "op = Open_session access ident n tokens p c" "sid = fst tokens"
      by (cases op) auto
    with fresh that show False by blast
  qed
  then have "sid \<notin> fst ` set (sessions.performed ttl capacity later (session_destroy (Some sid) (sessions.performed ttl capacity ops [])))"
    by (intro sessions.token_stays_gone destroyed_absent)
  moreover have "sessions.performed ttl capacity (ops @ Log_out (Some sid) # later) [] =
      sessions.performed ttl capacity later (session_destroy (Some sid) (sessions.performed ttl capacity ops []))"
    by (simp add: sessions.performed_def)
  ultimately show "fst (session_get (Some sid) now (sessions.performed ttl capacity (ops @ Log_out (Some sid) # later) [])) = None"
    by (simp add: session_get_absent)
qed

definition demo_members :: members where
  "demo_members = [(''actor_id'', JStr ''anna''), (''tenant_id'', JStr ''acme''), (''actor_kind'', JStr ''HUMAN''),
     (''roles'', JArr [JStr ''APPROVER''])]"

theorem sessions_are_bounded_witness:
  "\<exists>b. fst (session_get (Some ''sid'') 100 (sessions.performed 300 1
      [Open_session ''token'' demo_members 200 (''sid'', ''csrf'') 0 1] [])) = Some b \<and> bs_access_token b = ''token'' \<and>
    fst (session_get (Some ''sid'') 100 (sessions.performed 300 1
      [Open_session ''token'' demo_members 200 (''sid'', ''csrf'') 0 1, Log_out (Some ''sid'')] [])) = None"
proof -
  let ?ops = "[Open_session ''token'' demo_members 200 (''sid'', ''csrf'') 0 1]"
  note bounded = sessions_are_bounded [of 1 300 ?ops]
  have "\<exists>b. fst (session_get (Some ''sid'') 100 (sessions.performed 300 1 ?ops [])) = Some b"
    by (simp add: sessions.performed_def session_create_def safe_identity_def demo_members_def identity_required_def
      identity_optional_def dict_put_def prune_def session_get_def Let_def)
  then obtain b where b: "fst (session_get (Some ''sid'') 100 (sessions.performed 300 1 ?ops [])) = Some b" by blast
  with bounded have "bs_access_token b = ''token''" by simp
  moreover have "fst (session_get (Some ''sid'') 100 (sessions.performed 300 1 (?ops @ [Log_out (Some ''sid'')]) [])) = None"
    using bounded by simp
  ultimately show ?thesis using b by simp
qed

end
