(* ===== verification/Oidc.thy ===== *)
theory Oidc
  imports RuntimeConfig Research Complex_Main
begin

text \<open>
  Authentication by OpenID Connect: the cache of verification keys (\<^verbatim>\<open>oidc/jwks.py\<close>), the
  authenticator (\<^verbatim>\<open>oidc/authenticator.py\<close>) and the MFA policy (\<^verbatim>\<open>oidc/mfa.py\<close>). The JWT
  package and the HTTP client are parameters: reading a header, decoding a token with a key,
  making a key of a JWK, and what a request for the key document returns (\<open>None\<close> where the
  request fails or its answer is not JSON).
\<close>

datatype jwt_error = ExpiredSignatureError | InvalidIssuerError | InvalidAudienceError | PyJWTError

record 'k jwk =
  jk_algorithm_name :: string
  jk_key :: 'k

record 'k jwt_library =
  jl_header :: "string \<Rightarrow> jwt_error + (string \<times> json) list"
  jl_decode :: "string \<Rightarrow> 'k \<Rightarrow> string list \<Rightarrow> string \<Rightarrow> string \<Rightarrow> int \<Rightarrow> jwt_error + (string \<times> json) list"
  jl_from_dict :: "(string \<times> json) list \<Rightarrow> jwt_error + 'k jwk"

text \<open>The handlers of \<^verbatim>\<open>authenticate\<close>, applied where the package raises.\<close>

fun jwt_failure :: "jwt_error \<Rightarrow> exn" where
  "jwt_failure ExpiredSignatureError = AuthenticationFailed ''AUTH_TOKEN_EXPIRED''"
| "jwt_failure InvalidIssuerError = AuthenticationFailed ''AUTH_ISSUER_MISMATCH''"
| "jwt_failure InvalidAudienceError = AuthenticationFailed ''AUTH_AUDIENCE_MISMATCH''"
| "jwt_failure PyJWTError = AuthenticationFailed ''AUTH_TOKEN_INVALID''"

definition jwt_result :: "jwt_error + 'a \<Rightarrow> 'a result" where
  "jwt_result r = (case r of Inl e \<Rightarrow> Inl (jwt_failure e) | Inr x \<Rightarrow> Inr x)"

lemma jwt_result_Inr_iff [monad_simps]: "jwt_result r = Inr x \<longleftrightarrow> r = Inr x"
  by (simp add: jwt_result_def split: sum.split)

section \<open>jwks.py\<close>

record jwks_config =
  jc_issuer :: string
  jc_jwks_uri :: string
  jc_cache_ttl_seconds :: int
  jc_maximum_keys :: int

definition trusted_url :: "bool \<Rightarrow> string \<Rightarrow> bool result" where
  "trusted_url allow_insecure_loopback v =
     bind_result (urlsplit v) (\<lambda>parsed. Inr (us_scheme parsed = ''https'' \<or> (allow_insecure_loopback \<and> is_loopback parsed)))"

definition jwks_init :: "bool \<Rightarrow> jwks_config \<Rightarrow> jwks_config result" where
  "jwks_init allow_insecure_loopback c =
     bind_result (trusted_url allow_insecure_loopback (jc_issuer c)) (\<lambda>issuer.
     bind_result (if issuer then trusted_url allow_insecure_loopback (jc_jwks_uri c) else Inr False) (\<lambda>uri.
     bind_result (ensure uri (ValueError ''OIDC_HTTPS_REQUIRED'')) (\<lambda>_.
     bind_result (ensure (30 \<le> jc_cache_ttl_seconds c \<and> jc_cache_ttl_seconds c \<le> 86400) (ValueError ''INVALID_JWKS_CACHE_TTL'')) (\<lambda>_.
     bind_result (ensure (1 \<le> jc_maximum_keys c \<and> jc_maximum_keys c \<le> 100) (ValueError ''INVALID_JWKS_KEY_LIMIT'')) (\<lambda>_.
     Inr c)))))"

record 'k jwks_cache =
  jw_keys :: "(string \<times> 'k jwk) list"
  jw_expires_at :: rat

text \<open>
  The loop over the keys of the document. Every error in it is raised again as
  \<^verbatim>\<open>INVALID_JWKS_KEY\<close>, except one of the JWT package.
\<close>

fun parse_keys :: "'k jwt_library \<Rightarrow> (string \<times> 'k jwk) list \<Rightarrow> json list \<Rightarrow> (string \<times> 'k jwk) list result" where
  "parse_keys L parsed [] = Inr parsed"
| "parse_keys L parsed (JObj raw # rest) =
     (if map_of raw ''use'' \<notin> {None, Some (JStr ''sig'')} then parse_keys L parsed rest
      else case map_of raw ''kid'' of
        Some (JStr kid) \<Rightarrow>
          if kid = [] \<or> kid \<in> fst ` set parsed \<or> map_of raw ''kty'' \<notin> {Some (JStr ''RSA''), Some (JStr ''EC'')}
          then Inl (JwksResolutionError ''INVALID_JWKS_KEY'')
          else bind_result (jwt_result (jl_from_dict L raw)) (\<lambda>key. parse_keys L (parsed @ [(kid, key)]) rest)
      | _ \<Rightarrow> Inl (JwksResolutionError ''INVALID_JWKS_KEY''))"
| "parse_keys L parsed (_ # rest) = Inl (JwksResolutionError ''INVALID_JWKS_KEY'')"

definition jwks_document :: "'k jwt_library \<Rightarrow> jwks_config \<Rightarrow> json option \<Rightarrow> (string \<times> 'k jwk) list result" where
  "jwks_document L c response =
     (case response of None \<Rightarrow> Inl (JwksResolutionError ''JWKS_UNAVAILABLE'')
      | Some (JObj payload) \<Rightarrow>
          (case map_of payload ''keys'' of
             Some (JArr raw_keys) \<Rightarrow>
               if \<not> (1 \<le> length raw_keys \<and> int (length raw_keys) \<le> jc_maximum_keys c)
               then Inl (JwksResolutionError ''INVALID_JWKS_KEY_COUNT'')
               else bind_result (parse_keys L [] raw_keys) (\<lambda>parsed.
                 if parsed = [] then Inl (JwksResolutionError ''INVALID_JWKS_KEY_COUNT'') else Inr parsed)
           | _ \<Rightarrow> Inl (JwksResolutionError ''INVALID_JWKS_DOCUMENT''))
      | Some _ \<Rightarrow> Inl (JwksResolutionError ''INVALID_JWKS_DOCUMENT''))"

text \<open>What the surroundings answer during one call: the first and the second request, and the clock.\<close>

record jwks_answers =
  ja_now :: rat
  ja_first :: "json option"
  ja_first_at :: rat
  ja_second :: "json option"
  ja_second_at :: rat

definition jwks_refresh :: "'k jwt_library \<Rightarrow> jwks_config \<Rightarrow> json option \<Rightarrow> rat \<Rightarrow> ('k jwks_cache, unit) action" where
  "jwks_refresh L c response fetched_at cache =
     (case jwks_document L c response of
        Inl e \<Rightarrow> (Inl e, cache)
      | Inr parsed \<Rightarrow> (Inr (), \<lparr>jw_keys = parsed, jw_expires_at = fetched_at + of_int (jc_cache_ttl_seconds c)\<rparr>))"

definition jwks_get :: "'k jwt_library \<Rightarrow> jwks_config \<Rightarrow> jwks_answers \<Rightarrow> string \<Rightarrow> string \<Rightarrow> ('k jwks_cache, 'k) action" where
  "jwks_get L c a kid algorithm =
     (if kid = [] \<or> length kid > 256 then raise_action (JwksResolutionError ''INVALID_KEY_ID'')
      else bind_action (\<lambda>cache.
          if ja_now a \<ge> jw_expires_at cache then jwks_refresh L c (ja_first a) (ja_first_at a) cache else (Inr (), cache)) (\<lambda>_.
      bind_action (\<lambda>cache. if map_of (jw_keys cache) kid = None
          then jwks_refresh L c (ja_second a) (ja_second_at a) cache else (Inr (), cache)) (\<lambda>_ cache.
      case map_of (jw_keys cache) kid of
        None \<Rightarrow> (Inl (JwksResolutionError ''OIDC_KEY_NOT_FOUND''), cache)
      | Some key \<Rightarrow>
          if jk_algorithm_name key \<noteq> algorithm then (Inl (JwksResolutionError ''OIDC_KEY_NOT_FOUND''), cache)
          else (Inr (jk_key key), cache))))"

section \<open>authenticator.py\<close>

definition token_invalid :: exn where
  "token_invalid = AuthenticationFailed ''AUTH_TOKEN_INVALID''"

definition KEYCLOAK_ROLE_MAP :: "(string \<times> role) list" where
  "KEYCLOAK_ROLE_MAP = [(''da_admin'', SYSTEM_ADMINISTRATOR), (''tenant_admin'', TENANT_ADMIN),
     (''decision_author'', GENERATOR), (''decision_reviewer'', VALIDATOR), (''decision_approver'', APPROVER),
     (''auditor'', AUDITOR), (''research_operator'', RESEARCH_OPERATOR), (''readonly'', READONLY)]"

definition PRIMARY_ROLE_ORDER :: "role list" where
  "PRIMARY_ROLE_ORDER = [APPROVER, VALIDATOR, GENERATOR, TENANT_ADMIN, RESEARCH_OPERATOR, AUDITOR, READONLY,
     SYSTEM_ADMINISTRATOR, REVIEWER]"

text \<open>\<^verbatim>\<open>_claim\<close>: a path with dots descends into nested objects.\<close>

fun claim_path :: "string list \<Rightarrow> json \<Rightarrow> json result" where
  "claim_path [] v = Inr v"
| "claim_path (part # parts) (JObj kvs) =
     (case map_of kvs part of None \<Rightarrow> Inl token_invalid | Some v \<Rightarrow> claim_path parts v)"
| "claim_path (part # parts) _ = Inl token_invalid"

definition claim :: "(string \<times> json) list \<Rightarrow> string \<Rightarrow> json result" where
  "claim claims name = claim_path (split_at (CHR ''.'') name) (JObj claims)"

fun checked_string :: "json \<Rightarrow> string result" where
  "checked_string (JStr s) = (if py_strip s = [] \<or> length s > 256 then Inl token_invalid else Inr s)"
| "checked_string _ = Inl token_invalid"

definition required_string :: "(string \<times> json) list \<Rightarrow> string \<Rightarrow> string result" where
  "required_string claims name = bind_result (claim claims name) checked_string"

definition optional_string :: "(string \<times> json) list \<Rightarrow> string option \<Rightarrow> string option result" where
  "optional_string claims name =
     (case name of None \<Rightarrow> Inr None
      | Some n \<Rightarrow> if n \<notin> fst ` set claims then Inr None
          else bind_result (claim claims n) (\<lambda>v. bind_result (checked_string v) (\<lambda>s. Inr (Some s))))"

fun nonblank_string :: "json \<Rightarrow> string option" where
  "nonblank_string (JStr s) = (if py_strip s = [] then None else Some s)"
| "nonblank_string _ = None"

definition claim_groups :: "(string \<times> json) list \<Rightarrow> string option \<Rightarrow> string list result" where
  "claim_groups claims name =
     (case name of None \<Rightarrow> Inr []
      | Some n \<Rightarrow> if n \<notin> fst ` set claims then Inr []
          else bind_result (claim claims n) (\<lambda>v.
            case v of
              JArr items \<Rightarrow>
                if length items > 100 \<or> list_ex (\<lambda>i. nonblank_string i = None) items then Inl token_invalid
                else Inr (map (\<lambda>i. the (nonblank_string i)) items)
            | _ \<Rightarrow> Inl token_invalid))"

definition role_required :: exn where
  "role_required = AuthenticationFailed ''AUTH_ROLE_REQUIRED''"

text \<open>\<^verbatim>\<open>_roles\<close>: unknown names are passed over; a set of roles is a list without repetition.\<close>

definition claim_roles :: "(string \<times> json) list \<Rightarrow> string \<Rightarrow> role list result" where
  "claim_roles claims name = bind_result (claim claims name) (\<lambda>v.
     case (case v of JStr s \<Rightarrow> Some [JStr s] | JArr items \<Rightarrow> Some items | _ \<Rightarrow> None) of
       None \<Rightarrow> Inl role_required
     | Some raw_roles \<Rightarrow>
         if \<not> (1 \<le> length raw_roles \<and> length raw_roles \<le> 100) \<or> list_ex (\<lambda>i. nonblank_string i = None) raw_roles
         then Inl role_required
         else
           let mapped = remdups (List.map_filter (\<lambda>i. Option.bind (nonblank_string i) (map_of KEYCLOAK_ROLE_MAP)) raw_roles) in
           if mapped = [] then Inl role_required else Inr mapped)"

definition actor_kind_of :: "string \<Rightarrow> actor_kind result" where
  "actor_kind_of s = (case List.find (\<lambda>k. kind_value k = s) [HUMAN, AGENT, SERVICE] of
     None \<Rightarrow> Inl (ValueError ''ActorKind'') | Some k \<Rightarrow> Inr k)"

definition map_claims :: "oidc_policy \<Rightarrow> (string \<times> json) list \<Rightarrow> identity result" where
  "map_claims P claims =
     bind_result (required_string claims (op_actor_id_claim P)) (\<lambda>actor.
     bind_result (required_string claims (op_tenant_claim P)) (\<lambda>tid.
     bind_result (claim_roles claims (op_role_claim P)) (\<lambda>mapped.
     bind_result (case List.find (\<lambda>r. r \<in> set mapped) PRIMARY_ROLE_ORDER of
         None \<Rightarrow> Inl role_required | Some r \<Rightarrow> Inr r) (\<lambda>primary.
     bind_result (required_string claims (op_actor_kind_claim P)) (\<lambda>kind_text.
     bind_result (actor_kind_of kind_text) (\<lambda>k.
     bind_result (optional_string claims (op_organization_claim P)) (\<lambda>organization.
     bind_result (claim_groups claims (op_groups_claim P)) (\<lambda>gs.
     bind_result (required_string claims ''azp'') (\<lambda>client.
     bind_result (ensure (op_authorized_parties P = [] \<or> client \<in> set (op_authorized_parties P)) token_invalid) (\<lambda>_.
     bind_result (required_string claims ''scope'') (\<lambda>scope_value.
     bind_result (ensure (set (op_required_scopes P) \<subseteq> set (py_split scope_value)) token_invalid) (\<lambda>_.
     bind_result (TenantContext tid) (\<lambda>t.
     identity_post_init \<lparr>actor_id = actor, tenant = t, role = primary, kind = k, organization_id = organization,
       groups = gs, roles = mapped, client_id = Some client, scopes = py_split scope_value\<rparr>)))))))))))))"

text \<open>\<^verbatim>\<open>except (PyJWTError, TypeError, ValueError)\<close>; a \<^verbatim>\<open>JwksResolutionError\<close> is a \<^verbatim>\<open>ValueError\<close>.\<close>

definition authentication_error :: "exn \<Rightarrow> exn" where
  "authentication_error e =
     (case e of TypeError \<Rightarrow> token_invalid | ValueError m \<Rightarrow> token_invalid | JwksResolutionError m \<Rightarrow> token_invalid | _ \<Rightarrow> e)"

definition oidc_authenticate ::
  "'k jwt_library \<Rightarrow> oidc_policy \<Rightarrow> jwks_config \<Rightarrow> jwks_answers \<Rightarrow> string \<Rightarrow> ('k jwks_cache, identity) action" where
  "oidc_authenticate L P c a token cache =
     (case bind_action (lift_result (ensure (token \<noteq> [] \<and> length token \<le> 16384) token_invalid)) (\<lambda>_.
        bind_action (lift_result (jwt_result (jl_header L token))) (\<lambda>header.
        case (map_of header ''alg'', map_of header ''kid'') of
          (Some (JStr algorithm), Some (JStr kid)) \<Rightarrow>
            if algorithm \<notin> set (op_algorithms P) then raise_action token_invalid
            else bind_action (jwks_get L c a kid algorithm) (\<lambda>key.
              bind_action (lift_result (jwt_result
                (jl_decode L token key (op_algorithms P) (op_audience P) (op_issuer P) (op_clock_skew_seconds P)))) (\<lambda>claims.
              lift_result (map_claims P claims)))
        | _ \<Rightarrow> raise_action token_invalid)) cache of
        (Inl e, cache') \<Rightarrow> (Inl (authentication_error e), cache')
      | (Inr i, cache') \<Rightarrow> (Inr i, cache'))"

section \<open>mfa.py\<close>

text \<open>Instants are whole microseconds; a time without a zone is \<open>Naive\<close>.\<close>

record mfa_evidence =
  me_acr :: string
  me_amr :: "string list"
  me_authenticated_at :: pydatetime
  me_policy_version :: string

record mfa_policy =
  mp_version :: string
  mp_required_roles :: "string list"
  mp_allowed_acr :: "string list"
  mp_allowed_methods :: "string list"
  mp_max_auth_age :: int

definition mfa_require :: "mfa_policy \<Rightarrow> string list \<Rightarrow> mfa_evidence option \<Rightarrow> int \<Rightarrow> unit result" where
  "mfa_require M rs evidence now =
     (if set rs \<inter> set (mp_required_roles M) = {} then Inr ()
      else case evidence of None \<Rightarrow> Inl MfaRequired
      | Some e \<Rightarrow>
          if me_acr e \<notin> set (mp_allowed_acr M) \<or> set (me_amr e) \<inter> set (mp_allowed_methods M) = {} \<or>
             me_policy_version e \<noteq> mp_version M \<or>
             (case me_authenticated_at e of Naive t \<Rightarrow> True
              | Aware t \<Rightarrow> now - t > mp_max_auth_age M \<or> t > now)
          then Inl MfaRequired else Inr ())"

section \<open>What an authenticated identity stands on\<close>

lemma parse_keys_signing:
  assumes "parse_keys L parsed raws = Inr keys" "(kid, k) \<in> set keys"
  shows "(kid, k) \<in> set parsed \<or> (\<exists>raw. JObj raw \<in> set raws \<and> map_of raw ''use'' \<in> {None, Some (JStr ''sig'')} \<and>
    map_of raw ''kty'' \<in> {Some (JStr ''RSA''), Some (JStr ''EC'')} \<and> map_of raw ''kid'' = Some (JStr kid) \<and>
    jl_from_dict L raw = Inr k)"
  using assms
proof (induction L parsed raws rule: parse_keys.induct)
  case (2 L parsed raw rest)
  show ?case
  proof (cases "map_of raw ''use'' \<notin> {None, Some (JStr ''sig'')}")
    case True
    with 2 show ?thesis by auto
  next
    case False
    with 2(3) obtain kid' key where k: "map_of raw ''kid'' = Some (JStr kid')"
      "\<not> (kid' = [] \<or> kid' \<in> fst ` set parsed \<or> map_of raw ''kty'' \<notin> {Some (JStr ''RSA''), Some (JStr ''EC'')})"
      "jl_from_dict L raw = Inr key" "parse_keys L (parsed @ [(kid', key)]) rest = Inr keys"
      by (auto simp: monad_simps jwt_result_def split: option.splits json.splits if_splits sum.splits)
    from 2(2) [OF False k(1) refl k(2) k(4) 2(4)] False k show ?thesis by auto
  qed
qed auto

text \<open>The keys of a document: signing keys it names, as the package reads them.\<close>

definition published :: "'k jwt_library \<Rightarrow> jwks_config \<Rightarrow> json option \<Rightarrow> string \<Rightarrow> 'k jwk \<Rightarrow> bool" where
  "published L c response kid k =
     (\<exists>payload raws raw. response = Some (JObj payload) \<and> map_of payload ''keys'' = Some (JArr raws) \<and>
        int (length raws) \<le> jc_maximum_keys c \<and> JObj raw \<in> set raws \<and>
        map_of raw ''use'' \<in> {None, Some (JStr ''sig'')} \<and> map_of raw ''kid'' = Some (JStr kid) \<and>
        map_of raw ''kty'' \<in> {Some (JStr ''RSA''), Some (JStr ''EC'')} \<and> jl_from_dict L raw = Inr k)"

lemma jwks_document_published:
  assumes "jwks_document L c response = Inr keys" "(kid, k) \<in> set keys"
  shows "published L c response kid k"
proof -
  from assms(1) obtain v where v: "response = Some v"
    by (cases response) (simp_all add: jwks_document_def)
  with assms(1) obtain payload where p: "v = JObj payload"
    by (cases v) (simp_all add: jwks_document_def)
  with assms(1) v obtain x where x: "map_of payload ''keys'' = Some x"
    by (cases "map_of payload ''keys''") (simp_all add: jwks_document_def)
  with assms(1) v p obtain raws where "x = JArr raws"
    by (cases x) (simp_all add: jwks_document_def)
  with assms(1) v p x have r: "response = Some (JObj payload)" "map_of payload ''keys'' = Some (JArr raws)"
    "int (length raws) \<le> jc_maximum_keys c" "parse_keys L [] raws = Inr keys"
    by (auto simp: jwks_document_def monad_simps split: if_splits)
  with parse_keys_signing [OF r(4) assms(2)] show ?thesis unfolding published_def by fastforce
qed

lemma jwks_get_Inr:
  assumes "jwks_get L c a kid algorithm cache = (Inr key, cache')"
  obtains k where "jk_key k = key" "jk_algorithm_name k = algorithm" "map_of (jw_keys cache') kid = Some k"
    "cache' = cache \<and> ja_now a < jw_expires_at cache \<or> published L c (ja_first a) kid k \<or> published L c (ja_second a) kid k"
proof -
  from assms obtain c1 where 1: "(if ja_now a \<ge> jw_expires_at cache then jwks_refresh L c (ja_first a) (ja_first_at a) cache
      else (Inr (), cache)) = (Inr (), c1)"
    and 2: "(if map_of (jw_keys c1) kid = None then jwks_refresh L c (ja_second a) (ja_second_at a) c1 else (Inr (), c1))
      = (Inr (), cache')"
    and 3: "(case map_of (jw_keys cache') kid of None \<Rightarrow> (Inl (JwksResolutionError ''OIDC_KEY_NOT_FOUND''), cache')
      | Some key \<Rightarrow> if jk_algorithm_name key \<noteq> algorithm then (Inl (JwksResolutionError ''OIDC_KEY_NOT_FOUND''), cache')
          else (Inr (jk_key key), cache')) = (Inr key, cache')"
    by (auto simp: jwks_get_def monad_simps split: if_splits option.splits)
  from 3 obtain k where k: "map_of (jw_keys cache') kid = Some k" "jk_key k = key" "jk_algorithm_name k = algorithm"
    by (auto split: option.splits if_splits)
  have refreshed: "published L c r kid k" if "jwks_refresh L c r t d = (Inr (), cache')" for r t d
  proof (cases "jwks_document L c r")
    case (Inr keys)
    with that have "jw_keys cache' = keys" by (auto simp: jwks_refresh_def)
    with k(1) have "(kid, k) \<in> set keys" by (auto dest: map_of_SomeD)
    with Inr show ?thesis by (rule jwks_document_published)
  qed (use that in \<open>simp add: jwks_refresh_def\<close>)
  have "cache' = cache \<and> ja_now a < jw_expires_at cache \<or> published L c (ja_first a) kid k \<or> published L c (ja_second a) kid k"
    using 1 2 refreshed by (auto split: if_splits)
  with k that show ?thesis by blast
qed

text \<open>The failures \<^verbatim>\<open>authenticate\<close> turns into its own.\<close>

definition AUTHENTICATION_REASONS :: "string list" where
  "AUTHENTICATION_REASONS = [''AUTH_TOKEN_INVALID'', ''AUTH_TOKEN_EXPIRED'', ''AUTH_ISSUER_MISMATCH'',
     ''AUTH_AUDIENCE_MISMATCH'', ''AUTH_ROLE_REQUIRED'']"

definition handled :: "exn \<Rightarrow> bool" where
  "handled e = (case e of AuthenticationFailed r \<Rightarrow> r \<in> set AUTHENTICATION_REASONS | TypeError \<Rightarrow> True
     | ValueError m \<Rightarrow> True | JwksResolutionError m \<Rightarrow> True | _ \<Rightarrow> False)"

lemma handled_simps [simp]:
  "handled token_invalid" "handled role_required" "handled (ValueError m)" "handled (JwksResolutionError m)"
  "handled TypeError"
  by (simp_all add: handled_def token_invalid_def role_required_def AUTHENTICATION_REASONS_def)

lemma handled_jwt [simp]: "handled (jwt_failure j)"
  by (cases j) (simp_all add: handled_def AUTHENTICATION_REASONS_def)

definition raises_handled :: "'a result \<Rightarrow> bool" where
  "raises_handled r = (case r of Inl e \<Rightarrow> handled e | Inr x \<Rightarrow> True)"

lemma raises_handled_bind [intro!]:
  "raises_handled m \<Longrightarrow> (\<And>x. raises_handled (f x)) \<Longrightarrow> raises_handled (bind_result m f)"
  by (cases m) (simp_all add: raises_handled_def)

lemma raises_handled_basic [simp, intro!]:
  "raises_handled (Inr x)" "raises_handled (Inl e) = handled e" "raises_handled (ensure b e) = (b \<or> handled e)"
  "raises_handled (jwt_result j)"
  by (auto simp: raises_handled_def ensure_def jwt_result_def split: sum.splits)

lemma raises_handled_action:
  "raises_handled (fst (m s)) \<Longrightarrow> (\<And>x s'. raises_handled (fst (f x s'))) \<Longrightarrow> raises_handled (fst (bind_action m f s))"
proof (cases "m s")
  case (Pair r s1)
  assume "raises_handled (fst (m s))" and "\<And>x s'. raises_handled (fst (f x s'))"
  with Pair show ?thesis by (cases r) (simp_all add: bind_action_def)
qed

lemma claim_path_handled [simp, intro!]: "raises_handled (claim_path ps v)"
  by (induction ps v rule: claim_path.induct) (auto split: option.splits)

lemma claim_handled [simp, intro!]: "raises_handled (claim claims n)"
  by (simp add: claim_def)

lemma checked_string_handled [simp, intro!]: "raises_handled (checked_string v)"
  by (cases v) auto

lemma map_claims_handled: "raises_handled (map_claims P claims)"
proof -
  have r: "raises_handled (required_string claims n)" for n by (auto simp: required_string_def)
  moreover have "raises_handled (claim_roles claims n)" for n
    unfolding claim_roles_def by (intro raises_handled_bind claim_handled) (auto simp: Let_def split: option.split json.split)
  moreover have "raises_handled (optional_string claims n)" for n
    by (auto simp: optional_string_def split: option.split)
  moreover have "raises_handled (claim_groups claims n)" for n
    by (auto simp: claim_groups_def split: option.split json.split)
  moreover have "raises_handled (actor_kind_of t)" for t by (auto simp: actor_kind_of_def split: option.split)
  moreover have "raises_handled (TenantContext t)" for t by (simp add: TenantContext_def)
  moreover have "raises_handled (identity_post_init i)" for i
    by (auto simp: identity_post_init_def Let_def)
  moreover have "raises_handled (case List.find p xs of None \<Rightarrow> Inl role_required | Some r \<Rightarrow> Inr r)" for p and xs :: "role list"
    by (simp split: option.split)
  ultimately show ?thesis unfolding map_claims_def by (intro raises_handled_bind) (simp_all)
qed

lemma jwks_get_handled: "raises_handled (fst (jwks_get L c a kid algorithm cache))"
proof -
  have p: "raises_handled (parse_keys L ks raws)" for ks raws
    by (induction L ks raws rule: parse_keys.induct) (auto split: option.splits json.splits)
  have "raises_handled (jwks_document L c r)" for r
    using p by (auto simp: jwks_document_def split: option.split json.split)
  moreover have "fst (jwks_refresh L c r t d) = bind_result (jwks_document L c r) (\<lambda>_. Inr ())" for r t d
    by (simp add: jwks_refresh_def split: sum.split)
  ultimately have "raises_handled (fst (jwks_refresh L c r t d))" for r t d by auto
  then show ?thesis
    unfolding jwks_get_def by (auto intro!: raises_handled_action split: option.split)
qed

end
