(* ===== verification/OidcProperties.thy ===== *)
theory OidcProperties
  imports Oidc
begin

text \<open>The properties of authentication.\<close>

text \<open>The role names a claim carries.\<close>

definition role_names :: "json \<Rightarrow> string list" where
  "role_names v = (case v of JStr s \<Rightarrow> [s] | JArr items \<Rightarrow> List.map_filter nonblank_string items | _ \<Rightarrow> [])"

lemma claim_roles_Inr:
  assumes "claim_roles claims name = Inr rs"
  obtains v where "claim claims name = Inr v" "\<And>r. r \<in> set rs \<Longrightarrow> \<exists>n. n \<in> set (role_names v) \<and> map_of KEYCLOAK_ROLE_MAP n = Some r"
proof -
  from assms obtain v where v: "claim claims name = Inr v" by (auto simp: claim_roles_def monad_simps)
  moreover have "\<exists>n. n \<in> set (role_names v) \<and> map_of KEYCLOAK_ROLE_MAP n = Some r" if "r \<in> set rs" for r
  proof -
    have pick: "\<exists>n. n \<in> set (List.map_filter nonblank_string items) \<and> map_of KEYCLOAK_ROLE_MAP n = Some r"
      if "r \<in> set (List.map_filter (\<lambda>i. Option.bind (nonblank_string i) (map_of KEYCLOAK_ROLE_MAP)) items)" for items
      using that by (induction items) (auto simp: List.map_filter_def bind_eq_Some_conv split: option.splits if_splits)
    from assms v obtain raw where "(case v of JStr s \<Rightarrow> Some [JStr s] | JArr items \<Rightarrow> Some items | _ \<Rightarrow> None) = Some raw"
      and "set rs = set (List.map_filter (\<lambda>i. Option.bind (nonblank_string i) (map_of KEYCLOAK_ROLE_MAP)) raw)"
      by (auto simp: claim_roles_def Let_def split: option.splits if_splits)
    with that pick [of raw] show ?thesis
      by (cases v) (auto simp: role_names_def List.map_filter_def split: if_splits)
  qed
  ultimately show ?thesis using that by blast
qed

lemma find_first: "List.find p xs = Some x \<Longrightarrow> x = hd (filter p xs) \<and> p x"
  by (induction xs) (auto split: if_splits)

lemma map_claims_Inr:
  assumes "map_claims P claims = Inr i"
  shows "claim claims (op_tenant_claim P) = Inr (JStr (tenant i)) \<and> claim claims (op_actor_id_claim P) = Inr (JStr (actor_id i)) \<and>
    claim claims (op_actor_kind_claim P) = Inr (JStr (kind_value (kind i))) \<and>
    claim_roles claims (op_role_claim P) = Inr (roles i) \<and>
    role i = hd (filter (\<lambda>r. r \<in> set (roles i)) PRIMARY_ROLE_ORDER) \<and> role i \<in> set (roles i) \<and>
    set (op_required_scopes P) \<subseteq> set (scopes i) \<and> tenant_id_ok (tenant i) \<and>
    (op_authorized_parties P = [] \<or> (\<exists>c. client_id i = Some c \<and> c \<in> set (op_authorized_parties P)))"
proof -
  have same: "TenantContext x = Inr t \<Longrightarrow> t = x" for x t by (simp add: TenantContext_def split: if_splits)
  have str: "required_string claims n = Inr s \<Longrightarrow> claim claims n = Inr (JStr s)" for n s
    by (auto simp: required_string_def monad_simps elim!: checked_string.elims split: if_splits)
  from assms [unfolded map_claims_def monad_simps sum.inject] obtain actor tid mapped primary kt k org gs client sv where
    m: "required_string claims (op_actor_id_claim P) = Inr actor" "required_string claims (op_tenant_claim P) = Inr tid"
      "claim_roles claims (op_role_claim P) = Inr mapped" "List.find (\<lambda>r. r \<in> set mapped) PRIMARY_ROLE_ORDER = Some primary"
      "required_string claims (op_actor_kind_claim P) = Inr kt" "actor_kind_of kt = Inr k"
      "op_authorized_parties P = [] \<or> client \<in> set (op_authorized_parties P)"
      "set (op_required_scopes P) \<subseteq> set (py_split sv)" "TenantContext tid = Inr tid"
    and i: "identity_post_init \<lparr>actor_id = actor, tenant = tid, role = primary, kind = k, organization_id = org,
       groups = gs, roles = mapped, client_id = Some client, scopes = py_split sv\<rparr> = Inr i"
    using same by blast
  have "mapped \<noteq> []" using find_first [OF m(4)] by auto
  with i have i': "i = \<lparr>actor_id = actor, tenant = tid, role = primary, kind = k, organization_id = org,
       groups = gs, roles = mapped, client_id = Some client, scopes = py_split sv\<rparr>"
    by (auto simp: identity_post_init_def Let_def monad_simps)
  have "List.find (\<lambda>k. kind_value k = kt) [HUMAN, AGENT, SERVICE] = Some k"
    using m(6) unfolding actor_kind_of_def
    by (cases "List.find (\<lambda>k. kind_value k = kt) [HUMAN, AGENT, SERVICE]") (simp_all del: List.find.simps)
  from find_first [OF this] have "kind_value k = kt" by blast
  moreover have "tenant_id_ok tid" using m(9) by (simp add: TenantContext_def split: if_splits)
  moreover have "primary \<in> set mapped" "hd (filter (\<lambda>r. r \<in> set mapped) PRIMARY_ROLE_ORDER) = primary"
    using find_first [OF m(4)] by (blast, metis)
  ultimately show ?thesis using m(1-3,5-8) str by (simp add: i')
qed

text \<open>
  C16. An identity is vouched for. Where a token is accepted, its header names an allowed
  algorithm and a key; that key is one the provider publishes for signatures, fetched for this request
  or cached and not expired, and is of that algorithm; with it the package has decoded the
  token for the configured audience and issuer. Tenant, actor and kind are the claims' own;
  every role is named by the role claim, the primary one being the first in the fixed order;
  the client is an authorised party and the required scopes are there. In particular only a
  token that names decision_approver or tenant_admin can approve.
\<close>

theorem oidc_identity_is_vouched_for:
  assumes "oidc_authenticate L P c a token cache = (Inr i, cache')"
  shows "\<exists>header alg kid k claims v. jl_header L token = Inr header \<and> map_of header ''alg'' = Some (JStr alg) \<and>
    alg \<in> set (op_algorithms P) \<and> map_of header ''kid'' = Some (JStr kid) \<and>
    map_of (jw_keys cache') kid = Some k \<and> jk_algorithm_name k = alg \<and>
    (cache' = cache \<and> ja_now a < jw_expires_at cache \<or> published L c (ja_first a) kid k \<or> published L c (ja_second a) kid k) \<and>
    jl_decode L token (jk_key k) (op_algorithms P) (op_audience P) (op_issuer P) (op_clock_skew_seconds P) = Inr claims \<and>
    claim claims (op_tenant_claim P) = Inr (JStr (tenant i)) \<and> claim claims (op_actor_id_claim P) = Inr (JStr (actor_id i)) \<and>
    claim claims (op_actor_kind_claim P) = Inr (JStr (kind_value (kind i))) \<and>
    claim claims (op_role_claim P) = Inr v \<and>
    (\<forall>r. r \<in> set (roles i) \<longrightarrow> (\<exists>n. n \<in> set (role_names v) \<and> map_of KEYCLOAK_ROLE_MAP n = Some r)) \<and>
    role i = hd (filter (\<lambda>r. r \<in> set (roles i)) PRIMARY_ROLE_ORDER) \<and> role i \<in> set (roles i) \<and>
    set (op_required_scopes P) \<subseteq> set (scopes i) \<and>
    (op_authorized_parties P = [] \<or> (\<exists>c. client_id i = Some c \<and> c \<in> set (op_authorized_parties P))) \<and>
    (authorize i DECISION_APPROVE = Inr () \<longrightarrow>
      ''decision_approver'' \<in> set (role_names v) \<or> ''tenant_admin'' \<in> set (role_names v))"
proof -
  define rest where "rest header = (case (map_of header ''alg'', map_of header ''kid'') of
      (Some (JStr algorithm), Some (JStr kid)) \<Rightarrow>
        if algorithm \<notin> set (op_algorithms P) then raise_action token_invalid
        else bind_action (jwks_get L c a kid algorithm) (\<lambda>key.
          bind_action (lift_result (jwt_result
            (jl_decode L token key (op_algorithms P) (op_audience P) (op_issuer P) (op_clock_skew_seconds P)))) (\<lambda>claims.
          lift_result (map_claims P claims)))
    | _ \<Rightarrow> raise_action token_invalid)" for header
  from assms obtain header where h0: "jl_header L token = Inr header" "rest header cache = (Inr i, cache')"
    unfolding oidc_authenticate_def rest_def [symmetric]
    by (auto simp: monad_simps jwt_result_def split: prod.splits sum.splits)
  obtain alg where alg: "map_of header ''alg'' = Some (JStr alg)"
    using h0(2) by (cases "map_of header ''alg''") (auto simp: rest_def split: json.splits)
  obtain kid where kid: "map_of header ''kid'' = Some (JStr kid)"
    using h0(2) by (cases "map_of header ''kid''") (auto simp: rest_def alg split: json.splits)
  from h0(2) obtain key claims where h: "alg \<in> set (op_algorithms P)" "jwks_get L c a kid alg cache = (Inr key, cache')"
    and claims: "map_claims P claims = Inr i"
    "jl_decode L token key (op_algorithms P) (op_audience P) (op_issuer P) (op_clock_skew_seconds P) = Inr claims"
    by (auto simp: rest_def alg kid monad_simps split: if_splits)
  from jwks_get_Inr [OF h(2)] obtain k where k: "jk_key k = key" "jk_algorithm_name k = alg" "map_of (jw_keys cache') kid = Some k"
    "cache' = cache \<and> ja_now a < jw_expires_at cache \<or> published L c (ja_first a) kid k \<or> published L c (ja_second a) kid k" .
  note m = map_claims_Inr [OF claims(1)]
  from m have cr: "claim_roles claims (op_role_claim P) = Inr (roles i)" by blast
  from cr obtain v where v: "claim claims (op_role_claim P) = Inr v"
    "\<And>r. r \<in> set (roles i) \<Longrightarrow> \<exists>n. n \<in> set (role_names v) \<and> map_of KEYCLOAK_ROLE_MAP n = Some r"
    by (rule claim_roles_Inr) (assumption | rule that)+
  have names: "map_of KEYCLOAK_ROLE_MAP n = Some APPROVER \<Longrightarrow> n = ''decision_approver''"
    "map_of KEYCLOAK_ROLE_MAP n = Some TENANT_ADMIN \<Longrightarrow> n = ''tenant_admin''" for n
    by (auto simp: KEYCLOAK_ROLE_MAP_def split: if_splits)
  have "''decision_approver'' \<in> set (role_names v) \<or> ''tenant_admin'' \<in> set (role_names v)"
    if "authorize i DECISION_APPROVE = Inr ()"
  proof -
    from that obtain r where "r \<in> set (roles i)" "r = APPROVER \<or> r = TENANT_ADMIN"
      by (auto simp: authorize_Inr_iff role_permits_approve_iff)
    with v(2) names show ?thesis by blast
  qed
  then have approve: "authorize i DECISION_APPROVE = Inr () \<longrightarrow>
      ''decision_approver'' \<in> set (role_names v) \<or> ''tenant_admin'' \<in> set (role_names v)" by blast
  have named: "\<forall>r. r \<in> set (roles i) \<longrightarrow> (\<exists>n. n \<in> set (role_names v) \<and> map_of KEYCLOAK_ROLE_MAP n = Some r)"
    using v(2) by blast
  note decoded = claims(2) [folded k(1)]
  show ?thesis
    by (rule_tac x = header in exI, rule_tac x = alg in exI, rule_tac x = kid in exI, rule_tac x = k in exI,
        rule_tac x = claims in exI, rule_tac x = v in exI, insert m, elim conjE, intro conjI)
      (assumption | rule h0(1) alg kid h(1) k decoded v(1) named approve)+
qed

text \<open>
  C35. Authentication fails closed: whatever the token, the key document and the answers of
  the JWT package, it ends with an identity or with one of the five reasons, and nothing else
  is raised.
\<close>

theorem oidc_fails_closed:
  "\<exists>i cache' r. oidc_authenticate L P c a token cache = (Inr i, cache') \<or>
    r \<in> set AUTHENTICATION_REASONS \<and> oidc_authenticate L P c a token cache = (Inl (AuthenticationFailed r), cache')"
proof -
  have "raises_handled (fst (bind_action (lift_result (ensure (token \<noteq> [] \<and> length token \<le> 16384) token_invalid)) (\<lambda>_.
        bind_action (lift_result (jwt_result (jl_header L token))) (\<lambda>header.
        case (map_of header ''alg'', map_of header ''kid'') of
          (Some (JStr algorithm), Some (JStr kid)) \<Rightarrow>
            if algorithm \<notin> set (op_algorithms P) then raise_action token_invalid
            else bind_action (jwks_get L c a kid algorithm) (\<lambda>key.
              bind_action (lift_result (jwt_result
                (jl_decode L token key (op_algorithms P) (op_audience P) (op_issuer P) (op_clock_skew_seconds P)))) (\<lambda>claims.
              lift_result (map_claims P claims)))
        | _ \<Rightarrow> raise_action token_invalid)) cache))" (is "raises_handled (fst ?run)")
    by (auto intro!: raises_handled_action simp: jwks_get_handled map_claims_handled split: option.split json.split)
  moreover have "\<exists>r. r \<in> set AUTHENTICATION_REASONS \<and> authentication_error e = AuthenticationFailed r" if "handled e" for e
    using that by (cases e) (auto simp: handled_def authentication_error_def token_invalid_def AUTHENTICATION_REASONS_def)
  ultimately show ?thesis
    unfolding oidc_authenticate_def by (cases ?run rule: prod.exhaust; cases "fst ?run") (auto simp: raises_handled_def)
qed

definition demo_library :: "unit jwt_library" where
  "demo_library = \<lparr>jl_header = (\<lambda>t. Inr [(''alg'', JStr ''RS256''), (''kid'', JStr ''k'')]),
     jl_decode = (\<lambda>t k algs aud iss leeway. Inr [(''sub'', JStr ''anna''), (''tid'', JStr ''acme''),
       (''role'', JStr ''decision_approver''), (''kind'', JStr ''HUMAN''), (''azp'', JStr ''ui''), (''scope'', JStr ''d'')]),
     jl_from_dict = (\<lambda>raw. Inr \<lparr>jk_algorithm_name = ''RS256'', jk_key = ()\<rparr>)\<rparr>"

definition demo_oidc_policy :: oidc_policy where
  "demo_oidc_policy = \<lparr>op_issuer = ''i'', op_audience = ''a'', op_algorithms = [''RS256''], op_tenant_claim = ''tid'',
     op_actor_id_claim = ''sub'', op_role_claim = ''role'', op_actor_kind_claim = ''kind'', op_organization_claim = None,
     op_groups_claim = None, op_clock_skew_seconds = 30, op_authorized_parties = [''ui''], op_required_scopes = [''d''],
     op_allow_insecure_loopback = False\<rparr>"

definition demo_jwks :: jwks_config where
  "demo_jwks = \<lparr>jc_issuer = ''i'', jc_jwks_uri = ''u'', jc_cache_ttl_seconds = 300, jc_maximum_keys = 20\<rparr>"

definition demo_answers :: jwks_answers where
  "demo_answers = \<lparr>ja_now = 1, ja_first = Some (JObj [(''keys'', JArr [JObj [(''kid'', JStr ''k''), (''kty'', JStr ''RSA'')]])]),
     ja_first_at = 1, ja_second = None, ja_second_at = 2\<rparr>"

definition anna :: identity where
  "anna = \<lparr>actor_id = ''anna'', tenant = ''acme'', role = APPROVER, kind = HUMAN, organization_id = None, groups = [],
     roles = [APPROVER], client_id = Some ''ui'', scopes = [''d'']\<rparr>"

lemma demo_map_claims: "map_claims demo_oidc_policy [(''sub'', JStr ''anna''), (''tid'', JStr ''acme''),
    (''role'', JStr ''decision_approver''), (''kind'', JStr ''HUMAN''), (''azp'', JStr ''ui''), (''scope'', JStr ''d'')] = Inr anna"
  by code_simp

lemma demo_authenticated:
  "oidc_authenticate demo_library demo_oidc_policy demo_jwks demo_answers ''t'' \<lparr>jw_keys = [], jw_expires_at = 0\<rparr> =
    (Inr anna, \<lparr>jw_keys = [(''k'', \<lparr>jk_algorithm_name = ''RS256'', jk_key = ()\<rparr>)], jw_expires_at = 301\<rparr>)"
proof -
  have "''RS256'' \<in> set (op_algorithms demo_oidc_policy)" by (simp add: demo_oidc_policy_def)
  then show ?thesis
    by (simp add: oidc_authenticate_def bind_action_def jwt_result_def jwks_get_def jwks_refresh_def jwks_document_def
      demo_answers_def demo_jwks_def demo_library_def demo_map_claims)
qed

theorem oidc_identity_is_vouched_for_witness:
  "oidc_authenticate demo_library demo_oidc_policy demo_jwks demo_answers ''t'' \<lparr>jw_keys = [], jw_expires_at = 0\<rparr> =
    (Inr anna, \<lparr>jw_keys = [(''k'', \<lparr>jk_algorithm_name = ''RS256'', jk_key = ()\<rparr>)], jw_expires_at = 301\<rparr>) \<and>
   role anna \<in> set (roles anna) \<and> set (op_required_scopes demo_oidc_policy) \<subseteq> set (scopes anna)"
  using oidc_identity_is_vouched_for [OF demo_authenticated] demo_authenticated by blast

end
