(* ===== verification/McpResearch.thy ===== *)
theory McpResearch
  imports ResearchExecution Oidc
begin

text \<open>
  The MCP tools for research: \<^verbatim>\<open>mcp/contracts.py\<close>, \<^verbatim>\<open>policy.py\<close>, \<^verbatim>\<open>auth.py\<close>,
  \<^verbatim>\<open>service.py\<close> and the handlers of \<^verbatim>\<open>server.py\<close>, over the state of the orchestrator.
  The service is the synchronous one, without a submission service and a job repository. A
  request is served from beginning to end before the next. The correlation id is an
  argument; a response is the JSON it is dumped to, and the localized message of an error is
  left out.
\<close>

section \<open>contracts.py\<close>

datatype research_mode = MODE_QUICK | MODE_VERIFIED | MODE_DEEP

fun research_mode_value :: "research_mode \<Rightarrow> string" where
  "research_mode_value MODE_QUICK = ''QUICK''"
| "research_mode_value MODE_VERIFIED = ''VERIFIED''"
| "research_mode_value MODE_DEEP = ''DEEP''"

datatype research_result_kind = RESEARCH_ANSWER | EVIDENCE_BUNDLE | EVIDENCE_BUNDLE_WITH_CONFLICT_ANALYSIS

fun result_kind_value :: "research_result_kind \<Rightarrow> string" where
  "result_kind_value RESEARCH_ANSWER = ''RESEARCH_ANSWER''"
| "result_kind_value EVIDENCE_BUNDLE = ''EVIDENCE_BUNDLE''"
| "result_kind_value EVIDENCE_BUNDLE_WITH_CONFLICT_ANALYSIS = ''EVIDENCE_BUNDLE_WITH_CONFLICT_ANALYSIS''"

record research_start_input =
  si_decision_file_id :: "string option"
  si_case_id :: "string option"
  si_claim_refs :: "string list"
  si_query :: string
  si_locale :: string
  si_preferred_languages :: "string list"
  si_mode :: research_mode
  si_maximum_age_days :: int
  si_allowed_domains :: "string list"
  si_blocked_domains :: "string list"
  si_max_search_results :: "int option"
  si_max_sources_to_extract :: "int option"
  si_idempotency_key :: string

definition length_in :: "nat \<Rightarrow> nat \<Rightarrow> 'a list \<Rightarrow> bool" where
  "length_in least greatest xs = (least \<le> length xs \<and> length xs \<le> greatest)"

definition optional_in :: "int \<Rightarrow> int \<Rightarrow> int option \<Rightarrow> bool" where
  "optional_in least greatest v = (case v of None \<Rightarrow> True | Some n \<Rightarrow> least \<le> n \<and> n \<le> greatest)"

text \<open>The constraints on the fields, then the validator.\<close>

definition start_input_validate :: "research_start_input \<Rightarrow> unit result" where
  "start_input_validate r =
     bind_result (ensure (list_all (\<lambda>v. case v of None \<Rightarrow> True | Some d \<Rightarrow> length_in 1 256 d)
         [si_decision_file_id r, si_case_id r] \<and>
       length_in 1 100 (si_claim_refs r) \<and> length_in 1 400 (si_query r) \<and> length_in 2 35 (si_locale r) \<and>
       length_in 1 5 (si_preferred_languages r) \<and> 1 \<le> si_maximum_age_days r \<and> si_maximum_age_days r \<le> 3650 \<and>
       length (si_allowed_domains r) \<le> 50 \<and> length (si_blocked_domains r) \<le> 50 \<and>
       optional_in 1 20 (si_max_search_results r) \<and> optional_in 1 10 (si_max_sources_to_extract r) \<and>
       length_in 1 128 (si_idempotency_key r)) (ValueError ''FIELD_CONSTRAINT'')) (\<lambda>_.
     bind_result (ensure ((si_decision_file_id r = None) \<noteq> (si_case_id r = None))
       (ValueError ''EXACTLY_ONE_RESEARCH_TARGET_REQUIRED'')) (\<lambda>_.
     bind_result (ensure (distinct (si_claim_refs r)) (ValueError ''INVALID_CLAIM_REFS'')) (\<lambda>_.
     ensure (case (si_max_search_results r, si_max_sources_to_extract r) of
         (Some n, Some m) \<Rightarrow> m \<le> n | _ \<Rightarrow> True) (ValueError ''INVALID_EXTRACTION_LIMIT''))))"

text \<open>\<^verbatim>\<open>target_id\<close>: the first of the two that is set and not empty.\<close>

definition target_id :: "research_start_input \<Rightarrow> string result" where
  "target_id r =
     (case (if si_decision_file_id r \<in> {None, Some []} then si_case_id r else si_decision_file_id r) of
        None \<Rightarrow> Inl (ValueError ''RESEARCH_TARGET_REQUIRED'') | Some v \<Rightarrow> Inr v)"

definition json_int_opt :: "int option \<Rightarrow> json" where
  "json_int_opt v = (case v of None \<Rightarrow> JNull | Some n \<Rightarrow> JInt n)"

definition start_input_json :: "research_start_input \<Rightarrow> json" where
  "start_input_json r = JObj [(''schema_version'', JStr ''0.5.0''),
     (''decision_file_id'', json_opt (si_decision_file_id r)), (''case_id'', json_opt (si_case_id r)),
     (''claim_refs'', jstrs (si_claim_refs r)), (''query'', JStr (si_query r)), (''locale'', JStr (si_locale r)),
     (''preferred_languages'', jstrs (si_preferred_languages r)), (''mode'', JStr (research_mode_value (si_mode r))),
     (''maximum_age_days'', JInt (si_maximum_age_days r)), (''allowed_domains'', jstrs (si_allowed_domains r)),
     (''blocked_domains'', jstrs (si_blocked_domains r)),
     (''max_search_results'', json_int_opt (si_max_search_results r)),
     (''max_sources_to_extract'', json_int_opt (si_max_sources_to_extract r)),
     (''idempotency_key'', JStr (si_idempotency_key r))]"

record research_mutation_input =
  mi_research_run_id :: string
  mi_locale :: string
  mi_idempotency_key :: string

definition mutation_input_json :: "research_mutation_input \<Rightarrow> json" where
  "mutation_input_json r = JObj [(''schema_version'', JStr ''0.5.0''), (''research_run_id'', JStr (mi_research_run_id r)),
     (''locale'', JStr (mi_locale r)), (''idempotency_key'', JStr (mi_idempotency_key r))]"

section \<open>policy.py\<close>

record mcp_policy =
  server_max_search_results :: int
  server_max_sources_to_extract :: int

record effective_research_limits =
  el_max_search_results :: int
  el_max_sources_to_extract :: int
  el_result_kind :: research_result_kind

definition mcp_policy_post_init :: "mcp_policy \<Rightarrow> mcp_policy result" where
  "mcp_policy_post_init p =
     bind_result (ensure (1 \<le> server_max_search_results p \<and> server_max_search_results p \<le> 20)
       (ValueError ''INVALID_CONFIGURED_SEARCH_LIMIT'')) (\<lambda>_.
     bind_result (ensure (1 \<le> server_max_sources_to_extract p \<and>
         server_max_sources_to_extract p \<le> min (server_max_search_results p) 10)
       (ValueError ''INVALID_CONFIGURED_EXTRACTION_LIMIT'')) (\<lambda>_. Inr p))"

fun mode_limits :: "research_mode \<Rightarrow> int \<times> int \<times> research_result_kind" where
  "mode_limits MODE_QUICK = (5, 2, RESEARCH_ANSWER)"
| "mode_limits MODE_VERIFIED = (10, 5, EVIDENCE_BUNDLE)"
| "mode_limits MODE_DEEP = (20, 10, EVIDENCE_BUNDLE_WITH_CONFLICT_ANALYSIS)"

text \<open>\<^verbatim>\<open>requested or default\<close>: zero counts as not requested.\<close>

definition int_or :: "int option \<Rightarrow> int \<Rightarrow> int" where
  "int_or requested usual = (case requested of None \<Rightarrow> usual | Some n \<Rightarrow> if n = 0 then usual else n)"

definition effective_limits :: "mcp_policy \<Rightarrow> research_mode \<Rightarrow> int option \<Rightarrow> int option \<Rightarrow> effective_research_limits" where
  "effective_limits p mode requested_search_results requested_extractions =
     (case mode_limits mode of (mode_search, mode_extract, result_kind) \<Rightarrow>
       let search = min (min (int_or requested_search_results mode_search) mode_search) (server_max_search_results p);
           extractions = min (min (int_or requested_extractions mode_extract) mode_extract)
             (min (server_max_sources_to_extract p) search)
       in \<lparr>el_max_search_results = search, el_max_sources_to_extract = extractions, el_result_kind = result_kind\<rparr>)"

text \<open>The policy of the service where none is given.\<close>

definition default_mcp_policy :: "research_env \<Rightarrow> mcp_policy result" where
  "default_mcp_policy E = mcp_policy_post_init
     \<lparr>server_max_search_results = rpol_max_search_results (oe_policy E),
      server_max_sources_to_extract = rpol_max_extractions (oe_policy E)\<rparr>"

section \<open>auth.py\<close>

text \<open>The claims of an access token, which only the verifier makes; every member has its type.\<close>

record access_claims =
  ac_actor_id :: string
  ac_tenant_id :: string
  ac_role :: string
  ac_kind :: string
  ac_organization_id :: "string option"
  ac_groups :: "string list"

definition token_claims :: "identity \<Rightarrow> access_claims" where
  "token_claims i = \<lparr>ac_actor_id = actor_id i, ac_tenant_id = tenant i, ac_role = role_value (role i),
     ac_kind = kind_value (kind i), ac_organization_id = organization_id i, ac_groups = groups i\<rparr>"

text \<open>The exceptions that are a \<^verbatim>\<open>ValueError\<close>.\<close>

fun is_value_error :: "exn \<Rightarrow> bool" where
  "is_value_error (ValueError m) = True"
| "is_value_error ContractValidationError = True"
| "is_value_error (DecisionFileSemanticError ms) = True"
| "is_value_error (TransitionRejected ms) = True"
| "is_value_error (IntakeTransitionRejected m) = True"
| "is_value_error (ConfirmationRejected m) = True"
| "is_value_error (CompilationRejected m) = True"
| "is_value_error (InvalidJobTransition m) = True"
| "is_value_error (JobConflict m) = True"
| "is_value_error (LifecycleConflict m) = True"
| "is_value_error (ResearchTransitionRejected m) = True"
| "is_value_error (UrlPolicyRejected m) = True"
| "is_value_error (EvidenceNormalizationRejected m) = True"
| "is_value_error (DecisionEvidenceHandoffRejected m) = True"
| "is_value_error (IdempotencyConflict m) = True"
| "is_value_error (BrowserOidcError m) = True"
| "is_value_error (AuthenticationFailed m) = True"
| "is_value_error (JwksResolutionError m) = True"
| "is_value_error MfaRequired = True"
| "is_value_error (ExportRejected m) = True"
| "is_value_error (ExportValidationError m) = True"
| "is_value_error (EventVersionError m) = True"
| "is_value_error _ = False"

definition verify_token :: "(string \<Rightarrow> identity result) \<Rightarrow> string \<Rightarrow> access_claims option result" where
  "verify_token authenticate token =
     (case authenticate token of
        Inr i \<Rightarrow> Inr (Some (token_claims i))
      | Inl e \<Rightarrow> if is_value_error e then Inr None else Inl e)"

definition role_named :: "string \<Rightarrow> role result" where
  "role_named s = (case List.find (\<lambda>r. role_value r = s) [GENERATOR, VALIDATOR, APPROVER, AUDITOR, REVIEWER, TENANT_ADMIN,
       SYSTEM_ADMINISTRATOR, RESEARCH_OPERATOR, READONLY] of
     None \<Rightarrow> Inl (ValueError ''Role'') | Some r \<Rightarrow> Inr r)"

definition current_identity :: "access_claims option \<Rightarrow> identity result" where
  "current_identity claims =
     (case claims of None \<Rightarrow> Inl (McpApplicationError ''UNAUTHENTICATED'' None)
      | Some c \<Rightarrow>
          (case bind_result (TenantContext (ac_tenant_id c)) (\<lambda>t.
              bind_result (role_named (ac_role c)) (\<lambda>r.
              bind_result (actor_kind_of (ac_kind c)) (\<lambda>k.
              identity_post_init \<lparr>actor_id = ac_actor_id c, tenant = t, role = r, kind = k,
                organization_id = ac_organization_id c, groups = ac_groups c, roles = [], client_id = None,
                scopes = []\<rparr>))) of
             Inl e \<Rightarrow> Inl (McpApplicationError ''UNAUTHENTICATED'' None) | Inr i \<Rightarrow> Inr i))"

section \<open>service.py\<close>

definition mcp_error :: "string \<Rightarrow> exn" where
  "mcp_error code = McpApplicationError code None"

definition mcp_require :: "identity \<Rightarrow> permission \<Rightarrow> unit orchestration" where
  "mcp_require i p = lift_result (case authorize i p of Inl e \<Rightarrow> Inl (mcp_error ''FORBIDDEN'') | Inr u \<Rightarrow> Inr u)"

definition mcp_required :: "identity \<Rightarrow> string \<Rightarrow> research_run orchestration" where
  "mcp_required i rid = bind_action (read_state (\<lambda>s. research_get (tenant i) rid (ob_repo s))) (\<lambda>found.
     case found of None \<Rightarrow> raise_action (mcp_error ''NOT_FOUND'') | Some run \<Rightarrow> pure_action run)"

text \<open>\<^verbatim>\<open>_begin\<close>: a replay is the stored response, which validates as what it was dumped from.\<close>

definition mcp_begin :: "identity \<Rightarrow> string \<Rightarrow> string \<Rightarrow> string \<Rightarrow> json option orchestration" where
  "mcp_begin i operation key digest s =
     (case reserve_research_idempotency (tenant i) (actor_id i) operation key digest (ob_repo s) of
        Inl e \<Rightarrow> (Inl (McpApplicationError ''CONFLICT'' (Some (case e of
          IdempotencyConflict m \<Rightarrow> ''IDEMPOTENCY_KEY_REUSED'' | _ \<Rightarrow> ''IDEMPOTENCY_REQUEST_IN_PROGRESS''))), s)
      | Inr (replay, db) \<Rightarrow> (Inr (map_option snd replay), s\<lparr>ob_repo := db\<rparr>))"

definition mcp_finish :: "identity \<Rightarrow> string \<Rightarrow> string \<Rightarrow> string \<Rightarrow> json \<Rightarrow> unit orchestration" where
  "mcp_finish i operation key digest response s =
     (case complete_research_idempotency (tenant i) (actor_id i) operation key digest 200 response (ob_repo s) of
        Inl e \<Rightarrow> (Inl e, s) | Inr db \<Rightarrow> (Inr (), s\<lparr>ob_repo := db\<rparr>))"

definition mcp_release :: "identity \<Rightarrow> string \<Rightarrow> string \<Rightarrow> string \<Rightarrow> orch \<Rightarrow> orch" where
  "mcp_release i operation key digest s =
     s\<lparr>ob_repo := release_research_idempotency (tenant i) (actor_id i) operation key digest (ob_repo s)\<rparr>"

text \<open>\<^verbatim>\<open>str(error)\<close> where the model keeps it; the texts it does not keep contain a colon and a space.\<close>

definition error_text :: "exn \<Rightarrow> string" where
  "error_text e = (case e of ValueError m \<Rightarrow> m | ResearchTransitionRejected m \<Rightarrow> m
     | DecisionEvidenceHandoffRejected m \<Rightarrow> m | UrlPolicyRejected m \<Rightarrow> m | EvidenceNormalizationRejected m \<Rightarrow> m
     | _ \<Rightarrow> '': '')"

definition safe_reason :: "exn \<Rightarrow> string" where
  "safe_reason e = (let v = error_text e; letters = filter (\<lambda>c. c \<noteq> CHR ''_'') v in
     if v \<noteq> [] \<and> length v \<le> 128 \<and> letters \<noteq> [] \<and> list_all is_alnum letters then v else ''OPERATION_REJECTED'')"

text \<open>The \<^verbatim>\<open>try\<close> around the call of the orchestrator: every exception releases the key.\<close>

definition mcp_try ::
  "identity \<Rightarrow> string \<Rightarrow> string \<Rightarrow> string \<Rightarrow> string \<Rightarrow> research_run orchestration \<Rightarrow> research_run orchestration" where
  "mcp_try i operation key digest code call s =
     (case call s of
        (Inr run, s') \<Rightarrow> (Inr run, s')
      | (Inl e, s') \<Rightarrow> (Inl (if is_value_error e then McpApplicationError code (Some (safe_reason e)) else e),
          mcp_release i operation key digest s'))"

definition evidence_view :: "evidence_candidate \<Rightarrow> json" where
  "evidence_view e = (let a = ec_assessment e in JObj [(''evidence_id'', JStr (ec_evidence_id e)),
     (''claim_refs'', jstrs (ec_claim_refs e)), (''source_id'', JStr (ec_source_id e)),
     (''snapshot_id'', JStr (ec_snapshot_id e)), (''content_hash'', JStr (ec_content_hash e)),
     (''freshness_status'', JStr (ea_freshness_status a)), (''conflict_status'', JStr (ea_conflict_status a)),
     (''usable_for_decision'', JBool (ea_usable_for_decision a)),
     (''requires_human_review'', JBool (ea_requires_human_review a)),
     (''prompt_injection_suspected'', JBool (prompt_injection_suspected (ec_risk e))),
     (''reason_codes'', jstrs (ea_reason_codes a))])"

definition source_view :: "source_candidate \<Rightarrow> json" where
  "source_view x = JObj [(''source_id'', JStr (sc_source_id x)), (''canonical_url'', JStr (sc_canonical_url x)),
     (''domain'', JStr (sc_domain x)), (''title'', JStr (sc_title x)), (''rank'', JInt (sc_rank x)),
     (''extraction_status'', JStr (sc_status x)), (''reason_codes'', jstrs (sc_reason_codes x))]"

definition mcp_success :: "research_run \<Rightarrow> research_mode option \<Rightarrow> research_result_kind option \<Rightarrow> json" where
  "mcp_success run mode result_kind =
     (let conflicts = map ec_evidence_id (filter (\<lambda>e. ea_conflict_status (ec_assessment e) = ''CONFLICTING'') (run_evidence run));
          view = JObj [(''research_run_id'', JStr (run_id run)),
            (''decision_file_id'', JStr (rq_decision_file_id (run_request run))),
            (''status'', JStr (research_status_value (run_status run))),
            (''mode'', json_opt (map_option research_mode_value mode)),
            (''result_kind'', json_opt (map_option result_kind_value result_kind)),
            (''created_at'', JStr (run_created_at run)), (''updated_at'', JStr (run_updated_at run)),
            (''correlation_id'', JStr (run_correlation_id run)),
            (''audit_event_ids'', jstrs (map rv_event_id (run_audit_events run))),
            (''source_count'', JInt (int (length (run_sources run)))),
            (''evidence_count'', JInt (int (length (run_evidence run)))),
            (''provider_cost_units'', JInt (run_cost_units run)),
            (''compiled_decision_file_id'', json_opt (run_compiled_decision_file_id run)),
            (''requires_human_review'', JBool (conflicts \<noteq> [] \<or>
              list_ex (\<lambda>e. ea_requires_human_review (ec_assessment e)) (run_evidence run))),
            (''sources'', JArr (map source_view (run_sources run))),
            (''evidence_bundle_draft'', JArr (map evidence_view (run_evidence run))),
            (''conflict_evidence_ids'', jstrs conflicts),
            (''error_codes'', jstrs (map re_reason_code (run_errors run))),
            (''job_id'', JNull), (''job_status'', JNull)]
      in JObj [(''schema_version'', JStr ''0.5.0''), (''ok'', JBool True), (''correlation_id'', JStr (run_correlation_id run)),
           (''result'', view), (''error'', JNull)])"

definition mcp_contract :: "research_start_input \<Rightarrow> string \<Rightarrow> effective_research_limits \<Rightarrow> research_request result" where
  "mcp_contract r target limits =
     (let freshness = \<lparr>maximum_age_days = si_maximum_age_days r, prefer_recent = True\<rparr>;
          request = \<lparr>rq_decision_file_id = target, rq_claim_refs = si_claim_refs r, rq_query = si_query r,
            rq_locale = si_locale r, rq_preferred_languages = si_preferred_languages r,
            rq_max_search_results = el_max_search_results limits,
            rq_max_sources_to_extract = el_max_sources_to_extract limits,
            rq_allowed_domains = si_allowed_domains r, rq_blocked_domains = si_blocked_domains r,
            rq_freshness = freshness,
            rq_research_policy = (if si_mode r = MODE_QUICK then ''standard'' else ''high-assurance''),
            rq_force_refresh = False, rq_schema_version = ''0.4.0''\<rparr>
      in bind_result (freshness_post_init freshness) (\<lambda>_. bind_result (research_request_post_init request) (\<lambda>_. Inr request)))"

definition mcp_digest :: "research_env \<Rightarrow> json \<Rightarrow> string" where
  "mcp_digest E payload = payload_hash (esha E) payload"

text \<open>What follows once a request may go on: replay, or the call, and then its response is kept.\<close>

definition mcp_settle ::
  "identity \<Rightarrow> string \<Rightarrow> string \<Rightarrow> string \<Rightarrow> string \<Rightarrow> (research_run \<Rightarrow> json) \<Rightarrow>
   research_run orchestration \<Rightarrow> json orchestration" where
  "mcp_settle i operation key digest code respond call =
     bind_action (mcp_try i operation key digest code call) (\<lambda>run.
     bind_action (mcp_finish i operation key digest (respond run)) (\<lambda>_.
     pure_action (respond run)))"

definition mcp_start :: "research_env \<Rightarrow> mcp_policy \<Rightarrow> string \<Rightarrow> identity \<Rightarrow> research_start_input \<Rightarrow> json orchestration" where
  "mcp_start E P correlation i r =
     bind_action (mcp_require i RESEARCH_CREATE) (\<lambda>_.
     let operation = ''mcp:research_start''; digest = mcp_digest E (start_input_json r) in
     bind_action (lift_result (target_id r)) (\<lambda>target.
     bind_action (read_state (\<lambda>s. repo_get_decision (tenant i) target (hd_store (ob_handoff s)))) (\<lambda>found.
     case found of None \<Rightarrow> raise_action (mcp_error ''NOT_FOUND'')
     | Some document \<Rightarrow>
         bind_action (lift_result (ensure (df_status document = DRAFT)
           (McpApplicationError ''CONFLICT'' (Some ''DECISION_NOT_DRAFT'')))) (\<lambda>_.
         bind_action (lift_result (ensure (set (si_claim_refs r) \<subseteq> claim_id ` set (df_claims document))
           (McpApplicationError ''INVALID_REQUEST'' (Some ''CLAIM_REFERENCE_NOT_FOUND'')))) (\<lambda>_.
         let limits = effective_limits P (si_mode r) (si_max_search_results r) (si_max_sources_to_extract r) in
         bind_action (mcp_begin i operation (si_idempotency_key r) digest) (\<lambda>replay.
         case replay of Some response \<Rightarrow> pure_action response
         | None \<Rightarrow>
             bind_action (lift_result (mcp_contract r target limits)) (\<lambda>contract.
             mcp_settle i operation (si_idempotency_key r) digest ''INVALID_REQUEST''
               (\<lambda>run. mcp_success run (Some (si_mode r)) (Some (el_result_kind limits)))
               (execute E (tenant i) (actor_id i) contract (payload_hash (esha E) (decision_json document))
                 correlation None))))))))"

definition mcp_get :: "identity \<Rightarrow> string \<Rightarrow> json orchestration" where
  "mcp_get i rid =
     bind_action (mcp_require i RESEARCH_READ) (\<lambda>_.
     bind_action (mcp_required i rid) (\<lambda>run. pure_action (mcp_success run None None)))"

text \<open>\<^verbatim>\<open>_mutate_async\<close>, and the like of it that \<^verbatim>\<open>cancel\<close> and \<^verbatim>\<open>handoff\<close> write out.\<close>

definition mcp_mutate ::
  "research_env \<Rightarrow> identity \<Rightarrow> research_mutation_input \<Rightarrow> string \<Rightarrow> research_run orchestration \<Rightarrow> json orchestration" where
  "mcp_mutate E i r tool call =
     bind_action (mcp_required i (mi_research_run_id r)) (\<lambda>_.
     let operation = ''mcp:'' @ tool @ '':'' @ mi_research_run_id r; digest = mcp_digest E (mutation_input_json r) in
     bind_action (mcp_begin i operation (mi_idempotency_key r) digest) (\<lambda>replay.
     case replay of Some response \<Rightarrow> pure_action response
     | None \<Rightarrow> mcp_settle i operation (mi_idempotency_key r) digest ''CONFLICT'' (\<lambda>run. mcp_success run None None) call))"

definition mcp_retry :: "research_env \<Rightarrow> string \<Rightarrow> identity \<Rightarrow> research_mutation_input \<Rightarrow> json orchestration" where
  "mcp_retry E correlation i r =
     bind_action (mcp_require i RESEARCH_RETRY) (\<lambda>_.
     mcp_mutate E i r ''research_retry'' (retry_run E (tenant i) (actor_id i) (mi_research_run_id r) correlation))"

definition mcp_cancel :: "research_env \<Rightarrow> string \<Rightarrow> identity \<Rightarrow> research_mutation_input \<Rightarrow> json orchestration" where
  "mcp_cancel E correlation i r =
     bind_action (mcp_require i RESEARCH_CANCEL) (\<lambda>_.
     mcp_mutate E i r ''research_cancel'' (cancel_run E (tenant i) (actor_id i) (mi_research_run_id r) correlation))"

definition mcp_handoff :: "research_env \<Rightarrow> string \<Rightarrow> identity \<Rightarrow> research_mutation_input \<Rightarrow> json orchestration" where
  "mcp_handoff E correlation i r =
     bind_action (mcp_require i RESEARCH_HANDOFF) (\<lambda>_.
     mcp_mutate E i r ''research_handoff'' (handoff_run E (tenant i) (actor_id i) (mi_research_run_id r) correlation))"

section \<open>server.py\<close>

datatype tool_call =
    Research_start research_start_input
  | Research_get string
  | Research_retry research_mutation_input
  | Research_cancel research_mutation_input
  | Research_handoff research_mutation_input

text \<open>A response, or the code and the reason of an error response.\<close>

datatype tool_answer = Tool_ok json | Tool_error string "string option"

text \<open>\<^verbatim>\<open>_guard\<close>: other exceptions become an internal error.\<close>

fun mcp_guard :: "json result \<Rightarrow> tool_answer" where
  "mcp_guard (Inr response) = Tool_ok response"
| "mcp_guard (Inl (McpApplicationError code reason)) = Tool_error code reason"
| "mcp_guard (Inl _) = Tool_error ''INTERNAL_ERROR'' None"

fun mcp_tool :: "research_env \<Rightarrow> mcp_policy \<Rightarrow> string \<Rightarrow> identity \<Rightarrow> tool_call \<Rightarrow> json orchestration" where
  "mcp_tool E P correlation i (Research_start r) = mcp_start E P correlation i r"
| "mcp_tool E P correlation i (Research_get rid) = mcp_get i rid"
| "mcp_tool E P correlation i (Research_retry r) = mcp_retry E correlation i r"
| "mcp_tool E P correlation i (Research_cancel r) = mcp_cancel E correlation i r"
| "mcp_tool E P correlation i (Research_handoff r) = mcp_handoff E correlation i r"

definition mcp_serve ::
  "research_env \<Rightarrow> mcp_policy \<Rightarrow> string \<Rightarrow> access_claims option \<Rightarrow> tool_call \<Rightarrow> orch \<Rightarrow> tool_answer \<times> orch" where
  "mcp_serve E P correlation claims call s =
     (case bind_action (lift_result (current_identity claims)) (\<lambda>i. mcp_tool E P correlation i call) s of
        (r, s') \<Rightarrow> (mcp_guard r, s'))"

text \<open>A history of requests: correlation id, claims of the token, tool.\<close>

type_synonym tool_request = "string \<times> access_claims option \<times> tool_call"

fun mcp_history :: "research_env \<Rightarrow> mcp_policy \<Rightarrow> tool_request list \<Rightarrow> orch \<Rightarrow> orch" where
  "mcp_history E P [] s = s"
| "mcp_history E P ((correlation, claims, call) # requests) s =
     mcp_history E P requests (snd (mcp_serve E P correlation claims call s))"

end
