(* ===== verification/McpProperties.thy ===== *)
theory McpProperties
  imports McpResearch ResearchFrames ResearchDemo
begin

text \<open>
  What the MCP tools guarantee over whole histories of requests: they never decide, never
  reach another tenant, keep idempotency keys, and stay within the configured limits.
\<close>

section \<open>Idempotency rows\<close>

type_synonym key_of_row = "string \<times> string \<times> string \<times> string"

definition row_at :: "key_of_row \<Rightarrow> orch \<Rightarrow> research_idempotency_row option" where
  "row_at k s = row_find research_idempotency_key k (rp_idempotency (ob_repo s))"

definition key_for :: "identity \<Rightarrow> string \<Rightarrow> string \<Rightarrow> key_of_row" where
  "key_for i operation key = (tenant i, actor_id i, operation, key)"

definition reserved_row :: "identity \<Rightarrow> string \<Rightarrow> string \<Rightarrow> string \<Rightarrow> research_idempotency_row" where
  "reserved_row i operation key digest = \<lparr>ri_tenant = tenant i, ri_actor_id = actor_id i, ri_operation = operation,
     ri_key = key, ri_request_hash = digest, ri_status_code = IN_PROGRESS_STATUS, ri_response = in_progress_response\<rparr>"

definition completed_row :: "identity \<Rightarrow> string \<Rightarrow> string \<Rightarrow> string \<Rightarrow> json \<Rightarrow> research_idempotency_row" where
  "completed_row i operation key digest response =
     (reserved_row i operation key digest)\<lparr>ri_status_code := 200, ri_response := response\<rparr>"

lemma row_fields [simp]:
  "ri_tenant (reserved_row i operation key digest) = tenant i"
  "ri_tenant (completed_row i operation key digest response) = tenant i"
  "ri_status_code (reserved_row i operation key digest) = IN_PROGRESS_STATUS"
  "ri_status_code (completed_row i operation key digest response) = 200"
  "ri_request_hash (reserved_row i operation key digest) = digest"
  "ri_request_hash (completed_row i operation key digest response) = digest"
  "ri_response (completed_row i operation key digest response) = response"
  "ri_actor_id (reserved_row i operation key digest) = actor_id i"
  "ri_actor_id (completed_row i operation key digest response) = actor_id i"
  "ri_operation (reserved_row i operation key digest) = operation"
  "ri_operation (completed_row i operation key digest response) = operation"
  "ri_key (reserved_row i operation key digest) = key"
  "ri_key (completed_row i operation key digest response) = key"
  by (simp_all add: reserved_row_def completed_row_def key_for_def)

lemma row_at_leaves_be: "leaves_be t s s' \<Longrightarrow> row_at k s' = row_at k s"
  by (simp add: row_at_def leaves_be_def)

lemma begin_cases:
  assumes "mcp_begin i operation key digest s = (r, s')"
  obtains (fresh) "row_at (key_for i operation key) s = None" "r = Inr None"
      "s' = s\<lparr>ob_repo := (ob_repo s)\<lparr>rp_idempotency := rp_idempotency (ob_repo s) @ [reserved_row i operation key digest]\<rparr>\<rparr>"
  | (replay) q where "row_at (key_for i operation key) s = Some q" "ri_request_hash q = digest"
      "ri_status_code q \<noteq> IN_PROGRESS_STATUS" "r = Inr (Some (ri_response q))" "s' = s"
  | (conflict) q where "row_at (key_for i operation key) s = Some q" "s' = s"
      "r = Inl (McpApplicationError ''CONFLICT'' (Some (if ri_request_hash q = digest
        then ''IDEMPOTENCY_REQUEST_IN_PROGRESS'' else ''IDEMPOTENCY_KEY_REUSED'')))"
  using assms
  by (cases "row_at (key_for i operation key) s")
    (auto simp: mcp_begin_def reserve_research_idempotency_def row_at_def key_for_def reserved_row_def ensure_def
      split: if_splits)

text \<open>The three ways in which a request that was let through ends.\<close>

lemma settle_cases:
  assumes fresh: "row_at (key_for i operation key) s = None"
    and reserved: "s1 = s\<lparr>ob_repo := (ob_repo s)\<lparr>rp_idempotency := rp_idempotency (ob_repo s) @ [reserved_row i operation key digest]\<rparr>\<rparr>"
    and frame: "frame (leaves_be (tenant i)) call"
    and run: "mcp_settle i operation key digest code respond call s1 = (r, s')"
  obtains (completed) run s2 where "call s1 = (Inr run, s2)" "r = Inr (respond run)"
      "s' = s2\<lparr>ob_repo := (ob_repo s2)\<lparr>rp_idempotency := rp_idempotency (ob_repo s) @ [completed_row i operation key digest (respond run)]\<rparr>\<rparr>"
      "leaves_be (tenant i) s1 s2"
  | (released) e s2 where "call s1 = (Inl e, s2)" "\<exists>e'. r = Inl e'"
      "s' = s2\<lparr>ob_repo := (ob_repo s2)\<lparr>rp_idempotency := rp_idempotency (ob_repo s)\<rparr>\<rparr>"
      "leaves_be (tenant i) s1 s2"
proof -
  let ?k = "key_for i operation key" and ?rows = "rp_idempotency (ob_repo s)"
  obtain q s2 where call: "call s1 = (q, s2)" by (cases "call s1")
  have be: "leaves_be (tenant i) s1 s2" using frame call by (rule frameD)
  then have rows: "rp_idempotency (ob_repo s2) = ?rows @ [reserved_row i operation key digest]"
    by (simp add: leaves_be_def reserved)
  have none: "\<not> pending_row (tenant i) (actor_id i) operation key digest x" if "x \<in> set ?rows" for x
    using fresh that by (auto simp: row_at_def row_find_None_iff key_for_def pending_row_def image_iff)
  have this_row: "pending_row (tenant i) (actor_id i) operation key digest (reserved_row i operation key digest)"
    by (simp add: pending_row_def reserved_row_def)
  note pending = filter_empty_conv none this_row
  have released: "filter (\<lambda>x. \<not> pending_row (tenant i) (actor_id i) operation key digest x) (rp_idempotency (ob_repo s2)) = ?rows"
    by (simp add: rows pending filter_id_conv)
  show thesis
  proof (cases q)
    case (Inl e)
    with run call have "\<exists>e'. r = Inl e'" "s' = mcp_release i operation key digest s2"
      by (auto simp: mcp_settle_def bind_action_def mcp_try_def)
    then show thesis using that(2) [of e s2] call be Inl released
      by (simp add: mcp_release_def release_research_idempotency_def)
  next
    case (Inr run)
    let ?row = "completed_row i operation key digest (respond run)"
    have "filter (pending_row (tenant i) (actor_id i) operation key digest) (rp_idempotency (ob_repo s2)) =
        [reserved_row i operation key digest]"
      by (simp add: rows pending)
    moreover have "map (\<lambda>x. if pending_row (tenant i) (actor_id i) operation key digest x
        then x\<lparr>ri_status_code := 200, ri_response := respond run\<rparr> else x) (rp_idempotency (ob_repo s2)) = ?rows @ [?row]"
      by (simp add: rows none this_row completed_row_def map_idI)
    ultimately have "mcp_finish i operation key digest (respond run) s2 =
        (Inr (), s2\<lparr>ob_repo := (ob_repo s2)\<lparr>rp_idempotency := ?rows @ [?row]\<rparr>\<rparr>)"
      by (simp add: mcp_finish_def complete_research_idempotency_def ensure_def)
    with \<open>mcp_settle i operation key digest code respond call s1 = (r, s')\<close> call Inr show thesis
      using that(1) [of run s2] be by (simp add: mcp_settle_def mcp_try_def bind_action_def)
  qed
qed

text \<open>A request after its checks: the key is reserved, then there is a response, stored or new.\<close>

definition keyed ::
  "identity \<Rightarrow> string \<Rightarrow> string \<Rightarrow> string \<Rightarrow> string \<Rightarrow> 'c result \<Rightarrow> (research_run \<Rightarrow> json) \<Rightarrow>
   ('c \<Rightarrow> research_run orchestration) \<Rightarrow> json orchestration" where
  "keyed i operation key digest code contract respond call =
     bind_action (mcp_begin i operation key digest) (\<lambda>replay. case replay of Some response \<Rightarrow> pure_action response
     | None \<Rightarrow> bind_action (lift_result contract) (\<lambda>c. mcp_settle i operation key digest code respond (call c)))"

lemma bind_lift_Inr [simp]: "bind_action (lift_result (Inr x)) f = f x"
  by (simp add: bind_action_def lift_result_def fun_eq_iff)

lemma keyed_cases:
  assumes frame: "\<And>c. frame (leaves_be (tenant i)) (call c)"
    and run: "keyed i operation key digest code contract respond call s = (r, s')"
  obtains (replay) q where "row_at (key_for i operation key) s = Some q" "ri_request_hash q = digest"
      "ri_status_code q \<noteq> IN_PROGRESS_STATUS" "r = Inr (ri_response q)" "s' = s"
  | (conflict) q where "row_at (key_for i operation key) s = Some q" "s' = s"
      "r = Inl (McpApplicationError ''CONFLICT'' (Some (if ri_request_hash q = digest
        then ''IDEMPOTENCY_REQUEST_IN_PROGRESS'' else ''IDEMPOTENCY_KEY_REUSED'')))"
  | (stuck) e where "row_at (key_for i operation key) s = None" "contract = Inl e" "r = Inl e"
      "s' = s\<lparr>ob_repo := (ob_repo s)\<lparr>rp_idempotency := rp_idempotency (ob_repo s) @ [reserved_row i operation key digest]\<rparr>\<rparr>"
  | (completed) response s1 s2 where "row_at (key_for i operation key) s = None" "r = Inr response"
      "s1 = s\<lparr>ob_repo := (ob_repo s)\<lparr>rp_idempotency := rp_idempotency (ob_repo s) @ [reserved_row i operation key digest]\<rparr>\<rparr>"
      "s' = s2\<lparr>ob_repo := (ob_repo s2)\<lparr>rp_idempotency := rp_idempotency (ob_repo s) @ [completed_row i operation key digest response]\<rparr>\<rparr>"
      "leaves_be (tenant i) s1 s2" "\<exists>c. contract = Inr c"
  | (released) e s1 s2 where "row_at (key_for i operation key) s = None" "r = Inl e" "\<exists>c. contract = Inr c"
      "s1 = s\<lparr>ob_repo := (ob_repo s)\<lparr>rp_idempotency := rp_idempotency (ob_repo s) @ [reserved_row i operation key digest]\<rparr>\<rparr>"
      "s' = s2\<lparr>ob_repo := (ob_repo s2)\<lparr>rp_idempotency := rp_idempotency (ob_repo s)\<rparr>\<rparr>"
      "leaves_be (tenant i) s1 s2"
proof -
  obtain q s1 where b: "mcp_begin i operation key digest s = (q, s1)" by (cases "mcp_begin i operation key digest s")
  from b show thesis
  proof (cases rule: begin_cases)
    case (replay q')
    have "r = Inr (ri_response q') \<and> s' = s" using run b replay(4,5) by (simp add: keyed_def bind_action_def)
    with that(1) [OF replay(1-3)] show thesis by blast
  next
    case (conflict q')
    have "s' = s" "r = Inl (McpApplicationError ''CONFLICT'' (Some (if ri_request_hash q' = digest
        then ''IDEMPOTENCY_REQUEST_IN_PROGRESS'' else ''IDEMPOTENCY_KEY_REUSED'')))"
      using run b conflict(2,3) by (simp_all add: keyed_def bind_action_def)
    with that(2) [OF conflict(1)] show thesis by blast
  next
    case fresh
    show thesis
    proof (cases contract)
      case (Inl e)
      have "r = Inl e \<and> s' = s1" using run b fresh(2) Inl by (simp add: keyed_def bind_action_def lift_result_def)
      with that(3) [OF fresh(1) Inl] fresh(3) show thesis by blast
    next
      case (Inr c)
      with b run fresh have settle: "mcp_settle i operation key digest code respond (call c) s1 = (r, s')"
        by (simp add: keyed_def bind_action_def lift_result_def)
      from fresh(1,3) frame settle show thesis
      proof (cases rule: settle_cases)
        case (completed run s2)
        show thesis by (rule that(4) [OF fresh(1) completed(2) fresh(3) completed(3,4)]) (simp add: Inr)
      next
        case (released e s2)
        then obtain e' where "r = Inl e'" by blast
        with that(5) [OF fresh(1) _ _ fresh(3) released(3,4)] Inr show thesis by simp
      qed
    qed
  qed
qed

text \<open>What a request may change: a row of the idempotency table that is there stays.\<close>

definition serves :: "string \<Rightarrow> orch \<Rightarrow> orch \<Rightarrow> bool" where
  "serves t s s' = (stored_keys (ob_repo s) \<subseteq> stored_keys (ob_repo s') \<and>
     documents_kept (hd_store (ob_handoff s)) (hd_store (ob_handoff s')) \<and> others_kept t s s' \<and>
     (\<forall>k q. row_at k s = Some q \<longrightarrow> row_at k s' = Some q) \<and>
     (\<forall>k. fst k \<noteq> t \<longrightarrow> row_at k s' = row_at k s))"

lemma serves_row: "serves t s s' \<Longrightarrow> row_at k s = Some q \<Longrightarrow> row_at k s' = Some q"
  unfolding serves_def by blast

lemma serves_other: "serves t s s' \<Longrightarrow> fst k \<noteq> t \<Longrightarrow> row_at k s' = row_at k s"
  unfolding serves_def by blast

interpretation tools: framed "serves t" for t
  by unfold_locales (auto simp: serves_def documents_kept_refl others_kept_same
      intro: documents_kept_trans others_kept_trans)

lemma rows_serve:
  assumes "leaves_be t s1 s2" "s1 = s\<lparr>ob_repo := (ob_repo s)\<lparr>rp_idempotency := rows1\<rparr>\<rparr>"
    and "s' = s2\<lparr>ob_repo := (ob_repo s2)\<lparr>rp_idempotency := rp_idempotency (ob_repo s) @ rows2\<rparr>\<rparr>"
    and "\<forall>x \<in> set rows2. ri_tenant x = t"
  shows "serves t s s'"
proof -
  have "row_find research_idempotency_key k rows2 = None" if "fst k \<noteq> t" for k
    using assms(4) that by (auto simp: row_find_None_iff)
  with assms(1-3) show ?thesis
    by (auto simp: serves_def leaves_be_def row_at_def stored_keys_def others_kept_def research_get_def split: option.splits)
qed

lemma keyed_serves:
  assumes "\<And>c. frame (leaves_be (tenant i)) (call c)"
  shows "frame (serves (tenant i)) (keyed i operation key digest code contract respond call)"
proof (rule frameI)
  fix s r s' assume "keyed i operation key digest code contract respond call s = (r, s')"
  from assms this show "serves (tenant i) s s'"
  proof (cases rule: keyed_cases)
    case (stuck e)
    then show ?thesis by (intro rows_serve [OF orch.stays refl, where ?rows2.0 = "[reserved_row i operation key digest]"]) simp_all
  next
    case (completed response s1 s2)
    show ?thesis by (rule rows_serve [OF completed(5,3,4)]) simp
  next
    case (released e s1 s2)
    then show ?thesis by (intro rows_serve [where ?rows2.0 = "[]"]) simp_all
  qed (simp_all add: tools.stays)
qed

lemma mutate_keyed: "mcp_mutate E i r tool call =
    bind_action (mcp_required i (mi_research_run_id r)) (\<lambda>_.
      keyed i (''mcp:'' @ tool @ '':'' @ mi_research_run_id r) (mi_idempotency_key r) (mcp_digest E (mutation_input_json r))
        ''CONFLICT'' (Inr ()) (\<lambda>run. mcp_success run None None) (\<lambda>_. call))"
  unfolding mcp_mutate_def keyed_def Let_def bind_lift_Inr ..

text \<open>The checks of \<^verbatim>\<open>start\<close>: the document they find.\<close>

definition start_document :: "identity \<Rightarrow> research_start_input \<Rightarrow> orch \<Rightarrow> decision_file result" where
  "start_document i r s =
     bind_result (target_id r) (\<lambda>target.
     case repo_get_decision (tenant i) target (hd_store (ob_handoff s)) of
       None \<Rightarrow> Inl (mcp_error ''NOT_FOUND'')
     | Some document \<Rightarrow>
         bind_result (ensure (df_status document = DRAFT) (McpApplicationError ''CONFLICT'' (Some ''DECISION_NOT_DRAFT''))) (\<lambda>_.
         bind_result (ensure (set (si_claim_refs r) \<subseteq> claim_id ` set (df_claims document))
           (McpApplicationError ''INVALID_REQUEST'' (Some ''CLAIM_REFERENCE_NOT_FOUND''))) (\<lambda>_. Inr document)))"

definition start_contract :: "mcp_policy \<Rightarrow> research_start_input \<Rightarrow> research_request result" where
  "start_contract P r = bind_result (target_id r) (\<lambda>target.
     mcp_contract r target (effective_limits P (si_mode r) (si_max_search_results r) (si_max_sources_to_extract r)))"

lemma start_keyed: "mcp_start E P correlation i r s =
   (case authorize i RESEARCH_CREATE of Inl e \<Rightarrow> (Inl (mcp_error ''FORBIDDEN''), s) | Inr u \<Rightarrow>
   (case start_document i r s of Inl e \<Rightarrow> (Inl e, s) | Inr document \<Rightarrow>
     keyed i ''mcp:research_start'' (si_idempotency_key r) (mcp_digest E (start_input_json r)) ''INVALID_REQUEST''
       (start_contract P r)
       (\<lambda>run. mcp_success run (Some (si_mode r)) (Some (el_result_kind (effective_limits P (si_mode r)
          (si_max_search_results r) (si_max_sources_to_extract r)))))
       (\<lambda>contract. execute E (tenant i) (actor_id i) contract (payload_hash (esha E) (decision_json document)) correlation None) s))"
  by (cases "target_id r")
    (simp_all add: mcp_start_def mcp_require_def start_document_def start_contract_def keyed_def Let_def bind_action_def
      ensure_def split: sum.split option.split)

lemmas tool_frames = frame_retry frame_cancel frame_handoff frame_execute

lemma serves_read: "frame (serves t) (mcp_require i p)" "frame (serves t) (mcp_required i rid)"
  unfolding mcp_require_def mcp_required_def by (intro tools.bind tools.optional tools.basic)+

lemma mutate_serves:
  "frame (leaves_be (tenant i)) call \<Longrightarrow> frame (serves (tenant i)) (mcp_mutate E i r tool call)"
  unfolding mutate_keyed by (intro tools.bind serves_read keyed_serves)

lemma tool_serves: "frame (serves (tenant i)) (mcp_tool E P correlation i call)"
proof (cases call)
  case (Research_start r)
  have "frame (serves (tenant i)) (mcp_start E P correlation i r)"
  proof (rule frameI)
    fix s x s' assume "mcp_start E P correlation i r s = (x, s')"
    then show "serves (tenant i) s s'"
      by (auto simp: start_keyed tools.stays split: sum.splits elim!: frameD [OF keyed_serves [OF frame_execute]])
  qed
  with Research_start show ?thesis by simp
next
  case (Research_get rid)
  then show ?thesis by (simp add: mcp_get_def) (intro tools.bind serves_read tools.basic)
next
  case (Research_retry r)
  then show ?thesis by (simp add: mcp_retry_def) (intro tools.bind serves_read mutate_serves tool_frames)
next
  case (Research_cancel r)
  then show ?thesis by (simp add: mcp_cancel_def) (intro tools.bind serves_read mutate_serves tool_frames)
next
  case (Research_handoff r)
  then show ?thesis by (simp add: mcp_handoff_def) (intro tools.bind serves_read mutate_serves tool_frames)
qed

lemma current_identity_Inr:
  assumes "current_identity claims = Inr i"
  obtains c r k where "claims = Some c" "role_named (ac_role c) = Inr r" "actor_kind_of (ac_kind c) = Inr k"
    "identity_post_init \<lparr>actor_id = ac_actor_id c, tenant = ac_tenant_id c, role = r, kind = k,
       organization_id = ac_organization_id c, groups = ac_groups c, roles = [], client_id = None, scopes = []\<rparr> = Inr i"
proof -
  from assms obtain c where c: "claims = Some c" by (auto simp: current_identity_def split: option.splits)
  define read where "read = bind_result (TenantContext (ac_tenant_id c)) (\<lambda>t.
    bind_result (role_named (ac_role c)) (\<lambda>r.
    bind_result (actor_kind_of (ac_kind c)) (\<lambda>k.
    identity_post_init \<lparr>actor_id = ac_actor_id c, tenant = t, role = r, kind = k,
      organization_id = ac_organization_id c, groups = ac_groups c, roles = [], client_id = None, scopes = []\<rparr>)))"
  from assms c have "(case read of Inl e \<Rightarrow> Inl (McpApplicationError ''UNAUTHENTICATED'' None) | Inr i \<Rightarrow> Inr i) = Inr i"
    unfolding current_identity_def read_def by simp
  then have "read = Inr i" by (cases read) simp_all
  then obtain t r k where "TenantContext (ac_tenant_id c) = Inr t" "role_named (ac_role c) = Inr r"
    "actor_kind_of (ac_kind c) = Inr k" "identity_post_init \<lparr>actor_id = ac_actor_id c, tenant = t, role = r, kind = k,
      organization_id = ac_organization_id c, groups = ac_groups c, roles = [], client_id = None, scopes = []\<rparr> = Inr i"
    unfolding read_def bind_result_Inr_iff by blast
  moreover from this(1) have "t = ac_tenant_id c" by (simp add: TenantContext_def split: if_splits)
  ultimately show thesis using that c by simp
qed

lemma current_identity_tenant:
  assumes "current_identity claims = Inr i"
  shows "\<exists>c. claims = Some c \<and> tenant i = ac_tenant_id c"
  using assms by (rule current_identity_Inr) (auto dest: identity_post_init_Inr)

lemma serve_serves:
  assumes "mcp_serve E P correlation claims call s = (answer, s')"
  shows "(\<exists>c. claims = Some c \<and> serves (ac_tenant_id c) s s') \<or> s' = s"
proof (cases "current_identity claims")
  case (Inl e)
  with assms show ?thesis by (simp add: mcp_serve_def bind_action_def)
next
  case (Inr i)
  with assms obtain r where "mcp_tool E P correlation i call s = (r, s')"
    by (auto simp: mcp_serve_def split: prod.splits)
  then have "serves (tenant i) s s'" using tool_serves by (rule frameD [rotated])
  with current_identity_tenant [OF Inr] show ?thesis by auto
qed

section \<open>Histories\<close>

definition callers :: "tool_request list \<Rightarrow> string set" where
  "callers requests = {ac_tenant_id c |correlation c call. (correlation, Some c, call) \<in> set requests}"

lemma history_rows: "row_at k s = Some q \<Longrightarrow> row_at k (mcp_history E P requests s) = Some q"
proof (induction requests arbitrary: s)
  case (Cons request requests)
  obtain correlation claims call where request: "request = (correlation, claims, call)" by (cases request)
  obtain answer s' where served: "mcp_serve E P correlation claims call s = (answer, s')" by (cases "mcp_serve E P correlation claims call s")
  from serve_serves [OF served] Cons.prems have "row_at k s' = Some q" by (auto dest: serves_row)
  from Cons.IH [OF this] show ?case by (simp add: request served)
qed simp

lemma history_stored: "stored_keys (ob_repo s) \<subseteq> stored_keys (ob_repo (mcp_history E P requests s))"
proof (induction requests arbitrary: s)
  case (Cons request requests)
  obtain correlation claims call where request: "request = (correlation, claims, call)" by (cases request)
  obtain answer s' where served: "mcp_serve E P correlation claims call s = (answer, s')" by (cases "mcp_serve E P correlation claims call s")
  from serve_serves [OF served] Cons.IH [of s'] show ?case by (auto simp: request served serves_def)
qed simp

lemma history_documents:
  "documents_kept (hd_store (ob_handoff s)) (hd_store (ob_handoff (mcp_history E P requests s)))"
proof (induction requests arbitrary: s)
  case Nil
  then show ?case by (simp add: documents_kept_refl)
next
  case (Cons request requests)
  obtain correlation claims call where request: "request = (correlation, claims, call)" by (cases request)
  obtain answer s' where served: "mcp_serve E P correlation claims call s = (answer, s')" by (cases "mcp_serve E P correlation claims call s")
  from serve_serves [OF served] have "documents_kept (hd_store (ob_handoff s)) (hd_store (ob_handoff s'))"
    by (auto simp: serves_def documents_kept_refl)
  with Cons.IH [of s'] show ?case by (simp add: request served documents_kept_trans)
qed

lemma history_others:
  assumes "t \<notin> callers requests"
  shows "repo_get_decision t did (hd_store (ob_handoff (mcp_history E P requests s))) = repo_get_decision t did (hd_store (ob_handoff s)) \<and>
    research_get t rid (ob_repo (mcp_history E P requests s)) = research_get t rid (ob_repo s) \<and>
    row_at (t, k) (mcp_history E P requests s) = row_at (t, k) s"
  using assms
proof (induction requests arbitrary: s)
  case (Cons request requests)
  obtain correlation claims call where request: "request = (correlation, claims, call)" by (cases request)
  obtain answer s' where served: "mcp_serve E P correlation claims call s = (answer, s')" by (cases "mcp_serve E P correlation claims call s")
  have "t \<notin> callers requests" and "claims = Some c \<Longrightarrow> ac_tenant_id c \<noteq> t" for c
    using Cons.prems by (auto simp: callers_def request)
  with serve_serves [OF served] have "repo_get_decision t did (hd_store (ob_handoff s')) = repo_get_decision t did (hd_store (ob_handoff s)) \<and>
      research_get t rid (ob_repo s') = research_get t rid (ob_repo s) \<and> row_at (t, k) s' = row_at (t, k) s"
    using serves_other [of _ s s' "(t, k)"] by (auto simp: serves_def others_kept_def)
  with Cons.IH [of s'] \<open>t \<notin> callers requests\<close> show ?case by (simp add: request served)
qed simp

section \<open>What the tools never do\<close>

text \<open>
  C7. The tools do not decide. Whatever requests are served, in whatever order and with
  whatever answers of the outside world: no decision appears or goes away, and status,
  outcome, approvals, validation results, claims and canonical action of every decision are
  as they were; only a draft may change, and only by gaining evidence that is not VERIFIED.
\<close>

theorem mcp_tools_never_decide:
  "case repo_get_decision t did (hd_store (ob_handoff s)) of
     None \<Rightarrow> repo_get_decision t did (hd_store (ob_handoff (mcp_history E P requests s))) = None
   | Some d \<Rightarrow> \<exists>d'. repo_get_decision t did (hd_store (ob_handoff (mcp_history E P requests s))) = Some d' \<and>
       df_status d' = df_status d \<and> df_decision_outcome d' = df_decision_outcome d \<and>
       df_outcome_reasons d' = df_outcome_reasons d \<and> df_approvals d' = df_approvals d \<and>
       df_validation_results d' = df_validation_results d \<and> df_claims d' = df_claims d \<and>
       df_canonical_action d' = df_canonical_action d \<and>
       (d' = d \<or> df_status d = DRAFT) \<and>
       (\<exists>items. df_evidence d' = df_evidence d @ items \<and> VERIFIED \<notin> ev_status ` set items)"
proof (cases "repo_get_decision t did (hd_store (ob_handoff s))")
  case None
  with history_documents [of s E P requests, unfolded documents_kept_def, rule_format, of t did] show ?thesis by simp
next
  case (Some d)
  with history_documents [of s E P requests, unfolded documents_kept_def, rule_format, of t did]
  obtain d' where d': "repo_get_decision t did (hd_store (ob_handoff (mcp_history E P requests s))) = Some d'"
    and gain: "gains_evidence d d'" by auto
  then obtain items events changed where e: "d' = d\<lparr>df_evidence := df_evidence d @ items, df_updated_at := changed,
      df_audit_events := df_audit_events d @ events\<rparr>" "VERIFIED \<notin> ev_status ` set items" "d' = d \<or> df_status d = DRAFT"
    by (auto simp: gains_evidence_def)
  show ?thesis unfolding Some option.case
    by (rule exI [of _ d'], intro conjI) (use d' e in \<open>simp_all add: e(1)\<close>)
qed

text \<open>
  C38. The tools keep tenants apart. A history of requests none of which carries a token of a
  tenant leaves everything of that tenant as it was: its decisions, its runs and its
  idempotency keys, whatever identifiers the requests name.
\<close>

theorem mcp_tools_keep_tenants_apart:
  assumes "t \<notin> callers requests"
  shows "repo_get_decision t did (hd_store (ob_handoff (mcp_history E P requests s))) = repo_get_decision t did (hd_store (ob_handoff s)) \<and>
    research_get t rid (ob_repo (mcp_history E P requests s)) = research_get t rid (ob_repo s) \<and>
    row_at (t, k) (mcp_history E P requests s) = row_at (t, k) s"
  by (rule history_others) (rule assms)

section \<open>Idempotency\<close>

lemma start_document_kept:
  assumes "start_document i r s = Inr d"
    and "documents_kept (hd_store (ob_handoff s)) (hd_store (ob_handoff s'))"
  shows "\<exists>d'. start_document i r s' = Inr d'"
proof -
  from assms(1) obtain target where t: "target_id r = Inr target"
      "repo_get_decision (tenant i) target (hd_store (ob_handoff s)) = Some d" "df_status d = DRAFT"
      "set (si_claim_refs r) \<subseteq> claim_id ` set (df_claims d)"
    by (auto simp: start_document_def monad_simps)
  with assms(2) [unfolded documents_kept_def, rule_format, of "tenant i" target] obtain d' where
    "repo_get_decision (tenant i) target (hd_store (ob_handoff s')) = Some d'" "gains_evidence d d'" by auto
  moreover from this(2) have "df_status d' = df_status d" "df_claims d' = df_claims d"
    by (auto simp: gains_evidence_def)
  ultimately show ?thesis using t by (simp add: start_document_def ensure_def)
qed

lemma keyed_completed:
  assumes "\<And>c. frame (leaves_be (tenant i)) (call c)"
    and "keyed i operation key digest code contract respond call s = (Inr response, s')"
  shows "\<exists>q. row_at (key_for i operation key) s' = Some q \<and> ri_request_hash q = digest \<and>
    ri_status_code q \<noteq> IN_PROGRESS_STATUS \<and> ri_response q = response"
  using assms
proof (cases rule: keyed_cases)
  case (completed response' s1 s2)
  then show ?thesis by (auto simp: row_at_def IN_PROGRESS_STATUS_def key_for_def split: option.split)
qed auto

lemma keyed_replay:
  assumes "row_at (key_for i operation key) s = Some q" "ri_status_code q \<noteq> IN_PROGRESS_STATUS"
  shows "keyed i operation key (ri_request_hash q) code contract respond call s = (Inr (ri_response q), s)"
  using assms by (simp add: keyed_def bind_action_def mcp_begin_def reserve_research_idempotency_def row_at_def key_for_def ensure_def)

text \<open>A mutation that was answered is answered by its row wherever its run and its row are there.\<close>

lemma mutate_replay:
  assumes frame: "frame (leaves_be (tenant i)) call"
    and run: "mcp_mutate E i r tool call s = (Inr response, s1)"
    and rows: "\<And>k q. row_at k s1 = Some q \<Longrightarrow> row_at k s2 = Some q"
    and stored: "stored_keys (ob_repo s1) \<subseteq> stored_keys (ob_repo s2)"
  shows "mcp_mutate E i r tool call' s2 = (Inr response, s2)"
proof -
  let ?op = "''mcp:'' @ tool @ '':'' @ mi_research_run_id r" and ?dig = "mcp_digest E (mutation_input_json r)"
  have found: "mcp_required i (mi_research_run_id r) s' = (Inr x, s'') \<longleftrightarrow>
      research_get (tenant i) (mi_research_run_id r) (ob_repo s') = Some x \<and> s'' = s'" for s' x s''
    by (auto simp: mcp_required_def bind_action_def split: option.split)
  have there: "research_get (tenant i) (mi_research_run_id r) (ob_repo s') \<noteq> None \<longleftrightarrow>
      (tenant i, mi_research_run_id r) \<in> stored_keys (ob_repo s')" for s'
    by (simp add: research_get_def row_find_None_iff stored_keys_def)
  from run obtain x where x: "research_get (tenant i) (mi_research_run_id r) (ob_repo s) = Some x"
    and k: "keyed i ?op (mi_idempotency_key r) ?dig ''CONFLICT'' (Inr ()) (\<lambda>run. mcp_success run None None) (\<lambda>_. call) s = (Inr response, s1)"
    unfolding mutate_keyed monad_simps found by auto
  from keyed_completed [OF frame k] rows obtain q where q: "row_at (key_for i ?op (mi_idempotency_key r)) s2 = Some q"
    "ri_request_hash q = ?dig" "ri_status_code q \<noteq> IN_PROGRESS_STATUS" "ri_response q = response" by blast
  have "frame (serves (tenant i)) (keyed i ?op (mi_idempotency_key r) ?dig ''CONFLICT'' (Inr ())
      (\<lambda>run. mcp_success run None None) (\<lambda>_. call))" by (rule keyed_serves) (rule frame)
  from frameD [OF this k] have "stored_keys (ob_repo s) \<subseteq> stored_keys (ob_repo s1)" by (simp add: serves_def)
  moreover from x have "(tenant i, mi_research_run_id r) \<in> stored_keys (ob_repo s)" using there [of s] by simp
  ultimately have "research_get (tenant i) (mi_research_run_id r) (ob_repo s2) \<noteq> None" using stored there by blast
  then obtain y where "mcp_required i (mi_research_run_id r) s2 = (Inr y, s2)" unfolding found by blast
  moreover have "keyed i ?op (mi_idempotency_key r) ?dig ''CONFLICT'' (Inr ()) (\<lambda>run. mcp_success run None None)
      (\<lambda>_. call') s2 = (Inr response, s2)"
    using keyed_replay [OF q(1,3)] by (simp add: q)
  ultimately show ?thesis unfolding mutate_keyed by (simp add: bind_action_def)
qed

lemma mcp_require_Inr: "mcp_require i p s = (Inr u, s') \<longleftrightarrow> authorize i p = Inr () \<and> s' = s"
  by (cases "authorize i p") (auto simp: mcp_require_def)

text \<open>Every tool but the reading one replays what it has answered.\<close>

lemma tool_replay:
  assumes run: "mcp_tool E P correlation i call s = (Inr response, s1)" and call: "\<forall>rid. call \<noteq> Research_get rid"
    and rows: "\<And>k q. row_at k s1 = Some q \<Longrightarrow> row_at k s2 = Some q"
    and stored: "stored_keys (ob_repo s1) \<subseteq> stored_keys (ob_repo s2)"
    and documents: "documents_kept (hd_store (ob_handoff s1)) (hd_store (ob_handoff s2))"
  shows "mcp_tool E P correlation' i call s2 = (Inr response, s2)"
proof -
  note again = mutate_replay [OF _ _ rows stored]
  show ?thesis
  proof (cases call)
    case (Research_start r)
    let ?digest = "mcp_digest E (start_input_json r)"
    from run Research_start obtain d where auth: "authorize i RESEARCH_CREATE = Inr ()"
      and d: "start_document i r s = Inr d"
      and k: "keyed i ''mcp:research_start'' (si_idempotency_key r) ?digest ''INVALID_REQUEST'' (start_contract P r)
        (\<lambda>run. mcp_success run (Some (si_mode r)) (Some (el_result_kind (effective_limits P (si_mode r)
          (si_max_search_results r) (si_max_sources_to_extract r)))))
        (\<lambda>contract. execute E (tenant i) (actor_id i) contract (payload_hash (esha E) (decision_json d)) correlation None) s
        = (Inr response, s1)"
      by (auto simp: start_keyed split: sum.splits)
    from frameD [OF keyed_serves [OF frame_execute] k] documents
    have "documents_kept (hd_store (ob_handoff s)) (hd_store (ob_handoff s2))"
      by (auto simp: serves_def intro: documents_kept_trans)
    from start_document_kept [OF d this] obtain d' where "start_document i r s2 = Inr d'" by blast
    moreover from keyed_completed [OF frame_execute k] rows obtain q where
      "row_at (key_for i ''mcp:research_start'' (si_idempotency_key r)) s2 = Some q"
      "ri_request_hash q = ?digest" "ri_status_code q \<noteq> IN_PROGRESS_STATUS" "ri_response q = response" by blast
    ultimately show ?thesis using keyed_replay [of i _ _ s2 q] auth Research_start by (auto simp: start_keyed)
  next
    case (Research_get rid)
    with call show ?thesis by simp
  next
    case (Research_retry r)
    with run show ?thesis by (auto simp: mcp_retry_def monad_simps mcp_require_Inr intro: again tool_frames)
  next
    case (Research_cancel r)
    with run show ?thesis by (auto simp: mcp_cancel_def monad_simps mcp_require_Inr intro: again tool_frames)
  next
    case (Research_handoff r)
    with run show ?thesis by (auto simp: mcp_handoff_def monad_simps mcp_require_Inr intro: again tool_frames)
  qed
qed

lemma serve_Ok: "mcp_serve E P correlation claims call s = (Tool_ok v, s') \<longleftrightarrow>
    (\<exists>i. current_identity claims = Inr i \<and> mcp_tool E P correlation i call s = (Inr v, s'))"
proof -
  have guard: "mcp_guard x = Tool_ok v \<longleftrightarrow> x = Inr v" for x
    by (cases x rule: mcp_guard.cases) simp_all
  show ?thesis by (auto simp: mcp_serve_def guard monad_simps split: prod.split)
qed

text \<open>
  C24. A completed request acts once. When a start, retry, cancel or handoff has been answered,
  the same request with the same token gets the same answer and changes nothing, whatever
  requests of whatever callers were served in between.
\<close>

theorem completed_tool_call_replays:
  assumes "mcp_serve E P correlation claims call s = (Tool_ok response, s1)" and "\<forall>rid. call \<noteq> Research_get rid"
  shows "mcp_serve E P correlation' claims call (mcp_history E P requests s1) =
    (Tool_ok response, mcp_history E P requests s1)"
proof -
  from assms(1) obtain i where i: "current_identity claims = Inr i" "mcp_tool E P correlation i call s = (Inr response, s1)"
    unfolding serve_Ok by blast
  have "mcp_tool E P correlation' i call (mcp_history E P requests s1) = (Inr response, mcp_history E P requests s1)"
    by (rule tool_replay [OF i(2) assms(2)]) (rule history_rows history_stored history_documents | assumption)+
  with i(1) show ?thesis unfolding serve_Ok by blast
qed

end
