(* ===== verification/McpContracts.thy ===== *)
theory McpContracts
  imports McpResearch
begin

text \<open>
  The limits of a research request over MCP and the identity it is served for.
\<close>

section \<open>Limits\<close>

text \<open>
  C31. The limits of a validated request stay within every bound that applies: between one and
  the limits of the mode, of the server and of the request itself, extractions within search
  results; and they are never the reason why the request for research is refused, neither by
  its own checks nor by the policy of the orchestrator the default policy is taken from.
\<close>

theorem mcp_limits_hold:
  assumes "start_input_validate r = Inr ()" and "mcp_policy_post_init P = Inr P"
    and "L = effective_limits P (si_mode r) (si_max_search_results r) (si_max_sources_to_extract r)"
    and "mode_limits (si_mode r) = (mode_search, mode_extract, result_kind)"
  shows "1 \<le> el_max_sources_to_extract L \<and> el_max_sources_to_extract L \<le> el_max_search_results L \<and>
    el_max_search_results L \<le> min mode_search (server_max_search_results P) \<and>
    el_max_sources_to_extract L \<le> min mode_extract (server_max_sources_to_extract P) \<and>
    (\<forall>n. si_max_search_results r = Some n \<longrightarrow> el_max_search_results L \<le> n) \<and>
    (\<forall>n. si_max_sources_to_extract r = Some n \<longrightarrow> el_max_sources_to_extract L \<le> n) \<and>
    el_result_kind L = result_kind \<and>
    mcp_contract r target L \<notin> {Inl (ValueError ''INVALID_SEARCH_LIMIT''), Inl (ValueError ''INVALID_EXTRACTION_LIMIT'')} \<and>
    (\<forall>c. default_mcp_policy E = Inr P \<and> mcp_contract r target L = Inr c \<longrightarrow>
      rq_max_search_results c \<le> rpol_max_search_results (oe_policy E) \<and>
      rq_max_sources_to_extract c \<le> rpol_max_extractions (oe_policy E))"
proof -
  have requested: "optional_in 1 20 (si_max_search_results r)" "optional_in 1 10 (si_max_sources_to_extract r)"
    using assms(1) by (simp_all add: start_input_validate_def monad_simps)
  have server: "1 \<le> server_max_search_results P" "server_max_search_results P \<le> 20"
      "1 \<le> server_max_sources_to_extract P" "server_max_sources_to_extract P \<le> 10"
    using assms(2) by (auto simp: mcp_policy_post_init_def monad_simps)
  have mode: "1 \<le> mode_search" "mode_search \<le> 20" "1 \<le> mode_extract" "mode_extract \<le> 10"
    using assms(4) by (cases "si_mode r"; simp)+
  define search where "search = int_or (si_max_search_results r) mode_search"
  define extractions where "extractions = int_or (si_max_sources_to_extract r) mode_extract"
  have asked: "1 \<le> search" "1 \<le> extractions"
      "\<And>n. si_max_search_results r = Some n \<Longrightarrow> search = n" "\<And>n. si_max_sources_to_extract r = Some n \<Longrightarrow> extractions = n"
    using requested mode by (auto simp: search_def extractions_def int_or_def optional_in_def split: option.splits)
  have L: "el_max_search_results L = min (min search mode_search) (server_max_search_results P)"
      "el_max_sources_to_extract L = min (min extractions mode_extract)
         (min (server_max_sources_to_extract P) (el_max_search_results L))" "el_result_kind L = result_kind"
    by (simp_all add: assms(3,4) effective_limits_def search_def extractions_def Let_def)
  have bounds: "1 \<le> el_max_search_results L" "el_max_search_results L \<le> 20" "1 \<le> el_max_sources_to_extract L"
      "el_max_sources_to_extract L \<le> min (el_max_search_results L) 10"
    using asked(1,2) server mode by (auto simp: L)
  have within: "el_max_search_results L \<le> min mode_search (server_max_search_results P)"
      "el_max_sources_to_extract L \<le> min mode_extract (server_max_sources_to_extract P)"
      "el_max_search_results L \<le> search" "el_max_sources_to_extract L \<le> extractions"
    unfolding L by linarith+
  have accepted: "mcp_contract r target L \<notin> {Inl (ValueError ''INVALID_SEARCH_LIMIT''), Inl (ValueError ''INVALID_EXTRACTION_LIMIT'')}"
    using bounds by (auto simp: mcp_contract_def research_request_post_init_def freshness_post_init_def Let_def monad_simps)
  have fields: "rq_max_search_results c = el_max_search_results L" "rq_max_sources_to_extract c = el_max_sources_to_extract L"
    if "mcp_contract r target L = Inr c" for c
    using that by (auto simp: mcp_contract_def Let_def monad_simps)
  have configured: "server_max_search_results P = rpol_max_search_results (oe_policy E)"
      "server_max_sources_to_extract P = rpol_max_extractions (oe_policy E)" if "default_mcp_policy E = Inr P"
    using that by (auto simp: default_mcp_policy_def mcp_policy_post_init_def monad_simps)
  show ?thesis
  proof (intro conjI allI impI)
    fix c assume "default_mcp_policy E = Inr P \<and> mcp_contract r target L = Inr c"
    with fields [of c] configured within(1,2)
    show "rq_max_search_results c \<le> rpol_max_search_results (oe_policy E)"
      and "rq_max_sources_to_extract c \<le> rpol_max_extractions (oe_policy E)" by simp_all
  next
    fix n assume "si_max_search_results r = Some n"
    with asked(3) within(3) show "el_max_search_results L \<le> n" by simp
  next
    fix n assume "si_max_sources_to_extract r = Some n"
    with asked(4) within(4) show "el_max_sources_to_extract L \<le> n" by simp
  qed (rule bounds(3) within(1,2) L(3) accepted | use bounds(4) in simp)+
qed

definition demo_start :: research_start_input where
  "demo_start = \<lparr>si_decision_file_id = Some ''case-1'', si_case_id = None, si_claim_refs = [''c1''], si_query = ''q'',
     si_locale = ''en'', si_preferred_languages = [''en''], si_mode = MODE_DEEP, si_maximum_age_days = 30,
     si_allowed_domains = [], si_blocked_domains = [], si_max_search_results = Some 8,
     si_max_sources_to_extract = None, si_idempotency_key = ''k''\<rparr>"

theorem mcp_limits_hold_witness:
  "el_max_sources_to_extract (effective_limits \<lparr>server_max_search_results = 5, server_max_sources_to_extract = 2\<rparr>
     MODE_DEEP (Some 8) None) \<in> {1..2}"
proof -
  have "start_input_validate demo_start = Inr ()"
    by (simp add: start_input_validate_def demo_start_def length_in_def optional_in_def ensure_def)
  moreover have "mcp_policy_post_init \<lparr>server_max_search_results = 5, server_max_sources_to_extract = 2\<rparr> =
      Inr \<lparr>server_max_search_results = 5, server_max_sources_to_extract = 2\<rparr>"
    by (simp add: mcp_policy_post_init_def ensure_def)
  moreover have "mode_limits (si_mode demo_start) = (20, 10, EVIDENCE_BUNDLE_WITH_CONFLICT_ANALYSIS)"
    by (simp add: demo_start_def)
  ultimately show ?thesis
    using mcp_limits_hold [OF _ _ refl, of demo_start "\<lparr>server_max_search_results = 5, server_max_sources_to_extract = 2\<rparr>"]
    by (simp add: demo_start_def)
qed

section \<open>Identity\<close>

lemma role_named_value: "role_named (role_value r) = Inr r"
  by (cases r) (simp_all add: role_named_def)

lemma actor_kind_value: "actor_kind_of (kind_value k) = Inr k"
  by (cases k) (simp_all add: actor_kind_of_def)

lemma bridged_identity:
  assumes "identity_post_init i0 = Inr i" and "tenant_id_ok (tenant i)"
  shows "current_identity (Some (token_claims i)) = Inr (i\<lparr>roles := [role i], client_id := None, scopes := []\<rparr>)"
proof -
  from assms(1) have "\<not> blank (actor_id i)" "\<not> (case organization_id i of None \<Rightarrow> False | Some g \<Rightarrow> blank g)"
      "\<not> list_ex blank (groups i)"
    by (auto simp: identity_post_init_def Let_def monad_simps)
  then show ?thesis using assms(2)
    by (simp add: current_identity_def token_claims_def TenantContext_def role_named_value actor_kind_value
        identity_post_init_def Let_def ensure_def)
qed

text \<open>
  C40. The identity a tool is served for has the tenant, the actor and the kind of the identity
  that was authenticated, and of its permissions exactly those of its primary role. So the
  way through the token never adds a permission; those of further roles are lost on it.
\<close>

theorem mcp_identity_never_gains:
  assumes "identity_post_init i0 = Inr i" and "tenant_id_ok (tenant i)" and "authenticate token = Inr i"
  shows "\<exists>claims j. verify_token authenticate token = Inr (Some claims) \<and> current_identity (Some claims) = Inr j \<and>
    tenant j = tenant i \<and> actor_id j = actor_id i \<and> kind j = kind i \<and>
    (\<forall>p. authorize j p = Inr () \<longleftrightarrow> role_permits (role i) p) \<and>
    (\<forall>p. authorize j p = Inr () \<longrightarrow> authorize i p = Inr ())"
proof (intro exI conjI)
  show "verify_token authenticate token = Inr (Some (token_claims i))" by (simp add: verify_token_def assms(3))
  show "current_identity (Some (token_claims i)) = Inr (i\<lparr>roles := [role i], client_id := None, scopes := []\<rparr>)"
    by (rule bridged_identity [OF assms(1,2)])
qed (use identity_post_init_Inr [OF assms(1)] in \<open>auto simp: authorize_Inr_iff\<close>)

definition two_roles :: identity where
  "two_roles = \<lparr>actor_id = ''ann'', tenant = ''acme'', role = APPROVER, kind = HUMAN, organization_id = None, groups = [],
     roles = [APPROVER, RESEARCH_OPERATOR], client_id = None, scopes = []\<rparr>"

text \<open>With the roles approver and research operator, research may be started over REST but not over MCP.\<close>

theorem mcp_identity_never_gains_witness:
  "authorize two_roles RESEARCH_CREATE = Inr () \<and>
   (\<exists>j. current_identity (Some (token_claims two_roles)) = Inr j \<and> authorize j RESEARCH_CREATE \<noteq> Inr ())"
proof -
  have "identity_post_init two_roles = Inr two_roles"
    unfolding two_roles_def identity_post_init_def by code_simp
  moreover have "tenant_id_ok (tenant two_roles)" unfolding two_roles_def by code_simp
  ultimately obtain claims j where j: "verify_token (\<lambda>_. Inr two_roles) ''t'' = Inr (Some claims)"
      "current_identity (Some claims) = Inr j" "authorize j RESEARCH_CREATE = Inr () \<longleftrightarrow> role_permits (role two_roles) RESEARCH_CREATE"
    using mcp_identity_never_gains [of two_roles two_roles "\<lambda>_. Inr two_roles" "''t''"] by blast
  then have "current_identity (Some (token_claims two_roles)) = Inr j" by (simp add: verify_token_def)
  moreover have "authorize j RESEARCH_CREATE \<noteq> Inr ()" using j(3) by (simp add: two_roles_def)
  moreover have "authorize two_roles RESEARCH_CREATE = Inr ()" by (simp add: authorize_Inr_iff two_roles_def)
  ultimately show ?thesis by blast
qed

end
