(* ===== verification/McpKeys.thy ===== *)
theory McpKeys
  imports McpProperties McpContracts
begin

text \<open>
  What becomes of an idempotency key: it is settled with the request that reserved it, except
  where a start is refused by the checks of the research request; and concrete requests for
  the theorems about histories.
\<close>

section \<open>Keys are settled\<close>

definition keys_settled :: "orch \<Rightarrow> orch \<Rightarrow> bool" where
  "keys_settled s s' = (\<forall>k q. row_at k s' = Some q \<longrightarrow> row_at k s = Some q \<or> ri_status_code q = 200)"

interpretation keys: framed keys_settled
  unfolding keys_settled_def by unfold_locales blast+

lemma keyed_settles:
  assumes "\<And>c. frame (leaves_be (tenant i)) (call c)" and "contract = Inr c"
  shows "frame keys_settled (keyed i operation key digest code contract respond call)"
proof (rule frameI)
  fix s r s' assume "keyed i operation key digest code contract respond call s = (r, s')"
  from assms(1) this show "keys_settled s s'"
  proof (cases rule: keyed_cases)
    case (stuck e)
    with assms(2) show ?thesis by simp
  next
    case (completed response s1 s2)
    show ?thesis unfolding completed(4) keys_settled_def
      by (auto simp: row_at_def split: option.splits if_splits)
  next
    case (released e s1 s2)
    show ?thesis unfolding released(5) keys_settled_def by (simp add: row_at_def)
  qed (simp_all add: keys.stays)
qed

lemma settles_read: "frame keys_settled (mcp_require i p)" "frame keys_settled (mcp_required i rid)"
  unfolding mcp_require_def mcp_required_def by (intro keys.bind keys.optional keys.basic)+

lemma mutate_settles:
  "frame (leaves_be (tenant i)) call \<Longrightarrow> frame keys_settled (mcp_mutate E i r tool call)"
  unfolding mutate_keyed by (intro keys.bind settles_read keyed_settles) simp_all

lemma tool_settles:
  assumes "\<forall>r. call = Research_start r \<longrightarrow> (\<exists>c. start_contract P r = Inr c)"
  shows "frame keys_settled (mcp_tool E P correlation i call)"
proof (cases call)
  case (Research_start r)
  with assms obtain c where c: "start_contract P r = Inr c" by blast
  have "frame keys_settled (mcp_start E P correlation i r)"
  proof (rule frameI)
    fix s x s' assume "mcp_start E P correlation i r s = (x, s')"
    then show "keys_settled s s'"
      by (auto simp: start_keyed keys.stays split: sum.splits elim!: frameD [OF keyed_settles [OF frame_execute c]])
  qed
  with Research_start show ?thesis by simp
next
  case (Research_get rid)
  then show ?thesis by (simp add: mcp_get_def) (intro keys.bind settles_read keys.basic)
next
  case (Research_retry r)
  then show ?thesis by (simp add: mcp_retry_def) (intro keys.bind settles_read mutate_settles tool_frames)
next
  case (Research_cancel r)
  then show ?thesis by (simp add: mcp_cancel_def) (intro keys.bind settles_read mutate_settles tool_frames)
next
  case (Research_handoff r)
  then show ?thesis by (simp add: mcp_handoff_def) (intro keys.bind settles_read mutate_settles tool_frames)
qed

text \<open>
  C25. No key is left behind. When a request ends, however it ends, every row of the
  idempotency table was there before or holds a response: no call leaves its key in progress,
  provided a start passes the checks of the research request.
\<close>

theorem no_key_left_pending:
  assumes "mcp_serve E P correlation claims call s = (answer, s')"
    and "\<forall>r. call = Research_start r \<longrightarrow> (\<exists>c. start_contract P r = Inr c)"
    and "row_at k s' = Some q"
  shows "row_at k s = Some q \<or> ri_status_code q = 200"
proof (cases "current_identity claims")
  case (Inl e)
  with assms(1,3) show ?thesis by (simp add: mcp_serve_def bind_action_def)
next
  case (Inr i)
  with assms(1) obtain x where "mcp_tool E P correlation i call s = (x, s')"
    by (auto simp: mcp_serve_def split: prod.splits)
  from frameD [OF tool_settles [OF assms(2)] this] assms(3) show ?thesis unfolding keys_settled_def by blast
qed

section \<open>A start that burns its key\<close>

text \<open>
  C26. A start that passes the checks of its input and of the decision but not those of the
  research request (a query of blanks, say) is answered with an internal error and keeps its
  key for good: after any history the same start is told that the request is in progress, and
  no start of the same caller with that key succeeds or changes anything.
\<close>

theorem refused_start_burns_key:
  assumes "start_input_validate r = Inr ()" and "current_identity claims = Inr i"
    and "authorize i RESEARCH_CREATE = Inr ()" and "start_document i r s = Inr d"
    and "row_at (key_for i ''mcp:research_start'' (si_idempotency_key r)) s = None"
    and "start_contract P r = Inl (ValueError m)"
    and "mcp_serve E P correlation claims (Research_start r) s = (answer, s1)"
  shows "answer = Tool_error ''INTERNAL_ERROR'' None \<and>
    mcp_serve E P correlation' claims (Research_start r) (mcp_history E P requests s1) =
      (Tool_error ''CONFLICT'' (Some ''IDEMPOTENCY_REQUEST_IN_PROGRESS''), mcp_history E P requests s1) \<and>
    (\<forall>r'. si_idempotency_key r' = si_idempotency_key r \<longrightarrow> (\<exists>code reason.
      mcp_serve E P correlation' claims (Research_start r') (mcp_history E P requests s1) =
        (Tool_error code reason, mcp_history E P requests s1)))"
proof -
  let ?k = "key_for i ''mcp:research_start'' (si_idempotency_key r)" and ?digest = "mcp_digest E (start_input_json r)"
  let ?row = "reserved_row i ''mcp:research_start'' (si_idempotency_key r) ?digest" and ?s = "mcp_history E P requests s1"
  have serve: "mcp_serve E P c claims (Research_start q) t =
      (case mcp_start E P c i q t of (x, t') \<Rightarrow> (mcp_guard x, t'))" for c q t
    by (simp add: mcp_serve_def assms(2))
  obtain x where x: "mcp_start E P correlation i r s = (x, s1)" "answer = mcp_guard x"
    using assms(7) serve by (auto split: prod.splits)
  from x(1) have "keyed i ''mcp:research_start'' (si_idempotency_key r) ?digest ''INVALID_REQUEST'' (start_contract P r)
      (\<lambda>run. mcp_success run (Some (si_mode r)) (Some (el_result_kind (effective_limits P (si_mode r)
        (si_max_search_results r) (si_max_sources_to_extract r)))))
      (\<lambda>contract. execute E (tenant i) (actor_id i) contract (payload_hash (esha E) (decision_json d)) correlation None) s
      = (x, s1)"
    by (simp add: start_keyed assms(3,4))
  with frame_execute have first: "x = Inl (ValueError m) \<and> row_at ?k s1 = Some ?row"
    by (cases rule: keyed_cases) (use assms(5,6) in \<open>auto simp: row_at_def key_for_def\<close>)
  then have row: "row_at ?k ?s = Some ?row" by (blast intro: history_rows)
  have taken: "keyed i ''mcp:research_start'' (si_idempotency_key r) digest code contract respond call ?s =
      (Inl (McpApplicationError ''CONFLICT'' (Some (if ?digest = digest then ''IDEMPOTENCY_REQUEST_IN_PROGRESS''
        else ''IDEMPOTENCY_KEY_REUSED''))), ?s)" for digest code contract respond and call :: "research_request \<Rightarrow> research_run orchestration"
    using row by (simp add: keyed_def bind_action_def mcp_begin_def reserve_research_idempotency_def row_at_def key_for_def
        ensure_def)
  have kept: "documents_kept (hd_store (ob_handoff s)) (hd_store (ob_handoff ?s))"
    using serve_serves [OF assms(7)] history_documents [of s1 E P requests]
    by (auto simp: serves_def intro: documents_kept_trans)
  obtain d' where "start_document i r ?s = Inr d'" using start_document_kept [OF assms(4) kept] by blast
  then have "mcp_serve E P correlation' claims (Research_start r) ?s =
      (Tool_error ''CONFLICT'' (Some ''IDEMPOTENCY_REQUEST_IN_PROGRESS''), ?s)"
    by (simp add: serve start_keyed assms(3) taken)
  moreover have "\<exists>code reason. mcp_serve E P correlation' claims (Research_start r') ?s = (Tool_error code reason, ?s)"
    if "si_idempotency_key r' = si_idempotency_key r" for r'
  proof -
    have guard: "\<exists>code reason. mcp_guard (Inl e) = Tool_error code reason" for e by (cases e) simp_all
    show ?thesis unfolding serve start_keyed that
      using guard by (simp add: assms(3) taken split: sum.split)
  qed
  ultimately show ?thesis using first x(2) by simp
qed

section \<open>Concrete requests\<close>

definition rob_claims :: access_claims where
  "rob_claims = \<lparr>ac_actor_id = ''rob'', ac_tenant_id = ''acme'', ac_role = ''RESEARCH_OPERATOR'', ac_kind = ''HUMAN'',
     ac_organization_id = None, ac_groups = []\<rparr>"

definition rob :: identity where
  "rob = \<lparr>actor_id = ''rob'', tenant = ''acme'', role = RESEARCH_OPERATOR, kind = HUMAN, organization_id = None, groups = [],
     roles = [RESEARCH_OPERATOR], client_id = None, scopes = []\<rparr>"

lemma rob_identity: "current_identity (Some rob_claims) = Inr rob"
  unfolding rob_claims_def rob_def by code_simp

lemma rob_fields [simp]: "tenant rob = ''acme''" "actor_id rob = ''rob''" "roles rob = [RESEARCH_OPERATOR]"
  by (simp_all add: rob_def)

definition server_limits :: mcp_policy where
  "server_limits = \<lparr>server_max_search_results = 5, server_max_sources_to_extract = 2\<rparr>"

definition cancel_request :: research_mutation_input where
  "cancel_request = \<lparr>mi_research_run_id = ''research-1'', mi_locale = ''en'', mi_idempotency_key = ''k''\<rparr>"

text \<open>A store with one run that has not been executed.\<close>

definition created_state :: orch where
  "created_state = research_start\<lparr>ob_repo := empty_research\<lparr>rp_runs := [demo_run], rp_budget := [(demo_key, 0)]\<rparr>\<rparr>"

lemma demo_cancels:
  assumes "ob_repo s = empty_research\<lparr>rp_runs := [demo_run], rp_budget := [(demo_key, 0)], rp_idempotency := rows\<rparr>"
  shows "\<exists>run s'. cancel_run research_demo ''acme'' ''rob'' ''research-1'' ''corr'' s = (Inr run, s')"
  using assms by (cases s) (simp add: cancel_run_def required_run_def research_get_def row_find_def run_key_of_def move_parts
    save_run_def save_parts change_run_def empty_research_def cong: weak_congs)

lemma demo_cancelled:
  "\<exists>response s1. mcp_serve research_demo server_limits ''corr'' (Some rob_claims) (Research_cancel cancel_request) created_state =
    (Tool_ok response, s1)"
proof -
  let ?op = "''mcp:research_cancel:research-1''" and ?dig = "mcp_digest research_demo (mutation_input_json cancel_request)"
  let ?call = "\<lambda>_::unit. cancel_run research_demo ''acme'' ''rob'' ''research-1'' ''corr''"
  let ?keyed = "keyed rob ?op ''k'' ?dig ''CONFLICT'' (Inr ()) (\<lambda>run. mcp_success run None None) ?call"
  obtain r s1 where k: "?keyed created_state = (r, s1)" by (cases "?keyed created_state")
  have fresh: "row_at (key_for rob ?op ''k'') created_state = None"
    by (simp add: row_at_def created_state_def research_start_def empty_research_def)
  obtain run s2 where call: "?call () (created_state\<lparr>ob_repo := (ob_repo created_state)\<lparr>rp_idempotency :=
      rp_idempotency (ob_repo created_state) @ [reserved_row rob ?op ''k'' ?dig]\<rparr>\<rparr>) = (Inr run, s2)"
    using demo_cancels [of "created_state\<lparr>ob_repo := (ob_repo created_state)\<lparr>rp_idempotency :=
      rp_idempotency (ob_repo created_state) @ [reserved_row rob ?op ''k'' ?dig]\<rparr>\<rparr>" "[reserved_row rob ?op ''k'' ?dig]"]
    by (auto simp: created_state_def research_start_def empty_research_def)
  have settle: "frame (leaves_be (tenant rob)) (?call ())" by (simp add: frame_cancel)
  from k fresh have "mcp_settle rob ?op ''k'' ?dig ''CONFLICT'' (\<lambda>run. mcp_success run None None) (?call ())
      (created_state\<lparr>ob_repo := (ob_repo created_state)\<lparr>rp_idempotency :=
        rp_idempotency (ob_repo created_state) @ [reserved_row rob ?op ''k'' ?dig]\<rparr>\<rparr>) = (r, s1)"
    by (simp add: keyed_def bind_action_def mcp_begin_def reserve_research_idempotency_def row_at_def key_for_def reserved_row_def)
  from fresh refl settle this have "\<exists>response. r = Inr response"
    by (cases rule: settle_cases) (use call in auto)
  then obtain response where r: "r = Inr response" by blast
  have "mcp_required rob ''research-1'' created_state = (Inr demo_run, created_state)"
    by (simp add: mcp_required_def bind_action_def research_get_def row_find_def run_key_of_def created_state_def research_start_def
        empty_research_def)
  then have "mcp_cancel research_demo ''corr'' rob cancel_request created_state = (Inr response, s1)"
    using k r by (simp add: mcp_cancel_def mcp_require_def authorize_def mutate_keyed bind_action_def cancel_request_def ensure_def)
  then show ?thesis unfolding serve_Ok using rob_identity by (intro exI conjI) simp_all
qed

text \<open>A cancellation that was answered is answered alike after two other requests, one without a token.\<close>

definition between :: "tool_request list" where
  "between = [(''c2'', None, Research_get ''research-1''), (''c3'', Some rob_claims, Research_cancel cancel_request)]"

theorem completed_tool_call_replays_witness:
  "\<exists>response s1. mcp_serve research_demo server_limits ''corr'' (Some rob_claims) (Research_cancel cancel_request) created_state =
      (Tool_ok response, s1) \<and>
    mcp_serve research_demo server_limits ''corr-2'' (Some rob_claims) (Research_cancel cancel_request)
      (mcp_history research_demo server_limits between s1) =
      (Tool_ok response, mcp_history research_demo server_limits between s1)"
  using demo_cancelled completed_tool_call_replays [where call = "Research_cancel cancel_request"] by (metis tool_call.distinct)

text \<open>A caller of another tenant names the run: it stays as it is.\<close>

theorem mcp_tools_keep_tenants_apart_witness:
  "research_get ''acme'' ''research-1'' (ob_repo (mcp_history research_demo server_limits
     [(''corr'', Some (rob_claims\<lparr>ac_tenant_id := ''other''\<rparr>), Research_cancel cancel_request)] created_state)) = Some demo_run"
  using mcp_tools_keep_tenants_apart [of "''acme''" "[(''corr'', Some (rob_claims\<lparr>ac_tenant_id := ''other''\<rparr>), Research_cancel cancel_request)]"
      _ _ _ created_state "''research-1''" "(''rob'', ''op'', ''k'')"]
  by (simp add: callers_def created_state_def research_start_def empty_research_def research_get_def row_find_def run_key_of_def)

text \<open>The key of an answered cancellation holds its response.\<close>

theorem no_key_left_pending_witness:
  "\<exists>response s1 q. mcp_serve research_demo server_limits ''corr'' (Some rob_claims) (Research_cancel cancel_request) created_state =
      (Tool_ok response, s1) \<and>
    row_at (key_for rob ''mcp:research_cancel:research-1'' ''k'') s1 = Some q \<and> ri_status_code q = 200"
proof -
  obtain response s1 where served: "mcp_serve research_demo server_limits ''corr'' (Some rob_claims)
      (Research_cancel cancel_request) created_state = (Tool_ok response, s1)" using demo_cancelled by blast
  then have "mcp_cancel research_demo ''corr'' rob cancel_request created_state = (Inr response, s1)"
    unfolding serve_Ok rob_identity by simp
  then obtain s0 where "keyed rob ''mcp:research_cancel:research-1'' ''k'' (mcp_digest research_demo (mutation_input_json cancel_request))
      ''CONFLICT'' (Inr ()) (\<lambda>run. mcp_success run None None)
      (\<lambda>_. cancel_run research_demo ''acme'' ''rob'' ''research-1'' ''corr'') s0 = (Inr response, s1)"
    by (auto simp: mcp_cancel_def mutate_keyed monad_simps cancel_request_def)
  from keyed_completed [OF _ this] obtain q where
    q: "row_at (key_for rob ''mcp:research_cancel:research-1'' ''k'') s1 = Some q" using frame_cancel by (metis rob_fields(1))
  have "row_at k created_state = None" for k by (simp add: row_at_def created_state_def research_start_def empty_research_def)
  with no_key_left_pending [OF served _ q] have "ri_status_code q = 200" by simp
  with served q show ?thesis by blast
qed

text \<open>A start whose query is a blank.\<close>

definition blank_start :: research_start_input where
  "blank_start = demo_start\<lparr>si_query := '' ''\<rparr>"

theorem refused_start_burns_key_witness:
  "\<exists>s1. mcp_serve research_demo server_limits ''corr'' (Some rob_claims) (Research_start blank_start) research_start =
      (Tool_error ''INTERNAL_ERROR'' None, s1) \<and>
    mcp_serve research_demo server_limits ''corr-2'' (Some rob_claims) (Research_start blank_start)
        (mcp_history research_demo server_limits between s1) =
      (Tool_error ''CONFLICT'' (Some ''IDEMPOTENCY_REQUEST_IN_PROGRESS''), mcp_history research_demo server_limits between s1)"
proof -
  have valid: "start_input_validate blank_start = Inr ()"
    by (simp add: start_input_validate_def blank_start_def demo_start_def length_in_def optional_in_def ensure_def)
  have allowed: "authorize rob RESEARCH_CREATE = Inr ()" by (simp add: authorize_Inr_iff)
  have found: "start_document rob blank_start research_start = Inr demo_doc1"
    by (simp add: start_document_def blank_start_def demo_start_def target_id_def repo_get_decision_def row_find_def
        research_start_def demo_store_def draft_doc_fields demo_document_def ensure_def)
  have fresh: "row_at (key_for rob ''mcp:research_start'' (si_idempotency_key blank_start)) research_start = None"
    by (simp add: row_at_def research_start_def empty_research_def)
  have refused: "start_contract server_limits blank_start = Inl (ValueError ''QUERY_REQUIRED'')"
    by (simp add: start_contract_def blank_start_def demo_start_def target_id_def mcp_contract_def freshness_post_init_def
        research_request_post_init_def effective_limits_def server_limits_def int_or_def ensure_def Let_def) code_simp
  obtain answer s1 where served: "mcp_serve research_demo server_limits ''corr'' (Some rob_claims) (Research_start blank_start)
      research_start = (answer, s1)" by fastforce
  from refused_start_burns_key [OF valid rob_identity allowed found fresh refused served] served show ?thesis by blast
qed

end
