(* ===== verification/Spec2Isabelle.thy ===== *)
theory Spec2Isabelle
  imports DecisionProperties JobProperties IntakeProperties LifecycleProperties ResearchProperties
    EgressProperties SessionProperties OidcProperties McpKeys
begin

text \<open>
  \<^bold>\<open>The program\<close>

  Decision Assurance (\<^verbatim>\<open>src/src/decision_assurance\<close>, Python) keeps
  Decision Files: documents that state a proposed action with its claims, evidence, constraints
  and approvals. A deterministic engine evaluates a document, a transition policy takes it from
  DRAFT to APPROVED or BLOCKED under separation of duties, and every step leaves a hash-linked
  audit event. Around this core a controlled intake compiles verified facts of a quote into a
  draft, web research gathers unverified evidence for a draft, a job queue runs research in the
  background, a lifecycle service deletes cases unless a legal hold stands, an egress guard
  decides which provider a tenant may reach, and REST routes, a browser session store, an OpenID
  Connect authenticator and MCP tools are the ways in. The components share two things: the
  decision store, which the routes, the research handoff and the MCP tools write, and the
  identity with its permission matrix, which every way in asks.

  File names below are relative to \<^verbatim>\<open>src/src/decision_assurance\<close>. The
  development consists of definitions translated from these files, lemmas about each component,
  and 40 properties C1 to C40, each after a text that states it. The properties stand in the
  theories whose name ends in Properties and in McpKeys and McpContracts.

  \<^bold>\<open>Vocabulary\<close>

  \<^item> Prelude: Python exceptions (type \<open>exn\<close>), computations that may raise
    (\<open>exn + 'a\<close>, \<open>bind_result\<close>), computations with state that may
    raise (\<open>action\<close>, \<open>bind_action\<close>; an exception keeps the state
    changes made before it), and the operations of \<^verbatim>\<open>str\<close>,
    \<^verbatim>\<open>list\<close> and \<^verbatim>\<open>dict\<close> the sources use. Json:
    JSON values and the canonical text of \<^verbatim>\<open>json.dumps\<close>, with the
    proof that it determines the value up to the order of members. Decimals:
    \<^verbatim>\<open>decimal.Decimal\<close>. Urls: \<^verbatim>\<open>urlsplit\<close> and
    \<^verbatim>\<open>ipaddress\<close>.
  \<^item> Tables: relational tables as lists of rows with a key, and the locale
    \<open>tenant_store\<close> (operations for one tenant leave the view of another alone).
    Lifecycles: the locale \<open>lifecycle\<close> of state machines given by a table.
    Triples: pre- and postconditions of computations with state. AuditLog contains the locale
    \<open>chained_log\<close> of hash-linked logs.

  \<^bold>\<open>Decisions\<close>

  \<^item> Engine: \<^verbatim>\<open>models.py\<close>,
    \<^verbatim>\<open>adapters.py\<close>, \<^verbatim>\<open>engine.py\<close>
    (\<open>validate_request\<close>, \<open>govern\<close>, \<open>assess\<close>,
    \<open>engine_evaluate\<close>). AuditLog: \<^verbatim>\<open>audit.py\<close>.
  \<^item> DecisionFile, DecisionSemantics, DecisionEvaluation:
    \<^verbatim>\<open>decision_file.py\<close>, \<^verbatim>\<open>validation.py\<close> and
    the JSON schema. The record \<open>decision_file\<close> is a document of the right shape,
    \<open>decision_file_schema\<close> the remaining conditions of the contract,
    \<open>semantic_errors\<close> and \<open>evaluate_decision_file\<close> the functions of
    the same name. \<open>document_found\<close> states over the document what the engine
    finds; the lemmas show that the evaluation computes it.
  \<^item> Transitions: \<^verbatim>\<open>transitions.py\<close>
    (\<open>rejection_reasons\<close>, \<open>transition\<close>). Identity, SecurityEvents:
    \<^verbatim>\<open>tenancy.py\<close>, \<^verbatim>\<open>identity.py\<close>,
    \<^verbatim>\<open>authorization.py\<close>,
    \<^verbatim>\<open>security_events.py\<close>,
    \<^verbatim>\<open>api/dependencies.py\<close>.
  \<^item> DecisionRepository: \<^verbatim>\<open>repositories/sqlite.py\<close> over the
    tables of \<^verbatim>\<open>migrations/001_api_v0_2.sql\<close> (record
    \<open>decision_db\<close>; one transaction per method). DecisionApi:
    \<^verbatim>\<open>api/routes/decisions.py\<close>, one action per route on the database
    and the security log (record \<open>api_state\<close>).
  \<^item> DecisionCases, DecisionService, ServiceProgress: \<open>case_step\<close> is one
    route applied to one document and \<open>api_step\<close> one request served by the whole
    service, with what they keep and when they succeed; ServiceReplay follows stored cases
    through histories and says when a permission guard answers; DecisionProperties has the
    properties, DemoCase the case their witnesses take from draft to approval.

  \<^bold>\<open>Intake\<close>

  \<^item> Intake: \<^verbatim>\<open>intake/contracts.py\<close>,
    \<^verbatim>\<open>lifecycle.py\<close>, \<^verbatim>\<open>audit.py\<close>.
    IntakeVerification: \<^verbatim>\<open>verification.py\<close>, the deterministic check of
    candidate facts (\<open>verify\<close>, \<open>reverify\<close>,
    \<open>compare_policy\<close>). IntakeConfirmation, IntakeCompilation:
    \<^verbatim>\<open>confirmation.py\<close> and \<^verbatim>\<open>compiler.py\<close>,
    from a human confirmation to a draft Decision File. IntakeProperties has the properties.

  \<^bold>\<open>Jobs\<close>

  \<^item> Jobs: \<^verbatim>\<open>production/contracts.py\<close> (policy and job),
    \<^verbatim>\<open>jobs/contracts.py\<close>, \<^verbatim>\<open>lifecycle.py\<close>,
    \<^verbatim>\<open>postgresql.py\<close>; record \<open>job_db\<close>, one transaction
    per method. JobQueue: \<open>job_step\<close> is one method, \<open>row_change\<close>
    what it may do to a row, with the invariant of the table; JobCalls:
    \<open>queue_call\<close> names the methods with their arguments and
    \<open>next_status\<close> the status each gives to a row. JobWorker:
    \<^verbatim>\<open>jobs/worker.py\<close>; a round follows a schedule, a finite list of
    heartbeats and of changes others make. JobProperties has the properties.

  \<^bold>\<open>Data lifecycle\<close>

  \<^item> DataLifecycle: \<^verbatim>\<open>lifecycle/contracts.py\<close>,
    \<^verbatim>\<open>repository.py\<close>, \<^verbatim>\<open>service.py\<close>; record
    \<open>life_db\<close>. LifecycleInvariants: \<open>life_atom\<close> is one atomic change
    of the store. LifecycleOperations: \<open>life_step\<close> is one call of the service, in
    which others may act between two of its writes. LifecycleProperties has the properties.

  \<^bold>\<open>Web research\<close>

  \<^item> Research, ResearchEvidence: \<^verbatim>\<open>web_research/contracts.py\<close>,
    \<^verbatim>\<open>lifecycle.py\<close>, \<^verbatim>\<open>audit.py\<close>,
    \<^verbatim>\<open>selection.py\<close>, \<^verbatim>\<open>evidence_policy.py\<close>,
    \<^verbatim>\<open>conflicts.py\<close>, \<^verbatim>\<open>compiler.py\<close>.
    ResearchRepository: \<^verbatim>\<open>repository.py\<close> and its tables (record
    \<open>research_repo\<close>). ResearchHandoff: the two adapters that attach evidence to a
    Decision File. CircuitBreaker: \<^verbatim>\<open>circuit_breaker.py\<close>.
  \<^item> ResearchOrchestrator, ResearchExecution: \<^verbatim>\<open>orchestrator.py\<close>
    and \<^verbatim>\<open>idempotency.py\<close>; record \<open>orch\<close> is the run in
    memory, the stores, the breaker and a counter of readings of the outside world.
    \<open>execute\<close>, \<open>retry_run\<close>, \<open>cancel_run\<close> and
    \<open>handoff_run\<close> are what callers use.
  \<^item> ResearchInvariants and ResearchSafety prove with triples what every operation
    keeps; ResearchFrames proves what they leave alone; ResearchDemo runs one concrete
    execution; ResearchProperties has the properties, over \<open>research_history\<close>,
    the stores that any sequence of operations can produce.

  \<^bold>\<open>Ways in\<close>

  \<^item> RuntimeConfig: \<^verbatim>\<open>production/config.py\<close> and the OIDC policy.
    Egress: \<^verbatim>\<open>production/egress.py\<close>, allow-list, residency and the
    recorded decision. EgressProperties has the properties.
  \<^item> Sessions: \<^verbatim>\<open>pilot_ui/session.py\<close>, pending logins and
    sessions as two instances of one bounded store. Oidc:
    \<^verbatim>\<open>oidc/jwks.py\<close>, \<^verbatim>\<open>authenticator.py\<close>,
    \<^verbatim>\<open>mfa.py\<close>. SessionProperties and OidcProperties have the
    properties.
  \<^item> McpResearch: \<^verbatim>\<open>mcp/contracts.py\<close>,
    \<^verbatim>\<open>policy.py\<close>, \<^verbatim>\<open>auth.py\<close>,
    \<^verbatim>\<open>service.py\<close>, \<^verbatim>\<open>server.py\<close>;
    \<open>mcp_serve\<close> is one request, \<open>mcp_history\<close> a sequence of them.
    McpProperties shows what no history of requests does, McpKeys what becomes of idempotency
    keys, McpContracts the limits and the identity a tool is served for.

  \<^bold>\<open>Interfaces\<close>

  Contracts that several components share are locales, and each is interpreted on the
  definitions of the model where these stand.

  \<^item> \<open>lifecycle\<close> (a table of moves and a function that checks one): the
    intake, the job queue and the research run.
  \<^item> \<open>chained_log\<close> (every entry carries the hash of the one before): the
    ledger, the trail of a Decision File and the log of a deletion request.
  \<^item> \<open>tenant_store\<close> (a step for one tenant keeps the view of the others):
    the repository and the whole service of the decision routes.
  \<^item> \<open>provider_circuit\<close> (a breaker that keeps tenants and providers apart):
    the in-memory breaker and the one that does nothing.
  \<^item> \<open>token_store\<close> (bounded stores of expiring entries): pending logins and
    sessions.
  \<^item> \<open>framed\<close> (a reflexive and transitive relation of states that basic
    actions keep): the orchestrator, the MCP tools and the settling of idempotency keys.

  \<^bold>\<open>What the properties say\<close>

  \<^item> The core: an APPROVED case has a PASS outcome and three different people behind it
    (\<open>approved_needs_three_people\<close>); the engine passes nothing with a finding
    (\<open>engine_fails_closed\<close>); the stored trail is complete and linked
    (\<open>stored_trail_complete\<close>); repeated requests act once and are answered the
    same, with one exception, tenants are apart, stored approvals are bound, and of two
    transitions from one version one is refused; evaluation always returns and its verdict is
    stated over the document.
  \<^item> Research and tools: attempts and cost stay within the budget, the log is faithful,
    COMPLETED means complete, the handoff only adds unverified evidence to drafts, both
    adapters agree, and no history of MCP requests decides anything, reaches another tenant or
    answers a completed request differently.
  \<^item> Queue, lifecycle, intake, egress, sessions, tokens: each call of the queue makes
    one move of the lifecycle table or none and the tenant limit holds, a worker that is left
    alone completes its job; a held case survives a deletion and an unobstructed deletion
    completes; an intake is ready exactly when every condition holds and names those that
    failed; an allowed call stays inside the boundary, and an accepted configuration admits
    all of its providers or none; logins end once, sessions are bounded; an identity is
    vouched for by a published key.

  \<^bold>\<open>Parameters\<close>

  Code outside the repository is an argument. SHA-256 and HMAC are functions of type string to
  string, collected with \<^verbatim>\<open>datetime.fromisoformat\<close> and the date-time
  check in the record \<open>runtime\<close>; theorems that need collision freedom assume
  injectivity on the texts they compare. Clocks, UUIDs, random tokens, the cancellation check,
  the search and extraction providers, the URL policy and the normalizer of contents are
  functions of the number of readings, so the theorems hold for every behaviour of the outside
  world. The JWT package and the HTTP client are a record of functions and a function. Nothing
  is assumed of any of them beyond what a theorem states.

  \<^bold>\<open>Integers, bounds and termination\<close>

  Python integers are \<open>int\<close>. Times are whole seconds where the database stores them
  so, rational seconds for monotonic clocks, microseconds in the egress guard. All recursion is
  structural or over a finite list (requests, sources, the schedule of a worker), so there is no
  fuel; the loops of the program that may run for ever (the worker's outer loop, servers) are
  not modelled, one round of them is. A concrete number in a theorem is a constant of the
  source.

  \<^bold>\<open>What is not modelled\<close>

  \<^item> A request is served from beginning to end before the next. Interleaving is modelled
    where it matters: two transitions from one version, what happens between the writes of a
    deletion, what others do to the queue during a round of a worker. Awaits of the
    orchestrator are not interleaved.
  \<^item> The histories of the decision routes contain decision routes only; the research
    handoff is an operation of its own on the same store.
  \<^item> A Python \<^verbatim>\<open>str\<close> is a list of code points below 256.
    Rounding of floating point is replaced by rational arithmetic.
  \<^item> SQL is modelled as the statements the repositories use on tables with their keys;
    of the pairs of SQLite and PostgreSQL repositories one is modelled. Isolation between
    transactions that run at the same time is not.
  \<^item> The intake extractor, the codecs, the other routes and the composition of the
    services, the providers, the export with its archives and signatures, observability,
    deployment evidence, the templates of the interface, the command line and the operational
    scripts are left out.
\<close>

end
